(* ===== verification/Prelude.thy ===== *)
theory Prelude
  imports Complex_Main "HOL-Library.AList" "HOL-Library.List_Lexorder" "HOL-Library.Char_ord"
    "HOL-Library.Product_Lexorder" "HOL-Library.Multiset"
begin

text \<open>
  Shared ground of the development: Python exceptions as values, the error and the
  world-passing result types with their composition, Python dictionaries as association
  lists in insertion order, decimal printing of integers (the \<open>f"{n}"\<close> of the source) and
  the generic facts about lists and strings the components use.

  Strings are character lists, compared by code point as Python does. Python's \<open>float\<close> is
  modelled by the exact rational numbers: rounding of IEEE arithmetic is not modelled.
\<close>

named_theorems io_rules \<open>rules of the program logic for world-passing computations\<close>

section \<open>Exceptions and results\<close>

datatype py_error =
    ValueError string
  | ValidationError string
  | RuntimeError string
  | KeyError string
  | IndexError
  | AttributeError string
  | StopIteration
  | AssertionError
  | NodeNotEnabledError string
  | InvalidNodeExecutionError string
  | RegistryConflictError
  | RegistryNotFoundError
  | ResumeAuthorizationError "string list"
  | DatabaseError string
  | OSError string
  | TimeoutExpired string
  | TypeError string

type_synonym 'a result = "py_error + 'a"

definition bindR :: "'a result \<Rightarrow> ('a \<Rightarrow> 'b result) \<Rightarrow> 'b result" where
  "bindR m f = (case m of Inl e \<Rightarrow> Inl e | Inr x \<Rightarrow> f x)"

text \<open>A computation that may change the outside world; an exception keeps what was changed
  before it was raised.\<close>

type_synonym ('w, 'a) io = "'w \<Rightarrow> 'a result \<times> 'w"

definition retI :: "'a \<Rightarrow> ('w, 'a) io" where
  "retI x = (\<lambda>w. (Inr x, w))"

definition failI :: "py_error \<Rightarrow> ('w, 'a) io" where
  "failI e = (\<lambda>w. (Inl e, w))"

definition liftI :: "'a result \<Rightarrow> ('w, 'a) io" where
  "liftI r = (\<lambda>w. (r, w))"

definition bindI :: "('w, 'a) io \<Rightarrow> ('a \<Rightarrow> ('w, 'b) io) \<Rightarrow> ('w, 'b) io" where
  "bindI m f = (\<lambda>w. case m w of (Inl e, w') \<Rightarrow> (Inl e, w') | (Inr x, w') \<Rightarrow> f x w')"

text \<open>\<open>try: m except Exception: h; raise\<close>. An exception of \<open>h\<close> replaces the first one.\<close>

definition reraiseI :: "('w, 'a) io \<Rightarrow> ('w, 'b) io \<Rightarrow> ('w, 'a) io" where
  "reraiseI m h = (\<lambda>w. case m w of
       (Inr x, w') \<Rightarrow> (Inr x, w')
     | (Inl e, w') \<Rightarrow> (case h w' of (Inl e', w'') \<Rightarrow> (Inl e', w'') | (Inr _, w'') \<Rightarrow> (Inl e, w'')))"

lemma bindR_simps [simp]:
  "bindR (Inl e) f = Inl e"
  "bindR (Inr x) f = f x"
  by (simp_all add: bindR_def)

lemma bindR_Inr_iff: "bindR m f = Inr y \<longleftrightarrow> (\<exists>x. m = Inr x \<and> f x = Inr y)"
  by (cases m) auto

lemma bindR_Inl_iff: "bindR m f = Inl e \<longleftrightarrow> m = Inl e \<or> (\<exists>x. m = Inr x \<and> f x = Inl e)"
  by (cases m) auto

lemma bindI_Inr: "m w = (Inr x, w') \<Longrightarrow> bindI m f w = f x w'"
  by (simp add: bindI_def)

lemma bindI_Inl: "m w = (Inl e, w') \<Longrightarrow> bindI m f w = (Inl e, w')"
  by (simp add: bindI_def)

lemma bindI_retI [simp]: "bindI (retI x) f = f x"
  by (simp add: bindI_def retI_def)

lemma bindI_liftI [simp]:
  "bindI (liftI (Inr x)) f = f x"
  "bindI (liftI (Inl e)) f = failI e"
  by (simp_all add: bindI_def liftI_def failI_def)

lemma retI_app [simp]: "retI x w = (Inr x, w)"
  by (simp add: retI_def)

lemma failI_app [simp]: "failI e w = (Inl e, w)"
  by (simp add: failI_def)

lemma liftI_app [simp]: "liftI r w = (r, w)"
  by (simp add: liftI_def)

lemma bindI_assoc: "bindI (bindI m f) g = bindI m (\<lambda>x. bindI (f x) g)"
  by (auto simp: bindI_def fun_eq_iff split: sum.splits prod.splits)

lemma bindI_result_Inr:
  assumes "bindI m f w = (Inr y, w'')"
  obtains x w' where "m w = (Inr x, w')" and "f x w' = (Inr y, w'')"
  using assms by (cases "m w") (auto simp: bindI_def split: sum.splits)

text \<open>A loop whose body reads or changes the world.\<close>

fun for_each :: "('a \<Rightarrow> ('w, 'b) io) \<Rightarrow> 'a list \<Rightarrow> ('w, 'b list) io" where
  "for_each f [] = retI []"
| "for_each f (x # xs) = bindI (f x) (\<lambda>y. bindI (for_each f xs) (\<lambda>ys. retI (y # ys)))"

lemma for_each_Inr:
  assumes "for_each f xs w = (Inr ys, w')"
  shows "list_all2 (\<lambda>x y. \<exists>v v'. f x v = (Inr y, v')) xs ys"
  using assms
proof (induction xs arbitrary: w w' ys)
  case (Cons x xs)
  from Cons.prems obtain y zs w1 w2 where "f x w = (Inr y, w1)" "for_each f xs w1 = (Inr zs, w2)" "ys = y # zs"
    by (auto elim!: bindI_result_Inr)
  then show ?case using Cons.IH by auto
qed simp

text \<open>Total-correctness triples: from a world in \<open>P\<close> the computation ends, normally in \<open>Q\<close> or with
  an exception in \<open>E\<close>.\<close>

definition triple :: "('w \<Rightarrow> bool) \<Rightarrow> ('w, 'a) io \<Rightarrow> ('a \<Rightarrow> 'w \<Rightarrow> bool) \<Rightarrow> (py_error \<Rightarrow> 'w \<Rightarrow> bool) \<Rightarrow> bool" where
  "triple P m Q E \<longleftrightarrow>
     (\<forall>w. P w \<longrightarrow> (case m w of (Inr x, w') \<Rightarrow> Q x w' | (Inl e, w') \<Rightarrow> E e w'))"

lemma triple_bindI [io_rules]:
  assumes "triple P m R E" and "\<And>x. triple (R x) (f x) Q E"
  shows "triple P (bindI m f) Q E"
  using assms unfolding triple_def bindI_def by (fastforce split: prod.splits sum.splits)

lemma triple_retI [io_rules]: "(\<And>w. P w \<Longrightarrow> Q x w) \<Longrightarrow> triple P (retI x) Q E"
  by (simp add: triple_def)

lemma triple_failI [io_rules]: "(\<And>w. P w \<Longrightarrow> E e w) \<Longrightarrow> triple P (failI e) Q E"
  by (simp add: triple_def)

lemma triple_liftI [io_rules]:
  "(\<And>x w. P w \<Longrightarrow> r = Inr x \<Longrightarrow> Q x w) \<Longrightarrow> (\<And>e w. P w \<Longrightarrow> r = Inl e \<Longrightarrow> E e w) \<Longrightarrow>
     triple P (liftI r) Q E"
  by (simp add: triple_def split: sum.splits)

lemma triple_reraiseI:
  assumes "triple P m Q F" and "\<And>e. triple (F e) h (\<lambda>_. E e) E"
  shows "triple P (reraiseI m h) Q E"
  using assms unfolding triple_def reraiseI_def by (fastforce split: prod.splits sum.splits)

lemma triple_conseq:
  assumes "triple P' m Q' E'" and "\<And>w. P w \<Longrightarrow> P' w" and "\<And>x w. Q' x w \<Longrightarrow> Q x w"
    and "\<And>e w. E' e w \<Longrightarrow> E e w"
  shows "triple P m Q E"
  using assms unfolding triple_def by (fastforce split: prod.splits sum.splits)

lemma triple_pre: "triple P' m Q E \<Longrightarrow> (\<And>w. P w \<Longrightarrow> P' w) \<Longrightarrow> triple P m Q E"
  by (simp add: triple_def)

lemma triple_Inr: "triple P m Q E \<Longrightarrow> P w \<Longrightarrow> m w = (Inr x, w') \<Longrightarrow> Q x w'"
  unfolding triple_def by fastforce

lemma triple_Inl: "triple P m Q E \<Longrightarrow> P w \<Longrightarrow> m w = (Inl e, w') \<Longrightarrow> E e w'"
  unfolding triple_def by fastforce

lemma tripleI:
  "(\<And>w x w'. P w \<Longrightarrow> m w = (Inr x, w') \<Longrightarrow> Q x w') \<Longrightarrow>
   (\<And>w e w'. P w \<Longrightarrow> m w = (Inl e, w') \<Longrightarrow> E e w') \<Longrightarrow> triple P m Q E"
  unfolding triple_def by (auto split: prod.splits sum.splits)

text \<open>An invariant \<open>I\<close> of the world that a computation keeps on every path, with a result in \<open>Q\<close>.\<close>

definition keeps :: "('w \<Rightarrow> bool) \<Rightarrow> ('w, 'a) io \<Rightarrow> ('a \<Rightarrow> bool) \<Rightarrow> bool" where
  "keeps I m Q \<longleftrightarrow> triple I m (\<lambda>x w. I w \<and> Q x) (\<lambda>_ w. I w)"

lemma keeps_bindI [io_rules]:
  assumes "keeps I m R" and "\<And>x. R x \<Longrightarrow> keeps I (f x) Q"
  shows "keeps I (bindI m f) Q"
  unfolding keeps_def
proof (rule triple_bindI)
  show "triple I m (\<lambda>x w. I w \<and> R x) (\<lambda>_ w. I w)" using assms(1) by (simp add: keeps_def)
  show "triple (\<lambda>w. I w \<and> R x) (f x) (\<lambda>x w. I w \<and> Q x) (\<lambda>_ w. I w)" for x
    using assms(2)[of x] by (cases "R x") (auto simp: keeps_def triple_def)
qed

lemma keeps_retI [io_rules]: "Q x \<Longrightarrow> keeps I (retI x) Q"
  by (simp add: keeps_def triple_retI)

lemma keeps_failI [io_rules]: "keeps I (failI e) Q"
  by (simp add: keeps_def triple_failI)

lemma keeps_liftI [io_rules]: "(\<And>x. r = Inr x \<Longrightarrow> Q x) \<Longrightarrow> keeps I (liftI r) Q"
  by (simp add: keeps_def triple_liftI)

lemma keeps_reraiseI [io_rules]: "keeps I m Q \<Longrightarrow> keeps I h (\<lambda>_. True) \<Longrightarrow> keeps I (reraiseI m h) Q"
  unfolding keeps_def by (rule triple_reraiseI[where F = "\<lambda>_. I"]) (auto simp: triple_def split: prod.splits sum.splits)

lemma keeps_weaken: "keeps I m Q \<Longrightarrow> (\<And>x. Q x \<Longrightarrow> R x) \<Longrightarrow> keeps I m R"
  unfolding keeps_def by (erule triple_conseq) auto

lemma keepsD: "keeps I m Q \<Longrightarrow> I w \<Longrightarrow> I (snd (m w))"
  and keeps_Inr: "keeps I m Q \<Longrightarrow> I w \<Longrightarrow> fst (m w) = Inr x \<Longrightarrow> Q x"
  unfolding keeps_def triple_def by (cases "m w"; fastforce split: sum.splits)+

lemma keepsI: "(\<And>w. I w \<Longrightarrow> I (snd (m w))) \<Longrightarrow> (\<And>w x. I w \<Longrightarrow> fst (m w) = Inr x \<Longrightarrow> Q x) \<Longrightarrow> keeps I m Q"
  unfolding keeps_def by (rule tripleI) (metis fst_conv snd_conv)+

lemma keeps_world: "(\<And>w. keeps I (g w) Q) \<Longrightarrow> keeps I (\<lambda>w. g w w) Q"
  by (simp add: keeps_def triple_def)

text \<open>A Python \<open>for\<close> loop over a list whose body may raise.\<close>

fun mapR :: "('a \<Rightarrow> 'b result) \<Rightarrow> 'a list \<Rightarrow> 'b list result" where
  "mapR f [] = Inr []"
| "mapR f (x # xs) = bindR (f x) (\<lambda>y. bindR (mapR f xs) (\<lambda>ys. Inr (y # ys)))"

fun foldR :: "('s \<Rightarrow> 'a \<Rightarrow> 's result) \<Rightarrow> 's \<Rightarrow> 'a list \<Rightarrow> 's result" where
  "foldR f s [] = Inr s"
| "foldR f s (x # xs) = bindR (f s x) (\<lambda>s'. foldR f s' xs)"

lemma mapR_total: "(\<And>x. x \<in> set xs \<Longrightarrow> f x = Inr (g x)) \<Longrightarrow> mapR f xs = Inr (map g xs)"
  by (induction xs) auto

lemma mapR_Inr_length: "mapR f xs = Inr ys \<Longrightarrow> length ys = length xs"
  by (induction xs arbitrary: ys) (auto simp: bindR_Inr_iff)

lemma foldR_append: "foldR f s (xs @ ys) = bindR (foldR f s xs) (\<lambda>s'. foldR f s' ys)"
proof (induction xs arbitrary: s)
  case (Cons x xs)
  then show ?case by (cases "f s x") auto
qed simp

text \<open>Rule for invariants of a raising loop: kept by each successful step, kept by the loop.\<close>

lemma foldR_invariant:
  assumes "foldR f s xs = Inr s'" and "I s"
    and "\<And>s x t. I s \<Longrightarrow> x \<in> set xs \<Longrightarrow> f s x = Inr t \<Longrightarrow> I t"
  shows "I s'"
  using assms
proof (induction xs arbitrary: s)
  case (Cons x xs)
  from Cons.prems(1) obtain t where "f s x = Inr t" and "foldR f t xs = Inr s'"
    by (auto simp: bindR_Inr_iff)
  with Cons show ?case by (metis list.set_intros(1) list.set_intros(2))
qed simp

section \<open>Dictionaries\<close>

text \<open>A Python dictionary in insertion order; assignment to an existing key keeps its place
  (\<^const>\<open>AList.update\<close>).\<close>

type_synonym 'v dict = "(string \<times> 'v) list"

abbreviation keys :: "('k \<times> 'v) list \<Rightarrow> 'k list" where
  "keys d \<equiv> map fst d"

definition dict_get :: "('k \<times> 'v) list \<Rightarrow> 'k \<Rightarrow> 'v \<Rightarrow> 'v" where
  "dict_get d k v = (case map_of d k of None \<Rightarrow> v | Some x \<Rightarrow> x)"

definition index :: "('k \<times> 'v) list \<Rightarrow> 'k \<Rightarrow> py_error \<Rightarrow> 'v result" where
  "index d k e = (case map_of d k of None \<Rightarrow> Inl e | Some x \<Rightarrow> Inr x)"

lemma map_of_update [simp]: "map_of (AList.update k v d) = (map_of d)(k \<mapsto> v)"
  by (rule update_conv')

lemma map_of_delete [simp]: "map_of (AList.delete k d) = (map_of d)(k := None)"
  by (rule AList.delete_conv')

lemma keys_mem_iff: "k \<in> set (keys d) \<longleftrightarrow> map_of d k \<noteq> None"
  by (metis map_of_eq_None_iff list.set_map)

section \<open>Decimal printing\<close>

definition digit :: "nat \<Rightarrow> char" where
  "digit n = ''0123456789'' ! n"

definition digit_val :: "char \<Rightarrow> nat" where
  "digit_val c = (if of_char c < (48::nat) then 0 else of_char c - 48)"

definition is_digit :: "char \<Rightarrow> bool" where
  "is_digit c \<longleftrightarrow> c \<in> set ''0123456789''"

fun str_nat :: "nat \<Rightarrow> string" where
  "str_nat n = (if n < 10 then [digit n] else str_nat (n div 10) @ [digit (n mod 10)])"

declare str_nat.simps [simp del]

definition str_int :: "int \<Rightarrow> string" where
  "str_int i = (if i < 0 then ''-'' @ str_nat (nat (- i)) else str_nat (nat i))"

definition val_str :: "string \<Rightarrow> nat" where
  "val_str s = foldl (\<lambda>a c. 10 * a + digit_val c) 0 s"

lemma less_10_cases: "(n::nat) < 10 \<Longrightarrow> n \<in> {0, 1, 2, 3, 4, 5, 6, 7, 8, 9}"
  by auto

lemma digit_val_digit: "n < 10 \<Longrightarrow> digit_val (digit n) = n"
  by (drule less_10_cases) (auto simp: digit_def digit_val_def)

lemma is_digit_digit: "n < 10 \<Longrightarrow> is_digit (digit n)"
  by (drule less_10_cases) (auto simp: digit_def is_digit_def)

lemma val_str_snoc: "val_str (s @ [c]) = 10 * val_str s + digit_val c"
  by (simp add: val_str_def)

lemma val_str_nat [simp]: "val_str (str_nat n) = n"
proof (induction n rule: str_nat.induct)
  case (1 n)
  show ?case
  proof (cases "n < 10")
    case True
    then show ?thesis
      by (subst str_nat.simps) (simp add: val_str_def digit_val_digit)
  next
    case False
    with 1 show ?thesis
      by (subst str_nat.simps) (simp add: val_str_snoc digit_val_digit)
  qed
qed

lemma str_nat_inject [simp]: "str_nat m = str_nat n \<longleftrightarrow> m = n"
  by (metis val_str_nat)

lemma str_nat_digits: "c \<in> set (str_nat n) \<Longrightarrow> is_digit c"
proof (induction n rule: str_nat.induct)
  case (1 n)
  then show ?case
    by (subst (asm) str_nat.simps) (auto simp: is_digit_digit split: if_splits)
qed

lemma str_nat_nonempty [simp]: "str_nat n \<noteq> []"
  by (subst str_nat.simps) simp

lemma str_int_pos: "0 \<le> i \<Longrightarrow> str_int i = str_nat (nat i)"
  by (simp add: str_int_def)

section \<open>Splitting strings\<close>

text \<open>A prefix without the separator is determined by the whole string.\<close>

lemma sep_prefix_unique:
  assumes "a @ c # xs = b @ c # ys" and "c \<notin> set a" and "c \<notin> set b"
  shows "a = b \<and> xs = ys"
  using assms
proof (induction a arbitrary: b)
  case Nil
  then show ?case by (cases b) auto
next
  case (Cons x a)
  then show ?case by (cases b) auto
qed

lemma digits_prefix_unique:
  assumes "str_nat m @ xs = str_nat n @ ys"
    and "xs = [] \<or> \<not> is_digit (hd xs)" and "ys = [] \<or> \<not> is_digit (hd ys)"
  shows "m = n \<and> xs = ys"
proof -
  have tw: "takeWhile is_digit (str_nat k @ zs) = str_nat k"
    if "zs = [] \<or> \<not> is_digit (hd zs)" for k zs
    using that by (cases zs) (auto simp: takeWhile_append2 str_nat_digits)
  from assms have "str_nat m = str_nat n"
    by (metis tw)
  with assms(1) show ?thesis by simp
qed

definition strip_prefix :: "string \<Rightarrow> string \<Rightarrow> string option" where
  "strip_prefix p s = (if take (length p) s = p then Some (drop (length p) s) else None)"

lemma strip_prefix_append [simp]: "strip_prefix p (p @ s) = Some s"
  by (simp add: strip_prefix_def)

lemma strip_prefix_Some: "strip_prefix p s = Some r \<longleftrightarrow> s = p @ r"
  by (auto simp: strip_prefix_def) (metis append_take_drop_id)

definition startswith :: "string \<Rightarrow> string \<Rightarrow> bool" where
  "startswith s p \<longleftrightarrow> take (length p) s = p"

text \<open>\<open>s.split(c)[0]\<close>: everything before the first separator, or all of it.\<close>

definition split_head :: "char \<Rightarrow> string \<Rightarrow> string" where
  "split_head c s = takeWhile (\<lambda>x. x \<noteq> c) s"

text \<open>\<open>s.lstrip(c)\<close>.\<close>

definition lstrip :: "char \<Rightarrow> string \<Rightarrow> string" where
  "lstrip c s = dropWhile (\<lambda>x. x = c) s"

text \<open>\<open>not s.strip()\<close>: nothing but white space (the ASCII white space of Python's
  \<open>str.strip\<close>).\<close>

definition is_space :: "char \<Rightarrow> bool" where
  "is_space c \<longleftrightarrow> of_char c \<in> {9, 10, 11, 12, 13, 28, 29, 30, 31, 32 :: nat}"

definition blank :: "string \<Rightarrow> bool" where
  "blank s \<longleftrightarrow> list_all is_space s"

section \<open>Sorting and selection\<close>

text \<open>\<open>sorted(set(xs))\<close> and \<open>sorted(xs, key=f, reverse=True)\<close>; Python's sort is stable, also
  when reversed.\<close>

definition sorted_set :: "'a::linorder list \<Rightarrow> 'a list" where
  "sorted_set xs = sort (remdups xs)"

lemma sort_distinct_eq: "distinct xs \<Longrightarrow> set xs = A \<Longrightarrow> sort xs = sorted_list_of_set A"
  using sorted_list_of_set_sort_remdups[of xs] by (auto simp: distinct_remdups_id)

definition sort_desc :: "('a \<Rightarrow> 'b::linorder) \<Rightarrow> 'a list \<Rightarrow> 'a list" where
  "sort_desc f xs = rev (sort_key f (rev xs))"

lemma set_sort_desc [simp]: "set (sort_desc f xs) = set xs"
  by (simp add: sort_desc_def)

lemma mset_sort_desc [simp]: "mset (sort_desc f xs) = mset xs"
  by (simp add: sort_desc_def)

lemma length_sort_desc [simp]: "length (sort_desc f xs) = length xs"
  by (simp add: sort_desc_def)

lemma sort_desc_hd: "x \<in> set xs \<Longrightarrow> f x \<le> f (hd (sort_desc f xs))"
proof -
  assume x: "x \<in> set xs"
  let ?s = "sort_key f (rev xs)"
  from x have ne: "?s \<noteq> []" by (metis empty_iff list.set(1) set_rev set_sort)
  have "sorted (map f ?s)" by simp
  moreover have "x \<in> set ?s" using x by simp
  ultimately have "f x \<le> f (last ?s)"
  proof (induction ?s rule: rev_induct)
    case Nil
    then show ?case by simp
  next
    case (snoc y ys)
    from snoc.hyps(2)[symmetric] snoc.prems show ?case
      by (auto simp: sorted_append)
  qed
  with ne show ?thesis by (simp add: sort_desc_def hd_rev)
qed

text \<open>\<open>min(xs, key=f)\<close>: the first element of least key. \<open>max\<close> is alike, with the order
  reversed. Both raise on an empty list.\<close>

fun min_by :: "('a \<Rightarrow> 'b::linorder) \<Rightarrow> 'a list \<Rightarrow> 'a option" where
  "min_by f [] = None"
| "min_by f (x # xs) =
     (case min_by f xs of None \<Rightarrow> Some x | Some y \<Rightarrow> if f x \<le> f y then Some x else Some y)"

fun max_by :: "('a \<Rightarrow> 'b::linorder) \<Rightarrow> 'a list \<Rightarrow> 'a option" where
  "max_by f [] = None"
| "max_by f (x # xs) =
     (case max_by f xs of None \<Rightarrow> Some x | Some y \<Rightarrow> if f y \<le> f x then Some x else Some y)"

lemma min_by_None [simp]: "min_by f xs = None \<longleftrightarrow> xs = []"
  by (cases xs) (auto split: option.splits)

lemma max_by_None [simp]: "max_by f xs = None \<longleftrightarrow> xs = []"
  by (cases xs) (auto split: option.splits)

lemma min_by_Some:
  "min_by f xs = Some y \<Longrightarrow> y \<in> set xs \<and> (\<forall>x \<in> set xs. f y \<le> f x)"
  by (induction xs arbitrary: y) (fastforce split: option.splits if_splits)+

lemma max_by_Some:
  "max_by f xs = Some y \<Longrightarrow> y \<in> set xs \<and> (\<forall>x \<in> set xs. f x \<le> f y)"
  by (induction xs arbitrary: y) (fastforce split: option.splits if_splits)+

lemma max_by_Some_strict:
  assumes "max_by f xs = Some y" and "x \<in> set xs" and "inj_on f (set xs)" and "f y \<le> f x"
  shows "x = y"
  using assms max_by_Some[OF assms(1)] by (metis inj_on_def order_antisym)

section \<open>Loops with a bounded number of retries\<close>

text \<open>A process whose steps go forward along finitely many positions, except for retries, each of which
  needs a counter below a limit and raises it.\<close>

fun is_run :: "('c \<Rightarrow> 'c \<Rightarrow> bool) \<Rightarrow> 'c list \<Rightarrow> bool" where
  "is_run step (c # d # cs) \<longleftrightarrow> step c d \<and> is_run step (d # cs)"
| "is_run step _ \<longleftrightarrow> True"

fun retries :: "('c \<Rightarrow> 'c \<Rightarrow> bool) \<Rightarrow> 'c list \<Rightarrow> nat" where
  "retries retry (c # d # cs) = (if retry c d then 1 else 0) + retries retry (d # cs)"
| "retries retry _ = 0"

locale bounded_retries =
  fixes step :: "'c \<Rightarrow> 'c \<Rightarrow> bool" and retry :: "'c \<Rightarrow> 'c \<Rightarrow> bool"
    and pos :: "'c \<Rightarrow> nat" and last_pos :: nat and counter :: "'c \<Rightarrow> int" and limit :: int
  assumes pos_le: "pos c \<le> last_pos"
    and forward: "step c c' \<Longrightarrow> \<not> retry c c' \<Longrightarrow> pos c < pos c' \<and> counter c \<le> counter c'"
    and retried: "step c c' \<Longrightarrow> retry c c' \<Longrightarrow> counter c < limit \<and> counter c < counter c'"
begin

lemma terminates: "wf {(c', c). step c c'}"
proof (rule wf_subset)
  let ?r = "inv_image (less_than <*lex*> less_than) (\<lambda>c. (nat (limit - counter c), last_pos - pos c))"
  show "wf ?r" by (intro wf_inv_image wf_lex_prod wf_less_than)
  show "{(c', c). step c c'} \<subseteq> ?r"
  proof clarify
    fix c' c assume s: "step c c'"
    show "(c', c) \<in> ?r"
    proof (cases "retry c c'")
      case True
      with retried[OF s] show ?thesis by auto
    next
      case False
      with forward[OF s] pos_le[of c'] show ?thesis by auto
    qed
  qed
qed

lemma retries_bounded: "is_run step (c # cs) \<Longrightarrow> int (retries retry (c # cs)) \<le> max 0 (limit - counter c)"
proof (induction cs arbitrary: c)
  case (Cons d cs)
  then have s: "step c d" and IH: "int (retries retry (d # cs)) \<le> max 0 (limit - counter d)" by simp_all
  with forward[OF s] retried[OF s] show ?case by (cases "retry c d") auto
qed simp

lemma run_bounded: "is_run step (c # cs) \<Longrightarrow> length (c # cs) + pos c \<le> Suc (retries retry (c # cs)) * Suc last_pos"
proof (induction cs arbitrary: c)
  case (Cons d cs)
  then have s: "step c d" and IH: "length (d # cs) + pos d \<le> Suc (retries retry (d # cs)) * Suc last_pos" by simp_all
  with forward[OF s] pos_le[of c] show ?case by (cases "retry c d") auto
qed (simp add: pos_le)

end

end
