(* ===== verification/Contracts.thy ===== *)
theory Contracts
  imports Prelude
begin

text \<open>
  The data contracts of \<open>contracts/\<close> that the modelled components exchange: references,
  interrupts, commands, platform records, the sealed artifacts of the ranking (S01) and the
  policy-decision (S06) stages and what these stages read. A Pydantic model is a record, a
  \<open>Literal\<close> or \<open>StrEnum\<close> a datatype, a declared constraint or \<open>model_validator\<close> a
  bool-valued predicate \<open>valid_...\<close>; \<open>mk_...\<close> builds a value the way the class constructor
  does, raising when the predicate fails. A record keeps the fields the modelled code reads.
\<close>

section \<open>Times and patterns\<close>

datatype datetime = Aware int | Naive int

fun instant :: "datetime \<Rightarrow> int" where
  "instant (Aware t) = t"
| "instant (Naive t) = t"

fun tz_aware :: "datetime \<Rightarrow> bool" where
  "tz_aware (Aware _) = True"
| "tz_aware (Naive _) = False"

definition hex_digit :: "char \<Rightarrow> bool" where
  "hex_digit c \<longleftrightarrow> c \<in> set ''0123456789abcdef''"

text \<open>The pattern \<^verbatim>\<open>^sha256:[0-9a-f]{64}$\<close>.\<close>

definition valid_digest :: "string \<Rightarrow> bool" where
  "valid_digest s \<longleftrightarrow>
     (case strip_prefix ''sha256:'' s of None \<Rightarrow> False
      | Some h \<Rightarrow> length h = 64 \<and> list_all hex_digit h)"

text \<open>The pattern \<^verbatim>\<open>^[1-9][0-9]*\.[0-9]+$\<close>.\<close>

definition valid_schema_version :: "string \<Rightarrow> bool" where
  "valid_schema_version s \<longleftrightarrow>
     (let major = split_head CHR ''.'' s; rest = drop (length major) s in
      major \<noteq> [] \<and> hd major \<noteq> CHR ''0'' \<and> list_all is_digit major \<and>
      1 < length rest \<and> list_all is_digit (tl rest))"

definition len_in :: "nat \<Rightarrow> nat \<Rightarrow> string \<Rightarrow> bool" where
  "len_in lo hi s \<longleftrightarrow> lo \<le> length s \<and> length s \<le> hi"

section \<open>References, events and interrupts\<close>

record artifact_ref =
  ref_type :: string
  ref_schema :: string
  ref_id :: string
  ref_digest :: string
  ref_uri :: string

definition valid_ref :: "artifact_ref \<Rightarrow> bool" where
  "valid_ref r \<longleftrightarrow> len_in 1 100 (ref_type r) \<and> valid_schema_version (ref_schema r) \<and>
     len_in 1 100 (ref_id r) \<and> valid_digest (ref_digest r) \<and> len_in 1 2048 (ref_uri r)"

definition mk_ref :: "string \<Rightarrow> string \<Rightarrow> string \<Rightarrow> string \<Rightarrow> string \<Rightarrow> artifact_ref result" where
  "mk_ref ty sch i d u =
     (let r = \<lparr>ref_type = ty, ref_schema = sch, ref_id = i, ref_digest = d, ref_uri = u\<rparr> in
      if valid_ref r then Inr r else Inl (ValidationError ''ArtifactRef''))"

record event_ref =
  ev_id :: string
  ev_type :: string
  ev_node :: string
  ev_at :: datetime
  ev_ref :: artifact_ref

record interrupt_envelope =
  int_id :: string
  int_case :: string
  int_thread :: string
  int_stage :: string
  int_digest :: string
  int_allowed :: "string list"
  int_role :: string
  int_policy :: string
  int_issued :: datetime
  int_expires :: datetime

definition valid_interrupt :: "interrupt_envelope \<Rightarrow> bool" where
  "valid_interrupt i \<longleftrightarrow> int_id i \<noteq> [] \<and> int_case i \<noteq> [] \<and> len_in 1 255 (int_thread i) \<and>
     int_stage i \<noteq> [] \<and> valid_digest (int_digest i) \<and> int_allowed i \<noteq> [] \<and> int_role i \<noteq> [] \<and>
     int_policy i \<noteq> [] \<and> tz_aware (int_issued i) \<and> tz_aware (int_expires i) \<and>
     instant (int_issued i) < instant (int_expires i)"

section \<open>Commands and actors\<close>

datatype start_command_type = CREATE_MANUAL_CASE | START_DISCOVERY_SCAN | START_QUALIFIED_CASE

record start_command =
  sc_id :: string
  sc_type :: start_command_type
  sc_tenant :: string
  sc_case :: string
  sc_thread :: string
  sc_actor :: string
  sc_key :: string
  sc_payload :: artifact_ref
  sc_issued :: datetime
  sc_expires :: datetime

definition valid_start_command :: "start_command \<Rightarrow> bool" where
  "valid_start_command c \<longleftrightarrow> len_in 1 100 (sc_id c) \<and> len_in 1 100 (sc_tenant c) \<and>
     len_in 1 100 (sc_case c) \<and> len_in 1 255 (sc_thread c) \<and> len_in 1 255 (sc_actor c) \<and>
     len_in 1 255 (sc_key c) \<and> valid_ref (sc_payload c) \<and>
     tz_aware (sc_issued c) \<and> tz_aware (sc_expires c) \<and>
     instant (sc_issued c) < instant (sc_expires c)"

fun entrypoint :: "start_command_type \<Rightarrow> string" where
  "entrypoint CREATE_MANUAL_CASE = ''manual''"
| "entrypoint START_DISCOVERY_SCAN = ''discovery''"
| "entrypoint START_QUALIFIED_CASE = ''qualified''"

record resume_command =
  rc_id :: string
  rc_tenant :: string
  rc_case :: string
  rc_thread :: string
  rc_interrupt :: string
  rc_actor :: string
  rc_roles :: "string list"
  rc_decision :: string
  rc_digest :: string
  rc_policy :: string
  rc_issued :: datetime

record actor_context =
  act_id :: string
  act_tenant :: string
  act_roles :: "string list"
  act_authenticated :: datetime

section \<open>Platform records\<close>

datatype intent_status = PENDING | COMPLETED | UNKNOWN | FAILED

record intent_record =
  in_tenant :: string
  in_key :: string
  in_node :: string
  in_case :: string
  in_status :: intent_status
  in_input :: string
  in_output :: "artifact_ref option"
  in_updated :: datetime

record telemetry_event =
  te_case :: string
  te_thread :: string
  te_node :: string
  te_attempt :: nat
  te_result :: string

record outbox_record =
  ob_event :: string
  ob_tenant :: string
  ob_case :: string
  ob_topic :: string
  ob_payload :: string
  ob_digest :: string
  ob_available :: int
  ob_delivered :: "int option"
  ob_attempts :: nat
  ob_error :: "string option"

record policy_decision =
  pd_allowed :: bool
  pd_decision :: string
  pd_version :: string
  pd_reasons :: "string list"

section \<open>The optimization request and the solution portfolio\<close>

datatype criterion_direction = Minimize | Maximize | Target

datatype guard_operator = Lt | Lte | Eq | Gte | Gt

record criterion =
  cr_id :: string
  cr_metric :: string
  cr_direction :: criterion_direction
  cr_target :: rat
  cr_weight :: rat
  cr_aggregation :: string
  cr_unit :: string
  cr_operator :: guard_operator

definition valid_criterion :: "criterion \<Rightarrow> bool" where
  "valid_criterion c \<longleftrightarrow> cr_id c \<noteq> [] \<and> cr_metric c \<noteq> [] \<and> 0 < cr_weight c \<and> cr_unit c \<noteq> []"

record guardrail =
  gr_id :: string
  gr_metric :: string
  gr_operator :: guard_operator
  gr_threshold :: rat
  gr_unit :: string

record workload_contract =
  wl_id :: string
  wl_dataset :: "string option"
  wl_environment :: string
  wl_commands :: "string dict option"
  wl_repetitions :: int
  wl_warmup :: int
  wl_concurrency :: int
  wl_cache :: string

definition valid_workload :: "workload_contract \<Rightarrow> bool" where
  "valid_workload l \<longleftrightarrow> wl_id l \<noteq> [] \<and> wl_environment l \<noteq> [] \<and> 1 \<le> wl_repetitions l \<and> 0 \<le> wl_warmup l \<and>
     1 \<le> wl_concurrency l \<and> wl_cache l \<noteq> []"

record evidence_requirement =
  er_id :: string
  er_criterion :: string
  er_sources :: "string list"
  er_samples :: int
  er_metric :: "string option"
  er_unit :: "string option"
  er_aggregation :: string

record compose_evaluation =
  ce_id :: string
  ce_service :: string
  ce_argv :: "string list"
  ce_directory :: "string option"
  ce_timeout :: int
  ce_repetitions :: int
  ce_warmup :: int
  ce_metrics :: "string list"

definition plain_id :: "string \<Rightarrow> bool" where
  "plain_id s \<longleftrightarrow> len_in 1 255 s \<and> list_all (\<lambda>c. c \<in> set ''ABCDEFGHIJKLMNOPQRSTUVWXYZabcdefghijklmnopqrstuvwxyz0123456789_.-'') s"

definition valid_evaluation :: "compose_evaluation \<Rightarrow> bool" where
  "valid_evaluation x \<longleftrightarrow> plain_id (ce_id x) \<and> plain_id (ce_service x) \<and> ce_argv x \<noteq> [] \<and> length (ce_argv x) \<le> 128 \<and>
     list_all (\<lambda>a. a \<noteq> [] \<and> char_of (0 :: nat) \<notin> set a) (ce_argv x) \<and> pred_option (len_in 1 2048) (ce_directory x) \<and>
     0 < ce_timeout x \<and> ce_timeout x \<le> 86400 \<and> 1 \<le> ce_repetitions x \<and> ce_repetitions x \<le> 100 \<and> 0 \<le> ce_warmup x \<and> ce_warmup x \<le> 50 \<and>
     ce_metrics x \<noteq> []"

datatype origin = Manual | Automatic

record compose_execution =
  cf_file :: string
  cf_services :: "string list"
  cf_evaluations :: "compose_evaluation list"
  cf_startup :: int
  cf_cleanup :: int

definition valid_compose :: "compose_execution \<Rightarrow> bool" where
  "valid_compose x \<longleftrightarrow> len_in 1 2048 (cf_file x) \<and> length (cf_services x) \<le> 64 \<and> cf_evaluations x \<noteq> [] \<and> length (cf_evaluations x) \<le> 64 \<and>
     list_all valid_evaluation (cf_evaluations x) \<and> 0 < cf_startup x \<and> cf_startup x \<le> 3600 \<and> 0 < cf_cleanup x \<and> cf_cleanup x \<le> 600 \<and>
     distinct (map ce_id (cf_evaluations x)) \<and> distinct (cf_services x)"

record source_reference =
  sf_repository :: string
  sf_root :: string
  sf_path :: string
  sf_revision :: "string option"

record feature_scope =
  fe_feature :: string
  fe_include :: "string list"
  fe_exclude :: "string list"
  fe_confidence :: rat
  fe_rationale :: string
  fe_support :: "string list"

definition valid_feature_scope :: "feature_scope \<Rightarrow> bool" where
  "valid_feature_scope x \<longleftrightarrow> fe_feature x \<noteq> [] \<and> 0 \<le> fe_confidence x \<and> fe_confidence x \<le> 1 \<and> len_in 1 2000 (fe_rationale x)"

text \<open>An objective is its statement and its feature.\<close>

type_synonym objective = "string \<times> string"

definition valid_objective :: "objective \<Rightarrow> bool" where
  "valid_objective x \<longleftrightarrow> len_in 1 4000 (fst x) \<and> snd x \<noteq> []"

record execution_budget =
  bu_deadline :: int
  bu_worker :: int
  bu_tokens :: int
  bu_storage :: int
  bu_analyzers :: "string list"
  bu_concurrency :: int

definition valid_budget :: "execution_budget \<Rightarrow> bool" where
  "valid_budget b \<longleftrightarrow> 0 < bu_deadline b \<and> 0 \<le> bu_worker b \<and> 0 \<le> bu_tokens b \<and> 0 \<le> bu_storage b \<and> 1 \<le> bu_concurrency b \<and> bu_concurrency b \<le> 256"

record approval_binding =
  ab_id :: string
  ab_actor :: string
  ab_role :: string
  ab_digest :: string
  ab_policy :: string

definition valid_binding :: "approval_binding \<Rightarrow> bool" where
  "valid_binding b \<longleftrightarrow> ab_id b \<noteq> [] \<and> ab_actor b \<noteq> [] \<and> ab_role b \<noteq> [] \<and> valid_digest (ab_digest b) \<and> ab_policy b \<noteq> []"

record optimization_request =
  req_origin :: origin
  req_source :: source_reference
  req_scope :: "feature_scope option"
  req_objective :: objective
  req_criteria :: "criterion list"
  req_guardrails :: "guardrail list"
  req_workload :: workload_contract
  req_execution :: "compose_execution option"
  req_requirements :: "evidence_requirement list"
  req_budget :: execution_budget
  req_approval :: approval_binding
  req_fingerprint :: string

abbreviation req_deadline :: "optimization_request \<Rightarrow> int" where
  "req_deadline r \<equiv> bu_deadline (req_budget r)"

abbreviation req_tokens :: "optimization_request \<Rightarrow> int" where
  "req_tokens r \<equiv> bu_tokens (req_budget r)"

definition req_evaluations :: "optimization_request \<Rightarrow> string list" where
  "req_evaluations r = (case req_execution r of None \<Rightarrow> [] | Some x \<Rightarrow> map ce_id (cf_evaluations x))"

definition valid_requirement :: "evidence_requirement \<Rightarrow> bool" where
  "valid_requirement e \<longleftrightarrow> er_id e \<noteq> [] \<and> er_sources e \<noteq> [] \<and> 1 \<le> er_samples e"

definition valid_guardrail :: "guardrail \<Rightarrow> bool" where
  "valid_guardrail g \<longleftrightarrow> gr_id g \<noteq> [] \<and> gr_metric g \<noteq> [] \<and> gr_unit g \<noteq> []"

definition valid_source_reference :: "source_reference \<Rightarrow> bool" where
  "valid_source_reference x \<longleftrightarrow> sf_repository x \<noteq> [] \<and> sf_root x \<noteq> [] \<and> sf_path x \<noteq> []"

definition valid_request :: "optimization_request \<Rightarrow> bool" where
  "valid_request r \<longleftrightarrow> valid_source_reference (req_source r) \<and> pred_option valid_feature_scope (req_scope r) \<and> valid_objective (req_objective r) \<and>
     req_criteria r \<noteq> [] \<and> list_all valid_criterion (req_criteria r) \<and> list_all valid_guardrail (req_guardrails r) \<and>
     valid_workload (req_workload r) \<and> pred_option valid_compose (req_execution r) \<and>
     req_requirements r \<noteq> [] \<and> list_all valid_requirement (req_requirements r) \<and>
     valid_budget (req_budget r) \<and> valid_binding (req_approval r) \<and> valid_digest (req_fingerprint r)"

lemmas valid_contract_defs = valid_source_reference_def valid_objective_def valid_criterion_def valid_workload_def valid_requirement_def
  valid_budget_def valid_binding_def len_in_def


section \<open>The intake\<close>

record criterion_input =
  cn_metric :: string
  cn_direction :: criterion_direction
  cn_target :: rat
  cn_unit :: string
  cn_weight :: rat

definition valid_criterion_input :: "criterion_input \<Rightarrow> bool" where
  "valid_criterion_input c \<longleftrightarrow> len_in 1 255 (cn_metric c) \<and> 0 \<le> cn_target c \<and> len_in 1 100 (cn_unit c) \<and> 0 < cn_weight c"

definition command_kinds :: "string list" where
  "command_kinds = [''build'', ''lint'', ''type'', ''unit'']"

definition valid_commands :: "string dict \<Rightarrow> bool" where
  "valid_commands d \<longleftrightarrow> set (keys d) \<subseteq> set command_kinds"

record manual_payload =
  mp_path :: string
  mp_root :: string
  mp_text :: "string option"
  mp_feature :: "string option"
  mp_metric :: "string option"
  mp_direction :: "criterion_direction option"
  mp_target :: "rat option"
  mp_unit :: "string option"
  mp_criteria :: "criterion_input list"
  mp_workload :: "string option"
  mp_environment :: "string option"
  mp_commands :: "string dict option"
  mp_compose :: bool               \<comment> \<open>\<open>execution_profile\<close> is \<open>docker_compose\<close>, otherwise \<open>legacy_discovery\<close>\<close>
  mp_compose_file :: "string option"
  mp_services :: "string list"
  mp_evaluations :: "compose_evaluation list"
  mp_actor :: string
  mp_role :: string
  mp_policy :: string
  mp_guardrail :: "string option"
  mp_dataset :: "string option"
  mp_hypothesis :: "string option"
  mp_repetitions :: "int option"
  mp_warmup :: "int option"
  mp_concurrency :: "int option"
  mp_cache :: "string option"
  mp_deadline :: "int option"
  mp_worker :: "int option"
  mp_tokens :: "int option"
  mp_storage :: "int option"
  mp_analyzers :: "string list option"

text \<open>The constraints of the fields, and then the three of \<open>require_business_intent\<close>.\<close>

definition business_intent :: "manual_payload \<Rightarrow> bool" where
  "business_intent p \<longleftrightarrow>
     (mp_text p \<noteq> None \<or> mp_criteria p \<noteq> [] \<or> mp_feature p \<noteq> None \<or> mp_metric p \<noteq> None \<or> mp_direction p \<noteq> None \<or> mp_target p \<noteq> None \<or>
      mp_unit p \<noteq> None \<or> mp_workload p \<noteq> None \<or> mp_environment p \<noteq> None \<or> mp_commands p \<noteq> None) \<and>
     distinct (map cn_metric (mp_criteria p)) \<and>
     (mp_compose p \<longrightarrow> mp_compose_file p \<noteq> None \<and> mp_evaluations p \<noteq> []) \<and>
     (\<not> mp_compose p \<longrightarrow> mp_compose_file p = None \<and> mp_evaluations p = [] \<and> mp_services p = [])"

definition valid_payload :: "manual_payload \<Rightarrow> bool" where
  "valid_payload p \<longleftrightarrow> len_in 1 2048 (mp_path p) \<and> len_in 1 2048 (mp_root p) \<and> pred_option (len_in 1 12000) (mp_text p) \<and>
     pred_option (len_in 1 255) (mp_feature p) \<and> pred_option (len_in 1 255) (mp_metric p) \<and> pred_option (\<lambda>t. 0 \<le> t) (mp_target p) \<and>
     pred_option (len_in 1 100) (mp_unit p) \<and> length (mp_criteria p) \<le> 32 \<and> list_all valid_criterion_input (mp_criteria p) \<and>
     pred_option (len_in 1 255) (mp_workload p) \<and> pred_option (len_in 1 255) (mp_environment p) \<and> pred_option valid_commands (mp_commands p) \<and>
     pred_option (len_in 1 2048) (mp_compose_file p) \<and> length (mp_services p) \<le> 64 \<and> length (mp_evaluations p) \<le> 64 \<and>
     list_all valid_evaluation (mp_evaluations p) \<and> len_in 1 255 (mp_actor p) \<and> len_in 1 100 (mp_role p) \<and> len_in 1 100 (mp_policy p) \<and>
     pred_option (len_in 0 255) (mp_guardrail p) \<and> pred_option (len_in 0 255) (mp_dataset p) \<and> pred_option (len_in 0 2000) (mp_hypothesis p) \<and>
     pred_option (\<lambda>n. 1 \<le> n \<and> n \<le> 100) (mp_repetitions p) \<and> pred_option (\<lambda>n. 0 \<le> n \<and> n \<le> 50) (mp_warmup p) \<and>
     pred_option (\<lambda>n. 1 \<le> n \<and> n \<le> 256) (mp_concurrency p) \<and> pred_option (\<lambda>c. c \<in> {''cold'', ''warm'', ''mixed''}) (mp_cache p) \<and>
     pred_option (\<lambda>n. 0 < n) (mp_deadline p) \<and> pred_option (\<lambda>n. 0 \<le> n) (mp_worker p) \<and> pred_option (\<lambda>n. 0 \<le> n) (mp_tokens p) \<and>
     pred_option (\<lambda>n. 0 \<le> n) (mp_storage p) \<and> business_intent p"

record intake_envelope =
  ik_mode :: string
  ik_actor :: string
  ik_role :: string
  ik_path :: string
  ik_root :: string
  ik_payload :: string

definition valid_intake :: "intake_envelope \<Rightarrow> bool" where
  "valid_intake x \<longleftrightarrow> ik_mode x \<in> {''raw'', ''structured'', ''mixed''} \<and> len_in 1 255 (ik_actor x) \<and> len_in 1 100 (ik_role x) \<and>
     len_in 1 2048 (ik_path x) \<and> len_in 1 2048 (ik_root x) \<and> valid_digest (ik_payload x)"

record request_draft =
  rq_statement :: "string option"
  rq_feature :: "string option"
  rq_metric :: "string option"
  rq_direction :: "criterion_direction option"
  rq_target :: "rat option"
  rq_unit :: "string option"
  rq_criteria :: "criterion_input list"
  rq_guardrail :: "string option"
  rq_workload :: "string option"
  rq_dataset :: "string option"
  rq_environment :: "string option"
  rq_commands :: "string dict option"
  rq_confidence :: rat
  rq_unresolved :: "string list"
  rq_hypothesis :: "string option"
  rq_provenance :: "string dict"
  rq_conflicts :: "string list"

definition valid_draft :: "request_draft \<Rightarrow> bool" where
  "valid_draft d \<longleftrightarrow> pred_option (len_in 0 4000) (rq_statement d) \<and> pred_option (len_in 0 255) (rq_feature d) \<and>
     pred_option (len_in 0 255) (rq_metric d) \<and> pred_option (len_in 0 100) (rq_unit d) \<and> length (rq_criteria d) \<le> 32 \<and>
     list_all valid_criterion_input (rq_criteria d) \<and> pred_option (len_in 0 255) (rq_guardrail d) \<and> pred_option (len_in 0 255) (rq_workload d) \<and>
     pred_option (len_in 0 255) (rq_dataset d) \<and> pred_option (len_in 0 255) (rq_environment d) \<and> pred_option valid_commands (rq_commands d) \<and>
     0 \<le> rq_confidence d \<and> rq_confidence d \<le> 1 \<and> pred_option (len_in 0 2000) (rq_hypothesis d)"

record source_identity =
  ls_repository :: string
  ls_root :: string
  ls_canonical :: string
  ls_relative :: string
  ls_revision :: "string option"
  ls_dirty :: bool
  ls_untracked :: int

definition valid_identity :: "source_identity \<Rightarrow> bool" where
  "valid_identity x \<longleftrightarrow> ls_repository x \<noteq> [] \<and> ls_root x \<noteq> [] \<and> ls_canonical x \<noteq> [] \<and> ls_relative x \<noteq> [] \<and> 0 \<le> ls_untracked x"

record project_profile =
  pf_languages :: "rat dict"
  pf_manifests :: "string list"
  pf_tests :: "string list"
  pf_sources :: "string list"
  pf_vendor :: "string list"
  pf_files :: int
  pf_bytes :: int
  pf_truncated :: bool
  pf_unreadable :: "string list"

definition valid_profile :: "project_profile \<Rightarrow> bool" where
  "valid_profile x \<longleftrightarrow> 0 \<le> pf_files x \<and> 0 \<le> pf_bytes x"

record canonical_objective =
  cb_objective :: "objective option"
  cb_hypothesis :: "string option"
  cb_missing :: "string list"

definition valid_canonical :: "canonical_objective \<Rightarrow> bool" where
  "valid_canonical x \<longleftrightarrow> pred_option valid_objective (cb_objective x) \<and> pred_option (len_in 0 2000) (cb_hypothesis x)"

record workload_identity =
  wi_workload :: "workload_contract option"
  wi_execution :: "compose_execution option"
  wi_missing :: "string list"

definition valid_workload_identity :: "workload_identity \<Rightarrow> bool" where
  "valid_workload_identity x \<longleftrightarrow> pred_option valid_workload (wi_workload x) \<and> pred_option valid_compose (wi_execution x)"

record a1_quality =
  ql_passed :: bool
  ql_missing :: "string list"
  ql_conflicts :: "string list"
  ql_invalid :: "string list"
  ql_warnings :: "string list"
  ql_owners :: "string dict"
  ql_policy :: string

definition valid_a1_quality :: "a1_quality \<Rightarrow> bool" where
  "valid_a1_quality q \<longleftrightarrow> ql_policy q \<noteq> []"

record a1_approval =
  aa_approved :: bool
  aa_binding :: "approval_binding option"
  aa_route :: string
  aa_reasons :: "string list"
  aa_policy :: string

definition valid_a1_approval :: "a1_approval \<Rightarrow> bool" where
  "valid_a1_approval x \<longleftrightarrow> pred_option valid_binding (aa_binding x) \<and> aa_route x \<in> {''continue'', ''approval'', ''rejected''} \<and> aa_policy x \<noteq> []"

section \<open>Strategies\<close>

datatype impact_direction = Improves | Worsens | Neutral | UnknownImpact

record criterion_impact =
  ci_criterion :: string
  ci_direction :: impact_direction
  ci_confidence :: rat

datatype effort = LowEffort | MediumEffort | HighEffort

datatype reversibility = InstantRev | FastRev | SlowRev | Irreversible

datatype risk_tier = ExperimentConfig | Prompt | Code | Architecture

datatype phase_kind = Diagnostic | Implementation

record phase_template =
  tp_id :: string
  tp_sequence :: int
  tp_kind :: phase_kind
  tp_variable :: string
  tp_risk_factors :: "string list"

datatype scope_kind = FileScope | SymbolScope | ConfigKeyScope | PromptScope | DependencyScope

record scope_entry =
  se_path :: string
  se_kind :: scope_kind
  se_exists :: bool
  se_proposed :: bool

record scope_resolution =
  sx_entries :: "scope_entry list"
  sx_resolved :: bool

record risk_assessment =
  ra_tier :: risk_tier
  ra_reversibility :: reversibility
  ra_uncertainty :: rat
  ra_migration :: bool
  ra_security :: bool
  ra_factors :: "string list"

record tradeoff_analysis =
  ta_pros :: "string list"
  ta_cons :: "string list"
  ta_prerequisites :: "string list"
  ta_effort :: effort
  ta_uncertainty :: rat
  ta_evidence :: "string list"

text \<open>An expected movement of a metric. The code formats the target and the unit into a sentence; a plan of the generator
  has a text of its own.\<close>

datatype movement = Decrease rat string | Increase rat string | MoveTo rat string | Remain guard_operator rat string | MovementText string

record validation_plan =
  vp_commands :: "string list"
  vp_protocol :: string
  vp_movements :: "movement dict"
  vp_stop :: "string list"

record rollback_plan =
  rp_mechanism :: string
  rp_verification :: string
  rp_reversible :: bool

record solution_strategy =
  st_id :: string
  st_findings :: "string list"
  st_title :: string
  st_mechanism :: string
  st_tradeoffs :: string
  st_templates :: "phase_template list"
  st_risk_ceiling :: risk_tier
  st_risk :: risk_assessment
  st_impacts :: "criterion_impact list"
  st_tradeoff :: tradeoff_analysis
  st_validation :: validation_plan
  st_rollback :: rollback_plan
  st_scope :: scope_resolution
  st_evidence :: "string list"
  st_eligible :: bool
  st_gate_reasons :: "string list"

abbreviation st_reversibility :: "solution_strategy \<Rightarrow> reversibility" where
  "st_reversibility s \<equiv> ra_reversibility (st_risk s)"

abbreviation st_uncertainty :: "solution_strategy \<Rightarrow> rat" where
  "st_uncertainty s \<equiv> ra_uncertainty (st_risk s)"

abbreviation st_effort :: "solution_strategy \<Rightarrow> effort" where
  "st_effort s \<equiv> ta_effort (st_tradeoff s)"

abbreviation st_rollback_reversible :: "solution_strategy \<Rightarrow> bool" where
  "st_rollback_reversible s \<equiv> rp_reversible (st_rollback s)"

abbreviation st_scope_entries :: "solution_strategy \<Rightarrow> scope_entry list" where
  "st_scope_entries s \<equiv> sx_entries (st_scope s)"

abbreviation st_fully_resolved :: "solution_strategy \<Rightarrow> bool" where
  "st_fully_resolved s \<equiv> sx_resolved (st_scope s)"

abbreviation st_test_commands :: "solution_strategy \<Rightarrow> string list" where
  "st_test_commands s \<equiv> vp_commands (st_validation s)"

definition valid_impact :: "criterion_impact \<Rightarrow> bool" where
  "valid_impact i \<longleftrightarrow> ci_criterion i \<noteq> [] \<and> 0 \<le> ci_confidence i \<and> ci_confidence i \<le> 1"

definition valid_impacts :: "criterion_impact list \<Rightarrow> bool" where
  "valid_impacts is \<longleftrightarrow> is \<noteq> [] \<and> list_all valid_impact is"

definition valid_template :: "phase_template \<Rightarrow> bool" where
  "valid_template t \<longleftrightarrow> tp_id t \<noteq> [] \<and> 1 \<le> tp_sequence t \<and> tp_variable t \<noteq> []"

definition valid_scope :: "scope_resolution \<Rightarrow> bool" where
  "valid_scope x \<longleftrightarrow> sx_entries x \<noteq> [] \<and> list_all (\<lambda>e. se_path e \<noteq> []) (sx_entries x) \<and>
     sx_resolved x = list_all (\<lambda>e. se_exists e \<or> se_proposed e) (sx_entries x)"

definition valid_risk :: "risk_assessment \<Rightarrow> bool" where
  "valid_risk r \<longleftrightarrow> 0 \<le> ra_uncertainty r \<and> ra_uncertainty r \<le> 1"

definition valid_tradeoff :: "tradeoff_analysis \<Rightarrow> bool" where
  "valid_tradeoff t \<longleftrightarrow> ta_pros t \<noteq> [] \<and> ta_cons t \<noteq> [] \<and> 0 \<le> ta_uncertainty t \<and> ta_uncertainty t \<le> 1"

definition valid_validation :: "validation_plan \<Rightarrow> bool" where
  "valid_validation v \<longleftrightarrow> vp_protocol v \<noteq> [] \<and> vp_stop v \<noteq> []"

definition valid_rollback_plan :: "rollback_plan \<Rightarrow> bool" where
  "valid_rollback_plan r \<longleftrightarrow> len_in 1 2000 (rp_mechanism r) \<and> rp_verification r \<noteq> []"

definition valid_strategy :: "solution_strategy \<Rightarrow> bool" where
  "valid_strategy s \<longleftrightarrow> st_id s \<noteq> [] \<and> st_findings s \<noteq> [] \<and> len_in 1 200 (st_title s) \<and> len_in 1 4000 (st_mechanism s) \<and>
     len_in 1 2000 (st_tradeoffs s) \<and> st_templates s \<noteq> [] \<and> list_all valid_template (st_templates s) \<and>
     valid_risk (st_risk s) \<and> valid_impacts (st_impacts s) \<and> valid_tradeoff (st_tradeoff s) \<and> valid_validation (st_validation s) \<and>
     valid_rollback_plan (st_rollback s) \<and> valid_scope (st_scope s) \<and> st_evidence s \<noteq> [] \<and>
     (\<not> st_eligible s \<longrightarrow> st_gate_reasons s \<noteq> [])"

type_synonym portfolio = "solution_strategy list"

definition valid_portfolio :: "portfolio \<Rightarrow> bool" where
  "valid_portfolio p \<longleftrightarrow> list_all valid_strategy p \<and> list_ex st_eligible p"

section \<open>Ranking and selection\<close>

record strategy_score =
  sc_strategy :: string
  sc_risk_tier :: risk_tier
  sc_criterion_scores :: "rat dict"
  sc_effort :: rat
  sc_reversibility :: rat
  sc_risk_penalty :: rat
  sc_total :: rat

definition valid_score :: "strategy_score \<Rightarrow> bool" where
  "valid_score s \<longleftrightarrow> sc_strategy s \<noteq> [] \<and> 0 \<le> sc_effort s \<and> sc_effort s \<le> 1 \<and>
     0 \<le> sc_reversibility s \<and> sc_reversibility s \<le> 1 \<and>
     0 \<le> sc_risk_penalty s \<and> sc_risk_penalty s \<le> 1"

datatype approval_state = AutoSelected | Approved | Rejected | Pending

record selection_approval =
  sa_decision :: approval_state
  sa_actor :: "string option"
  sa_role :: "string option"
  sa_policy :: string

record ranking_result =
  rr_portfolio :: string
  rr_scores :: "strategy_score list"
  rr_ranked :: "string list"
  rr_flags :: "string list"

definition valid_ranking :: "ranking_result \<Rightarrow> bool" where
  "valid_ranking r \<longleftrightarrow> valid_digest (rr_portfolio r) \<and> rr_scores r \<noteq> [] \<and>
     list_all valid_score (rr_scores r) \<and> rr_ranked r \<noteq> []"

record selected_solution =
  sel_ranking :: string
  sel_portfolio :: string
  sel_strategy :: string
  sel_approval :: selection_approval
  sel_excluded :: "string list"

definition valid_selected :: "selected_solution \<Rightarrow> bool" where
  "valid_selected s \<longleftrightarrow> valid_digest (sel_ranking s) \<and> valid_digest (sel_portfolio s) \<and>
     sel_strategy s \<noteq> [] \<and> sa_policy (sel_approval s) \<noteq> []"

section \<open>Plans\<close>

record plan_treatment =
  pt_variable :: string
  pt_before :: string
  pt_after :: string

record execution_phase =
  ph_id :: string
  ph_sequence :: int
  ph_kind :: phase_kind
  ph_risk :: risk_tier
  ph_treatment :: plan_treatment
  ph_done :: "string list"
  ph_affected :: "string list"
  ph_validation :: "string list"
  ph_rollback :: "string option"
  ph_trigger :: string
  ph_deadline :: int

definition valid_phase :: "execution_phase \<Rightarrow> bool" where
  "valid_phase p \<longleftrightarrow> ph_id p \<noteq> [] \<and> 1 \<le> ph_sequence p \<and> pt_variable (ph_treatment p) \<noteq> [] \<and>
     pt_before (ph_treatment p) \<noteq> [] \<and> pt_after (ph_treatment p) \<noteq> [] \<and> ph_done p \<noteq> [] \<and>
     ph_trigger p \<noteq> [] \<and> 0 < ph_deadline p"

record plan_task =
  tk_id :: string
  tk_phase :: string
  tk_objective :: string
  tk_files :: "string list"
  tk_symbols :: "string list"
  tk_depends :: "string list"
  tk_creation :: bool
  tk_instructions :: string
  tk_owner :: string

definition valid_task :: "plan_task \<Rightarrow> bool" where
  "valid_task t \<longleftrightarrow> tk_id t \<noteq> [] \<and> tk_phase t \<noteq> [] \<and> tk_objective t \<noteq> [] \<and> tk_instructions t \<noteq> [] \<and>
     tk_owner t \<noteq> []"

record execution_plan =
  ep_selected :: string
  ep_phases :: "execution_phase list"

definition valid_plan :: "execution_plan \<Rightarrow> bool" where
  "valid_plan p \<longleftrightarrow> valid_digest (ep_selected p) \<and> ep_phases p \<noteq> [] \<and> list_all valid_phase (ep_phases p)"

record task_list =
  tkl_plan :: string
  tkl_tasks :: "plan_task list"

definition valid_task_list :: "task_list \<Rightarrow> bool" where
  "valid_task_list l \<longleftrightarrow> valid_digest (tkl_plan l) \<and> tkl_tasks l \<noteq> [] \<and> list_all valid_task (tkl_tasks l)"

record quality_result =
  qr_dimension :: string
  qr_passed :: bool
  qr_detail :: "string option"

record plan_quality =
  plq_plan :: "string option"
  plq_tasks :: "string option"
  plq_passed :: bool
  plq_results :: "quality_result list"

definition valid_plan_quality :: "plan_quality \<Rightarrow> bool" where
  "valid_plan_quality q \<longleftrightarrow> pred_option valid_digest (plq_plan q) \<and> pred_option valid_digest (plq_tasks q) \<and>
     plq_results q \<noteq> [] \<and> list_all (\<lambda>r. qr_dimension r \<noteq> []) (plq_results q) \<and>
     plq_passed q = list_all qr_passed (plq_results q) \<and>
     (plq_passed q \<longrightarrow> plq_plan q \<noteq> None \<and> plq_tasks q \<noteq> None)"

datatype plan_decision = AutoApproved | PlanApproved | RevisionRequested | PlanRejected | PlanPending

record plan_approval =
  pl_decision :: plan_decision
  pl_actor :: "string option"
  pl_role :: "string option"
  pl_policy :: string

section \<open>Verification, measurement and decision\<close>

datatype check_kind = BuildCheck | LintCheck | TypeCheck | UnitCheck | IntegrationCheck
  | SecurityCheck | DomainCheck

fun check_kind_name :: "check_kind \<Rightarrow> string" where
  "check_kind_name BuildCheck = ''build''"
| "check_kind_name LintCheck = ''lint''"
| "check_kind_name TypeCheck = ''type''"
| "check_kind_name UnitCheck = ''unit''"
| "check_kind_name IntegrationCheck = ''integration''"
| "check_kind_name SecurityCheck = ''security''"
| "check_kind_name DomainCheck = ''domain''"

record check_result =
  ck_command :: string
  ck_kind :: check_kind
  ck_exit :: int
  ck_passed :: bool
  ck_tail :: string
  ck_coverage :: "rat option"

definition valid_check :: "check_result \<Rightarrow> bool" where
  "valid_check r \<longleftrightarrow> ck_command r \<noteq> [] \<and> length (ck_tail r) \<le> 4000 \<and>
     pred_option (\<lambda>p. 0 \<le> p \<and> p \<le> 100) (ck_coverage r)"

datatype failure_class = PatchRegression | BaselineExisting | Flaky | EnvironmentFailure | ToolFailure

record failure_attribution =
  fa_kind :: check_kind
  fa_class :: failure_class
  fa_detail :: string

record verification_report =
  vr_patch :: string
  vr_provenance :: string
  vr_phase :: string
  vr_checks :: "check_result list"
  vr_attributions :: "failure_attribution list"
  vr_passed :: bool

definition mandatory_kinds :: "check_kind set" where
  "mandatory_kinds = {BuildCheck, LintCheck, TypeCheck, UnitCheck}"

definition valid_verification :: "verification_report \<Rightarrow> bool" where
  "valid_verification v \<longleftrightarrow> valid_digest (vr_patch v) \<and> valid_digest (vr_provenance v) \<and>
     vr_phase v \<noteq> [] \<and> vr_checks v \<noteq> [] \<and> list_all valid_check (vr_checks v) \<and>
     list_all (\<lambda>a. fa_detail a \<noteq> []) (vr_attributions v) \<and>
     vr_passed v =
       (filter (\<lambda>r. ck_kind r \<in> mandatory_kinds) (vr_checks v) \<noteq> [] \<and>
        list_all ck_passed (vr_checks v))"

record repository_command =
  cm_id :: string
  cm_argv :: "string list"
  cm_kind :: string

record repository_manifest =
  rm_test_roots :: "string list"
  rm_commands :: "repository_command list"
  rm_coverage :: "rat dict"
  rm_files :: "string list"      \<comment> \<open>\<open>manifest_files\<close>\<close>

text \<open>A job for a worker (\<open>contracts/platform.py\<close>) and the JSON object a command leaves in the store.\<close>

record worker_job =
  wj_id :: string
  wj_case :: string
  wj_node :: string
  wj_key :: string
  wj_inputs :: "artifact_ref list"
  wj_capability :: string
  wj_timeout :: int

definition valid_job :: "worker_job \<Rightarrow> bool" where
  "valid_job j \<longleftrightarrow> wj_id j \<noteq> [] \<and> wj_case j \<noteq> [] \<and> wj_node j \<noteq> [] \<and> wj_key j \<noteq> [] \<and>
     list_all valid_ref (wj_inputs j) \<and> wj_capability j \<noteq> [] \<and> 0 < wj_timeout j"

record worker_output =
  wo_command :: string
  wo_argv :: "string list"
  wo_cwd :: string
  wo_exit :: int
  wo_stdout :: string
  wo_stderr :: string
  wo_coverage :: "rat option"
  wo_rounds :: "(string \<times> rat) list"   \<comment> \<open>\<open>benchmark_rounds\<close>, none when the key is absent\<close>

record metric_aggregate =
  ma_metric :: string
  ma_unit :: string
  ma_samples :: "string list"
  ma_count :: int
  ma_minimum :: rat
  ma_maximum :: rat
  ma_mean :: rat
  ma_p50 :: "rat option"
  ma_p95 :: "rat option"

record baseline_snapshot =
  bl_request :: string
  bl_source :: string
  bl_workload :: string
  bl_environment :: string
  bl_aggregates :: "metric_aggregate list"

definition valid_aggregate :: "metric_aggregate \<Rightarrow> bool" where
  "valid_aggregate a \<longleftrightarrow> ma_samples a \<noteq> [] \<and> 1 \<le> ma_count a"

record file_identity =
  fi_path :: string
  fi_digest :: string

record source_snapshot =
  sn_path :: string
  sn_revision :: "string option"
  sn_files :: "file_identity list"

text \<open>Reports of a remeasurement (\<open>contracts/s05.py\<close>); the comparability report is A2's.\<close>

datatype isolation_kind = UnexpectedFileChange | DependencyDrift | ScopeBreach

record isolation_report =
  ir_patch :: string
  ir_isolated :: bool
  ir_violations :: "(isolation_kind \<times> string) list"    \<comment> \<open>kind and detail\<close>

definition valid_isolation :: "isolation_report \<Rightarrow> bool" where
  "valid_isolation r \<longleftrightarrow> valid_digest (ir_patch r) \<and> list_all (\<lambda>(_, d). d \<noteq> []) (ir_violations r)"

record dimension_verdict =
  dv_dimension :: string
  dv_comparable :: bool
  dv_baseline :: string
  dv_expected :: string
  dv_material :: bool
  dv_reason :: string

record comparability_report =
  cp_comparable :: bool
  cp_dimensions :: "dimension_verdict list"
  cp_policy :: string

record effect_result =
  ef_criterion :: string
  ef_metric :: string
  ef_baseline_mean :: rat
  ef_treatment_mean :: rat
  ef_absolute :: rat
  ef_relative :: "rat option"
  ef_count :: int

definition valid_effect :: "effect_result \<Rightarrow> bool" where
  "valid_effect e \<longleftrightarrow> ef_criterion e \<noteq> [] \<and> ef_metric e \<noteq> [] \<and> 1 \<le> ef_count e"

record measurement =
  me_baseline :: string
  me_patch :: string
  me_isolation :: string
  me_comparability :: string
  me_statistical :: string
  me_phase :: string

definition valid_measurement :: "measurement \<Rightarrow> bool" where
  "valid_measurement m \<longleftrightarrow> valid_digest (me_baseline m) \<and> valid_digest (me_patch m) \<and> valid_digest (me_isolation m) \<and>
     valid_digest (me_comparability m) \<and> valid_digest (me_statistical m) \<and> me_phase m \<noteq> []"

text \<open>Records of an implementation (\<open>contracts/s03.py\<close>).\<close>

record tool_call =
  tc_step :: nat
  tc_tool :: string
  tc_path :: "string option"
  tc_kind :: "string option"
  tc_summary :: string

definition valid_tool_call :: "tool_call \<Rightarrow> bool" where
  "valid_tool_call c \<longleftrightarrow> 1 \<le> tc_step c \<and> tc_tool c \<in> {''read_file'', ''write_file'', ''run_command'', ''done''} \<and>
     tc_summary c \<noteq> []"

datatype executor_kind = DeterministicConfig | LlmDriven
datatype isolation = GitWorktree | DirectoryCopy

record execution_provenance =
  xp_plan :: string
  xp_phase :: string
  xp_kind :: executor_kind
  xp_model :: "string option"
  xp_calls :: "tool_call list"
  xp_input :: int
  xp_output :: int
  xp_base :: string
  xp_isolation :: isolation

definition valid_provenance :: "execution_provenance \<Rightarrow> bool" where
  "valid_provenance p \<longleftrightarrow> valid_digest (xp_plan p) \<and> xp_phase p \<noteq> [] \<and> list_all valid_tool_call (xp_calls p) \<and>
     0 \<le> xp_input p \<and> 0 \<le> xp_output p \<and> xp_base p \<noteq> []"

datatype violation_kind = PathViolation | SymbolViolation

record scope_violation =
  sv_kind :: violation_kind
  sv_path :: string
  sv_name :: string        \<comment> \<open>the symbol named in the reason, empty for a path\<close>

record scope_report =
  sr_in_scope :: bool
  sr_violations :: "scope_violation list"

datatype finding_kind = SecretFinding | ForbiddenBinary | LockfileChange | MigrationChange | LicenseFinding

record sanitation_report =
  zr_passed :: bool
  zr_findings :: "(finding_kind \<times> string) list"

record patch_artifact =
  pa_plan :: string
  pa_provenance :: string
  pa_phase :: string
  pa_tasks :: "string list"
  pa_base :: string
  pa_files :: "string list"
  pa_diff :: string
  pa_scope :: scope_report
  pa_sanitation :: sanitation_report

definition valid_patch :: "patch_artifact \<Rightarrow> bool" where
  "valid_patch p \<longleftrightarrow> valid_digest (pa_plan p) \<and> valid_digest (pa_provenance p) \<and> pa_phase p \<noteq> [] \<and> pa_tasks p \<noteq> [] \<and>
     pa_base p \<noteq> [] \<and> pa_files p \<noteq> [] \<and> pa_diff p \<noteq> []"

record target_evaluation =
  tv_criterion :: string
  tv_metric :: string
  tv_direction :: criterion_direction
  tv_target :: rat
  tv_value :: "rat option"
  tv_met :: bool

datatype evidence_source = VerificationCheck | StatisticalEffect | Unavailable

record guardrail_evaluation =
  ge_guardrail :: string
  ge_metric :: string
  ge_source :: evidence_source
  ge_value :: "rat option"
  ge_passed :: bool

datatype phase_class = AllTargetsMet | Repairable | WrongDirection | NoEvidence

record phase_attribution =
  at_phase :: string
  at_class :: phase_class
  at_rationale :: string

datatype outcome = KEEP | FIX_ONE_PART | REVERT | ESCALATE

record decision_state =
  ds_outcome :: outcome
  ds_rationale :: string

record rollback_report =
  rb_phase :: string
  rb_patch :: string
  rb_untouched :: bool
  rb_detail :: string

record decision =
  de_phase :: string
  de_measurement :: string
  de_verification :: string
  de_targets :: "target_evaluation list"
  de_guardrails :: "guardrail_evaluation list"
  de_attribution :: phase_attribution
  de_outcome :: outcome
  de_rationale :: string
  de_rollback :: "string option"

definition valid_decision :: "decision \<Rightarrow> bool" where
  "valid_decision d \<longleftrightarrow> de_phase d \<noteq> [] \<and> valid_digest (de_measurement d) \<and>
     valid_digest (de_verification d) \<and> de_targets d \<noteq> [] \<and> de_rationale d \<noteq> [] \<and>
     (case de_rollback d of None \<Rightarrow> True | Some x \<Rightarrow> valid_digest x)"

record apply_result =
  ar_phase :: string
  ar_patch :: string
  ar_applied :: bool
  ar_branch :: "string option"
  ar_commit :: "string option"
  ar_base :: string
  ar_failure :: "string option"
  ar_approval :: string
  ar_actor :: "string option"

definition valid_apply_result :: "apply_result \<Rightarrow> bool" where
  "valid_apply_result r \<longleftrightarrow> ar_phase r \<noteq> [] \<and> valid_digest (ar_patch r) \<and> ar_base r \<noteq> [] \<and>
     ar_approval r \<noteq> [] \<and>
     (ar_applied r \<longrightarrow> ar_branch r \<noteq> None \<and> ar_commit r \<noteq> None) \<and>
     (\<not> ar_applied r \<longrightarrow> ar_failure r \<noteq> None)"

text \<open>The report (\<open>contracts/s07.py\<close>).\<close>

record chronology_entry =
  ch_node :: string
  ch_route :: string
  ch_pass :: int

datatype outcome_category = Completed | Repaired | Simplified | Reverted | Missing

record outcome_entry =
  oe_category :: outcome_category
  oe_subject :: string
  oe_detail :: string
  oe_pass :: int

record evidence_summary =
  ev_criterion :: string
  ev_metric :: string
  ev_baseline_mean :: rat
  ev_treatment_mean :: rat
  ev_absolute :: rat
  ev_relative :: "rat option"
  ev_comparable :: bool
  ev_met :: bool

record source_change =
  sc_phase :: string
  sc_base :: string
  sc_files :: "string list"
  sc_patch :: string
  sc_rollback :: "string option"
  sc_executed :: bool
  sc_applied :: bool
  sc_branch :: "string option"
  sc_commit :: "string option"
  sc_failure :: "string option"

record cost_summary =
  cs_input :: int
  cs_output :: int
  cs_repairs :: int

record optimization_report =
  or_outcome :: outcome
  or_phase :: string
  or_decision :: string
  or_chronology :: "chronology_entry list"
  or_outcomes :: "outcome_entry list"
  or_evidence :: "evidence_summary list"
  or_change :: source_change
  or_cost :: cost_summary
  or_narrative :: string
  or_json :: string
  or_markdown :: string
  or_policy :: string

definition valid_chronology :: "chronology_entry \<Rightarrow> bool" where
  "valid_chronology c \<longleftrightarrow> ch_node c \<noteq> [] \<and> ch_route c \<noteq> [] \<and> 0 \<le> ch_pass c"

definition valid_outcome :: "outcome_entry \<Rightarrow> bool" where
  "valid_outcome e \<longleftrightarrow> oe_subject e \<noteq> [] \<and> oe_detail e \<noteq> [] \<and> 0 \<le> oe_pass e"

definition valid_evidence :: "evidence_summary \<Rightarrow> bool" where
  "valid_evidence e \<longleftrightarrow> ev_criterion e \<noteq> [] \<and> ev_metric e \<noteq> []"

definition valid_change :: "source_change \<Rightarrow> bool" where
  "valid_change c \<longleftrightarrow> sc_phase c \<noteq> [] \<and> sc_base c \<noteq> [] \<and> sc_files c \<noteq> [] \<and> valid_digest (sc_patch c)"

definition valid_cost :: "cost_summary \<Rightarrow> bool" where
  "valid_cost c \<longleftrightarrow> 0 \<le> cs_input c \<and> 0 \<le> cs_output c \<and> 0 \<le> cs_repairs c"

definition valid_report :: "optimization_report \<Rightarrow> bool" where
  "valid_report r \<longleftrightarrow> or_outcome r = KEEP \<and> or_phase r \<noteq> [] \<and> valid_digest (or_decision r) \<and>
     or_chronology r \<noteq> [] \<and> list_all valid_chronology (or_chronology r) \<and>
     or_outcomes r \<noteq> [] \<and> list_all valid_outcome (or_outcomes r) \<and>
     or_evidence r \<noteq> [] \<and> list_all valid_evidence (or_evidence r) \<and>
     valid_change (or_change r) \<and> valid_cost (or_cost r) \<and> or_narrative r \<noteq> [] \<and>
     valid_digest (or_json r) \<and> valid_digest (or_markdown r) \<and> or_policy r \<noteq> []"

section \<open>Evidence and analysis\<close>

text \<open>Evidence (\<open>contracts/a2.py\<close>) as the analysis reads it.\<close>

datatype trust_level = T0 | T1 | T2 | T3 | T4

datatype evidence_value = Number rat | Words string | Flag bool

record evidence_item =
  ei_id :: string
  ei_type :: string
  ei_trust :: trust_level
  ei_collector :: string
  ei_sample :: string
  ei_observed :: datetime
  ei_value :: "evidence_value option"
  ei_metric :: "string option"

record evidence_bundle =
  eb_baseline :: string
  eb_evidence :: "evidence_item list"

definition valid_bundle :: "evidence_bundle \<Rightarrow> bool" where
  "valid_bundle b \<longleftrightarrow> valid_digest (eb_baseline b)"

definition valid_baseline :: "baseline_snapshot \<Rightarrow> bool" where
  "valid_baseline b \<longleftrightarrow> valid_digest (bl_request b) \<and> valid_digest (bl_source b) \<and> list_all valid_aggregate (bl_aggregates b)"

text \<open>Artifacts of the analysis (\<open>contracts/a3.py\<close>).\<close>

record a3_intake =
  ai_verified :: bool
  ai_mismatches :: "string list"
  ai_gates :: bool

record catalog_entry =
  ca_id :: string
  ca_metric :: "string option"
  ca_trust :: trust_level
  ca_observed :: datetime

record evidence_catalog =
  ec_entries :: "catalog_entry list"
  ec_by_metric :: "string list dict"

definition valid_catalog :: "evidence_catalog \<Rightarrow> bool" where
  "valid_catalog c \<longleftrightarrow> list_all (\<lambda>e. ca_id e \<noteq> []) (ec_entries c)"

record problem_signal =
  sg_id :: string
  sg_criterion :: string
  sg_metric :: string
  sg_description :: string
  sg_baseline :: rat
  sg_target :: rat
  sg_unit :: string
  sg_evidence :: "string list"
  sg_detected :: int

definition valid_signal :: "problem_signal \<Rightarrow> bool" where
  "valid_signal s \<longleftrightarrow> sg_id s \<noteq> [] \<and> sg_criterion s \<noteq> [] \<and> sg_metric s \<noteq> [] \<and> len_in 1 2000 (sg_description s) \<and>
     sg_unit s \<noteq> [] \<and> sg_evidence s \<noteq> []"

record prioritized_signals =
  pz_signals :: "problem_signal list"
  pz_scores :: "rat dict"

datatype analyzer_source = Syntax | Semantic | Domain | Runtime

record observation =
  ob_id :: string
  ob_source :: analyzer_source
  ob_signals :: "string list"
  ob_files :: "string list"
  ob_symbols :: "string list"
  ob_positive :: bool

definition valid_observation :: "observation \<Rightarrow> bool" where
  "valid_observation x \<longleftrightarrow> ob_id x \<noteq> [] \<and> ob_signals x \<noteq> []"

record observation_branch =
  bh_id :: string
  bh_source :: analyzer_source
  bh_observations :: "observation list"
  bh_gaps :: "string list"
  bh_unavailable :: "string option"

definition valid_branch :: "observation_branch \<Rightarrow> bool" where
  "valid_branch b \<longleftrightarrow> bh_id b \<in> {''A3.30'', ''A3.31'', ''A3.32'', ''A3.33''} \<and> list_all valid_observation (bh_observations b)"

record citation_entry =
  ct_evidence :: string
  ct_resolved :: bool
  ct_in_scope :: bool
  ct_supports :: bool
  ct_reason :: "string option"

record citation_report =
  cx_finding :: string
  cx_entries :: "citation_entry list"
  cx_all_resolved :: bool

definition entry_holds :: "citation_entry \<Rightarrow> bool" where
  "entry_holds e \<longleftrightarrow> ct_resolved e \<and> ct_in_scope e \<and> ct_supports e"

definition valid_citation :: "citation_report \<Rightarrow> bool" where
  "valid_citation r \<longleftrightarrow> cx_finding r \<noteq> [] \<and> cx_entries r \<noteq> [] \<and> list_all (\<lambda>e. ct_evidence e \<noteq> []) (cx_entries r) \<and>
     cx_all_resolved r = list_all entry_holds (cx_entries r)"

datatype judge_verdict = Accept | Reject

record judgement =
  ju_finding :: string
  ju_verdict :: judge_verdict
  ju_reasons :: "string list"

definition valid_judgement :: "judgement \<Rightarrow> bool" where
  "valid_judgement j \<longleftrightarrow> ju_finding j \<noteq> [] \<and> ju_reasons j \<noteq> []"

datatype claim_type = Observation | Hypothesis | VerifiedCause

record finding_draft =
  fd_id :: string
  fd_signals :: "string list"
  fd_claim :: claim_type
  fd_symptom :: string
  fd_files :: "string list"
  fd_symbols :: "string list"
  fd_cause :: string
  fd_support :: "string list"
  fd_counter :: "string list"
  fd_confidence :: rat

definition valid_finding_draft :: "finding_draft \<Rightarrow> bool" where
  "valid_finding_draft d \<longleftrightarrow> fd_id d \<noteq> [] \<and> fd_signals d \<noteq> [] \<and> len_in 1 2000 (fd_symptom d) \<and> len_in 1 2000 (fd_cause d) \<and>
     fd_support d \<noteq> [] \<and> 0 \<le> fd_confidence d \<and> fd_confidence d \<le> 1"

text \<open>A finding has the fields of its draft, some of them changed, and two more.\<close>

record finding =
  fn_draft :: finding_draft
  fn_trust :: trust_level
  fn_judgement :: judgement

definition valid_finding :: "finding \<Rightarrow> bool" where
  "valid_finding f \<longleftrightarrow> valid_finding_draft (fn_draft f) \<and> valid_judgement (fn_judgement f) \<and>
     (fd_claim (fn_draft f) = VerifiedCause \<longrightarrow> ju_verdict (fn_judgement f) = Accept \<and> fn_trust f = T4)"

record finding_set =
  fs_bundle :: string
  fs_findings :: "finding list"
  fs_observations :: "observation list"
  fs_reports :: "citation_report list"
  fs_gaps :: "string list"

definition valid_finding_set :: "finding_set \<Rightarrow> bool" where
  "valid_finding_set s \<longleftrightarrow> valid_digest (fs_bundle s) \<and> fs_findings s \<noteq> [] \<and> list_all valid_finding (fs_findings s) \<and>
     list_all valid_observation (fs_observations s) \<and> list_all valid_citation (fs_reports s)"

record strategy_draft =
  sd_id :: string
  sd_findings :: "string list"
  sd_title :: string
  sd_mechanism :: string
  sd_tradeoffs :: string
  sd_templates :: "phase_template list"
  sd_risk_ceiling :: risk_tier
  sd_evidence :: "string list"
  sd_paths :: "string list"
  sd_impacts :: "criterion_impact list option"
  sd_tradeoff :: "tradeoff_analysis option"
  sd_validation :: "validation_plan option"
  sd_rollback :: "rollback_plan option"
  sd_scope :: "scope_resolution option"
  sd_risk :: "risk_assessment option"
  sd_eligible :: bool
  sd_gate_reasons :: "string list"

definition valid_strategy_draft :: "strategy_draft \<Rightarrow> bool" where
  "valid_strategy_draft d \<longleftrightarrow> sd_id d \<noteq> [] \<and> sd_findings d \<noteq> [] \<and> len_in 1 200 (sd_title d) \<and> len_in 1 4000 (sd_mechanism d) \<and>
     len_in 1 2000 (sd_tradeoffs d) \<and> sd_templates d \<noteq> [] \<and> list_all valid_template (sd_templates d) \<and> sd_evidence d \<noteq> [] \<and>
     pred_option valid_impacts (sd_impacts d) \<and> pred_option valid_tradeoff (sd_tradeoff d) \<and> pred_option valid_validation (sd_validation d) \<and>
     pred_option valid_rollback_plan (sd_rollback d) \<and> pred_option valid_scope (sd_scope d) \<and> pred_option valid_risk (sd_risk d)"

record a3_quality =
  aq_findings :: string
  aq_portfolio :: string
  aq_passed :: bool
  aq_finding_gates :: "quality_result list"
  aq_strategy_gates :: "quality_result list"
  aq_maturity_gates :: "quality_result list"
  aq_portfolio_gates :: "quality_result list"

definition valid_a3_quality :: "a3_quality \<Rightarrow> bool" where
  "valid_a3_quality q \<longleftrightarrow> valid_digest (aq_findings q) \<and> valid_digest (aq_portfolio q) \<and> aq_portfolio_gates q \<noteq> [] \<and>
     aq_passed q = list_all qr_passed (aq_finding_gates q @ aq_strategy_gates q @ aq_maturity_gates q @ aq_portfolio_gates q)"

record revision_directive =
  rd_attempt :: int
  rd_findings :: "string list"
  rd_strategies :: "string list"
  rd_reason :: string

definition valid_directive :: "revision_directive \<Rightarrow> bool" where
  "valid_directive d \<longleftrightarrow> 1 \<le> rd_attempt d \<and> rd_reason d \<noteq> []"

section \<open>Convergence\<close>

record schema_result =
  sv_type :: string
  sv_version :: string
  sv_valid :: bool
  sv_errors :: "string list"

definition valid_schema_result :: "schema_result \<Rightarrow> bool" where
  "valid_schema_result r \<longleftrightarrow> sv_type r \<noteq> [] \<and> valid_schema_version (sv_version r) \<and> (\<not> sv_valid r \<longrightarrow> sv_errors r \<noteq> [])"

record digest_link =
  dl_type :: string
  dl_digest :: string
  dl_parent :: "string option"
  dl_linked :: bool

definition valid_link :: "digest_link \<Rightarrow> bool" where
  "valid_link l \<longleftrightarrow> dl_type l \<noteq> [] \<and> valid_digest (dl_digest l) \<and> pred_option valid_digest (dl_parent l)"

record equivalence_verdict =
  ev_dimension :: string
  ev_equivalent :: bool
  ev_reason :: "string option"

definition valid_equivalence :: "equivalence_verdict \<Rightarrow> bool" where
  "valid_equivalence v \<longleftrightarrow> ev_dimension v \<noteq> [] \<and> (\<not> ev_equivalent v \<longrightarrow> ev_reason v \<notin> {None, Some []})"

record freshness_check =
  fc_dimension :: string
  fc_fresh :: bool
  fc_checked :: int
  fc_expires :: "int option"

definition valid_freshness :: "freshness_check \<Rightarrow> bool" where
  "valid_freshness c \<longleftrightarrow> fc_dimension c \<noteq> [] \<and> pred_option (\<lambda>x. fc_checked c < x) (fc_expires c)"

record convergence_decision =
  cd_origin :: origin
  cd_schemas :: "schema_result list"
  cd_chain :: "digest_link list"
  cd_equivalence :: "equivalence_verdict list"
  cd_freshness :: "freshness_check list"
  cd_eligible :: nat
  cd_converged :: bool
  cd_reasons :: "string list"

definition gates_hold :: "convergence_decision \<Rightarrow> bool" where
  "gates_hold d \<longleftrightarrow> list_all sv_valid (cd_schemas d) \<and> list_all dl_linked (cd_chain d) \<and> list_all ev_equivalent (cd_equivalence d) \<and>
     list_all fc_fresh (cd_freshness d) \<and> 1 \<le> cd_eligible d"

definition valid_convergence :: "convergence_decision \<Rightarrow> bool" where
  "valid_convergence d \<longleftrightarrow> cd_schemas d \<noteq> [] \<and> list_all valid_schema_result (cd_schemas d) \<and> cd_chain d \<noteq> [] \<and> list_all valid_link (cd_chain d) \<and>
     cd_equivalence d \<noteq> [] \<and> list_all valid_equivalence (cd_equivalence d) \<and> cd_freshness d \<noteq> [] \<and> list_all valid_freshness (cd_freshness d) \<and>
     cd_converged d = gates_hold d \<and> (\<not> cd_converged d \<longrightarrow> cd_reasons d \<noteq> [])"

record converged_case =
  cc_origin :: origin
  cc_request :: string
  cc_source :: string
  cc_baseline :: string
  cc_evidence :: string
  cc_portfolio :: string
  cc_decision :: string

definition valid_converged :: "converged_case \<Rightarrow> bool" where
  "valid_converged c \<longleftrightarrow> list_all valid_digest [cc_request c, cc_source c, cc_baseline c, cc_evidence c, cc_portfolio c, cc_decision c]"

section \<open>Facts about the contracts\<close>

lemma valid_digest_length: "valid_digest s \<Longrightarrow> length s = 71"
  by (auto simp: valid_digest_def strip_prefix_Some split: option.splits)

text \<open>The digest with one repeated hexadecimal digit; \<open>_ZERO_DIGEST\<close> is \<open>rep_digest (CHR ''0'')\<close>.\<close>

definition rep_digest :: "char \<Rightarrow> string" where
  "rep_digest c = ''sha256:'' @ replicate 64 c"

lemma valid_rep_digest: "hex_digit c \<Longrightarrow> valid_digest (rep_digest c)"
  unfolding valid_digest_def rep_digest_def strip_prefix_append by (simp add: list_all_iff)

lemma valid_schema_1_0 [simp]: "valid_schema_version ''1.0''"
  by (simp add: valid_schema_version_def split_head_def is_digit_def)

lemma mk_ref_Inr:
  "mk_ref ty sch i d u = Inr r \<Longrightarrow>
     valid_ref r \<and> ref_type r = ty \<and> ref_schema r = sch \<and> ref_id r = i \<and> ref_digest r = d \<and> ref_uri r = u"
  by (auto simp: mk_ref_def Let_def split: if_splits)

end
