(* ===== verification/State.thy ===== *)
theory State
  imports Contracts
begin

text \<open>
  The checkpointed case state (\<open>contracts/state.py\<close>): its fields, the values they hold and
  the four reducers that merge the updates of parallel graph branches. The state is the
  dictionary it is at run time: field name to value, an absent key being a key never written
  (the \<open>TypedDict\<close> is \<open>total=False\<close>). \<open>sval\<close> has one constructor per kind of payload the
  modelled components store.
\<close>

section \<open>Values\<close>

record decision_context =
  dc_portfolio :: string
  dc_request :: string
  dc_excluded :: "string list"
  dc_policy :: string

record normalized_factor =
  nf_benefit :: "rat dict"
  nf_effort :: rat
  nf_reversibility :: rat
  nf_risk :: rat

record routing_decision =
  rd_needs_approval :: bool
  rd_reasons :: "string list"
  rd_winner :: string

record s06_intake =
  si_verification :: string
  si_measurement :: string
  si_complete :: bool

text \<open>The plan draft that S02.30 to S02.70 build up in \<open>s02_plan_draft\<close>. The reply of the model has the
  types of the response schema; \<open>phases\<close> and \<open>tasks\<close> hold raw entries until S02.40 and S02.50 replace
  them by contract objects.\<close>

record raw_phase =
  rp_id :: string
  rp_sequence :: int
  rp_kind :: phase_kind
  rp_risk :: "risk_tier option"
  rp_treatment :: plan_treatment
  rp_done :: "string list"
  rp_affected :: "string list"
  rp_validation :: "string list"
  rp_rollback :: "string option"
  rp_trigger :: string
  rp_deadline :: int

record raw_task =
  rt_id :: string
  rt_phase :: string
  rt_objective :: string
  rt_files :: "string list"
  rt_symbols :: "string list"
  rt_depends :: "string list"
  rt_creation :: bool
  rt_instructions :: string
  rt_owner :: string

datatype draft_phases = RawPhases "raw_phase list" | Phases "execution_phase list"
datatype draft_tasks = RawTasks "raw_task list" | Tasks "plan_task list"

record plan_draft =
  dr_phases :: draft_phases
  dr_tasks :: draft_tasks
  dr_phase_failures :: "string list"
  dr_phase_repairs :: "string list"
  dr_task_failures :: "string list"
  dr_path_repairs :: "string list"
  dr_coverage :: "bool dict"
  dr_rollback_ok :: bool
  dr_rollback_reasons :: "string list"

record critique =
  cq_omissions :: "string list"
  cq_concerns :: "string list"
  cq_ignored :: "string list"
  cq_approved :: bool

record s04_manifest =
  mf_plan :: string
  mf_patch :: string
  mf_workspace_ok :: bool
  mf_resolved :: "string list"
  mf_touched :: "string list option"
  mf_gate :: "bool option"

text \<open>The dictionaries that S03 keeps in the state.\<close>

record workspace =
  wk_path :: string
  wk_base :: string
  wk_isolation :: isolation
  wk_source :: string

record executor_state =
  xs_kind :: executor_kind
  xs_risk :: risk_tier
  xs_strategy :: string

record task_brief =
  tb_id :: string
  tb_objective :: string
  tb_instructions :: string
  tb_symbols :: "string list"

record phase_context =
  cx_phase :: string
  cx_kind :: phase_kind
  cx_paths :: "string list"
  cx_symbols :: "string list dict"
  cx_command :: "repository_command option"
  cx_tasks :: "task_brief list"
  cx_treatment :: plan_treatment
  cx_done :: "string list"

record tool_state =
  tt_calls :: "tool_call list"
  tt_input :: int
  tt_output :: int
  tt_model :: "string option"

text \<open>What S05 keeps between its nodes. The two flags of \<open>s05_isolation\<close> are the entries of a dictionary that may
  lack them.\<close>

record s05_protocol =
  pc_workload :: string
  pc_environment :: string
  pc_repetitions :: int
  pc_warmup :: int
  pc_concurrency :: int
  pc_cache :: string

record s05_treatment =
  tr_by_criterion :: "metric_aggregate dict"
  tr_unmeasurable :: "string list"
  tr_preserved :: "string list option"

datatype sval =
    VNone
  | VStr string
  | VInt int
  | VStrs "string list"
  | VRoutes "string dict"
  | VRef artifact_ref
  | VRefs "artifact_ref list"
  | VEvents "event_ref list"
  | VInterrupt interrupt_envelope
  | VResume resume_command
  | VActor actor_context
  | VScores "strategy_score list"
  | VApproval selection_approval
  | VContext decision_context
  | VFactors "normalized_factor dict"
  | VRouting routing_decision
  | VIntake s06_intake
  | VTargets "target_evaluation list"
  | VGuards "guardrail_evaluation list"
  | VAttribution phase_attribution
  | VDecision decision_state
  | VRollback bool bool    \<comment> \<open>attempted, verified\<close>
  | VApply bool bool       \<comment> \<open>applied, attempted\<close>
  | VBool bool
  | VDeps "string list dict"
  | VDraft plan_draft
  | VCritique critique
  | VPlanApproval plan_approval
  | VAuthorization bool "string list"   \<comment> \<open>authorized, reasons\<close>
  | VWorkspace workspace
  | VExecutor executor_state
  | VPhaseContext phase_context
  | VToolState tool_state
  | VScope scope_report "string list"   \<comment> \<open>report and changed files\<close>
  | VSanitation sanitation_report
  | VManifest s04_manifest
  | VChecks "check_result list"
  | VAttributions "failure_attribution list"
  | VProtocol s05_protocol
  | VIsolation "bool option" "bool option"   \<comment> \<open>isolated, environment ready\<close>
  | VTreatment s05_treatment
  | VQuality bool "string list"
  | VChronology "chronology_entry list"
  | VOutcomes "outcome_entry list"
  | VEvidence "evidence_summary list"
  | VSourceChange source_change
  | VCost cost_summary
  | VSchemas "schema_result list"
  | VChain "digest_link list"
  | VEquivalence "equivalence_verdict list"
  | VFreshness "freshness_check list"
  | VList "sval list"      \<comment> \<open>a list of values no modelled component reads\<close>
  | VPlain sval            \<comment> \<open>the plain JSON data of a contract object\<close>

type_synonym state = "string \<rightharpoonup> sval"
type_synonym updates = "sval dict"

section \<open>Fields\<close>

text \<open>The annotated fields of \<open>OptimizationState\<close>: the identity, lane and convergence fields,
  then those of the shared workflow (S01 to S07).\<close>

definition lane_fields :: "string list" where
  "lane_fields =
    [''case_id'', ''thread_id'', ''tenant_id'', ''lane'', ''entrypoint'', ''baseline_mode'',
     ''actor_context'', ''status'', ''current_node'', ''request_ref'', ''baseline_ref'',
     ''solution_portfolio_ref'', ''convergence_ref'', ''pending_interrupt'', ''completed_nodes'',
     ''node_routes'', ''artifact_refs'', ''error_refs'', ''event_refs'', ''a3_revision_attempts'',
     ''a3_model_tokens_spent'', ''resume_command'', ''resume_attempts'', ''resume_target_node'',
     ''pending_command_proposal'', ''b1_run_groups'', ''b1_signals'', ''b1_feature_bindings'',
     ''b1_source_bindings'', ''b1_ownership_bindings'', ''b1_scores'',
     ''b1_qualification_decisions'', ''b1_cooldown_decisions'', ''b2_analysis_strategy'',
     ''b2_model_context_package'', ''b2_discovery_assumption_report'', ''b2_staleness_decision'',
     ''b2_narrative'', ''b2_routing_decision'', ''b2_approval'', ''c0_schema_results'',
     ''c0_digest_chain'', ''c0_equivalence_verdicts'', ''c0_freshness_checks'']"

definition shared_fields :: "string list" where
  "shared_fields =
    [''s01_decision_context'', ''s01_eligible_strategy_ids'', ''s01_normalized_factors'',
     ''s01_scores'', ''s01_ranked_strategy_ids'', ''s01_sensitivity_flags'',
     ''s01_routing_decision'', ''s01_approval'', ''s01_excluded_strategy_ids'',
     ''s02_resolution_ok'', ''s02_dependency_map'', ''s02_plan_draft'', ''s02_critique'',
     ''s02_approval'', ''s02_revision_attempts'', ''s03_active_phase_id'', ''s03_authorization'',
     ''s03_workspace'', ''s03_executor'', ''s03_context'', ''s03_tool_calls'', ''s03_scope_report'',
     ''s03_sanitation_report'', ''s03_implemented_task_ids'', ''s03_completed_task_ids'',
     ''s04_manifest'', ''s04_check_results'', ''s04_failure_attributions'',
     ''s03_revision_attempts'', ''s05_protocol'', ''s05_isolation'', ''s05_treatment_aggregates'',
     ''s05_quality'', ''s06_target_evaluations'', ''s06_intake'', ''s06_guardrail_evaluations'',
     ''s06_attribution'', ''s06_decision'', ''s06_rollback'', ''s06_apply'', ''s07_digest_chain'',
     ''s07_chronology'', ''s07_outcomes'', ''s07_evidence'', ''s07_source_change'', ''s07_cost'',
     ''s07_narrative'']"

definition runtime_fields :: "string list" where
  "runtime_fields = lane_fields @ shared_fields"

definition identity_fields :: "string list" where
  "identity_fields = [''case_id'', ''thread_id'', ''tenant_id'', ''entrypoint'', ''lane'']"

section \<open>Reading the state\<close>

definition get_str :: "state \<Rightarrow> string \<Rightarrow> string option" where
  "get_str st k = (case st k of Some (VStr s) \<Rightarrow> Some s | _ \<Rightarrow> None)"

text \<open>\<open>state.get(k, 0) or 0\<close>.\<close>

definition get_int :: "state \<Rightarrow> string \<Rightarrow> int" where
  "get_int st k = (case st k of Some (VInt i) \<Rightarrow> i | _ \<Rightarrow> 0)"

definition get_strs :: "state \<Rightarrow> string \<Rightarrow> string list" where
  "get_strs st k = (case st k of Some (VStrs xs) \<Rightarrow> xs | _ \<Rightarrow> [])"

definition get_routes :: "state \<Rightarrow> string dict" where
  "get_routes st = (case st ''node_routes'' of Some (VRoutes r) \<Rightarrow> r | _ \<Rightarrow> [])"

definition get_refs :: "state \<Rightarrow> string \<Rightarrow> artifact_ref list" where
  "get_refs st k = (case st k of Some (VRefs r) \<Rightarrow> r | _ \<Rightarrow> [])"

section \<open>Reducers\<close>

definition ref_key :: "artifact_ref \<Rightarrow> string \<times> string" where
  "ref_key r = (ref_type r, ref_id r)"

type_synonym ref_index = "((string \<times> string) \<times> artifact_ref) list"

definition merge_ref :: "ref_index \<Rightarrow> artifact_ref \<Rightarrow> ref_index result" where
  "merge_ref merged r =
     (case map_of merged (ref_key r) of
        Some existing \<Rightarrow>
          if ref_digest existing \<noteq> ref_digest r then Inl (ValueError ''artifact reference conflict'')
          else Inr (AList.update (ref_key r) r merged)
      | None \<Rightarrow> Inr (AList.update (ref_key r) r merged))"

definition merge_artifact_refs ::
    "artifact_ref list \<Rightarrow> artifact_ref list \<Rightarrow> artifact_ref list result" where
  "merge_artifact_refs left right =
     bindR (foldR merge_ref [] (left @ right))
       (\<lambda>merged. Inr (map (\<lambda>k. the (map_of merged k)) (sort (keys merged))))"

text \<open>\<open>float(s)\<close> on the spellings a node id has: digits, optionally a point and more digits.
  Any other text raises; CPython's further spellings (exponents, signs, underscores) are no
  part of a node id.\<close>

definition parse_decimal :: "string \<Rightarrow> rat option" where
  "parse_decimal s =
     (let i = takeWhile is_digit s; r = dropWhile is_digit s in
      if i = [] then None
      else case r of
          [] \<Rightarrow> Some (of_nat (val_str i))
        | c # f \<Rightarrow>
            if c = CHR ''.'' \<and> list_all is_digit f
            then Some (of_nat (val_str i) + of_nat (val_str f) / 10 ^ length f) else None)"

definition node_sort_key :: "string \<Rightarrow> (string \<times> rat) result" where
  "node_sort_key v =
     (case parse_decimal (drop 1 v) of
        None \<Rightarrow> Inl (ValueError ''could not convert string to float'')
      | Some x \<Rightarrow> Inr (split_head CHR ''.'' v, x))"

definition merge_node_ids :: "string list \<Rightarrow> string list \<Rightarrow> string list result" where
  "merge_node_ids left right =
     bindR (mapR (\<lambda>v. bindR (node_sort_key v) (\<lambda>k. Inr (k, v))) (remdups (left @ right)))
       (\<lambda>kvs. Inr (map snd (sort_key fst kvs)))"

definition merge_route :: "string dict \<Rightarrow> string \<times> string \<Rightarrow> string dict result" where
  "merge_route merged kv =
     (case map_of merged (fst kv) of
        Some existing \<Rightarrow>
          if existing \<noteq> snd kv then Inl (ValueError ''node route conflict'')
          else Inr (AList.update (fst kv) (snd kv) merged)
      | None \<Rightarrow> Inr (AList.update (fst kv) (snd kv) merged))"

definition merge_node_routes :: "string dict \<Rightarrow> string dict \<Rightarrow> string dict result" where
  "merge_node_routes left right =
     bindR (foldR merge_route left right) (\<lambda>merged. Inr (sort_key fst merged))"

definition parse_int :: "string \<Rightarrow> nat result" where
  "parse_int s = (if s \<noteq> [] \<and> list_all is_digit s then Inr (val_str s)
                  else Inl (ValueError ''invalid literal for int()''))"

definition node_progress :: "string \<Rightarrow> (string \<times> nat \<times> string) result" where
  "node_progress v =
     (let stage = split_head CHR ''.'' v in
      bindR (parse_int (drop (Suc (length stage)) v)) (\<lambda>n. Inr (stage, n, v)))"

definition latest_node :: "string \<Rightarrow> string \<Rightarrow> string result" where
  "latest_node left right =
     (if CHR ''.'' \<notin> set left then Inr right
      else if CHR ''.'' \<notin> set right then Inr left
      else bindR (node_progress left) (\<lambda>l. bindR (node_progress right) (\<lambda>r.
             Inr (snd (snd (if l < r then r else l))))))"

section \<open>Applying a node's update\<close>

text \<open>What the graph engine does with one key of an update: a field annotated with a reducer
  combines the old value (the type's empty value when absent) with the new one, any other field
  takes the new value.\<close>

definition summed_list_fields :: "string list" where
  "summed_list_fields =
     [''b1_run_groups'', ''b1_signals'', ''b1_feature_bindings'', ''b1_source_bindings'',
      ''b1_ownership_bindings'', ''b1_scores'', ''b1_qualification_decisions'',
      ''b1_cooldown_decisions'']"

definition reduce_field :: "string \<Rightarrow> sval option \<Rightarrow> sval \<Rightarrow> sval result" where
  "reduce_field k old new =
     (if k = ''current_node'' then
        (case new of VStr b \<Rightarrow>
           bindR (latest_node (case old of Some (VStr a) \<Rightarrow> a | _ \<Rightarrow> []) b) (\<lambda>x. Inr (VStr x))
         | _ \<Rightarrow> Inl (AttributeError k))
      else if k = ''completed_nodes'' then
        (case new of VStrs b \<Rightarrow>
           bindR (merge_node_ids (case old of Some (VStrs a) \<Rightarrow> a | _ \<Rightarrow> []) b) (\<lambda>x. Inr (VStrs x))
         | _ \<Rightarrow> Inl (AttributeError k))
      else if k = ''node_routes'' then
        (case new of VRoutes b \<Rightarrow>
           bindR (merge_node_routes (case old of Some (VRoutes a) \<Rightarrow> a | _ \<Rightarrow> []) b)
             (\<lambda>x. Inr (VRoutes x))
         | _ \<Rightarrow> Inl (AttributeError k))
      else if k = ''artifact_refs'' \<or> k = ''error_refs'' then
        (case new of VRefs b \<Rightarrow>
           bindR (merge_artifact_refs (case old of Some (VRefs a) \<Rightarrow> a | _ \<Rightarrow> []) b)
             (\<lambda>x. Inr (VRefs x))
         | _ \<Rightarrow> Inl (AttributeError k))
      else if k = ''event_refs'' then
        (case new of VEvents b \<Rightarrow>
           Inr (VEvents ((case old of Some (VEvents a) \<Rightarrow> a | _ \<Rightarrow> []) @ b))
         | _ \<Rightarrow> Inl (AttributeError k))
      else if k = ''a3_model_tokens_spent'' then
        (case new of VInt b \<Rightarrow> Inr (VInt ((case old of Some (VInt a) \<Rightarrow> a | _ \<Rightarrow> 0) + b))
         | _ \<Rightarrow> Inl (AttributeError k))
      else if k \<in> set summed_list_fields then
        (case new of VList b \<Rightarrow>
           Inr (VList ((case old of Some (VList a) \<Rightarrow> a | _ \<Rightarrow> []) @ b))
         | _ \<Rightarrow> Inl (AttributeError k))
      else Inr new)"

definition apply_update :: "state \<Rightarrow> string \<times> sval \<Rightarrow> state result" where
  "apply_update st kv = bindR (reduce_field (fst kv) (st (fst kv)) (snd kv))
     (\<lambda>v. Inr (st(fst kv \<mapsto> v)))"

definition apply_updates :: "state \<Rightarrow> updates \<Rightarrow> state result" where
  "apply_updates st upd = foldR apply_update st upd"

section \<open>Replaying a cached update\<close>

text \<open>A cached update is read back from JSON. \<open>_coerce_updates\<close> restores the contract objects
  of the fields whose annotation names their type; a field annotated \<open>Any\<close> keeps the plain
  dictionaries and lists JSON has.\<close>

definition typed_fields :: "string list" where
  "typed_fields =
     [''case_id'', ''thread_id'', ''tenant_id'', ''lane'', ''entrypoint'', ''baseline_mode'',
      ''status'', ''current_node'', ''request_ref'', ''baseline_ref'', ''solution_portfolio_ref'',
      ''convergence_ref'', ''pending_interrupt'', ''completed_nodes'', ''node_routes'',
      ''artifact_refs'', ''error_refs'', ''event_refs'', ''a3_revision_attempts'',
      ''a3_model_tokens_spent'', ''resume_attempts'', ''resume_target_node'', ''b2_narrative'',
      ''s02_revision_attempts'', ''s03_revision_attempts'']"

fun has_objects :: "sval \<Rightarrow> bool" where
  "has_objects (VRef _) = True"
| "has_objects (VRefs xs) = (xs \<noteq> [])"
| "has_objects (VEvents xs) = (xs \<noteq> [])"
| "has_objects (VInterrupt _) = True"
| "has_objects (VResume _) = True"
| "has_objects (VActor _) = True"
| "has_objects (VScores xs) = (xs \<noteq> [])"
| "has_objects (VApproval _) = True"
| "has_objects (VDraft d) = ((case dr_phases d of Phases ps \<Rightarrow> ps \<noteq> [] | RawPhases _ \<Rightarrow> False) \<or>
     (case dr_tasks d of Tasks ts \<Rightarrow> ts \<noteq> [] | RawTasks _ \<Rightarrow> False))"
| "has_objects (VPlanApproval _) = True"
| "has_objects (VChecks xs) = (xs \<noteq> [])"
| "has_objects (VAttributions xs) = (xs \<noteq> [])"
| "has_objects (VSchemas xs) = (xs \<noteq> [])"
| "has_objects (VChain xs) = (xs \<noteq> [])"
| "has_objects (VEquivalence xs) = (xs \<noteq> [])"
| "has_objects (VFreshness xs) = (xs \<noteq> [])"
| "has_objects (VList xs) = list_ex has_objects xs"
| "has_objects _ = False"

definition coerce_value :: "string \<Rightarrow> sval \<Rightarrow> sval" where
  "coerce_value k v = (if k \<in> set typed_fields \<or> \<not> has_objects v then v else VPlain v)"

definition coerce_updates :: "updates \<Rightarrow> updates" where
  "coerce_updates upd = map (\<lambda>(k, v). (k, coerce_value k v)) upd"


section \<open>Merging with conflict detection\<close>

text \<open>The two dictionary reducers share one loop: an entry whose key is new is stored, one
  whose key is known is stored again when a tag of the value (the digest, the route itself)
  agrees, and raises otherwise.\<close>

locale checked_merge =
  fixes step :: "('k \<times> 'a) list \<Rightarrow> 'x \<Rightarrow> ('k \<times> 'a) list result"
    and key :: "'x \<Rightarrow> 'k" and val :: "'x \<Rightarrow> 'a" and tag :: "'a \<Rightarrow> 'd" and err :: py_error
  assumes step_conflict: "map_of m (key x) = Some a \<Longrightarrow> tag a \<noteq> tag (val x) \<Longrightarrow> step m x = Inl err"
    and step_ok: "(\<And>a. map_of m (key x) = Some a \<Longrightarrow> tag a = tag (val x)) \<Longrightarrow>
      step m x = Inr (AList.update (key x) (val x) m)"
begin

definition entries :: "'x list \<Rightarrow> ('k \<times> 'a) list" where
  "entries xs = map (\<lambda>x. (key x, val x)) xs"

definition consistent :: "('k \<times> 'a) list \<Rightarrow> 'x list \<Rightarrow> bool" where
  "consistent m xs \<longleftrightarrow>
     (\<forall>x \<in> set xs. \<forall>a. map_of m (key x) = Some a \<longrightarrow> tag a = tag (val x)) \<and>
     (\<forall>x \<in> set xs. \<forall>y \<in> set xs. key x = key y \<longrightarrow> tag (val x) = tag (val y))"

lemma step_cases:
  "step m x = Inl err \<and> (\<exists>a. map_of m (key x) = Some a \<and> tag a \<noteq> tag (val x)) \<or>
   step m x = Inr (AList.update (key x) (val x) m) \<and>
     (\<forall>a. map_of m (key x) = Some a \<longrightarrow> tag a = tag (val x))"
  by (metis step_conflict step_ok)

lemma consistent_Cons:
  assumes "\<And>a. map_of m (key x) = Some a \<Longrightarrow> tag a = tag (val x)"
  shows "consistent m (x # xs) \<longleftrightarrow> consistent (AList.update (key x) (val x) m) xs"
proof -
  have one: "(\<forall>a. map_of (AList.update (key x) (val x) m) (key y) = Some a \<longrightarrow> tag a = tag (val y)) \<longleftrightarrow>
      (\<forall>a. map_of m (key y) = Some a \<longrightarrow> tag a = tag (val y)) \<and>
      (key x = key y \<longrightarrow> tag (val x) = tag (val y))" for y
  proof (cases "key y = key x")
    case True
    then show ?thesis using assms by auto
  next
    case False
    then show ?thesis by simp
  qed
  have sym: "(\<forall>y \<in> set xs. key y = key x \<longrightarrow> tag (val y) = tag (val x)) \<longleftrightarrow>
      (\<forall>y \<in> set xs. key x = key y \<longrightarrow> tag (val x) = tag (val y))"
    by metis
  show ?thesis
    unfolding consistent_def one using assms by (simp add: ball_conj_distrib sym)
qed

lemma fold_consistent:
  "foldR step m xs =
     (if consistent m xs then foldR (\<lambda>m x. Inr (AList.update (key x) (val x) m)) m xs else Inl err)"
proof (induction xs arbitrary: m)
  case Nil
  then show ?case by (simp add: consistent_def)
next
  case (Cons x xs)
  show ?case
  proof (cases "\<exists>a. map_of m (key x) = Some a \<and> tag a \<noteq> tag (val x)")
    case True
    then have "step m x = Inl err" and "\<not> consistent m (x # xs)"
      by (auto simp: consistent_def intro: step_conflict)
    then show ?thesis by simp
  next
    case False
    then have st: "step m x = Inr (AList.update (key x) (val x) m)"
      by (auto intro: step_ok)
    have "consistent m (x # xs) \<longleftrightarrow> consistent (AList.update (key x) (val x) m) xs"
      using False by (intro consistent_Cons) blast
    with st Cons.IH[of "AList.update (key x) (val x) m"] show ?thesis by simp
  qed
qed

lemma fold_update: "foldR (\<lambda>m x. Inr (AList.update (key x) (val x) m)) m xs =
    Inr (fold (\<lambda>x. AList.update (key x) (val x)) xs m)"
  by (induction xs arbitrary: m) auto

lemma fold_ok: "consistent m xs \<Longrightarrow>
    foldR step m xs = Inr (fold (\<lambda>x. AList.update (key x) (val x)) xs m)"
  by (simp add: fold_consistent fold_update)

lemma fold_error: "\<not> consistent m xs \<Longrightarrow> foldR step m xs = Inl err"
  by (simp add: fold_consistent)

lemma map_of_fold: "map_of (fold (\<lambda>x. AList.update (key x) (val x)) xs m) =
    map_of m ++ map_of (rev (entries xs))"
proof (induction xs arbitrary: m)
  case Nil
  then show ?case by (simp add: entries_def)
next
  case (Cons x xs)
  then show ?case
    by (simp add: entries_def) (auto simp: map_add_def fun_eq_iff split: option.split)
qed

lemma distinct_fold: "distinct (keys m) \<Longrightarrow>
    distinct (keys (fold (\<lambda>x. AList.update (key x) (val x)) xs m))"
  by (induction xs arbitrary: m) (auto simp: distinct_update)

lemma keys_fold: "set (keys (fold (\<lambda>x. AList.update (key x) (val x)) xs m)) =
    set (keys m) \<union> key ` set xs"
  by (induction xs arbitrary: m) (auto simp: dom_update dom_map_of_conv_image_fst[symmetric])

lemma consistent_Nil: "consistent [] xs \<longleftrightarrow>
    (\<forall>x \<in> set xs. \<forall>y \<in> set xs. key x = key y \<longrightarrow> tag (val x) = tag (val y))"
  by (simp add: consistent_def)

lemma last_entry:
  assumes "x \<in> set xs"
  obtains y where "y \<in> set xs" and "key y = key x" and "map_of (rev (entries xs)) (key x) = Some (val y)"
proof -
  from assms have "key x \<in> fst ` set (rev (entries xs))"
    by (force simp: entries_def)
  then obtain v where v: "map_of (rev (entries xs)) (key x) = Some v"
    by (metis map_of_eq_None_iff option.exhaust)
  then have "(key x, v) \<in> set (entries xs)"
    by (metis map_of_SomeD set_rev)
  then obtain y where "y \<in> set xs" and "key y = key x" and "val y = v"
    by (auto simp: entries_def)
  with v show ?thesis by (intro that[of y]) auto
qed

end

interpretation refs: checked_merge merge_ref ref_key id ref_digest
    "ValueError ''artifact reference conflict''"
  by unfold_locales (auto simp: merge_ref_def split: option.splits)

interpretation routes: checked_merge merge_route fst snd id "ValueError ''node route conflict''"
  by unfold_locales (auto simp: merge_route_def split: option.splits)


section \<open>Laws of the reducers\<close>

definition refs_consistent :: "artifact_ref list \<Rightarrow> bool" where
  "refs_consistent xs \<longleftrightarrow>
     (\<forall>a \<in> set xs. \<forall>b \<in> set xs. ref_key a = ref_key b \<longrightarrow> ref_digest a = ref_digest b)"

definition last_ref :: "artifact_ref list \<Rightarrow> string \<times> string \<Rightarrow> artifact_ref" where
  "last_ref xs k = the (map_of (rev (map (\<lambda>r. (ref_key r, r)) xs)) k)"

lemma refs_consistent_iff: "refs.consistent [] xs \<longleftrightarrow> refs_consistent xs"
  unfolding refs.consistent_Nil refs_consistent_def id_apply by (rule refl)

lemma merge_artifact_refs_eq:
  "merge_artifact_refs l r =
     (if refs_consistent (l @ r)
      then Inr (map (last_ref (l @ r)) (sorted_list_of_set (ref_key ` set (l @ r))))
      else Inl (ValueError ''artifact reference conflict''))"
proof (cases "refs_consistent (l @ r)")
  case True
  let ?m = "fold (\<lambda>x. AList.update (ref_key x) (id x)) (l @ r) []"
  have ok: "foldR merge_ref [] (l @ r) = Inr ?m"
    using True by (intro refs.fold_ok) (simp add: refs_consistent_iff)
  have d: "distinct (keys ?m)" by (rule refs.distinct_fold) simp
  have "set (keys ?m) = ref_key ` set (l @ r)"
    using refs.keys_fold[of "l @ r" "[]"] by simp
  with d have "sort (keys ?m) = sorted_list_of_set (ref_key ` set (l @ r))"
    by (rule sort_distinct_eq)
  moreover have "the (map_of ?m k) = last_ref (l @ r) k" for k
    using refs.map_of_fold[of "l @ r" "[]"] by (simp add: last_ref_def refs.entries_def)
  ultimately show ?thesis
    using True ok by (simp add: merge_artifact_refs_def del: fold_append)
next
  case False
  then have "\<not> refs.consistent [] (l @ r)" by (simp add: refs_consistent_iff)
  from refs.fold_error[OF this] False show ?thesis by (simp add: merge_artifact_refs_def)
qed

lemma last_ref_mem:
  assumes "x \<in> set xs"
  shows "last_ref xs (ref_key x) \<in> set xs" and "ref_key (last_ref xs (ref_key x)) = ref_key x"
proof -
  from refs.last_entry[OF assms] obtain y where
    "y \<in> set xs" "ref_key y = ref_key x" "map_of (rev (refs.entries xs)) (ref_key x) = Some (id y)"
    by blast
  then have "y \<in> set xs" "ref_key y = ref_key x" "last_ref xs (ref_key x) = y"
    by (simp_all add: last_ref_def refs.entries_def)
  then show "last_ref xs (ref_key x) \<in> set xs" "ref_key (last_ref xs (ref_key x)) = ref_key x"
    by simp_all
qed

lemma ref_key_last_ref: "k \<in> ref_key ` set xs \<Longrightarrow> ref_key (last_ref xs k) = k"
  using last_ref_mem(2) by auto

lemma merge_artifact_refs_keys:
  "merge_artifact_refs l r = Inr m \<Longrightarrow>
     map ref_key m = sorted_list_of_set (ref_key ` set (l @ r))"
proof -
  assume "merge_artifact_refs l r = Inr m"
  then have m: "m = map (last_ref (l @ r)) (sorted_list_of_set (ref_key ` set (l @ r)))"
    by (simp add: merge_artifact_refs_eq split: if_splits)
  have "map ref_key m = map (\<lambda>k. k) (sorted_list_of_set (ref_key ` set (l @ r)))"
    unfolding m map_map o_def by (rule map_cong) (simp_all add: ref_key_last_ref)
  then show ?thesis by simp
qed


lemma last_ref_digest:
  assumes "refs_consistent xs" and "x \<in> set xs"
  shows "ref_digest (last_ref xs (ref_key x)) = ref_digest x"
  using assms last_ref_mem[OF assms(2)] unfolding refs_consistent_def by metis

lemma set_merge_artifact_refs:
  "merge_artifact_refs l r = Inr m \<Longrightarrow> set m = (\<lambda>x. last_ref (l @ r) (ref_key x)) ` set (l @ r)"
  by (auto simp: merge_artifact_refs_eq image_image split: if_splits)

lemma merge_artifact_refs_consistent:
  "merge_artifact_refs l r = Inr m \<Longrightarrow> refs_consistent (l @ r)"
  by (simp add: merge_artifact_refs_eq split: if_splits)

lemma merge_artifact_refs_subset:
  "merge_artifact_refs l r = Inr m \<Longrightarrow> set m \<subseteq> set (l @ r)"
  by (simp only: set_merge_artifact_refs) (rule image_subsetI, rule last_ref_mem(1))

lemma merge_artifact_refs_digests:
  assumes "merge_artifact_refs l r = Inr m"
  shows "(\<lambda>a. (ref_key a, ref_digest a)) ` set m = (\<lambda>a. (ref_key a, ref_digest a)) ` set (l @ r)"
proof -
  note c = merge_artifact_refs_consistent[OF assms]
  have "(\<lambda>a. (ref_key a, ref_digest a)) ` set m =
      (\<lambda>x. (ref_key (last_ref (l @ r) (ref_key x)), ref_digest (last_ref (l @ r) (ref_key x)))) `
        set (l @ r)"
    by (simp only: set_merge_artifact_refs[OF assms] image_image)
  also have "\<dots> = (\<lambda>a. (ref_key a, ref_digest a)) ` set (l @ r)"
    by (rule image_cong) (simp_all add: last_ref_mem(2) last_ref_digest[OF c] del: set_append)
  finally show ?thesis .
qed

lemma last_ref_None:
  "map_of (rev (map (\<lambda>r. (ref_key r, r)) ys)) k = None \<longleftrightarrow> k \<notin> ref_key ` set ys"
  by (simp add: map_of_eq_None_iff image_image)

lemma last_ref_append:
  "last_ref (xs @ ys) k = (if k \<in> ref_key ` set ys then last_ref ys k else last_ref xs k)"
  using last_ref_None[of ys k] by (auto simp: last_ref_def map_add_def split: option.splits)

lemma last_ref_distinct:
  assumes "distinct (map ref_key xs)" and "x \<in> set xs"
  shows "last_ref xs (ref_key x) = x"
proof -
  have "last_ref xs (ref_key x) \<in> set xs" "ref_key (last_ref xs (ref_key x)) = ref_key x"
    using last_ref_mem[OF assms(2)] by auto
  with assms show ?thesis by (metis distinct_map inj_onD)
qed

lemma refs_consistent_image:
  "refs_consistent xs \<longleftrightarrow>
     (\<forall>p \<in> (\<lambda>a. (ref_key a, ref_digest a)) ` set xs. \<forall>q \<in> (\<lambda>a. (ref_key a, ref_digest a)) ` set xs.
        fst p = fst q \<longrightarrow> snd p = snd q)"
  by (auto simp: refs_consistent_def)

section \<open>Routes\<close>

lemma map_of_sort_key: "distinct (keys d) \<Longrightarrow> map_of (sort_key fst d) = map_of d"
proof -
  assume d: "distinct (keys d)"
  have "distinct (keys (sort_key fst d))"
    using d mset_eq_imp_distinct_iff[of "keys (sort_key fst d)" "keys d"] by simp
  with d show ?thesis by (subst map_of_inject_set) auto
qed


lemma merge_node_routes_single:
  assumes "map_of d k = None \<or> map_of d k = Some v" and "distinct (keys d)"
  obtains d' where "merge_node_routes d [(k, v)] = Inr d'" and "map_of d' = (map_of d)(k \<mapsto> v)"
    and "distinct (keys d')"
proof -
  let ?u = "AList.update k v d"
  have "merge_route d (k, v) = Inr ?u"
    using assms(1) by (auto simp: merge_route_def)
  then have "merge_node_routes d [(k, v)] = Inr (sort_key fst ?u)"
    by (simp add: merge_node_routes_def)
  moreover have du: "distinct (keys ?u)" using assms(2) by (simp add: distinct_update)
  then have "map_of (sort_key fst ?u) = (map_of d)(k \<mapsto> v)" by (simp add: map_of_sort_key)
  moreover have "distinct (keys (sort_key fst ?u))"
    using du mset_eq_imp_distinct_iff[of "keys (sort_key fst ?u)" "keys ?u"] by simp
  ultimately show ?thesis by (rule that)
qed

lemma merge_node_routes_conflict:
  "map_of d k = Some v' \<Longrightarrow> v' \<noteq> v \<Longrightarrow>
     merge_node_routes d [(k, v)] = Inl (ValueError ''node route conflict'')"
  by (simp add: merge_node_routes_def merge_route_def)

section \<open>Completion markers\<close>

definition node_key :: "string \<Rightarrow> string \<times> rat" where
  "node_key v = (split_head CHR ''.'' v, the (parse_decimal (drop 1 v)))"

definition wf_node_id :: "string \<Rightarrow> bool" where
  "wf_node_id v \<longleftrightarrow> parse_decimal (drop 1 v) \<noteq> None"

lemma node_sort_key_eq:
  "node_sort_key v = (if wf_node_id v then Inr (node_key v)
     else Inl (ValueError ''could not convert string to float''))"
  by (auto simp: node_sort_key_def node_key_def wf_node_id_def split: option.splits)

lemma mapR_node_keys:
  "mapR (\<lambda>v. bindR (node_sort_key v) (\<lambda>k. Inr (k, v))) xs =
     (if list_all wf_node_id xs then Inr (map (\<lambda>v. (node_key v, v)) xs)
      else Inl (ValueError ''could not convert string to float''))"
  by (induction xs) (auto simp: node_sort_key_eq)

lemma sort_key_map_pair: "map snd (sort_key fst (map (\<lambda>v. (f v, v)) xs)) = sort_key f xs"
proof (induction xs)
  case (Cons x xs)
  have ins: "map snd (insort_key fst (f x, x) (map (\<lambda>v. (f v, v)) ys)) = insort_key f x ys" for ys
    by (induction ys) (auto simp: comp_def)
  have "sort_key fst (map (\<lambda>v. (f v, v)) xs) = map (\<lambda>v. (f v, v)) (sort_key f xs)"
  proof (induction xs)
    case (Cons y ys)
    have "insort_key fst (f y, y) (map (\<lambda>v. (f v, v)) zs) = map (\<lambda>v. (f v, v)) (insort_key f y zs)" for zs
      by (induction zs) auto
    with Cons show ?case by simp
  qed simp
  with ins show ?case by simp
qed simp

lemma merge_node_ids_eq:
  "merge_node_ids l r =
     (if list_all wf_node_id (l @ r) then Inr (sort_key node_key (remdups (l @ r)))
      else Inl (ValueError ''could not convert string to float''))"
  unfolding merge_node_ids_def mapR_node_keys by (simp add: sort_key_map_pair list_all_iff)

lemma sort_key_permutation_unique:
  assumes "inj_on f (set xs)" and "mset xs = mset ys"
  shows "sort_key f xs = sort_key f ys"
proof -
  have "sorted (map f (sort_key f ys))" "mset (sort_key f ys) = mset xs" using assms(2) by simp_all
  moreover have "inj_on f (set xs)" by (rule assms(1))
  ultimately show ?thesis
    by (metis properties_for_sort_key mset_sort set_mset_mset sort_key_inj_key_eq)
qed


section \<open>Properties\<close>

text \<open>\<open>merge_artifact_refs\<close> raises exactly when two of the merged references name the same
  artifact (type and id) with different digests; otherwise the result holds one of the given
  references for each artifact, in ascending order of type and id, and no digest is lost or
  invented.\<close>

theorem merge_artifact_refs_correct:
  "case merge_artifact_refs l r of
     Inl e \<Rightarrow> (\<exists>a b. a \<in> set (l @ r) \<and> b \<in> set (l @ r) \<and> ref_key a = ref_key b \<and>
                 ref_digest a \<noteq> ref_digest b)
   | Inr m \<Rightarrow> map ref_key m = sorted_list_of_set (ref_key ` set (l @ r)) \<and> set m \<subseteq> set (l @ r) \<and>
       (\<lambda>a. (ref_key a, ref_digest a)) ` set m = (\<lambda>a. (ref_key a, ref_digest a)) ` set (l @ r)"
proof (cases "merge_artifact_refs l r")
  case (Inl e)
  then have "\<not> refs_consistent (l @ r)" by (simp add: merge_artifact_refs_eq split: if_splits)
  with Inl show ?thesis unfolding refs_consistent_def by auto
next
  case (Inr m)
  then show ?thesis
    using merge_artifact_refs_keys[OF Inr] merge_artifact_refs_subset[OF Inr]
      merge_artifact_refs_digests[OF Inr] by simp
qed

text \<open>Merging two branches gives the same references, or raises, whichever branch comes
  first, provided equal type, id and digest mean the same reference.\<close>

theorem merge_artifact_refs_commutes:
  assumes "\<And>a b. a \<in> set (l @ r) \<Longrightarrow> b \<in> set (l @ r) \<Longrightarrow> ref_key a = ref_key b \<Longrightarrow>
      ref_digest a = ref_digest b \<Longrightarrow> a = b"
  shows "merge_artifact_refs l r = merge_artifact_refs r l"
proof (cases "refs_consistent (l @ r)")
  case True
  have swap: "refs_consistent (r @ l)" using True unfolding refs_consistent_def by auto
  have "last_ref (l @ r) k = last_ref (r @ l) k" if "k \<in> ref_key ` set (l @ r)" for k
  proof -
    from that obtain x where x: "x \<in> set (l @ r)" "k = ref_key x" by auto
    then have x': "x \<in> set (r @ l)" by auto
    show ?thesis unfolding x(2)
      using last_ref_mem[OF x(1)] last_ref_mem[OF x'] last_ref_digest[OF True x(1)]
        last_ref_digest[OF swap x'] by (intro assms) auto
  qed
  then have "map (last_ref (l @ r)) (sorted_list_of_set (ref_key ` set (l @ r))) =
      map (last_ref (r @ l)) (sorted_list_of_set (ref_key ` set (l @ r)))"
    by (intro map_cong) auto
  moreover have "ref_key ` set (l @ r) = ref_key ` set (r @ l)" by auto
  ultimately show ?thesis
    unfolding merge_artifact_refs_eq by (simp add: True swap del: set_append)
next
  case False
  then have "\<not> refs_consistent (r @ l)" unfolding refs_consistent_def by auto
  with False show ?thesis by (simp add: merge_artifact_refs_eq)
qed

theorem merge_artifact_refs_commutes_witness:
  "let a = \<lparr>ref_type = ''Plan'', ref_schema = ''1.0'', ref_id = ''p'', ref_digest = ''d1'', ref_uri = ''u''\<rparr>;
       b = \<lparr>ref_type = ''Case'', ref_schema = ''1.0'', ref_id = ''c'', ref_digest = ''d2'', ref_uri = ''v''\<rparr>
   in merge_artifact_refs [a] [b] = merge_artifact_refs [b] [a]"
  unfolding Let_def by (rule merge_artifact_refs_commutes) (auto simp: ref_key_def)

text \<open>Merging a branch a second time, as the replay of a cached node does, changes
  nothing and raises nothing.\<close>

theorem merge_artifact_refs_absorbs:
  assumes "merge_artifact_refs l r = Inr m"
  shows "merge_artifact_refs m r = Inr m"
proof -
  note keys_m = merge_artifact_refs_keys[OF assms]
  have m: "m = map (last_ref (l @ r)) (map ref_key m)"
    using assms keys_m by (simp add: merge_artifact_refs_eq split: if_splits)
  have set_keys: "ref_key ` set m = ref_key ` set (l @ r)"
    using keys_m by (metis finite_imageI finite_set list.set_map set_sorted_list_of_set)
  have dig: "(\<lambda>a. (ref_key a, ref_digest a)) ` set (m @ r) =
      (\<lambda>a. (ref_key a, ref_digest a)) ` set (l @ r)"
    using merge_artifact_refs_digests[OF assms] by auto
  have cons: "refs_consistent (m @ r)"
    using merge_artifact_refs_consistent[OF assms] unfolding refs_consistent_image dig .
  have "last_ref (m @ r) (ref_key x) = x" if x: "x \<in> set m" for x
  proof (cases "ref_key x \<in> ref_key ` set r")
    case True
    then have "last_ref (m @ r) (ref_key x) = last_ref (l @ r) (ref_key x)"
      by (simp add: last_ref_append)
    also have "\<dots> = x"
      using x m by (metis (no_types, lifting) map_eq_conv map_ident map_map o_def)
    finally show ?thesis .
  next
    case False
    have "distinct (map ref_key m)" unfolding keys_m by simp
    with x False show ?thesis by (simp add: last_ref_append last_ref_distinct)
  qed
  then have "map (last_ref (m @ r)) (map ref_key m) = m"
    by (simp add: map_idI)
  moreover have "sorted_list_of_set (ref_key ` set (m @ r)) = map ref_key m"
    using set_keys keys_m by (simp add: image_Un sup.absorb_iff1 subset_iff) 
  ultimately show ?thesis using cons by (simp add: merge_artifact_refs_eq)
qed

theorem merge_artifact_refs_absorbs_witness:
  "let a = \<lparr>ref_type = ''Plan'', ref_schema = ''1.0'', ref_id = ''p'', ref_digest = ''d1'', ref_uri = ''u''\<rparr>
   in merge_artifact_refs [] [a] = Inr [a] \<and> merge_artifact_refs [a] [a] = Inr [a]"
proof -
  let ?a = "\<lparr>ref_type = ''Plan'', ref_schema = ''1.0'', ref_id = ''p'', ref_digest = ''d1'', ref_uri = ''u''\<rparr>"
  have h: "merge_artifact_refs [] [?a] = Inr [?a]"
    by (simp add: merge_artifact_refs_def merge_ref_def ref_key_def)
  show ?thesis unfolding Let_def using h merge_artifact_refs_absorbs[OF h] by blast
qed

text \<open>\<open>merge_node_ids\<close> raises exactly when an id has no catalogue number; otherwise it
  returns every given id once, in catalogue order, and the order of the branches does not
  matter when no two ids share their catalogue position.\<close>

theorem merge_node_ids_correct:
  "(case merge_node_ids l r of
      Inl _ \<Rightarrow> \<not> list_all wf_node_id (l @ r)
    | Inr m \<Rightarrow> list_all wf_node_id (l @ r) \<and> distinct m \<and> set m = set l \<union> set r \<and>
        sorted (map node_key m)) \<and>
   (inj_on node_key (set l \<union> set r) \<longrightarrow> merge_node_ids l r = merge_node_ids r l)"
proof -
  have "mset (remdups (l @ r)) = mset (remdups (r @ l))"
    by (metis Un_commute set_append set_eq_iff_mset_remdups_eq)
  then have "sort_key node_key (remdups (l @ r)) = sort_key node_key (remdups (r @ l))"
    if "inj_on node_key (set l \<union> set r)"
    using that by (intro sort_key_permutation_unique) simp_all
  then show ?thesis by (auto simp: merge_node_ids_eq)
qed

theorem merge_node_ids_correct_witness:
  "inj_on node_key (set [''S01.20''] \<union> set [''S01.10'']) \<and>
   merge_node_ids [''S01.20''] [''S01.10''] = merge_node_ids [''S01.10''] [''S01.20'']"
proof -
  have h: "inj_on node_key (set [''S01.20''] \<union> set [''S01.10''])"
    by (simp add: node_key_def parse_decimal_def is_digit_def val_str_def digit_val_def)
  then show ?thesis using merge_node_ids_correct[of "[''S01.20'']" "[''S01.10'']"] by blast
qed

end
