(* ===== verification/Control_Plane.thy ===== *)
theory Control_Plane
  imports State
begin

text \<open>
  The PostgreSQL control plane: the case index (\<open>postgres_case_repository.py\<close>), the intent
  ledger (\<open>postgres_intent_ledger.py\<close>) and the transactional outbox (\<open>postgres_outbox.py\<close>)
  over the tables \<open>optimizer_control.cases\<close>, \<open>node_intents\<close> and \<open>outbox\<close>. Each SQL statement
  is its effect on the table, a list of rows; the keys and checks of the schema
  (\<open>migrations/001_control_plane.sql\<close>) are the guards that raise. Each adapter's connection
  pool is a flag, false once the adapter is closed. \<open>cp_now\<close> is the server's \<open>now()\<close>.
\<close>

section \<open>Tables\<close>

record case_row =
  cs_thread :: string
  cs_lane :: string
  cs_status :: string
  cs_node :: "string option"
  cs_cancel :: "int option"
  cs_updated :: int

text \<open>A row of \<open>node_intents\<close>; the reference to the output is flattened into five nullable
  columns.\<close>

record intent_row =
  row_case :: string
  row_node :: string
  row_input :: string
  row_status :: intent_status
  row_out_type :: "string option"
  row_out_schema :: "string option"
  row_out_id :: "string option"
  row_out_digest :: "string option"
  row_out_uri :: "string option"
  row_updated :: datetime

record control_plane =
  cp_cases :: "((string \<times> string) \<times> case_row) list"
  cp_intents :: "((string \<times> string) \<times> intent_row) list"
  cp_outbox :: "outbox_record list"
  cp_now :: int
  cp_case_pool :: bool
  cp_intent_pool :: bool
  cp_outbox_pool :: bool

section \<open>Case repository\<close>

definition required_fields :: "string list" where
  "required_fields = [''case_id'', ''thread_id'', ''tenant_id'', ''lane'', ''status'']"

definition require_field :: "state \<Rightarrow> string \<Rightarrow> string result" where
  "require_field st k =
     (case get_str st k of
        Some s \<Rightarrow> if s \<noteq> [] then Inr s else Inl (ValueError ''missing required field'')
      | None \<Rightarrow> Inl (ValueError ''missing required field''))"

definition case_create :: "state \<Rightarrow> (control_plane, unit) io" where
  "case_create st w =
     (case mapR (require_field st) required_fields of
        Inl e \<Rightarrow> (Inl e, w)
      | Inr vs \<Rightarrow>
          let cid = vs ! 0; thread = vs ! 1; tenant = vs ! 2; lane = vs ! 3; status = vs ! 4 in
          if \<not> cp_case_pool w then (Inl (RuntimeError ''PostgresCaseRepository has been closed''), w)
          else if lane \<notin> {''manual'', ''automatic''} then (Inl (DatabaseError ''cases_lane_check''), w)
          else if map_of (cp_cases w) (tenant, cid) \<noteq> None \<or>
              list_ex (\<lambda>(k, r). fst k = tenant \<and> cs_thread r = thread) (cp_cases w)
            then (Inl (ValueError ''case already exists''), w)
          else (Inr (), w\<lparr>cp_cases := cp_cases w @
                 [((tenant, cid), \<lparr>cs_thread = thread, cs_lane = lane, cs_status = status,
                    cs_node = get_str st ''current_node'', cs_cancel = None, cs_updated = cp_now w\<rparr>)]\<rparr>))"

definition case_get :: "string \<Rightarrow> string \<Rightarrow> (control_plane, state option) io" where
  "case_get tenant cid w =
     (if \<not> cp_case_pool w then (Inl (RuntimeError ''PostgresCaseRepository has been closed''), w)
      else (Inr (case map_of (cp_cases w) (tenant, cid) of
              None \<Rightarrow> None
            | Some r \<Rightarrow>
                let st = [''case_id'' \<mapsto> VStr cid, ''thread_id'' \<mapsto> VStr (cs_thread r),
                          ''tenant_id'' \<mapsto> VStr tenant, ''lane'' \<mapsto> VStr (cs_lane r),
                          ''status'' \<mapsto> VStr (cs_status r)] in
                Some (case cs_node r of None \<Rightarrow> st | Some n \<Rightarrow> st(''current_node'' \<mapsto> VStr n))), w))"

definition case_set_status :: "string \<Rightarrow> string \<Rightarrow> string \<Rightarrow> (control_plane, unit) io" where
  "case_set_status tenant cid status w =
     (if \<not> cp_case_pool w then (Inl (RuntimeError ''PostgresCaseRepository has been closed''), w)
      else case map_of (cp_cases w) (tenant, cid) of
          None \<Rightarrow> (Inl (ValueError ''no case found''), w)
        | Some r \<Rightarrow> (Inr (), w\<lparr>cp_cases := AList.update (tenant, cid)
                       (r\<lparr>cs_status := status, cs_updated := cp_now w\<rparr>) (cp_cases w)\<rparr>))"

definition case_request_cancellation ::
    "string \<Rightarrow> string \<Rightarrow> string \<Rightarrow> (control_plane, unit) io" where
  "case_request_cancellation tenant cid actor w =
     (if \<not> cp_case_pool w then (Inl (RuntimeError ''PostgresCaseRepository has been closed''), w)
      else case map_of (cp_cases w) (tenant, cid) of
          None \<Rightarrow> (Inr (), w)
        | Some r \<Rightarrow>
            if cs_cancel r = None
            then (Inr (), w\<lparr>cp_cases := AList.update (tenant, cid)
                    (r\<lparr>cs_cancel := Some (cp_now w)\<rparr>) (cp_cases w)\<rparr>)
            else (Inr (), w))"

section \<open>Intent ledger\<close>

definition artifact_ref_from_row :: "intent_row \<Rightarrow> artifact_ref option result" where
  "artifact_ref_from_row r =
     (case (row_out_type r, row_out_schema r, row_out_id r, row_out_digest r, row_out_uri r) of
        (Some ty, Some sch, Some i, Some d, Some u) \<Rightarrow>
          bindR (mk_ref ty sch i d u) (\<lambda>ref. Inr (Some ref))
      | _ \<Rightarrow> Inr None)"

definition intent_record_from_row :: "string \<times> string \<Rightarrow> intent_row \<Rightarrow> intent_record result" where
  "intent_record_from_row k r =
     bindR (artifact_ref_from_row r) (\<lambda>out.
       Inr \<lparr>in_tenant = fst k, in_key = snd k, in_node = row_node r, in_case = row_case r,
            in_status = row_status r, in_input = row_input r, in_output = out,
            in_updated = row_updated r\<rparr>)"

definition fresh_row :: "intent_record \<Rightarrow> intent_row" where
  "fresh_row i = \<lparr>row_case = in_case i, row_node = in_node i, row_input = in_input i,
     row_status = in_status i, row_out_type = None, row_out_schema = None, row_out_id = None,
     row_out_digest = None, row_out_uri = None, row_updated = in_updated i\<rparr>"

text \<open>The upsert of \<open>prepare\<close>: a new row, or, unless the row is completed, the intent's columns
  over the old ones (the output columns are not written).\<close>

definition upsert_intent :: "intent_record \<Rightarrow> ((string \<times> string) \<times> intent_row) list \<Rightarrow>
    ((string \<times> string) \<times> intent_row) list" where
  "upsert_intent i tab =
     (let k = (in_tenant i, in_key i) in
      case map_of tab k of
        None \<Rightarrow> AList.update k (fresh_row i) tab
      | Some r \<Rightarrow>
          if row_status r \<noteq> COMPLETED
          then AList.update k (r\<lparr>row_case := in_case i, row_node := in_node i,
                 row_input := in_input i, row_status := in_status i, row_updated := in_updated i\<rparr>) tab
          else tab)"

definition ledger_prepare :: "intent_record \<Rightarrow> (control_plane, intent_record) io" where
  "ledger_prepare i w =
     (if \<not> cp_intent_pool w then (Inl (RuntimeError ''PostgresIntentLedger has been closed''), w)
      else if map_of (cp_cases w) (in_tenant i, in_case i) = None
        then (Inl (DatabaseError ''node_intents_case_fkey''), w)
      else
        let tab = upsert_intent i (cp_intents w); k = (in_tenant i, in_key i) in
        case map_of tab k of
          None \<Rightarrow> (Inl (RuntimeError ''intent prepare did not persist a row''), w\<lparr>cp_intents := tab\<rparr>)
        | Some r \<Rightarrow> (intent_record_from_row k r, w\<lparr>cp_intents := tab\<rparr>))"

definition ledger_get :: "string \<Rightarrow> string \<Rightarrow> (control_plane, intent_record option) io" where
  "ledger_get tenant key w =
     (if \<not> cp_intent_pool w then (Inl (RuntimeError ''PostgresIntentLedger has been closed''), w)
      else (case map_of (cp_intents w) (tenant, key) of
              None \<Rightarrow> Inr None
            | Some r \<Rightarrow> bindR (intent_record_from_row (tenant, key) r) (\<lambda>i. Inr (Some i)), w))"

definition ledger_complete ::
    "string \<Rightarrow> string \<Rightarrow> artifact_ref \<Rightarrow> (control_plane, intent_record) io" where
  "ledger_complete tenant key out w =
     (if \<not> cp_intent_pool w then (Inl (RuntimeError ''PostgresIntentLedger has been closed''), w)
      else case map_of (cp_intents w) (tenant, key) of
          None \<Rightarrow> (Inl (ValueError ''cannot complete intent: no prepared intent found''), w)
        | Some r \<Rightarrow>
            let r' = r\<lparr>row_status := COMPLETED, row_out_type := Some (ref_type out),
                  row_out_schema := Some (ref_schema out), row_out_id := Some (ref_id out),
                  row_out_digest := Some (ref_digest out), row_out_uri := Some (ref_uri out),
                  row_updated := Aware (cp_now w)\<rparr> in
            (intent_record_from_row (tenant, key) r',
             w\<lparr>cp_intents := AList.update (tenant, key) r' (cp_intents w)\<rparr>))"

definition ledger_mark_unknown :: "string \<Rightarrow> string \<Rightarrow> (control_plane, intent_record) io" where
  "ledger_mark_unknown tenant key w =
     (if \<not> cp_intent_pool w then (Inl (RuntimeError ''PostgresIntentLedger has been closed''), w)
      else case map_of (cp_intents w) (tenant, key) of
          None \<Rightarrow> (Inl (ValueError ''cannot mark intent unknown: no pending intent found''), w)
        | Some r \<Rightarrow>
            if row_status r = PENDING
            then let r' = r\<lparr>row_status := UNKNOWN, row_updated := Aware (cp_now w)\<rparr> in
                 (intent_record_from_row (tenant, key) r',
                  w\<lparr>cp_intents := AList.update (tenant, key) r' (cp_intents w)\<rparr>)
            else (Inl (ValueError ''cannot mark intent unknown: no pending intent found''), w))"

section \<open>Outbox\<close>

definition outbox_find :: "string \<Rightarrow> outbox_record list \<Rightarrow> outbox_record option" where
  "outbox_find ev tab = find (\<lambda>r. ob_event r = ev) tab"

definition outbox_publish :: "outbox_record \<Rightarrow> (control_plane, outbox_record) io" where
  "outbox_publish rec w =
     (if \<not> cp_outbox_pool w then (Inl (RuntimeError ''PostgresOutboxAdapter has been closed''), w)
      else case outbox_find (ob_event rec) (cp_outbox w) of
          Some old \<Rightarrow> (Inr old, w)
        | None \<Rightarrow>
            if map_of (cp_cases w) (ob_tenant rec, ob_case rec) = None
            then (Inl (DatabaseError ''outbox_case_fkey''), w)
            else (Inr rec, w\<lparr>cp_outbox := cp_outbox w @ [rec]\<rparr>))"

text \<open>\<open>locked\<close> are the events whose rows another transaction holds: \<open>SKIP LOCKED\<close> passes them
  over. The statement's own locks end with its transaction, when \<open>claim\<close> returns.\<close>

definition outbox_claim ::
    "(outbox_record \<Rightarrow> bool) \<Rightarrow> string \<Rightarrow> int \<Rightarrow> (control_plane, outbox_record list) io" where
  "outbox_claim locked tenant limit w =
     (if limit \<le> 0 then (Inl (ValueError ''limit must be positive''), w)
      else if \<not> cp_outbox_pool w then (Inl (RuntimeError ''PostgresOutboxAdapter has been closed''), w)
      else (Inr (take (nat limit) (sort_key ob_available (filter
               (\<lambda>r. ob_tenant r = tenant \<and> ob_delivered r = None \<and> ob_available r \<le> cp_now w \<and>
                    \<not> locked r) (cp_outbox w)))), w))"

definition outbox_update ::
    "string \<Rightarrow> string \<Rightarrow> (outbox_record \<Rightarrow> outbox_record) \<Rightarrow> (control_plane, outbox_record) io" where
  "outbox_update tenant ev f w =
     (if \<not> cp_outbox_pool w then (Inl (RuntimeError ''PostgresOutboxAdapter has been closed''), w)
      else case find (\<lambda>r. ob_tenant r = tenant \<and> ob_event r = ev) (cp_outbox w) of
          None \<Rightarrow> (Inl (ValueError ''no outbox record found''), w)
        | Some r \<Rightarrow> (Inr (f r), w\<lparr>cp_outbox :=
              map (\<lambda>x. if ob_tenant x = tenant \<and> ob_event x = ev then f x else x) (cp_outbox w)\<rparr>))"

definition outbox_mark_delivered :: "string \<Rightarrow> string \<Rightarrow> (control_plane, outbox_record) io" where
  "outbox_mark_delivered tenant ev w =
     outbox_update tenant ev (\<lambda>r. r\<lparr>ob_delivered := Some (cp_now w)\<rparr>) w"

definition outbox_mark_failed ::
    "string \<Rightarrow> string \<Rightarrow> string \<Rightarrow> (control_plane, outbox_record) io" where
  "outbox_mark_failed tenant ev err w =
     outbox_update tenant ev (\<lambda>r. r\<lparr>ob_attempts := ob_attempts r + 1, ob_error := Some err\<rparr>) w"

section \<open>Steps of the ledger\<close>

text \<open>One step of any worker against the ledger: an operation of the adapter, successful or
  raising, at any time.\<close>

inductive ledger_step :: "control_plane \<Rightarrow> control_plane \<Rightarrow> bool" where
  prepare: "ledger_step w (snd (ledger_prepare i w))"
| complete: "ledger_step w (snd (ledger_complete tenant key out w))"
| mark_unknown: "ledger_step w (snd (ledger_mark_unknown tenant key w))"
| get: "ledger_step w (snd (ledger_get tenant key w))"
| tick: "ledger_step w (w\<lparr>cp_now := cp_now w + int d\<rparr>)"

inductive_cases ledger_stepE: "ledger_step w w'"

definition intent_of :: "control_plane \<Rightarrow> string \<Rightarrow> string \<Rightarrow> intent_row option" where
  "intent_of w tenant key = map_of (cp_intents w) (tenant, key)"

definition row_has_output :: "intent_row \<Rightarrow> bool" where
  "row_has_output r \<longleftrightarrow> row_out_type r \<noteq> None \<and> row_out_schema r \<noteq> None \<and> row_out_id r \<noteq> None \<and>
     row_out_digest r \<noteq> None \<and> row_out_uri r \<noteq> None"

text \<open>Ledger facts every client may rely on.\<close>

lemmas ledger_defs = ledger_prepare_def ledger_complete_def ledger_mark_unknown_def ledger_get_def
  intent_of_def upsert_intent_def fresh_row_def

lemma ledger_get_world [simp]: "snd (ledger_get t k w) = w"
  by (simp add: ledger_get_def)

lemma ledger_prepare_other:
  "(t, k) \<noteq> (in_tenant i, in_key i) \<Longrightarrow> intent_of (snd (ledger_prepare i w)) t k = intent_of w t k"
  by (auto simp: ledger_defs Let_def split: option.splits)

lemma ledger_complete_other:
  "(t, k) \<noteq> (t', k') \<Longrightarrow> intent_of (snd (ledger_complete t' k' out w)) t k = intent_of w t k"
  by (auto simp: ledger_defs Let_def split: option.splits)

lemma ledger_mark_unknown_other:
  "(t, k) \<noteq> (t', k') \<Longrightarrow> intent_of (snd (ledger_mark_unknown t' k' w)) t k = intent_of w t k"
  by (auto simp: ledger_defs Let_def split: option.splits)

lemma ledger_prepare_completed:
  "intent_of w t k = Some r \<Longrightarrow> row_status r = COMPLETED \<Longrightarrow>
     intent_of (snd (ledger_prepare i w)) t k = Some r"
  by (cases "(t, k) = (in_tenant i, in_key i)")
    (auto simp: ledger_prepare_other, auto simp: ledger_defs Let_def split: option.splits)

lemma ledger_mark_unknown_completed:
  "intent_of w t k = Some r \<Longrightarrow> row_status r = COMPLETED \<Longrightarrow>
     intent_of (snd (ledger_mark_unknown t' k' w)) t k = Some r"
  by (cases "(t, k) = (t', k')")
    (auto simp: ledger_mark_unknown_other, auto simp: ledger_defs Let_def split: option.splits)

lemma ledger_complete_completed:
  assumes "intent_of w t k = Some r" and "row_status r = COMPLETED"
  shows "\<exists>r'. intent_of (snd (ledger_complete t' k' out w)) t k = Some r' \<and> row_status r' = COMPLETED \<and>
     row_input r' = row_input r \<and> row_node r' = row_node r \<and> row_case r' = row_case r"
proof (cases "(t, k) = (t', k')")
  case True
  with assms show ?thesis by (auto simp: ledger_defs Let_def split: option.splits)
next
  case False
  with assms show ?thesis by (auto simp: ledger_complete_other)
qed

lemma ledger_step_completed:
  assumes "ledger_step w w'" and "intent_of w t k = Some r" and "row_status r = COMPLETED"
  shows "\<exists>r'. intent_of w' t k = Some r' \<and> row_status r' = COMPLETED \<and>
     row_input r' = row_input r \<and> row_node r' = row_node r \<and> row_case r' = row_case r"
  using assms
proof (induction rule: ledger_step.induct)
  case (prepare w i)
  then show ?case by (auto dest: ledger_prepare_completed)
next
  case (complete w tenant key out)
  then show ?case by (rule ledger_complete_completed)
next
  case (mark_unknown w tenant key)
  then show ?case by (auto dest: ledger_mark_unknown_completed)
next
  case (get w tenant key)
  then show ?case by simp
next
  case (tick w d)
  then show ?case by (simp add: intent_of_def)
qed

lemma mk_ref_valid: "valid_ref r \<Longrightarrow>
    mk_ref (ref_type r) (ref_schema r) (ref_id r) (ref_digest r) (ref_uri r) = Inr r"
  by (cases r) (simp add: mk_ref_def Let_def)


section \<open>The ledger as an interface\<close>

text \<open>What the node runtime relies on (\<open>ports/intents.py\<close>): \<open>usable w t c\<close> says the ledger
  accepts intents of case \<open>c\<close> of tenant \<open>t\<close>.\<close>

locale intent_ledger =
  fixes get :: "string \<Rightarrow> string \<Rightarrow> ('w, intent_record option) io"
    and prepare :: "intent_record \<Rightarrow> ('w, intent_record) io"
    and complete :: "string \<Rightarrow> string \<Rightarrow> artifact_ref \<Rightarrow> ('w, intent_record) io"
    and mark_unknown :: "string \<Rightarrow> string \<Rightarrow> ('w, intent_record) io"
    and usable :: "'w \<Rightarrow> string \<Rightarrow> string \<Rightarrow> bool"
  assumes get_pure: "snd (get t k w) = w"
    and prepare_open: "usable w (in_tenant i) (in_case i) \<Longrightarrow> in_status i = PENDING \<Longrightarrow>
      fst (get (in_tenant i) (in_key i) w) = Inr old \<Longrightarrow>
      (\<And>x. old = Some x \<Longrightarrow> in_status x \<noteq> COMPLETED) \<Longrightarrow>
      \<exists>i' w'. prepare i w = (Inr i', w') \<and> fst (get (in_tenant i) (in_key i) w') = Inr (Some i') \<and>
        in_status i' = PENDING"
    and prepare_done: "usable w (in_tenant i) (in_case i) \<Longrightarrow>
      fst (get (in_tenant i) (in_key i) w) = Inr (Some x) \<Longrightarrow> in_status x = COMPLETED \<Longrightarrow>
      fst (get (in_tenant i) (in_key i) (snd (prepare i w))) = Inr (Some x)"
    and complete_known: "fst (get t k w) = Inr (Some x) \<Longrightarrow> valid_ref out \<Longrightarrow>
      \<exists>i' w'. complete t k out w = (Inr i', w') \<and> fst (get t k w') = Inr (Some i') \<and>
        in_status i' = COMPLETED \<and> in_output i' = Some out"
    and mark_pending: "fst (get t k w) = Inr (Some x) \<Longrightarrow> in_status x = PENDING \<Longrightarrow>
      \<exists>i' w'. mark_unknown t k w = (Inr i', w') \<and> fst (get t k w') = Inr (Some i') \<and>
        in_status i' = UNKNOWN"
    and usable_kept: "usable w t c \<Longrightarrow> usable (snd (prepare i w)) t c"
      "usable w t c \<Longrightarrow> usable (snd (mark_unknown t' k w)) t c"
      "usable w t c \<Longrightarrow> usable (snd (complete t' k out w)) t c"
begin

text \<open>The protocol of one execution: after \<open>prepare\<close> and \<open>complete\<close> the intent is completed and
  carries the output.\<close>

lemma prepare_complete:
  assumes "usable w (in_tenant i) (in_case i)" and "in_status i = PENDING" and "valid_ref out"
    and "fst (get (in_tenant i) (in_key i) w) = Inr old"
    and "\<And>x. old = Some x \<Longrightarrow> in_status x \<noteq> COMPLETED"
  shows "\<exists>x. fst (get (in_tenant i) (in_key i)
      (snd (complete (in_tenant i) (in_key i) out (snd (prepare i w))))) = Inr (Some x) \<and>
    in_status x = COMPLETED \<and> in_output x = Some out"
proof -
  from prepare_open[OF assms(1,2,4,5)] obtain i' w' where
    p: "prepare i w = (Inr i', w')" and g: "fst (get (in_tenant i) (in_key i) w') = Inr (Some i')"
    by blast
  from complete_known[OF g assms(3)] p show ?thesis by auto
qed

text \<open>A failed execution leaves the intent unknown, and a retry can prepare it again.\<close>

lemma retry_after_unknown:
  assumes "usable w (in_tenant i) (in_case i)" and "in_status i = PENDING"
    and "fst (get (in_tenant i) (in_key i) w) = Inr (Some x)" and "in_status x = PENDING"
  shows "\<exists>i' w'. prepare i (snd (mark_unknown (in_tenant i) (in_key i) w)) = (Inr i', w') \<and>
    in_status i' = PENDING"
proof -
  from mark_pending[OF assms(3,4)] obtain y w1 where
    m: "mark_unknown (in_tenant i) (in_key i) w = (Inr y, w1)"
    and g: "fst (get (in_tenant i) (in_key i) w1) = Inr (Some y)" and y: "in_status y = UNKNOWN"
    by blast
  have "usable w1 (in_tenant i) (in_case i)"
    using usable_kept(2)[OF assms(1)] m by (metis snd_conv)
  from prepare_open[OF this assms(2) g] y m show ?thesis by auto
qed

end

definition ledger_usable :: "control_plane \<Rightarrow> string \<Rightarrow> string \<Rightarrow> bool" where
  "ledger_usable w t c \<longleftrightarrow> cp_intent_pool w \<and> map_of (cp_cases w) (t, c) \<noteq> None"

lemma intent_record_from_row_simps:
  "intent_record_from_row k r = Inr i \<Longrightarrow> in_status i = row_status r \<and> in_tenant i = fst k \<and> in_key i = snd k"
  by (auto simp: intent_record_from_row_def bindR_Inr_iff)

lemma ledger_get_row:
  "fst (ledger_get t k w) = Inr (Some i) \<longleftrightarrow>
     cp_intent_pool w \<and> (\<exists>r. map_of (cp_intents w) (t, k) = Some r \<and>
       intent_record_from_row (t, k) r = Inr i)"
  by (auto simp: ledger_get_def bindR_Inr_iff split: option.splits)

lemma ledger_get_None:
  "fst (ledger_get t k w) = Inr None \<longleftrightarrow> cp_intent_pool w \<and> map_of (cp_intents w) (t, k) = None"
  by (auto simp: ledger_get_def bindR_Inr_iff split: option.splits)

lemma ledger_prepare_usable: "ledger_usable w t c \<Longrightarrow> ledger_usable (snd (ledger_prepare i w)) t c"
  by (auto simp: ledger_usable_def ledger_prepare_def Let_def split: option.splits)

lemma ledger_complete_usable: "ledger_usable w t c \<Longrightarrow> ledger_usable (snd (ledger_complete t' k out w)) t c"
  by (auto simp: ledger_usable_def ledger_complete_def Let_def split: option.splits)

lemma ledger_mark_unknown_usable: "ledger_usable w t c \<Longrightarrow> ledger_usable (snd (ledger_mark_unknown t' k w)) t c"
  by (auto simp: ledger_usable_def ledger_mark_unknown_def Let_def split: option.splits)

lemma record_status_update:
  "intent_record_from_row k r = Inr i \<Longrightarrow>
     intent_record_from_row k (r\<lparr>row_case := c, row_node := n, row_input := d, row_status := s, row_updated := u\<rparr>) =
       Inr (i\<lparr>in_case := c, in_node := n, in_input := d, in_status := s, in_updated := u\<rparr>)"
  by (auto simp: intent_record_from_row_def artifact_ref_from_row_def bindR_Inr_iff split: option.splits)

lemma record_fresh_row:
  "intent_record_from_row (in_tenant i, in_key i) (fresh_row i) = Inr (i\<lparr>in_output := None\<rparr>)"
  by (cases i) (simp add: intent_record_from_row_def artifact_ref_from_row_def fresh_row_def)

lemma ledger_prepare_open:
  assumes "ledger_usable w (in_tenant i) (in_case i)"
    and "in_status i = PENDING"
    and "fst (ledger_get (in_tenant i) (in_key i) w) = Inr old"
    and "\<And>x. old = Some x \<Longrightarrow> in_status x \<noteq> COMPLETED"
  shows "\<exists>i' w'. ledger_prepare i w = (Inr i', w') \<and>
      fst (ledger_get (in_tenant i) (in_key i) w') = Inr (Some i') \<and> in_status i' = PENDING"
proof (cases old)
  case None
  with assms show ?thesis
    by (auto simp: ledger_get_None ledger_usable_def ledger_prepare_def upsert_intent_def Let_def
        record_fresh_row ledger_get_row)
next
  case (Some x)
  with assms(3) obtain r where r: "map_of (cp_intents w) (in_tenant i, in_key i) = Some r"
    "intent_record_from_row (in_tenant i, in_key i) r = Inr x"
    by (auto simp: ledger_get_row)
  with assms(4)[OF Some] have "row_status r \<noteq> COMPLETED"
    by (metis intent_record_from_row_simps)
  with r assms(1,2) show ?thesis
    by (auto simp: ledger_usable_def ledger_prepare_def upsert_intent_def Let_def
        record_status_update[OF r(2)] ledger_get_row)
qed

lemma ledger_complete_known:
  assumes "fst (ledger_get t k w) = Inr (Some x)" and "valid_ref out"
  shows "\<exists>i' w'. ledger_complete t k out w = (Inr i', w') \<and> fst (ledger_get t k w') = Inr (Some i') \<and>
      in_status i' = COMPLETED \<and> in_output i' = Some out"
  using assms
  by (auto simp: ledger_get_row ledger_complete_def Let_def intent_record_from_row_def
      artifact_ref_from_row_def mk_ref_valid)

lemma ledger_mark_pending:
  assumes "fst (ledger_get t k w) = Inr (Some x)" and "in_status x = PENDING"
  shows "\<exists>i' w'. ledger_mark_unknown t k w = (Inr i', w') \<and> fst (ledger_get t k w') = Inr (Some i') \<and>
      in_status i' = UNKNOWN"
proof -
  from assms(1) obtain r where r: "cp_intent_pool w" "map_of (cp_intents w) (t, k) = Some r"
    "intent_record_from_row (t, k) r = Inr x"
    by (auto simp: ledger_get_row)
  then have "row_status r = PENDING" using assms(2) intent_record_from_row_simps by metis
  with r record_status_update[OF r(3), where c = "row_case r" and n = "row_node r"
    and d = "row_input r" and s = UNKNOWN and u = "Aware (cp_now w)"]
  show ?thesis by (auto simp: ledger_mark_unknown_def Let_def ledger_get_row)
qed

lemma ledger_prepare_done:
  assumes "ledger_usable w (in_tenant i) (in_case i)"
    and "fst (ledger_get (in_tenant i) (in_key i) w) = Inr (Some x)" and "in_status x = COMPLETED"
  shows "fst (ledger_get (in_tenant i) (in_key i) (snd (ledger_prepare i w))) = Inr (Some x)"
proof -
  from assms(2) obtain r where r: "map_of (cp_intents w) (in_tenant i, in_key i) = Some r"
    "intent_record_from_row (in_tenant i, in_key i) r = Inr x"
    by (auto simp: ledger_get_row)
  with assms(3) have "row_status r = COMPLETED" using intent_record_from_row_simps by metis
  with r assms(1) show ?thesis
    by (auto simp: ledger_usable_def ledger_prepare_def upsert_intent_def Let_def ledger_get_row)
qed

interpretation pg: intent_ledger ledger_get ledger_prepare ledger_complete ledger_mark_unknown
    ledger_usable
  by unfold_locales
    (simp, erule (2) ledger_prepare_open, blast, erule (2) ledger_prepare_done,
      erule (1) ledger_complete_known, erule (1) ledger_mark_pending,
      erule ledger_prepare_usable, erule ledger_mark_unknown_usable, erule ledger_complete_usable)


section \<open>Outbox and case index\<close>

lemma outbox_update_Inr:
  assumes "outbox_update t ev f w = (Inr r, w')"
  shows "cp_outbox w' = map (\<lambda>x. if ob_tenant x = t \<and> ob_event x = ev then f x else x) (cp_outbox w)"
    and "cp_now w' = cp_now w" and "cp_cases w' = cp_cases w"
  using assms by (auto simp: outbox_update_def split: if_splits option.splits)

lemma outbox_claim_Inr:
  assumes "outbox_claim locked t n w = (Inr rs, w')"
  shows "w' = w" and "set rs \<subseteq> set (cp_outbox w)" and "sorted (map ob_available rs)"
    and "length rs \<le> nat n"
    and "\<And>r. r \<in> set rs \<Longrightarrow> ob_tenant r = t \<and> ob_delivered r = None \<and> ob_available r \<le> cp_now w"
proof -
  let ?sel = "filter (\<lambda>r. ob_tenant r = t \<and> ob_delivered r = None \<and> ob_available r \<le> cp_now w \<and>
                \<not> locked r) (cp_outbox w)"
  from assms have rs: "rs = take (nat n) (sort_key ob_available ?sel)" and w': "w' = w"
    by (auto simp: outbox_claim_def split: if_splits)
  then have sub: "set rs \<subseteq> set ?sel"
    using set_take_subset[of "nat n" "sort_key ob_available ?sel"] by (simp add: rs)
  then show "set rs \<subseteq> set (cp_outbox w)" by auto
  have av: "map ob_available rs = take (nat n) (map ob_available (sort_key ob_available ?sel))"
    by (simp add: rs take_map)
  show "sorted (map ob_available rs)" unfolding av by (rule sorted_wrt_take) (rule sorted_sort_key)
  show "w' = w" by (rule w')
  show "length rs \<le> nat n" by (simp add: rs)
  show "\<And>r. r \<in> set rs \<Longrightarrow> ob_tenant r = t \<and> ob_delivered r = None \<and> ob_available r \<le> cp_now w"
    using sub by auto
qed

section \<open>Properties\<close>

text \<open>C2. Once an intent is completed, no sequence of ledger operations by any workers, in any
  order, makes it anything else, and its case, node and input digest stay what they were: a
  retry can never downgrade a completed intent.\<close>

theorem completed_intent_stays_completed:
  assumes "ledger_step\<^sup>*\<^sup>* w w'" and "intent_of w t k = Some r" and "row_status r = COMPLETED"
  shows "\<exists>r'. intent_of w' t k = Some r' \<and> row_status r' = COMPLETED \<and>
     row_input r' = row_input r \<and> row_node r' = row_node r \<and> row_case r' = row_case r"
  using assms
proof (induction rule: rtranclp_induct)
  case base
  then show ?case by blast
next
  case (step y z)
  from step.IH[OF step.prems] obtain r1 where r1: "intent_of y t k = Some r1"
    "row_status r1 = COMPLETED" "row_input r1 = row_input r" "row_node r1 = row_node r"
    "row_case r1 = row_case r" by blast
  from ledger_step_completed[OF step.hyps(2) r1(1,2)] r1(3-5) show ?case by auto
qed

definition demo_plane :: control_plane where
  "demo_plane = \<lparr>cp_cases = [((''t'', ''c''), \<lparr>cs_thread = ''th'', cs_lane = ''manual'',
      cs_status = ''running'', cs_node = None, cs_cancel = None, cs_updated = 0\<rparr>)],
    cp_intents = [((''t'', ''k''), \<lparr>row_case = ''c'', row_node = ''S01.10'', row_input = ''d'',
      row_status = COMPLETED, row_out_type = Some ''JsonArtifact'', row_out_schema = Some ''1.0'',
      row_out_id = Some ''o'', row_out_digest = Some ''x'', row_out_uri = Some ''u'',
      row_updated = Aware 0\<rparr>)],
    cp_outbox = [], cp_now = 5, cp_case_pool = True, cp_intent_pool = True, cp_outbox_pool = True\<rparr>"

definition demo_intent :: intent_record where
  "demo_intent = \<lparr>in_tenant = ''t'', in_key = ''k'', in_node = ''S01.20'', in_case = ''c'',
     in_status = PENDING, in_input = ''e'', in_output = None, in_updated = Aware 9\<rparr>"

theorem completed_intent_stays_completed_witness:
  "\<exists>r'. intent_of (snd (ledger_prepare demo_intent demo_plane)) ''t'' ''k'' = Some r' \<and>
     row_status r' = COMPLETED \<and> row_input r' = ''d''"
proof -
  let ?w = "demo_plane"
  have st: "ledger_step\<^sup>*\<^sup>* ?w (snd (ledger_prepare demo_intent ?w))"
    by (rule r_into_rtranclp) (rule ledger_step.prepare)
  obtain r where r: "intent_of ?w ''t'' ''k'' = Some r" "row_status r = COMPLETED" "row_input r = ''d''"
    by (simp add: demo_plane_def intent_of_def)
  from completed_intent_stays_completed[OF st r(1,2)] r(3) show ?thesis by auto
qed

text \<open>The round trip a node execution makes: preparing an intent that is not completed and
  completing it with a valid reference makes a later lookup return the completed intent with
  exactly that reference.\<close>

theorem ledger_prepare_complete_get:
  assumes "ledger_usable w (in_tenant i) (in_case i)" and "in_status i = PENDING"
    and "valid_ref out" and "fst (ledger_get (in_tenant i) (in_key i) w) = Inr old"
    and "\<And>x. old = Some x \<Longrightarrow> in_status x \<noteq> COMPLETED"
  shows "\<exists>x. fst (ledger_get (in_tenant i) (in_key i)
      (snd (ledger_complete (in_tenant i) (in_key i) out (snd (ledger_prepare i w))))) = Inr (Some x) \<and>
    in_status x = COMPLETED \<and> in_output x = Some out"
  using assms by (rule pg.prepare_complete)

theorem ledger_prepare_complete_get_witness:
  "let w = demo_plane\<lparr>cp_intents := []\<rparr>;
       out = \<lparr>ref_type = ''JsonArtifact'', ref_schema = ''1.0'', ref_id = ''o'',
         ref_digest = rep_digest CHR ''a'', ref_uri = ''u''\<rparr>
   in \<exists>x. fst (ledger_get ''t'' ''k'' (snd (ledger_complete ''t'' ''k'' out
        (snd (ledger_prepare demo_intent w))))) = Inr (Some x) \<and> in_status x = COMPLETED \<and>
      in_output x = Some out"
proof -
  let ?w = "demo_plane\<lparr>cp_intents := []\<rparr>"
  let ?out = "\<lparr>ref_type = ''JsonArtifact'', ref_schema = ''1.0'', ref_id = ''o'',
         ref_digest = rep_digest CHR ''a'', ref_uri = ''u''\<rparr>"
  have u: "ledger_usable ?w (in_tenant demo_intent) (in_case demo_intent)"
    by (simp add: ledger_usable_def demo_plane_def demo_intent_def)
  have p: "in_status demo_intent = PENDING" by (simp add: demo_intent_def)
  have v: "valid_ref ?out"
    by (simp add: valid_ref_def len_in_def valid_rep_digest hex_digit_def)
  have g: "fst (ledger_get (in_tenant demo_intent) (in_key demo_intent) ?w) = Inr None"
    by (simp add: ledger_get_def demo_plane_def)
  from ledger_prepare_complete_get[OF u p v g] show ?thesis by (simp add: demo_intent_def)
qed

text \<open>An event marked delivered is never handed out again by a later claim of its tenant,
  and every claim hands out at most the requested number of the tenant's own undelivered, due
  events, oldest first.\<close>

theorem delivered_event_not_claimed:
  assumes "outbox_mark_delivered t ev w = (Inr r, w1)" and "cp_now w1 \<le> cp_now w2"
    and "cp_outbox w2 = cp_outbox w1" and "outbox_claim locked t n w2 = (Inr rs, w3)"
  shows "ev \<notin> ob_event ` set rs \<and> length rs \<le> nat n \<and> sorted (map ob_available rs) \<and>
    (\<forall>x \<in> set rs. ob_tenant x = t \<and> ob_delivered x = None \<and> ob_available x \<le> cp_now w2)"
proof -
  note claim = outbox_claim_Inr[OF assms(4)]
  have tab: "cp_outbox w1 = map (\<lambda>x. if ob_tenant x = t \<and> ob_event x = ev
      then x\<lparr>ob_delivered := Some (cp_now w)\<rparr> else x) (cp_outbox w)"
    using outbox_update_Inr(1)[OF assms(1)[unfolded outbox_mark_delivered_def]] by simp
  have "ob_event x \<noteq> ev" if x: "x \<in> set rs" for x
  proof
    assume ev: "ob_event x = ev"
    have "x \<in> set (cp_outbox w1)" using x claim(2) assms(3) by auto
    then obtain y where y: "x = (if ob_tenant y = t \<and> ob_event y = ev
        then y\<lparr>ob_delivered := Some (cp_now w)\<rparr> else y)" unfolding tab set_map by (rule imageE)
    have "ob_tenant x = t" "ob_delivered x = None" using claim(5)[OF x] by simp_all
    with ev y show False by (cases "ob_tenant y = t \<and> ob_event y = ev") simp_all
  qed
  then have "ev \<notin> ob_event ` set rs" by auto
  with claim(3,4) claim(5) show ?thesis by simp
qed

theorem delivered_event_not_claimed_witness:
  "let rec = \<lparr>ob_event = ''e1'', ob_tenant = ''t'', ob_case = ''c'', ob_topic = ''h'', ob_payload = ''p'',
         ob_digest = ''d'', ob_available = 0, ob_delivered = None, ob_attempts = 0, ob_error = None\<rparr>;
       w = demo_plane\<lparr>cp_outbox := [rec, rec\<lparr>ob_event := ''e2''\<rparr>]\<rparr>;
       w1 = snd (outbox_mark_delivered ''t'' ''e1'' w)
   in \<exists>rs. fst (outbox_claim (\<lambda>_. False) ''t'' 5 w1) = Inr rs \<and> rs \<noteq> [] \<and> ''e1'' \<notin> ob_event ` set rs"
proof -
  let ?rec = "\<lparr>ob_event = ''e1'', ob_tenant = ''t'', ob_case = ''c'', ob_topic = ''h'', ob_payload = ''p'',
         ob_digest = ''d'', ob_available = 0, ob_delivered = None, ob_attempts = 0, ob_error = None\<rparr>"
  let ?w = "demo_plane\<lparr>cp_outbox := [?rec, ?rec\<lparr>ob_event := ''e2''\<rparr>]\<rparr>"
  obtain r w1 where m: "outbox_mark_delivered ''t'' ''e1'' ?w = (Inr r, w1)"
    by (simp add: outbox_mark_delivered_def outbox_update_def demo_plane_def)
  moreover obtain rs w3 where c: "outbox_claim (\<lambda>_. False) ''t'' 5 w1 = (Inr rs, w3)" "rs \<noteq> []"
    using m by (auto simp: outbox_mark_delivered_def outbox_update_def outbox_claim_def demo_plane_def)
  ultimately show ?thesis
    using delivered_event_not_claimed[OF m order_refl refl c(1)] by (auto simp: Let_def)
qed

text \<open>A case that was created is found again with the identity it was created with, and
  creating it a second time raises without changing the index.\<close>

theorem case_create_get:
  assumes "case_create st w = (Inr (), w')"
  shows "(\<exists>tenant cid st'. require_field st ''tenant_id'' = Inr tenant \<and>
      require_field st ''case_id'' = Inr cid \<and> fst (case_get tenant cid w') = Inr (Some st') \<and>
      (\<forall>k \<in> set required_fields. get_str st' k = get_str st k) \<and>
      get_str st' ''current_node'' = get_str st ''current_node'') \<and>
    case_create st w' = (Inl (ValueError ''case already exists''), w')"
proof -
  from assms obtain vs where vs: "mapR (require_field st) required_fields = Inr vs"
    by (cases "mapR (require_field st) required_fields") (auto simp: case_create_def)
  then obtain c th t l s where f: "require_field st ''case_id'' = Inr c"
    "require_field st ''thread_id'' = Inr th" "require_field st ''tenant_id'' = Inr t"
    "require_field st ''lane'' = Inr l" "require_field st ''status'' = Inr s" "vs = [c, th, t, l, s]"
    by (auto simp: required_fields_def bindR_Inr_iff)
  have g: "get_str st ''case_id'' = Some c" "get_str st ''thread_id'' = Some th"
    "get_str st ''tenant_id'' = Some t" "get_str st ''lane'' = Some l" "get_str st ''status'' = Some s"
    using f by (auto simp: require_field_def split: option.splits if_splits)
  from assms vs f(6) have ok: "cp_case_pool w" "l \<in> {''manual'', ''automatic''}"
    "map_of (cp_cases w) (t, c) = None"
    and w': "w' = w\<lparr>cp_cases := cp_cases w @ [((t, c), \<lparr>cs_thread = th, cs_lane = l, cs_status = s,
       cs_node = get_str st ''current_node'', cs_cancel = None, cs_updated = cp_now w\<rparr>)]\<rparr>"
    by (auto simp: case_create_def Let_def split: if_splits)
  have "case_create st w' = (Inl (ValueError ''case already exists''), w')"
    using ok vs f(6) by (auto simp: case_create_def w' Let_def map_add_def)
  moreover have "\<exists>st'. fst (case_get t c w') = Inr (Some st') \<and>
      (\<forall>k \<in> set required_fields. get_str st' k = get_str st k) \<and>
      get_str st' ''current_node'' = get_str st ''current_node''"
    using ok g by (auto simp: case_get_def w' map_add_def Let_def required_fields_def
        get_str_def[of "_(_ \<mapsto> _)"] get_str_def[of Map.empty] split: option.splits)
  ultimately show ?thesis using f by blast
qed

theorem case_create_get_witness:
  "\<exists>w'. case_create [''case_id'' \<mapsto> VStr ''n'', ''thread_id'' \<mapsto> VStr ''th2'', ''tenant_id'' \<mapsto> VStr ''t'',
      ''lane'' \<mapsto> VStr ''manual'', ''status'' \<mapsto> VStr ''running''] demo_plane = (Inr (), w') \<and>
    case_create [''case_id'' \<mapsto> VStr ''n'', ''thread_id'' \<mapsto> VStr ''th2'', ''tenant_id'' \<mapsto> VStr ''t'',
      ''lane'' \<mapsto> VStr ''manual'', ''status'' \<mapsto> VStr ''running''] w' =
      (Inl (ValueError ''case already exists''), w')"
proof -
  let ?st = "[''case_id'' \<mapsto> VStr ''n'', ''thread_id'' \<mapsto> VStr ''th2'', ''tenant_id'' \<mapsto> VStr ''t'',
      ''lane'' \<mapsto> VStr ''manual'', ''status'' \<mapsto> VStr ''running'']"
  obtain w' where h: "case_create ?st demo_plane = (Inr (), w')"
    by (simp add: case_create_def required_fields_def require_field_def get_str_def demo_plane_def Let_def)
  with case_create_get[OF h] show ?thesis by blast
qed

end
