(* ===== verification/Artifact_Store.thy ===== *)
theory Artifact_Store
  imports Control_Plane
begin

text \<open>
  Node executions, sealed artifacts and the S3 artifact store (\<open>s3_artifact_store.py\<close>).

  Stored bytes are canonical JSON. A \<open>blob\<close> is the value such bytes encode, so encoding is the
  identity here and \<open>sha\<close>, a parameter wherever it occurs, stands for
  \<open>sha256_digest (canonical_json v)\<close>. What is lost on the way back from JSON is written out
  where it is read back (\<^const>\<open>coerce_updates\<close>).
\<close>

section \<open>Node executions\<close>

datatype node_route = CONTINUE | CLARIFICATION | APPROVAL | REJECTED | MISSING | INCOMPARABLE
  | REVISION | QUARANTINE | MERGED | SUPPRESSED | REFRESH | CLOSED

fun route_value :: "node_route \<Rightarrow> string" where
  "route_value CONTINUE = ''continue''"
| "route_value CLARIFICATION = ''clarification''"
| "route_value APPROVAL = ''approval''"
| "route_value REJECTED = ''rejected''"
| "route_value MISSING = ''missing''"
| "route_value INCOMPARABLE = ''incomparable''"
| "route_value REVISION = ''revision''"
| "route_value QUARANTINE = ''quarantine''"
| "route_value MERGED = ''merged''"
| "route_value SUPPRESSED = ''suppressed''"
| "route_value REFRESH = ''refresh''"
| "route_value CLOSED = ''closed''"

lemma route_value_inject [simp]: "route_value a = route_value b \<longleftrightarrow> a = b"
  by (cases a; cases b) simp_all

record node_execution =
  ex_route :: node_route
  ex_updates :: updates

section \<open>Sealed artifacts\<close>

datatype body =
    BRequest optimization_request
  | BPortfolio portfolio string string    \<comment> \<open>strategies, digests of the finding set and the quality report\<close>
  | BRanking ranking_result
  | BSelected selected_solution
  | BVerification verification_report
  | BStatistical "effect_result list"
  | BSnapshot source_snapshot
  | BPatch patch_artifact
  | BRollback rollback_report
  | BDecision decision
  | BApply apply_result
  | BPlan execution_plan
  | BTasks task_list
  | BPlanQuality plan_quality
  | BManifest repository_manifest
  | BProvenance execution_provenance
  | BBaseline baseline_snapshot
  | BIsolation isolation_report
  | BComparability comparability_report
  | BMeasurement measurement
  | BReport optimization_report
  | BBundle evidence_bundle
  | BEvidenceQuality bool
  | BVerificationManifest "repository_command list"
  | BBranchEvidence "string option"       \<comment> \<open>why the branch has no evidence\<close>
  | BA3Intake a3_intake
  | BCatalog evidence_catalog
  | BSignals "problem_signal list"
  | BPrioritized prioritized_signals
  | BObservations observation_branch
  | BFindingDrafts "finding_draft list" "string list"
  | BCitations "citation_report list"
  | BJudgements "judgement list"
  | BFindings finding_set
  | BStrategyDrafts "strategy_draft list"
  | BStrategies "solution_strategy list"
  | BA3Quality a3_quality
  | BDirective revision_directive
  | BConvergence convergence_decision
  | BConverged converged_case
  | BIntake intake_envelope
  | BRequestDraft request_draft
  | BSourceIdentity source_identity
  | BProfile project_profile
  | BScope feature_scope
  | BObjective canonical_objective
  | BCriterionSet "criterion list" "string list"       \<comment> \<open>with the missing fields\<close>
  | BGuardrailSet "guardrail list" "string list"
  | BBudget execution_budget string                    \<comment> \<open>with the policy version\<close>
  | BWorkload workload_identity
  | BRequirements "evidence_requirement list" "string list"
  | BA1Quality a1_quality
  | BA1Approval a1_approval
  | BOther string

text \<open>An \<open>ArtifactEnvelope\<close> without its \<open>content_digest\<close>, which \<open>model_content_digest\<close> leaves out.\<close>

record envelope =
  env_type :: string
  env_id :: string
  env_tenant :: string
  env_case :: string
  env_created :: int
  env_parents :: "string list"
  env_body :: body

definition valid_envelope :: "envelope \<Rightarrow> bool" where
  "valid_envelope e \<longleftrightarrow> len_in 1 100 (env_type e) \<and> len_in 1 100 (env_id e) \<and>
     len_in 1 100 (env_tenant e) \<and> len_in 1 100 (env_case e) \<and> distinct (env_parents e) \<and>
     list_all (\<lambda>d. startswith d ''sha256:'' \<and> length d = 71) (env_parents e)"

datatype blob =
    Execution node_execution
  | Sealed envelope
  | NodeInput string state
  | Output worker_output
  | ReportJson string optimization_report   \<comment> \<open>case id and the facts of the report\<close>
  | PayloadJson manual_payload              \<comment> \<open>not an envelope\<close>
  | Document string

section \<open>The store\<close>

record artifact_store =
  as_bucket :: string
  as_objects :: "(string \<times> blob) list"

definition removeprefix :: "string \<Rightarrow> string \<Rightarrow> string" where
  "removeprefix p s = (case strip_prefix p s of None \<Rightarrow> s | Some r \<Rightarrow> r)"

definition object_key :: "string \<Rightarrow> string \<Rightarrow> string result" where
  "object_key tenant d =
     (if blank tenant then Inl (ValueError ''tenant_id must not be empty'')
      else Inr (tenant @ ''/'' @ removeprefix ''sha256:'' d))"

definition store_put_json ::
    "string \<Rightarrow> blob \<Rightarrow> string \<Rightarrow> string \<Rightarrow> (artifact_store, artifact_ref) io" where
  "store_put_json tenant content d ikey w =
     (if blank ikey then (Inl (ValueError ''idempotency_key must not be empty''), w)
      else case object_key tenant d of
          Inl e \<Rightarrow> (Inl e, w)
        | Inr key \<Rightarrow>
            (mk_ref ''JsonArtifact'' ''1.0'' key d (''s3://'' @ as_bucket w @ ''/'' @ key),
             if map_of (as_objects w) key = None
             then w\<lparr>as_objects := AList.update key content (as_objects w)\<rparr> else w))"

definition store_put_blob ::
    "string \<Rightarrow> blob \<Rightarrow> string \<Rightarrow> string \<Rightarrow> (artifact_store, artifact_ref) io" where
  "store_put_blob tenant content d media w =
     (if blank media then (Inl (ValueError ''media_type must not be empty''), w)
      else case object_key tenant d of
          Inl e \<Rightarrow> (Inl e, w)
        | Inr key \<Rightarrow>
            (mk_ref ''Blob'' ''1.0'' key d (''s3://'' @ as_bucket w @ ''/'' @ key),
             if map_of (as_objects w) key = None
             then w\<lparr>as_objects := AList.update key content (as_objects w)\<rparr> else w))"

text \<open>\<open>urlsplit\<close>: the scheme is compared in lower case; the host part, present after \<open>//\<close>, ends at
  the first \<open>/\<close>, \<open>?\<close> or \<open>#\<close>, the path at the first \<open>?\<close> or \<open>#\<close>.\<close>

definition uri_host :: "string \<Rightarrow> string" where
  "uri_host s = takeWhile (\<lambda>c. c \<notin> {CHR ''/'', CHR ''?'', CHR ''#''}) s"

definition uri_path :: "string \<Rightarrow> string" where
  "uri_path s = takeWhile (\<lambda>c. c \<notin> {CHR ''?'', CHR ''#''}) s"

definition split_location :: "string \<Rightarrow> string \<times> string" where
  "split_location s =
     (case strip_prefix ''//'' s of
        None \<Rightarrow> ([], uri_path s)
      | Some r \<Rightarrow> (uri_host r, uri_path (drop (length (uri_host r)) r)))"

definition parse_uri :: "string \<Rightarrow> (string \<times> string) result" where
  "parse_uri uri =
     (if \<not> startswith uri ''s3:'' \<and> \<not> startswith uri ''S3:''
      then Inl (ValueError ''unsupported artifact URI scheme'')
      else let (bucket, path) = split_location (drop 3 uri); key = lstrip CHR ''/'' path in
        if bucket = [] \<or> key = [] then Inl (ValueError ''malformed S3 artifact URI'')
        else Inr (bucket, key))"

definition store_read :: "string \<Rightarrow> artifact_ref \<Rightarrow> (artifact_store, blob) io" where
  "store_read tenant ref w =
     (case parse_uri (ref_uri ref) of
        Inl e \<Rightarrow> (Inl e, w)
      | Inr (bucket, key) \<Rightarrow>
          if bucket \<noteq> as_bucket w
          then (Inl (ValueError ''artifact ref bucket does not match configured bucket''), w)
          else if \<not> startswith key (tenant @ ''/'')
          then (Inl (ValueError ''artifact ref does not belong to the requesting tenant''), w)
          else (index (as_objects w) key (DatabaseError ''NoSuchKey''), w))"

definition store_verify :: "(blob \<Rightarrow> string) \<Rightarrow> string \<Rightarrow> artifact_ref \<Rightarrow> artifact_store \<Rightarrow> bool" where
  "store_verify sha tenant ref w =
     (case fst (store_read tenant ref w) of
        Inl _ \<Rightarrow> False
      | Inr content \<Rightarrow> sha content = ref_digest ref)"

section \<open>Facts\<close>

text \<open>Names that survive being written into and read back from an object URI.\<close>

definition plain_name :: "string \<Rightarrow> bool" where
  "plain_name s \<longleftrightarrow> s \<noteq> [] \<and> set s \<inter> {CHR ''/'', CHR ''?'', CHR ''#''} = {}"

lemma strip_prefix_sha: "valid_digest d \<Longrightarrow> \<exists>h. d = ''sha256:'' @ h \<and> length h = 64 \<and> list_all hex_digit h"
  by (auto simp: valid_digest_def strip_prefix_Some split: option.splits)

lemma hex_digit_plain: "hex_digit c \<Longrightarrow> c \<notin> {CHR ''/'', CHR ''?'', CHR ''#''}"
  by (auto simp: hex_digit_def)

lemma plain_nameD: "plain_name s \<Longrightarrow> c \<in> set s \<Longrightarrow> c \<notin> {CHR ''/'', CHR ''?'', CHR ''#''}"
  by (auto simp: plain_name_def)

lemma uri_host_plain: "plain_name b \<Longrightarrow> uri_host (b @ CHR ''/'' # r) = b"
  unfolding uri_host_def by (subst takeWhile_append2) (auto dest: plain_nameD)

lemma uri_path_plain:
  "plain_name t \<Longrightarrow> list_all hex_digit h \<Longrightarrow>
     uri_path (CHR ''/'' # t @ CHR ''/'' # h) = CHR ''/'' # t @ CHR ''/'' # h"
  unfolding uri_path_def takeWhile_eq_all_conv
  by (auto simp: list_all_iff dest: plain_nameD hex_digit_plain)

lemma parse_uri_object:
  assumes b: "plain_name b" and t: "plain_name t" and h: "list_all hex_digit h"
  shows "parse_uri (''s3://'' @ b @ ''/'' @ (t @ ''/'' @ h)) = Inr (b, t @ ''/'' @ h)"
proof -
  have "split_location (CHR ''/'' # CHR ''/'' # b @ CHR ''/'' # t @ CHR ''/'' # h) =
      (b, CHR ''/'' # t @ CHR ''/'' # h)"
    by (simp add: split_location_def strip_prefix_def uri_host_plain[OF b] uri_path_plain[OF t h])
  moreover have "lstrip CHR ''/'' (CHR ''/'' # t @ CHR ''/'' # h) = t @ CHR ''/'' # h"
    using t by (cases t) (auto simp: lstrip_def plain_name_def)
  moreover have "b \<noteq> []" using b by (simp add: plain_name_def)
  ultimately show ?thesis by (simp add: parse_uri_def startswith_def numeral_3_eq_3)
qed

text \<open>When the store can take \<open>c\<close> under digest \<open>d\<close> for tenant \<open>t\<close>: the names survive the URI,
  the reference's fields keep their declared lengths (an object key is the tenant, a slash and
  64 digits, at most 100 characters) and no other content is stored under the same digest.\<close>

definition store_fits :: "artifact_store \<Rightarrow> string \<Rightarrow> blob \<Rightarrow> string \<Rightarrow> bool" where
  "store_fits w t c d \<longleftrightarrow> plain_name (as_bucket w) \<and> length (as_bucket w) \<le> 63 \<and> plain_name t \<and>
     \<not> blank t \<and> length t \<le> 35 \<and> valid_digest d \<and>
     (\<forall>c'. map_of (as_objects w) (t @ ''/'' @ removeprefix ''sha256:'' d) = Some c' \<longrightarrow> c' = c)"

lemma removeprefix_sha: "removeprefix ''sha256:'' (''sha256:'' @ h) = h"
  by (simp only: removeprefix_def strip_prefix_append option.case)

lemma object_key_Inr: "object_key t d = Inr k \<Longrightarrow> k = t @ ''/'' @ removeprefix ''sha256:'' d"
  by (simp add: object_key_def split: if_splits)

lemma store_read_world [simp]: "snd (store_read t r w) = w"
  by (simp add: store_read_def split: sum.splits prod.splits)

text \<open>Both writing operations end in the same way: at most one object is added, none replaced.\<close>

definition store_extends :: "artifact_store \<Rightarrow> artifact_store \<Rightarrow> bool" where
  "store_extends w w' \<longleftrightarrow> as_bucket w' = as_bucket w \<and> map_of (as_objects w) \<subseteq>\<^sub>m map_of (as_objects w')"

lemma store_extends_refl: "store_extends w w"
  by (simp add: store_extends_def)

lemma store_extends_trans: "store_extends u v \<Longrightarrow> store_extends v w \<Longrightarrow> store_extends u w"
  unfolding store_extends_def by (auto intro: map_le_trans)

lemma store_put_json_extends: "store_extends w (snd (store_put_json t c d k w))"
  by (auto simp: store_put_json_def store_extends_def map_le_def split: sum.splits)

lemma store_put_blob_extends: "store_extends w (snd (store_put_blob t c d k w))"
  by (auto simp: store_put_blob_def store_extends_def map_le_def split: sum.splits)

lemma store_read_extends:
  assumes "store_extends w w'" and "fst (store_read t r w) = Inr c"
  shows "fst (store_read t r w') = Inr c"
  using assms
  by (auto simp: store_read_def store_extends_def index_def map_le_def
      split: sum.splits prod.splits if_splits option.splits)
    (metis domI option.distinct(1), metis domI option.inject)

lemma store_put_read:
  assumes fits: "store_fits w t c d" and k: "\<not> blank k"
  shows "\<exists>r w'. store_put_json t c d k w = (Inr r, w') \<and> valid_ref r \<and> ref_digest r = d \<and>
      fst (store_read t r w') = Inr c"
proof -
  from fits obtain h where h: "d = ''sha256:'' @ h" "length h = 64" "list_all hex_digit h"
    unfolding store_fits_def using strip_prefix_sha by blast
  let ?key = "t @ ''/'' @ h"
  let ?r = "\<lparr>ref_type = ''JsonArtifact'', ref_schema = ''1.0'', ref_id = ?key, ref_digest = d,
              ref_uri = ''s3://'' @ as_bucket w @ ''/'' @ ?key\<rparr>"
  let ?w = "if map_of (as_objects w) ?key = None
             then w\<lparr>as_objects := AList.update ?key c (as_objects w)\<rparr> else w"
  have rp: "removeprefix ''sha256:'' d = h" unfolding h(1) by (rule removeprefix_sha)
  have ok: "object_key t d = Inr ?key"
    using fits by (simp only: object_key_def rp store_fits_def) simp
  have v: "valid_ref ?r"
    using fits h(2) by (simp add: valid_ref_def len_in_def store_fits_def)
  have "store_put_json t c d k w = (Inr ?r, ?w)"
    using k v by (simp only: store_put_json_def ok sum.case mk_ref_def Let_def if_True if_False)
  moreover have "map_of (as_objects ?w) ?key = Some c"
    using fits unfolding store_fits_def rp by (cases "map_of (as_objects w) ?key") simp_all
  moreover have "parse_uri (ref_uri ?r) = Inr (as_bucket w, ?key)"
    using fits h(3) parse_uri_object[of "as_bucket w" t h] by (simp add: store_fits_def)
  moreover have "as_bucket ?w = as_bucket w" "startswith ?key (t @ ''/'')"
    by (simp_all add: startswith_def)
  ultimately have "fst (store_read t ?r ?w) = Inr c"
    by (simp only: store_read_def sum.case prod.case index_def) simp
  with v \<open>store_put_json t c d k w = (Inr ?r, ?w)\<close> show ?thesis by auto
qed

section \<open>The store as an interface\<close>

text \<open>What clients rely on (\<open>ports/artifacts.py\<close>): a written artifact can be read back by its
  reference, and no later write changes what a reference reads.\<close>

locale json_store =
  fixes put :: "string \<Rightarrow> blob \<Rightarrow> string \<Rightarrow> string \<Rightarrow> ('w, artifact_ref) io"
    and read :: "string \<Rightarrow> artifact_ref \<Rightarrow> ('w, blob) io"
    and fits :: "'w \<Rightarrow> string \<Rightarrow> blob \<Rightarrow> string \<Rightarrow> bool"
  assumes read_pure: "snd (read t r w) = w"
    and put_read: "fits w t c d \<Longrightarrow> \<not> blank k \<Longrightarrow>
      \<exists>r w'. put t c d k w = (Inr r, w') \<and> valid_ref r \<and> ref_digest r = d \<and> fst (read t r w') = Inr c"
    and put_keeps: "fst (read t' r w) = Inr c' \<Longrightarrow> fst (read t' r (snd (put t c d k w))) = Inr c'"
begin

text \<open>\<open>puts ws\<close> performs the given writes in order, going on when one raises.\<close>

fun puts :: "(string \<times> blob \<times> string \<times> string) list \<Rightarrow> 'w \<Rightarrow> 'w" where
  "puts [] w = w"
| "puts ((t, c, d, k) # ps) w = puts ps (snd (put t c d k w))"

lemma puts_keep: "fst (read t r w) = Inr c \<Longrightarrow> fst (read t r (puts ps w)) = Inr c"
  by (induction ps w rule: puts.induct) (simp_all add: put_keeps)

lemma put_puts_read:
  assumes "fits w t c d" and "\<not> blank k"
  shows "\<exists>r w'. put t c d k w = (Inr r, w') \<and> ref_digest r = d \<and> fst (read t r (puts ps w')) = Inr c"
  using put_read[OF assms] puts_keep by blast

end

interpretation s3: json_store store_put_json store_read store_fits
  by unfold_locales
    (simp, erule (1) store_put_read, erule store_read_extends[OF store_put_json_extends])

definition store_puts :: "(string \<times> blob \<times> string \<times> string) list \<Rightarrow> artifact_store \<Rightarrow> artifact_store" where
  "store_puts = s3.puts"

section \<open>Properties\<close>


definition demo_store :: artifact_store where
  "demo_store = \<lparr>as_bucket = ''artifacts'', as_objects = []\<rparr>"


text \<open>Tenants are kept apart: a reference the store issued to one tenant cannot be read by
  another one, and the attempt changes nothing.\<close>

theorem store_read_other_tenant:
  assumes "store_put_json t c d k w = (Inr r, w')" and "store_fits w t c d"
    and "plain_name t'" and "t' \<noteq> t" and "as_bucket w'' = as_bucket w"
  shows "store_read t' r w'' =
    (Inl (ValueError ''artifact ref does not belong to the requesting tenant''), w'')"
proof -
  from assms(2) obtain h where h: "d = ''sha256:'' @ h" "length h = 64" "list_all hex_digit h"
    unfolding store_fits_def using strip_prefix_sha by blast
  have fit: "plain_name t" using assms(2) by (simp add: store_fits_def)
  have rp: "removeprefix ''sha256:'' d = h" unfolding h(1) by (rule removeprefix_sha)
  have "ref_uri r = ''s3://'' @ as_bucket w @ ''/'' @ (t @ ''/'' @ h)"
    using assms(1) by (auto simp: store_put_json_def object_key_def rp mk_ref_def Let_def
        split: if_splits)
  then have u: "parse_uri (ref_uri r) = Inr (as_bucket w'', t @ ''/'' @ h)"
    using assms(2,5) h(3) parse_uri_object[of "as_bucket w" t h] by (simp add: store_fits_def)
  have "\<not> startswith (t @ ''/'' @ h) (t' @ ''/'')"
  proof
    assume "startswith (t @ ''/'' @ h) (t' @ ''/'')"
    then obtain z where z: "t @ CHR ''/'' # h = t' @ CHR ''/'' # z"
      unfolding startswith_def by (metis append_Cons append_Nil append_assoc append_take_drop_id)
    have "CHR ''/'' \<notin> set t" "CHR ''/'' \<notin> set t'"
      using plain_nameD[OF fit] plain_nameD[OF assms(3)] by blast+
    from sep_prefix_unique[OF z this] assms(4) show False by simp
  qed
  with u show ?thesis by (simp only: store_read_def sum.case prod.case) simp
qed

theorem store_read_other_tenant_witness:
  "\<exists>r w'. store_put_json ''acme'' (NodeInput ''n'' Map.empty) (rep_digest CHR ''a'') ''k'' demo_store =
      (Inr r, w') \<and>
     store_read ''globex'' r w' =
       (Inl (ValueError ''artifact ref does not belong to the requesting tenant''), w')"
proof -
  let ?c = "NodeInput ''n'' Map.empty"
  have f: "store_fits demo_store ''acme'' ?c (rep_digest CHR ''a'')"
    by (simp add: store_fits_def demo_store_def plain_name_def blank_def is_space_def
        valid_rep_digest hex_digit_def)
  have k: "\<not> blank ''k''" by (simp add: blank_def is_space_def)
  from store_put_read[OF f k] obtain r w' where
    p: "store_put_json ''acme'' ?c (rep_digest CHR ''a'') ''k'' demo_store = (Inr r, w')" by blast
  have b: "as_bucket w' = as_bucket demo_store"
    using store_put_json_extends[of demo_store "''acme''" ?c "rep_digest CHR ''a''" "''k''"] p
    by (simp add: store_extends_def)
  have "plain_name ''globex''" by (simp add: plain_name_def)
  from store_read_other_tenant[OF p f this _ b] p show ?thesis by auto
qed

end
