(* ===== verification/Node_Runtime.thy ===== *)
theory Node_Runtime
  imports Artifact_Store
begin

text \<open>
  The node runtime (\<open>application/node_runtime.py\<close>, \<open>application/node_contract.py\<close>): the
  fail-closed registry through which every graph node runs, its idempotency keys, the
  intent/artifact protocol around a handler call, the validation of what a handler returns and
  the bookkeeping of routes. Handlers and ports are functions on an outside world of any type
  \<open>'w\<close>; \<open>world\<close> below is the one made of the control plane and the artifact store.
\<close>

section \<open>Node contracts\<close>

datatype side_effect_class = PURE | READ_ONLY | IDEMPOTENT_WRITE | EXTERNAL_JOB

record node_spec =
  ns_id :: string
  ns_version :: string
  ns_effect :: side_effect_class
  ns_timeout :: int
  ns_attempts :: int
  ns_routes :: "string list"

definition valid_node_spec :: "node_spec \<Rightarrow> bool" where
  "valid_node_spec s \<longleftrightarrow> ns_id s \<noteq> [] \<and> ns_version s \<noteq> [] \<and> 0 < ns_timeout s \<and>
     1 \<le> ns_attempts s \<and> ns_attempts s \<le> 10 \<and> ns_routes s \<noteq> [] \<and>
     (ns_effect s = PURE \<longrightarrow> ns_attempts s = 1)"

section \<open>Ports\<close>

record policy_request =
  pq_type :: string
  pq_version :: string
  pq_tenant :: string
  pq_facts :: "sval dict"

record 'w node_ports =
  np_get :: "string \<Rightarrow> string \<Rightarrow> ('w, intent_record option) io"
  np_prepare :: "intent_record \<Rightarrow> ('w, intent_record) io"
  np_complete :: "string \<Rightarrow> string \<Rightarrow> artifact_ref \<Rightarrow> ('w, intent_record) io"
  np_mark_unknown :: "string \<Rightarrow> string \<Rightarrow> ('w, intent_record) io"
  np_put_json :: "string \<Rightarrow> blob \<Rightarrow> string \<Rightarrow> string \<Rightarrow> ('w, artifact_ref) io"
  np_read :: "string \<Rightarrow> artifact_ref \<Rightarrow> ('w, blob) io"
  np_telemetry :: "(telemetry_event \<Rightarrow> ('w, unit) io) option"
  np_policy :: "(policy_request \<Rightarrow> ('w, policy_decision) io) option"

type_synonym 'w handler = "state \<Rightarrow> 'w node_ports option \<Rightarrow> ('w, node_execution) io"

record 'w registered_node =
  rg_spec :: node_spec
  rg_handler :: "'w handler"

record 'w node_runtime =
  rt_nodes :: "(string \<times> 'w registered_node) list"
  rt_ports :: "'w node_ports option"

definition mk_runtime ::
    "(string \<times> 'w registered_node) list \<Rightarrow> 'w node_ports option \<Rightarrow> 'w node_runtime result" where
  "mk_runtime items ports =
     (if list_ex (\<lambda>(k, r). k \<noteq> ns_id (rg_spec r)) items
      then Inl (ValueError ''registration keys do not match NodeSpec.node_id'')
      else Inr \<lparr>rt_nodes = items, rt_ports = ports\<rparr>)"

definition enabled_node_ids :: "'w node_runtime \<Rightarrow> string set" where
  "enabled_node_ids rt = set (keys (rt_nodes rt))"

section \<open>Idempotency keys\<close>

definition require_identity :: "state \<Rightarrow> string \<Rightarrow> string result" where
  "require_identity st k =
     (case get_str st k of
        Some s \<Rightarrow> if s \<noteq> [] then Inr s else Inl (RuntimeError ''case state is missing required identity field'')
      | None \<Rightarrow> Inl (RuntimeError ''case state is missing required identity field''))"

definition revision_fields :: "(string \<times> string list) list" where
  "revision_fields =
     [(''a3_revision_attempts'', [''A3'']),
      (''s02_revision_attempts'', [''S02'']),
      (''s03_revision_attempts'', [''S03'', ''S04'', ''S05'', ''S06''])]"

definition add_revision :: "string \<Rightarrow> state \<Rightarrow> string \<Rightarrow> string \<times> string list \<Rightarrow> string" where
  "add_revision stage st base fs =
     (if stage \<notin> set (snd fs) then base
      else let n = get_int st (fst fs) in
           if n \<noteq> 0 then base @ '':rev'' @ str_int n else base)"

definition derive_idempotency_key :: "node_spec \<Rightarrow> state \<Rightarrow> string result" where
  "derive_idempotency_key spec st =
     bindR (require_identity st ''case_id'') (\<lambda>cid.
       let base = cid @ '':'' @ ns_id spec @ '':'' @ ns_version spec;
           base = foldl (add_revision (split_head CHR ''.'' (ns_id spec)) st) base revision_fields;
           n = get_int st ''resume_attempts'' in
       Inr (if n \<noteq> 0 \<and> get_str st ''resume_target_node'' = Some (ns_id spec)
            then base @ '':resume'' @ str_int n else base))"

section \<open>Route keys\<close>

definition route_slot :: "string \<Rightarrow> nat \<Rightarrow> string" where
  "route_slot node n = node @ ''#'' @ str_nat n"

lemma route_slot_inject [simp]: "route_slot node m = route_slot node n \<longleftrightarrow> m = n"
  by (simp add: route_slot_def)

lemma finite_route_slots: "finite {m. route_slot node m \<in> set (keys routes)}"
proof -
  have "finite (route_slot node -` set (keys routes))"
    by (rule finite_vimageI) (simp_all add: inj_def)
  then show ?thesis by (simp add: vimage_def)
qed

definition slots_from :: "string \<Rightarrow> string dict \<Rightarrow> nat \<Rightarrow> nat set" where
  "slots_from node routes n = {m. n \<le> m \<and> route_slot node m \<in> set (keys routes)}"

lemma slots_from_decreases:
  assumes "route_slot node n \<in> set (keys routes)"
  shows "card (slots_from node routes (Suc n)) < card (slots_from node routes n)"
proof (rule psubset_card_mono)
  show "finite (slots_from node routes n)"
    unfolding slots_from_def by (rule finite_subset[OF _ finite_route_slots]) auto
  show "slots_from node routes (Suc n) \<subset> slots_from node routes n"
    using assms unfolding slots_from_def
    by (metis (mono_tags, lifting) Collect_mono Suc_leD mem_Collect_eq not_less_eq_eq order_refl psubsetI)
qed

function free_slot :: "string \<Rightarrow> string dict \<Rightarrow> nat \<Rightarrow> nat" where
  "free_slot node routes n =
     (if route_slot node n \<in> set (keys routes) then free_slot node routes (Suc n) else n)"
  by pat_completeness auto
termination
  by (relation "measure (\<lambda>(node, routes, n). card (slots_from node routes n))")
    (simp_all add: slots_from_decreases del: set_map)

function latest_slot :: "string \<Rightarrow> string dict \<Rightarrow> string \<Rightarrow> nat \<Rightarrow> string" where
  "latest_slot node routes key n =
     (if route_slot node n \<in> set (keys routes)
      then latest_slot node routes (route_slot node n) (Suc n) else key)"
  by pat_completeness auto
termination
  by (relation "measure (\<lambda>(node, routes, key, n). card (slots_from node routes n))")
    (simp_all add: slots_from_decreases del: set_map)

declare free_slot.simps [simp del] latest_slot.simps [simp del]

definition latest_route_key :: "string \<Rightarrow> string dict \<Rightarrow> string option" where
  "latest_route_key node routes =
     (if node \<notin> set (keys routes) then None else Some (latest_slot node routes node 2))"

definition next_route_key :: "string \<Rightarrow> string dict \<Rightarrow> string \<Rightarrow> string" where
  "next_route_key node routes route =
     (case latest_route_key node routes of
        None \<Rightarrow> node
      | Some key \<Rightarrow> if map_of routes key = Some route then key
                    else route_slot node (free_slot node routes 2))"

definition route_for :: "string \<Rightarrow> state \<Rightarrow> string" where
  "route_for node st =
     (case latest_route_key node (get_routes st) of
        None \<Rightarrow> route_value CONTINUE
      | Some key \<Rightarrow> the (map_of (get_routes st) key))"

section \<open>Executing a node\<close>

definition validate_execution :: "string \<Rightarrow> node_spec \<Rightarrow> node_execution \<Rightarrow> unit result" where
  "validate_execution node spec ex =
     (if route_value (ex_route ex) \<notin> set (ns_routes spec)
        then Inl (InvalidNodeExecutionError ''undeclared route'')
      else if \<not> set (keys (ex_updates ex)) \<subseteq> set runtime_fields
        then Inl (InvalidNodeExecutionError ''unknown state fields'')
      else if set (keys (ex_updates ex)) \<inter> set identity_fields \<noteq> {}
        then Inl (InvalidNodeExecutionError ''identity fields'')
      else Inr ())"

definition commit :: "string \<Rightarrow> node_execution \<Rightarrow> state \<Rightarrow> updates" where
  "commit node ex st =
     (let route = route_value (ex_route ex);
          u1 = AList.update ''current_node'' (VStr node) (ex_updates ex);
          u2 = AList.update ''completed_nodes'' (VStrs [node]) u1 in
      AList.update ''node_routes'' (VRoutes [(next_route_key node (get_routes st) route, route)]) u2)"

definition load_execution :: "blob \<Rightarrow> node_execution result" where
  "load_execution payload =
     (case payload of
        Execution ex \<Rightarrow> Inr \<lparr>ex_route = ex_route ex, ex_updates = coerce_updates (ex_updates ex)\<rparr>
      | _ \<Rightarrow> Inl (KeyError ''route''))"

definition cached_output :: "intent_record option \<Rightarrow> artifact_ref option" where
  "cached_output existing =
     (case existing of
        None \<Rightarrow> None
      | Some i \<Rightarrow> if in_status i = COMPLETED then in_output i else None)"

text \<open>\<open>sha\<close> is the digest of the canonical JSON of a value and \<open>clock\<close> reads the system time.\<close>

definition run_handler :: "(blob \<Rightarrow> string) \<Rightarrow> 'w registered_node \<Rightarrow> 'w node_ports \<Rightarrow> string \<Rightarrow>
    string \<Rightarrow> string \<Rightarrow> string \<Rightarrow> state \<Rightarrow> ('w, updates) io" where
  "run_handler sha reg ports node tenant cid ikey st =
     bindI (reraiseI (rg_handler reg st (Some ports)) (np_mark_unknown ports tenant ikey)) (\<lambda>ex.
     bindI (liftI (validate_execution node (rg_spec reg) ex)) (\<lambda>_.
     bindI (np_put_json ports tenant (Execution ex) (sha (Execution ex)) ikey) (\<lambda>out.
     bindI (np_complete ports tenant ikey out) (\<lambda>_.
     bindI (case np_telemetry ports of
              None \<Rightarrow> retI ()
            | Some emit \<Rightarrow> emit \<lparr>te_case = cid,
                te_thread = (case get_str st ''thread_id'' of Some s \<Rightarrow> s | None \<Rightarrow> []),
                te_node = node, te_attempt = 1, te_result = route_value (ex_route ex)\<rparr>) (\<lambda>_.
     retI (commit node ex st))))))"

definition execute_idempotent :: "(blob \<Rightarrow> string) \<Rightarrow> ('w \<Rightarrow> int) \<Rightarrow> string \<Rightarrow> 'w registered_node \<Rightarrow>
    'w node_ports \<Rightarrow> state \<Rightarrow> ('w, updates) io" where
  "execute_idempotent sha clock node reg ports st =
     bindI (liftI (require_identity st ''tenant_id'')) (\<lambda>tenant.
     bindI (liftI (require_identity st ''case_id'')) (\<lambda>cid.
     bindI (liftI (derive_idempotency_key (rg_spec reg) st)) (\<lambda>ikey.
     bindI (np_get ports tenant ikey) (\<lambda>existing.
     case cached_output existing of
       Some ref \<Rightarrow>
         bindI (np_read ports tenant ref) (\<lambda>payload.
         bindI (liftI (load_execution payload)) (\<lambda>ex.
         retI (commit node ex st)))
     | None \<Rightarrow>
         (\<lambda>w. bindI (np_prepare ports \<lparr>in_tenant = tenant, in_key = ikey, in_node = node, in_case = cid,
                in_status = PENDING, in_input = sha (NodeInput node st), in_output = None,
                in_updated = Aware (clock w)\<rparr>)
               (\<lambda>_. run_handler sha reg ports node tenant cid ikey st) w)))))"

definition execute :: "(blob \<Rightarrow> string) \<Rightarrow> ('w \<Rightarrow> int) \<Rightarrow> 'w node_runtime \<Rightarrow> string \<Rightarrow> state \<Rightarrow>
    ('w, updates) io" where
  "execute sha clock rt node st =
     (case map_of (rt_nodes rt) node of
        None \<Rightarrow> failI (NodeNotEnabledError node)
      | Some reg \<Rightarrow>
          (case rt_ports rt of
             None \<Rightarrow> bindI (rg_handler reg st None) (\<lambda>ex.
                     bindI (liftI (validate_execution node (rg_spec reg) ex)) (\<lambda>_.
                     retI (commit node ex st)))
           | Some ports \<Rightarrow>
               if ns_effect (rg_spec reg) = PURE
               then bindI (rg_handler reg st (Some ports)) (\<lambda>ex.
                    bindI (liftI (validate_execution node (rg_spec reg) ex)) (\<lambda>_.
                    retI (commit node ex st)))
               else execute_idempotent sha clock node reg ports st))"

section \<open>Facts about idempotency keys\<close>

text \<open>The pass of a node's own loop that its key names, and the resume that re-runs it.\<close>

definition revision_pass :: "node_spec \<Rightarrow> state \<Rightarrow> int" where
  "revision_pass spec st =
     (case find (\<lambda>fs. split_head CHR ''.'' (ns_id spec) \<in> set (snd fs)) revision_fields of
        None \<Rightarrow> 0 | Some fs \<Rightarrow> get_int st (fst fs))"

definition resume_pass :: "node_spec \<Rightarrow> state \<Rightarrow> int" where
  "resume_pass spec st =
     (if get_str st ''resume_target_node'' = Some (ns_id spec) then get_int st ''resume_attempts'' else 0)"

definition pass_suffix :: "string \<Rightarrow> int \<Rightarrow> string" where
  "pass_suffix tag n = (if n = 0 then [] else tag @ str_int n)"

lemma derive_key_eq:
  "derive_idempotency_key spec st =
     bindR (require_identity st ''case_id'') (\<lambda>cid.
       Inr (cid @ CHR '':'' # ns_id spec @ CHR '':'' # ns_version spec @
            pass_suffix '':rev'' (revision_pass spec st) @ pass_suffix '':resume'' (resume_pass spec st)))"
proof -
  have "foldl (add_revision stage st) base revision_fields = base @ pass_suffix '':rev''
      (case find (\<lambda>fs. stage \<in> set (snd fs)) revision_fields of None \<Rightarrow> 0 | Some fs \<Rightarrow> get_int st (fst fs))"
    for stage base
    by (auto simp: revision_fields_def add_revision_def pass_suffix_def Let_def)
  then show ?thesis
    by (auto simp: derive_idempotency_key_def revision_pass_def resume_pass_def pass_suffix_def Let_def)
qed

lemma str_nat_no: "\<not> is_digit c \<Longrightarrow> c \<notin> set (str_nat n)"
  using str_nat_digits by blast

lemma str_int_no_colon: "CHR '':'' \<notin> set (str_int i)"
  by (simp add: str_int_def str_nat_no is_digit_def)

lemma str_int_inject [simp]: "str_int i = str_int j \<longleftrightarrow> i = j"
proof -
  have "CHR ''-'' \<notin> set (str_nat n)" for n
    by (rule str_nat_no) (simp add: is_digit_def)
  then have no: "str_nat n \<noteq> CHR ''-'' # xs" "CHR ''-'' # xs \<noteq> str_nat n" for n xs
    by (metis list.set_intros(1))+
  show ?thesis by (auto simp: str_int_def no)
qed

lemma colon_prefix_unique:
  assumes "a @ xs = b @ ys" and "CHR '':'' \<notin> set a" and "CHR '':'' \<notin> set b"
    and "xs = [] \<or> hd xs = CHR '':''" and "ys = [] \<or> hd ys = CHR '':''"
  shows "a = b \<and> xs = ys"
proof -
  have tw: "takeWhile (\<lambda>c. c \<noteq> CHR '':'') (p @ zs) = p"
    if "CHR '':'' \<notin> set p" "zs = [] \<or> hd zs = CHR '':''" for p zs
  proof -
    have "takeWhile (\<lambda>c. c \<noteq> CHR '':'') (p @ zs) = p @ takeWhile (\<lambda>c. c \<noteq> CHR '':'') zs"
      using that(1) by (intro takeWhile_append2) auto
    also have "takeWhile (\<lambda>c. c \<noteq> CHR '':'') zs = []" using that(2) by (cases zs) auto
    finally show ?thesis by simp
  qed
  from tw[OF assms(2,4)] tw[OF assms(3,5)] assms(1) have "a = b" by simp
  with assms(1) show ?thesis by simp
qed

lemma pass_suffix_head: "pass_suffix (CHR '':'' # t) n = [] \<or> hd (pass_suffix (CHR '':'' # t) n) = CHR '':''"
  by (simp add: pass_suffix_def)

lemma pass_suffix_inject [simp]: "pass_suffix (c # t) m = pass_suffix (c # t) m' \<longleftrightarrow> m = m'"
  by (simp add: pass_suffix_def)

lemma key_suffix_inject:
  assumes "pass_suffix '':rev'' r @ pass_suffix '':resume'' m = pass_suffix '':rev'' r' @ pass_suffix '':resume'' m'"
  shows "r = r' \<and> m = m'"
proof -
  have cut: "i = j \<and> pass_suffix '':resume'' m = pass_suffix '':resume'' m'"
    if "str_int i @ pass_suffix '':resume'' m = str_int j @ pass_suffix '':resume'' m'" for i j
    using colon_prefix_unique[OF that str_int_no_colon str_int_no_colon pass_suffix_head pass_suffix_head]
    by simp
  show ?thesis
  proof (cases "r = 0"; cases "r' = 0")
    assume "r = 0" "r' = 0" with assms show ?thesis by (simp add: pass_suffix_def[of "'':rev''"])
  next
    assume "r = 0" "r' \<noteq> 0" with assms show ?thesis by (auto simp: pass_suffix_def split: if_splits)
  next
    assume "r \<noteq> 0" "r' = 0" with assms show ?thesis by (auto simp: pass_suffix_def split: if_splits)
  next
    assume "r \<noteq> 0" "r' \<noteq> 0"
    with assms have "str_int r @ pass_suffix '':resume'' m = str_int r' @ pass_suffix '':resume'' m'"
      by (simp add: pass_suffix_def[of "'':rev''"])
    from cut[OF this] show ?thesis by simp
  qed
qed

section \<open>Facts about route keys\<close>

lemma free_slot_spec:
  "n \<le> free_slot node routes n \<and> route_slot node (free_slot node routes n) \<notin> set (keys routes) \<and>
   (\<forall>m. n \<le> m \<and> m < free_slot node routes n \<longrightarrow> route_slot node m \<in> set (keys routes))"
proof (induction node routes n rule: free_slot.induct)
  case (1 node routes n)
  show ?case
  proof (cases "route_slot node n \<in> set (keys routes)")
    case True
    then have "free_slot node routes n = free_slot node routes (Suc n)"
      by (subst free_slot.simps) simp
    with 1[OF True] True show ?thesis
      by (metis Suc_leD Suc_leI le_neq_implies_less)
  next
    case False
    then have "free_slot node routes n = n" by (subst free_slot.simps) simp
    with False show ?thesis by auto
  qed
qed

lemma free_slot_unique:
  assumes "n \<le> f" and "route_slot node f \<notin> set (keys routes)"
    and "\<And>m. n \<le> m \<Longrightarrow> m < f \<Longrightarrow> route_slot node m \<in> set (keys routes)"
  shows "free_slot node routes n = f"
  using free_slot_spec[of n node routes] assms by (meson linorder_neqE_nat)

lemma latest_slot_eq:
  "latest_slot node routes key n =
     (if free_slot node routes n = n then key else route_slot node (free_slot node routes n - 1))"
proof (induction node routes key n rule: latest_slot.induct)
  case (1 node routes key n)
  show ?case
  proof (cases "route_slot node n \<in> set (keys routes)")
    case True
    have f: "free_slot node routes n = free_slot node routes (Suc n)"
      using True by (subst free_slot.simps) simp
    moreover have "Suc n \<le> free_slot node routes (Suc n)" using free_slot_spec by blast
    moreover have "latest_slot node routes key n = latest_slot node routes (route_slot node n) (Suc n)"
      using True by (subst latest_slot.simps) simp
    ultimately show ?thesis using 1[OF True] by auto
  next
    case False
    then show ?thesis by (subst latest_slot.simps, subst free_slot.simps) simp
  qed
qed

lemma latest_route_key_mem:
  "latest_route_key node routes = Some key \<Longrightarrow> key \<in> set (keys routes)"
proof -
  assume k: "latest_route_key node routes = Some key"
  then have n: "node \<in> set (keys routes)" and key: "key = latest_slot node routes node 2"
    unfolding latest_route_key_def by (auto split: if_splits)
  show ?thesis
  proof (cases "free_slot node routes 2 = 2")
    case True
    with n key show ?thesis by (simp add: latest_slot_eq)
  next
    case False
    then have "2 \<le> free_slot node routes 2 - 1" "free_slot node routes 2 - 1 < free_slot node routes 2"
      using free_slot_spec[of 2 node routes] by auto
    with free_slot_spec have "route_slot node (free_slot node routes 2 - 1) \<in> set (keys routes)"
      by blast
    with key False show ?thesis by (simp only: latest_slot_eq if_False)
  qed
qed

text \<open>The numbering of a node's routes has no gap: what the reading loop assumes.\<close>

definition route_contiguous :: "string \<Rightarrow> string dict \<Rightarrow> bool" where
  "route_contiguous node routes \<longleftrightarrow>
     (route_slot node 2 \<in> set (keys routes) \<longrightarrow> node \<in> set (keys routes)) \<and>
     (\<forall>m \<ge> 2. route_slot node (Suc m) \<in> set (keys routes) \<longrightarrow> route_slot node m \<in> set (keys routes))"

lemma route_slot_neq [simp]: "route_slot node n \<noteq> node" "node \<noteq> route_slot node n"
  by (simp_all add: route_slot_def)

lemma route_slot_other:
  assumes "CHR ''#'' \<notin> set node" and "CHR ''#'' \<notin> set node'" and "node \<noteq> node'"
  shows "route_slot node m \<noteq> route_slot node' n" and "route_slot node m \<noteq> node'"
proof
  assume "route_slot node m = route_slot node' n"
  then have "node @ CHR ''#'' # str_nat m = node' @ CHR ''#'' # str_nat n"
    by (simp add: route_slot_def)
  from sep_prefix_unique[OF this assms(1,2)] assms(3) show False by simp
next
  show "route_slot node m \<noteq> node'" using assms(2) by (auto simp: route_slot_def)
qed

lemma contiguous_step:
  "route_contiguous node routes \<Longrightarrow> 2 \<le> m \<Longrightarrow> route_slot node m \<notin> set (keys routes) \<Longrightarrow>
     route_slot node (Suc m) \<notin> set (keys routes)"
  unfolding route_contiguous_def by blast

text \<open>The value the latest key of a node holds, as a function of the lookup alone.\<close>

lemma latest_route_key_cong:
  assumes "\<And>k. k = node \<or> (\<exists>m. k = route_slot node m) \<Longrightarrow> map_of d k = map_of d' k"
  shows "latest_route_key node d = latest_route_key node d'"
    and "route_contiguous node d = route_contiguous node d'"
proof -
  have mem: "k \<in> set (keys d) \<longleftrightarrow> k \<in> set (keys d')" if "k = node \<or> (\<exists>m. k = route_slot node m)" for k
    using assms[OF that] by (simp only: keys_mem_iff)
  then have "free_slot node d 2 = free_slot node d' 2"
    using free_slot_spec[of 2 node d] by (intro free_slot_unique[symmetric]) blast+
  then show "latest_route_key node d = latest_route_key node d'"
    using mem by (simp add: latest_route_key_def latest_slot_eq del: set_map)
  show "route_contiguous node d = route_contiguous node d'"
    using mem by (simp add: route_contiguous_def del: set_map)
qed

lemma next_route_key_of_node: "next_route_key node d route = node \<or> (\<exists>m. next_route_key node d route = route_slot node m)"
  by (auto simp: next_route_key_def latest_route_key_def latest_slot_eq split: option.splits)

lemma next_route_key_no_conflict:
  "map_of d (next_route_key node d route) = None \<or> map_of d (next_route_key node d route) = Some route"
proof (cases "latest_route_key node d")
  case None
  then have "node \<notin> set (keys d)" by (simp add: latest_route_key_def del: set_map split: if_splits)
  with None show ?thesis unfolding next_route_key_def keys_mem_iff by simp
next
  case (Some key)
  have "route_slot node (free_slot node d 2) \<notin> set (keys d)" using free_slot_spec by blast
  with Some show ?thesis unfolding next_route_key_def keys_mem_iff by simp
qed

lemma latest_after_next:
  assumes "route_contiguous node d" and m: "map_of d' = (map_of d)(next_route_key node d route \<mapsto> route)"
  shows "(\<exists>key. latest_route_key node d' = Some key \<and> map_of d' key = Some route) \<and> route_contiguous node d'"
proof -
  let ?k = "next_route_key node d route" and ?f = "free_slot node d 2"
  have keys': "k \<in> set (keys d') \<longleftrightarrow> k = ?k \<or> k \<in> set (keys d)" for k
    by (simp only: keys_mem_iff m) simp
  note spec = free_slot_spec[of 2 node d]
  have beyond: "route_slot node (Suc ?f) \<notin> set (keys d)"
    using contiguous_step[OF assms(1)] spec by blast
  consider (fresh) "latest_route_key node d = None"
    | (same) key where "latest_route_key node d = Some key" "map_of d key = Some route"
    | (new) key where "latest_route_key node d = Some key" "map_of d key \<noteq> Some route"
    by (cases "latest_route_key node d") blast+
  then show ?thesis
  proof cases
    case fresh
    then have k: "?k = node" and n: "node \<notin> set (keys d)"
      by (simp_all add: next_route_key_def latest_route_key_def del: set_map split: if_splits)
    then have two: "route_slot node 2 \<notin> set (keys d)"
      using assms(1) unfolding route_contiguous_def by blast
    then have "free_slot node d' 2 = 2"
      by (intro free_slot_unique) (simp_all add: keys' k del: set_map)
    then have "latest_route_key node d' = Some node"
      by (simp add: latest_route_key_def latest_slot_eq keys' k del: set_map)
    moreover have "route_contiguous node d'"
      using assms(1) by (simp add: route_contiguous_def keys' k del: set_map)
    ultimately show ?thesis by (simp add: m k)
  next
    case same
    then have "?k = key" by (simp add: next_route_key_def)
    then have "map_of d' = map_of d" using same(2) m by auto
    with same show ?thesis using latest_route_key_cong[of node d' d] assms(1) by auto
  next
    case new
    then have k: "?k = route_slot node ?f" by (simp add: next_route_key_def)
    have n: "node \<in> set (keys d)"
      using new(1) unfolding latest_route_key_def by (auto split: if_splits)
    have f': "free_slot node d' 2 = Suc ?f"
      using spec beyond by (intro free_slot_unique) (auto simp: keys' k less_Suc_eq simp del: set_map)
    have "latest_route_key node d' = Some ?k"
      using n f' spec by (simp add: latest_route_key_def latest_slot_eq keys' k del: set_map)
    moreover have "route_contiguous node d'"
      unfolding route_contiguous_def keys' k
      using assms(1) n spec unfolding route_contiguous_def by (metis le_SucI lessI not_less_eq_eq route_slot_inject)
    ultimately show ?thesis by (simp add: m)
  qed
qed

lemma get_routes_upd [simp]: "get_routes (st(''node_routes'' \<mapsto> VRoutes r)) = r"
  by (simp add: get_routes_def)

lemma route_for_cong:
  assumes "\<And>k. k = node \<or> (\<exists>m. k = route_slot node m) \<Longrightarrow>
      map_of (get_routes st) k = map_of (get_routes st') k"
  shows "route_for node st = route_for node st'"
proof (cases "latest_route_key node (get_routes st')")
  case None
  with latest_route_key_cong(1)[OF assms] show ?thesis by (simp add: route_for_def)
next
  case (Some key)
  then have "key = node \<or> (\<exists>m. key = route_slot node m)"
    by (auto simp: latest_route_key_def latest_slot_eq split: if_splits)
  with Some latest_route_key_cong(1)[OF assms] assms[OF this] show ?thesis
    by (simp add: route_for_def)
qed

section \<open>Properties of keys and routes\<close>

text \<open>Two executions share an idempotency key only if they are of the same case, node, key
  version, revision pass of the node's own loop and resume of that very node: no execution can
  replay the cached result of a different one.\<close>

theorem idempotency_key_separates:
  assumes "derive_idempotency_key s st = Inr k" and "derive_idempotency_key s' st' = Inr k"
    and "\<And>x. x \<in> {ns_id s, ns_version s, ns_id s', ns_version s'} \<Longrightarrow> CHR '':'' \<notin> set x"
    and "\<And>c. get_str st ''case_id'' = Some c \<or> get_str st' ''case_id'' = Some c \<Longrightarrow> CHR '':'' \<notin> set c"
  shows "get_str st ''case_id'' = get_str st' ''case_id'' \<and> ns_id s = ns_id s' \<and>
     ns_version s = ns_version s' \<and> revision_pass s st = revision_pass s' st' \<and>
     resume_pass s st = resume_pass s' st'"
proof -
  let ?suf = "\<lambda>s st. pass_suffix '':rev'' (revision_pass s st) @ pass_suffix '':resume'' (resume_pass s st)"
  have suf: "?suf s st = [] \<or> hd (?suf s st) = CHR '':''" for s st
    by (simp add: pass_suffix_def)
  have cid: "\<exists>c. get_str st ''case_id'' = Some c \<and>
      k = c @ CHR '':'' # ns_id s @ CHR '':'' # ns_version s @ ?suf s st"
    if "derive_idempotency_key s st = Inr k" for s st
    using that by (auto simp: derive_key_eq require_identity_def bindR_Inr_iff split: option.splits if_splits)
  from cid[OF assms(1)] cid[OF assms(2)] obtain c c' where c: "get_str st ''case_id'' = Some c"
    "get_str st' ''case_id'' = Some c'"
    and eq: "c @ CHR '':'' # ns_id s @ CHR '':'' # ns_version s @ ?suf s st =
       c' @ CHR '':'' # ns_id s' @ CHR '':'' # ns_version s' @ ?suf s' st'" by auto
  from sep_prefix_unique[OF eq] c assms(4) have 1: "c = c'"
    "ns_id s @ CHR '':'' # ns_version s @ ?suf s st = ns_id s' @ CHR '':'' # ns_version s' @ ?suf s' st'"
    by blast+
  from sep_prefix_unique[OF 1(2)] assms(3) have 2: "ns_id s = ns_id s'"
    "ns_version s @ ?suf s st = ns_version s' @ ?suf s' st'" by blast+
  from colon_prefix_unique[OF 2(2)] suf assms(3) have 3: "ns_version s = ns_version s'"
    "?suf s st = ?suf s' st'" by blast+
  from key_suffix_inject[OF 3(2)] 1 2 3 c show ?thesis by simp
qed

definition demo_spec :: node_spec where
  "demo_spec = \<lparr>ns_id = ''S03.50'', ns_version = ''v1'', ns_effect = IDEMPOTENT_WRITE,
     ns_timeout = 60, ns_attempts = 1, ns_routes = [''continue'', ''rejected'']\<rparr>"

definition demo_state :: state where
  "demo_state = [''case_id'' \<mapsto> VStr ''c'', ''tenant_id'' \<mapsto> VStr ''t'', ''thread_id'' \<mapsto> VStr ''th'']"

theorem idempotency_key_separates_witness:
  "derive_idempotency_key demo_spec (demo_state(''s03_revision_attempts'' \<mapsto> VInt 2)) \<noteq>
   derive_idempotency_key demo_spec (demo_state(''s03_revision_attempts'' \<mapsto> VInt 1))"
proof
  let ?st = "\<lambda>n. demo_state(''s03_revision_attempts'' \<mapsto> VInt n)"
  assume eq: "derive_idempotency_key demo_spec (?st 2) = derive_idempotency_key demo_spec (?st 1)"
  obtain k where k: "derive_idempotency_key demo_spec (?st 1) = Inr k"
    by (simp add: derive_key_eq require_identity_def get_str_def demo_state_def)
  have "revision_pass demo_spec (?st 2) = revision_pass demo_spec (?st 1)"
    by (rule idempotency_key_separates[OF k[folded eq] k, THEN conjunct2, THEN conjunct2,
          THEN conjunct2, THEN conjunct1]) (auto simp: demo_spec_def demo_state_def get_str_def)
  then show False
    by (simp add: revision_pass_def revision_fields_def demo_spec_def split_head_def get_int_def)
qed

lemma merge_next_route:
  assumes "distinct (keys (get_routes st))" and "route_contiguous node (get_routes st)"
    and "CHR ''#'' \<notin> set node"
  shows "\<exists>r. merge_node_routes (get_routes st) [(next_route_key node (get_routes st) route, route)] = Inr r \<and>
     distinct (keys r) \<and> route_contiguous node r \<and>
     route_for node (st(''node_routes'' \<mapsto> VRoutes r)) = route \<and>
     (\<forall>other. other \<noteq> node \<and> CHR ''#'' \<notin> set other \<longrightarrow>
        route_for other (st(''node_routes'' \<mapsto> VRoutes r)) = route_for other st \<and>
        route_contiguous other r = route_contiguous other (get_routes st))"
proof -
  let ?d = "get_routes st" and ?k = "next_route_key node (get_routes st) route"
  from merge_node_routes_single[OF next_route_key_no_conflict assms(1)] obtain r where
    r: "merge_node_routes ?d [(?k, route)] = Inr r" "map_of r = (map_of ?d)(?k \<mapsto> route)" "distinct (keys r)"
    by blast
  from latest_after_next[OF assms(2) r(2)] have
    "route_for node (st(''node_routes'' \<mapsto> VRoutes r)) = route" "route_contiguous node r"
    by (auto simp: route_for_def)
  moreover have "route_for other (st(''node_routes'' \<mapsto> VRoutes r)) = route_for other st \<and>
        route_contiguous other r = route_contiguous other ?d"
    if o: "other \<noteq> node" "CHR ''#'' \<notin> set other" for other
  proof -
    have "?k \<noteq> k" if "k = other \<or> (\<exists>m. k = route_slot other m)" for k
      using that next_route_key_of_node[of node ?d route] route_slot_other[OF assms(3) o(2)]
        route_slot_other[OF o(2) assms(3)] o(1) by metis
    then have same: "map_of r k = map_of ?d k" if "k = other \<or> (\<exists>m. k = route_slot other m)" for k
      using that unfolding r(2) by (metis fun_upd_other)
    show ?thesis
      using route_for_cong[of other "st(''node_routes'' \<mapsto> VRoutes r)" st] same
        latest_route_key_cong(2)[of other r ?d] by simp
  qed
  ultimately show ?thesis using r by blast
qed

text \<open>C29. The route a node commits is the route the graph's edge then reads: whatever earlier
  passes recorded, the committed entry merges without conflict, \<open>route_for\<close> returns the new
  route, the numbering stays free of gaps, and no other node's route changes.\<close>

theorem committed_route_is_read:
  assumes "distinct (keys (get_routes st))" and "route_contiguous node (get_routes st)"
    and "CHR ''#'' \<notin> set node"
  shows "\<exists>r. merge_node_routes (get_routes st) [(next_route_key node (get_routes st) route, route)] = Inr r \<and>
     distinct (keys r) \<and> route_contiguous node r \<and>
     route_for node (st(''node_routes'' \<mapsto> VRoutes r)) = route \<and>
     (\<forall>other. other \<noteq> node \<and> CHR ''#'' \<notin> set other \<longrightarrow>
        route_for other (st(''node_routes'' \<mapsto> VRoutes r)) = route_for other st \<and>
        route_contiguous other r = route_contiguous other (get_routes st))"
  by (rule merge_next_route[OF assms])

theorem committed_route_is_read_witness:
  "\<exists>r. merge_node_routes [(''S02.81'', ''revision'')]
        [(next_route_key ''S02.81'' [(''S02.81'', ''revision'')] ''continue'', ''continue'')] = Inr r \<and>
      route_for ''S02.81'' [''node_routes'' \<mapsto> VRoutes r] = ''continue''"
proof -
  let ?st = "[''node_routes'' \<mapsto> VRoutes [(''S02.81'', ''revision'')]]"
  have d: "distinct (keys (get_routes ?st))" by simp
  have c: "route_contiguous ''S02.81'' (get_routes ?st)"
    by (simp add: route_contiguous_def route_slot_def)
  have n: "CHR ''#'' \<notin> set ''S02.81''" by simp
  from committed_route_is_read[OF d c n, of "''continue''"] show ?thesis by auto
qed

section \<open>The platform as an interface\<close>

text \<open>The runtime needs a ledger, a store and telemetry that do not disturb each other.\<close>

locale node_platform =
  ledger: intent_ledger get prepare complete mark_unknown usable +
  store: json_store put read fits
  for get :: "string \<Rightarrow> string \<Rightarrow> ('w, intent_record option) io"
    and prepare :: "intent_record \<Rightarrow> ('w, intent_record) io"
    and complete :: "string \<Rightarrow> string \<Rightarrow> artifact_ref \<Rightarrow> ('w, intent_record) io"
    and mark_unknown :: "string \<Rightarrow> string \<Rightarrow> ('w, intent_record) io"
    and usable :: "'w \<Rightarrow> string \<Rightarrow> string \<Rightarrow> bool"
    and put :: "string \<Rightarrow> blob \<Rightarrow> string \<Rightarrow> string \<Rightarrow> ('w, artifact_ref) io"
    and read :: "string \<Rightarrow> artifact_ref \<Rightarrow> ('w, blob) io"
    and fits :: "'w \<Rightarrow> string \<Rightarrow> blob \<Rightarrow> string \<Rightarrow> bool" +
  fixes emit :: "telemetry_event \<Rightarrow> ('w, unit) io"
    and policy :: "(policy_request \<Rightarrow> ('w, policy_decision) io) option"
  assumes put_get: "fst (get t k (snd (put t' c d k' w))) = fst (get t k w)"
    and complete_read: "fst (read t r (snd (complete t' k out w))) = fst (read t r w)"
    and emit_ok: "fst (emit e w) = Inr ()"
    and emit_get: "fst (get t k (snd (emit e w))) = fst (get t k w)"
    and emit_read: "fst (read t r (snd (emit e w))) = fst (read t r w)"
begin

definition ports :: "'w node_ports" where
  "ports = \<lparr>np_get = get, np_prepare = prepare, np_complete = complete,
     np_mark_unknown = mark_unknown, np_put_json = put, np_read = read,
     np_telemetry = Some emit, np_policy = policy\<rparr>"

lemma ports_sel [simp]:
  "np_get ports = get" "np_prepare ports = prepare" "np_complete ports = complete"
  "np_mark_unknown ports = mark_unknown" "np_put_json ports = put" "np_read ports = read"
  "np_telemetry ports = Some emit"
  by (simp_all add: ports_def)

lemma get_eq: "fst (get t k w) = Inr x \<Longrightarrow> get t k w = (Inr x, w)"
  using ledger.get_pure[of t k w] by (cases "get t k w") simp

lemma read_eq: "fst (read t r w) = Inr x \<Longrightarrow> read t r w = (Inr x, w)"
  using store.read_pure[of t r w] by (cases "read t r w") simp

text \<open>A completed intent whose output can be read is replayed: the handler is not consulted and
  the world does not change.\<close>

lemma replay:
  assumes "require_identity st ''tenant_id'' = Inr t" and "require_identity st ''case_id'' = Inr c"
    and "derive_idempotency_key (rg_spec reg) st = Inr k"
    and "fst (get t k w) = Inr (Some x)" and "in_status x = COMPLETED" and "in_output x = Some ref"
    and "fst (read t ref w) = Inr (Execution ex)"
  shows "execute_idempotent sha clock node reg ports st w =
    (Inr (commit node \<lparr>ex_route = ex_route ex, ex_updates = coerce_updates (ex_updates ex)\<rparr> st), w)"
  using assms
  by (simp add: execute_idempotent_def bindI_def get_eq cached_output_def read_eq load_execution_def)

text \<open>The intent a run prepares.\<close>

definition intent :: "(blob \<Rightarrow> string) \<Rightarrow> ('w \<Rightarrow> int) \<Rightarrow> string \<Rightarrow> string \<Rightarrow> string \<Rightarrow> string \<Rightarrow> state \<Rightarrow> 'w \<Rightarrow>
    intent_record" where
  "intent sha clock node t c k st w = \<lparr>in_tenant = t, in_key = k, in_node = node, in_case = c,
     in_status = PENDING, in_input = sha (NodeInput node st), in_output = None,
     in_updated = Aware (clock w)\<rparr>"

lemma run_prepared:
  assumes "require_identity st ''tenant_id'' = Inr t" and "require_identity st ''case_id'' = Inr c"
    and "derive_idempotency_key (rg_spec reg) st = Inr k"
    and "usable w t c" and "fst (get t k w) = Inr old" and "\<And>x. old = Some x \<Longrightarrow> in_status x \<noteq> COMPLETED"
  obtains i w1 where "prepare (intent sha clock node t c k st w) w = (Inr i, w1)"
    and "fst (get t k w1) = Inr (Some i)" and "in_status i = PENDING"
    and "execute_idempotent sha clock node reg ports st w = run_handler sha reg ports node t c k st w1"
proof -
  let ?i = "intent sha clock node t c k st w"
  have "usable w (in_tenant ?i) (in_case ?i)" "in_status ?i = PENDING"
    "fst (get (in_tenant ?i) (in_key ?i) w) = Inr old"
    using assms(4,5) by (simp_all add: intent_def)
  from ledger.prepare_open[OF this assms(6)] obtain i w1 where
    p: "prepare ?i w = (Inr i, w1)" "fst (get t k w1) = Inr (Some i)" "in_status i = PENDING"
    by (auto simp: intent_def)
  have "cached_output old = None"
    using assms(6) by (auto simp: cached_output_def split: option.splits)
  then have "execute_idempotent sha clock node reg ports st w = run_handler sha reg ports node t c k st w1"
    using assms(1-3,5) p(1)[unfolded intent_def]
    by (simp add: execute_idempotent_def bindI_def get_eq)
  with p show ?thesis by (rule that)
qed

text \<open>A run whose handler succeeds completes the intent with the stored execution.\<close>

lemma run_completes:
  assumes "fst (get t k w2) = Inr (Some y)" and "rg_handler reg st (Some ports) w1 = (Inr ex, w2)"
    and "validate_execution node (rg_spec reg) ex = Inr ()"
    and "fits w2 t (Execution ex) (sha (Execution ex))" and "\<not> blank k"
  obtains x ref w' where "run_handler sha reg ports node t c k st w1 = (Inr (commit node ex st), w')"
    and "fst (get t k w') = Inr (Some x)" and "in_status x = COMPLETED" and "in_output x = Some ref"
    and "fst (read t ref w') = Inr (Execution ex)"
proof -
  from store.put_read[OF assms(4,5)] obtain ref w3 where
    p: "put t (Execution ex) (sha (Execution ex)) k w2 = (Inr ref, w3)" "valid_ref ref"
    "fst (read t ref w3) = Inr (Execution ex)" by blast
  have "fst (get t k w3) = Inr (Some y)" using put_get assms(1) p(1) by (metis snd_conv)
  from ledger.complete_known[OF this p(2)] obtain x w4 where
    q: "complete t k ref w3 = (Inr x, w4)" "fst (get t k w4) = Inr (Some x)" "in_status x = COMPLETED"
    "in_output x = Some ref" by blast
  let ?e = "\<lparr>te_case = c, te_thread = (case get_str st ''thread_id'' of Some s \<Rightarrow> s | None \<Rightarrow> []),
      te_node = node, te_attempt = 1, te_result = route_value (ex_route ex)\<rparr>"
  obtain w' where e: "emit ?e w4 = (Inr (), w')" using emit_ok[of ?e w4] by (cases "emit ?e w4") auto
  have "run_handler sha reg ports node t c k st w1 = (Inr (commit node ex st), w')"
    using assms(2,3) p(1) q(1) e by (simp add: run_handler_def bindI_def reraiseI_def)
  moreover have "fst (get t k w') = Inr (Some x)" using emit_get[of t k ?e w4] e q(2) by simp
  moreover have "fst (read t ref w') = Inr (Execution ex)"
    using emit_read[of t ref ?e w4] complete_read[of t ref t k ref w3] e q(1) p(3) by simp
  ultimately show ?thesis using q(3,4) that by blast
qed

lemma run_then_replay:
  assumes "require_identity st ''tenant_id'' = Inr t" and "require_identity st ''case_id'' = Inr c"
    and "derive_idempotency_key (rg_spec reg) st = Inr k"
    and "usable w t c" and "fst (get t k w) = Inr old" and "\<And>x. old = Some x \<Longrightarrow> in_status x \<noteq> COMPLETED"
    and "rg_handler reg st (Some ports) (snd (prepare (intent sha clock node t c k st w) w)) = (Inr ex, w2)"
    and "fst (get t k w2) = Inr (Some y)" and "validate_execution node (rg_spec reg) ex = Inr ()"
    and "fits w2 t (Execution ex) (sha (Execution ex))" and "\<not> blank k"
  shows "\<exists>w'. execute_idempotent sha clock node reg ports st w = (Inr (commit node ex st), w') \<and>
    (\<forall>reg' st'. require_identity st' ''tenant_id'' = Inr t \<and> require_identity st' ''case_id'' = Inr c \<and>
       derive_idempotency_key (rg_spec reg') st' = Inr k \<longrightarrow>
       execute_idempotent sha clock node reg' ports st' w' =
         (Inr (commit node \<lparr>ex_route = ex_route ex, ex_updates = coerce_updates (ex_updates ex)\<rparr> st'), w'))"
proof -
  from run_prepared[OF assms(1-6)] obtain i w1 where
    r: "prepare (intent sha clock node t c k st w) w = (Inr i, w1)"
    "execute_idempotent sha clock node reg ports st w = run_handler sha reg ports node t c k st w1" .
  from assms(7) r(1) have h: "rg_handler reg st (Some ports) w1 = (Inr ex, w2)" by simp
  from run_completes[where sha = sha, OF assms(8) h assms(9-11)] obtain x ref w' where
    f: "run_handler sha reg ports node t c k st w1 = (Inr (commit node ex st), w')"
    "fst (get t k w') = Inr (Some x)" "in_status x = COMPLETED" "in_output x = Some ref"
    "fst (read t ref w') = Inr (Execution ex)" .
  show ?thesis
  proof (intro exI[of _ w'] conjI allI impI)
    show "execute_idempotent sha clock node reg ports st w = (Inr (commit node ex st), w')"
      using r(2) f(1) by simp
  next
    fix reg' :: "'w registered_node" and st'
    assume "require_identity st' ''tenant_id'' = Inr t \<and> require_identity st' ''case_id'' = Inr c \<and>
       derive_idempotency_key (rg_spec reg') st' = Inr k"
    then show "execute_idempotent sha clock node reg' ports st' w' =
         (Inr (commit node \<lparr>ex_route = ex_route ex, ex_updates = coerce_updates (ex_updates ex)\<rparr> st'), w')"
      using f(2-5) by (intro replay) blast+
  qed
qed

text \<open>A handler that raises leaves the intent unknown, so a retry runs again.\<close>

lemma run_raises:
  assumes "require_identity st ''tenant_id'' = Inr t" and "require_identity st ''case_id'' = Inr c"
    and "derive_idempotency_key (rg_spec reg) st = Inr k"
    and "usable w t c" and "fst (get t k w) = Inr old" and "\<And>x. old = Some x \<Longrightarrow> in_status x \<noteq> COMPLETED"
    and "rg_handler reg st (Some ports) (snd (prepare (intent sha clock node t c k st w) w)) = (Inl e, w2)"
    and "fst (get t k w2) = Inr (Some y)" and "in_status y = PENDING"
  shows "\<exists>z w'. execute_idempotent sha clock node reg ports st w = (Inl e, w') \<and>
    fst (get t k w') = Inr (Some z) \<and> in_status z = UNKNOWN"
proof -
  from run_prepared[OF assms(1-6)] obtain i w1 where
    r: "prepare (intent sha clock node t c k st w) w = (Inr i, w1)"
    "execute_idempotent sha clock node reg ports st w = run_handler sha reg ports node t c k st w1" .
  from assms(7) r(1) have h: "rg_handler reg st (Some ports) w1 = (Inl e, w2)" by simp
  from ledger.mark_pending[OF assms(8,9)] obtain z w' where
    m: "mark_unknown t k w2 = (Inr z, w')" "fst (get t k w') = Inr (Some z)" "in_status z = UNKNOWN" by blast
  with h r(2) show ?thesis by (simp add: run_handler_def bindI_def reraiseI_def)
qed

end

section \<open>The production platform\<close>

record world =
  w_cp :: control_plane
  w_store :: artifact_store
  w_telemetry :: "telemetry_event list"
  w_git :: "(string \<times> string list) list"
  w_time :: int

definition on_cp :: "(control_plane, 'a) io \<Rightarrow> (world, 'a) io" where
  "on_cp f w = (case f (w_cp w) of (r, c) \<Rightarrow> (r, w\<lparr>w_cp := c\<rparr>))"

definition on_store :: "(artifact_store, 'a) io \<Rightarrow> (world, 'a) io" where
  "on_store f w = (case f (w_store w) of (r, s) \<Rightarrow> (r, w\<lparr>w_store := s\<rparr>))"

definition emit_event :: "telemetry_event \<Rightarrow> (world, unit) io" where
  "emit_event e w = (Inr (), w\<lparr>w_telemetry := w_telemetry w @ [e]\<rparr>)"

definition world_usable :: "world \<Rightarrow> string \<Rightarrow> string \<Rightarrow> bool" where
  "world_usable w t c \<longleftrightarrow> ledger_usable (w_cp w) t c"

definition world_fits :: "world \<Rightarrow> string \<Rightarrow> blob \<Rightarrow> string \<Rightarrow> bool" where
  "world_fits w t c d \<longleftrightarrow> store_fits (w_store w) t c d"

definition world_get :: "string \<Rightarrow> string \<Rightarrow> (world, intent_record option) io" where
  "world_get t k = on_cp (ledger_get t k)"

definition world_prepare :: "intent_record \<Rightarrow> (world, intent_record) io" where
  "world_prepare i = on_cp (ledger_prepare i)"

definition world_complete :: "string \<Rightarrow> string \<Rightarrow> artifact_ref \<Rightarrow> (world, intent_record) io" where
  "world_complete t k out = on_cp (ledger_complete t k out)"

definition world_mark_unknown :: "string \<Rightarrow> string \<Rightarrow> (world, intent_record) io" where
  "world_mark_unknown t k = on_cp (ledger_mark_unknown t k)"

definition world_put :: "string \<Rightarrow> blob \<Rightarrow> string \<Rightarrow> string \<Rightarrow> (world, artifact_ref) io" where
  "world_put t c d k = on_store (store_put_json t c d k)"

definition world_read :: "string \<Rightarrow> artifact_ref \<Rightarrow> (world, blob) io" where
  "world_read t r = on_store (store_read t r)"

lemmas world_defs = world_get_def world_prepare_def world_complete_def world_mark_unknown_def
  world_put_def world_read_def world_usable_def world_fits_def emit_event_def

lemma on_cp_simps [simp]:
  "fst (on_cp f w) = fst (f (w_cp w))" "w_cp (snd (on_cp f w)) = snd (f (w_cp w))"
  "w_store (snd (on_cp f w)) = w_store w"
  by (simp_all add: on_cp_def split: prod.splits)

lemma on_store_simps [simp]:
  "fst (on_store f w) = fst (f (w_store w))" "w_store (snd (on_store f w)) = snd (f (w_store w))"
  "w_cp (snd (on_store f w)) = w_cp w"
  by (simp_all add: on_store_def split: prod.splits)

lemma on_cp_pure: "snd (f (w_cp w)) = w_cp w \<Longrightarrow> snd (on_cp f w) = w"
  by (cases "f (w_cp w)") (simp add: on_cp_def)

lemma on_store_pure: "snd (f (w_store w)) = w_store w \<Longrightarrow> snd (on_store f w) = w"
  by (cases "f (w_store w)") (simp add: on_store_def)

lemma on_cp_Inr: "f (w_cp w) = (Inr x, c) \<Longrightarrow> on_cp f w = (Inr x, w\<lparr>w_cp := c\<rparr>)"
  by (simp add: on_cp_def)

lemma on_store_Inr: "f (w_store w) = (Inr x, c) \<Longrightarrow> on_store f w = (Inr x, w\<lparr>w_store := c\<rparr>)"
  by (simp add: on_store_def)

interpretation wl: intent_ledger world_get world_prepare world_complete world_mark_unknown world_usable
proof unfold_locales
  fix w :: world and i :: intent_record and old
  assume a: "world_usable w (in_tenant i) (in_case i)" "in_status i = PENDING"
    "fst (world_get (in_tenant i) (in_key i) w) = Inr old" "\<And>x. old = Some x \<Longrightarrow> in_status x \<noteq> COMPLETED"
  then have "ledger_usable (w_cp w) (in_tenant i) (in_case i)"
    "fst (ledger_get (in_tenant i) (in_key i) (w_cp w)) = Inr old" by (simp_all add: world_defs)
  from pg.prepare_open[OF this(1) a(2) this(2) a(4)]
  show "\<exists>i' w'. world_prepare i w = (Inr i', w') \<and> fst (world_get (in_tenant i) (in_key i) w') = Inr (Some i') \<and>
      in_status i' = PENDING"
    by (auto simp: world_defs dest!: on_cp_Inr[of "ledger_prepare i"])
next
  fix w :: world and t k x out
  assume "fst (world_get t k w) = Inr (Some x)" "valid_ref out"
  then show "\<exists>i' w'. world_complete t k out w = (Inr i', w') \<and> fst (world_get t k w') = Inr (Some i') \<and>
      in_status i' = COMPLETED \<and> in_output i' = Some out"
    using pg.complete_known[of t k "w_cp w" x out]
    by (auto simp: world_defs dest!: on_cp_Inr[of "ledger_complete t k out"])
next
  fix w :: world and t k x
  assume "fst (world_get t k w) = Inr (Some x)" "in_status x = PENDING"
  then show "\<exists>i' w'. world_mark_unknown t k w = (Inr i', w') \<and> fst (world_get t k w') = Inr (Some i') \<and>
      in_status i' = UNKNOWN"
    using pg.mark_pending[of t k "w_cp w" x]
    by (auto simp: world_defs dest!: on_cp_Inr[of "ledger_mark_unknown t k"])
next
  fix w :: world and i :: intent_record and x
  assume "world_usable w (in_tenant i) (in_case i)"
    "fst (world_get (in_tenant i) (in_key i) w) = Inr (Some x)" "in_status x = COMPLETED"
  then show "fst (world_get (in_tenant i) (in_key i) (snd (world_prepare i w))) = Inr (Some x)"
    using pg.prepare_done[of "w_cp w" i x] by (simp add: world_defs)
qed (simp_all add: world_defs on_cp_pure pg.usable_kept)

interpretation ws: json_store world_put world_read world_fits
proof unfold_locales
  fix w :: world and t c d k
  assume "world_fits w t c d" "\<not> blank k"
  then show "\<exists>r w'. world_put t c d k w = (Inr r, w') \<and> valid_ref r \<and> ref_digest r = d \<and>
      fst (world_read t r w') = Inr c"
    using s3.put_read[of "w_store w" t c d k]
    by (auto simp: world_defs dest!: on_store_Inr[of "store_put_json t c d k"])
qed (simp_all add: world_defs on_store_pure s3.put_keeps)

interpretation pf: node_platform world_get world_prepare world_complete world_mark_unknown world_usable
    world_put world_read world_fits emit_event policy
  for policy
  by unfold_locales (simp_all add: world_defs)

definition platform_ports :: "(policy_request \<Rightarrow> (world, policy_decision) io) option \<Rightarrow> world node_ports" where
  "platform_ports policy = \<lparr>np_get = world_get, np_prepare = world_prepare, np_complete = world_complete,
     np_mark_unknown = world_mark_unknown, np_put_json = world_put, np_read = world_read,
     np_telemetry = Some emit_event, np_policy = policy\<rparr>"

definition node_intent :: "(blob \<Rightarrow> string) \<Rightarrow> string \<Rightarrow> string \<Rightarrow> string \<Rightarrow> string \<Rightarrow> state \<Rightarrow> world \<Rightarrow>
    intent_record" where
  "node_intent sha node t c k st w = \<lparr>in_tenant = t, in_key = k, in_node = node, in_case = c,
     in_status = PENDING, in_input = sha (NodeInput node st), in_output = None,
     in_updated = Aware (w_time w)\<rparr>"

lemma platform_ports_eq: "pf.ports policy = platform_ports policy"
  by (simp add: pf.ports_def platform_ports_def)

lemma node_intent_eq: "pf.intent sha w_time node t c k st w = node_intent sha node t c k st w"
  by (simp add: pf.intent_def node_intent_def)

text \<open>A runtime on the production platform in which \<open>node\<close> is registered with side effects.\<close>

definition enabled_on :: "world node_runtime \<Rightarrow> (policy_request \<Rightarrow> (world, policy_decision) io) option \<Rightarrow>
    string \<Rightarrow> world registered_node \<Rightarrow> bool" where
  "enabled_on rt policy node reg \<longleftrightarrow> map_of (rt_nodes rt) node = Some reg \<and>
     rt_ports rt = Some (platform_ports policy) \<and> ns_effect (rg_spec reg) \<noteq> PURE"

definition identified :: "state \<Rightarrow> node_spec \<Rightarrow> string \<Rightarrow> string \<Rightarrow> string \<Rightarrow> bool" where
  "identified st spec t c k \<longleftrightarrow> require_identity st ''tenant_id'' = Inr t \<and>
     require_identity st ''case_id'' = Inr c \<and> derive_idempotency_key spec st = Inr k"

definition not_completed :: "world \<Rightarrow> string \<Rightarrow> string \<Rightarrow> bool" where
  "not_completed w t k \<longleftrightarrow> (\<exists>old. fst (world_get t k w) = Inr old \<and>
     (case old of None \<Rightarrow> True | Some x \<Rightarrow> in_status x \<noteq> COMPLETED))"

lemma execute_enabled:
  "enabled_on rt policy node reg \<Longrightarrow>
     execute sha w_time rt node st = execute_idempotent sha w_time node reg (platform_ports policy) st"
  by (simp add: enabled_on_def execute_def)

lemma idempotency_key_not_blank: "derive_idempotency_key spec st = Inr k \<Longrightarrow> \<not> blank k"
  by (auto simp: derive_key_eq bindR_Inr_iff blank_def is_space_def)

section \<open>Properties of execution\<close>

text \<open>C1. A node with side effects runs its handler at most once per idempotency key: after one
  successful execution, executing the node again under the same key, with whatever handler and
  state, calls no handler, leaves ledger, store and telemetry as they are, and commits the
  execution stored the first time as JSON gives it back.\<close>

theorem execute_runs_once:
  assumes "enabled_on rt policy node reg" and "identified st (rg_spec reg) t c k"
    and "world_usable w t c" and "not_completed w t k"
    and "rg_handler reg st (Some (platform_ports policy))
          (snd (world_prepare (node_intent sha node t c k st w) w)) = (Inr ex, w2)"
    and "fst (world_get t k w2) = Inr (Some y)" and "validate_execution node (rg_spec reg) ex = Inr ()"
    and "world_fits w2 t (Execution ex) (sha (Execution ex))"
  shows "\<exists>w'. execute sha w_time rt node st w = (Inr (commit node ex st), w') \<and>
    (\<forall>rt' reg' st'. enabled_on rt' policy node reg' \<and> identified st' (rg_spec reg') t c k \<longrightarrow>
       execute sha w_time rt' node st' w' =
         (Inr (commit node \<lparr>ex_route = ex_route ex, ex_updates = coerce_updates (ex_updates ex)\<rparr> st'), w'))"
proof -
  from assms(2) have i: "require_identity st ''tenant_id'' = Inr t"
    "require_identity st ''case_id'' = Inr c" "derive_idempotency_key (rg_spec reg) st = Inr k"
    by (simp_all add: identified_def)
  from assms(4) obtain old where old: "fst (world_get t k w) = Inr old"
    "\<And>x. old = Some x \<Longrightarrow> in_status x \<noteq> COMPLETED"
    by (auto simp: not_completed_def split: option.splits)
  note run = pf.run_then_replay[OF i assms(3) old, where clock = w_time and policy = policy,
      unfolded node_intent_eq platform_ports_eq, OF _ assms(5-8) idempotency_key_not_blank[OF i(3)]]
  then obtain w' where w':
    "execute_idempotent sha w_time node reg (platform_ports policy) st w = (Inr (commit node ex st), w')"
    "\<And>reg' st'. require_identity st' ''tenant_id'' = Inr t \<and> require_identity st' ''case_id'' = Inr c \<and>
       derive_idempotency_key (rg_spec reg') st' = Inr k \<Longrightarrow>
       execute_idempotent sha w_time node reg' (platform_ports policy) st' w' =
         (Inr (commit node \<lparr>ex_route = ex_route ex, ex_updates = coerce_updates (ex_updates ex)\<rparr> st'), w')"
    by blast
  show ?thesis
  proof (intro exI[of _ w'] conjI allI impI)
    show "execute sha w_time rt node st w = (Inr (commit node ex st), w')"
      using w'(1) execute_enabled[OF assms(1)] by simp
  next
    fix rt' :: "world node_runtime" and reg' st'
    assume a: "enabled_on rt' policy node reg' \<and> identified st' (rg_spec reg') t c k"
    then show "execute sha w_time rt' node st' w' =
      (Inr (commit node \<lparr>ex_route = ex_route ex, ex_updates = coerce_updates (ex_updates ex)\<rparr> st'), w')"
      using w'(2)[of st' reg'] execute_enabled[of rt' policy node reg' sha st']
      unfolding identified_def by simp
  qed
qed

definition demo_world :: world where
  "demo_world = \<lparr>w_cp = demo_plane\<lparr>cp_intents := []\<rparr>, w_store = demo_store, w_telemetry = [],
     w_git = [], w_time = 7\<rparr>"

definition demo_runtime :: "world handler \<Rightarrow> world node_runtime" where
  "demo_runtime h = \<lparr>rt_nodes = [(''S03.50'', \<lparr>rg_spec = demo_spec, rg_handler = h\<rparr>)],
     rt_ports = Some (platform_ports None)\<rparr>"

definition demo_execution :: node_execution where
  "demo_execution = \<lparr>ex_route = CONTINUE, ex_updates = [(''s03_executor'', VStr ''worker'')]\<rparr>"

lemma demo_enabled: "enabled_on (demo_runtime h) None ''S03.50'' \<lparr>rg_spec = demo_spec, rg_handler = h\<rparr>"
  by (simp add: enabled_on_def demo_runtime_def demo_spec_def)

lemma demo_identified: "identified demo_state demo_spec ''t'' ''c'' ''c:S03.50:v1''"
  by (simp add: identified_def require_identity_def demo_state_def get_str_def derive_key_eq
      demo_spec_def revision_pass_def resume_pass_def revision_fields_def split_head_def
      get_int_def pass_suffix_def)

lemma demo_usable: "world_usable demo_world ''t'' ''c''"
  by (simp add: world_usable_def ledger_usable_def demo_world_def demo_plane_def)

lemma demo_not_completed: "not_completed demo_world ''t'' k"
  by (simp add: not_completed_def world_get_def ledger_get_def demo_world_def demo_plane_def)

lemma demo_prepared:
  "\<exists>y. fst (world_get ''t'' k (snd (world_prepare (node_intent sha node ''t'' ''c'' k st demo_world) demo_world))) =
      Inr (Some y) \<and> in_status y = PENDING"
  by (simp add: world_defs ledger_get_def ledger_prepare_def upsert_intent_def node_intent_def Let_def
      demo_world_def demo_plane_def fresh_row_def intent_record_from_row_def artifact_ref_from_row_def)

theorem execute_runs_once_witness:
  "\<exists>w'. execute (\<lambda>_. rep_digest CHR ''a'') w_time (demo_runtime (\<lambda>_ _ w. (Inr demo_execution, w)))
        ''S03.50'' demo_state demo_world = (Inr (commit ''S03.50'' demo_execution demo_state), w') \<and>
     execute (\<lambda>_. rep_digest CHR ''a'') w_time (demo_runtime (\<lambda>_ _ w. (Inl StopIteration, w)))
        ''S03.50'' demo_state w' = (Inr (commit ''S03.50'' demo_execution demo_state), w')"
proof -
  let ?sha = "\<lambda>_ :: blob. rep_digest CHR ''a''" and ?h = "\<lambda>(_ :: state) (_ :: world node_ports option) (w :: world). (Inr demo_execution :: node_execution result, w)"
  let ?reg = "\<lparr>rg_spec = demo_spec, rg_handler = ?h\<rparr>" and ?k = "''c:S03.50:v1''"
  let ?w1 = "snd (world_prepare (node_intent ?sha ''S03.50'' ''t'' ''c'' ?k demo_state demo_world) demo_world)"
  obtain y where y: "fst (world_get ''t'' ?k ?w1) = Inr (Some y)"
    using demo_prepared by blast
  have i: "identified demo_state (rg_spec ?reg) ''t'' ''c'' ?k" using demo_identified by simp
  have h: "rg_handler ?reg demo_state (Some (platform_ports None)) ?w1 = (Inr demo_execution, ?w1)"
    by simp
  have v: "validate_execution ''S03.50'' (rg_spec ?reg) demo_execution = Inr ()"
    by (simp add: validate_execution_def demo_execution_def demo_spec_def runtime_fields_def
        shared_fields_def identity_fields_def)
  have f: "world_fits ?w1 ''t'' (Execution demo_execution) (?sha (Execution demo_execution))"
    by (simp add: world_fits_def world_prepare_def store_fits_def demo_world_def demo_store_def
        plain_name_def blank_def is_space_def valid_rep_digest hex_digit_def)
  have c: "\<lparr>ex_route = ex_route demo_execution, ex_updates = coerce_updates (ex_updates demo_execution)\<rparr> = demo_execution"
    by (simp add: demo_execution_def coerce_updates_def coerce_value_def)
  from execute_runs_once[OF demo_enabled i demo_usable demo_not_completed h y v f]
  obtain w' where "execute ?sha w_time (demo_runtime ?h) ''S03.50'' demo_state demo_world =
      (Inr (commit ''S03.50'' demo_execution demo_state), w')"
    and r: "\<And>rt reg st. enabled_on rt None ''S03.50'' reg \<and> identified st (rg_spec reg) ''t'' ''c'' ?k \<Longrightarrow>
      execute ?sha w_time rt ''S03.50'' st w' = (Inr (commit ''S03.50'' demo_execution st), w')"
    unfolding c by blast
  moreover have "execute ?sha w_time (demo_runtime (\<lambda>_ _ w. (Inl StopIteration, w))) ''S03.50'' demo_state w' =
      (Inr (commit ''S03.50'' demo_execution demo_state), w')"
    by (rule r, rule conjI, rule demo_enabled) (simp add: demo_identified)
  ultimately show ?thesis by blast
qed

text \<open>When a handler raises, the exception reaches the caller, and the intent is left
  unknown, so that the node is executed again on a retry instead of being taken as done.\<close>

theorem execute_raise_marks_unknown:
  assumes "enabled_on rt policy node reg" and "identified st (rg_spec reg) t c k"
    and "world_usable w t c" and "not_completed w t k"
    and "rg_handler reg st (Some (platform_ports policy))
          (snd (world_prepare (node_intent sha node t c k st w) w)) = (Inl e, w2)"
    and "fst (world_get t k w2) = Inr (Some y)" and "in_status y = PENDING"
  shows "\<exists>z w'. execute sha w_time rt node st w = (Inl e, w') \<and>
    fst (world_get t k w') = Inr (Some z) \<and> in_status z = UNKNOWN \<and> not_completed w' t k"
proof -
  from assms(2) have i: "require_identity st ''tenant_id'' = Inr t"
    "require_identity st ''case_id'' = Inr c" "derive_idempotency_key (rg_spec reg) st = Inr k"
    by (simp_all add: identified_def)
  from assms(4) obtain old where old: "fst (world_get t k w) = Inr old"
    "\<And>x. old = Some x \<Longrightarrow> in_status x \<noteq> COMPLETED"
    by (auto simp: not_completed_def split: option.splits)
  from pf.run_raises[OF i assms(3) old, where clock = w_time and policy = policy,
      unfolded node_intent_eq platform_ports_eq, OF _ assms(5-7)]
  show ?thesis unfolding execute_enabled[OF assms(1)] by (auto simp: not_completed_def)
qed

theorem execute_raise_marks_unknown_witness:
  "\<exists>z w'. execute (\<lambda>_. rep_digest CHR ''a'') w_time (demo_runtime (\<lambda>_ _ w. (Inl StopIteration, w)))
        ''S03.50'' demo_state demo_world = (Inl StopIteration, w') \<and>
     fst (world_get ''t'' ''c:S03.50:v1'' w') = Inr (Some z) \<and> in_status z = UNKNOWN"
proof -
  let ?sha = "\<lambda>_ :: blob. rep_digest CHR ''a''" and ?h = "\<lambda>(_ :: state) (_ :: world node_ports option) (w :: world). (Inl StopIteration :: node_execution result, w)"
  let ?reg = "\<lparr>rg_spec = demo_spec, rg_handler = ?h\<rparr>" and ?k = "''c:S03.50:v1''"
  let ?w1 = "snd (world_prepare (node_intent ?sha ''S03.50'' ''t'' ''c'' ?k demo_state demo_world) demo_world)"
  obtain y where y: "fst (world_get ''t'' ?k ?w1) = Inr (Some y)" "in_status y = PENDING"
    using demo_prepared by blast
  have i: "identified demo_state (rg_spec ?reg) ''t'' ''c'' ?k" using demo_identified by simp
  have h: "rg_handler ?reg demo_state (Some (platform_ports None)) ?w1 = (Inl StopIteration, ?w1)"
    by simp
  from execute_raise_marks_unknown[OF demo_enabled i demo_usable demo_not_completed h y]
  show ?thesis by auto
qed

section \<open>What an execution may change\<close>

definition clean_execution :: "node_execution \<Rightarrow> bool" where
  "clean_execution ex \<longleftrightarrow> set (keys (ex_updates ex)) \<subseteq> set runtime_fields \<and>
     set (keys (ex_updates ex)) \<inter> set identity_fields = {}"

text \<open>Every execution in the store was validated before it was stored.\<close>

definition store_clean :: "world \<Rightarrow> bool" where
  "store_clean w \<longleftrightarrow>
     (\<forall>k ex. map_of (as_objects (w_store w)) k = Some (Execution ex) \<longrightarrow> clean_execution ex)"

lemma validate_clean: "validate_execution node spec ex = Inr () \<Longrightarrow> clean_execution ex"
  by (simp add: validate_execution_def clean_execution_def split: if_splits)

lemma validate_execution_cases:
  "validate_execution node spec ex = Inr () \<and> route_value (ex_route ex) \<in> set (ns_routes spec) \<and>
     set (keys (ex_updates ex)) \<subseteq> set runtime_fields \<and>
     set (keys (ex_updates ex)) \<inter> set identity_fields = {} \<or>
   (\<exists>m. validate_execution node spec ex = Inl (InvalidNodeExecutionError m))"
  by (simp add: validate_execution_def del: set_map)

lemma clean_load: "load_execution b = Inr ex \<Longrightarrow> (\<And>e. b = Execution e \<Longrightarrow> clean_execution e) \<Longrightarrow> clean_execution ex"
  by (cases b) (force simp: load_execution_def clean_execution_def coerce_updates_def)+

lemma keys_commit:
  "set (keys (commit node ex st)) =
     {''node_routes'', ''completed_nodes'', ''current_node''} \<union> set (keys (ex_updates ex))"
  by (auto simp: commit_def Let_def dom_update)

lemma clean_commit_keys:
  assumes "clean_execution ex"
  shows "set (keys (commit node ex st)) \<inter> set identity_fields = {} \<and>
     set (keys (commit node ex st)) \<subseteq> set runtime_fields"
proof -
  have "{''node_routes'', ''completed_nodes'', ''current_node''} \<subseteq> set runtime_fields"
    by (simp add: runtime_fields_def lane_fields_def)
  moreover have "{''node_routes'', ''completed_nodes'', ''current_node''} \<inter> set identity_fields = {}"
    by (simp add: identity_fields_def)
  ultimately show ?thesis
    using assms unfolding keys_commit clean_execution_def by blast
qed

lemma apply_updates_other:
  "apply_updates st u = Inr st' \<Longrightarrow> k \<notin> set (keys u) \<Longrightarrow> st' k = st k"
  unfolding apply_updates_def
  by (induction u arbitrary: st) (auto simp: bindR_Inr_iff apply_update_def)

lemma store_clean_on_cp: "keeps store_clean (on_cp f) (\<lambda>_. True)"
  by (rule keepsI) (simp_all add: store_clean_def)

lemma store_clean_emit: "keeps store_clean (emit_event e) (\<lambda>_. True)"
  by (rule keepsI) (simp_all add: store_clean_def emit_event_def)

lemma store_clean_put: "clean_execution ex \<Longrightarrow> keeps store_clean (world_put t (Execution ex) d k) (\<lambda>_. True)"
  by (rule keepsI) (auto simp: store_clean_def world_put_def store_put_json_def split: sum.splits)

lemma store_clean_read:
  "keeps store_clean (world_read t r) (\<lambda>b. \<forall>ex. b = Execution ex \<longrightarrow> clean_execution ex)"
proof (rule keepsI)
  fix w assume "store_clean w"
  then show "store_clean (snd (world_read t r w))" by (simp add: store_clean_def world_read_def)
next
  fix w b assume w: "store_clean w" and b: "fst (world_read t r w) = Inr b"
  then obtain k where "map_of (as_objects (w_store w)) k = Some b"
    by (auto simp: world_read_def store_read_def index_def split: sum.splits prod.splits if_splits option.splits)
  with w show "\<forall>ex. b = Execution ex \<longrightarrow> clean_execution ex" by (auto simp: store_clean_def)
qed

lemma keeps_validated:
  assumes "keeps store_clean m (\<lambda>_. True)"
    and "\<And>ex. validate_execution node spec ex = Inr () \<Longrightarrow> keeps store_clean (f ex) Q"
  shows "keeps store_clean (bindI m (\<lambda>ex. bindI (liftI (validate_execution node spec ex)) (\<lambda>_. f ex))) Q"
  by (rule keeps_bindI[OF assms(1)], rule keeps_bindI[where R = "\<lambda>_. validate_execution node spec _ = Inr ()"],
      rule keeps_liftI) (auto intro: assms(2))

lemma execute_keeps_clean:
  assumes "rt_ports rt = Some (platform_ports policy)"
    and "\<And>node reg st p. map_of (rt_nodes rt) node = Some reg \<Longrightarrow> keeps store_clean (rg_handler reg st p) (\<lambda>_. True)"
  shows "keeps store_clean (execute sha w_time rt node st)
     (\<lambda>u. \<exists>ex. clean_execution ex \<and> u = commit node ex st)"
proof (cases "map_of (rt_nodes rt) node")
  case None
  then show ?thesis by (simp add: execute_def keeps_failI)
next
  case (Some reg)
  let ?Q = "\<lambda>u. \<exists>ex. clean_execution ex \<and> u = commit node ex st"
  note h = assms(2)[OF Some]
  have mark: "keeps store_clean (np_mark_unknown (platform_ports policy) t k) (\<lambda>_. True)" for t k
    by (simp add: platform_ports_def world_mark_unknown_def store_clean_on_cp)
  have run: "keeps store_clean (run_handler sha reg (platform_ports policy) node t c k st) ?Q" for t c k
    unfolding run_handler_def
  proof (rule keeps_validated)
    show "keeps store_clean (reraiseI (rg_handler reg st (Some (platform_ports policy)))
        (np_mark_unknown (platform_ports policy) t k)) (\<lambda>_. True)"
      by (intro keeps_reraiseI h mark)
  next
    fix ex assume "validate_execution node (rg_spec reg) ex = Inr ()"
    then have "clean_execution ex" by (rule validate_clean)
    then show "keeps store_clean (bindI (np_put_json (platform_ports policy) t (Execution ex) (sha (Execution ex)) k)
        (\<lambda>out. bindI (np_complete (platform_ports policy) t k out) (\<lambda>_.
         bindI (case np_telemetry (platform_ports policy) of None \<Rightarrow> retI ()
            | Some emit \<Rightarrow> emit \<lparr>te_case = c,
                te_thread = (case get_str st ''thread_id'' of Some s \<Rightarrow> s | None \<Rightarrow> []),
                te_node = node, te_attempt = 1, te_result = route_value (ex_route ex)\<rparr>)
          (\<lambda>_. retI (commit node ex st))))) ?Q"
      unfolding platform_ports_def
      by (auto simp: world_complete_def intro!: keeps_bindI[where R = "\<lambda>_. True"] keeps_retI
          store_clean_put store_clean_on_cp store_clean_emit)
  qed
  have fresh: "keeps store_clean (\<lambda>w. bindI (np_prepare (platform_ports policy) \<lparr>in_tenant = t, in_key = k,
        in_node = node, in_case = c, in_status = PENDING, in_input = sha (NodeInput node st),
        in_output = None, in_updated = Aware (w_time w)\<rparr>)
        (\<lambda>_. run_handler sha reg (platform_ports policy) node t c k st) w) ?Q" for t c k
    by (rule keeps_world[where g = "\<lambda>w. bindI (np_prepare (platform_ports policy) \<lparr>in_tenant = t, in_key = k,
        in_node = node, in_case = c, in_status = PENDING, in_input = sha (NodeInput node st),
        in_output = None, in_updated = Aware (w_time w)\<rparr>)
        (\<lambda>_. run_handler sha reg (platform_ports policy) node t c k st)"],
        rule keeps_bindI[where R = "\<lambda>_. True"])
      (simp_all add: platform_ports_def[of policy] world_prepare_def store_clean_on_cp
        run[unfolded platform_ports_def])
  have cached: "keeps store_clean (bindI (np_read (platform_ports policy) t r) (\<lambda>payload.
       bindI (liftI (load_execution payload)) (\<lambda>ex. retI (commit node ex st)))) ?Q" for t r
  proof (rule keeps_bindI)
    show "keeps store_clean (np_read (platform_ports policy) t r)
        (\<lambda>b. \<forall>ex. b = Execution ex \<longrightarrow> clean_execution ex)"
      by (simp add: platform_ports_def store_clean_read)
    show "keeps store_clean (bindI (liftI (load_execution b)) (\<lambda>ex. retI (commit node ex st))) ?Q"
      if "\<forall>ex. b = Execution ex \<longrightarrow> clean_execution ex" for b
      using that by (intro keeps_bindI[where R = clean_execution] keeps_liftI keeps_retI)
        (auto intro: clean_load)
  qed
  have "keeps store_clean (execute_idempotent sha w_time node reg (platform_ports policy) st) ?Q"
    unfolding execute_idempotent_def
    by (intro keeps_bindI[where R = "\<lambda>_. True"] keeps_liftI TrueI)
      (auto simp: platform_ports_def world_get_def store_clean_on_cp
        fresh[unfolded platform_ports_def, simplified] cached[unfolded platform_ports_def, simplified]
        split: option.splits)
  moreover have "keeps store_clean (bindI (rg_handler reg st (Some (platform_ports policy))) (\<lambda>ex.
      bindI (liftI (validate_execution node (rg_spec reg) ex)) (\<lambda>_. retI (commit node ex st)))) ?Q"
    by (rule keeps_validated[OF h]) (auto intro!: keeps_retI dest: validate_clean)
  ultimately show ?thesis using assms(1) Some by (simp add: execute_def)
qed

text \<open>No execution, fresh or replayed, can change the identity of a case or write a field the
  state does not have: the committed update avoids the identity fields, stays within the declared
  fields, and applying it leaves case, thread, tenant, entry point and lane as they were. The
  store keeps holding validated executions only.\<close>

theorem execute_keeps_identity:
  assumes "rt_ports rt = Some (platform_ports policy)" and "store_clean w"
    and "\<And>node reg st p. map_of (rt_nodes rt) node = Some reg \<Longrightarrow> keeps store_clean (rg_handler reg st p) (\<lambda>_. True)"
    and "execute sha w_time rt node st w = (r, w')"
  shows "store_clean w' \<and> (\<forall>u. r = Inr u \<longrightarrow>
     set (keys u) \<subseteq> set runtime_fields \<and> set (keys u) \<inter> set identity_fields = {} \<and>
     (\<forall>st'. apply_updates st u = Inr st' \<longrightarrow> (\<forall>k \<in> set identity_fields. st' k = st k)))"
proof -
  have k: "keeps store_clean (execute sha w_time rt node st)
      (\<lambda>u. \<exists>ex. clean_execution ex \<and> u = commit node ex st)"
    by (rule execute_keeps_clean[OF assms(1)]) (rule assms(3))
  have "store_clean w'" using keepsD[OF k assms(2)] assms(4) by simp
  moreover have "set (keys u) \<subseteq> set runtime_fields \<and> set (keys u) \<inter> set identity_fields = {}"
    if "r = Inr u" for u
  proof -
    from keeps_Inr[OF k assms(2), of u] assms(4) that obtain ex where
      ex: "clean_execution ex" "u = commit node ex st" by auto
    show ?thesis unfolding ex(2) using clean_commit_keys[OF ex(1)] by blast
  qed
  ultimately show ?thesis using apply_updates_other by blast
qed

theorem execute_keeps_identity_witness:
  "let (r, w') = execute (\<lambda>_. rep_digest CHR ''a'') w_time (demo_runtime (\<lambda>_ _ w. (Inr demo_execution, w)))
        ''S03.50'' demo_state demo_world
   in store_clean w' \<and> (\<forall>u. r = Inr u \<longrightarrow> set (keys u) \<inter> set identity_fields = {})"
proof -
  let ?rt = "demo_runtime (\<lambda>_ _ w. (Inr demo_execution, w))"
  obtain r w' where e: "execute (\<lambda>_. rep_digest CHR ''a'') w_time ?rt ''S03.50'' demo_state demo_world = (r, w')"
    by (cases "execute (\<lambda>_. rep_digest CHR ''a'') w_time ?rt ''S03.50'' demo_state demo_world")
  have p: "rt_ports ?rt = Some (platform_ports None)" by (simp add: demo_runtime_def)
  have s: "store_clean demo_world" by (simp add: store_clean_def demo_world_def demo_store_def)
  have h: "keeps store_clean (rg_handler reg st q) (\<lambda>_. True)" if "map_of (rt_nodes ?rt) node = Some reg"
    for node reg st q
    using that by (auto simp: demo_runtime_def keeps_def triple_def split: if_splits)
  from execute_keeps_identity[OF p s h e] show ?thesis unfolding e Let_def by auto
qed

text \<open>Execution fails closed: a node without an enabled handler raises and changes nothing,
  and a handler result with an undeclared route, an unknown field or an identity field raises,
  so that its update is neither stored nor committed.\<close>

theorem execute_fails_closed:
  "(map_of (rt_nodes rt) node = None \<longrightarrow>
      execute sha clock rt node st w = (Inl (NodeNotEnabledError node), w)) \<and>
   (\<forall>reg ports t c k ex w1.
      map_of (rt_nodes rt) node = Some reg \<and> rg_handler reg st (Some ports) w = (Inr ex, w1) \<and>
      (route_value (ex_route ex) \<notin> set (ns_routes (rg_spec reg)) \<or>
       \<not> set (keys (ex_updates ex)) \<subseteq> set runtime_fields \<or>
       set (keys (ex_updates ex)) \<inter> set identity_fields \<noteq> {}) \<longrightarrow>
      (\<exists>m. run_handler sha reg ports node t c k st w = (Inl (InvalidNodeExecutionError m), w1) \<and>
           (ns_effect (rg_spec reg) = PURE \<and> rt_ports rt = Some ports \<longrightarrow>
            execute sha clock rt node st w = (Inl (InvalidNodeExecutionError m), w1))))"
proof (intro conjI impI allI, simp add: execute_def)
  fix reg ports t c k ex w1
  assume a: "map_of (rt_nodes rt) node = Some reg \<and> rg_handler reg st (Some ports) w = (Inr ex, w1) \<and>
      (route_value (ex_route ex) \<notin> set (ns_routes (rg_spec reg)) \<or>
       \<not> set (keys (ex_updates ex)) \<subseteq> set runtime_fields \<or>
       set (keys (ex_updates ex)) \<inter> set identity_fields \<noteq> {})"
  then obtain m where v: "validate_execution node (rg_spec reg) ex = Inl (InvalidNodeExecutionError m)"
    using validate_execution_cases[of node "rg_spec reg" ex] by blast
  with a show "\<exists>m. run_handler sha reg ports node t c k st w = (Inl (InvalidNodeExecutionError m), w1) \<and>
           (ns_effect (rg_spec reg) = PURE \<and> rt_ports rt = Some ports \<longrightarrow>
            execute sha clock rt node st w = (Inl (InvalidNodeExecutionError m), w1))"
    by (auto simp: run_handler_def execute_def bindI_def reraiseI_def)
qed

definition undeclared_handler :: "world handler" where
  "undeclared_handler = (\<lambda>_ _. retI \<lparr>ex_route = QUARANTINE, ex_updates = []\<rparr>)"

theorem execute_fails_closed_witness:
  "execute (\<lambda>_. []) w_time (demo_runtime undeclared_handler) ''S09.99'' demo_state demo_world =
     (Inl (NodeNotEnabledError ''S09.99''), demo_world) \<and>
   (\<exists>m. run_handler (\<lambda>_. []) \<lparr>rg_spec = demo_spec, rg_handler = undeclared_handler\<rparr> (platform_ports None)
      ''S03.50'' ''t'' ''c'' ''c:S03.50:v1'' demo_state demo_world = (Inl (InvalidNodeExecutionError m), demo_world))"
proof
  show "execute (\<lambda>_. []) w_time (demo_runtime undeclared_handler) ''S09.99'' demo_state demo_world =
     (Inl (NodeNotEnabledError ''S09.99''), demo_world)"
    by (rule execute_fails_closed[THEN conjunct1, THEN mp]) (simp add: demo_runtime_def)
  have "map_of (rt_nodes (demo_runtime undeclared_handler)) ''S03.50'' =
        Some \<lparr>rg_spec = demo_spec, rg_handler = undeclared_handler\<rparr> \<and>
      undeclared_handler demo_state (Some (platform_ports None)) demo_world =
        (Inr \<lparr>ex_route = QUARANTINE, ex_updates = []\<rparr>, demo_world) \<and>
      route_value QUARANTINE \<notin> set (ns_routes demo_spec)"
    by (simp add: demo_runtime_def undeclared_handler_def demo_spec_def)
  then show "\<exists>m. run_handler (\<lambda>_. []) \<lparr>rg_spec = demo_spec, rg_handler = undeclared_handler\<rparr> (platform_ports None)
      ''S03.50'' ''t'' ''c'' ''c:S03.50:v1'' demo_state demo_world = (Inl (InvalidNodeExecutionError m), demo_world)"
    using execute_fails_closed[THEN conjunct2, rule_format, of "demo_runtime undeclared_handler" "''S03.50''"
        "\<lparr>rg_spec = demo_spec, rg_handler = undeclared_handler\<rparr>" demo_state "platform_ports None" demo_world
        "\<lparr>ex_route = QUARANTINE, ex_updates = []\<rparr>" demo_world "\<lambda>_. []" "''t''" "''c''" "''c:S03.50:v1''" w_time]
    by auto
qed

end
