(* ===== verification/Rank_Select.thy ===== *)
theory Rank_Select
  imports Node_Runtime
begin

text \<open>
  Step 01, rank and select (\<open>application/s01_handlers/\<close>): the scoring formula, the ranking with
  its risk-tier tie break, the sensitivity sweep, the approval rule and the nine node handlers
  S01.10 to S01.90, over the artifact helpers of \<open>s01_handlers/shared.py\<close>. The deterministic part
  of each node is a function of its own; the handler reads the artifacts and the state around it.
  Message texts keep their wording without the numbers formatted into them.
\<close>

section \<open>Artifact helpers\<close>

definition required_state_str :: "state \<Rightarrow> string \<Rightarrow> string result" where
  "required_state_str st k =
     (case get_str st k of
        Some s \<Rightarrow> if s \<noteq> [] then Inr s else Inl (ValueError ''state is missing required field'')
      | None \<Rightarrow> Inl (ValueError ''state is missing required field''))"

definition try_ref :: "state \<Rightarrow> string \<Rightarrow> artifact_ref option" where
  "try_ref st ty = find (\<lambda>r. ref_type r = ty) (get_refs st ''artifact_refs'')"

definition require_ref :: "state \<Rightarrow> string \<Rightarrow> artifact_ref result" where
  "require_ref st ty =
     (case try_ref st ty of None \<Rightarrow> Inl (ValueError ''missing required artifact ref'') | Some r \<Rightarrow> Inr r)"

definition stage_artifact_id :: "string \<Rightarrow> string \<Rightarrow> string \<Rightarrow> string" where
  "stage_artifact_id cid node ty = cid @ ''-'' @ node @ ''-'' @ ty"

definition require_stage_ref :: "state \<Rightarrow> string \<Rightarrow> string \<Rightarrow> artifact_ref result" where
  "require_stage_ref st node ty =
     bindR (required_state_str st ''case_id'') (\<lambda>cid.
       case find (\<lambda>r. ref_type r = ty \<and> ref_id r = stage_artifact_id cid node ty)
              (get_refs st ''artifact_refs'') of
         None \<Rightarrow> Inl (ValueError ''missing required stage artifact'')
       | Some r \<Rightarrow> Inr r)"

definition s01_pass_number :: "state \<Rightarrow> nat" where
  "s01_pass_number st = length (get_strs st ''s01_excluded_strategy_ids'')"

definition pass_stage_id :: "string \<Rightarrow> nat \<Rightarrow> string" where
  "pass_stage_id node n = node @ ''-pass'' @ str_nat n"

text \<open>Reading a sealed artifact back as the model of one type: anything else fails validation.\<close>

definition read_model ::
    "'w node_ports \<Rightarrow> state \<Rightarrow> artifact_ref \<Rightarrow> (body \<Rightarrow> 'a result) \<Rightarrow> ('w, 'a) io" where
  "read_model ports st ref decode =
     bindI (liftI (required_state_str st ''tenant_id'')) (\<lambda>tenant.
     bindI (np_read ports tenant ref) (\<lambda>content.
     liftI (case content of Sealed e \<Rightarrow> decode (env_body e) | _ \<Rightarrow> Inl (ValidationError ''ArtifactEnvelope''))))"

definition decode_request :: "body \<Rightarrow> optimization_request result" where
  "decode_request b =
     (case b of BRequest r \<Rightarrow> if valid_request r then Inr r else Inl (ValidationError ''OptimizationRequest'')
      | _ \<Rightarrow> Inl (ValidationError ''OptimizationRequest''))"

definition decode_portfolio :: "body \<Rightarrow> portfolio result" where
  "decode_portfolio b =
     (case b of BPortfolio p fs q \<Rightarrow> if valid_portfolio p \<and> valid_digest fs \<and> valid_digest q then Inr p else Inl (ValidationError ''SolutionPortfolio'')
      | _ \<Rightarrow> Inl (ValidationError ''SolutionPortfolio''))"

definition read_request :: "'w node_ports \<Rightarrow> state \<Rightarrow> ('w, optimization_request) io" where
  "read_request ports st =
     bindI (liftI (require_ref st ''OptimizationRequest'')) (\<lambda>ref. read_model ports st ref decode_request)"

definition read_portfolio :: "'w node_ports \<Rightarrow> state \<Rightarrow> ('w, portfolio) io" where
  "read_portfolio ports st =
     bindI (liftI (require_ref st ''SolutionPortfolio'')) (\<lambda>ref. read_model ports st ref decode_portfolio)"

text \<open>The envelope of a stage artifact; validation is the constructor's.\<close>

definition stage_envelope :: "state \<Rightarrow> string \<Rightarrow> string \<Rightarrow> string list \<Rightarrow> body \<Rightarrow> int \<Rightarrow> envelope result" where
  "stage_envelope st node ty parents b now =
     bindR (required_state_str st ''case_id'') (\<lambda>cid.
     bindR (required_state_str st ''tenant_id'') (\<lambda>tenant.
       let e = \<lparr>env_type = ty, env_id = stage_artifact_id cid node ty, env_tenant = tenant,
                 env_case = cid, env_created = now, env_parents = parents, env_body = b\<rparr> in
       if valid_envelope e then Inr e else Inl (ValidationError ty)))"

definition put_envelope ::
    "(blob \<Rightarrow> string) \<Rightarrow> 'w node_ports \<Rightarrow> state \<Rightarrow> envelope \<Rightarrow> string \<Rightarrow> ('w, artifact_ref) io" where
  "put_envelope sha ports st e node =
     bindI (liftI (required_state_str st ''tenant_id'')) (\<lambda>tenant.
     bindI (liftI (required_state_str st ''case_id'')) (\<lambda>cid.
     bindI (np_put_json ports tenant (Sealed e) (sha (Sealed e)) (cid @ '':'' @ node @ '':'' @ env_type e)) (\<lambda>ref.
     liftI (mk_ref (env_type e) ''1.0'' (env_id e) (sha (Sealed e)) (ref_uri ref)))))"

definition cont :: "updates \<Rightarrow> node_execution" where
  "cont u = \<lparr>ex_route = CONTINUE, ex_updates = u\<rparr>"

section \<open>Scoring constants\<close>

definition s01_policy_version :: string where
  "s01_policy_version = ''s01-ranking-v1''"

definition benefit_weight :: rat where "benefit_weight = 55 / 100"
definition effort_weight :: rat where "effort_weight = 2 / 10"
definition reversibility_weight :: rat where "reversibility_weight = 15 / 100"
definition risk_weight :: rat where "risk_weight = 1 / 10"
definition material_tie_margin :: rat where "material_tie_margin = 5 / 100"
definition sensitivity_perturbation :: rat where "sensitivity_perturbation = 15 / 10"
definition low_confidence_threshold :: rat where "low_confidence_threshold = 5 / 10"

fun risk_tier_order :: "risk_tier \<Rightarrow> nat" where
  "risk_tier_order ExperimentConfig = 0"
| "risk_tier_order Prompt = 1"
| "risk_tier_order Code = 2"
| "risk_tier_order Architecture = 3"

fun effort_scale :: "effort \<Rightarrow> rat" where
  "effort_scale LowEffort = 1"
| "effort_scale MediumEffort = 6 / 10"
| "effort_scale HighEffort = 3 / 10"

fun reversibility_scale :: "reversibility \<Rightarrow> rat" where
  "reversibility_scale InstantRev = 1"
| "reversibility_scale FastRev = 75 / 100"
| "reversibility_scale SlowRev = 4 / 10"
| "reversibility_scale Irreversible = 0"

definition approval_risk_tiers :: "risk_tier set" where
  "approval_risk_tiers = {Code, Architecture}"

definition s01_routes :: "string \<Rightarrow> string list" where
  "s01_routes node =
     (if node = ''S01.20'' then [''continue'', ''rejected'']
      else if node = ''S01.80'' then [''continue'', ''approval'', ''rejected'']
      else [''continue''])"

definition s01_spec :: "string \<Rightarrow> node_spec" where
  "s01_spec node = \<lparr>ns_id = node, ns_version = ''s01-production-v1'', ns_effect = IDEMPOTENT_WRITE,
     ns_timeout = 30, ns_attempts = 2, ns_routes = s01_routes node\<rparr>"

section \<open>Ranking\<close>

definition tied :: "strategy_score list \<Rightarrow> strategy_score list" where
  "tied remaining = filter (\<lambda>s. sc_total (hd remaining) - sc_total s \<le> material_tie_margin) remaining"

definition round_winner :: "strategy_score list \<Rightarrow> strategy_score" where
  "round_winner remaining = the (min_by (\<lambda>s. risk_tier_order (sc_risk_tier s)) (tied remaining))"

lemma tied_nonempty: "remaining \<noteq> [] \<Longrightarrow> tied remaining \<noteq> []"
  by (cases remaining) (auto simp: tied_def material_tie_margin_def)

lemma round_winner_spec:
  assumes "remaining \<noteq> []"
  shows "round_winner remaining \<in> set (tied remaining) \<and>
    (\<forall>s \<in> set (tied remaining). risk_tier_order (sc_risk_tier (round_winner remaining)) \<le> risk_tier_order (sc_risk_tier s))"
proof -
  from tied_nonempty[OF assms] obtain y where
    "min_by (\<lambda>s. risk_tier_order (sc_risk_tier s)) (tied remaining) = Some y"
    by (metis min_by_None not_Some_eq)
  with min_by_Some[OF this] show ?thesis by (simp add: round_winner_def)
qed

lemma round_winner_mem: "remaining \<noteq> [] \<Longrightarrow> round_winner remaining \<in> set remaining"
  using round_winner_spec by (fastforce simp: tied_def)

lemma filter_less: "w \<in> set xs \<Longrightarrow> length (filter (\<lambda>s. f s \<noteq> f w) xs) < length xs"
  by (simp add: length_filter_less)

function rank_loop :: "strategy_score list \<Rightarrow> string list" where
  "rank_loop remaining =
     (if remaining = [] then []
      else let winner = round_winner remaining in
           sc_strategy winner #
             rank_loop (filter (\<lambda>s. sc_strategy s \<noteq> sc_strategy winner) remaining))"
  by pat_completeness auto
termination
  by (relation "measure length") (simp_all add: filter_less round_winner_mem)

declare rank_loop.simps [simp del]

definition rank :: "strategy_score list \<Rightarrow> string list" where
  "rank scores = rank_loop (sort_desc sc_total scores)"

definition perturb_score :: "strategy_score \<Rightarrow> string \<Rightarrow> rat \<Rightarrow> strategy_score" where
  "perturb_score s c m =
     (case map_of (sc_criterion_scores s) c of
        None \<Rightarrow> s
      | Some contribution \<Rightarrow> s\<lparr>sc_total := sc_total s + contribution * (m - 1)\<rparr>)"

section \<open>The nodes' computations\<close>

text \<open>A dictionary comprehension: a later pair for a key replaces an earlier one.\<close>

definition py_dict :: "('k \<times> 'v) list \<Rightarrow> ('k \<times> 'v) list" where
  "py_dict kvs = foldl (\<lambda>d kv. AList.update (fst kv) (snd kv) d) [] kvs"

definition eligible_ids :: "portfolio \<Rightarrow> string list \<Rightarrow> string list" where
  "eligible_ids p excluded =
     map st_id (filter (\<lambda>s. st_eligible s \<and> st_rollback_reversible s \<and> st_fully_resolved s \<and>
                            st_id s \<notin> set excluded) p)"

definition improving :: "solution_strategy \<Rightarrow> criterion_impact list" where
  "improving s = filter (\<lambda>i. ci_direction i = Improves) (st_impacts s)"

definition normalize_strategy :: "solution_strategy \<Rightarrow> normalized_factor" where
  "normalize_strategy s = \<lparr>nf_benefit = py_dict (map (\<lambda>i. (ci_criterion i, ci_confidence i)) (improving s)),
     nf_effort = effort_scale (st_effort s), nf_reversibility = reversibility_scale (st_reversibility s),
     nf_risk = st_uncertainty s\<rparr>"

definition normalized_factors :: "portfolio \<Rightarrow> string list \<Rightarrow> normalized_factor dict" where
  "normalized_factors p ids =
     py_dict (map (\<lambda>s. (st_id s, normalize_strategy s)) (filter (\<lambda>s. st_id s \<in> set ids) p))"

definition total_weight :: "optimization_request \<Rightarrow> rat" where
  "total_weight r = (let t = sum_list (map cr_weight (req_criteria r)) in if t = 0 then 1 else t)"

definition weight_by_criterion :: "optimization_request \<Rightarrow> rat dict" where
  "weight_by_criterion r =
     py_dict (map (\<lambda>c. (cr_id c, cr_weight c / total_weight r)) (req_criteria r))"

definition criterion_scores :: "optimization_request \<Rightarrow> normalized_factor \<Rightarrow> rat dict" where
  "criterion_scores r f =
     map (\<lambda>(c, benefit). (c, benefit * dict_get (weight_by_criterion r) c 0)) (nf_benefit f)"

definition total_score :: "rat dict \<Rightarrow> rat \<Rightarrow> rat \<Rightarrow> rat \<Rightarrow> rat" where
  "total_score cs e rv risk =
     benefit_weight * sum_list (map snd cs) + effort_weight * e + reversibility_weight * rv - risk_weight * risk"

definition score_strategy ::
    "optimization_request \<Rightarrow> portfolio \<Rightarrow> string \<times> normalized_factor \<Rightarrow> strategy_score result" where
  "score_strategy r p kf =
     bindR (index (py_dict (map (\<lambda>s. (st_id s, s)) p)) (fst kf) (KeyError (fst kf))) (\<lambda>strategy.
       let f = snd kf; cs = criterion_scores r f;
           s = \<lparr>sc_strategy = fst kf, sc_risk_tier = st_risk_ceiling strategy, sc_criterion_scores = cs,
                 sc_effort = nf_effort f, sc_reversibility = nf_reversibility f, sc_risk_penalty = nf_risk f,
                 sc_total = total_score cs (nf_effort f) (nf_reversibility f) (nf_risk f)\<rparr> in
       if valid_score s then Inr s else Inl (ValidationError ''StrategyScore''))"

definition sensitivity_flags ::
    "optimization_request \<Rightarrow> strategy_score list \<Rightarrow> string \<Rightarrow> string list" where
  "sensitivity_flags r scores current_winner =
     map (\<lambda>c. ''top choice changes if '' @ cr_id c @ '' weight increases 50%'')
       (filter (\<lambda>c. let ranking = rank (map (\<lambda>s. perturb_score s (cr_id c) sensitivity_perturbation) scores) in
                    ranking \<noteq> [] \<and> hd ranking \<noteq> current_winner) (req_criteria r))"

definition average :: "rat list \<Rightarrow> rat" where
  "average xs = sum_list xs / of_nat (length xs)"

definition approval_reasons :: "solution_strategy \<Rightarrow> string list \<Rightarrow> string list" where
  "approval_reasons winner flags =
     (if st_risk_ceiling winner \<in> approval_risk_tiers then [''winning strategy risk_ceiling''] else []) @
     (if flags \<noteq> [] then [''ranking is sensitive to reasonable weight changes''] else []) @
     (if improving winner = [] then [''winning strategy has no criterion impact marked improves'']
      else if average (map ci_confidence (improving winner)) < low_confidence_threshold
      then [''winning strategy average impact confidence is below threshold''] else [])"

section \<open>The state S01 reads\<close>

text \<open>\<open>state.get("s01_scores") or []\<close>, for code that reads attributes of the elements: scores
  that came back from JSON as plain dictionaries have none. A contract constructor, by contrast,
  accepts both forms (\<open>get_scores_any\<close>).\<close>

definition get_scores :: "state \<Rightarrow> strategy_score list result" where
  "get_scores st =
     (case st ''s01_scores'' of
        Some (VScores xs) \<Rightarrow> Inr xs
      | Some (VPlain _) \<Rightarrow> Inl (AttributeError ''total_score'')
      | _ \<Rightarrow> Inr [])"

definition get_scores_any :: "state \<Rightarrow> strategy_score list" where
  "get_scores_any st =
     (case st ''s01_scores'' of Some (VScores xs) \<Rightarrow> xs | Some (VPlain (VScores xs)) \<Rightarrow> xs | _ \<Rightarrow> [])"

definition get_factors :: "state \<Rightarrow> normalized_factor dict" where
  "get_factors st = (case st ''s01_normalized_factors'' of Some (VFactors f) \<Rightarrow> f | _ \<Rightarrow> [])"

definition get_routing :: "state \<Rightarrow> routing_decision option" where
  "get_routing st = (case st ''s01_routing_decision'' of Some (VRouting r) \<Rightarrow> Some r | _ \<Rightarrow> None)"

definition get_approval :: "state \<Rightarrow> selection_approval result" where
  "get_approval st =
     (case st ''s01_approval'' of
        Some (VApproval a) \<Rightarrow> Inr a
      | Some (VPlain _) \<Rightarrow> Inl (AttributeError ''decision'')
      | _ \<Rightarrow> Inl (ValueError ''S01.90 requires an approval decision from S01.80''))"

definition get_resume :: "state \<Rightarrow> resume_command option result" where
  "get_resume st =
     (case st ''resume_command'' of
        Some (VResume c) \<Rightarrow> Inr (Some c)
      | Some (VPlain _) \<Rightarrow> Inl (AttributeError ''decision'')
      | _ \<Rightarrow> Inr None)"

section \<open>Handlers\<close>

definition handle_s01_10 :: "state \<Rightarrow> 'w node_ports \<Rightarrow> ('w, node_execution) io" where
  "handle_s01_10 st ports =
     bindI (liftI (require_ref st ''SolutionPortfolio'')) (\<lambda>portfolio_ref.
     bindI (liftI (require_ref st ''OptimizationRequest'')) (\<lambda>request_ref.
     bindI (liftI (require_ref st ''ConvergedCase'')) (\<lambda>_.
     retI (cont [(''s01_decision_context'', VContext \<lparr>dc_portfolio = ref_digest portfolio_ref,
        dc_request = ref_digest request_ref, dc_excluded = get_strs st ''s01_excluded_strategy_ids'',
        dc_policy = s01_policy_version\<rparr>)]))))"

definition handle_s01_20 :: "state \<Rightarrow> 'w node_ports \<Rightarrow> ('w, node_execution) io" where
  "handle_s01_20 st ports =
     bindI (read_portfolio ports st) (\<lambda>p.
       let ids = eligible_ids p (get_strs st ''s01_excluded_strategy_ids'') in
       retI \<lparr>ex_route = (if ids \<noteq> [] then CONTINUE else REJECTED),
             ex_updates = [(''s01_eligible_strategy_ids'', VStrs ids)]\<rparr>)"

definition handle_s01_30 :: "state \<Rightarrow> 'w node_ports \<Rightarrow> ('w, node_execution) io" where
  "handle_s01_30 st ports =
     bindI (read_portfolio ports st) (\<lambda>p.
       retI (cont [(''s01_normalized_factors'',
         VFactors (normalized_factors p (get_strs st ''s01_eligible_strategy_ids'')))]))"

definition handle_s01_40 :: "state \<Rightarrow> 'w node_ports \<Rightarrow> ('w, node_execution) io" where
  "handle_s01_40 st ports =
     bindI (read_request ports st) (\<lambda>r.
     bindI (read_portfolio ports st) (\<lambda>p.
     bindI (liftI (mapR (score_strategy r p) (get_factors st))) (\<lambda>scores.
     retI (cont [(''s01_scores'', VScores scores)]))))"

definition handle_s01_50 :: "state \<Rightarrow> 'w node_ports \<Rightarrow> ('w, node_execution) io" where
  "handle_s01_50 st ports =
     bindI (liftI (get_scores st)) (\<lambda>scores. retI (cont [(''s01_ranked_strategy_ids'', VStrs (rank scores))]))"

definition handle_s01_60 :: "state \<Rightarrow> 'w node_ports \<Rightarrow> ('w, node_execution) io" where
  "handle_s01_60 st ports =
     bindI (read_request ports st) (\<lambda>r.
       case get_strs st ''s01_ranked_strategy_ids'' of
         [] \<Rightarrow> retI (cont [(''s01_sensitivity_flags'', VStrs [])])
       | current_winner # _ \<Rightarrow>
           bindI (liftI (get_scores st)) (\<lambda>scores.
           retI (cont [(''s01_sensitivity_flags'', VStrs (sensitivity_flags r scores current_winner))])))"

definition handle_s01_70 :: "state \<Rightarrow> 'w node_ports \<Rightarrow> ('w, node_execution) io" where
  "handle_s01_70 st ports =
     bindI (read_portfolio ports st) (\<lambda>p.
       case get_strs st ''s01_ranked_strategy_ids'' of
         [] \<Rightarrow> failI IndexError
       | winner_id # _ \<Rightarrow>
           (case find (\<lambda>s. st_id s = winner_id) p of
              None \<Rightarrow> failI StopIteration
            | Some winner \<Rightarrow>
                let reasons = approval_reasons winner (get_strs st ''s01_sensitivity_flags'') in
                retI (cont [(''s01_routing_decision'', VRouting \<lparr>rd_needs_approval = (reasons \<noteq> []),
                  rd_reasons = reasons, rd_winner = winner_id\<rparr>)])))"

text \<open>\<open>sorted(resume_command.actor_roles)[0]\<close>.\<close>

definition first_role :: "resume_command \<Rightarrow> string result" where
  "first_role c = (case sorted_set (rc_roles c) of [] \<Rightarrow> Inl IndexError | r # _ \<Rightarrow> Inr r)"

definition selection_interrupt :: "state \<Rightarrow> string \<Rightarrow> int \<Rightarrow> interrupt_envelope result" where
  "selection_interrupt st d now =
     bindR (required_state_str st ''case_id'') (\<lambda>cid.
     bindR (required_state_str st ''thread_id'') (\<lambda>thread.
       let i = \<lparr>int_id = cid @ ''-S01-SELECTION'', int_case = cid, int_thread = thread, int_stage = ''S01.80'',
                 int_digest = d, int_allowed = [''approve'', ''reject''], int_role = ''owner'',
                 int_policy = s01_policy_version, int_issued = Aware now,
                 int_expires = Aware (now + 24 * 3600)\<rparr> in
       if valid_interrupt i then Inr i else Inl (ValidationError ''InterruptEnvelope'')))"

definition handle_s01_80 ::
    "(blob \<Rightarrow> string) \<Rightarrow> ('w \<Rightarrow> int) \<Rightarrow> state \<Rightarrow> 'w node_ports \<Rightarrow> ('w, node_execution) io" where
  "handle_s01_80 sha clock st ports = (\<lambda>w.
     bindI (liftI (require_ref st ''SolutionPortfolio'')) (\<lambda>portfolio_ref.
     let ranking = \<lparr>rr_portfolio = ref_digest portfolio_ref, rr_scores = get_scores_any st,
                     rr_ranked = get_strs st ''s01_ranked_strategy_ids'',
                     rr_flags = get_strs st ''s01_sensitivity_flags''\<rparr> in
     bindI (liftI (if valid_ranking ranking then Inr () else Inl (ValidationError ''RankingResult''))) (\<lambda>_.
     bindI (liftI (stage_envelope st (pass_stage_id ''S01.80'' (s01_pass_number st)) ''RankingResult'' []
                     (BRanking ranking) (clock w))) (\<lambda>e.
     bindI (put_envelope sha ports st e ''S01.80'') (\<lambda>ranking_ref.
     if \<not> (case get_routing st of None \<Rightarrow> False | Some r \<Rightarrow> rd_needs_approval r)
     then retI (cont [(''artifact_refs'', VRefs [ranking_ref]),
            (''s01_approval'', VApproval \<lparr>sa_decision = AutoSelected, sa_actor = None, sa_role = None,
               sa_policy = s01_policy_version\<rparr>)])
     else bindI (liftI (get_resume st)) (\<lambda>resume.
       case resume of
         None \<Rightarrow>
           bindI (liftI (selection_interrupt st (sha (Sealed e)) (clock w))) (\<lambda>interrupt.
           retI (cont [(''artifact_refs'', VRefs [ranking_ref]), (''pending_interrupt'', VInterrupt interrupt),
             (''s01_approval'', VApproval \<lparr>sa_decision = Pending, sa_actor = None, sa_role = None,
                sa_policy = s01_policy_version\<rparr>)]))
       | Some c \<Rightarrow>
           bindI (liftI (first_role c)) (\<lambda>role.
           let approval = \<lambda>d. \<lparr>sa_decision = d, sa_actor = Some (rc_actor c), sa_role = Some role,
                                 sa_policy = rc_policy c\<rparr> in
           if rc_decision c = ''approve''
           then retI (cont [(''artifact_refs'', VRefs [ranking_ref]), (''s01_approval'', VApproval (approval Approved))])
           else retI \<lparr>ex_route = REJECTED, ex_updates = [(''artifact_refs'', VRefs [ranking_ref]),
                       (''s01_approval'', VApproval (approval Rejected))]\<rparr>)))))) w)"

definition handle_s01_90 ::
    "(blob \<Rightarrow> string) \<Rightarrow> ('w \<Rightarrow> int) \<Rightarrow> state \<Rightarrow> 'w node_ports \<Rightarrow> ('w, node_execution) io" where
  "handle_s01_90 sha clock st ports = (\<lambda>w.
     bindI (liftI (require_stage_ref st (pass_stage_id ''S01.80'' (s01_pass_number st)) ''RankingResult'')) (\<lambda>ranking_ref.
     bindI (liftI (require_ref st ''SolutionPortfolio'')) (\<lambda>portfolio_ref.
     bindI (liftI (get_approval st)) (\<lambda>approval.
     if sa_decision approval = Rejected
     then retI \<lparr>ex_route = REJECTED, ex_updates = [(''artifact_refs'', VRefs [ranking_ref])]\<rparr>
     else bindI (liftI (case get_routing st of None \<Rightarrow> Inl (KeyError ''winner_strategy_id'')
                        | Some r \<Rightarrow> Inr (rd_winner r))) (\<lambda>winner.
       let selected = \<lparr>sel_ranking = ref_digest ranking_ref, sel_portfolio = ref_digest portfolio_ref,
                        sel_strategy = winner, sel_approval = approval,
                        sel_excluded = get_strs st ''s01_excluded_strategy_ids''\<rparr> in
       bindI (liftI (if valid_selected selected then Inr () else Inl (ValidationError ''SelectedSolution''))) (\<lambda>_.
       bindI (liftI (stage_envelope st (pass_stage_id ''S01.90'' (s01_pass_number st)) ''SelectedSolution'' []
                       (BSelected selected) (clock w))) (\<lambda>e.
       bindI (put_envelope sha ports st e ''S01.90'') (\<lambda>ref.
       retI (cont [(''artifact_refs'', VRefs [ref])])))))))) w)"

definition s01_node_handlers ::
    "(blob \<Rightarrow> string) \<Rightarrow> ('w \<Rightarrow> int) \<Rightarrow> (string \<times> (state \<Rightarrow> 'w node_ports \<Rightarrow> ('w, node_execution) io)) list" where
  "s01_node_handlers sha clock =
     [(''S01.10'', handle_s01_10), (''S01.20'', handle_s01_20), (''S01.30'', handle_s01_30),
      (''S01.40'', handle_s01_40), (''S01.50'', handle_s01_50), (''S01.60'', handle_s01_60),
      (''S01.70'', handle_s01_70), (''S01.80'', handle_s01_80 sha clock), (''S01.90'', handle_s01_90 sha clock)]"

text \<open>A production handler is registered for a runtime with ports. Without any, each use of a port
  is an attribute access on \<open>None\<close>.\<close>

definition no_ports :: "'w node_ports" where
  "no_ports = \<lparr>np_get = \<lambda>_ _. failI (AttributeError ''intents''), np_prepare = \<lambda>_. failI (AttributeError ''intents''),
     np_complete = \<lambda>_ _ _. failI (AttributeError ''intents''),
     np_mark_unknown = \<lambda>_ _. failI (AttributeError ''intents''),
     np_put_json = \<lambda>_ _ _ _. failI (AttributeError ''artifacts''),
     np_read = \<lambda>_ _. failI (AttributeError ''artifacts''), np_telemetry = None,
     np_policy = Some (\<lambda>_. failI (AttributeError ''policy''))\<rparr>"

definition bind_ports :: "(state \<Rightarrow> 'w node_ports \<Rightarrow> ('w, node_execution) io) \<Rightarrow> 'w handler" where
  "bind_ports h st ports = h st (case ports of None \<Rightarrow> no_ports | Some p \<Rightarrow> p)"

definition s01_registrations ::
    "(blob \<Rightarrow> string) \<Rightarrow> ('w \<Rightarrow> int) \<Rightarrow> (string \<times> 'w registered_node) list" where
  "s01_registrations sha clock =
     map (\<lambda>(node, h). (node, \<lparr>rg_spec = s01_spec node, rg_handler = bind_ports h\<rparr>)) (s01_node_handlers sha clock)"

section \<open>Facts about the ranking\<close>

lemma rank_loop_Nil [simp]: "rank_loop [] = []"
  by (simp add: rank_loop.simps)

lemma rank_loop_nonempty:
  "xs \<noteq> [] \<Longrightarrow> rank_loop xs = sc_strategy (round_winner xs) #
     rank_loop (filter (\<lambda>s. sc_strategy s \<noteq> sc_strategy (round_winner xs)) xs)"
  by (subst rank_loop.simps) (simp add: Let_def)

lemma set_rank_loop: "set (rank_loop xs) = sc_strategy ` set xs"
proof (induction xs rule: rank_loop.induct)
  case (1 xs)
  show ?case
  proof (cases "xs = []")
    case False
    have w: "round_winner xs \<in> set xs" by (rule round_winner_mem[OF False])
    from 1[OF False refl] w show ?thesis by (subst rank_loop_nonempty[OF False]) auto
  qed simp
qed

lemma distinct_rank_loop: "distinct (rank_loop xs)"
proof (induction xs rule: rank_loop.induct)
  case (1 xs)
  show ?case
  proof (cases "xs = []")
    case False
    from 1[OF False refl] show ?thesis
      by (subst rank_loop_nonempty[OF False]) (auto simp: set_rank_loop)
  qed simp
qed

text \<open>What every round guarantees, whatever was chosen before it.\<close>

definition fair_choice :: "strategy_score \<Rightarrow> strategy_score set \<Rightarrow> bool" where
  "fair_choice w R \<longleftrightarrow> w \<in> R \<and> (\<forall>t \<in> R. sc_total t - sc_total w \<le> material_tie_margin) \<and>
     (\<forall>t \<in> R. (\<forall>u \<in> R. sc_total u - sc_total t \<le> material_tie_margin) \<longrightarrow>
        risk_tier_order (sc_risk_tier w) \<le> risk_tier_order (sc_risk_tier t))"

lemma sorted_desc_hd:
  "sorted_wrt (\<lambda>a b. sc_total b \<le> sc_total a) xs \<Longrightarrow> t \<in> set xs \<Longrightarrow> sc_total t \<le> sc_total (hd xs)"
  by (cases xs) auto

lemma round_winner_fair:
  assumes "sorted_wrt (\<lambda>a b. sc_total b \<le> sc_total a) xs" and "xs \<noteq> []"
  shows "fair_choice (round_winner xs) (set xs)"
proof -
  let ?w = "round_winner xs"
  note spec = round_winner_spec[OF assms(2)]
  have w: "?w \<in> set xs" by (rule round_winner_mem[OF assms(2)])
  have near: "sc_total (hd xs) - sc_total ?w \<le> material_tie_margin" using spec by (simp add: tied_def)
  have "sc_total t - sc_total ?w \<le> material_tie_margin" if "t \<in> set xs" for t
    using sorted_desc_hd[OF assms(1) that] near by linarith
  moreover have "risk_tier_order (sc_risk_tier ?w) \<le> risk_tier_order (sc_risk_tier t)"
    if "t \<in> set xs" "\<forall>u \<in> set xs. sc_total u - sc_total t \<le> material_tie_margin" for t
    using that assms(2) spec by (simp add: tied_def)
  ultimately show ?thesis using w by (simp add: fair_choice_def)
qed

lemma rank_loop_fair:
  assumes "sorted_wrt (\<lambda>a b. sc_total b \<le> sc_total a) xs" and "k < length (rank_loop xs)"
  shows "\<exists>w. sc_strategy w = rank_loop xs ! k \<and>
     fair_choice w {s \<in> set xs. sc_strategy s \<notin> set (take k (rank_loop xs))}"
  using assms
proof (induction xs arbitrary: k rule: rank_loop.induct)
  case (1 xs)
  then have ne: "xs \<noteq> []" by auto
  let ?w = "round_winner xs" and ?ys = "filter (\<lambda>s. sc_strategy s \<noteq> sc_strategy (round_winner xs)) xs"
  note eq = rank_loop_nonempty[OF ne]
  show ?case
  proof (cases k)
    case 0
    with round_winner_fair[OF 1(2) ne] eq show ?thesis by auto
  next
    case (Suc j)
    have s: "sorted_wrt (\<lambda>a b. sc_total b \<le> sc_total a) ?ys" using 1(2) by (rule sorted_wrt_filter)
    have j: "j < length (rank_loop ?ys)" using 1(3) Suc eq by simp
    have set_eq: "{s \<in> set ?ys. sc_strategy s \<notin> set (take j (rank_loop ?ys))} =
        {s \<in> set xs. sc_strategy s \<notin> set (take k (rank_loop xs))}"
      unfolding eq Suc by auto
    from 1(1)[OF ne refl s j] show ?thesis unfolding set_eq by (simp add: eq Suc)
  qed
qed

lemma sorted_sort_desc: "sorted_wrt (\<lambda>a b. f b \<le> f a) (sort_desc f xs)"
proof -
  have "sorted (map f (sort_key f (rev xs)))" by simp
  then have "sorted_wrt (\<lambda>a b. f a \<le> f b) (sort_key f (rev xs))" by (simp add: sorted_wrt_map)
  then show ?thesis by (simp add: sort_desc_def sorted_wrt_rev)
qed

section \<open>Facts about dictionaries and scores\<close>

lemma py_dict_snoc: "py_dict (kvs @ [kv]) = AList.update (fst kv) (snd kv) (py_dict kvs)"
  by (simp add: py_dict_def)

lemma map_of_py_dict: "map_of (py_dict kvs) = map_of (rev kvs)"
  by (induction kvs rule: rev_induct) (auto simp: py_dict_snoc, simp add: py_dict_def)

lemma distinct_py_dict: "distinct (keys (py_dict kvs))"
  by (induction kvs rule: rev_induct) (auto simp: py_dict_snoc distinct_update, simp add: py_dict_def)

lemma keys_py_dict: "set (keys (py_dict kvs)) = set (keys kvs)"
  by (induction kvs rule: rev_induct) (auto simp: py_dict_snoc dom_update, simp_all add: py_dict_def)

lemma py_dict_value: "(k, v) \<in> set (py_dict kvs) \<Longrightarrow> (k, v) \<in> set kvs"
  by (metis distinct_py_dict map_of_is_SomeI map_of_py_dict map_of_SomeD set_rev)

lemma py_dict_distinct: "distinct (keys kvs) \<Longrightarrow> py_dict kvs = kvs"
proof (induction kvs rule: rev_induct)
  case (snoc kv kvs)
  have "k \<notin> set (keys d) \<Longrightarrow> AList.update k v d = d @ [(k, v)]" for k v and d :: "('a \<times> 'b) list"
    by (induction d) auto
  with snoc show ?case by (simp add: py_dict_snoc)
qed (simp add: py_dict_def)

lemma sum_list_update_le:
  assumes "\<And>x. x \<in> set (map snd d) \<Longrightarrow> 0 \<le> (x :: rat)" and "0 \<le> v"
  shows "sum_list (map snd (AList.update k v d)) \<le> sum_list (map snd d) + v"
  using assms
proof (induction d)
  case (Cons p d)
  then show ?case by (cases p) (auto simp: algebra_simps)
qed simp

lemma py_dict_sum_le:
  assumes "\<And>x. x \<in> set (map snd kvs) \<Longrightarrow> 0 \<le> (x :: rat)"
  shows "sum_list (map snd (py_dict kvs)) \<le> sum_list (map snd kvs)"
  using assms
proof (induction kvs rule: rev_induct)
  case (snoc kv kvs)
  have "0 \<le> x" if x: "x \<in> set (map snd (py_dict kvs))" for x
  proof -
    from x obtain k where "(k, x) \<in> set kvs" using py_dict_value by fastforce
    then show ?thesis using snoc.prems[of x] by force
  qed
  then have "sum_list (map snd (py_dict (kvs @ [kv]))) \<le> sum_list (map snd (py_dict kvs)) + snd kv"
    unfolding py_dict_snoc using snoc.prems by (intro sum_list_update_le) auto
  also have "\<dots> \<le> sum_list (map snd kvs) + snd kv" using snoc by auto
  finally show ?case by simp
qed (simp add: py_dict_def)

lemma dict_get_nonneg: "(\<And>x. x \<in> snd ` set d \<Longrightarrow> 0 \<le> (x :: rat)) \<Longrightarrow> 0 \<le> dict_get d k 0"
proof (cases "map_of d k")
  case (Some x)
  assume "\<And>x. x \<in> snd ` set d \<Longrightarrow> 0 \<le> x"
  moreover have "x \<in> snd ` set d" using map_of_SomeD[OF Some] by (force intro: image_eqI)
  ultimately show ?thesis using Some by (simp add: dict_get_def)
qed (simp add: dict_get_def)

lemma sum_dict_get_le:
  assumes "distinct ks" and "distinct (keys d)" and "\<And>x. x \<in> snd ` set d \<Longrightarrow> 0 \<le> (x :: rat)"
  shows "sum_list (map (\<lambda>k. dict_get d k 0) ks) \<le> sum_list (map snd d)"
proof -
  let ?g = "\<lambda>k. dict_get d k 0"
  have nonneg: "0 \<le> ?g k" for k using assms(3) by (rule dict_get_nonneg)
  have out: "?g k = 0" if "k \<notin> set (keys d)" for k
    using that unfolding keys_mem_iff by (simp add: dict_get_def)
  have val: "?g (fst kv) = snd kv" if "kv \<in> set d" for kv
    using assms(2) that by (cases kv) (simp add: dict_get_def)
  have "sum_list (map ?g ks) = sum ?g (set ks)" using assms(1) by (rule sum_list_distinct_conv_sum_set)
  also have "\<dots> \<le> sum ?g (set ks \<union> set (keys d))"
    by (rule sum_mono2) (auto simp: nonneg)
  also have "\<dots> = sum ?g (set (keys d))"
    by (rule sum.mono_neutral_right) (auto simp del: set_map intro: out)
  also have "\<dots> = sum_list (map ?g (keys d))" using assms(2) by (rule sum_list_distinct_conv_sum_set[symmetric])
  also have "\<dots> = sum_list (map snd d)"
    by (rule arg_cong[of _ _ sum_list]) (simp add: val)
  finally show ?thesis .
qed

lemma total_weight_pos: "valid_request r \<Longrightarrow> 0 < total_weight r"
  and total_weight_eq: "valid_request r \<Longrightarrow> total_weight r = sum_list (map cr_weight (req_criteria r))"
proof -
  assume v: "valid_request r"
  then obtain c cs where c: "req_criteria r = c # cs" "0 < cr_weight c" "\<forall>x \<in> set cs. 0 < cr_weight x"
    by (cases "req_criteria r") (auto simp: valid_request_def valid_criterion_def list_all_iff)
  then have "0 \<le> sum_list (map cr_weight cs)" by (intro sum_list_nonneg) auto
  with c have "0 < sum_list (map cr_weight (req_criteria r))" by simp
  then show "0 < total_weight r" "total_weight r = sum_list (map cr_weight (req_criteria r))"
    by (simp_all add: total_weight_def Let_def)
qed

lemma weights_sum_to_1:
  assumes "valid_request r"
  shows "sum_list (map (\<lambda>c. cr_weight c / total_weight r) (req_criteria r)) = 1"
proof -
  have "sum_list (map (\<lambda>c. cr_weight c / t) cs) = sum_list (map cr_weight cs) / t" for t cs
    by (induction cs) (simp_all add: add_divide_distrib)
  then have "sum_list (map (\<lambda>c. cr_weight c / total_weight r) (req_criteria r)) =
      total_weight r / total_weight r" by (simp only: total_weight_eq[OF assms])
  then show ?thesis using total_weight_pos[OF assms] by simp
qed

lemma weight_nonneg: "valid_request r \<Longrightarrow> x \<in> snd ` set (weight_by_criterion r) \<Longrightarrow> 0 \<le> x"
  using total_weight_pos[of r] unfolding weight_by_criterion_def
  by (auto simp: valid_request_def valid_criterion_def list_all_iff dest!: py_dict_value
      intro!: divide_nonneg_pos less_imp_le)

lemma weight_sum_le_1: "valid_request r \<Longrightarrow> sum_list (map snd (weight_by_criterion r)) \<le> 1"
proof -
  assume v: "valid_request r"
  have "sum_list (map snd (weight_by_criterion r)) \<le>
      sum_list (map snd (map (\<lambda>c. (cr_id c, cr_weight c / total_weight r)) (req_criteria r)))"
    unfolding weight_by_criterion_def using v total_weight_pos[OF v]
    by (intro py_dict_sum_le) (auto simp: valid_request_def valid_criterion_def list_all_iff)
  also have "\<dots> = 1" using weights_sum_to_1[OF v] by (simp add: comp_def)
  finally show ?thesis .
qed

lemma benefit_unit:
  "valid_strategy s \<Longrightarrow> (c, b) \<in> set (nf_benefit (normalize_strategy s)) \<Longrightarrow> 0 \<le> b \<and> b \<le> 1"
  by (auto simp: normalize_strategy_def improving_def valid_strategy_def valid_impacts_def valid_impact_def list_all_iff
      dest!: py_dict_value)

lemma sum_list_pair_le:
  "(\<And>c b. (c, b) \<in> set xs \<Longrightarrow> 0 \<le> b \<and> b \<le> 1) \<Longrightarrow> (\<And>c. 0 \<le> g c) \<Longrightarrow>
   0 \<le> sum_list (map (\<lambda>(c, b). b * g c) xs) \<and>
   sum_list (map (\<lambda>(c, b). b * g c) xs) \<le> sum_list (map (\<lambda>p. g (fst p) :: rat) xs)"
proof (induction xs)
  case (Cons p xs)
  obtain c b where p: "p = (c, b)" by (cases p)
  with Cons.prems(1)[of c b] Cons.prems(2)[of c] have "0 \<le> b * g c" "b * g c \<le> g c"
    by (simp_all add: mult_left_le_one_le)
  moreover have "0 \<le> sum_list (map (\<lambda>(c, b). b * g c) xs) \<and>
      sum_list (map (\<lambda>(c, b). b * g c) xs) \<le> sum_list (map (\<lambda>p. g (fst p)) xs)"
    by (rule Cons.IH) (use Cons.prems in auto)
  ultimately show ?case by (simp add: p add_mono)
qed simp

lemma benefit_sum_unit:
  assumes "valid_request r" and "valid_strategy s"
  shows "0 \<le> sum_list (map snd (criterion_scores r (normalize_strategy s))) \<and>
     sum_list (map snd (criterion_scores r (normalize_strategy s))) \<le> 1"
proof -
  let ?g = "\<lambda>c. dict_get (weight_by_criterion r) c 0" and ?f = "nf_benefit (normalize_strategy s)"
  have g: "0 \<le> ?g c" for c using weight_nonneg[OF assms(1)] by (rule dict_get_nonneg)
  have b: "\<And>c b. (c, b) \<in> set ?f \<Longrightarrow> 0 \<le> b \<and> b \<le> 1" by (rule benefit_unit[OF assms(2)])
  have d: "distinct (keys ?f)" by (simp add: normalize_strategy_def distinct_py_dict)
  have e: "map snd (criterion_scores r (normalize_strategy s)) = map (\<lambda>(c, b). b * ?g c) ?f"
    by (simp add: criterion_scores_def case_prod_unfold)
  have "sum_list (map (\<lambda>p. ?g (fst p)) ?f) = sum_list (map ?g (keys ?f))" by (simp add: comp_def)
  also have "\<dots> \<le> sum_list (map snd (weight_by_criterion r))"
    using d weight_nonneg[OF assms(1)]
    by (intro sum_dict_get_le) (simp_all add: weight_by_criterion_def distinct_py_dict)
  also have "\<dots> \<le> 1" by (rule weight_sum_le_1[OF assms(1)])
  finally have "sum_list (map (\<lambda>p. ?g (fst p)) ?f) \<le> 1" .
  moreover have "0 \<le> sum_list (map (\<lambda>(c, b). b * ?g c) ?f) \<and>
      sum_list (map (\<lambda>(c, b). b * ?g c) ?f) \<le> sum_list (map (\<lambda>p. ?g (fst p)) ?f)"
    by (rule sum_list_pair_le, erule b, rule g)
  ultimately show ?thesis unfolding e by linarith
qed

lemma effort_scale_unit: "0 \<le> effort_scale e \<and> effort_scale e \<le> 1"
  by (cases e) simp_all

lemma reversibility_scale_unit: "0 \<le> reversibility_scale e \<and> reversibility_scale e \<le> 1"
  by (cases e) simp_all

lemma total_score_bounds:
  assumes "0 \<le> sum_list (map snd cs)" "sum_list (map snd cs) \<le> 1" "0 \<le> e" "e \<le> 1" "0 \<le> rv" "rv \<le> 1"
    "0 \<le> risk" "risk \<le> 1"
  shows "- (1 / 10) \<le> total_score cs e rv risk \<and> total_score cs e rv risk \<le> 9 / 10"
  using assms
  by (simp add: total_score_def benefit_weight_def effort_weight_def reversibility_weight_def risk_weight_def)

text \<open>The score the pipeline gives a strategy of the portfolio.\<close>

definition score_of :: "optimization_request \<Rightarrow> solution_strategy \<Rightarrow> strategy_score" where
  "score_of r s = (let f = normalize_strategy s; cs = criterion_scores r f in
     \<lparr>sc_strategy = st_id s, sc_risk_tier = st_risk_ceiling s, sc_criterion_scores = cs,
      sc_effort = nf_effort f, sc_reversibility = nf_reversibility f, sc_risk_penalty = nf_risk f,
      sc_total = total_score cs (nf_effort f) (nf_reversibility f) (nf_risk f)\<rparr>)"

lemma score_of_valid:
  assumes "valid_request r" and "valid_strategy s"
  shows "valid_score (score_of r s) \<and> - (1 / 10) \<le> sc_total (score_of r s) \<and> sc_total (score_of r s) \<le> 9 / 10"
proof -
  have u: "0 \<le> st_uncertainty s" "st_uncertainty s \<le> 1" "st_id s \<noteq> []"
    using assms(2) by (simp_all add: valid_strategy_def valid_risk_def)
  have "- (1 / 10) \<le> sc_total (score_of r s) \<and> sc_total (score_of r s) \<le> 9 / 10"
    unfolding score_of_def Let_def strategy_score.simps
    using benefit_sum_unit[OF assms] effort_scale_unit reversibility_scale_unit u
    by (intro total_score_bounds) (simp_all add: normalize_strategy_def)
  moreover have "valid_score (score_of r s)"
    using effort_scale_unit reversibility_scale_unit u
    by (simp add: valid_score_def score_of_def Let_def normalize_strategy_def)
  ultimately show ?thesis by simp
qed

lemma score_strategy_eq:
  assumes "valid_request r" and "valid_strategy s" and "s \<in> set p" and "distinct (map st_id p)"
  shows "score_strategy r p (st_id s, normalize_strategy s) = Inr (score_of r s)"
proof -
  have "map_of (py_dict (map (\<lambda>s. (st_id s, s)) p)) (st_id s) = Some s"
    using assms(3,4) by (subst py_dict_distinct) (auto simp: comp_def intro!: map_of_is_SomeI)
  then show ?thesis
    using score_of_valid[OF assms(1,2)] by (simp add: score_strategy_def index_def score_of_def Let_def)
qed

lemma scores_of_portfolio:
  assumes "valid_request r" and "valid_portfolio p" and "distinct (map st_id p)"
  shows "mapR (score_strategy r p) (normalized_factors p ids) =
     Inr (map (score_of r) (filter (\<lambda>s. st_id s \<in> set ids) p))"
proof -
  let ?q = "filter (\<lambda>s. st_id s \<in> set ids) p"
  have "distinct (map st_id ?q)" using assms(3) by (rule distinct_map_filter)
  then have nf: "normalized_factors p ids = map (\<lambda>s. (st_id s, normalize_strategy s)) ?q"
    by (simp add: normalized_factors_def py_dict_distinct comp_def)
  have "mapR (\<lambda>s. score_strategy r p (st_id s, normalize_strategy s)) ?q = Inr (map (score_of r) ?q)"
    using assms by (intro mapR_total score_strategy_eq) (auto simp: valid_portfolio_def list_all_iff)
  moreover have "mapR f (map g xs) = mapR (\<lambda>x. f (g x)) xs" for f :: "string \<times> normalized_factor \<Rightarrow> strategy_score result"
      and g :: "solution_strategy \<Rightarrow> string \<times> normalized_factor" and xs
    by (induction xs) simp_all
  ultimately show ?thesis unfolding nf by simp
qed

lemma rank_set [simp]: "set (rank scores) = sc_strategy ` set scores"
  by (simp add: rank_def set_rank_loop)

lemma rank_distinct [simp]: "distinct (rank scores)"
  by (simp add: rank_def distinct_rank_loop)

lemma eligible_filter:
  "filter (\<lambda>s. st_id s \<in> set (eligible_ids p excluded)) p =
   filter (\<lambda>s. st_eligible s \<and> st_rollback_reversible s \<and> st_fully_resolved s \<and> st_id s \<notin> set excluded) p"
  if "distinct (map st_id p)"
proof (rule filter_cong[OF refl])
  fix s assume s: "s \<in> set p"
  have "s' = s" if "s' \<in> set p" "st_id s' = st_id s" for s'
    using that s \<open>distinct (map st_id p)\<close> by (metis distinct_map inj_onD)
  then show "st_id s \<in> set (eligible_ids p excluded) \<longleftrightarrow>
      st_eligible s \<and> st_rollback_reversible s \<and> st_fully_resolved s \<and> st_id s \<notin> set excluded"
    using s by (auto simp: eligible_ids_def)
qed

section \<open>Properties\<close>

text \<open>C25. The ranking lists every scored strategy exactly once, and each place is a fair choice
  among the strategies not yet placed: its score is within the tie margin of the best of them, and
  no strategy within that margin of the best has a lower risk tier. A real score gap is never
  overridden.\<close>

theorem rank_is_fair:
  "distinct (rank scores) \<and> set (rank scores) = sc_strategy ` set scores \<and>
   (\<forall>k < length (rank scores). \<exists>w. sc_strategy w = rank scores ! k \<and>
      fair_choice w {s \<in> set scores. sc_strategy s \<notin> set (take k (rank scores))})"
proof -
  have "\<exists>w. sc_strategy w = rank scores ! k \<and>
      fair_choice w {s \<in> set scores. sc_strategy s \<notin> set (take k (rank scores))}"
    if "k < length (rank scores)" for k
    using rank_loop_fair[OF sorted_sort_desc[of sc_total scores], of k] that by (simp add: rank_def)
  then show ?thesis by simp
qed

theorem rank_is_fair_witness:
  "let s = \<lparr>sc_strategy = ''a'', sc_risk_tier = Code, sc_criterion_scores = [], sc_effort = 0,
        sc_reversibility = 0, sc_risk_penalty = 0, sc_total = 1 / 2\<rparr>;
       t = s\<lparr>sc_strategy := ''b'', sc_risk_tier := Prompt, sc_total := 48 / 100\<rparr>
   in 0 < length (rank [s, t]) \<and> (\<exists>w. sc_strategy w = rank [s, t] ! 0 \<and> fair_choice w {s, t})"
proof -
  let ?s = "\<lparr>sc_strategy = ''a'', sc_risk_tier = Code, sc_criterion_scores = [], sc_effort = 0,
        sc_reversibility = 0, sc_risk_penalty = 0, sc_total = 1 / 2\<rparr>"
  let ?t = "?s\<lparr>sc_strategy := ''b'', sc_risk_tier := Prompt, sc_total := 48 / 100\<rparr>"
  have "set (rank [?s, ?t]) \<noteq> {}" unfolding rank_set by simp
  then have l: "0 < length (rank [?s, ?t])" by (metis length_greater_0_conv set_empty)
  have e: "{s \<in> set [?s, ?t]. sc_strategy s \<notin> set (take 0 (rank [?s, ?t]))} = {?s, ?t}" by auto
  from rank_is_fair[of "[?s, ?t]"] l have
    "\<exists>w. sc_strategy w = rank [?s, ?t] ! 0 \<and> fair_choice w {s \<in> set [?s, ?t]. sc_strategy s \<notin> set (take 0 (rank [?s, ?t]))}"
    by blast
  with l show ?thesis unfolding Let_def e by blast
qed

text \<open>Nodes S01.20 to S01.50 together rank exactly the strategies that may be chosen: for a
  valid request and portfolio no step raises, the ranked strategies are those that are eligible,
  reversible, fully resolved and not excluded, and every score is valid and lies between -0.1
  and 0.9.\<close>

theorem ranks_exactly_the_eligible:
  assumes "valid_request r" and "valid_portfolio p" and "distinct (map st_id p)"
  shows "\<exists>scores. mapR (score_strategy r p) (normalized_factors p (eligible_ids p excluded)) = Inr scores \<and>
     set (rank scores) = {st_id s |s. s \<in> set p \<and> st_eligible s \<and> st_rollback_reversible s \<and>
        st_fully_resolved s \<and> st_id s \<notin> set excluded} \<and>
     (\<forall>x \<in> set scores. valid_score x \<and> - (1 / 10) \<le> sc_total x \<and> sc_total x \<le> 9 / 10)"
proof -
  let ?q = "filter (\<lambda>s. st_eligible s \<and> st_rollback_reversible s \<and> st_fully_resolved s \<and>
      st_id s \<notin> set excluded) p"
  have 1: "mapR (score_strategy r p) (normalized_factors p (eligible_ids p excluded)) = Inr (map (score_of r) ?q)"
    using scores_of_portfolio[OF assms, of "eligible_ids p excluded"] eligible_filter[OF assms(3)] by simp
  have "set (rank (map (score_of r) ?q)) = st_id ` set ?q"
    by (simp add: image_image score_of_def Let_def)
  also have "\<dots> = {st_id s |s. s \<in> set p \<and> st_eligible s \<and> st_rollback_reversible s \<and>
        st_fully_resolved s \<and> st_id s \<notin> set excluded}" by auto
  finally have 2: "set (rank (map (score_of r) ?q)) = {st_id s |s. s \<in> set p \<and> st_eligible s \<and>
        st_rollback_reversible s \<and> st_fully_resolved s \<and> st_id s \<notin> set excluded}" .
  have 3: "\<forall>x \<in> set (map (score_of r) ?q). valid_score x \<and> - (1 / 10) \<le> sc_total x \<and> sc_total x \<le> 9 / 10"
    using assms(2) score_of_valid[OF assms(1)] by (auto simp: valid_portfolio_def list_all_iff)
  show ?thesis by (rule exI, intro conjI, rule 1, rule 2, rule 3)
qed

definition demo_request :: optimization_request where
  "demo_request = \<lparr>req_origin = Manual, req_source = \<lparr>sf_repository = ''r'', sf_root = ''/'', sf_path = ''repo'', sf_revision = None\<rparr>,
      req_scope = None, req_objective = (''faster'', ''search''),
      req_criteria = [\<lparr>cr_id = ''latency'', cr_metric = ''p95'', cr_direction = Minimize,
        cr_target = 100, cr_weight = 2, cr_aggregation = ''p95'', cr_unit = ''ms'', cr_operator = Lte\<rparr>], req_guardrails = [],
      req_workload = \<lparr>wl_id = ''w'', wl_dataset = None, wl_environment = ''e'', wl_commands = None, wl_repetitions = 1, wl_warmup = 0,
        wl_concurrency = 1, wl_cache = ''cold''\<rparr>,
      req_execution = None,
      req_requirements = [\<lparr>er_id = ''evidence-latency'', er_criterion = ''latency'', er_sources = [''benchmark''], er_samples = 1,
        er_metric = Some ''p95'', er_unit = Some ''ms'', er_aggregation = ''p95''\<rparr>],
      req_budget = \<lparr>bu_deadline = 3600, bu_worker = 180, bu_tokens = 1000, bu_storage = 50000000, bu_analyzers = [], bu_concurrency = 1\<rparr>,
      req_approval = \<lparr>ab_id = ''c-A1-APPROVAL'', ab_actor = ''ann'', ab_role = ''owner'', ab_digest = rep_digest CHR ''a'', ab_policy = ''v1''\<rparr>,
      req_fingerprint = rep_digest CHR ''a''\<rparr>"

definition demo_strategy :: solution_strategy where
  "demo_strategy = \<lparr>st_id = ''cache'', st_findings = [''f1''], st_title = ''Cache'', st_mechanism = ''cache results'', st_tradeoffs = ''memory'',
     st_templates = [\<lparr>tp_id = ''p1'', tp_sequence = 1, tp_kind = Implementation, tp_variable = ''cache size'', tp_risk_factors = []\<rparr>],
     st_risk_ceiling = Prompt, st_risk = \<lparr>ra_tier = Prompt, ra_reversibility = InstantRev, ra_uncertainty = 1 / 5, ra_migration = False,
       ra_security = False, ra_factors = []\<rparr>,
     st_impacts = [\<lparr>ci_criterion = ''latency'', ci_direction = Improves, ci_confidence = 3 / 4\<rparr>],
     st_tradeoff = \<lparr>ta_pros = [''memory''], ta_cons = [''unvalidated''], ta_prerequisites = [], ta_effort = LowEffort, ta_uncertainty = 1 / 2,
       ta_evidence = [''e1'']\<rparr>,
     st_validation = \<lparr>vp_commands = [''unit''], vp_protocol = ''rerun'', vp_movements = [], vp_stop = [''failure'']\<rparr>,
     st_rollback = \<lparr>rp_mechanism = ''git revert'', rp_verification = ''rerun'', rp_reversible = True\<rparr>,
     st_scope = \<lparr>sx_entries = [\<lparr>se_path = ''cache.py'', se_kind = FileScope, se_exists = True, se_proposed = False\<rparr>], sx_resolved = True\<rparr>,
     st_evidence = [''e1''], st_eligible = True, st_gate_reasons = []\<rparr>"

lemma demo_request_valid: "valid_request demo_request"
  by (simp add: valid_request_def demo_request_def valid_contract_defs valid_rep_digest hex_digit_def)

lemma demo_strategy_valid: "valid_strategy demo_strategy"
  by (simp add: valid_strategy_def demo_strategy_def valid_impacts_def valid_impact_def valid_template_def valid_scope_def valid_risk_def
      valid_tradeoff_def valid_validation_def valid_rollback_plan_def len_in_def)

theorem ranks_exactly_the_eligible_witness:
  "\<exists>scores. mapR (score_strategy demo_request [demo_strategy, demo_strategy\<lparr>st_id := ''old''\<rparr>])
       (normalized_factors [demo_strategy, demo_strategy\<lparr>st_id := ''old''\<rparr>]
         (eligible_ids [demo_strategy, demo_strategy\<lparr>st_id := ''old''\<rparr>] [''old''])) = Inr scores \<and>
     set (rank scores) = {''cache''}"
proof -
  let ?p = "[demo_strategy, demo_strategy\<lparr>st_id := ''old''\<rparr>]"
  have v: "valid_portfolio ?p"
    using demo_strategy_valid by (simp add: valid_portfolio_def valid_strategy_def demo_strategy_def)
  have d: "distinct (map st_id ?p)" by (simp add: demo_strategy_def)
  have e: "{st_id s |s. s \<in> set ?p \<and> st_eligible s \<and> st_rollback_reversible s \<and>
        st_fully_resolved s \<and> st_id s \<notin> set [''old'']} = {''cache''}"
    by (rule set_eqI, simp, rule iffI) (auto simp: demo_strategy_def intro!: exI[of _ demo_strategy])
  from ranks_exactly_the_eligible[OF demo_request_valid v d, of "[''old'']"]
  show ?thesis unfolding e by blast
qed


text \<open>The sensitivity sweep boosts a criterion by more than the 50% it reports: the perturbed
  total is the one the scoring formula gives when the criterion's weighted contribution grows by
  ten elevenths, because the perturbation leaves out the benefit weight.\<close>

theorem perturbation_overshoots:
  assumes "distinct (keys cs)" and "map_of cs c = Some v" and "sc_criterion_scores s = cs"
    and "sc_total s = total_score cs e rv risk"
  shows "sc_total (perturb_score s c sensitivity_perturbation) =
     total_score (AList.update c (v * (1 + 10 / 11)) cs) e rv risk"
proof -
  have "sum_list (map snd (AList.update c x cs)) = sum_list (map snd cs) - v + x" for x
    using assms(1,2)
  proof (induction cs)
    case (Cons p cs)
    then show ?case by (cases p) (auto simp: algebra_simps)
  qed simp
  note upd = this[of "v * (1 + 10 / 11)"]
  have "sc_total (perturb_score s c sensitivity_perturbation) = total_score cs e rv risk + v / 2"
    using assms(2-4) by (simp add: perturb_score_def sensitivity_perturbation_def)
  then show ?thesis unfolding total_score_def upd
    by (simp add: benefit_weight_def algebra_simps)
qed

theorem perturbation_overshoots_witness:
  "let s = score_of demo_request demo_strategy
   in sc_total (perturb_score s ''latency'' sensitivity_perturbation) - sc_total s = 3 / 8 \<and>
      total_score [(''latency'', 3 / 4 * (3 / 2))] 1 1 (1 / 5) - sc_total s \<noteq> 3 / 8"
proof -
  let ?cs = "[(''latency'', 3 / 4 :: rat)]"
  have n: "normalize_strategy demo_strategy = \<lparr>nf_benefit = ?cs, nf_effort = 1, nf_reversibility = 1, nf_risk = 1 / 5\<rparr>"
    by (simp add: normalize_strategy_def demo_strategy_def improving_def py_dict_def)
  have c: "criterion_scores demo_request (normalize_strategy demo_strategy) = ?cs"
    by (simp add: n criterion_scores_def weight_by_criterion_def py_dict_def demo_request_def total_weight_def dict_get_def)
  have s: "sc_criterion_scores (score_of demo_request demo_strategy) = ?cs"
    "sc_total (score_of demo_request demo_strategy) = total_score ?cs 1 1 (1 / 5)"
    using c by (simp_all add: score_of_def Let_def n)
  have d: "distinct (keys ?cs)" "map_of ?cs ''latency'' = Some (3 / 4)" by simp_all
  show ?thesis unfolding Let_def perturbation_overshoots[OF d s] s(2)
    by (simp add: total_score_def benefit_weight_def)
qed

end
