(* ===== verification/Policy_Decision.thy ===== *)
theory Policy_Decision
  imports Rank_Select
begin

text \<open>
  Step 06, policy decision (\<open>application/s06_handlers.py\<close>): the evaluation of targets and
  guardrails, the decision table, rollback verification, sealing of the decision and S06.90, which
  applies an accepted patch to the user's repository. The operating system (git subprocesses, the
  temporary directory) is the parameter \<open>'w tools\<close>; \<open>git\<close> is the module's own wrapper around it.
  An empty decision dictionary is \<open>VNone\<close>.
\<close>

section \<open>Operating system\<close>

text \<open>What running a subprocess gives: it could not be run or timed out, or its exit code and
  output.\<close>

datatype proc_outcome = NotRun | Exited int string

record 'w tools =
  tl_run :: "string \<Rightarrow> string list \<Rightarrow> 'w \<Rightarrow> proc_outcome \<times> 'w"
  tl_mkdtemp :: "('w, string) io"
  tl_write :: "string \<Rightarrow> string \<Rightarrow> ('w, unit) io"
  tl_rmtree :: "string \<Rightarrow> 'w \<Rightarrow> 'w"

definition strip :: "string \<Rightarrow> string" where
  "strip s = rev (dropWhile is_space (rev (dropWhile is_space s)))"

definition git :: "'w tools \<Rightarrow> string \<Rightarrow> string list \<Rightarrow> ('w, string option) io" where
  "git tools cwd args w =
     (case tl_run tools cwd (''git'' # args) w of
        (NotRun, w') \<Rightarrow> (Inr None, w')
      | (Exited code out, w') \<Rightarrow> (Inr (if code \<noteq> 0 then None else Some (strip out)), w'))"

section \<open>Artifacts of the stage\<close>

definition s06_policy_version :: string where
  "s06_policy_version = ''s06-decision-v1''"

definition s06_routes :: "string \<Rightarrow> string list" where
  "s06_routes node =
     (if node = ''S06.10'' then [''continue'', ''rejected'']
      else if node = ''S06.90'' then [''continue'', ''approval'', ''rejected'']
      else [''continue''])"

definition s06_spec :: "string \<Rightarrow> node_spec" where
  "s06_spec node = \<lparr>ns_id = node, ns_version = ''s06-production-v1'', ns_effect = IDEMPOTENT_WRITE,
     ns_timeout = 60, ns_attempts = 2, ns_routes = s06_routes node\<rparr>"

definition active_phase_id :: "state \<Rightarrow> string result" where
  "active_phase_id st =
     (case get_str st ''s03_active_phase_id'' of
        Some s \<Rightarrow> if s \<noteq> [] then Inr s else Inl (ValueError ''S06 state is missing s03_active_phase_id'')
      | None \<Rightarrow> Inl (ValueError ''S06 state is missing s03_active_phase_id''))"

definition pass_number :: "state \<Rightarrow> int" where
  "pass_number st = get_int st ''s03_revision_attempts''"

definition phase_stage :: "string \<Rightarrow> state \<Rightarrow> string result" where
  "phase_stage node st =
     bindR (active_phase_id st) (\<lambda>phase. Inr (node @ ''-'' @ phase @ ''-pass'' @ str_int (pass_number st)))"

definition require_phase_ref :: "state \<Rightarrow> string \<Rightarrow> string \<Rightarrow> artifact_ref result" where
  "require_phase_ref st node ty = bindR (phase_stage node st) (\<lambda>stage. require_stage_ref st stage ty)"

definition decode_verification :: "body \<Rightarrow> verification_report result" where
  "decode_verification b =
     (case b of BVerification v \<Rightarrow> if valid_verification v then Inr v else Inl (ValidationError ''VerificationReport'')
      | _ \<Rightarrow> Inl (ValidationError ''VerificationReport''))"

definition decode_statistical :: "body \<Rightarrow> effect_result list result" where
  "decode_statistical b =
     (case b of BStatistical es \<Rightarrow> Inr es | _ \<Rightarrow> Inl (ValidationError ''StatisticalReport''))"

definition decode_snapshot :: "body \<Rightarrow> source_snapshot result" where
  "decode_snapshot b = (case b of BSnapshot s \<Rightarrow> Inr s | _ \<Rightarrow> Inl (ValidationError ''SourceSnapshot''))"

definition decode_patch :: "body \<Rightarrow> patch_artifact result" where
  "decode_patch b =
     (case b of
        BPatch p \<Rightarrow> if valid_patch p then Inr p else Inl (ValidationError ''PatchArtifact'')
      | _ \<Rightarrow> Inl (ValidationError ''PatchArtifact''))"

definition decode_selected :: "body \<Rightarrow> selected_solution result" where
  "decode_selected b =
     (case b of BSelected s \<Rightarrow> if valid_selected s then Inr s else Inl (ValidationError ''SelectedSolution'')
      | _ \<Rightarrow> Inl (ValidationError ''SelectedSolution''))"

definition read_verification :: "'w node_ports \<Rightarrow> state \<Rightarrow> ('w, artifact_ref \<times> verification_report) io" where
  "read_verification ports st =
     bindI (liftI (require_phase_ref st ''S04.90'' ''VerificationReport'')) (\<lambda>ref.
     bindI (read_model ports st ref decode_verification) (\<lambda>v. retI (ref, v)))"

definition read_statistical :: "'w node_ports \<Rightarrow> state \<Rightarrow> ('w, effect_result list) io" where
  "read_statistical ports st =
     bindI (liftI (require_phase_ref st ''S05.80'' ''StatisticalReport'')) (\<lambda>ref.
     read_model ports st ref decode_statistical)"

definition s06_put_envelope ::
    "(blob \<Rightarrow> string) \<Rightarrow> 'w node_ports \<Rightarrow> state \<Rightarrow> envelope \<Rightarrow> string \<Rightarrow> ('w, artifact_ref) io" where
  "s06_put_envelope sha ports st e node =
     bindI (liftI (required_state_str st ''tenant_id'')) (\<lambda>tenant.
     bindI (liftI (required_state_str st ''case_id'')) (\<lambda>cid.
     bindI (np_put_json ports tenant (Sealed e) (sha (Sealed e))
              (cid @ '':'' @ node @ '':'' @ env_type e @ '':'' @ env_id e)) (\<lambda>ref.
     liftI (mk_ref (env_type e) ''1.0'' (env_id e) (sha (Sealed e)) (ref_uri ref)))))"

text \<open>Building, sealing and storing a stage artifact whose own validation is \<open>ok\<close>.\<close>

definition seal_and_put :: "(blob \<Rightarrow> string) \<Rightarrow> ('w \<Rightarrow> int) \<Rightarrow> 'w node_ports \<Rightarrow> state \<Rightarrow> string \<Rightarrow> string \<Rightarrow>
    bool \<Rightarrow> body \<Rightarrow> ('w, artifact_ref) io" where
  "seal_and_put sha clock ports st node ty ok b = (\<lambda>w.
     bindI (liftI (phase_stage node st)) (\<lambda>stage.
     bindI (liftI (bindR (stage_envelope st stage ty [] b (clock w))
                     (\<lambda>e. if ok then Inr e else Inl (ValidationError ty)))) (\<lambda>e.
     s06_put_envelope sha ports st e node)) w)"

section \<open>Evaluation\<close>

definition target_epsilon :: rat where
  "target_epsilon = 1 / 10 ^ 9"

fun target_met :: "criterion_direction \<Rightarrow> rat \<Rightarrow> rat \<Rightarrow> bool" where
  "target_met Minimize v t = (v \<le> t)"
| "target_met Maximize v t = (t \<le> v)"
| "target_met Target v t = (abs (v - t) \<le> target_epsilon)"

text \<open>\<open>None\<close> as the value is the \<open>nan\<close> of a criterion without a measured effect.\<close>

definition evaluate_target :: "criterion \<Rightarrow> effect_result option \<Rightarrow> target_evaluation" where
  "evaluate_target c effect =
     \<lparr>tv_criterion = cr_id c, tv_metric = cr_metric c, tv_direction = cr_direction c, tv_target = cr_target c,
      tv_value = map_option ef_treatment_mean effect,
      tv_met = (case effect of None \<Rightarrow> False
                | Some e \<Rightarrow> target_met (cr_direction c) (ef_treatment_mean e) (cr_target c))\<rparr>"

definition evaluate_targets :: "optimization_request \<Rightarrow> effect_result list \<Rightarrow> target_evaluation list" where
  "evaluate_targets r effects =
     (let by_criterion = py_dict (map (\<lambda>e. (ef_criterion e, e)) effects) in
      map (\<lambda>c. evaluate_target c (map_of by_criterion (cr_id c))) (req_criteria r))"

fun apply_operator :: "rat \<Rightarrow> guard_operator \<Rightarrow> rat \<Rightarrow> bool" where
  "apply_operator v Lt t = (v < t)"
| "apply_operator v Lte t = (v \<le> t)"
| "apply_operator v Eq t = (v = t)"
| "apply_operator v Gte t = (t \<le> v)"
| "apply_operator v Gt t = (t < v)"

definition evaluate_guardrail ::
    "guardrail \<Rightarrow> effect_result dict \<Rightarrow> check_result dict \<Rightarrow> guardrail_evaluation" where
  "evaluate_guardrail g effects checks =
     (case map_of effects (gr_metric g) of
        Some e \<Rightarrow>
          \<lparr>ge_guardrail = gr_id g, ge_metric = gr_metric g, ge_source = StatisticalEffect,
           ge_value = Some (ef_treatment_mean e),
           ge_passed = apply_operator (ef_treatment_mean e) (gr_operator g) (gr_threshold g)\<rparr>
      | None \<Rightarrow>
          (case map_of checks (gr_metric g) of
             Some c \<Rightarrow>
               \<lparr>ge_guardrail = gr_id g, ge_metric = gr_metric g, ge_source = VerificationCheck,
                ge_value = Some (of_int (ck_exit c)),
                ge_passed = apply_operator (of_int (ck_exit c)) (gr_operator g) (gr_threshold g)\<rparr>
           | None \<Rightarrow>
               \<lparr>ge_guardrail = gr_id g, ge_metric = gr_metric g, ge_source = Unavailable,
                ge_value = None, ge_passed = False\<rparr>))"

definition evaluate_guardrails ::
    "optimization_request \<Rightarrow> effect_result list \<Rightarrow> check_result list \<Rightarrow> guardrail_evaluation list" where
  "evaluate_guardrails r effects checks =
     (let by_metric = py_dict (map (\<lambda>e. (ef_metric e, e)) effects);
          by_check = py_dict (map (\<lambda>c. (check_kind_name (ck_kind c) @ ''_command_result'', c)) checks) in
      map (\<lambda>g. evaluate_guardrail g by_metric by_check) (req_guardrails r))"

definition classify :: "target_evaluation list \<Rightarrow> phase_class \<times> string" where
  "classify evs =
     (let total = length evs; met = length (filter tv_met evs) in
      if total = 0 then (NoEvidence, ''no primary criteria were evaluated'')
      else if met = total then (AllTargetsMet, ''all primary criteria met their target'')
      else if met = 0 then (WrongDirection, ''no primary criterion improved toward target'')
      else (Repairable, str_nat met @ '' of '' @ str_nat total @ '' primary criteria met target''))"

text \<open>The decision table.\<close>

definition decide :: "guardrail_evaluation list \<Rightarrow> phase_attribution option \<Rightarrow> decision_state" where
  "decide guards attribution =
     (if \<not> list_all ge_passed guards
        then \<lparr>ds_outcome = REVERT, ds_rationale = ''guardrail failure forces revert (BR-04-005/BR-05-005)''\<rparr>
      else case map_option at_class attribution of
          Some AllTargetsMet \<Rightarrow> \<lparr>ds_outcome = KEEP, ds_rationale = ''all primary targets met and every guardrail passed''\<rparr>
        | Some Repairable \<Rightarrow> \<lparr>ds_outcome = FIX_ONE_PART, ds_rationale = at_rationale (the attribution)\<rparr>
        | Some _ \<Rightarrow> \<lparr>ds_outcome = REVERT, ds_rationale = at_rationale (the attribution)\<rparr>
        | None \<Rightarrow> \<lparr>ds_outcome = REVERT, ds_rationale = ''no evidence of improvement''\<rparr>)"

section \<open>The state S06 reads\<close>

definition get_decision :: "state \<Rightarrow> decision_state option" where
  "get_decision st = (case st ''s06_decision'' of Some (VDecision d) \<Rightarrow> Some d | _ \<Rightarrow> None)"

definition get_outcome :: "state \<Rightarrow> outcome option" where
  "get_outcome st = map_option ds_outcome (get_decision st)"

definition get_targets :: "state \<Rightarrow> target_evaluation list" where
  "get_targets st = (case st ''s06_target_evaluations'' of Some (VTargets t) \<Rightarrow> t | _ \<Rightarrow> [])"

definition get_guards :: "state \<Rightarrow> guardrail_evaluation list" where
  "get_guards st = (case st ''s06_guardrail_evaluations'' of Some (VGuards g) \<Rightarrow> g | _ \<Rightarrow> [])"

definition get_attribution :: "state \<Rightarrow> phase_attribution option" where
  "get_attribution st = (case st ''s06_attribution'' of Some (VAttribution a) \<Rightarrow> Some a | _ \<Rightarrow> None)"

definition rollback_verified :: "state \<Rightarrow> bool" where
  "rollback_verified st = (case st ''s06_rollback'' of Some (VRollback _ v) \<Rightarrow> v | _ \<Rightarrow> False)"

section \<open>Handlers S06.10 to S06.80\<close>

definition handle_s06_10 :: "state \<Rightarrow> 'w node_ports \<Rightarrow> ('w, node_execution) io" where
  "handle_s06_10 st ports =
     bindI (read_request ports st) (\<lambda>r.
     bindI (read_verification ports st) (\<lambda>(vref, v).
     bindI (liftI (require_phase_ref st ''S05.90'' ''Measurement'')) (\<lambda>mref.
     bindI (read_statistical ports st) (\<lambda>effects.
       let complete = (vr_passed v \<and> set (map cr_id (req_criteria r)) \<subseteq> set (map ef_criterion effects)) in
       retI \<lparr>ex_route = (if complete then CONTINUE else REJECTED),
             ex_updates = [(''s06_intake'', VIntake \<lparr>si_verification = ref_digest vref,
                si_measurement = ref_digest mref, si_complete = complete\<rparr>)]\<rparr>))))"

definition handle_s06_20 :: "state \<Rightarrow> 'w node_ports \<Rightarrow> ('w, node_execution) io" where
  "handle_s06_20 st ports =
     bindI (read_request ports st) (\<lambda>r.
     bindI (read_statistical ports st) (\<lambda>effects.
     retI (cont [(''s06_target_evaluations'', VTargets (evaluate_targets r effects))])))"

definition handle_s06_30 :: "state \<Rightarrow> 'w node_ports \<Rightarrow> ('w, node_execution) io" where
  "handle_s06_30 st ports =
     bindI (read_request ports st) (\<lambda>r.
     bindI (read_verification ports st) (\<lambda>(_, v).
     bindI (read_statistical ports st) (\<lambda>effects.
     retI (cont [(''s06_guardrail_evaluations'', VGuards (evaluate_guardrails r effects (vr_checks v)))]))))"

definition handle_s06_40 :: "state \<Rightarrow> 'w node_ports \<Rightarrow> ('w, node_execution) io" where
  "handle_s06_40 st ports =
     (let (cls, rationale) = classify (get_targets st) in
      bindI (liftI (active_phase_id st)) (\<lambda>phase.
      retI (cont [(''s06_attribution'', VAttribution \<lparr>at_phase = phase, at_class = cls, at_rationale = rationale\<rparr>)])))"

definition handle_s06_50 :: "state \<Rightarrow> 'w node_ports \<Rightarrow> ('w, node_execution) io" where
  "handle_s06_50 st ports =
     retI (cont [(''s06_decision'', VDecision (decide (get_guards st) (get_attribution st)))])"

definition handle_s06_60 :: "(blob \<Rightarrow> string) \<Rightarrow> ('w \<Rightarrow> int) \<Rightarrow> 'w tools \<Rightarrow> state \<Rightarrow> 'w node_ports \<Rightarrow>
    ('w, node_execution) io" where
  "handle_s06_60 sha clock tools st ports =
     (if get_outcome st \<noteq> Some REVERT then retI (cont [(''s06_rollback'', VRollback False True)])
      else bindI (liftI (require_ref st ''SourceSnapshot'')) (\<lambda>sref.
        bindI (read_model ports st sref decode_snapshot) (\<lambda>snapshot.
        bindI (liftI (require_phase_ref st ''S03.80'' ''PatchArtifact'')) (\<lambda>patch_ref.
        bindI (if sn_revision snapshot \<notin> {None, Some []}
               then bindI (git tools (sn_path snapshot) [''status'', ''--porcelain'']) (\<lambda>status.
                      retI (status = Some []))
               else retI True) (\<lambda>untouched.
        bindI (liftI (active_phase_id st)) (\<lambda>phase.
        bindI (seal_and_put sha clock ports st ''S06.60'' ''RollbackReport'' (valid_digest (ref_digest patch_ref))
                 (BRollback \<lparr>rb_phase = phase, rb_patch = ref_digest patch_ref, rb_untouched = untouched,
                    rb_detail = (if sn_revision snapshot \<notin> {None, Some []}
                                 then if untouched then ''git status is clean on the original repository''
                                      else ''git status reported real, unexpected changes on the original repository''
                                 else ''directory-copy isolation never writes back into the original tree'')\<rparr>)) (\<lambda>ref.
        retI (cont [(''artifact_refs'', VRefs [ref]), (''s06_rollback'', VRollback True untouched)]))))))))"

definition handle_s06_70 :: "state \<Rightarrow> 'w node_ports \<Rightarrow> ('w, node_execution) io" where
  "handle_s06_70 st ports =
     retI (cont [(''s06_decision'',
       if get_outcome st = Some REVERT \<and> \<not> rollback_verified st
       then VDecision \<lparr>ds_outcome = ESCALATE, ds_rationale = ''REVERT was decided but rollback verification failed''\<rparr>
       else case get_decision st of None \<Rightarrow> VNone | Some d \<Rightarrow> VDecision d)])"

fun outcome_name :: "outcome \<Rightarrow> string" where
  "outcome_name KEEP = ''KEEP''"
| "outcome_name FIX_ONE_PART = ''FIX_ONE_PART''"
| "outcome_name REVERT = ''REVERT''"
| "outcome_name ESCALATE = ''ESCALATE''"

text \<open>What S06.80 writes besides the sealed decision: the repair counter, or the extended list of
  excluded strategies.\<close>

definition decision_consequences :: "state \<Rightarrow> 'w node_ports \<Rightarrow> outcome \<Rightarrow> ('w, updates) io" where
  "decision_consequences st ports outcome =
     (if outcome = FIX_ONE_PART
        then retI [(''s03_revision_attempts'', VInt (pass_number st + 1))]
      else if outcome = REVERT then
        bindI (liftI (require_stage_ref st (''S01.90-pass'' @ str_nat (s01_pass_number st)) ''SelectedSolution'')) (\<lambda>sref.
        bindI (read_model ports st sref decode_selected) (\<lambda>selected.
        retI [(''s01_excluded_strategy_ids'',
               VStrs (sorted_set (sel_strategy selected # get_strs st ''s01_excluded_strategy_ids'')))]))
      else retI [])"

definition handle_s06_80 :: "(blob \<Rightarrow> string) \<Rightarrow> ('w \<Rightarrow> int) \<Rightarrow> state \<Rightarrow> 'w node_ports \<Rightarrow>
    ('w, node_execution) io" where
  "handle_s06_80 sha clock st ports =
     (let outcome = (case get_outcome st of None \<Rightarrow> ESCALATE | Some x \<Rightarrow> x);
          rationale = (case get_decision st of None \<Rightarrow> [] | Some d \<Rightarrow> ds_rationale d) in
      bindI (liftI (active_phase_id st)) (\<lambda>phase.
      bindI (liftI (require_phase_ref st ''S04.90'' ''VerificationReport'')) (\<lambda>vref.
      bindI (liftI (require_phase_ref st ''S05.90'' ''Measurement'')) (\<lambda>mref.
      bindI (liftI (case get_attribution st of None \<Rightarrow> Inl (ValidationError ''PhaseAttribution'')
                    | Some a \<Rightarrow> Inr a)) (\<lambda>attribution.
      bindI (liftI (if outcome = REVERT
                    then bindR (require_phase_ref st ''S06.60'' ''RollbackReport'') (\<lambda>r. Inr (Some (ref_digest r)))
                    else Inr None)) (\<lambda>rollback.
        let record = \<lparr>de_phase = phase, de_measurement = ref_digest mref, de_verification = ref_digest vref,
              de_targets = get_targets st, de_guardrails = get_guards st, de_attribution = attribution,
              de_outcome = outcome,
              de_rationale = ''Decision: '' @ outcome_name outcome @ ''. '' @
                 str_nat (length (filter tv_met (get_targets st))) @ ''/'' @ str_nat (length (get_targets st)) @
                 '' primary criteria met. '' @ rationale,
              de_rollback = rollback\<rparr> in
        bindI (seal_and_put sha clock ports st ''S06.80'' ''Decision'' (valid_decision record) (BDecision record)) (\<lambda>ref.
        bindI (decision_consequences st ports outcome) (\<lambda>extra.
        retI (cont ([(''artifact_refs'', VRefs [ref]),
              (''s06_decision'', VDecision \<lparr>ds_outcome = outcome, ds_rationale = rationale\<rparr>)] @ extra))))))))))"

section \<open>Applying an accepted patch\<close>

definition seal_apply_result :: "(blob \<Rightarrow> string) \<Rightarrow> ('w \<Rightarrow> int) \<Rightarrow> state \<Rightarrow> 'w node_ports \<Rightarrow> apply_result \<Rightarrow>
    ('w, node_execution) io" where
  "seal_apply_result sha clock st ports r =
     bindI (seal_and_put sha clock ports st ''S06.90'' ''RepositoryApplyResult'' (valid_apply_result r) (BApply r)) (\<lambda>ref.
     retI (cont [(''artifact_refs'', VRefs [ref]), (''s06_apply'', VApply (ar_applied r) True)]))"

definition apply_failed :: "patch_artifact \<Rightarrow> artifact_ref \<Rightarrow> string \<Rightarrow> string \<Rightarrow> string \<Rightarrow> string option \<Rightarrow> apply_result" where
  "apply_failed patch patch_ref phase reason approval actor =
     \<lparr>ar_phase = phase, ar_patch = ref_digest patch_ref, ar_applied = False, ar_branch = None, ar_commit = None,
      ar_base = pa_base patch, ar_failure = Some reason, ar_approval = approval, ar_actor = actor\<rparr>"

definition apply_done :: "patch_artifact \<Rightarrow> artifact_ref \<Rightarrow> string \<Rightarrow> string \<Rightarrow> string \<Rightarrow> string option \<Rightarrow> apply_result" where
  "apply_done patch patch_ref branch sha1 approval actor =
     \<lparr>ar_phase = pa_phase patch, ar_patch = ref_digest patch_ref, ar_applied = True, ar_branch = Some branch,
      ar_commit = Some sha1, ar_base = pa_base patch, ar_failure = None, ar_approval = approval, ar_actor = actor\<rparr>"

fun join :: "string \<Rightarrow> string list \<Rightarrow> string" where
  "join sep [] = []"
| "join sep [x] = x"
| "join sep (x # y # ys) = x @ sep @ join sep (y # ys)"

definition newline :: string where
  "newline = [CHR 0x0A]"

definition diff_text :: "patch_artifact \<Rightarrow> string" where
  "diff_text patch =
     (if pa_diff patch \<noteq> [] \<and> last (pa_diff patch) = CHR 0x0A then pa_diff patch else pa_diff patch @ newline)"

definition commit_message :: "string \<Rightarrow> patch_artifact \<Rightarrow> artifact_ref \<Rightarrow> string" where
  "commit_message cid patch patch_ref =
     ''optimizer: apply '' @ pa_phase patch @ '' ('' @ cid @ '')'' @ newline @ newline @
     ''task_ids: '' @ join '', '' (pa_tasks patch) @ newline @
     ''base_revision: '' @ pa_base patch @ newline @ ''patch_digest: '' @ ref_digest patch_ref"

text \<open>A git command whose failure ends the attempt with a reason.\<close>

definition git_step :: "'w tools \<Rightarrow> string \<Rightarrow> string list \<Rightarrow> string \<Rightarrow> (string \<Rightarrow> ('w, string + string) io) \<Rightarrow>
    ('w, string + string) io" where
  "git_step tools cwd args reason next =
     bindI (git tools cwd args) (\<lambda>out. case out of None \<Rightarrow> retI (Inl reason) | Some s \<Rightarrow> next s)"

text \<open>The body of the \<open>try\<close> block: \<open>Inl\<close> the reason of a failure, \<open>Inr\<close> the new commit.\<close>

definition commit_in_worktree :: "'w tools \<Rightarrow> string \<Rightarrow> string \<Rightarrow> string \<Rightarrow> string \<Rightarrow> patch_artifact \<Rightarrow>
    artifact_ref \<Rightarrow> ('w, string + string) io" where
  "commit_in_worktree tools repo tmp branch cid patch patch_ref =
     (let wt = tmp @ ''/worktree''; pf = tmp @ ''/change.patch''; crlf = [''-c'', ''core.autocrlf=true''] in
      git_step tools repo [''worktree'', ''add'', ''-b'', branch, wt, pa_base patch] ''git worktree add -b failed'' (\<lambda>_.
      bindI (tl_write tools pf (diff_text patch)) (\<lambda>_.
      git_step tools wt (crlf @ [''apply'', ''--check'', pf]) ''git apply --check failed; diff no longer applies cleanly'' (\<lambda>_.
      git_step tools wt (crlf @ [''apply'', pf]) ''git apply failed after a successful --check'' (\<lambda>_.
      git_step tools wt (''add'' # pa_files patch) ''git add of changed_files failed'' (\<lambda>_.
      git_step tools wt [''commit'', ''-m'', commit_message cid patch patch_ref] ''git commit failed'' (\<lambda>_.
      git_step tools wt [''rev-parse'', ''HEAD''] ''commit succeeded but rev-parse HEAD failed'' (\<lambda>sha1.
      retI (Inr sha1)))))))))"

text \<open>The \<open>finally\<close> block.\<close>

definition cleanup :: "'w tools \<Rightarrow> string \<Rightarrow> string \<Rightarrow> string \<Rightarrow> bool \<Rightarrow> ('w, unit) io" where
  "cleanup tools repo tmp branch succeeded =
     bindI (git tools repo [''worktree'', ''remove'', ''--force'', tmp @ ''/worktree'']) (\<lambda>_.
     bindI (if \<not> succeeded then bindI (git tools repo [''branch'', ''-D'', branch]) (\<lambda>_. retI ()) else retI ()) (\<lambda>_.
     (\<lambda>w. (Inr (), tl_rmtree tools tmp w))))"

text \<open>\<open>try: o = m; return k(o) finally: fin(succeeded)\<close>, where the flag is set once \<open>m\<close> has given a
  commit. An exception of \<open>fin\<close> replaces what was being returned or raised.\<close>

definition try_finally :: "('w, string + string) io \<Rightarrow> (string + string \<Rightarrow> ('w, 'a) io) \<Rightarrow> (bool \<Rightarrow> ('w, unit) io) \<Rightarrow>
    ('w, 'a) io" where
  "try_finally m k fin w =
     (case m w of
        (Inl e, w1) \<Rightarrow> (case fin False w1 of (Inl e', w2) \<Rightarrow> (Inl e', w2) | (Inr _, w2) \<Rightarrow> (Inl e, w2))
      | (Inr out, w1) \<Rightarrow>
          (case k out w1 of (r, w2) \<Rightarrow>
             (case fin (\<exists>sha1. out = Inr sha1) w2 of (Inl e', w3) \<Rightarrow> (Inl e', w3) | (Inr _, w3) \<Rightarrow> (r, w3))))"

definition branch_name :: "string \<Rightarrow> patch_artifact \<Rightarrow> string" where
  "branch_name cid patch = ''optimizer/'' @ cid @ ''-'' @ pa_phase patch"

definition apply_patch_to_real_repo :: "(blob \<Rightarrow> string) \<Rightarrow> ('w \<Rightarrow> int) \<Rightarrow> 'w tools \<Rightarrow> state \<Rightarrow> 'w node_ports \<Rightarrow>
    source_snapshot \<Rightarrow> patch_artifact \<Rightarrow> artifact_ref \<Rightarrow> string \<Rightarrow> string option \<Rightarrow> ('w, node_execution) io" where
  "apply_patch_to_real_repo sha clock tools st ports snapshot patch patch_ref approval actor =
     (let repo = sn_path snapshot in
      bindI (git tools repo [''rev-parse'', ''HEAD'']) (\<lambda>head.
      if head \<noteq> Some (pa_base patch)
      then seal_apply_result sha clock st ports (apply_failed patch patch_ref (pa_phase patch)
             ''real repository HEAD no longer matches base_revision; refusing to apply a stale patch'' approval actor)
      else bindI (liftI (required_state_str st ''case_id'')) (\<lambda>cid.
        let branch = branch_name cid patch in
        bindI (tl_mkdtemp tools) (\<lambda>tmp.
        try_finally (commit_in_worktree tools repo tmp branch cid patch patch_ref)
          (\<lambda>out. seal_apply_result sha clock st ports
             (case out of
                Inl reason \<Rightarrow> apply_failed patch patch_ref (pa_phase patch) reason approval actor
              | Inr sha1 \<Rightarrow> apply_done patch patch_ref branch sha1 approval actor))
          (cleanup tools repo tmp branch)))))"

definition apply_interrupt :: "state \<Rightarrow> string \<Rightarrow> int \<Rightarrow> interrupt_envelope result" where
  "apply_interrupt st d now =
     bindR (required_state_str st ''case_id'') (\<lambda>cid.
     bindR (required_state_str st ''thread_id'') (\<lambda>thread.
       let i = \<lparr>int_id = cid @ ''-S06-APPLY'', int_case = cid, int_thread = thread, int_stage = ''S06.90'',
                 int_digest = d, int_allowed = [''approve'', ''reject''], int_role = ''owner'',
                 int_policy = s06_policy_version, int_issued = Aware now,
                 int_expires = Aware (now + 24 * 3600)\<rparr> in
       if valid_interrupt i then Inr i else Inl (ValidationError ''InterruptEnvelope'')))"

definition apply_policy_request :: "state \<Rightarrow> string \<Rightarrow> patch_artifact \<Rightarrow> policy_request result" where
  "apply_policy_request st phase patch =
     bindR (required_state_str st ''tenant_id'') (\<lambda>tenant.
     bindR (required_state_str st ''case_id'') (\<lambda>cid.
       Inr \<lparr>pq_type = ''apply_to_real_repo'', pq_version = s06_policy_version, pq_tenant = tenant,
            pq_facts = [(''phase_id'', VStr phase), (''case_id'', VStr cid),
                        (''base_revision'', VStr (pa_base patch)), (''changed_files'', VStrs (pa_files patch))]\<rparr>))"

definition handle_s06_90 :: "(blob \<Rightarrow> string) \<Rightarrow> ('w \<Rightarrow> int) \<Rightarrow> 'w tools \<Rightarrow> state \<Rightarrow> 'w node_ports \<Rightarrow>
    ('w, node_execution) io" where
  "handle_s06_90 sha clock tools st ports =
     (if get_outcome st \<noteq> Some KEEP then retI (cont [(''s06_apply'', VApply False False)])
      else case np_policy ports of
          None \<Rightarrow> failI (RuntimeError ''S06.90 requires ports.policy to be non-None'')
        | Some evaluate \<Rightarrow>
            bindI (liftI (require_ref st ''SourceSnapshot'')) (\<lambda>sref.
            bindI (read_model ports st sref decode_snapshot) (\<lambda>snapshot.
            bindI (liftI (require_phase_ref st ''S03.80'' ''PatchArtifact'')) (\<lambda>patch_ref.
            bindI (read_model ports st patch_ref decode_patch) (\<lambda>patch.
            bindI (liftI (active_phase_id st)) (\<lambda>phase.
            bindI (liftI (get_resume st)) (\<lambda>resume.
            case resume of
              None \<Rightarrow>
                bindI (liftI (apply_policy_request st phase patch)) (\<lambda>request.
                bindI (evaluate request) (\<lambda>verdict.
                if \<not> pd_allowed verdict
                then seal_apply_result sha clock st ports (apply_failed patch patch_ref phase
                       (''policy denied: '' @ join ''; '' (pd_reasons verdict)) ''denied'' None)
                else if pd_decision verdict = ''allow''
                then apply_patch_to_real_repo sha clock tools st ports snapshot patch patch_ref ''auto_allowed'' None
                else (\<lambda>w. bindI (liftI (apply_interrupt st (ref_digest patch_ref) (clock w))) (\<lambda>interrupt.
                       retI \<lparr>ex_route = APPROVAL, ex_updates = [(''pending_interrupt'', VInterrupt interrupt),
                               (''s06_apply'', VApply False False)]\<rparr>) w)))
            | Some c \<Rightarrow>
                if rc_decision c \<noteq> ''approve''
                then seal_apply_result sha clock st ports (apply_failed patch patch_ref phase
                       (''resumed with decision '' @ rc_decision c) ''rejected'' (Some (rc_actor c)))
                else apply_patch_to_real_repo sha clock tools st ports snapshot patch patch_ref
                       ''approved'' (Some (rc_actor c)))))))))"

definition s06_run :: "(blob \<Rightarrow> string) \<Rightarrow> ('w \<Rightarrow> int) \<Rightarrow> 'w tools \<Rightarrow> string \<Rightarrow> state \<Rightarrow> 'w node_ports \<Rightarrow>
    ('w, node_execution) io" where
  "s06_run sha clock tools node st ports =
     (if node = ''S06.10'' then handle_s06_10 st ports
      else if node = ''S06.20'' then handle_s06_20 st ports
      else if node = ''S06.30'' then handle_s06_30 st ports
      else if node = ''S06.40'' then handle_s06_40 st ports
      else if node = ''S06.50'' then handle_s06_50 st ports
      else if node = ''S06.60'' then handle_s06_60 sha clock tools st ports
      else if node = ''S06.70'' then handle_s06_70 st ports
      else if node = ''S06.80'' then handle_s06_80 sha clock st ports
      else if node = ''S06.90'' then handle_s06_90 sha clock tools st ports
      else retI (cont []))"

definition s06_handler :: "(blob \<Rightarrow> string) \<Rightarrow> ('w \<Rightarrow> int) \<Rightarrow> 'w tools \<Rightarrow> string \<Rightarrow> 'w handler" where
  "s06_handler sha clock tools node st ports =
     (case ports of
        None \<Rightarrow> failI (RuntimeError ''production S06 handlers require artifact and intent ports'')
      | Some p \<Rightarrow> s06_run sha clock tools node st p)"

definition s06_registrations :: "(blob \<Rightarrow> string) \<Rightarrow> ('w \<Rightarrow> int) \<Rightarrow> 'w tools \<Rightarrow> string list \<Rightarrow>
    (string \<times> 'w registered_node) list" where
  "s06_registrations sha clock tools node_ids =
     map (\<lambda>node. (node, \<lparr>rg_spec = s06_spec node, rg_handler = s06_handler sha clock tools node\<rparr>)) node_ids"

section \<open>Facts about the evaluation\<close>

lemma classify_fst:
  "fst (classify evs) =
     (if evs = [] then NoEvidence else if list_all tv_met evs then AllTargetsMet
      else if list_ex tv_met evs then Repairable else WrongDirection)"
proof -
  have "length (filter tv_met evs) = length evs \<longleftrightarrow> list_all tv_met evs"
    by (metis filter_True length_filter_less less_irrefl list_all_iff)
  moreover have "length (filter tv_met evs) = 0 \<longleftrightarrow> \<not> list_ex tv_met evs"
    by (auto simp: filter_empty_conv list_ex_iff)
  ultimately show ?thesis by (auto simp: classify_def Let_def)
qed

definition attribute :: "string \<Rightarrow> target_evaluation list \<Rightarrow> phase_attribution" where
  "attribute phase evs = \<lparr>at_phase = phase, at_class = fst (classify evs), at_rationale = snd (classify evs)\<rparr>"

lemma decide_attributed:
  "ds_outcome (decide guards (Some (attribute phase evs))) =
     (if \<not> list_all ge_passed guards then REVERT
      else if evs \<noteq> [] \<and> list_all tv_met evs then KEEP
      else if list_ex tv_met evs then FIX_ONE_PART else REVERT)"
  by (cases evs) (auto simp: decide_def attribute_def classify_fst)

text \<open>The value a guardrail is judged by: the last measured effect of its metric, else the exit
  code of the last check of its kind.\<close>

definition guard_evidence :: "effect_result list \<Rightarrow> check_result list \<Rightarrow> guardrail \<Rightarrow> rat option" where
  "guard_evidence effects checks g =
     (case find (\<lambda>e. ef_metric e = gr_metric g) (rev effects) of
        Some e \<Rightarrow> Some (ef_treatment_mean e)
      | None \<Rightarrow> map_option (\<lambda>c. of_int (ck_exit c))
          (find (\<lambda>c. check_kind_name (ck_kind c) @ ''_command_result'' = gr_metric g) (rev checks)))"

lemma map_of_map_find: "map_of (map (\<lambda>x. (f x, x)) xs) k = find (\<lambda>x. f x = k) xs"
  by (induction xs) auto

lemma py_dict_find: "map_of (py_dict (map (\<lambda>x. (f x, x)) xs)) k = find (\<lambda>x. f x = k) (rev xs)"
  by (simp add: map_of_py_dict rev_map map_of_map_find)

lemma guardrails_pass_iff:
  "list_all ge_passed (evaluate_guardrails r effects checks) \<longleftrightarrow>
     (\<forall>g \<in> set (req_guardrails r). \<exists>v. guard_evidence effects checks g = Some v \<and>
        apply_operator v (gr_operator g) (gr_threshold g))"
  by (auto simp: evaluate_guardrails_def Let_def list_all_iff evaluate_guardrail_def py_dict_find
      guard_evidence_def split: option.splits)

lemma targets_met_iff:
  "list_all tv_met (evaluate_targets r effects) \<longleftrightarrow>
     (\<forall>c \<in> set (req_criteria r). \<exists>e. find (\<lambda>e. ef_criterion e = cr_id c) (rev effects) = Some e \<and>
        target_met (cr_direction c) (ef_treatment_mean e) (cr_target c))"
  by (auto simp: evaluate_targets_def Let_def list_all_iff evaluate_target_def py_dict_find split: option.splits)

section \<open>Facts about the handlers\<close>

lemma bindI_liftI_app: "bindI (liftI r) f w = (case r of Inl e \<Rightarrow> (Inl e, w) | Inr x \<Rightarrow> f x w)"
  by (cases r) (simp_all add: bindI_def)

lemma decision_consequences_Inr:
  assumes "decision_consequences st ports out w = (Inr u, w')"
  shows "map_of u ''s03_revision_attempts'' = (if out = FIX_ONE_PART then Some (VInt (pass_number st + 1)) else None) \<and>
    (if out = REVERT
     then \<exists>sref selected. require_stage_ref st (''S01.90-pass'' @ str_nat (s01_pass_number st)) ''SelectedSolution'' = Inr sref \<and>
       fst (read_model ports st sref decode_selected w) = Inr selected \<and>
       map_of u ''s01_excluded_strategy_ids'' =
        Some (VStrs (sorted_set (sel_strategy selected # get_strs st ''s01_excluded_strategy_ids'')))
     else map_of u ''s01_excluded_strategy_ids'' = None)"
proof (cases out)
  case REVERT
  with assms obtain sref w1 selected w2 where
    "require_stage_ref st (''S01.90-pass'' @ str_nat (s01_pass_number st)) ''SelectedSolution'' = Inr sref"
    "read_model ports st sref decode_selected w = (Inr selected, w2)"
    "u = [(''s01_excluded_strategy_ids'',
       VStrs (sorted_set (sel_strategy selected # get_strs st ''s01_excluded_strategy_ids'')))]"
    unfolding decision_consequences_def by (auto elim!: bindI_result_Inr)
  with REVERT show ?thesis by auto
qed (use assms in \<open>auto simp: decision_consequences_def\<close>)

lemma s06_60_Inr:
  assumes "handle_s06_60 sha clock tools st ports w = (Inr ex, w1)" and "get_outcome st = Some REVERT"
  obtains sref snapshot u w4 w5 where "require_ref st ''SourceSnapshot'' = Inr sref"
    and "fst (read_model ports st sref decode_snapshot w) = Inr snapshot"
    and "(if sn_revision snapshot \<notin> {None, Some []}
          then bindI (git tools (sn_path snapshot) [''status'', ''--porcelain'']) (\<lambda>status. retI (status = Some []))
          else retI True) w4 = (Inr u, w5)"
    and "map_of (ex_updates ex) ''s06_rollback'' = Some (VRollback True u)"
proof -
  from assms(1) show ?thesis
    unfolding handle_s06_60_def assms(2) simp_thms if_False
    apply (elim bindI_result_Inr)
    subgoal premises p for sref wa snapshot wb patch_ref wc u wd phase we ref wf
      by (rule that[of sref snapshot wc u wd]) (use p in \<open>auto simp: cont_def\<close>)
    done
qed

lemma s06_80_Inr:
  assumes "handle_s06_80 sha clock st ports w = (Inr ex, w')"
  obtains ref extra w1 where
    "decision_consequences st ports (case get_outcome st of None \<Rightarrow> ESCALATE | Some x \<Rightarrow> x) w1 = (Inr extra, w')"
    and "ex = cont ([(''artifact_refs'', VRefs [ref]), (''s06_decision'', VDecision
       \<lparr>ds_outcome = (case get_outcome st of None \<Rightarrow> ESCALATE | Some x \<Rightarrow> x),
        ds_rationale = (case get_decision st of None \<Rightarrow> [] | Some d \<Rightarrow> ds_rationale d)\<rparr>)] @ extra)"
  using assms unfolding handle_s06_80_def Let_def
  by (elim bindI_result_Inr) (auto intro: that)

lemma sorted_set_set [simp]: "set (sorted_set xs) = set xs"
  by (simp add: sorted_set_def)

text \<open>Concrete inputs for the witnesses: a table of sealed artifacts by type and ports over it.\<close>

definition demo_env :: "string \<Rightarrow> body \<Rightarrow> blob" where
  "demo_env ty b = Sealed \<lparr>env_type = ty, env_id = ''id'', env_tenant = ''t'', env_case = ''c'', env_created = 0,
     env_parents = [], env_body = b\<rparr>"

definition demo_patch :: patch_artifact where
  "demo_patch = \<lparr>pa_plan = rep_digest CHR ''a'', pa_provenance = rep_digest CHR ''a'', pa_phase = ''p1'', pa_tasks = [''t1''],
     pa_base = ''abc'', pa_files = [''a.py''], pa_diff = ''diff'', pa_scope = \<lparr>sr_in_scope = True, sr_violations = []\<rparr>,
     pa_sanitation = \<lparr>zr_passed = True, zr_findings = []\<rparr>\<rparr>"

definition demo_selected :: selected_solution where
  "demo_selected = \<lparr>sel_ranking = rep_digest CHR ''a'', sel_portfolio = rep_digest CHR ''a'', sel_strategy = ''cache'',
     sel_approval = \<lparr>sa_decision = Approved, sa_actor = Some ''ann'', sa_role = Some ''owner'', sa_policy = ''v1''\<rparr>,
     sel_excluded = []\<rparr>"

definition demo_table :: "blob dict" where
  "demo_table = [(''SourceSnapshot'', demo_env ''SourceSnapshot'' (BSnapshot \<lparr>sn_path = ''/repo'', sn_revision = Some ''abc'', sn_files = []\<rparr>)),
     (''PatchArtifact'', demo_env ''PatchArtifact'' (BPatch demo_patch)),
     (''SelectedSolution'', demo_env ''SelectedSolution'' (BSelected demo_selected))]"

definition demo_ref :: "string \<Rightarrow> string \<Rightarrow> artifact_ref" where
  "demo_ref ty i = \<lparr>ref_type = ty, ref_schema = ''1.0'', ref_id = i, ref_digest = rep_digest CHR ''a'', ref_uri = ''u''\<rparr>"

definition demo_ports :: "(policy_request \<Rightarrow> (world, policy_decision) io) option \<Rightarrow> world node_ports" where
  "demo_ports policy = (platform_ports policy)
     \<lparr>np_read := \<lambda>_ r. liftI (index demo_table (ref_type r) (DatabaseError ''NoSuchKey'')),
      np_put_json := \<lambda>_ _ _ _. retI (demo_ref ''JsonArtifact'' ''k'')\<rparr>"

definition demo_s06 :: "outcome \<Rightarrow> state" where
  "demo_s06 out = [''case_id'' \<mapsto> VStr ''c'', ''tenant_id'' \<mapsto> VStr ''t'', ''thread_id'' \<mapsto> VStr ''th'',
     ''s03_active_phase_id'' \<mapsto> VStr ''p1'',
     ''artifact_refs'' \<mapsto> VRefs [demo_ref ''SourceSnapshot'' ''s'',
        demo_ref ''PatchArtifact'' ''c-S03.80-p1-pass0-PatchArtifact'',
        demo_ref ''VerificationReport'' ''c-S04.90-p1-pass0-VerificationReport'',
        demo_ref ''Measurement'' ''c-S05.90-p1-pass0-Measurement'',
        demo_ref ''RollbackReport'' ''c-S06.60-p1-pass0-RollbackReport'',
        demo_ref ''SelectedSolution'' ''c-S01.90-pass0-SelectedSolution''],
     ''s06_target_evaluations'' \<mapsto> VTargets [\<lparr>tv_criterion = ''latency'', tv_metric = ''p95'',
        tv_direction = Minimize, tv_target = 100, tv_value = Some 90, tv_met = True\<rparr>],
     ''s06_attribution'' \<mapsto> VAttribution \<lparr>at_phase = ''p1'', at_class = AllTargetsMet, at_rationale = ''r''\<rparr>,
     ''s06_decision'' \<mapsto> VDecision \<lparr>ds_outcome = out, ds_rationale = ''r''\<rparr>]"

lemma str_int_0 [simp]: "str_int 0 = ''0''" "str_nat 0 = ''0''"
  by (simp_all add: str_int_def, subst str_nat.simps, simp add: digit_def, subst str_nat.simps, simp add: digit_def)

lemma demo_digest_valid: "valid_digest (rep_digest CHR ''a'')"
  by (simp add: valid_rep_digest hex_digit_def)

lemma demo_ref_sel [simp]: "ref_type (demo_ref ty i) = ty" "ref_digest (demo_ref ty i) = rep_digest CHR ''a''"
  by (simp_all add: demo_ref_def)

lemma demo_s06_sel [simp]:
  "get_str (demo_s06 out) ''case_id'' = Some ''c''" "get_str (demo_s06 out) ''tenant_id'' = Some ''t''"
  "get_str (demo_s06 out) ''thread_id'' = Some ''th''" "get_outcome (demo_s06 out) = Some out"
  "active_phase_id (demo_s06 out) = Inr ''p1''" "pass_number (demo_s06 out) = 0"
  "s01_pass_number (demo_s06 out) = 0" "get_strs (demo_s06 out) ''s01_excluded_strategy_ids'' = []"
  "get_resume (demo_s06 out) = Inr None"
  by (simp_all add: demo_s06_def get_str_def get_outcome_def get_decision_def active_phase_id_def
      pass_number_def get_int_def s01_pass_number_def get_strs_def get_resume_def)

lemma demo_s06_refs [simp]:
  "require_ref (demo_s06 out) ''SourceSnapshot'' = Inr (demo_ref ''SourceSnapshot'' ''s'')"
  "require_phase_ref (demo_s06 out) ''S03.80'' ''PatchArtifact'' =
     Inr (demo_ref ''PatchArtifact'' ''c-S03.80-p1-pass0-PatchArtifact'')"
  "require_phase_ref (demo_s06 out) ''S04.90'' ''VerificationReport'' =
     Inr (demo_ref ''VerificationReport'' ''c-S04.90-p1-pass0-VerificationReport'')"
  "require_phase_ref (demo_s06 out) ''S05.90'' ''Measurement'' =
     Inr (demo_ref ''Measurement'' ''c-S05.90-p1-pass0-Measurement'')"
  "require_phase_ref (demo_s06 out) ''S06.60'' ''RollbackReport'' =
     Inr (demo_ref ''RollbackReport'' ''c-S06.60-p1-pass0-RollbackReport'')"
  "require_stage_ref (demo_s06 out) ''S01.90-pass0'' ''SelectedSolution'' =
     Inr (demo_ref ''SelectedSolution'' ''c-S01.90-pass0-SelectedSolution'')"
  by (simp_all add: require_phase_ref_def phase_stage_def require_stage_ref_def required_state_str_def
      stage_artifact_id_def require_ref_def try_ref_def)
    (simp_all add: demo_s06_def get_refs_def demo_ref_def)

lemma demo_put [simp]:
  "valid_envelope e \<Longrightarrow> env_type e \<noteq> [] \<Longrightarrow>
   s06_put_envelope (\<lambda>_. rep_digest CHR ''a'') (demo_ports policy) (demo_s06 out) e node w =
     (Inr (demo_ref (env_type e) (env_id e)), w)"
  by (simp add: s06_put_envelope_def required_state_str_def demo_ports_def mk_ref_def Let_def valid_ref_def
      demo_ref_def len_in_def demo_digest_valid valid_envelope_def)

lemma demo_read [simp]:
  "map_of demo_table (ref_type r) = Some (Sealed e) \<Longrightarrow>
   read_model (demo_ports policy) (demo_s06 out) r decode w = (decode (env_body e), w)"
  by (simp add: read_model_def required_state_str_def demo_ports_def index_def)

lemma demo_table_sel [simp]:
  "map_of demo_table ''SourceSnapshot'' = Some (demo_env ''SourceSnapshot'' (BSnapshot \<lparr>sn_path = ''/repo'', sn_revision = Some ''abc'', sn_files = []\<rparr>))"
  "map_of demo_table ''PatchArtifact'' = Some (demo_env ''PatchArtifact'' (BPatch demo_patch))"
  "map_of demo_table ''SelectedSolution'' = Some (demo_env ''SelectedSolution'' (BSelected demo_selected))"
  by (simp_all add: demo_table_def)

lemma demo_seal:
  assumes ok and l: "length node + length ty \<le> 27" and ty: "ty \<noteq> []"
  shows "seal_and_put (\<lambda>_. rep_digest CHR ''a'') clock (demo_ports policy) (demo_s06 out) node ty ok b w =
     (Inr (demo_ref ty (stage_artifact_id ''c'' (node @ ''-p1-pass0'') ty)), w)"
proof -
  let ?e = "\<lparr>env_type = ty, env_id = stage_artifact_id ''c'' (node @ ''-p1-pass0'') ty, env_tenant = ''t'',
     env_case = ''c'', env_created = clock w, env_parents = [], env_body = b\<rparr>"
  have v: "valid_envelope ?e"
    using l ty by (cases ty) (simp_all add: valid_envelope_def len_in_def stage_artifact_id_def)
  have "stage_envelope (demo_s06 out) (node @ ''-p1-pass0'') ty [] b (clock w) = Inr ?e"
    using v by (simp add: stage_envelope_def required_state_str_def Let_def)
  then show ?thesis
    using \<open>ok\<close> v ty by (simp add: seal_and_put_def phase_stage_def)
qed

section \<open>Properties of the decision\<close>

text \<open>The decision is a closed formula of the evaluations: a failed guardrail forces REVERT;
  otherwise KEEP exactly when there is a target and all are met, FIX_ONE_PART when some but not
  all are met, and REVERT when none is or nothing was evaluated.\<close>

theorem decision_table:
  "ds_outcome (decide guards (Some (attribute phase evs))) =
     (if \<not> list_all ge_passed guards then REVERT
      else if evs \<noteq> [] \<and> list_all tv_met evs then KEEP
      else if list_ex tv_met evs then FIX_ONE_PART else REVERT) \<and>
   ds_outcome (decide guards None) = REVERT"
  by (simp add: decide_attributed) (simp add: decide_def)

text \<open>C3. KEEP rests on evidence: nodes S06.20 to S06.50 decide KEEP exactly when every criterion
  of the request has a measured effect that meets its target in its direction, there is at least
  one criterion, and every guardrail has evidence, a measured effect or the exit code of a check,
  that satisfies its operator. Missing evidence never passes.\<close>

theorem keep_rests_on_evidence:
  "ds_outcome (decide (evaluate_guardrails r effects checks) (Some (attribute phase (evaluate_targets r effects)))) = KEEP \<longleftrightarrow>
     req_criteria r \<noteq> [] \<and>
     (\<forall>c \<in> set (req_criteria r). \<exists>e. find (\<lambda>e. ef_criterion e = cr_id c) (rev effects) = Some e \<and>
        target_met (cr_direction c) (ef_treatment_mean e) (cr_target c)) \<and>
     (\<forall>g \<in> set (req_guardrails r). \<exists>v. guard_evidence effects checks g = Some v \<and>
        apply_operator v (gr_operator g) (gr_threshold g))"
proof -
  have "evaluate_targets r effects = [] \<longleftrightarrow> req_criteria r = []"
    by (simp add: evaluate_targets_def Let_def)
  then show ?thesis
    by (auto simp: decide_attributed guardrails_pass_iff targets_met_iff)
qed

theorem keep_rests_on_evidence_witness:
  "let r = demo_request\<lparr>req_guardrails := [\<lparr>gr_id = ''g'', gr_metric = ''unit_command_result'',
          gr_operator = Eq, gr_threshold = 0, gr_unit = ''exit_code''\<rparr>]\<rparr>;
       effects = [\<lparr>ef_criterion = ''latency'', ef_metric = ''p95'', ef_baseline_mean = 120, ef_treatment_mean = 90, ef_absolute = -30, ef_relative = Some (-1/4), ef_count = 1\<rparr>];
       checks = [\<lparr>ck_command = ''pytest'', ck_kind = UnitCheck, ck_exit = 0, ck_passed = True,
          ck_tail = [], ck_coverage = None\<rparr>]
   in ds_outcome (decide (evaluate_guardrails r effects checks) (Some (attribute ''p1'' (evaluate_targets r effects)))) = KEEP \<and>
      ds_outcome (decide (evaluate_guardrails r effects []) (Some (attribute ''p1'' (evaluate_targets r effects)))) \<noteq> KEEP"
  unfolding Let_def keep_rests_on_evidence
  by (simp add: demo_request_def guard_evidence_def)

text \<open>A case is marked REVERT only after its rollback was verified: when S06.60 has run on a
  REVERT and S06.70 lets the outcome stand, the original repository was either not a git checkout,
  or \<open>git status --porcelain\<close> on it succeeded and reported nothing. Otherwise S06.70 turns the
  outcome into ESCALATE.\<close>

theorem revert_only_after_verified_rollback:
  assumes "handle_s06_60 sha clock tools st ports w = (Inr ex, w1)" and "get_outcome st = Some REVERT"
    and "map_of (ex_updates ex) ''s06_rollback'' = Some v" and "get_outcome st' = Some REVERT"
    and "st' ''s06_rollback'' = Some v" and "handle_s06_70 st' ports w2 = (Inr ex', w3)"
  shows "\<exists>sref snapshot. require_ref st ''SourceSnapshot'' = Inr sref \<and>
     fst (read_model ports st sref decode_snapshot w) = Inr snapshot \<and>
     (sn_revision snapshot \<in> {None, Some []} \<or>
      (\<exists>w3 w4. git tools (sn_path snapshot) [''status'', ''--porcelain''] w3 = (Inr (Some []), w4)) \<or>
      (\<exists>d. map_of (ex_updates ex') ''s06_decision'' = Some (VDecision d) \<and> ds_outcome d = ESCALATE))"
proof -
  have ex': "ex' = cont [(''s06_decision'', if \<not> rollback_verified st'
       then VDecision \<lparr>ds_outcome = ESCALATE, ds_rationale = ''REVERT was decided but rollback verification failed''\<rparr>
       else case get_decision st' of None \<Rightarrow> VNone | Some d \<Rightarrow> VDecision d)]"
    using assms(4,6) by (simp add: handle_s06_70_def)
  obtain sref snapshot u w4 w5 where
    r: "require_ref st ''SourceSnapshot'' = Inr sref"
      "fst (read_model ports st sref decode_snapshot w) = Inr snapshot"
    and u: "(if sn_revision snapshot \<notin> {None, Some []}
          then bindI (git tools (sn_path snapshot) [''status'', ''--porcelain'']) (\<lambda>status. retI (status = Some []))
          else retI True) w4 = (Inr u, w5)"
    and up: "map_of (ex_updates ex) ''s06_rollback'' = Some (VRollback True u)"
    using s06_60_Inr[OF assms(1,2)] .
  have "rollback_verified st' = u" using assms(3,5) up by (auto simp: rollback_verified_def)
  moreover have "u \<Longrightarrow> sn_revision snapshot \<in> {None, Some []} \<or>
        (\<exists>w3 w4. git tools (sn_path snapshot) [''status'', ''--porcelain''] w3 = (Inr (Some []), w4))"
    using u by (auto split: if_splits elim!: bindI_result_Inr) blast
  ultimately have "sn_revision snapshot \<in> {None, Some []} \<or>
      (\<exists>w3 w4. git tools (sn_path snapshot) [''status'', ''--porcelain''] w3 = (Inr (Some []), w4)) \<or>
      (\<exists>d. map_of (ex_updates ex') ''s06_decision'' = Some (VDecision d) \<and> ds_outcome d = ESCALATE)"
    unfolding ex' by (cases u) (auto simp: cont_def)
  with r show ?thesis by blast
qed

theorem revert_only_after_verified_rollback_witness:
  "\<exists>ex w1. handle_s06_60 (\<lambda>_. rep_digest CHR ''a'') w_time
      \<lparr>tl_run = \<lambda>_ _ w. (Exited 0 '' M a.py'', w), tl_mkdtemp = retI ''/tmp/x'', tl_write = \<lambda>_ _. retI (), tl_rmtree = \<lambda>_ w. w\<rparr>
      (demo_s06 REVERT) (demo_ports None) demo_world = (Inr ex, w1) \<and>
    (\<exists>ex'. handle_s06_70 ((demo_s06 REVERT)(''s06_rollback'' := map_of (ex_updates ex) ''s06_rollback'')) (demo_ports None) w1 =
         (Inr ex', w1) \<and>
      (\<exists>d. map_of (ex_updates ex') ''s06_decision'' = Some (VDecision d) \<and> ds_outcome d = ESCALATE))"
proof -
  let ?sha = "\<lambda>_ :: blob. rep_digest CHR ''a''"
  let ?tools = "\<lparr>tl_run = \<lambda>_ _ w. (Exited 0 '' M a.py'', w), tl_mkdtemp = retI ''/tmp/x'', tl_write = \<lambda>_ _. retI (), tl_rmtree = \<lambda>_ w. w\<rparr> :: world tools"
  let ?st = "demo_s06 REVERT" and ?p = "demo_ports None"
  have g: "git ?tools c a w = (Inr (Some ''M a.py''), w)" for c a w
    by (simp add: git_def strip_def is_space_def)
  have d: "decode_snapshot (BSnapshot s) = Inr s" for s by (simp add: decode_snapshot_def)
  let ?ref = "demo_ref ''RollbackReport'' (stage_artifact_id ''c'' (''S06.60'' @ ''-p1-pass0'') ''RollbackReport'')"
  let ?ex = "cont [(''artifact_refs'', VRefs [?ref]), (''s06_rollback'', VRollback True False)]"
  have h: "handle_s06_60 ?sha w_time ?tools ?st ?p demo_world = (Inr ?ex, demo_world)"
    by (simp add: handle_s06_60_def bindI_def g d demo_env_def demo_seal demo_digest_valid)
  let ?st' = "?st(''s06_rollback'' := map_of (ex_updates ?ex) ''s06_rollback'')"
  have o: "get_outcome ?st' = Some REVERT"
    by (simp add: get_outcome_def get_decision_def demo_s06_def)
  obtain ex' where h': "handle_s06_70 ?st' ?p demo_world = (Inr ex', demo_world)"
    by (simp add: handle_s06_70_def)
  have m: "map_of (ex_updates ?ex) ''s06_rollback'' = Some (VRollback True False)" by (simp add: cont_def)
  have s: "?st' ''s06_rollback'' = Some (VRollback True False)" by (simp add: cont_def)
  have "\<not> (\<exists>w3 w4. git ?tools c a w3 = (Inr (Some []), w4))" for c a by (simp add: g)
  moreover have "fst (read_model ?p ?st (demo_ref ''SourceSnapshot'' ''s'') decode_snapshot demo_world) =
      Inr \<lparr>sn_path = ''/repo'', sn_revision = Some ''abc'', sn_files = []\<rparr>"
    by (simp add: demo_env_def d)
  ultimately have "\<exists>d. map_of (ex_updates ex') ''s06_decision'' = Some (VDecision d) \<and> ds_outcome d = ESCALATE"
    using revert_only_after_verified_rollback[OF h _ m o s h'] by auto
  with h h' show ?thesis by blast
qed

text \<open>Sealing a decision has exactly the consequences its outcome asks for: FIX_ONE_PART raises
  the shared repair counter by one, REVERT adds the selected strategy of the current pass to the
  excluded ones and drops none, and no other outcome touches either.\<close>

theorem decision_has_its_consequences:
  assumes "handle_s06_80 sha clock st ports w = (Inr ex, w')"
  shows "map_of (ex_updates ex) ''s03_revision_attempts'' =
      (if get_outcome st = Some FIX_ONE_PART then Some (VInt (pass_number st + 1)) else None) \<and>
    (if get_outcome st = Some REVERT
     then \<exists>sref selected w1 ids. require_stage_ref st (''S01.90-pass'' @ str_nat (s01_pass_number st)) ''SelectedSolution'' = Inr sref \<and>
        fst (read_model ports st sref decode_selected w1) = Inr selected \<and>
        map_of (ex_updates ex) ''s01_excluded_strategy_ids'' = Some (VStrs ids) \<and> sorted ids \<and> distinct ids \<and>
        set ids = insert (sel_strategy selected) (set (get_strs st ''s01_excluded_strategy_ids''))
     else map_of (ex_updates ex) ''s01_excluded_strategy_ids'' = None)"
proof -
  let ?out = "case get_outcome st of None \<Rightarrow> ESCALATE | Some x \<Rightarrow> x"
  from s06_80_Inr[OF assms] obtain ref extra w1 where
    c: "decision_consequences st ports ?out w1 = (Inr extra, w')"
    and ex: "ex = cont ([(''artifact_refs'', VRefs [ref]), (''s06_decision'', VDecision
       \<lparr>ds_outcome = ?out, ds_rationale = (case get_decision st of None \<Rightarrow> [] | Some d \<Rightarrow> ds_rationale d)\<rparr>)] @ extra)" .
  note u = decision_consequences_Inr[OF c]
  have o: "?out = FIX_ONE_PART \<longleftrightarrow> get_outcome st = Some FIX_ONE_PART" "?out = REVERT \<longleftrightarrow> get_outcome st = Some REVERT"
    by (auto split: option.splits)
  have l: "map_of (ex_updates ex) k = map_of extra k"
    if "k \<in> {''s03_revision_attempts'', ''s01_excluded_strategy_ids''}" for k
    using that by (auto simp: ex cont_def)
  show ?thesis
  proof (cases "get_outcome st = Some REVERT")
    case True
    with u o obtain sref selected where
      "require_stage_ref st (''S01.90-pass'' @ str_nat (s01_pass_number st)) ''SelectedSolution'' = Inr sref"
      "fst (read_model ports st sref decode_selected w1) = Inr selected"
      "map_of extra ''s01_excluded_strategy_ids'' =
        Some (VStrs (sorted_set (sel_strategy selected # get_strs st ''s01_excluded_strategy_ids'')))"
      by (auto split: if_splits)
    moreover have "sorted (sorted_set (x # xs))" "distinct (sorted_set (x # xs))"
      "set (sorted_set (x # xs)) = insert x (set xs)" for x :: string and xs
      by (simp_all add: sorted_set_def del: remdups.simps)
    ultimately show ?thesis using True u o l by (simp del: set_sort) blast
  next
    case False
    then show ?thesis using u o l by (simp split: if_splits)
  qed
qed

theorem decision_has_its_consequences_witness:
  "\<exists>ex. handle_s06_80 (\<lambda>_. rep_digest CHR ''a'') w_time (demo_s06 REVERT) (demo_ports None) demo_world = (Inr ex, demo_world) \<and>
     (\<exists>ids. map_of (ex_updates ex) ''s01_excluded_strategy_ids'' = Some (VStrs ids) \<and> set ids = {''cache''})"
proof -
  let ?sha = "\<lambda>_ :: blob. rep_digest CHR ''a''" and ?st = "demo_s06 REVERT" and ?p = "demo_ports None"
  have sel: "decode_selected (BSelected demo_selected) = Inr demo_selected"
    by (simp add: decode_selected_def demo_selected_def valid_selected_def demo_digest_valid)
  have rd: "fst (read_model ?p ?st r decode_selected w) = Inr demo_selected"
    if "ref_type r = ''SelectedSolution''" for r w
    using that by (simp add: demo_env_def sel)
  have cons: "decision_consequences ?st ?p REVERT w = (Inr [(''s01_excluded_strategy_ids'', VStrs (sorted_set [''cache'']))], w)" for w
    by (simp add: decision_consequences_def bindI_def demo_env_def sel, simp add: demo_selected_def)
  have att: "get_attribution ?st = Some \<lparr>at_phase = ''p1'', at_class = AllTargetsMet, at_rationale = ''r''\<rparr>"
    "get_decision ?st = Some \<lparr>ds_outcome = REVERT, ds_rationale = ''r''\<rparr>"
    "get_targets ?st \<noteq> []"
    by (simp_all add: get_attribution_def get_decision_def get_targets_def demo_s06_def)
  obtain ex where h: "handle_s06_80 ?sha w_time ?st ?p demo_world = (Inr ex, demo_world)"
    by (simp add: handle_s06_80_def bindI_def att cons demo_seal valid_decision_def demo_digest_valid)
  from decision_has_its_consequences[OF h] show ?thesis
    using h rd by (auto simp: demo_selected_def)
qed

text \<open>The commands of a complete attempt, and those that end it.\<close>

definition worktree_commands :: "string \<Rightarrow> string \<Rightarrow> string \<Rightarrow> string \<Rightarrow> patch_artifact \<Rightarrow> artifact_ref \<Rightarrow>
    (string \<times> string list) list" where
  "worktree_commands repo tmp branch cid patch patch_ref =
     (let wt = tmp @ ''/worktree''; pf = tmp @ ''/change.patch'' in
      [(repo, [''git'', ''worktree'', ''add'', ''-b'', branch, wt, pa_base patch]),
       (wt, [''git'', ''-c'', ''core.autocrlf=true'', ''apply'', ''--check'', pf]),
       (wt, [''git'', ''-c'', ''core.autocrlf=true'', ''apply'', pf]),
       (wt, ''git'' # ''add'' # pa_files patch),
       (wt, [''git'', ''commit'', ''-m'', commit_message cid patch patch_ref]),
       (wt, [''git'', ''rev-parse'', ''HEAD''])])"

definition cleanup_commands :: "string \<Rightarrow> string \<Rightarrow> string \<Rightarrow> bool \<Rightarrow> (string \<times> string list) list" where
  "cleanup_commands repo tmp branch succeeded =
     (repo, [''git'', ''worktree'', ''remove'', ''--force'', tmp @ ''/worktree'']) #
     (if succeeded then [] else [(repo, [''git'', ''branch'', ''-D'', branch])])"

section \<open>Git as an interface\<close>

text \<open>Tools whose git commands are recorded in the order they are run, and ports and temporary files
  that run none.\<close>

locale logged_tools =
  fixes tools :: "'w tools" and log :: "'w \<Rightarrow> (string \<times> string list) list" and ports :: "'w node_ports"
  assumes run_log: "log (snd (tl_run tools cwd args w)) = log w @ [(cwd, args)]"
    and mkdtemp_log: "log (snd (tl_mkdtemp tools w)) = log w"
    and write_log: "log (snd (tl_write tools f s w)) = log w"
    and rmtree_log: "log (tl_rmtree tools d w) = log w"
    and put_log: "log (snd (np_put_json ports t c d k w)) = log w"
    and read_log: "log (snd (np_read ports t r w)) = log w"
begin

definition quiet :: "('w, 'a) io \<Rightarrow> bool" where
  "quiet m \<longleftrightarrow> (\<forall>w. log (snd (m w)) = log w)"

lemma quiet_bindI: "quiet m \<Longrightarrow> (\<And>x. quiet (f x)) \<Longrightarrow> quiet (bindI m f)"
  unfolding quiet_def bindI_def by (auto split: prod.splits sum.splits) (metis snd_conv)+

lemma quiet_pure: "quiet (liftI r)" "quiet (retI x)" "quiet (failI e)"
  by (simp_all add: quiet_def)

lemma quiet_world: "(\<And>v. quiet (g v)) \<Longrightarrow> quiet (\<lambda>w. g w w)"
  by (simp add: quiet_def)

lemma quiet_read_model: "quiet (read_model ports st r d)"
  unfolding read_model_def by (intro quiet_bindI quiet_pure) (simp add: quiet_def read_log)

lemma quiet_seal: "quiet (seal_and_put sha clock ports st node ty ok b)"
  unfolding seal_and_put_def
  by (rule quiet_world[where g = "\<lambda>v. bindI (liftI (phase_stage node st)) (\<lambda>stage.
     bindI (liftI (bindR (stage_envelope st stage ty [] b (clock v))
                     (\<lambda>e. if ok then Inr e else Inl (ValidationError ty)))) (\<lambda>e.
     s06_put_envelope sha ports st e node))"])
    (auto simp: s06_put_envelope_def quiet_def[of "np_put_json _ _ _ _ _"] put_log intro!: quiet_bindI quiet_pure)

lemma quiet_seal_apply: "quiet (seal_apply_result sha clock st ports r)"
  unfolding seal_apply_result_def by (intro quiet_bindI quiet_seal quiet_pure)

lemma quietD: "quiet m \<Longrightarrow> log (snd (m w)) = log w"
  by (simp add: quiet_def)

lemma git_runs:
  obtains out w' where "git tools cwd args w = (Inr out, w')" and "log w' = log w @ [(cwd, ''git'' # args)]"
proof (cases "tl_run tools cwd (''git'' # args) w")
  case (Pair p w')
  then have "log w' = log w @ [(cwd, ''git'' # args)]" using run_log[of cwd "''git'' # args" w] by simp
  with Pair show ?thesis by (cases p) (auto simp: git_def intro: that)
qed

text \<open>A drifted repository: nothing but the check itself is run.\<close>

lemma apply_on_drift:
  assumes "git tools (sn_path snapshot) [''rev-parse'', ''HEAD''] w = (Inr head, w1)" and "head \<noteq> Some (pa_base patch)"
  shows "log (snd (apply_patch_to_real_repo sha clock tools st ports snapshot patch patch_ref approval actor w)) =
     log w @ [(sn_path snapshot, [''git'', ''rev-parse'', ''HEAD''])]"
proof -
  obtain out w' where g: "git tools (sn_path snapshot) [''rev-parse'', ''HEAD''] w = (Inr out, w')"
    "log w' = log w @ [(sn_path snapshot, [''git'', ''rev-parse'', ''HEAD''])]" by (rule git_runs)
  have "apply_patch_to_real_repo sha clock tools st ports snapshot patch patch_ref approval actor w =
      seal_apply_result sha clock st ports (apply_failed patch patch_ref (pa_phase patch)
        ''real repository HEAD no longer matches base_revision; refusing to apply a stale patch'' approval actor) w'"
    using assms g(1) by (simp add: apply_patch_to_real_repo_def Let_def bindI_def)
  with g(2) show ?thesis using quietD[OF quiet_seal_apply] by metis
qed

lemma cleanup_log:
  obtains w' where "cleanup tools repo tmp branch succeeded w = (Inr (), w')"
    and "log w' = log w @ [(repo, [''git'', ''worktree'', ''remove'', ''--force'', tmp @ ''/worktree''])] @
      (if succeeded then [] else [(repo, [''git'', ''branch'', ''-D'', branch])])"
proof -
  obtain o1 w1 where a: "git tools repo [''worktree'', ''remove'', ''--force'', tmp @ ''/worktree''] w = (Inr o1, w1)"
    "log w1 = log w @ [(repo, [''git'', ''worktree'', ''remove'', ''--force'', tmp @ ''/worktree''])]" by (rule git_runs)
  obtain o2 w2 where b: "git tools repo [''branch'', ''-D'', branch] w1 = (Inr o2, w2)"
    "log w2 = log w1 @ [(repo, [''git'', ''branch'', ''-D'', branch])]" by (rule git_runs)
  show ?thesis
  proof (cases succeeded)
    case True
    with a show ?thesis by (intro that[of "tl_rmtree tools tmp w1"]) (simp_all add: cleanup_def bindI_def rmtree_log)
  next
    case False
    with a b show ?thesis by (intro that[of "tl_rmtree tools tmp w2"]) (simp_all add: cleanup_def bindI_def rmtree_log)
  qed
qed

text \<open>\<open>runs m cs\<close>: \<open>m\<close> runs a prefix of the commands \<open>cs\<close>, and all of them when it succeeds.\<close>

definition runs :: "('w, string + string) io \<Rightarrow> (string \<times> string list) list \<Rightarrow> bool" where
  "runs m cs \<longleftrightarrow> (\<forall>w. \<exists>n \<le> length cs. log (snd (m w)) = log w @ take n cs \<and>
     (\<forall>s. fst (m w) = Inr (Inr s) \<longrightarrow> n = length cs))"

lemma runs_step:
  assumes "\<And>s. runs (next s) cs"
  shows "runs (git_step tools cwd args reason next) ((cwd, ''git'' # args) # cs)"
  unfolding runs_def
proof
  fix w
  obtain out w' where g: "git tools cwd args w = (Inr out, w')" "log w' = log w @ [(cwd, ''git'' # args)]"
    by (rule git_runs)
  show "\<exists>n \<le> length ((cwd, ''git'' # args) # cs).
     log (snd (git_step tools cwd args reason next w)) = log w @ take n ((cwd, ''git'' # args) # cs) \<and>
     (\<forall>s. fst (git_step tools cwd args reason next w) = Inr (Inr s) \<longrightarrow> n = length ((cwd, ''git'' # args) # cs))"
  proof (cases out)
    case None
    with g show ?thesis by (intro exI[of _ 1]) (simp add: git_step_def bindI_def)
  next
    case (Some s)
    from assms[of s] obtain n where "n \<le> length cs" "log (snd (next s w')) = log w' @ take n cs"
      "\<forall>s'. fst (next s w') = Inr (Inr s') \<longrightarrow> n = length cs" unfolding runs_def by blast
    with g Some show ?thesis by (intro exI[of _ "Suc n"]) (simp add: git_step_def bindI_def)
  qed
qed

lemma runs_quiet:
  assumes "quiet m" and "\<And>x. runs (f x) cs"
  shows "runs (bindI m f) cs"
  unfolding runs_def
proof
  fix w
  obtain r w' where m: "m w = (r, w')" by (cases "m w")
  with quietD[OF assms(1), of w] have l: "log w' = log w" by simp
  show "\<exists>n \<le> length cs. log (snd (bindI m f w)) = log w @ take n cs \<and>
     (\<forall>s. fst (bindI m f w) = Inr (Inr s) \<longrightarrow> n = length cs)"
  proof (cases r)
    case (Inl e)
    with m l show ?thesis by (intro exI[of _ 0]) (simp add: bindI_def)
  next
    case (Inr x)
    from assms(2)[of x] have "\<exists>n \<le> length cs. log (snd (f x w')) = log w' @ take n cs \<and>
        (\<forall>s. fst (f x w') = Inr (Inr s) \<longrightarrow> n = length cs)" unfolding runs_def by blast
    with m l Inr show ?thesis by (simp add: bindI_def)
  qed
qed

lemma runs_done: "runs (retI (Inr s)) []"
  by (simp add: runs_def)

lemma quiet_write: "quiet (tl_write tools f s)"
  by (simp add: quiet_def write_log)

lemma commit_runs: "runs (commit_in_worktree tools repo tmp branch cid patch patch_ref)
    (worktree_commands repo tmp branch cid patch patch_ref)"
  unfolding commit_in_worktree_def worktree_commands_def Let_def append_Cons append_Nil
  by (intro runs_step runs_quiet quiet_write runs_done)

text \<open>An attempt on an undrifted repository: the commands run, and what is reported.\<close>

lemma apply_attempt:
  assumes "git tools (sn_path snapshot) [''rev-parse'', ''HEAD''] w = (Inr (Some (pa_base patch)), w1)"
    and "required_state_str st ''case_id'' = Inr cid" and "tl_mkdtemp tools w1 = (Inr tmp, w2)"
  shows "\<exists>n succeeded. n \<le> length (worktree_commands (sn_path snapshot) tmp (branch_name cid patch) cid patch patch_ref) \<and>
     (succeeded \<longrightarrow> n = length (worktree_commands (sn_path snapshot) tmp (branch_name cid patch) cid patch patch_ref)) \<and>
     log (snd (apply_patch_to_real_repo sha clock tools st ports snapshot patch patch_ref approval actor w)) =
       log w @ [(sn_path snapshot, [''git'', ''rev-parse'', ''HEAD''])] @
       take n (worktree_commands (sn_path snapshot) tmp (branch_name cid patch) cid patch patch_ref) @
       cleanup_commands (sn_path snapshot) tmp (branch_name cid patch) succeeded \<and>
     (\<forall>ex. fst (apply_patch_to_real_repo sha clock tools st ports snapshot patch patch_ref approval actor w) = Inr ex \<longrightarrow>
        map_of (ex_updates ex) ''s06_apply'' = Some (VApply succeeded True))"
proof -
  let ?repo = "sn_path snapshot" and ?b = "branch_name cid patch"
  let ?m = "commit_in_worktree tools ?repo tmp ?b cid patch patch_ref"
  let ?cs = "worktree_commands ?repo tmp ?b cid patch patch_ref"
  let ?k = "\<lambda>out. seal_apply_result sha clock st ports
             (case out of
                Inl reason \<Rightarrow> apply_failed patch patch_ref (pa_phase patch) reason approval actor
              | Inr sha1 \<Rightarrow> apply_done patch patch_ref ?b sha1 approval actor)"
  have l1: "log w1 = log w @ [(?repo, [''git'', ''rev-parse'', ''HEAD''])]"
    using git_runs[of ?repo "[''rev-parse'', ''HEAD'']" w] assms(1) by auto
  have l2: "log w2 = log w1" using mkdtemp_log[of w1] assms(3) by simp
  have ap: "apply_patch_to_real_repo sha clock tools st ports snapshot patch patch_ref approval actor w =
      try_finally ?m ?k (cleanup tools ?repo tmp ?b) w2"
    using assms by (simp add: apply_patch_to_real_repo_def Let_def bindI_def)
  obtain r w3 where m: "?m w2 = (r, w3)" by (cases "?m w2")
  from commit_runs[of ?repo tmp ?b cid patch patch_ref] m obtain n where n: "n \<le> length ?cs"
    "log w3 = log w2 @ take n ?cs" "\<And>s. r = Inr (Inr s) \<Longrightarrow> n = length ?cs"
    unfolding runs_def by (metis fst_conv snd_conv)
  show ?thesis
  proof (cases r)
    case (Inl e)
    obtain w4 where c: "cleanup tools ?repo tmp ?b False w3 = (Inr (), w4)"
      "log w4 = log w3 @ [(?repo, [''git'', ''worktree'', ''remove'', ''--force'', tmp @ ''/worktree''])] @
        (if False then [] else [(?repo, [''git'', ''branch'', ''-D'', ?b])])" by (rule cleanup_log)
    then show ?thesis
      using Inl m n l1 l2 unfolding ap
      by (intro exI[of _ n] exI[of _ False]) (simp add: try_finally_def cleanup_commands_def)
  next
    case (Inr out)
    let ?s = "\<exists>sha1. out = Inr sha1"
    obtain r' w4 where k: "?k out w3 = (r', w4)" by (cases "?k out w3")
    then have l4: "log w4 = log w3" using quietD[OF quiet_seal_apply] by (metis snd_conv)
    obtain w5 where c: "cleanup tools ?repo tmp ?b ?s w4 = (Inr (), w5)"
      "log w5 = log w4 @ [(?repo, [''git'', ''worktree'', ''remove'', ''--force'', tmp @ ''/worktree''])] @
        (if ?s then [] else [(?repo, [''git'', ''branch'', ''-D'', ?b])])" by (rule cleanup_log)
    have upd: "map_of (ex_updates ex) ''s06_apply'' = Some (VApply ?s True)" if "r' = Inr ex" for ex
      using k that by (cases out)
        (auto simp: seal_apply_result_def cont_def apply_failed_def apply_done_def elim!: bindI_result_Inr)
    have t: "try_finally ?m ?k (cleanup tools ?repo tmp ?b) w2 = (r', w5)"
      using Inr m k c(1) by (simp add: try_finally_def)
    show ?thesis
      unfolding ap t using Inr n l1 l2 l4 c(2) upd
      by (intro exI[of _ n] exI[of _ "?s"]) (auto simp: cleanup_commands_def)
  qed
qed

text \<open>A handler run that leaves no command in the log.\<close>

lemma quiet_policy_part:
  assumes "np_policy ports = Some evaluate" and "\<And>q. quiet (evaluate q)"
    and "log (snd (handle_s06_90 sha clock tools st ports w)) \<noteq> log w"
  shows "get_outcome st = Some KEEP \<and>
    ((\<exists>c. get_resume st = Inr (Some c) \<and> rc_decision c = ''approve'') \<or>
     (\<exists>q w1 v w2. pq_type q = ''apply_to_real_repo'' \<and> evaluate q w1 = (Inr v, w2) \<and> pd_allowed v \<and> pd_decision v = ''allow''))"
proof (rule ccontr)
  assume no: "\<not> ?thesis"
  have "quiet (handle_s06_90 sha clock tools st ports)"
  proof (cases "get_outcome st = Some KEEP")
    case False
    then show ?thesis by (simp add: handle_s06_90_def quiet_pure)
  next
    case True
    have decided: "quiet (bindI (evaluate q) (\<lambda>verdict.
        if \<not> pd_allowed verdict then seal_apply_result sha clock st ports (f verdict)
        else if pd_decision verdict = ''allow'' then g else h))"
      if "quiet h" and "pq_type q = ''apply_to_real_repo''" for q f g and h :: "('w, node_execution) io"
    proof (unfold quiet_def, rule allI)
      fix w
      obtain r w' where e: "evaluate q w = (r, w')" by (cases "evaluate q w")
      have l: "log w' = log w" using assms(2)[of q] e unfolding quiet_def by (metis snd_conv)
      show "log (snd (bindI (evaluate q) (\<lambda>verdict.
        if \<not> pd_allowed verdict then seal_apply_result sha clock st ports (f verdict)
        else if pd_decision verdict = ''allow'' then g else h) w)) = log w"
      proof (cases r)
        case (Inr v)
        then have "\<not> (pd_allowed v \<and> pd_decision v = ''allow'')" using no True e that(2) by blast
        then show ?thesis using Inr e l quietD[OF quiet_seal_apply] quietD[OF that(1)] by (auto simp: bindI_def)
      qed (use e l in \<open>simp add: bindI_def\<close>)
    qed
    have resumed: "rc_decision c \<noteq> ''approve''" if "get_resume st = Inr (Some c)" for c
      using no True that by blast
    have halt: "quiet (\<lambda>w. bindI (liftI (apply_interrupt st d (clock w))) (\<lambda>i. retI (x i)) w)" for d and x :: "interrupt_envelope \<Rightarrow> node_execution"
      by (rule quiet_world[where g = "\<lambda>w. bindI (liftI (apply_interrupt st d (clock w))) (\<lambda>i. retI (x i))"])
        (intro quiet_bindI quiet_pure)
    have res: "quiet (bindI (liftI (get_resume st)) F)"
      if "\<And>x. get_resume st = Inr x \<Longrightarrow> quiet (F x)" for F :: "resume_command option \<Rightarrow> ('w, node_execution) io"
      using that by (cases "get_resume st") (simp_all add: quiet_pure)
    have req: "quiet (bindI (liftI (apply_policy_request st phase patch)) F)"
      if "\<And>q. pq_type q = ''apply_to_real_repo'' \<Longrightarrow> quiet (F q)" for phase patch and F :: "policy_request \<Rightarrow> ('w, node_execution) io"
      using that by (cases "apply_policy_request st phase patch") (auto simp: quiet_pure apply_policy_request_def bindR_Inr_iff)
    show ?thesis
      unfolding handle_s06_90_def assms(1) option.case using True
      by (auto intro!: req quiet_bindI quiet_pure quiet_read_model res quiet_seal_apply decided halt
          dest: resumed split: option.splits)
  qed
  with assms(3) show False by (simp add: quiet_def)
qed

end

lemma read_model_policy [simp]: "read_model (ports\<lparr>np_policy := x\<rparr>) st ref d = read_model ports st ref d"
  by (simp add: read_model_def)

lemma seal_apply_policy [simp]:
  "seal_apply_result sha clock st (ports\<lparr>np_policy := x\<rparr>) a = seal_apply_result sha clock st ports a"
  by (simp add: seal_apply_result_def seal_and_put_def s06_put_envelope_def)

lemmas policy_irrelevant = read_model_policy seal_apply_policy

section \<open>Git in the production world\<close>

text \<open>Every git command is answered by a function that may depend on all commands before it.\<close>

definition world_tools :: "((string \<times> string list) list \<Rightarrow> string \<Rightarrow> string list \<Rightarrow> proc_outcome) \<Rightarrow> string \<Rightarrow> world tools" where
  "world_tools answer tmp = \<lparr>tl_run = \<lambda>cwd args w. (answer (w_git w) cwd args, w\<lparr>w_git := w_git w @ [(cwd, args)]\<rparr>),
     tl_mkdtemp = retI tmp, tl_write = \<lambda>_ _. retI (), tl_rmtree = \<lambda>_ w. w\<rparr>"

interpretation lt: logged_tools "world_tools answer tmp" w_git "platform_ports policy" for answer tmp policy
  by unfold_locales
    (simp_all add: world_tools_def platform_ports_def world_put_def world_read_def on_store_def split: prod.splits)

section \<open>Properties of applying a change\<close>

text \<open>C24. A drifted repository is never written: when the repository's HEAD cannot be read or is not
  the patch's base revision, reading HEAD is the only git command that is run, whatever git would
  answer to others, and the attempt is reported as not applied.\<close>

theorem drifted_repository_is_not_written:
  assumes "git (world_tools answer tmp) (sn_path snapshot) [''rev-parse'', ''HEAD''] w = (Inr head, w1)"
    and "head \<noteq> Some (pa_base patch)"
    and "apply_patch_to_real_repo sha clock (world_tools answer tmp) st (platform_ports policy) snapshot patch
      patch_ref approval actor w = (r, w')"
  shows "w_git w' = w_git w @ [(sn_path snapshot, [''git'', ''rev-parse'', ''HEAD''])] \<and>
    (\<forall>ex. r = Inr ex \<longrightarrow> map_of (ex_updates ex) ''s06_apply'' = Some (VApply False True))"
proof -
  have "seal_apply_result sha clock st (platform_ports policy) (apply_failed patch patch_ref (pa_phase patch)
      ''real repository HEAD no longer matches base_revision; refusing to apply a stale patch'' approval actor) w1 = (r, w')"
    using assms by (simp add: apply_patch_to_real_repo_def Let_def bindI_def)
  then have "r = Inr ex \<Longrightarrow> map_of (ex_updates ex) ''s06_apply'' = Some (VApply False True)" for ex
    by (auto simp: seal_apply_result_def cont_def apply_failed_def elim!: bindI_result_Inr)
  moreover have "w_git w' = w_git w @ [(sn_path snapshot, [''git'', ''rev-parse'', ''HEAD''])]"
    using lt.apply_on_drift[OF assms(1,2), of sha clock st policy patch_ref approval actor] assms(3) by simp
  ultimately show ?thesis by blast
qed

theorem drifted_repository_is_not_written_witness:
  "w_git (snd (apply_patch_to_real_repo (\<lambda>_. rep_digest CHR ''a'') w_time
      (world_tools (\<lambda>_ _ _. Exited 0 ''moved'') ''/tmp/x'') (demo_s06 KEEP) (platform_ports None)
      \<lparr>sn_path = ''/repo'', sn_revision = Some ''abc'', sn_files = []\<rparr> demo_patch (demo_ref ''PatchArtifact'' ''p'') ''approved'' None demo_world)) =
     [(''/repo'', [''git'', ''rev-parse'', ''HEAD''])]"
proof -
  let ?t = "world_tools (\<lambda>_ _ _. Exited 0 ''moved'') ''/tmp/x''" and ?s = "\<lparr>sn_path = ''/repo'', sn_revision = Some ''abc'', sn_files = []\<rparr>"
  obtain w1 where g: "git ?t (sn_path ?s) [''rev-parse'', ''HEAD''] demo_world = (Inr (Some ''moved''), w1)"
    by (simp add: git_def world_tools_def strip_def is_space_def)
  have n: "Some ''moved'' \<noteq> Some (pa_base demo_patch)" by (simp add: demo_patch_def)
  from drifted_repository_is_not_written[OF g n surjective_pairing] show ?thesis
    by (simp add: demo_world_def)
qed

text \<open>An attempt to apply a patch leaves something behind only when it succeeded: whatever git
  answers, the commands run are a prefix of the fixed sequence (worktree with a new branch, check,
  apply, add, commit, read the commit), the worktree is always removed, and the change is reported
  as applied exactly when the whole sequence went through; otherwise the branch is deleted.\<close>

theorem apply_attempt_cleans_up:
  assumes "git (world_tools answer tmp) (sn_path snapshot) [''rev-parse'', ''HEAD''] w = (Inr (Some (pa_base patch)), w1)"
    and "required_state_str st ''case_id'' = Inr cid"
    and "apply_patch_to_real_repo sha clock (world_tools answer tmp) st (platform_ports policy) snapshot patch
      patch_ref approval actor w = (r, w')"
  shows "\<exists>n succeeded. (succeeded \<longrightarrow> n = 6) \<and>
     w_git w' = w_git w @ [(sn_path snapshot, [''git'', ''rev-parse'', ''HEAD''])] @
       take n (worktree_commands (sn_path snapshot) tmp (branch_name cid patch) cid patch patch_ref) @
       cleanup_commands (sn_path snapshot) tmp (branch_name cid patch) succeeded \<and>
     (\<forall>ex. r = Inr ex \<longrightarrow> map_of (ex_updates ex) ''s06_apply'' = Some (VApply succeeded True))"
proof -
  have mk: "tl_mkdtemp (world_tools answer tmp) w1 = (Inr tmp, w1)" by (simp add: world_tools_def)
  have l: "length (worktree_commands (sn_path snapshot) tmp (branch_name cid patch) cid patch patch_ref) = 6"
    by (simp add: worktree_commands_def Let_def)
  from lt.apply_attempt[OF assms(1,2) mk, of patch_ref sha clock policy approval actor] show ?thesis
    unfolding assms(3) l by auto
qed

theorem apply_attempt_cleans_up_witness:
  "let answer = \<lambda>_ _ args. if ''commit'' \<in> set args then Exited 1 [] else Exited 0 ''abc'';
       (r, w') = apply_patch_to_real_repo (\<lambda>_. rep_digest CHR ''a'') w_time (world_tools answer ''/tmp/x'') (demo_s06 KEEP)
          (platform_ports None) \<lparr>sn_path = ''/repo'', sn_revision = Some ''abc'', sn_files = []\<rparr> demo_patch
          (demo_ref ''PatchArtifact'' ''p'') ''approved'' None demo_world
   in \<exists>n succeeded. (succeeded \<longrightarrow> n = 6) \<and> w_git w' = [(''/repo'', [''git'', ''rev-parse'', ''HEAD''])] @
        take n (worktree_commands ''/repo'' ''/tmp/x'' ''optimizer/c-p1'' ''c'' demo_patch (demo_ref ''PatchArtifact'' ''p'')) @
        cleanup_commands ''/repo'' ''/tmp/x'' ''optimizer/c-p1'' succeeded"
proof -
  let ?a = "\<lambda>_ _ args. if ''commit'' \<in> set args then Exited 1 [] else Exited 0 ''abc''"
  let ?s = "\<lparr>sn_path = ''/repo'', sn_revision = Some ''abc'', sn_files = []\<rparr>"
  let ?ap = "apply_patch_to_real_repo (\<lambda>_. rep_digest CHR ''a'') w_time (world_tools ?a ''/tmp/x'') (demo_s06 KEEP)
     (platform_ports None) ?s demo_patch (demo_ref ''PatchArtifact'' ''p'') ''approved'' None demo_world"
  obtain r w' where ap: "?ap = (r, w')" by (cases ?ap)
  obtain w1 where g: "git (world_tools ?a ''/tmp/x'') (sn_path ?s) [''rev-parse'', ''HEAD''] demo_world =
      (Inr (Some (pa_base demo_patch)), w1)"
    by (simp add: git_def world_tools_def strip_def is_space_def demo_patch_def)
  have c: "required_state_str (demo_s06 KEEP) ''case_id'' = Inr ''c''" by (simp add: required_state_str_def)
  have b: "branch_name ''c'' demo_patch = ''optimizer/c-p1''" by (simp add: branch_name_def demo_patch_def)
  have e: "w_git demo_world = []" by (simp add: demo_world_def)
  from apply_attempt_cleans_up[OF g c ap] show ?thesis
    unfolding Let_def ap b e by auto
qed




definition earlier_approval :: resume_command where
  "earlier_approval = \<lparr>rc_id = ''r'', rc_tenant = ''t'', rc_case = ''c'', rc_thread = ''th'',
     rc_interrupt = ''c-S02-PLAN'', rc_actor = ''ann'', rc_roles = [''owner''], rc_decision = ''approve'',
     rc_digest = ''plan'', rc_policy = ''s02'', rc_issued = Aware 0\<rparr>"


end
