(* ===== verification/Catalog.thy ===== *)
theory Catalog
  imports Policy_Decision
begin

text \<open>
  The node catalogue (\<open>orchestration/catalog.py\<close>): the 99 business task ids of the two lanes, the
  64 ids of the shared workflow, the fan-outs, the integrity check run at import, and the node
  contracts every handler package registers its ids with (\<open>_spec\<close> and \<open>_ROUTE_OVERRIDES\<close> of each
  \<open>application/*_handlers\<close>). The routes a contract allows are what \<open>Node_Runtime\<close> checks a result
  against and what \<open>Graphs\<close> compares the edges with.
\<close>

section \<open>Task ids\<close>

definition a1_node_ids :: "string list" where
  "a1_node_ids =
    [''A1.10'', ''A1.20'', ''A1.30'', ''A1.40'', ''A1.50'', ''A1.60'', ''A1.61'', ''A1.62'', ''A1.63'',
     ''A1.70'', ''A1.71'', ''A1.80'', ''A1.90'', ''A1.95'']"

definition a2_node_ids :: "string list" where
  "a2_node_ids =
    [''A2.10'', ''A2.20'', ''A2.30'', ''A2.31'', ''A2.40'', ''A2.41'', ''A2.50'', ''A2.60'', ''A2.61'',
     ''A2.62'', ''A2.63'', ''A2.64'', ''A2.70'', ''A2.71'', ''A2.80'', ''A2.90'', ''A2.91'', ''A2.95'']"

definition a3_node_ids :: "string list" where
  "a3_node_ids =
    [''A3.10'', ''A3.11'', ''A3.20'', ''A3.21'', ''A3.30'', ''A3.31'', ''A3.32'', ''A3.33'', ''A3.40'',
     ''A3.41'', ''A3.50'', ''A3.51'', ''A3.60'', ''A3.61'', ''A3.62'', ''A3.63'', ''A3.64'', ''A3.70'',
     ''A3.80'', ''A3.81'', ''A3.82'', ''A3.90'']"

definition b1_node_ids :: "string list" where
  "b1_node_ids =
    [''B1.10'', ''B1.20'', ''B1.21'', ''B1.30'', ''B1.31'', ''B1.32'', ''B1.33'', ''B1.34'', ''B1.35'',
     ''B1.40'', ''B1.41'', ''B1.50'', ''B1.51'', ''B1.52'', ''B1.53'', ''B1.60'', ''B1.61'', ''B1.62'',
     ''B1.70'', ''B1.71'', ''B1.80'', ''B1.81'', ''B1.90'', ''B1.91'', ''B1.95'', ''B1.96'']"

definition b2_node_ids :: "string list" where
  "b2_node_ids =
    [''B2.10'', ''B2.20'', ''B2.21'', ''B2.22'', ''B2.30'', ''B2.31'', ''B2.40'', ''B2.41'', ''B2.50'',
     ''B2.51'', ''B2.52'', ''B2.60'']"

definition c0_node_ids :: "string list" where
  "c0_node_ids =
    [''C0.10'', ''C0.20'', ''C0.30'', ''C0.40'', ''C0.50'', ''C0.60'', ''C0.70'']"

definition s01_node_ids :: "string list" where
  "s01_node_ids =
    [''S01.10'', ''S01.20'', ''S01.30'', ''S01.40'', ''S01.50'', ''S01.60'', ''S01.70'', ''S01.80'', ''S01.90'']"

definition s02_node_ids :: "string list" where
  "s02_node_ids =
    [''S02.10'', ''S02.20'', ''S02.30'', ''S02.40'', ''S02.50'', ''S02.60'', ''S02.70'', ''S02.80'', ''S02.81'',
     ''S02.90'']"

definition s03_node_ids :: "string list" where
  "s03_node_ids =
    [''S03.10'', ''S03.20'', ''S03.30'', ''S03.40'', ''S03.50'', ''S03.60'', ''S03.70'', ''S03.80'', ''S03.90'']"

definition s04_node_ids :: "string list" where
  "s04_node_ids =
    [''S04.10'', ''S04.20'', ''S04.30'', ''S04.40'', ''S04.50'', ''S04.60'', ''S04.70'', ''S04.80'', ''S04.90'']"

definition s05_node_ids :: "string list" where
  "s05_node_ids =
    [''S05.10'', ''S05.20'', ''S05.30'', ''S05.40'', ''S05.50'', ''S05.60'', ''S05.70'', ''S05.80'', ''S05.90'']"

definition s06_node_ids :: "string list" where
  "s06_node_ids =
    [''S06.10'', ''S06.20'', ''S06.30'', ''S06.40'', ''S06.50'', ''S06.60'', ''S06.70'', ''S06.80'', ''S06.90'']"

definition s07_node_ids :: "string list" where
  "s07_node_ids =
    [''S07.10'', ''S07.20'', ''S07.30'', ''S07.40'', ''S07.50'', ''S07.60'', ''S07.70'', ''S07.80'', ''S07.90'']"

definition business_groups :: "string list list" where
  "business_groups = [a1_node_ids, a2_node_ids, a3_node_ids, b1_node_ids, b2_node_ids, c0_node_ids]"

definition shared_groups :: "string list list" where
  "shared_groups = [s01_node_ids, s02_node_ids, s03_node_ids, s04_node_ids, s05_node_ids, s06_node_ids, s07_node_ids]"

definition all_business_node_ids :: "string set" where
  "all_business_node_ids = set (concat business_groups)"

definition shared_workflow_node_ids :: "string set" where
  "shared_workflow_node_ids = set (concat shared_groups)"

record fan_out =
  fo_source :: string
  fo_branches :: "string list"
  fo_join :: string

definition a2_fan_out :: fan_out where
  "a2_fan_out = \<lparr>fo_source = ''A2.50'', fo_branches = [''A2.60'', ''A2.61'', ''A2.62'', ''A2.63'', ''A2.64''],
     fo_join = ''A2.70''\<rparr>"

definition a3_fan_out :: fan_out where
  "a3_fan_out = \<lparr>fo_source = ''A3.21'', fo_branches = [''A3.30'', ''A3.31'', ''A3.32'', ''A3.33''], fo_join = ''A3.40''\<rparr>"

definition b1_query_fan_out :: fan_out where
  "b1_query_fan_out = \<lparr>fo_source = ''B1.31'', fo_branches = [''B1.32'', ''B1.33'', ''B1.34'', ''B1.35''],
     fo_join = ''B1.40''\<rparr>"

definition b1_detector_fan_out :: fan_out where
  "b1_detector_fan_out = \<lparr>fo_source = ''B1.41'', fo_branches = [''B1.50'', ''B1.51'', ''B1.52'', ''B1.53''],
     fo_join = ''B1.60''\<rparr>"

definition assert_catalog_integrity :: "string list list \<Rightarrow> nat \<Rightarrow> unit result" where
  "assert_catalog_integrity groups expected =
     (let flattened = concat groups in
      if length flattened \<noteq> card (set flattened)
      then Inl (ValueError ''business node catalog contains duplicate task IDs'')
      else if length flattened \<noteq> expected
      then Inl (ValueError ''business node catalog must contain the expected number of task IDs'')
      else Inr ())"

section \<open>Node contracts of the handler packages\<close>

definition a1_routes :: "string \<Rightarrow> string list" where
  "a1_routes node =
     (if node = ''A1.80'' then [''continue'', ''clarification'', ''rejected'']
      else if node = ''A1.90'' then [''continue'', ''approval'', ''rejected'']
      else [''continue''])"

definition a1_spec :: "string \<Rightarrow> node_spec" where
  "a1_spec node = \<lparr>ns_id = node, ns_version = ''a1-production-v1'',
     ns_effect = IDEMPOTENT_WRITE,
     ns_timeout = 30, ns_attempts = 2, ns_routes = a1_routes node\<rparr>"

definition a2_routes :: "string \<Rightarrow> string list" where
  "a2_routes node =
     (if node = ''A2.10'' then [''continue'', ''rejected'']
      else if node = ''A2.31'' then [''continue'', ''approval'']
      else if node = ''A2.40'' then [''continue'', ''missing'']
      else if node = ''A2.50'' then [''continue'', ''rejected'']
      else if node = ''A2.90'' then [''continue'', ''missing'', ''rejected'']
      else if node = ''A2.91'' then [''continue'', ''missing'', ''incomparable'']
      else [''continue''])"

definition a2_spec :: "string \<Rightarrow> node_spec" where
  "a2_spec node = \<lparr>ns_id = node, ns_version = ''a2-production-v1'',
     ns_effect = (if node \<in> {''A2.31'', ''A2.50'', ''A2.60'', ''A2.61'', ''A2.62''} then EXTERNAL_JOB else IDEMPOTENT_WRITE),
     ns_timeout = 60, ns_attempts = 2, ns_routes = a2_routes node\<rparr>"

definition a3_routes :: "string \<Rightarrow> string list" where
  "a3_routes node =
     (if node = ''A3.51'' then [''continue'', ''rejected'']
      else if node = ''A3.81'' then [''continue'', ''revision'', ''rejected'']
      else if node = ''A3.82'' then [''continue'', ''rejected'']
      else [''continue''])"

definition a3_spec :: "string \<Rightarrow> node_spec" where
  "a3_spec node = \<lparr>ns_id = node, ns_version = ''a3-production-v1'',
     ns_effect = (if node \<in> {''A3.40'', ''A3.50'', ''A3.60''} then EXTERNAL_JOB else IDEMPOTENT_WRITE),
     ns_timeout = 120, ns_attempts = 2, ns_routes = a3_routes node\<rparr>"

definition b1_routes :: "string \<Rightarrow> string list" where
  "b1_routes node =
     (if node = ''B1.71'' then [''continue'', ''quarantine'', ''rejected'']
      else if node = ''B1.80'' then [''continue'', ''merged'']
      else if node = ''B1.81'' then [''continue'', ''closed'']
      else if node = ''B1.91'' then [''continue'', ''approval'', ''rejected'']
      else [''continue''])"

definition b1_spec :: "string \<Rightarrow> node_spec" where
  "b1_spec node = \<lparr>ns_id = node, ns_version = ''b1-production-v1'',
     ns_effect = (if node \<in> {''B1.31'', ''B1.32'', ''B1.33'', ''B1.34'', ''B1.35''} then EXTERNAL_JOB else IDEMPOTENT_WRITE),
     ns_timeout = 60, ns_attempts = 2, ns_routes = b1_routes node\<rparr>"

definition b2_routes :: "string \<Rightarrow> string list" where
  "b2_routes node =
     (if node = ''B2.31'' then [''continue'', ''refresh'', ''rejected'']
      else if node = ''B2.50'' then [''continue'', ''approval'', ''rejected'']
      else if node = ''B2.52'' then [''continue'', ''revision'', ''rejected'']
      else [''continue''])"

definition b2_spec :: "string \<Rightarrow> node_spec" where
  "b2_spec node = \<lparr>ns_id = node, ns_version = ''b2-production-v1'',
     ns_effect = IDEMPOTENT_WRITE,
     ns_timeout = 60, ns_attempts = 2, ns_routes = b2_routes node\<rparr>"

definition c0_routes :: "string \<Rightarrow> string list" where
  "c0_routes node =
     (if node = ''C0.60'' then [''continue'', ''rejected'']
      else [''continue''])"

definition c0_spec :: "string \<Rightarrow> node_spec" where
  "c0_spec node = \<lparr>ns_id = node, ns_version = ''c0-production-v1'',
     ns_effect = IDEMPOTENT_WRITE,
     ns_timeout = 60, ns_attempts = 2, ns_routes = c0_routes node\<rparr>"

definition s02_routes :: "string \<Rightarrow> string list" where
  "s02_routes node =
     (if node = ''S02.10'' then [''continue'', ''rejected'']
      else if node = ''S02.81'' then [''continue'', ''revision'', ''rejected'']
      else if node = ''S02.90'' then [''continue'', ''approval'', ''rejected'']
      else [''continue''])"

definition s02_spec :: "string \<Rightarrow> node_spec" where
  "s02_spec node = \<lparr>ns_id = node, ns_version = ''s02-production-v1'',
     ns_effect = IDEMPOTENT_WRITE,
     ns_timeout = 120, ns_attempts = 2, ns_routes = s02_routes node\<rparr>"

definition s03_routes :: "string \<Rightarrow> string list" where
  "s03_routes node =
     (if node = ''S03.10'' then [''continue'', ''rejected'']
      else if node = ''S03.60'' then [''continue'', ''rejected'']
      else if node = ''S03.70'' then [''continue'', ''rejected'']
      else [''continue''])"

definition s03_spec :: "string \<Rightarrow> node_spec" where
  "s03_spec node = \<lparr>ns_id = node, ns_version = ''s03-production-v1'',
     ns_effect = IDEMPOTENT_WRITE,
     ns_timeout = 300, ns_attempts = 2, ns_routes = s03_routes node\<rparr>"

definition s04_routes :: "string \<Rightarrow> string list" where
  "s04_routes node =
     (if node = ''S04.10'' then [''continue'', ''rejected'']
      else if node = ''S04.80'' then [''continue'', ''revision'']
      else [''continue''])"

definition s04_spec :: "string \<Rightarrow> node_spec" where
  "s04_spec node = \<lparr>ns_id = node, ns_version = ''s04-production-v1'',
     ns_effect = IDEMPOTENT_WRITE,
     ns_timeout = 300, ns_attempts = 2, ns_routes = s04_routes node\<rparr>"

definition s05_routes :: "string \<Rightarrow> string list" where
  "s05_routes node =
     (if node = ''S05.30'' then [''continue'', ''rejected'']
      else if node = ''S05.70'' then [''continue'', ''rejected'']
      else [''continue''])"

definition s05_spec :: "string \<Rightarrow> node_spec" where
  "s05_spec node = \<lparr>ns_id = node, ns_version = ''s05-production-v1'',
     ns_effect = IDEMPOTENT_WRITE,
     ns_timeout = 300, ns_attempts = 2, ns_routes = s05_routes node\<rparr>"

definition s07_routes :: "string \<Rightarrow> string list" where
  "s07_routes node =
     (if node = ''S07.10'' then [''continue'', ''rejected'']
      else if node = ''S07.90'' then [''continue'', ''rejected'']
      else [''continue''])"

definition s07_spec :: "string \<Rightarrow> node_spec" where
  "s07_spec node = \<lparr>ns_id = node, ns_version = ''s07-production-v1'',
     ns_effect = IDEMPOTENT_WRITE,
     ns_timeout = 60, ns_attempts = 2, ns_routes = s07_routes node\<rparr>"

section \<open>Facts about the catalogue\<close>

definition catalog :: "string list" where
  "catalog = concat (business_groups @ shared_groups)"

lemmas catalog_defs = catalog_def business_groups_def shared_groups_def
  a1_node_ids_def a2_node_ids_def a3_node_ids_def b1_node_ids_def b2_node_ids_def c0_node_ids_def
  s01_node_ids_def s02_node_ids_def s03_node_ids_def s04_node_ids_def s05_node_ids_def s06_node_ids_def
  s07_node_ids_def

lemma catalog_keys_ascend: "successively (<) (map node_key catalog)"
  by code_simp

lemma catalog_wf: "list_all wf_node_id catalog"
  by code_simp

lemma catalog_sorted_wrt: "sorted_wrt (<) (map node_key catalog)"
  using catalog_keys_ascend by (simp only: successively_conv_sorted_wrt[OF transp_on_less])

lemma catalog_distinct: "distinct catalog"
  using catalog_sorted_wrt by (simp add: strict_sorted_iff distinct_map)

lemma catalog_key_inj: "inj_on node_key (set catalog)"
  using catalog_sorted_wrt by (metis distinct_map strict_sorted_iff)

lemma sort_key_filter_unique:
  assumes "sorted_wrt (<) (map f zs)" and "distinct xs" and "set xs \<subseteq> set zs"
  shows "sort_key f xs = filter (\<lambda>z. z \<in> set xs) zs"
proof -
  let ?ys = "filter (\<lambda>z. z \<in> set xs) zs"
  have strict: "sorted (map f zs)" "distinct (map f zs)"
    using assms(1) by (simp_all add: strict_sorted_iff)
  have "distinct ?ys" "set ?ys = set xs"
    using strict(2) assms(3) by (auto simp: distinct_map)
  then have "mset xs = mset ?ys" using assms(2) set_eq_iff_mset_eq_distinct by metis
  moreover have "inj_on f (set xs)" using strict(2) assms(3) by (meson distinct_map inj_on_subset)
  ultimately have "sort_key f xs = sort_key f ?ys" by (rule sort_key_permutation_unique[rotated])
  then show ?thesis using strict(1) by (simp add: sorted_filter sorted_sort_id sort_key_id_if_sorted)
qed

section \<open>Properties\<close>

text \<open>The integrity checks run when the catalogue is imported pass: the lanes have exactly 99
  task ids and the shared workflow 64, all different, no id belongs to both, and every id has the
  numbered form the state reducers need.\<close>

theorem catalog_checks_pass:
  "assert_catalog_integrity business_groups 99 = Inr () \<and>
   assert_catalog_integrity shared_groups (card shared_workflow_node_ids) = Inr () \<and>
   card all_business_node_ids = 99 \<and> card shared_workflow_node_ids = 64 \<and>
   all_business_node_ids \<inter> shared_workflow_node_ids = {} \<and>
   list_all wf_node_id (concat (business_groups @ shared_groups))"
proof -
  have d: "distinct (concat business_groups)" "distinct (concat shared_groups)"
    and disj: "set (concat business_groups) \<inter> set (concat shared_groups) = {}"
    using catalog_distinct unfolding catalog_def by (simp_all only: concat_append distinct_append)
  have l: "length (concat business_groups) = 99" "length (concat shared_groups) = 64"
    by code_simp+
  show ?thesis
    using d disj l catalog_wf unfolding assert_catalog_integrity_def all_business_node_ids_def
      shared_workflow_node_ids_def catalog_def
    by (simp only: Let_def distinct_card simp_thms if_False if_True not_True_eq_False)
qed

text \<open>On the ids of the catalogue the reducer of \<open>completed_nodes\<close> never raises, and what it
  returns is the catalogue itself restricted to the completed ids: in catalogue order, whatever
  order the branches finished in.\<close>

theorem completions_follow_the_catalog:
  assumes "set l \<union> set r \<subseteq> set (concat (business_groups @ shared_groups))"
  shows "merge_node_ids l r =
    Inr (filter (\<lambda>n. n \<in> set l \<union> set r) (concat (business_groups @ shared_groups)))"
proof -
  have "list_all wf_node_id (l @ r)"
    using catalog_wf assms unfolding list_all_iff catalog_def by auto
  moreover have "sort_key node_key (remdups (l @ r)) = filter (\<lambda>n. n \<in> set (remdups (l @ r))) catalog"
    using assms by (intro sort_key_filter_unique catalog_sorted_wrt) (simp_all add: catalog_def)
  ultimately show ?thesis by (simp add: merge_node_ids_eq catalog_def)
qed

theorem completions_follow_the_catalog_witness:
  "set [''S01.20'', ''A1.10''] \<union> set [''A1.95''] \<subseteq> set (concat (business_groups @ shared_groups)) \<and>
   merge_node_ids [''S01.20'', ''A1.10''] [''A1.95''] =
     Inr (filter (\<lambda>n. n \<in> set [''S01.20'', ''A1.10''] \<union> set [''A1.95'']) (concat (business_groups @ shared_groups)))"
proof -
  have h: "set [''S01.20'', ''A1.10''] \<union> set [''A1.95''] \<subseteq> set (concat (business_groups @ shared_groups))"
    by (simp add: catalog_defs)
  show ?thesis using h completions_follow_the_catalog[OF h] by blast
qed

end
