(* ===== verification/Resume.thy ===== *)
theory Resume
  imports Node_Runtime
begin

text \<open>
  Resuming a halted case (\<open>application/resume.py\<close>): the authorization checks and the two ways a
  resumed state is built. \<open>graph\<close>, the compiled graph, is a parameter: \<open>g_invoke\<close> runs it,
  \<open>g_update\<close> is the checkpointed \<open>update_state\<close>.
\<close>

definition resume_checks ::
    "resume_command \<Rightarrow> interrupt_envelope \<Rightarrow> actor_context \<Rightarrow> datetime \<Rightarrow> (string \<times> bool) list" where
  "resume_checks command interrupt actor now =
     [(''expired interrupt'', instant (int_expires interrupt) \<le> instant now),
      (''actor identity mismatch'', rc_actor command \<noteq> act_id actor),
      (''tenant mismatch'', rc_tenant command \<noteq> act_tenant actor),
      (''case mismatch'', rc_case command \<noteq> int_case interrupt),
      (''thread mismatch'', rc_thread command \<noteq> int_thread interrupt),
      (''interrupt mismatch'', rc_interrupt command \<noteq> int_id interrupt),
      (''artifact digest mismatch'', rc_digest command \<noteq> int_digest interrupt),
      (''policy version mismatch'', rc_policy command \<noteq> int_policy interrupt),
      (''decision is not allowed'', rc_decision command \<notin> set (int_allowed interrupt)),
      (''required actor role is missing'', int_role interrupt \<notin> set (act_roles actor)),
      (''asserted roles exceed authenticated roles'', \<not> set (rc_roles command) \<subseteq> set (act_roles actor))]"

definition authorize_resume ::
    "resume_command \<Rightarrow> interrupt_envelope \<Rightarrow> actor_context \<Rightarrow> datetime \<Rightarrow> unit result" where
  "authorize_resume command interrupt actor now =
     (if \<not> tz_aware now then Inl (ValueError ''resume authorization time must be timezone-aware'')
      else let failures = map fst (filter snd (resume_checks command interrupt actor now)) in
        if failures \<noteq> [] then Inl (ResumeAuthorizationError failures) else Inr ())"

definition kept_refs :: "state \<Rightarrow> interrupt_envelope \<Rightarrow> artifact_ref list" where
  "kept_refs st i = filter (\<lambda>r. ref_digest r \<noteq> int_digest i) (get_refs st ''artifact_refs'')"

definition resume_overrides :: "state \<Rightarrow> resume_command \<Rightarrow> interrupt_envelope \<Rightarrow> updates" where
  "resume_overrides st command i =
     [(''artifact_refs'', VRefs (kept_refs st i)),
      (''node_routes'', VRoutes (AList.delete (int_stage i) (get_routes st))),
      (''resume_command'', VResume command),
      (''resume_attempts'', VInt (get_int st ''resume_attempts'' + 1)),
      (''resume_target_node'', VStr (int_stage i)),
      (''pending_interrupt'', VNone)]"

record ('c, 'w) graph =
  g_update :: "'c \<Rightarrow> updates \<Rightarrow> ('w, unit) io"
  g_continue :: "'c \<Rightarrow> ('w, state) io"
  g_invoke :: "state \<Rightarrow> ('w, state) io"

definition pending_interrupt :: "state \<Rightarrow> interrupt_envelope option" where
  "pending_interrupt st = (case st ''pending_interrupt'' of Some (VInterrupt i) \<Rightarrow> Some i | _ \<Rightarrow> None)"

definition resume_case :: "('c, 'w) graph \<Rightarrow> state \<Rightarrow> resume_command \<Rightarrow> actor_context \<Rightarrow> datetime \<Rightarrow>
    'c option \<Rightarrow> ('w, state) io" where
  "resume_case graph st command actor now config =
     (case pending_interrupt st of
        None \<Rightarrow> failI (ValueError ''state has no pending_interrupt to resume'')
      | Some i \<Rightarrow>
          bindI (liftI (authorize_resume command i actor now)) (\<lambda>_.
          case config of
            Some c \<Rightarrow> bindI (g_update graph c (resume_overrides st command i)) (\<lambda>_. g_continue graph c)
          | None \<Rightarrow> g_invoke graph (st ++ map_of (resume_overrides st command i))))"

section \<open>Facts\<close>

lemma authorize_resume_Inr:
  "authorize_resume command i actor now = Inr () \<longleftrightarrow>
     tz_aware now \<and> instant now < instant (int_expires i) \<and> rc_actor command = act_id actor \<and>
     rc_tenant command = act_tenant actor \<and> rc_case command = int_case i \<and>
     rc_thread command = int_thread i \<and> rc_interrupt command = int_id i \<and>
     rc_digest command = int_digest i \<and> rc_policy command = int_policy i \<and>
     rc_decision command \<in> set (int_allowed i) \<and> int_role i \<in> set (act_roles actor) \<and>
     set (rc_roles command) \<subseteq> set (act_roles actor)"
  by (auto simp: authorize_resume_def resume_checks_def Let_def split: if_splits)

lemma resumed_lookup:
  "(st ++ map_of (resume_overrides st command i)) k =
     (case map_of (resume_overrides st command i) k of Some v \<Rightarrow> Some v | None \<Rightarrow> st k)"
  by (simp add: map_add_def)

section \<open>Properties\<close>

text \<open>C32. A resume reaches the graph only when every one of the eleven bindings holds: in time,
  by the authenticated actor of the same tenant, for this case, thread, interrupt, artifact
  digest and policy version, with an allowed decision, and with no role the actor does not have.
  Otherwise the graph is not touched and the error lists exactly the checks that failed.\<close>

theorem resume_case_authorized:
  assumes "pending_interrupt st = Some i"
  shows "(if tz_aware now \<and> instant now < instant (int_expires i) \<and> rc_actor command = act_id actor \<and>
       rc_tenant command = act_tenant actor \<and> rc_case command = int_case i \<and>
       rc_thread command = int_thread i \<and> rc_interrupt command = int_id i \<and>
       rc_digest command = int_digest i \<and> rc_policy command = int_policy i \<and>
       rc_decision command \<in> set (int_allowed i) \<and> int_role i \<in> set (act_roles actor) \<and>
       set (rc_roles command) \<subseteq> set (act_roles actor)
     then resume_case graph st command actor now None w =
            g_invoke graph (st ++ map_of (resume_overrides st command i)) w
     else \<exists>e. resume_case graph st command actor now config w = (Inl e, w) \<and>
            (tz_aware now \<longrightarrow> e = ResumeAuthorizationError
               [r. (r, failed) \<leftarrow> resume_checks command i actor now, failed]))"
proof (cases "authorize_resume command i actor now")
  case (Inl e)
  then have "\<not> authorize_resume command i actor now = Inr ()" by simp
  moreover have "[r. (r, failed) \<leftarrow> cs, failed] = map fst (filter snd cs)" for cs :: "(string \<times> bool) list"
    by (induction cs) auto
  ultimately show ?thesis
    unfolding authorize_resume_Inr[symmetric] using assms Inl
    by (auto simp: resume_case_def authorize_resume_def Let_def split: if_splits)
next
  case (Inr u)
  then have "authorize_resume command i actor now = Inr ()" by simp
  with assms show ?thesis
    unfolding authorize_resume_Inr[symmetric] by (simp add: resume_case_def)
qed

definition demo_interrupt :: interrupt_envelope where
  "demo_interrupt = \<lparr>int_id = ''i1'', int_case = ''c'', int_thread = ''th'', int_stage = ''S06.90'',
     int_digest = rep_digest CHR ''b'', int_allowed = [''approve'', ''reject''], int_role = ''owner'',
     int_policy = ''v1'', int_issued = Aware 0, int_expires = Aware 100\<rparr>"

definition demo_command :: resume_command where
  "demo_command = \<lparr>rc_id = ''r1'', rc_tenant = ''t'', rc_case = ''c'', rc_thread = ''th'',
     rc_interrupt = ''i1'', rc_actor = ''ann'', rc_roles = [''owner''], rc_decision = ''approve'',
     rc_digest = rep_digest CHR ''b'', rc_policy = ''v1'', rc_issued = Aware 5\<rparr>"

definition demo_actor :: actor_context where
  "demo_actor = \<lparr>act_id = ''ann'', act_tenant = ''t'', act_roles = [''owner'', ''viewer''], act_authenticated = Aware 0\<rparr>"

definition demo_halted :: state where
  "demo_halted = demo_state(''pending_interrupt'' \<mapsto> VInterrupt demo_interrupt)"

lemma demo_pending: "pending_interrupt demo_halted = Some demo_interrupt"
  by (simp add: pending_interrupt_def demo_halted_def)

theorem resume_case_authorized_witness:
  "resume_case \<lparr>g_update = \<lambda>c u. retI (), g_continue = \<lambda>c. retI Map.empty, g_invoke = retI\<rparr>
      demo_halted demo_command demo_actor (Aware 6) None (0 :: nat) =
     (Inr (demo_halted ++ map_of (resume_overrides demo_halted demo_command demo_interrupt)), 0) \<and>
   resume_case \<lparr>g_update = \<lambda>c u. retI (), g_continue = \<lambda>c. retI Map.empty, g_invoke = retI\<rparr>
      demo_halted demo_command (demo_actor\<lparr>act_tenant := ''x''\<rparr>) (Aware 200) None (0 :: nat) =
     (Inl (ResumeAuthorizationError [''expired interrupt'', ''tenant mismatch'']), 0)"
  using resume_case_authorized[OF demo_pending, of "Aware 6" demo_command demo_actor
      "\<lparr>g_update = \<lambda>c u. retI (), g_continue = \<lambda>c. retI Map.empty, g_invoke = retI\<rparr>" "0 :: nat" None]
    resume_case_authorized[OF demo_pending, of "Aware 200" demo_command "demo_actor\<lparr>act_tenant := ''x''\<rparr>"
      "\<lparr>g_update = \<lambda>c u. retI (), g_continue = \<lambda>c. retI Map.empty, g_invoke = retI\<rparr>" "0 :: nat" None]
  by (simp add: demo_interrupt_def demo_command_def demo_actor_def resume_checks_def)

definition resumed :: "state \<Rightarrow> resume_command \<Rightarrow> interrupt_envelope \<Rightarrow> state" where
  "resumed st command i = st ++ map_of (resume_overrides st command i)"

lemma resumed_fields:
  "get_str (resumed st command i) ''case_id'' = get_str st ''case_id''"
  "get_str (resumed st command i) ''resume_target_node'' = Some (int_stage i)"
  "get_int (resumed st command i) ''resume_attempts'' = get_int st ''resume_attempts'' + 1"
  "get_routes (resumed st command i) = AList.delete (int_stage i) (get_routes st)"
  "f \<in> set (keys revision_fields) \<Longrightarrow> get_int (resumed st command i) f = get_int st f"
  by (auto simp: resumed_def resume_overrides_def get_str_def get_int_def get_routes_def map_add_def
      revision_fields_def)

lemma resumed_revision_pass: "revision_pass spec (resumed st command i) = revision_pass spec st"
proof -
  have "fs \<in> set revision_fields \<Longrightarrow> get_int (resumed st command i) (fst fs) = get_int st (fst fs)" for fs
    by (rule resumed_fields(5)) simp
  moreover have "find P xs = Some x \<Longrightarrow> x \<in> set xs" for P and xs :: "(string \<times> string list) list" and x
    by (auto simp: find_Some_iff)
  ultimately show ?thesis by (auto simp: revision_pass_def split: option.splits)
qed

lemma resumed_resume_pass:
  "resume_pass spec (resumed st command i) =
     (if ns_id spec = int_stage i then get_int st ''resume_attempts'' + 1 else 0)"
  by (auto simp: resume_pass_def resumed_fields)

lemma resumed_key:
  "derive_idempotency_key spec (resumed st command i) =
     bindR (require_identity st ''case_id'') (\<lambda>cid.
       Inr (cid @ CHR '':'' # ns_id spec @ CHR '':'' # ns_version spec @
            pass_suffix '':rev'' (revision_pass spec st) @
            pass_suffix '':resume'' (if ns_id spec = int_stage i then get_int st ''resume_attempts'' + 1 else 0)))"
  by (simp add: derive_key_eq resumed_revision_pass resumed_resume_pass require_identity_def resumed_fields)

text \<open>Resuming re-runs exactly the halted node: in the resumed state its idempotency key is
  one it never had, so its recorded halt is not replayed, while every node that was not itself the
  target of an earlier resume keeps its key and hence its cached result.\<close>

theorem resume_reruns_halted_node_only:
  assumes "0 \<le> get_int st ''resume_attempts''" and "derive_idempotency_key spec st = Inr k"
  shows "if ns_id spec = int_stage i
    then \<exists>k'. derive_idempotency_key spec (resumed st command i) = Inr k' \<and> k' \<noteq> k
    else get_str st ''resume_target_node'' \<noteq> Some (ns_id spec) \<longrightarrow>
         derive_idempotency_key spec (resumed st command i) = Inr k"
proof -
  from assms(2) obtain cid where c: "require_identity st ''case_id'' = Inr cid"
    and k: "k = cid @ CHR '':'' # ns_id spec @ CHR '':'' # ns_version spec @
      pass_suffix '':rev'' (revision_pass spec st) @ pass_suffix '':resume'' (resume_pass spec st)"
    by (auto simp: derive_key_eq bindR_Inr_iff)
  have "resume_pass spec st \<noteq> get_int st ''resume_attempts'' + 1"
    using assms(1) by (simp add: resume_pass_def)
  then show ?thesis
    using c k by (auto simp: resumed_key resume_pass_def)
qed

theorem resume_reruns_halted_node_only_witness:
  "\<exists>k'. derive_idempotency_key (demo_spec\<lparr>ns_id := ''S06.90''\<rparr>)
       (resumed demo_halted demo_command demo_interrupt) = Inr k' \<and> k' \<noteq> ''c:S06.90:v1''"
proof -
  let ?s = "demo_spec\<lparr>ns_id := ''S06.90''\<rparr>"
  have a: "0 \<le> get_int demo_halted ''resume_attempts''" by (simp add: get_int_def demo_halted_def demo_state_def)
  have k: "derive_idempotency_key ?s demo_halted = Inr ''c:S06.90:v1''"
    by (simp add: derive_key_eq require_identity_def get_str_def demo_halted_def demo_state_def demo_spec_def
      revision_pass_def resume_pass_def revision_fields_def split_head_def get_int_def pass_suffix_def)
  from resume_reruns_halted_node_only[OF a k, of demo_interrupt demo_command] show ?thesis
    by (simp add: demo_interrupt_def demo_spec_def)
qed

text \<open>A second resume, of a different node, takes the first resumed node back to the key of
  its original halt: whatever its earlier resume recorded, the node is looked up under the key a
  case that was never resumed has.\<close>

theorem second_resume_forgets_first:
  assumes "ns_id spec \<noteq> int_stage i"
  shows "derive_idempotency_key spec (resumed st command i) =
     derive_idempotency_key spec (st(''resume_target_node'' := None, ''resume_attempts'' := None))"
proof -
  let ?st = "st(''resume_target_node'' := None, ''resume_attempts'' := None)"
  have "require_identity ?st ''case_id'' = require_identity st ''case_id''"
    by (simp add: require_identity_def get_str_def)
  moreover have "revision_pass spec ?st = revision_pass spec st"
    by (auto simp: revision_pass_def revision_fields_def get_int_def)
  moreover have "resume_pass spec ?st = 0" by (simp add: resume_pass_def get_str_def)
  ultimately show ?thesis using assms by (simp add: resumed_key derive_key_eq[of spec ?st])
qed

theorem second_resume_forgets_first_witness:
  "let first = demo_state(''resume_target_node'' \<mapsto> VStr ''S02.90'', ''resume_attempts'' \<mapsto> VInt 1);
       spec = demo_spec\<lparr>ns_id := ''S02.90''\<rparr>
   in derive_idempotency_key spec first = Inr ''c:S02.90:v1:resume1'' \<and>
      derive_idempotency_key spec (resumed first demo_command demo_interrupt) = Inr ''c:S02.90:v1''"
proof -
  let ?f = "demo_state(''resume_target_node'' \<mapsto> VStr ''S02.90'', ''resume_attempts'' \<mapsto> VInt 1)"
  let ?s = "demo_spec\<lparr>ns_id := ''S02.90''\<rparr>"
  have n: "ns_id ?s \<noteq> int_stage demo_interrupt" by (simp add: demo_interrupt_def)
  have s1: "str_nat (Suc 0) = ''1''" by (subst str_nat.simps) (simp add: digit_def)
  show ?thesis unfolding Let_def second_resume_forgets_first[OF n]
    by (simp add: derive_key_eq require_identity_def get_str_def demo_state_def demo_spec_def
      revision_pass_def resume_pass_def revision_fields_def split_head_def get_int_def pass_suffix_def
      str_int_def s1)
qed

text \<open>When the halted node had already recorded a numbered route, resuming does not clear it:
  whatever route the re-run commits, the edge still reads the route recorded before the resume.\<close>

theorem resume_keeps_numbered_route:
  assumes "distinct (keys (get_routes st))" and "int_stage i \<in> set (keys (get_routes st))"
    and "route_slot (int_stage i) 2 \<in> set (keys (get_routes st))"
  shows "\<exists>r. merge_node_routes (get_routes (resumed st command i))
        [(next_route_key (int_stage i) (get_routes (resumed st command i)) route, route)] = Inr r \<and>
     route_for (int_stage i) ((resumed st command i)(''node_routes'' \<mapsto> VRoutes r)) =
       route_for (int_stage i) st"
proof -
  let ?n = "int_stage i" and ?d = "get_routes st"
  let ?e = "AList.delete ?n ?d"
  have e: "next_route_key ?n ?e route = ?n" "map_of ?e ?n = None"
    unfolding next_route_key_def latest_route_key_def keys_mem_iff by simp_all
  have de: "distinct (keys ?e)" using assms(1) by (rule distinct_delete)
  from merge_node_routes_single[OF disjI1[OF e(2)] de] obtain r where
    r: "merge_node_routes ?e [(?n, route)] = Inr r" "map_of r = (map_of ?e)(?n \<mapsto> route)" by blast
  have keys: "k \<in> set (keys r) \<longleftrightarrow> k \<in> set (keys ?d)" for k
    using assms(2) unfolding keys_mem_iff r(2) by simp
  then have fr: "free_slot ?n r 2 = free_slot ?n ?d 2"
    using free_slot_spec[of 2 ?n ?d] by (intro free_slot_unique) (simp_all del: set_map)
  have "free_slot ?n ?d 2 \<noteq> 2" using assms(3) free_slot_spec[of 2 ?n ?d] by metis
  then have "latest_route_key ?n r = Some (route_slot ?n (free_slot ?n ?d 2 - 1))"
    "latest_route_key ?n ?d = Some (route_slot ?n (free_slot ?n ?d 2 - 1))"
    using assms(2) keys fr by (simp_all add: latest_route_key_def latest_slot_eq del: set_map)
  then have "route_for ?n ((resumed st command i)(''node_routes'' \<mapsto> VRoutes r)) = route_for ?n st"
    by (simp add: route_for_def r(2))
  then show ?thesis using r(1) e(1) by (simp add: resumed_fields)
qed

theorem resume_keeps_numbered_route_witness:
  "let st = demo_halted(''node_routes'' \<mapsto> VRoutes [(''S06.90'', ''continue''), (''S06.90#2'', ''approval'')]);
       st' = resumed st demo_command demo_interrupt
   in \<exists>r. merge_node_routes (get_routes st')
          [(next_route_key ''S06.90'' (get_routes st') ''continue'', ''continue'')] = Inr r \<and>
        route_for ''S06.90'' (st'(''node_routes'' \<mapsto> VRoutes r)) = ''approval''"
proof -
  let ?st = "demo_halted(''node_routes'' \<mapsto> VRoutes [(''S06.90'', ''continue''), (''S06.90#2'', ''approval'')])"
  have s: "str_nat 2 = ''2''" "str_nat 3 = ''3''" by (subst str_nat.simps, simp add: digit_def)+
  have n: "int_stage demo_interrupt = ''S06.90''" by (simp add: demo_interrupt_def)
  have a: "distinct (keys (get_routes ?st))" "int_stage demo_interrupt \<in> set (keys (get_routes ?st))"
    "route_slot (int_stage demo_interrupt) 2 \<in> set (keys (get_routes ?st))"
    by (simp_all add: n route_slot_def s)
  have "route_for ''S06.90'' ?st = ''approval''"
    by (simp add: route_for_def latest_route_key_def, subst latest_slot.simps, subst latest_slot.simps)
      (simp add: route_slot_def s)
  with resume_keeps_numbered_route[OF a, of demo_command "''continue''"] show ?thesis
    unfolding Let_def n by simp
qed

end
