(* ===== verification/Graphs.thy ===== *)
theory Graphs
  imports Catalog Resume
begin

text \<open>
  The orchestration graphs (\<open>orchestration/subgraphs/*.py\<close>, \<open>lanes.py\<close>, \<open>root_graph.py\<close>,
  \<open>shared_workflow.py\<close>). The graph engine is an external package, so a graph is what the source
  declares to it: the nodes, the plain edges, the joins that wait for all their branches and the
  conditional edges, each a selector on the state with the map from its labels to nodes.
  \<open>edge_targets\<close> reads the declared targets of a node in a state; nothing else of the engine is
  modelled.
\<close>

section \<open>Declared graphs\<close>

type_synonym selector = "state \<Rightarrow> string list result"

datatype task = Business string | Initialize | Subgraph state_graph
and state_graph = StateGraph
  (gr_nodes: "(string \<times> task) list")
  (gr_edges: "(string \<times> string) list")
  (gr_joins: "(string list \<times> string) list")
  (gr_branches: "(string \<times> (state \<Rightarrow> string list result) \<times> string dict) list")

definition START :: string where
  "START = ''__start__''"

definition END :: string where
  "END = ''__end__''"

definition add_node :: "string \<Rightarrow> task \<Rightarrow> state_graph \<Rightarrow> state_graph" where
  "add_node name task g = StateGraph (gr_nodes g @ [(name, task)]) (gr_edges g) (gr_joins g) (gr_branches g)"

definition add_edge :: "string \<Rightarrow> string \<Rightarrow> state_graph \<Rightarrow> state_graph" where
  "add_edge source target g = StateGraph (gr_nodes g) (gr_edges g @ [(source, target)]) (gr_joins g) (gr_branches g)"

definition add_join :: "string list \<Rightarrow> string \<Rightarrow> state_graph \<Rightarrow> state_graph" where
  "add_join sources target g = StateGraph (gr_nodes g) (gr_edges g) (gr_joins g @ [(sources, target)]) (gr_branches g)"

definition add_conditional_edges :: "string \<Rightarrow> selector \<Rightarrow> string dict \<Rightarrow> state_graph \<Rightarrow> state_graph" where
  "add_conditional_edges source select paths g =
     StateGraph (gr_nodes g) (gr_edges g) (gr_joins g) (gr_branches g @ [(source, select, paths)])"

definition build :: "(state_graph \<Rightarrow> state_graph) list \<Rightarrow> state_graph" where
  "build calls = fold (\<lambda>call g. call g) calls (StateGraph [] [] [] [])"

section \<open>Helpers of \<open>subgraphs/common.py\<close>\<close>

definition add_nodes :: "string list \<Rightarrow> state_graph \<Rightarrow> state_graph" where
  "add_nodes ids g = fold (\<lambda>n. add_node n (Business n)) ids g"

definition add_linear_edges :: "string list \<Rightarrow> state_graph \<Rightarrow> state_graph" where
  "add_linear_edges ids g = fold (\<lambda>(source, target). add_edge source target) (zip ids (tl ids)) g"

definition add_fan_out :: "fan_out \<Rightarrow> state_graph \<Rightarrow> state_graph" where
  "add_fan_out f g =
     add_join (fo_branches f) (fo_join f) (fold (\<lambda>b. add_edge (fo_source f) b) (fo_branches f) g)"

definition add_routed_edge :: "string \<Rightarrow> string dict \<Rightarrow> state_graph \<Rightarrow> state_graph" where
  "add_routed_edge source routes = add_conditional_edges source (\<lambda>st. Inr [route_for source st]) routes"

definition completed :: "string \<Rightarrow> selector" where
  "completed required st =
     Inr [if required \<in> set (get_strs st ''completed_nodes'') then ''continue'' else ''halt'']"

definition slice :: "nat \<Rightarrow> nat \<Rightarrow> 'a list \<Rightarrow> 'a list" where
  "slice i j xs = take (j - i) (drop i xs)"

section \<open>The stage graphs\<close>

definition build_a1_graph :: state_graph where
  "build_a1_graph = build
     [add_nodes a1_node_ids,
      add_edge START ''A1.10'',
      add_linear_edges (slice 0 12 a1_node_ids),
      add_routed_edge ''A1.80'' [(''continue'', ''A1.90''), (''clarification'', END), (''rejected'', END)],
      add_routed_edge ''A1.90'' [(''continue'', ''A1.95''), (''approval'', END), (''rejected'', END)],
      add_edge ''A1.95'' END]"

definition execution_routes :: selector where
  "execution_routes st =
     Inr (if map_of (get_routes st) ''A2.50'' = Some ''continue'' then fo_branches a2_fan_out else [''halt''])"

definition build_a2_graph :: state_graph where
  "build_a2_graph = build
     [add_nodes a2_node_ids,
      add_edge START ''A2.10'',
      add_routed_edge ''A2.10'' [(''continue'', ''A2.20''), (''rejected'', END)],
      add_linear_edges (slice 1 4 a2_node_ids),
      add_routed_edge ''A2.31'' [(''continue'', ''A2.40''), (''approval'', END)],
      add_routed_edge ''A2.40'' [(''continue'', ''A2.41''), (''missing'', END)],
      add_edge ''A2.41'' ''A2.50'',
      add_conditional_edges ''A2.50'' execution_routes
        (map (\<lambda>b. (b, b)) (fo_branches a2_fan_out) @ [(''halt'', END)]),
      add_join (fo_branches a2_fan_out) (fo_join a2_fan_out),
      add_linear_edges (slice 12 16 a2_node_ids),
      add_routed_edge ''A2.90'' [(''continue'', ''A2.91''), (''missing'', END), (''rejected'', END)],
      add_routed_edge ''A2.91'' [(''continue'', ''A2.95''), (''missing'', END), (''incomparable'', END)],
      add_edge ''A2.95'' END]"

definition build_a3_graph :: state_graph where
  "build_a3_graph = build
     [add_nodes a3_node_ids,
      add_edge START ''A3.10'',
      add_linear_edges (slice 0 4 a3_node_ids),
      add_fan_out a3_fan_out,
      add_linear_edges (slice 8 12 a3_node_ids),
      add_routed_edge ''A3.51'' [(''continue'', ''A3.60''), (''rejected'', END)],
      add_linear_edges (slice 12 20 a3_node_ids),
      add_routed_edge ''A3.81'' [(''continue'', ''A3.90''), (''revision'', ''A3.82''), (''rejected'', END)],
      add_routed_edge ''A3.82'' [(''continue'', ''A3.60''), (''rejected'', END)],
      add_edge ''A3.90'' END]"

definition build_b1_graph :: state_graph where
  "build_b1_graph = build
     [add_nodes (filter (\<lambda>n. n \<noteq> ''B1.95'') b1_node_ids),
      add_node ''B1.95'' (Subgraph build_a2_graph),
      add_edge START ''B1.10'',
      add_linear_edges (slice 0 5 b1_node_ids),
      add_fan_out b1_query_fan_out,
      add_edge ''B1.40'' ''B1.41'',
      add_fan_out b1_detector_fan_out,
      add_linear_edges (slice 15 20 b1_node_ids),
      add_routed_edge ''B1.71'' [(''continue'', ''B1.80''), (''quarantine'', END), (''rejected'', END)],
      add_routed_edge ''B1.80'' [(''continue'', ''B1.81''), (''merged'', END), (''suppressed'', END)],
      add_routed_edge ''B1.81'' [(''continue'', ''B1.90''), (''suppressed'', END), (''closed'', END)],
      add_edge ''B1.90'' ''B1.91'',
      add_routed_edge ''B1.91'' [(''continue'', ''B1.95''), (''approval'', END), (''rejected'', END)],
      add_conditional_edges ''B1.95'' (completed ''A2.95'') [(''continue'', ''B1.96''), (''halt'', END)],
      add_edge ''B1.96'' END]"

definition build_b2_graph :: state_graph where
  "build_b2_graph = build
     [add_nodes (filter (\<lambda>n. n \<noteq> ''B2.22'') b2_node_ids),
      add_node ''B2.22'' (Subgraph build_a3_graph),
      add_edge START ''B2.10'',
      add_linear_edges (slice 0 3 b2_node_ids),
      add_edge ''B2.21'' ''B2.22'',
      add_conditional_edges ''B2.22'' (completed ''A3.90'') [(''continue'', ''B2.30''), (''halt'', END)],
      add_edge ''B2.30'' ''B2.31'',
      add_routed_edge ''B2.31'' [(''continue'', ''B2.40''), (''refresh'', END), (''rejected'', END)],
      add_linear_edges (slice 6 9 b2_node_ids),
      add_routed_edge ''B2.50'' [(''continue'', ''B2.60''), (''approval'', ''B2.51''), (''rejected'', END)],
      add_edge ''B2.51'' ''B2.52'',
      add_routed_edge ''B2.52'' [(''continue'', ''B2.60''), (''revision'', ''B2.22''), (''rejected'', END)],
      add_edge ''B2.60'' END]"

definition build_c0_graph :: state_graph where
  "build_c0_graph = build
     [add_nodes c0_node_ids,
      add_edge START ''C0.10'',
      add_linear_edges (slice 0 6 c0_node_ids),
      add_routed_edge ''C0.60'' [(''continue'', ''C0.70''), (''rejected'', END)],
      add_edge ''C0.70'' END]"

definition build_s01_graph :: state_graph where
  "build_s01_graph = build
     [add_nodes s01_node_ids,
      add_edge START ''S01.10'',
      add_edge ''S01.10'' ''S01.20'',
      add_routed_edge ''S01.20'' [(''continue'', ''S01.30''), (''rejected'', END)],
      add_linear_edges (slice 2 8 s01_node_ids),
      add_routed_edge ''S01.80'' [(''continue'', ''S01.90''), (''approval'', END), (''rejected'', END)],
      add_edge ''S01.90'' END]"

definition build_s02_graph :: state_graph where
  "build_s02_graph = build
     [add_nodes s02_node_ids,
      add_edge START ''S02.10'',
      add_linear_edges (slice 0 9 s02_node_ids),
      add_routed_edge ''S02.81'' [(''continue'', ''S02.90''), (''revision'', ''S02.30''), (''rejected'', END)],
      add_routed_edge ''S02.90'' [(''continue'', END), (''approval'', END), (''rejected'', END)]]"

definition build_s03_graph :: state_graph where
  "build_s03_graph = build
     [add_nodes s03_node_ids,
      add_edge START ''S03.10'',
      add_routed_edge ''S03.10'' [(''continue'', ''S03.20''), (''rejected'', END)],
      add_linear_edges (slice 1 6 s03_node_ids),
      add_routed_edge ''S03.60'' [(''continue'', ''S03.70''), (''rejected'', END)],
      add_routed_edge ''S03.70'' [(''continue'', ''S03.80''), (''rejected'', END)],
      add_edge ''S03.80'' ''S03.90'',
      add_edge ''S03.90'' END]"

definition build_s04_graph :: state_graph where
  "build_s04_graph = build
     [add_nodes s04_node_ids,
      add_edge START ''S04.10'',
      add_routed_edge ''S04.10'' [(''continue'', ''S04.20''), (''rejected'', END)],
      add_linear_edges (slice 1 8 s04_node_ids),
      add_routed_edge ''S04.80'' [(''continue'', ''S04.90''), (''revision'', ''S04.90'')],
      add_edge ''S04.90'' END]"

definition build_s05_graph :: state_graph where
  "build_s05_graph = build
     [add_nodes s05_node_ids,
      add_edge START ''S05.10'',
      add_linear_edges (slice 0 3 s05_node_ids),
      add_routed_edge ''S05.30'' [(''continue'', ''S05.40''), (''rejected'', END)],
      add_linear_edges (slice 3 7 s05_node_ids),
      add_routed_edge ''S05.70'' [(''continue'', ''S05.80''), (''rejected'', END)],
      add_linear_edges (slice 7 9 s05_node_ids),
      add_edge ''S05.90'' END]"

definition build_s06_graph :: state_graph where
  "build_s06_graph = build
     [add_nodes s06_node_ids,
      add_edge START ''S06.10'',
      add_routed_edge ''S06.10'' [(''continue'', ''S06.20''), (''rejected'', END)],
      add_linear_edges (slice 1 8 s06_node_ids),
      add_routed_edge ''S06.80'' [(''continue'', ''S06.90'')],
      add_routed_edge ''S06.90'' [(''continue'', END), (''approval'', END), (''rejected'', END)]]"

definition build_s07_graph :: state_graph where
  "build_s07_graph = build
     [add_nodes s07_node_ids,
      add_edge START ''S07.10'',
      add_routed_edge ''S07.10'' [(''continue'', ''S07.20''), (''rejected'', END)],
      add_linear_edges (slice 1 9 s07_node_ids),
      add_routed_edge ''S07.90'' [(''continue'', END), (''rejected'', END)]]"

section \<open>Lanes, root and shared workflow\<close>

definition build_lane_a_graph :: state_graph where
  "build_lane_a_graph = build
     [add_node ''A1'' (Subgraph build_a1_graph),
      add_node ''A2'' (Subgraph build_a2_graph),
      add_node ''A3'' (Subgraph build_a3_graph),
      add_node ''C0'' (Subgraph build_c0_graph),
      add_edge START ''A1'',
      add_conditional_edges ''A1'' (completed ''A1.95'') [(''continue'', ''A2''), (''halt'', END)],
      add_conditional_edges ''A2'' (completed ''A2.95'') [(''continue'', ''A3''), (''halt'', END)],
      add_conditional_edges ''A3'' (completed ''A3.90'') [(''continue'', ''C0''), (''halt'', END)],
      add_edge ''C0'' END]"

definition build_lane_b_discovery_graph :: state_graph where
  "build_lane_b_discovery_graph = build_b1_graph"

definition build_lane_b_proposal_graph :: state_graph where
  "build_lane_b_proposal_graph = build
     [add_node ''B2'' (Subgraph build_b2_graph),
      add_node ''C0'' (Subgraph build_c0_graph),
      add_edge START ''B2'',
      add_conditional_edges ''B2'' (completed ''B2.60'') [(''continue'', ''C0''), (''halt'', END)],
      add_edge ''C0'' END]"

definition route_lane_b_entrypoint :: selector where
  "route_lane_b_entrypoint st =
     (case get_str st ''entrypoint'' of
        Some e \<Rightarrow> if e = ''discovery'' \<or> e = ''qualified'' then Inr [e]
                  else Inl (ValueError ''Lane B requires entrypoint discovery or qualified'')
      | None \<Rightarrow> Inl (ValueError ''Lane B requires entrypoint discovery or qualified''))"

definition build_lane_b_graph :: state_graph where
  "build_lane_b_graph = build
     [add_node ''B1'' (Subgraph build_lane_b_discovery_graph),
      add_node ''B2_proposal'' (Subgraph build_lane_b_proposal_graph),
      add_conditional_edges START route_lane_b_entrypoint
        [(''discovery'', ''B1''), (''qualified'', ''B2_proposal'')],
      add_edge ''B1'' END,
      add_edge ''B2_proposal'' END]"

definition truthy :: "string option \<Rightarrow> bool" where
  "truthy s \<longleftrightarrow> s \<noteq> None \<and> s \<noteq> Some []"

definition initialize_case :: "state \<Rightarrow> updates result" where
  "initialize_case st =
     (if filter (\<lambda>f. \<not> truthy (get_str st f)) [''case_id'', ''thread_id'', ''tenant_id'', ''entrypoint'', ''lane''] \<noteq> []
      then Inl (ValueError ''root state is missing required identity fields'')
      else let entry = get_str st ''entrypoint'';
               expected = (if entry = Some ''manual'' then ''manual'' else ''automatic'') in
        if get_str st ''lane'' \<noteq> Some expected then Inl (ValueError ''entrypoint requires another lane'')
        else Inr [(''status'', VStr ''running''), (''current_node'', VStr ''initialize_case''),
              (''baseline_mode'', VStr (if entry = Some ''manual'' then ''active_collection'' else ''historical_recovery''))])"

definition route_entrypoint :: selector where
  "route_entrypoint st =
     (case get_str st ''entrypoint'' of
        None \<Rightarrow> Inl (ValueError ''root state is missing entrypoint'')
      | Some e \<Rightarrow> Inr [e])"

definition root_graph :: state_graph where
  "root_graph = build
     [add_node ''initialize_case'' Initialize,
      add_node ''lane_a'' (Subgraph build_lane_a_graph),
      add_node ''lane_b'' (Subgraph build_lane_b_graph),
      add_edge START ''initialize_case'',
      add_conditional_edges ''initialize_case'' route_entrypoint
        [(''manual'', ''lane_a''), (''discovery'', ''lane_b''), (''qualified'', ''lane_b'')],
      add_edge ''lane_a'' END,
      add_edge ''lane_b'' END]"

definition build_root_graph :: "'w node_runtime \<Rightarrow> state_graph result" where
  "build_root_graph rt =
     (if enabled_node_ids rt - all_business_node_ids \<noteq> {}
      then Inl (ValueError ''runtime contains task IDs outside the canonical catalog'')
      else Inr root_graph)"

definition max_phase_repair_attempts :: int where
  "max_phase_repair_attempts = 5"

definition gate_passed :: "state \<Rightarrow> bool" where
  "gate_passed st = (case st ''s04_manifest'' of Some (VManifest m) \<Rightarrow> mf_gate m = Some True | _ \<Rightarrow> False)"

definition verification_outcome :: selector where
  "verification_outcome st =
     Inr [if ''S04.90'' \<notin> set (get_strs st ''completed_nodes'') then ''halt''
          else if gate_passed st then ''pass''
          else if get_int st ''s03_revision_attempts'' \<ge> max_phase_repair_attempts then ''halt''
          else ''revision'']"

fun outcome_label :: "outcome \<Rightarrow> string" where
  "outcome_label KEEP = ''keep''"
| "outcome_label FIX_ONE_PART = ''fix_one_part''"
| "outcome_label REVERT = ''revert''"
| "outcome_label ESCALATE = ''escalate''"

definition policy_outcome :: selector where
  "policy_outcome st =
     Inr [if route_for ''S06.90'' st \<noteq> ''continue'' then ''halt''
          else case get_outcome st of
              None \<Rightarrow> ''halt''
            | Some x \<Rightarrow>
                if x = FIX_ONE_PART \<and> get_int st ''s03_revision_attempts'' \<ge> max_phase_repair_attempts then ''halt''
                else outcome_label x]"

definition build_shared_workflow_graph :: state_graph where
  "build_shared_workflow_graph = build
     [add_node ''S01'' (Subgraph build_s01_graph),
      add_node ''S02'' (Subgraph build_s02_graph),
      add_node ''S03'' (Subgraph build_s03_graph),
      add_node ''S04'' (Subgraph build_s04_graph),
      add_node ''S05'' (Subgraph build_s05_graph),
      add_node ''S06'' (Subgraph build_s06_graph),
      add_node ''S07'' (Subgraph build_s07_graph),
      add_edge START ''S01'',
      add_conditional_edges ''S01'' (completed ''S01.90'') [(''continue'', ''S02''), (''halt'', END)],
      add_conditional_edges ''S02'' (completed ''S02.90'') [(''continue'', ''S03''), (''halt'', END)],
      add_conditional_edges ''S03'' (completed ''S03.90'') [(''continue'', ''S04''), (''halt'', END)],
      add_conditional_edges ''S04'' verification_outcome
        [(''pass'', ''S05''), (''revision'', ''S03''), (''halt'', END)],
      add_conditional_edges ''S05'' (completed ''S05.90'') [(''continue'', ''S06''), (''halt'', END)],
      add_conditional_edges ''S06'' policy_outcome
        [(''keep'', ''S07''), (''fix_one_part'', ''S03''), (''revert'', ''S01''), (''escalate'', END), (''halt'', END)],
      add_edge ''S07'' END]"

section \<open>Reading a declared graph\<close>

definition node_names :: "state_graph \<Rightarrow> string list" where
  "node_names g = map fst (gr_nodes g)"

definition declared_edges :: "state_graph \<Rightarrow> (string \<times> string) list" where
  "declared_edges g = gr_edges g
     @ concat (map (\<lambda>(us, v). map (\<lambda>u. (u, v)) us) (gr_joins g))
     @ concat (map (\<lambda>(u, _, paths). map (\<lambda>p. (u, snd p)) paths) (gr_branches g))"

definition path_target :: "string dict \<Rightarrow> string \<Rightarrow> string result" where
  "path_target paths label = (case map_of paths label of None \<Rightarrow> Inl (KeyError label) | Some n \<Rightarrow> Inr n)"

definition branch_targets :: "(selector \<times> string dict) \<Rightarrow> state \<Rightarrow> string list result" where
  "branch_targets b st = bindR (fst b st) (mapR (path_target (snd b)))"

text \<open>The nodes declared to run after \<open>source\<close> when it ends in the state \<open>st\<close> (joins apart, which
  also wait for their other branches).\<close>

definition edge_targets :: "state_graph \<Rightarrow> string \<Rightarrow> state \<Rightarrow> string list result" where
  "edge_targets g source st =
     bindR (mapR (\<lambda>b. branch_targets b st) (map snd (filter (\<lambda>b. fst b = source) (gr_branches g))))
       (\<lambda>ts. Inr (map snd (filter (\<lambda>e. fst e = source) (gr_edges g)) @ concat ts))"

section \<open>Well-formed graphs\<close>

text \<open>Every edge starts at a node or at \<open>START\<close> and ends at a node or at \<open>END\<close>, no node is declared
  twice, and every node has exits of one kind: plain edges, one join or one conditional edge.\<close>

definition has_exit :: "state_graph \<Rightarrow> string \<Rightarrow> bool" where
  "has_exit g n \<longleftrightarrow>
     (let plain = n \<in> set (map fst (gr_edges g)); joined = n \<in> set (concat (map fst (gr_joins g)));
          routed = n \<in> set (map fst (gr_branches g)) in
      (plain \<and> \<not> joined \<and> \<not> routed) \<or> (\<not> plain \<and> joined \<and> \<not> routed) \<or> (\<not> plain \<and> \<not> joined \<and> routed))"

definition well_formed :: "state_graph \<Rightarrow> bool" where
  "well_formed g \<longleftrightarrow> distinct (node_names g) \<and> distinct (map fst (gr_branches g)) \<and>
     list_all (\<lambda>(u, v). u \<in> set (START # node_names g) \<and> v \<in> set (END # node_names g)) (declared_edges g) \<and>
     list_all (has_exit g) (START # node_names g)"

text \<open>A certificate of reachability: each node of the list has an edge from a start node or from an
  earlier node of the list.\<close>

fun reached_in_order :: "('a \<times> 'a) list \<Rightarrow> 'a list \<Rightarrow> 'a list \<Rightarrow> bool" where
  "reached_in_order es seen [] \<longleftrightarrow> True"
| "reached_in_order es seen (n # ns) \<longleftrightarrow>
     list_ex (\<lambda>(u, v). v = n \<and> u \<in> set seen) es \<and> reached_in_order es (n # seen) ns"

lemma reached_in_order_sound:
  assumes "reached_in_order es seen ns" and "\<forall>s \<in> set seen. (r, s) \<in> (set es)\<^sup>*" and "n \<in> set ns"
  shows "(r, n) \<in> (set es)\<^sup>*"
  using assms
proof (induction ns arbitrary: seen)
  case (Cons m ns)
  obtain u where u: "(u, m) \<in> set es" "u \<in> set seen"
    using Cons.prems(1) by (auto simp: list_ex_iff)
  then have m: "(r, m) \<in> (set es)\<^sup>*" using Cons.prems(2) by (meson rtrancl.rtrancl_into_rtrancl)
  show ?case
  proof (cases "n = m")
    case False
    have "reached_in_order es (m # seen) ns" using Cons.prems(1) by simp
    moreover have "\<forall>s \<in> set (m # seen). (r, s) \<in> (set es)\<^sup>*" using m Cons.prems(2) by simp
    moreover have "n \<in> set ns" using Cons.prems(3) False by simp
    ultimately show ?thesis by (rule Cons.IH)
  qed (use m in simp)
qed simp

definition flip :: "'a \<times> 'b \<Rightarrow> 'b \<times> 'a" where
  "flip p = (snd p, fst p)"

definition connected :: "state_graph \<Rightarrow> string list \<Rightarrow> bool" where
  "connected g order \<longleftrightarrow> list_all (\<lambda>n. n \<in> set order) (node_names g) \<and>
     reached_in_order (declared_edges g) [START] order \<and>
     reached_in_order (map flip (declared_edges g)) [END] (rev order)"

lemma rtrancl_flip: "(a, b) \<in> (set (map flip es))\<^sup>* \<Longrightarrow> (b, a) \<in> (set es)\<^sup>*"
proof -
  have "set (map flip es) = (set es)\<inverse>" by (force simp: flip_def)
  then show "(a, b) \<in> (set (map flip es))\<^sup>* \<Longrightarrow> (b, a) \<in> (set es)\<^sup>*"
    by (simp add: rtrancl_converse)
qed

lemma connected_sound:
  assumes "connected g order" and "n \<in> set (node_names g)"
  shows "(START, n) \<in> (set (declared_edges g))\<^sup>*" and "(n, END) \<in> (set (declared_edges g))\<^sup>*"
proof -
  have c: "reached_in_order (declared_edges g) [START] order"
    "reached_in_order (map flip (declared_edges g)) [END] (rev order)" "n \<in> set order"
    using assms by (auto simp: connected_def list_all_iff)
  show "(START, n) \<in> (set (declared_edges g))\<^sup>*"
    by (rule reached_in_order_sound[OF c(1) _ c(3)]) simp
  have "(END, n) \<in> (set (map flip (declared_edges g)))\<^sup>*"
    by (rule reached_in_order_sound[OF c(2)]) (use c(3) in simp_all)
  then show "(n, END) \<in> (set (declared_edges g))\<^sup>*" by (rule rtrancl_flip)
qed

section \<open>The declared graphs are checked\<close>

definition stage_graphs :: "(state_graph \<times> (string \<Rightarrow> node_spec)) list" where
  "stage_graphs =
     [(build_a1_graph, a1_spec), (build_a2_graph, a2_spec), (build_a3_graph, a3_spec), (build_b1_graph, b1_spec),
      (build_b2_graph, b2_spec), (build_c0_graph, c0_spec), (build_s01_graph, s01_spec), (build_s02_graph, s02_spec),
      (build_s03_graph, s03_spec), (build_s04_graph, s04_spec), (build_s05_graph, s05_spec), (build_s06_graph, s06_spec),
      (build_s07_graph, s07_spec)]"

definition composed_graphs :: "state_graph list" where
  "composed_graphs = [build_lane_a_graph, build_lane_b_proposal_graph, build_lane_b_graph, root_graph,
     build_shared_workflow_graph]"

text \<open>Each graph with an order of its nodes that shows the reachability.\<close>

definition graph_orders :: "(state_graph \<times> string list) list" where
  "graph_orders =
     zip (map fst stage_graphs) (business_groups @ shared_groups) @
     map (\<lambda>g. (g, node_names g)) composed_graphs"

lemma graph_orders_checked: "list_all (\<lambda>(g, order). well_formed g \<and> connected g order) graph_orders"
  by code_simp

lemma graph_orders_cover: "g \<in> set (map fst stage_graphs @ composed_graphs) \<Longrightarrow> \<exists>order. (g, order) \<in> set graph_orders"
  by (auto simp: graph_orders_def stage_graphs_def business_groups_def shared_groups_def)

lemma graphs_checked:
  assumes "g \<in> set (map fst stage_graphs @ composed_graphs)"
  shows "well_formed g" and "\<exists>order. connected g order"
  using graph_orders_cover[OF assms] graph_orders_checked by (auto simp: list_all_iff)

lemmas builder_defs = build_def add_nodes_def add_linear_edges_def add_fan_out_def add_routed_edge_def
  add_node_def add_edge_def add_join_def add_conditional_edges_def slice_def

section \<open>Targets of a node\<close>

lemma mapR_path_target:
  assumes "set labels \<subseteq> set (map fst paths)"
  shows "mapR (path_target paths) labels = Inr (map (\<lambda>l. the (map_of paths l)) labels)"
proof (rule mapR_total)
  fix l assume "l \<in> set labels"
  then obtain n where "map_of paths l = Some n"
    using assms by (metis map_of_eq_None_iff not_None_eq set_map subsetD)
  then show "path_target paths l = Inr (the (map_of paths l))" by (simp add: path_target_def)
qed

lemma filter_fst_distinct:
  assumes "distinct (map fst xs)" and "(k, v) \<in> set xs"
  shows "filter (\<lambda>b. fst b = k) xs = [(k, v)]"
  using assms
proof (induction xs)
  case (Cons x xs)
  show ?case
  proof (cases "x = (k, v)")
    case True
    then have "filter (\<lambda>b. fst b = k) xs = []"
      using Cons.prems(1) by (auto simp: filter_empty_conv image_iff)
    with True show ?thesis by simp
  next
    case False
    then have "(k, v) \<in> set xs" "fst x \<noteq> k" using Cons.prems by (auto simp: image_iff)
    with Cons show ?thesis by simp
  qed
qed simp

lemma edge_targets_branch:
  assumes "well_formed g" and "(n, select, paths) \<in> set (gr_branches g)"
    and "select st = Inr labels" and "set labels \<subseteq> set (map fst paths)"
  shows "edge_targets g n st =
    Inr (map snd (filter (\<lambda>e. fst e = n) (gr_edges g)) @ map (\<lambda>l. the (map_of paths l)) labels)"
proof -
  have "filter (\<lambda>b. fst b = n) (gr_branches g) = [(n, select, paths)]"
    using assms(1,2) by (intro filter_fst_distinct) (simp_all add: well_formed_def)
  then show ?thesis
    using assms(3) mapR_path_target[OF assms(4)] by (simp add: edge_targets_def branch_targets_def)
qed

lemma edge_targets_plain:
  assumes "n \<notin> set (map fst (gr_branches g))"
  shows "edge_targets g n st = Inr (map snd (filter (\<lambda>e. fst e = n) (gr_edges g)))"
proof -
  have "filter (\<lambda>b. fst b = n) (gr_branches g) = []" using assms by (auto simp: filter_empty_conv)
  then show ?thesis by (simp add: edge_targets_def)
qed

lemma declared_target:
  assumes "well_formed g" and "(u, v) \<in> set (declared_edges g)"
  shows "v \<in> set (END # node_names g)"
  using assms by (auto simp: well_formed_def list_all_iff)

lemma plain_in_declared: "(u, v) \<in> set (gr_edges g) \<Longrightarrow> (u, v) \<in> set (declared_edges g)"
  by (simp add: declared_edges_def)

lemma path_in_declared:
  assumes "(n, select, paths) \<in> set (gr_branches g)" and "map_of paths l = Some v"
  shows "(n, v) \<in> set (declared_edges g)"
proof -
  have "(l, v) \<in> set paths" using assms(2) by (rule map_of_SomeD)
  then have "(n, v) \<in> set (map (\<lambda>p. (n, snd p)) paths)" by force
  moreover have "map (\<lambda>p. (n, snd p)) paths \<in> set (map (\<lambda>(u, _, ps). map (\<lambda>p. (u, snd p)) ps) (gr_branches g))"
    using imageI[OF assms(1), of "\<lambda>(u, _, ps). map (\<lambda>p. (u, snd p)) ps"] by simp
  ultimately have "(n, v) \<in> set (concat (map (\<lambda>(u, _, ps). map (\<lambda>p. (u, snd p)) ps) (gr_branches g)))"
    unfolding set_concat by (rule UN_I[rotated])
  then show ?thesis by (simp add: declared_edges_def)
qed

text \<open>A selector keeps to its labels when every label it returns has a target.\<close>

definition keeps_labels :: "state_graph \<Rightarrow> string \<Rightarrow> state \<Rightarrow> bool" where
  "keeps_labels g n st \<longleftrightarrow>
     (\<forall>select paths. (n, select, paths) \<in> set (gr_branches g) \<longrightarrow>
        (\<exists>labels. select st = Inr labels \<and> set labels \<subseteq> set (map fst paths)))"

lemma edge_targets_total:
  assumes "well_formed g" and "keeps_labels g n st"
  shows "\<exists>ts. edge_targets g n st = Inr ts \<and> set ts \<subseteq> set (END # node_names g)"
proof (cases "n \<in> set (map fst (gr_branches g))")
  case False
  then show ?thesis
    using edge_targets_plain declared_target[OF assms(1) plain_in_declared] by fastforce
next
  case True
  then obtain select paths where b: "(n, select, paths) \<in> set (gr_branches g)" by auto
  with assms(2) obtain labels where l: "select st = Inr labels" "set labels \<subseteq> set (map fst paths)"
    unfolding keeps_labels_def by blast
  have "the (map_of paths x) \<in> set (END # node_names g)" if "x \<in> set labels" for x
  proof -
    from that l(2) obtain v where "map_of paths x = Some v"
      by (metis map_of_eq_None_iff not_None_eq set_map subsetD)
    then show ?thesis using declared_target[OF assms(1) path_in_declared[OF b]] by simp
  qed
  then show ?thesis
    using edge_targets_branch[OF assms(1) b l] declared_target[OF assms(1) plain_in_declared] by fastforce
qed

section \<open>Every route has an edge\<close>

lemmas spec_defs =
  a1_routes_def a2_routes_def a3_routes_def b1_routes_def b2_routes_def c0_routes_def
  s01_routes_def s02_routes_def s03_routes_def s04_routes_def s05_routes_def s06_routes_def s07_routes_def
  a1_spec_def a2_spec_def a3_spec_def b1_spec_def b2_spec_def c0_spec_def s01_spec_def s02_spec_def s03_spec_def
  s04_spec_def s05_spec_def s06_spec_def s07_spec_def

lemmas id_defs =
  a1_node_ids_def a2_node_ids_def a3_node_ids_def b1_node_ids_def b2_node_ids_def c0_node_ids_def
  s01_node_ids_def s02_node_ids_def s03_node_ids_def s04_node_ids_def s05_node_ids_def s06_node_ids_def
  s07_node_ids_def

lemmas graph_defs =
  build_a1_graph_def build_a2_graph_def build_a3_graph_def build_b1_graph_def build_b2_graph_def build_c0_graph_def
  build_s01_graph_def build_s02_graph_def build_s03_graph_def build_s04_graph_def build_s05_graph_def
  build_s06_graph_def build_s07_graph_def

lemma lane_selectors_keep_labels:
  "route_for n st \<in> set (ns_routes (a1_spec n)) \<Longrightarrow> keeps_labels build_a1_graph n st"
  "route_for n st \<in> set (ns_routes (a2_spec n)) \<Longrightarrow> keeps_labels build_a2_graph n st"
  "route_for n st \<in> set (ns_routes (a3_spec n)) \<Longrightarrow> keeps_labels build_a3_graph n st"
  "route_for n st \<in> set (ns_routes (b1_spec n)) \<Longrightarrow> keeps_labels build_b1_graph n st"
  "route_for n st \<in> set (ns_routes (b2_spec n)) \<Longrightarrow> keeps_labels build_b2_graph n st"
  "route_for n st \<in> set (ns_routes (c0_spec n)) \<Longrightarrow> keeps_labels build_c0_graph n st"
  by (auto simp: keeps_labels_def builder_defs graph_defs spec_defs id_defs execution_routes_def completed_def
      a2_fan_out_def a3_fan_out_def b1_query_fan_out_def b1_detector_fan_out_def)

lemma shared_selectors_keep_labels:
  "route_for n st \<in> set (ns_routes (s01_spec n)) \<Longrightarrow> keeps_labels build_s01_graph n st"
  "route_for n st \<in> set (ns_routes (s02_spec n)) \<Longrightarrow> keeps_labels build_s02_graph n st"
  "route_for n st \<in> set (ns_routes (s03_spec n)) \<Longrightarrow> keeps_labels build_s03_graph n st"
  "route_for n st \<in> set (ns_routes (s04_spec n)) \<Longrightarrow> keeps_labels build_s04_graph n st"
  "route_for n st \<in> set (ns_routes (s05_spec n)) \<Longrightarrow> keeps_labels build_s05_graph n st"
  "route_for n st \<in> set (ns_routes (s06_spec n)) \<Longrightarrow> keeps_labels build_s06_graph n st"
  "route_for n st \<in> set (ns_routes (s07_spec n)) \<Longrightarrow> keeps_labels build_s07_graph n st"
  by (auto simp: keeps_labels_def builder_defs graph_defs spec_defs id_defs)

lemma stage_selectors_keep_labels:
  assumes "(g, spec) \<in> set stage_graphs" and "route_for n st \<in> set (ns_routes (spec n))"
  shows "keeps_labels g n st"
  using assms lane_selectors_keep_labels shared_selectors_keep_labels
  unfolding stage_graphs_def by auto

section \<open>The outer graphs\<close>

lemma gr_shared:
  "gr_branches build_shared_workflow_graph =
     [(''S01'', completed ''S01.90'', [(''continue'', ''S02''), (''halt'', END)]),
      (''S02'', completed ''S02.90'', [(''continue'', ''S03''), (''halt'', END)]),
      (''S03'', completed ''S03.90'', [(''continue'', ''S04''), (''halt'', END)]),
      (''S04'', verification_outcome, [(''pass'', ''S05''), (''revision'', ''S03''), (''halt'', END)]),
      (''S05'', completed ''S05.90'', [(''continue'', ''S06''), (''halt'', END)]),
      (''S06'', policy_outcome,
        [(''keep'', ''S07''), (''fix_one_part'', ''S03''), (''revert'', ''S01''), (''escalate'', END), (''halt'', END)])]"
  "gr_edges build_shared_workflow_graph = [(START, ''S01''), (''S07'', END)]"
  by (simp_all add: build_shared_workflow_graph_def builder_defs)

lemma shared_targets:
  "edge_targets build_shared_workflow_graph ''S02'' st =
     Inr [if ''S02.90'' \<in> set (get_strs st ''completed_nodes'') then ''S03'' else END]"
  "edge_targets build_shared_workflow_graph ''S04'' st =
     Inr [if ''S04.90'' \<notin> set (get_strs st ''completed_nodes'') then END
          else if gate_passed st then ''S05''
          else if get_int st ''s03_revision_attempts'' < max_phase_repair_attempts then ''S03'' else END]"
  "edge_targets build_shared_workflow_graph ''S06'' st =
     Inr [if route_for ''S06.90'' st \<noteq> ''continue'' then END
          else case get_outcome st of
              Some KEEP \<Rightarrow> ''S07''
            | Some FIX_ONE_PART \<Rightarrow> if get_int st ''s03_revision_attempts'' < max_phase_repair_attempts then ''S03'' else END
            | Some REVERT \<Rightarrow> ''S01''
            | _ \<Rightarrow> END]"
  by (auto simp: edge_targets_def gr_shared START_def branch_targets_def path_target_def completed_def
      verification_outcome_def policy_outcome_def split: option.splits outcome.splits)

section \<open>What a committed node leaves in the state\<close>

lemma apply_updates_field:
  assumes "apply_updates st upd = Inr st'" and "distinct (keys upd)" and "map_of upd k = Some v"
  shows "\<exists>x. reduce_field k (st k) v = Inr x \<and> st' k = Some x"
  using assms
proof (induction upd arbitrary: st)
  case (Cons u upd)
  from Cons.prems(1) obtain y where y: "reduce_field (fst u) (st (fst u)) (snd u) = Inr y"
    and rest: "apply_updates (st(fst u \<mapsto> y)) upd = Inr st'"
    by (auto simp: apply_updates_def apply_update_def bindR_Inr_iff)
  show ?case
  proof (cases "fst u = k")
    case True
    then have "k \<notin> set (keys upd)" "snd u = v" using Cons.prems(2,3) by (auto split: if_splits)
    then show ?thesis using apply_updates_other[OF rest] y True by simp
  next
    case False
    then show ?thesis using Cons.IH[OF rest] Cons.prems(2,3) by (auto split: if_splits)
  qed
qed simp

lemma committed_node_is_completed:
  assumes "apply_updates st (commit node ex st) = Inr st'" and "distinct (keys (ex_updates ex))"
  shows "node \<in> set (get_strs st' ''completed_nodes'')"
proof -
  have "distinct (keys (commit node ex st))"
    using assms(2) by (simp add: commit_def Let_def distinct_update)
  moreover have "map_of (commit node ex st) ''completed_nodes'' = Some (VStrs [node])"
    by (simp add: commit_def Let_def update_conv')
  ultimately obtain x where "reduce_field ''completed_nodes'' (st ''completed_nodes'') (VStrs [node]) = Inr x"
    and "st' ''completed_nodes'' = Some x"
    using apply_updates_field[OF assms(1)] by blast
  then show ?thesis
    by (auto simp: reduce_field_def bindR_Inr_iff merge_node_ids_eq get_strs_def split: if_splits)
qed

section \<open>Properties\<close>



text \<open>Graphs and node contracts agree: for every node of every stage, whichever route its contract
  allows was recorded, the edge out of the node finds a target (the path map never misses a label)
  and the target is a declared node or the end.\<close>

theorem stage_routing_total:
  assumes "(g, spec) \<in> set stage_graphs" and "route_for n st \<in> set (ns_routes (spec n))"
  shows "\<exists>ts. edge_targets g n st = Inr ts \<and> set ts \<subseteq> set (END # node_names g)"
proof (rule edge_targets_total)
  show "well_formed g" using assms(1) by (intro graphs_checked(1)) force
  show "keeps_labels g n st" using assms by (rule stage_selectors_keep_labels)
qed

theorem stage_routing_total_witness:
  "(build_s01_graph, s01_spec) \<in> set stage_graphs \<and>
   (\<exists>ts. edge_targets build_s01_graph ''S01.80'' [''node_routes'' \<mapsto> VRoutes [(''S01.80'', ''approval'')]] = Inr ts)"
proof -
  have g: "(build_s01_graph, s01_spec) \<in> set stage_graphs" by (simp add: stage_graphs_def)
  have r: "route_for ''S01.80'' [''node_routes'' \<mapsto> VRoutes [(''S01.80'', ''approval'')]] \<in> set (ns_routes (s01_spec ''S01.80''))"
    by (simp add: route_for_def latest_route_key_def latest_slot.simps route_slot_def get_routes_def s01_spec_def s01_routes_def)
  show ?thesis using stage_routing_total[OF g r] g by blast
qed

text \<open>C28. The plan approval gate of the shared workflow does not read the decision: once S02.90 has
  been committed, with whatever route, the edge after S02 leads to the implementation stage, also
  when S02.90 halted for approval or rejected the plan. And a rejected scope check at S02.10 leads to
  S02.20 like an accepted one.\<close>

theorem plan_gate_ignores_the_decision:
  assumes "apply_updates st (commit ''S02.90'' ex st) = Inr st'" and "distinct (keys (ex_updates ex))"
  shows "edge_targets build_shared_workflow_graph ''S02'' st' = Inr [''S03''] \<and>
    {''approval'', ''rejected''} \<subseteq> set (ns_routes (s02_spec ''S02.90'')) \<and>
    ''rejected'' \<in> set (ns_routes (s02_spec ''S02.10'')) \<and>
    edge_targets build_s02_graph ''S02.10'' st'' = Inr [''S02.20'']"
proof -
  have "edge_targets build_s02_graph ''S02.10'' st'' = Inr [''S02.20'']"
    by (subst edge_targets_plain) (simp_all add: build_s02_graph_def builder_defs s02_node_ids_def START_def)
  then show ?thesis
    using committed_node_is_completed[OF assms] by (simp add: shared_targets s02_spec_def s02_routes_def)
qed

definition rejected_plan :: node_execution where
  "rejected_plan = \<lparr>ex_route = REJECTED, ex_updates = []\<rparr>"

theorem plan_gate_ignores_the_decision_witness:
  "\<exists>st'. apply_updates Map.empty (commit ''S02.90'' rejected_plan Map.empty) = Inr st' \<and>
     edge_targets build_shared_workflow_graph ''S02'' st' = Inr [''S03'']"
proof -
  have "\<exists>st'. apply_updates Map.empty (commit ''S02.90'' rejected_plan Map.empty) = Inr st'"
    by (simp add: apply_updates_def apply_update_def commit_def rejected_plan_def reduce_field_def latest_node_def
        merge_node_ids_eq wf_node_id_def parse_decimal_def is_digit_def merge_node_routes_def merge_route_def
        next_route_key_def latest_route_key_def get_routes_def)
  then obtain st' where s: "apply_updates Map.empty (commit ''S02.90'' rejected_plan Map.empty) = Inr st'" by blast
  have "distinct (keys (ex_updates rejected_plan))" by (simp add: rejected_plan_def)
  from plan_gate_ignores_the_decision[OF s this] s show ?thesis by blast
qed

text \<open>Entering a case: when \<open>_initialize\<close> accepts the state, the case has its identity, its lane
  fits its entrypoint, and the root sends a manual case to lane A with active collection, a
  discovery or qualified case to lane B with historical recovery, where lane B in turn accepts it;
  any other entrypoint is refused by the path map.\<close>

theorem root_entry:
  assumes "initialize_case st = Inr upd" and "apply_updates st upd = Inr st'"
  shows "\<exists>e. get_str st' ''entrypoint'' = Some e \<and>
    (e = ''manual'' \<longrightarrow> edge_targets root_graph ''initialize_case'' st' = Inr [''lane_a''] \<and>
       get_str st' ''lane'' = Some ''manual'' \<and> get_str st' ''baseline_mode'' = Some ''active_collection'') \<and>
    (e \<in> {''discovery'', ''qualified''} \<longrightarrow> edge_targets root_graph ''initialize_case'' st' = Inr [''lane_b''] \<and>
       get_str st' ''lane'' = Some ''automatic'' \<and> get_str st' ''baseline_mode'' = Some ''historical_recovery'' \<and>
       edge_targets build_lane_b_graph START st' = Inr [if e = ''discovery'' then ''B1'' else ''B2_proposal'']) \<and>
    (e \<notin> {''manual'', ''discovery'', ''qualified''} \<longrightarrow>
       edge_targets root_graph ''initialize_case'' st' = Inl (KeyError e))"
proof -
  let ?mode = "VStr (if get_str st ''entrypoint'' = Some ''manual'' then ''active_collection'' else ''historical_recovery'')"
  have upd: "upd = [(''status'', VStr ''running''), (''current_node'', VStr ''initialize_case''), (''baseline_mode'', ?mode)]"
    and lane: "get_str st ''lane'' = Some (if get_str st ''entrypoint'' = Some ''manual'' then ''manual'' else ''automatic'')"
    and entry: "truthy (get_str st ''entrypoint'')"
    using assms(1) by (auto simp: initialize_case_def Let_def split: if_splits)
  have same: "st' ''entrypoint'' = st ''entrypoint''" "st' ''lane'' = st ''lane''"
    using apply_updates_other[OF assms(2)] by (simp_all add: upd)
  have mode: "st' ''baseline_mode'' = Some ?mode"
    using apply_updates_field[OF assms(2), of "''baseline_mode''" ?mode]
    by (simp add: upd reduce_field_def summed_list_fields_def)
  obtain e where e: "get_str st ''entrypoint'' = Some e" using entry by (auto simp: truthy_def)
  have gr: "gr_branches root_graph = [(''initialize_case'', route_entrypoint,
      [(''manual'', ''lane_a''), (''discovery'', ''lane_b''), (''qualified'', ''lane_b'')])]"
    "gr_edges root_graph = [(START, ''initialize_case''), (''lane_a'', END), (''lane_b'', END)]"
    "gr_branches build_lane_b_graph = [(START, route_lane_b_entrypoint, [(''discovery'', ''B1''), (''qualified'', ''B2_proposal'')])]"
    "gr_edges build_lane_b_graph = [(''B1'', END), (''B2_proposal'', END)]"
    by (simp_all add: root_graph_def build_lane_b_graph_def builder_defs)
  have e': "get_str st' ''entrypoint'' = Some e" "get_str st' ''lane'' = get_str st ''lane''"
    "get_str st' ''baseline_mode'' = Some (if e = ''manual'' then ''active_collection'' else ''historical_recovery'')"
    using e same mode by (simp_all add: get_str_def)
  show ?thesis
    using e e' lane by (simp add: edge_targets_def branch_targets_def gr START_def route_entrypoint_def path_target_def
        route_lane_b_entrypoint_def)
qed

definition manual_case :: state where
  "manual_case = [''case_id'' \<mapsto> VStr ''case-1'', ''thread_id'' \<mapsto> VStr ''thread-1'', ''tenant_id'' \<mapsto> VStr ''acme'',
     ''entrypoint'' \<mapsto> VStr ''manual'', ''lane'' \<mapsto> VStr ''manual'']"

theorem root_entry_witness:
  "\<exists>upd st'. initialize_case manual_case = Inr upd \<and> apply_updates manual_case upd = Inr st' \<and>
     edge_targets root_graph ''initialize_case'' st' = Inr [''lane_a'']"
proof -
  obtain upd where u: "initialize_case manual_case = Inr upd"
    by (simp add: initialize_case_def manual_case_def get_str_def truthy_def Let_def)
  then have "upd = [(''status'', VStr ''running''), (''current_node'', VStr ''initialize_case''),
      (''baseline_mode'', VStr ''active_collection'')]"
    by (simp add: initialize_case_def manual_case_def get_str_def truthy_def Let_def)
  then obtain st' where s: "apply_updates manual_case upd = Inr st'" "st' ''entrypoint'' = Some (VStr ''manual'')"
    by (simp add: apply_updates_def apply_update_def reduce_field_def summed_list_fields_def latest_node_def manual_case_def)
  from root_entry[OF u s(1)] s(2) have "edge_targets root_graph ''initialize_case'' st' = Inr [''lane_a'']"
    by (auto simp: get_str_def)
  then show ?thesis using u s(1) by blast
qed

end
