(* ===== verification/Planning.thy ===== *)
theory Planning
  imports Policy_Decision
begin

text \<open>
  Step 02, plan and task list (\<open>application/s02_handlers/\<close>): materializing the drafted phases and
  tasks, path repair, criterion coverage, the rollback rule, grounding of the critic's verdict, the
  deterministic quality gate S02.81 with its dependency-cycle check, and the approval gate S02.90.
  The file system and the language model are parameters; the wording of the prompts is left to the
  parameters \<open>plan_prompt\<close> and \<open>critic_prompt\<close>. Text is lower-cased as ASCII; \<open>fmt\<close> is Python's
  printing of a float.
\<close>

section \<open>Text and paths\<close>

definition lower_char :: "char \<Rightarrow> char" where
  "lower_char c = (if of_char c \<in> {65..90 :: nat} then char_of (of_char c + 32 :: nat) else c)"

definition lower :: "string \<Rightarrow> string" where
  "lower s = map lower_char s"

fun contains :: "string \<Rightarrow> string \<Rightarrow> bool" where
  "contains p [] = (p = [])"
| "contains p (c # s) = (startswith (c # s) p \<or> contains p s)"

fun split_on :: "char \<Rightarrow> string \<Rightarrow> string list" where
  "split_on c [] = [[]]"
| "split_on c (x # xs) =
     (if x = c then [] # split_on c xs
      else case split_on c xs of [] \<Rightarrow> [[x]] | w # ws \<Rightarrow> (x # w) # ws)"

definition normalize_repo_path :: "string \<Rightarrow> string" where
  "normalize_repo_path p =
     dropWhile (\<lambda>c. c = CHR ''.'' \<or> c = CHR ''/'') (map (\<lambda>c. if c = CHR 0x5C then CHR ''/'' else c) p)"

text \<open>What the handlers ask the file system.\<close>

record 'w files =
  fs_exists :: "string \<Rightarrow> string \<Rightarrow> 'w \<Rightarrow> bool"                    \<comment> \<open>\<open>(root / path).exists()\<close>\<close>
  fs_tree :: "string \<Rightarrow> 'w \<Rightarrow> string list option"               \<comment> \<open>the files of \<open>root.rglob\<close>, none without \<open>root\<close>\<close>
  fs_glob :: "string \<Rightarrow> string \<Rightarrow> string \<Rightarrow> 'w \<Rightarrow> string list"    \<comment> \<open>root, directory and stem\<close>
  fs_is_dir :: "string \<Rightarrow> 'w \<Rightarrow> bool"

definition ignored_path_parts :: "string list" where
  "ignored_path_parts = [''.git'', ''.hg'', ''.mypy_cache'', ''.pytest_cache'', ''.ruff_cache'', ''.venv'',
     ''__pycache__'', ''dist'', ''node_modules'', ''target'', ''vendor'']"

definition path_scan_limit :: nat where
  "path_scan_limit = 5000"

definition repository_file_paths :: "'w files \<Rightarrow> source_snapshot \<Rightarrow> 'w \<Rightarrow> string list" where
  "repository_file_paths fs snapshot w =
     (let listed = sorted_set (map normalize_repo_path (filter (\<lambda>f. \<not> blank f) (map fi_path (sn_files snapshot)))) in
      if listed \<noteq> [] then listed
      else case fs_tree fs (sn_path snapshot) w of
          None \<Rightarrow> []
        | Some found \<Rightarrow> sort (take path_scan_limit (map normalize_repo_path
            (filter (\<lambda>f. \<not> list_ex (\<lambda>part. part \<in> set ignored_path_parts) (split_on CHR ''/'' f)) found))))"

definition basename :: "string \<Rightarrow> string" where
  "basename p = last (split_on CHR ''/'' p)"

definition endswith :: "string \<Rightarrow> string \<Rightarrow> bool" where
  "endswith s p \<longleftrightarrow> startswith (rev s) (rev p)"

text \<open>The loop over suffixes of \<open>n\<close>, \<open>n - 1\<close>, \dots, 1 path parts.\<close>

fun unique_suffix_match :: "string list \<Rightarrow> string list \<Rightarrow> nat \<Rightarrow> string option" where
  "unique_suffix_match parts allowed 0 = None"
| "unique_suffix_match parts allowed (Suc n) =
     (case filter (\<lambda>p. endswith p (join ''/'' (drop (length parts - Suc n) parts))) allowed of
        [m] \<Rightarrow> Some m
      | _ \<Rightarrow> unique_suffix_match parts allowed n)"

definition resolve_existing_task_file :: "string \<Rightarrow> string list \<Rightarrow> string option" where
  "resolve_existing_task_file raw allowed =
     (let normalized = normalize_repo_path raw; parts = filter (\<lambda>p. p \<noteq> []) (split_on CHR ''/'' normalized) in
      if normalized \<in> set allowed then Some normalized
      else case unique_suffix_match parts allowed (min (length parts) 4) of
          Some m \<Rightarrow> Some m
        | None \<Rightarrow>
            (case filter (\<lambda>p. basename p = (if parts \<noteq> [] then last parts else normalized)) allowed of
               [m] \<Rightarrow> Some m
             | _ \<Rightarrow> None))"

definition repair_file :: "string list \<Rightarrow> string \<Rightarrow> string \<times> string option" where
  "repair_file allowed raw =
     (let normalized = normalize_repo_path raw in
      case resolve_existing_task_file normalized allowed of
        None \<Rightarrow> (normalized, None)
      | Some resolved \<Rightarrow> (resolved, if resolved \<noteq> normalized then Some (raw @ '' -> '' @ resolved) else None))"

definition repair_task_file_paths :: "string list \<Rightarrow> string list \<Rightarrow> string list \<times> string list" where
  "repair_task_file_paths files allowed =
     (let rs = map (repair_file allowed) files in (map fst rs, List.map_filter snd rs))"

definition path_resolution_failures :: "plan_task list \<Rightarrow> string list \<Rightarrow> string list" where
  "path_resolution_failures tasks allowed =
     concat (map (\<lambda>t. map (\<lambda>f. tk_id t @ '': '' @ f @ '' does not exist and is not marked proposed_creation'')
       (filter (\<lambda>f. \<not> tk_creation t \<and> normalize_repo_path f \<notin> set allowed) (tk_files t))) tasks)"

section \<open>Metadata of a phase\<close>

fun risk_tier_name :: "risk_tier \<Rightarrow> string" where
  "risk_tier_name ExperimentConfig = ''experiment_config''"
| "risk_tier_name Prompt = ''prompt''"
| "risk_tier_name Code = ''code''"
| "risk_tier_name Architecture = ''architecture''"

definition phase_template_risk_tier :: "phase_template \<Rightarrow> solution_strategy \<Rightarrow> risk_tier" where
  "phase_template_risk_tier t s =
     (let factors = join '' '' (map lower (tp_risk_factors t)); variable = lower (tp_variable t) in
      if contains ''architecture'' factors \<or> contains ''migration'' factors then Architecture
      else if contains ''prompt'' factors \<or> contains ''prompt'' variable then Prompt
      else if contains ''config'' factors \<or> contains ''configuration'' factors \<or> contains ''config'' variable
      then ExperimentConfig
      else if tp_kind t = Diagnostic then ExperimentConfig
      else st_risk_ceiling s)"

definition phase_template_risk_tiers :: "solution_strategy \<Rightarrow> risk_tier dict" where
  "phase_template_risk_tiers s = py_dict (map (\<lambda>t. (tp_id t, phase_template_risk_tier t s)) (st_templates s))"

definition strategy_validation_command_ids :: "solution_strategy \<Rightarrow> optimization_request option \<Rightarrow> string list" where
  "strategy_validation_command_ids s request =
     (if st_test_commands s \<noteq> [] then st_test_commands s
      else case request of None \<Rightarrow> [] | Some r \<Rightarrow> req_evaluations r)"

text \<open>\<open>ExecutionPhase.model_validate\<close>: strings are stripped, then the field constraints hold.\<close>

definition validate_phase :: "raw_phase \<Rightarrow> risk_tier \<Rightarrow> string list \<Rightarrow> string list \<Rightarrow> execution_phase option" where
  "validate_phase raw risk affected commands =
     (let p = \<lparr>ph_id = strip (rp_id raw), ph_sequence = rp_sequence raw, ph_kind = rp_kind raw, ph_risk = risk,
                ph_treatment = \<lparr>pt_variable = strip (pt_variable (rp_treatment raw)),
                  pt_before = strip (pt_before (rp_treatment raw)), pt_after = strip (pt_after (rp_treatment raw))\<rparr>,
                ph_done = map strip (rp_done raw), ph_affected = map strip affected, ph_validation = map strip commands,
                ph_rollback = map_option strip (rp_rollback raw), ph_trigger = strip (rp_trigger raw),
                ph_deadline = rp_deadline raw\<rparr> in
      if valid_phase p then Some p else None)"

definition unknown_id :: "string \<Rightarrow> string" where
  "unknown_id s = (if s = [] then ''<unknown>'' else s)"

text \<open>One iteration of the loop of S02.40: the phase or the failure, and the metadata repairs.\<close>

definition materialize_phase :: "risk_tier dict \<Rightarrow> solution_strategy \<Rightarrow> string list \<Rightarrow> string list \<Rightarrow> raw_phase \<Rightarrow>
    (string + execution_phase) \<times> string list" where
  "materialize_phase tiers s affected commands raw =
     (let pid = unknown_id (rp_id raw);
          risk = (case rp_risk raw of Some r \<Rightarrow> r | None \<Rightarrow> dict_get tiers pid (st_risk_ceiling s));
          repairs = (if rp_risk raw = None then [pid @ '': risk_tier missing/invalid''] else []) @
                    (if rp_affected raw = [] then [pid @ '': filled affected_criteria''] else []) @
                    (if rp_validation raw = [] then [pid @ '': filled validation_command_ids''] else []) in
      (case validate_phase raw risk (if rp_affected raw = [] then affected else rp_affected raw)
              (if rp_validation raw = [] then commands else rp_validation raw) of
         None \<Rightarrow> Inl (rp_id raw @ '': validation error'')
       | Some p \<Rightarrow> Inr p, repairs))"

definition rights :: "('a + 'b) list \<Rightarrow> 'b list" where
  "rights xs = List.map_filter (case_sum (\<lambda>_. None) Some) xs"

definition lefts :: "('a + 'b) list \<Rightarrow> 'a list" where
  "lefts xs = List.map_filter (case_sum Some (\<lambda>_. None)) xs"

definition materialize_phases :: "risk_tier dict \<Rightarrow> solution_strategy \<Rightarrow> string list \<Rightarrow> string list \<Rightarrow> raw_phase list \<Rightarrow>
    execution_phase list \<times> string list \<times> string list" where
  "materialize_phases tiers s affected commands raws =
     (let rs = map (materialize_phase tiers s affected commands) raws in
      (rights (map fst rs), lefts (map fst rs), concat (map snd rs)))"

section \<open>Tasks\<close>

definition validate_task :: "raw_task \<Rightarrow> string list \<Rightarrow> plan_task option" where
  "validate_task raw files =
     (let t = \<lparr>tk_id = strip (rt_id raw), tk_phase = strip (rt_phase raw), tk_objective = strip (rt_objective raw),
                tk_files = map strip files, tk_symbols = map strip (rt_symbols raw), tk_depends = map strip (rt_depends raw),
                tk_creation = rt_creation raw, tk_instructions = strip (rt_instructions raw), tk_owner = strip (rt_owner raw)\<rparr> in
      if valid_task t then Some t else None)"

definition materialize_task :: "string list \<Rightarrow> string list \<Rightarrow> raw_task \<Rightarrow> (string + plan_task) \<times> string list" where
  "materialize_task allowed known raw =
     (let (files, notes) = repair_task_file_paths (rt_files raw) allowed in
      (case validate_task raw files of
         None \<Rightarrow> Inl (rt_id raw @ '': validation error'')
       | Some t \<Rightarrow> if tk_phase t \<notin> set known then Inl (tk_id t @ '': references unknown phase '' @ tk_phase t) else Inr t,
       map (\<lambda>n. rt_id raw @ '': '' @ n) notes))"

definition materialize_tasks :: "string list \<Rightarrow> string list \<Rightarrow> raw_task list \<Rightarrow>
    plan_task list \<times> string list \<times> string list" where
  "materialize_tasks allowed known raws =
     (let rs = map (materialize_task allowed known) raws in
      (rights (map fst rs), lefts (map fst rs), concat (map snd rs)))"

section \<open>Coverage and rollback\<close>

fun direction_name :: "criterion_direction \<Rightarrow> string" where
  "direction_name Minimize = ''minimize''"
| "direction_name Maximize = ''maximize''"
| "direction_name Target = ''target''"

definition mentions_criterion :: "(rat \<Rightarrow> string) \<Rightarrow> criterion \<Rightarrow> string \<Rightarrow> bool" where
  "mentions_criterion fmt c line \<longleftrightarrow>
     (let metric = contains (lower (cr_metric c)) line; target = contains (lower (fmt (cr_target c))) line in
      contains (lower (cr_id c)) line \<and> metric \<and>
        (target \<or> contains (direction_name (cr_direction c)) line \<or> contains (cr_aggregation c) line) \<or>
      metric \<and> target)"

definition criterion_covered :: "(rat \<Rightarrow> string) \<Rightarrow> execution_phase list \<Rightarrow> optimization_request option \<Rightarrow> string \<Rightarrow> bool" where
  "criterion_covered fmt phases request cid =
     (let affecting = filter (\<lambda>p. cid \<in> set (ph_affected p)) phases;
          lines = concat (map (\<lambda>p. map lower (ph_done p)) affecting) in
      affecting \<noteq> [] \<and> list_ex (\<lambda>p. ph_validation p \<noteq> []) affecting \<and>
      (case (case request of None \<Rightarrow> None
             | Some r \<Rightarrow> map_of (py_dict (map (\<lambda>c. (cr_id c, c)) (req_criteria r))) cid) of
         None \<Rightarrow> list_ex (contains (lower cid)) lines
       | Some c \<Rightarrow> list_ex (mentions_criterion fmt c) lines))"

definition criterion_coverage :: "(rat \<Rightarrow> string) \<Rightarrow> execution_phase list \<Rightarrow> solution_strategy \<Rightarrow>
    optimization_request option \<Rightarrow> bool dict" where
  "criterion_coverage fmt phases s request =
     py_dict (map (\<lambda>i. (ci_criterion i, criterion_covered fmt phases request (ci_criterion i))) (st_impacts s))"

definition rollback_gaps :: "execution_phase list \<Rightarrow> string list" where
  "rollback_gaps phases =
     map (\<lambda>p. ph_id p @ '': implementation phase has no rollback_command'')
       (filter (\<lambda>p. ph_kind p = Implementation \<and> ph_rollback p = None) phases)"

section \<open>The critic's verdict\<close>

definition rollback_markers :: "string list" where
  "rollback_markers = [''rollback=none'', ''rollback = none'', ''no rollback'', ''without rollback'', ''missing rollback'',
     ''rollback is none'', ''lacks rollback'', ''rollback command is not'', ''has no rollback'', ''null rollback'']"

definition contradicts_diagnostic_rollback_rule :: "string \<Rightarrow> string list \<Rightarrow> bool" where
  "contradicts_diagnostic_rollback_rule message diagnostic =
     (let text = lower message in
      list_ex (\<lambda>pid. contains pid text) diagnostic \<and> contains ''rollback'' text \<and>
      list_ex (\<lambda>marker. contains marker text) rollback_markers)"

definition critique_anchors :: "execution_phase list \<Rightarrow> plan_task list \<Rightarrow> bool dict \<Rightarrow> string list \<Rightarrow> string list" where
  "critique_anchors phases tasks coverage reasons =
     map (\<lambda>p. lower (ph_id p)) phases @ map (\<lambda>p. lower (pt_variable (ph_treatment p))) phases @
     map (\<lambda>t. lower (tk_id t)) tasks @ concat (map (\<lambda>t. map lower (tk_files t)) tasks) @
     map (\<lambda>c. lower (fst c)) coverage @
     [''criteria'', ''criterion'', ''done_criteria'', ''rollback'', ''dependency''] @ map lower reasons"

definition diagnostic_phase_ids :: "execution_phase list \<Rightarrow> string list" where
  "diagnostic_phase_ids phases = map (\<lambda>p. lower (ph_id p)) (filter (\<lambda>p. ph_kind p = Diagnostic) phases)"

text \<open>The reply of the critic, with the types of its response schema.\<close>

record critic_reply =
  ct_omissions :: "string list"
  ct_concerns :: "string list"
  ct_approved :: bool

definition grounded_critique :: "critic_reply \<Rightarrow> execution_phase list \<Rightarrow> plan_task list \<Rightarrow> bool dict \<Rightarrow> string list \<Rightarrow>
    critique" where
  "grounded_critique reply phases tasks coverage reasons =
     (let omissions = filter (\<lambda>m. \<not> blank m) (ct_omissions reply);
          concerns = filter (\<lambda>m. \<not> blank m) (ct_concerns reply);
          anchors = critique_anchors phases tasks coverage reasons;
          diagnostic = diagnostic_phase_ids phases;
          grounded = (\<lambda>m. list_ex (\<lambda>a. a \<noteq> [] \<and> contains a (lower m)) anchors);
          actionable = (\<lambda>m. grounded m \<and> \<not> contradicts_diagnostic_rollback_rule m diagnostic);
          omissions' = filter actionable omissions; concerns' = filter actionable concerns in
      \<lparr>cq_omissions = omissions', cq_concerns = concerns',
       cq_ignored = filter (\<lambda>m. m \<notin> set omissions' \<and> m \<notin> set concerns') (omissions @ concerns),
       cq_approved = (ct_approved reply \<or>
         omissions @ concerns \<noteq> [] \<and>
         list_all (\<lambda>m. contradicts_diagnostic_rollback_rule m diagnostic) (omissions @ concerns))\<rparr>)"

section \<open>One bounded repair of a model reply\<close>

record model_request =
  mq_messages :: "(string \<times> string) list"   \<comment> \<open>role and content\<close>
  mq_key :: string

record 'a completion =
  co_valid :: bool
  co_parsed :: "'a option"
  co_tokens :: int

definition one_repair_complete :: "(model_request \<Rightarrow> ('w, 'a completion) io) \<Rightarrow> model_request \<Rightarrow> ('w, 'a option \<times> int) io" where
  "one_repair_complete ask request =
     bindI (ask request) (\<lambda>first.
     bindI (if co_valid first then retI (first, co_tokens first)
            else bindI (ask \<lparr>mq_messages = mq_messages request @ [(''user'',
                     ''Your previous reply did not match the required JSON schema. Reply again with only a valid tool call matching the schema.'')],
                     mq_key = mq_key request @ '':repair-1''\<rparr>)
                   (\<lambda>second. retI (second, co_tokens first + co_tokens second))) (\<lambda>(result, tokens).
     retI (if co_valid result then co_parsed result else None, tokens)))"

section \<open>The deterministic checks\<close>

text \<open>A measure for the search below: going down, a new task of the graph joins the path; going along, the
  list of dependencies gets shorter.\<close>

definition visit_measure :: "(string list dict \<times> string list \<times> string list \<times> string) +
    (string list dict \<times> string list \<times> string list \<times> string list) \<Rightarrow> nat \<times> nat" where
  "visit_measure call =
     (case call of
        Inl (g, path, _, _) \<Rightarrow> (card (set (keys g) - set path), 0)
      | Inr (g, path, _, ds) \<Rightarrow> (card (set (keys g) - set path), length ds))"

lemma visit_path_smaller:
  assumes "map_of g t = Some deps" and "t \<notin> set path"
  shows "card (fst ` set g - insert t (set path)) < card (fst ` set g - set path)"
proof (rule psubset_card_mono)
  have "t \<in> fst ` set g" using map_of_SomeD[OF assms(1)] by (metis fst_conv image_eqI)
  then show "fst ` set g - insert t (set path) \<subset> fst ` set g - set path" using assms(2) by blast
qed simp

text \<open>The depth-first search of \<open>_check_acyclic\<close>: \<open>path\<close> is the set \<open>visiting\<close>, the result is the new
  \<open>visited\<close>, or \<open>None\<close> when the search meets a task it is visiting.\<close>

function (sequential) visit :: "string list dict \<Rightarrow> string list \<Rightarrow> string list \<Rightarrow> string \<Rightarrow> string list option"
  and visit_deps :: "string list dict \<Rightarrow> string list \<Rightarrow> string list \<Rightarrow> string list \<Rightarrow> string list option" where
  "visit g path visited t =
     (if t \<in> set visited then Some visited
      else if t \<in> set path then None
      else case map_of g t of
          None \<Rightarrow> Some (t # visited)
        | Some deps \<Rightarrow> (case visit_deps g (t # path) visited deps of None \<Rightarrow> None | Some v \<Rightarrow> Some (t # v)))"
| "visit_deps g path visited [] = Some visited"
| "visit_deps g path visited (d # ds) =
     (if d \<in> set (keys g)
      then case visit g path visited d of None \<Rightarrow> None | Some v \<Rightarrow> visit_deps g path v ds
      else visit_deps g path visited ds)"
  by pat_completeness auto

termination
  by (relation "inv_image (less_than <*lex*> less_than) visit_measure")
    (auto simp: visit_measure_def visit_path_smaller)

definition dependency_graph :: "plan_task list \<Rightarrow> string list dict" where
  "dependency_graph tasks = py_dict (map (\<lambda>t. (tk_id t, tk_depends t)) tasks)"

fun visit_all :: "string list dict \<Rightarrow> string list \<Rightarrow> string list \<Rightarrow> string option" where
  "visit_all g visited [] = None"
| "visit_all g visited (t # ts) =
     (case visit g [] visited t of None \<Rightarrow> Some t | Some v \<Rightarrow> visit_all g v ts)"

definition check_acyclic :: "plan_task list \<Rightarrow> bool \<times> string option" where
  "check_acyclic tasks =
     (let g = dependency_graph tasks in
      case visit_all g [] (keys g) of
        None \<Rightarrow> (True, None)
      | Some t \<Rightarrow> (False, Some (''dependency cycle detected involving '' @ t)))"

definition check_phase_risk_order :: "execution_phase list \<Rightarrow> bool \<times> string option" where
  "check_phase_risk_order phases =
     (let diagnostic = map ph_sequence (filter (\<lambda>p. ph_kind p = Diagnostic) phases);
          implementation = map ph_sequence (filter (\<lambda>p. ph_kind p = Implementation) phases) in
      if diagnostic = [] \<or> implementation = [] then (True, None)
      else if Max (set diagnostic) < Min (set implementation) then (True, None)
      else (False, Some ''diagnostic phase sequences do not all precede implementation phase sequences''))"

definition check_risk_ladder_order :: "execution_phase list \<Rightarrow> bool \<times> string option" where
  "check_risk_ladder_order phases =
     (let tiers = map (\<lambda>p. risk_tier_order (ph_risk p)) (sort_key ph_sequence phases) in
      if tiers = sort tiers then (True, None)
      else (False, Some ''phase risk_tier ordering violates risk ladder''))"

section \<open>What the handlers read\<close>

definition s02_policy_version :: string where
  "s02_policy_version = ''s02-plan-v1''"

definition max_s02_revisions :: int where
  "max_s02_revisions = 2"

definition decode_manifest :: "body \<Rightarrow> repository_manifest result" where
  "decode_manifest b = (case b of BManifest m \<Rightarrow> Inr m | _ \<Rightarrow> Inl (ValidationError ''RepositoryManifest''))"

definition read_snapshot :: "'w node_ports \<Rightarrow> state \<Rightarrow> ('w, source_snapshot) io" where
  "read_snapshot ports st =
     bindI (liftI (require_ref st ''SourceSnapshot'')) (\<lambda>ref. read_model ports st ref decode_snapshot)"

definition read_manifest :: "'w node_ports \<Rightarrow> state \<Rightarrow> ('w, repository_manifest) io" where
  "read_manifest ports st =
     bindI (liftI (require_ref st ''RepositoryManifest'')) (\<lambda>ref. read_model ports st ref decode_manifest)"

definition read_optional_request :: "'w node_ports \<Rightarrow> state \<Rightarrow> ('w, optimization_request option) io" where
  "read_optional_request ports st =
     (case try_ref st ''OptimizationRequest'' of
        None \<Rightarrow> retI None
      | Some ref \<Rightarrow> bindI (read_model ports st ref decode_request) (\<lambda>r. retI (Some r)))"

definition selected_solution_ref :: "state \<Rightarrow> artifact_ref result" where
  "selected_solution_ref st = require_stage_ref st (''S01.90-pass'' @ str_nat (s01_pass_number st)) ''SelectedSolution''"

definition strategy_by_id :: "portfolio \<Rightarrow> string \<Rightarrow> solution_strategy result" where
  "strategy_by_id p sid =
     (case find (\<lambda>s. st_id s = sid) p of
        None \<Rightarrow> Inl (ValueError ''strategy not found in SolutionPortfolio'')
      | Some s \<Rightarrow> Inr s)"

text \<open>The id of the selected strategy and the portfolio, which every node of S02 reads first.\<close>

definition read_selection :: "'w node_ports \<Rightarrow> state \<Rightarrow> ('w, string \<times> portfolio) io" where
  "read_selection ports st =
     bindI (liftI (selected_solution_ref st)) (\<lambda>ref.
     bindI (read_model ports st ref decode_selected) (\<lambda>selected.
     bindI (read_portfolio ports st) (\<lambda>p. retI (sel_strategy selected, p))))"

definition empty_draft :: plan_draft where
  "empty_draft = \<lparr>dr_phases = RawPhases [], dr_tasks = RawTasks [], dr_phase_failures = [], dr_phase_repairs = [],
     dr_task_failures = [], dr_path_repairs = [], dr_coverage = [], dr_rollback_ok = False, dr_rollback_reasons = []\<rparr>"

text \<open>A draft that came back from JSON has plain dictionaries where the code expects phases.\<close>

definition get_draft :: "state \<Rightarrow> plan_draft result" where
  "get_draft st =
     (case st ''s02_plan_draft'' of
        Some (VDraft d) \<Rightarrow> Inr d
      | Some (VPlain _) \<Rightarrow> Inl (AttributeError ''phase_id'')
      | _ \<Rightarrow> Inr empty_draft)"

definition raw_phases :: "plan_draft \<Rightarrow> raw_phase list result" where
  "raw_phases d = (case dr_phases d of RawPhases ps \<Rightarrow> Inr ps | Phases [] \<Rightarrow> Inr [] | _ \<Rightarrow> Inl (AttributeError ''get''))"

definition checked_phases :: "plan_draft \<Rightarrow> execution_phase list result" where
  "checked_phases d = (case dr_phases d of Phases ps \<Rightarrow> Inr ps | RawPhases [] \<Rightarrow> Inr [] | _ \<Rightarrow> Inl (AttributeError ''phase_id''))"

definition raw_tasks :: "plan_draft \<Rightarrow> raw_task list result" where
  "raw_tasks d = (case dr_tasks d of RawTasks ts \<Rightarrow> Inr ts | Tasks [] \<Rightarrow> Inr [] | _ \<Rightarrow> Inl (AttributeError ''get''))"

definition checked_tasks :: "plan_draft \<Rightarrow> plan_task list result" where
  "checked_tasks d = (case dr_tasks d of Tasks ts \<Rightarrow> Inr ts | RawTasks [] \<Rightarrow> Inr [] | _ \<Rightarrow> Inl (AttributeError ''task_id''))"

definition get_critique :: "state \<Rightarrow> critique option" where
  "get_critique st = (case st ''s02_critique'' of Some (VCritique c) \<Rightarrow> Some c | _ \<Rightarrow> None)"

section \<open>Handlers S02.10 to S02.80\<close>

definition handle_s02_10 :: "'w files \<Rightarrow> state \<Rightarrow> 'w node_ports \<Rightarrow> ('w, node_execution) io" where
  "handle_s02_10 fs st ports =
     bindI (read_selection ports st) (\<lambda>(sid, p).
     bindI (read_snapshot ports st) (\<lambda>snapshot.
     bindI (liftI (strategy_by_id p sid)) (\<lambda>s. (\<lambda>w.
       let ok = list_all (\<lambda>e. se_proposed e \<or> fs_exists fs (sn_path snapshot) (se_path e) w) (st_scope_entries s) in
       retI \<lparr>ex_route = (if ok then CONTINUE else REJECTED), ex_updates = [(''s02_resolution_ok'', VBool ok)]\<rparr> w))))"

definition file_stem :: "string \<Rightarrow> string" where
  "file_stem p =
     (let parts = filter (\<lambda>x. x \<noteq> []) (split_on CHR ''/'' p); name = (if parts = [] then [] else last parts);
          dotless = dropWhile (\<lambda>c. c \<noteq> CHR ''.'') (rev name) in
      if dotless = [] \<or> tl dotless = [] \<or> hd (rev name) = CHR ''.'' then name else rev (tl dotless))"

definition handle_s02_20 :: "'w files \<Rightarrow> state \<Rightarrow> 'w node_ports \<Rightarrow> ('w, node_execution) io" where
  "handle_s02_20 fs st ports =
     bindI (read_selection ports st) (\<lambda>(sid, p).
     bindI (read_snapshot ports st) (\<lambda>snapshot.
     bindI (read_manifest ports st) (\<lambda>m.
     bindI (liftI (strategy_by_id p sid)) (\<lambda>s. (\<lambda>w.
       let root = sn_path snapshot;
           tests = (\<lambda>e. sort (concat (map (\<lambda>d. fs_glob fs root d (file_stem (se_path e)) w)
                     (filter (\<lambda>d. fs_exists fs root d w) (rm_test_roots m))))) in
       retI (cont [(''s02_dependency_map'', VDeps (py_dict (map (\<lambda>e. (se_path e, tests e))
              (filter (\<lambda>e. se_kind e = FileScope) (st_scope_entries s)))))]) w)))))"

text \<open>The reply of the planner: the raw phases and tasks of the response schema.\<close>

definition handle_s02_30 ::
    "(solution_strategy \<Rightarrow> string list dict \<Rightarrow> source_snapshot \<Rightarrow> optimization_request option \<Rightarrow> (string \<times> string) list) \<Rightarrow>
     (model_request \<Rightarrow> ('w, (raw_phase list \<times> raw_task list) completion) io) option \<Rightarrow>
     state \<Rightarrow> 'w node_ports \<Rightarrow> ('w, node_execution) io" where
  "handle_s02_30 plan_prompt model st ports =
     (case model of
        None \<Rightarrow> failI (RuntimeError ''S02.30 requires ModelProviderPort wired into NodePorts'')
      | Some ask \<Rightarrow>
          bindI (read_selection ports st) (\<lambda>(sid, p).
          bindI (read_snapshot ports st) (\<lambda>snapshot.
          bindI (read_optional_request ports st) (\<lambda>request.
          bindI (liftI (strategy_by_id p sid)) (\<lambda>s.
          bindI (liftI (required_state_str st ''case_id'')) (\<lambda>cid.
          let deps = (case st ''s02_dependency_map'' of Some (VDeps d) \<Rightarrow> d | _ \<Rightarrow> []) in
          bindI (one_repair_complete ask \<lparr>mq_messages = plan_prompt s deps snapshot request,
                   mq_key = cid @ '':S02.30:s02-plan-v2''\<rparr>) (\<lambda>(reply, _).
          let (ps, ts) = (case reply of None \<Rightarrow> ([], []) | Some r \<Rightarrow> r) in
          retI (cont [(''s02_plan_draft'', VDraft (empty_draft\<lparr>dr_phases := RawPhases ps, dr_tasks := RawTasks ts\<rparr>))]))))))))"

definition handle_s02_40 :: "state \<Rightarrow> 'w node_ports \<Rightarrow> ('w, node_execution) io" where
  "handle_s02_40 st ports =
     bindI (read_selection ports st) (\<lambda>(sid, p).
     bindI (read_optional_request ports st) (\<lambda>request.
     bindI (liftI (strategy_by_id p sid)) (\<lambda>s.
     bindI (liftI (get_draft st)) (\<lambda>d.
     bindI (liftI (raw_phases d)) (\<lambda>raws.
       let (ps, failures, repairs) = materialize_phases (phase_template_risk_tiers s) s (map ci_criterion (st_impacts s))
             (strategy_validation_command_ids s request) raws in
       retI (cont [(''s02_plan_draft'', VDraft (d\<lparr>dr_phases := Phases ps, dr_phase_failures := failures,
              dr_phase_repairs := repairs\<rparr>))]))))))"

definition handle_s02_50 :: "'w files \<Rightarrow> state \<Rightarrow> 'w node_ports \<Rightarrow> ('w, node_execution) io" where
  "handle_s02_50 fs st ports =
     bindI (liftI (get_draft st)) (\<lambda>d.
     bindI (read_snapshot ports st) (\<lambda>snapshot.
     bindI (liftI (checked_phases d)) (\<lambda>ps.
     bindI (liftI (raw_tasks d)) (\<lambda>raws. (\<lambda>w.
       let (ts, failures, repairs) = materialize_tasks (remdups (repository_file_paths fs snapshot w)) (map ph_id ps) raws in
       retI (cont [(''s02_plan_draft'', VDraft (d\<lparr>dr_tasks := Tasks ts, dr_task_failures := failures,
              dr_path_repairs := repairs\<rparr>))]) w)))))"

definition handle_s02_60 :: "(rat \<Rightarrow> string) \<Rightarrow> state \<Rightarrow> 'w node_ports \<Rightarrow> ('w, node_execution) io" where
  "handle_s02_60 fmt st ports =
     bindI (read_selection ports st) (\<lambda>(sid, p).
     bindI (read_optional_request ports st) (\<lambda>request.
     bindI (liftI (strategy_by_id p sid)) (\<lambda>s.
     bindI (liftI (get_draft st)) (\<lambda>d.
     bindI (liftI (checked_phases d)) (\<lambda>ps.
     retI (cont [(''s02_plan_draft'', VDraft (d\<lparr>dr_coverage := criterion_coverage fmt ps s request\<rparr>))]))))))"

definition handle_s02_70 :: "state \<Rightarrow> 'w node_ports \<Rightarrow> ('w, node_execution) io" where
  "handle_s02_70 st ports =
     bindI (liftI (get_draft st)) (\<lambda>d.
     bindI (liftI (checked_phases d)) (\<lambda>ps.
     retI (cont [(''s02_plan_draft'', VDraft (d\<lparr>dr_rollback_ok := (rollback_gaps ps = []),
            dr_rollback_reasons := rollback_gaps ps\<rparr>))])))"

definition handle_s02_80 ::
    "(execution_phase list \<Rightarrow> plan_task list \<Rightarrow> (string \<times> string) list) \<Rightarrow>
     (model_request \<Rightarrow> ('w, critic_reply completion) io) option \<Rightarrow> state \<Rightarrow> 'w node_ports \<Rightarrow> ('w, node_execution) io" where
  "handle_s02_80 critic_prompt model st ports =
     (case model of
        None \<Rightarrow> failI (RuntimeError ''S02.80 requires ModelProviderPort wired into NodePorts'')
      | Some ask \<Rightarrow>
          bindI (liftI (get_draft st)) (\<lambda>d.
          bindI (liftI (checked_phases d)) (\<lambda>ps.
          bindI (liftI (checked_tasks d)) (\<lambda>ts.
          bindI (liftI (required_state_str st ''case_id'')) (\<lambda>cid.
          bindI (one_repair_complete ask \<lparr>mq_messages = critic_prompt ps ts, mq_key = cid @ '':S02.80:s02-plan-v2''\<rparr>) (\<lambda>(reply, _).
          retI (cont [(''s02_critique'', VCritique
            (case reply of
               None \<Rightarrow> \<lparr>cq_omissions = [], cq_concerns = [''critic did not produce schema-valid output''],
                        cq_ignored = [], cq_approved = False\<rparr>
             | Some r \<Rightarrow> grounded_critique r ps ts (dr_coverage d) (dr_rollback_reasons d)))])))))))"

section \<open>The quality gate S02.81\<close>

definition detail :: "string \<Rightarrow> string option" where
  "detail s = (if s = [] then None else Some s)"

definition quality_results :: "string list \<Rightarrow> plan_draft \<Rightarrow> critique option \<Rightarrow> execution_phase list \<Rightarrow> plan_task list \<Rightarrow>
    quality_result list" where
  "quality_results allowed d critic ps ts =
     (let gaps = path_resolution_failures ts allowed; covered = (dr_coverage d \<noteq> [] \<and> list_all snd (dr_coverage d));
          approved = (case critic of None \<Rightarrow> False | Some c \<Rightarrow> cq_approved c);
          concerns = (case critic of None \<Rightarrow> [] | Some c \<Rightarrow> cq_concerns c);
          q = (\<lambda>dim ok why. \<lparr>qr_dimension = dim, qr_passed = ok, qr_detail = why\<rparr>) in
      [q ''phases_well_formed'' (ps \<noteq> [] \<and> dr_phase_failures d = []) (detail (join ''; '' (dr_phase_failures d))),
       q ''tasks_well_formed'' (ts \<noteq> [] \<and> dr_task_failures d = []) (detail (join ''; '' (dr_task_failures d))),
       q ''dependency_dag_acyclic'' (fst (check_acyclic ts)) (snd (check_acyclic ts)),
       q ''phase_ordering_by_risk'' (fst (check_phase_risk_order ps)) (snd (check_phase_risk_order ps)),
       q ''risk_ladder_ordering'' (fst (check_risk_ladder_order ps)) (snd (check_risk_ladder_order ps)),
       q ''paths_resolve'' (gaps = []) (detail (join ''; '' gaps)),
       q ''no_silent_path_repairs'' (dr_path_repairs d = []) (detail (join ''; '' (dr_path_repairs d))),
       q ''criteria_coverage'' covered (if covered then None else Some ''uncovered''),
       q ''rollback_defined'' (dr_rollback_ok d) (detail (join ''; '' (dr_rollback_reasons d))),
       q ''critic_approved'' approved (detail (join ''; '' concerns))])"

definition base_envelope :: "state \<Rightarrow> string \<Rightarrow> body \<Rightarrow> int \<Rightarrow> envelope result" where
  "base_envelope st ty b now =
     bindR (required_state_str st ''case_id'') (\<lambda>cid.
     bindR (required_state_str st ''tenant_id'') (\<lambda>tenant.
       let e = \<lparr>env_type = ty, env_id = cid @ ''-'' @ ty, env_tenant = tenant, env_case = cid,
                 env_created = now, env_parents = [], env_body = b\<rparr> in
       if valid_envelope e then Inr e else Inl (ValidationError ty)))"

text \<open>Constructing an envelope whose own validation is \<open>ok\<close>, sealing and storing it.\<close>

definition seal_envelope :: "(blob \<Rightarrow> string) \<Rightarrow> 'w node_ports \<Rightarrow> state \<Rightarrow> string \<Rightarrow> bool \<Rightarrow> envelope result \<Rightarrow>
    ('w, artifact_ref) io" where
  "seal_envelope sha ports st node ok env =
     bindI (liftI (bindR env (\<lambda>e. if ok then Inr e else Inl (ValidationError (env_type e))))) (\<lambda>e.
     s06_put_envelope sha ports st e node)"

definition seal_plan :: "(blob \<Rightarrow> string) \<Rightarrow> ('w \<Rightarrow> int) \<Rightarrow> 'w node_ports \<Rightarrow> state \<Rightarrow> artifact_ref \<Rightarrow>
    execution_phase list \<Rightarrow> plan_task list \<Rightarrow> ('w, artifact_ref \<times> artifact_ref) io" where
  "seal_plan sha clock ports st selected ps ts = (\<lambda>w.
     let plan = \<lparr>ep_selected = ref_digest selected, ep_phases = ps\<rparr> in
     bindI (seal_envelope sha ports st ''S02.81'' (valid_plan plan)
              (base_envelope st ''ExecutionPlan'' (BPlan plan) (clock w))) (\<lambda>plan_ref. (\<lambda>w'.
     let tasks = \<lparr>tkl_plan = ref_digest plan_ref, tkl_tasks = ts\<rparr> in
     bindI (seal_envelope sha ports st ''S02.81'' (valid_task_list tasks)
              (base_envelope st ''TaskList'' (BTasks tasks) (clock w'))) (\<lambda>task_ref.
     retI (plan_ref, task_ref)) w')) w)"

definition s02_pass_number :: "state \<Rightarrow> int" where
  "s02_pass_number st = get_int st ''s02_revision_attempts''"

definition handle_s02_81 :: "(blob \<Rightarrow> string) \<Rightarrow> ('w \<Rightarrow> int) \<Rightarrow> 'w files \<Rightarrow> state \<Rightarrow> 'w node_ports \<Rightarrow>
    ('w, node_execution) io" where
  "handle_s02_81 sha clock fs st ports =
     bindI (liftI (selected_solution_ref st)) (\<lambda>selected.
     bindI (read_snapshot ports st) (\<lambda>snapshot.
     bindI (liftI (get_draft st)) (\<lambda>d.
     bindI (liftI (checked_phases d)) (\<lambda>ps.
     bindI (liftI (checked_tasks d)) (\<lambda>ts. (\<lambda>w.
       let results = quality_results (repository_file_paths fs snapshot w) d (get_critique st) ps ts;
           passed = list_all qr_passed results; n = s02_pass_number st in
       bindI (if passed
              then bindI (seal_plan sha clock ports st selected ps ts) (\<lambda>(p, t).
                     retI ([p, t], Some (ref_digest p), Some (ref_digest t)))
              else retI ([], None, None)) (\<lambda>(refs, plan_digest, task_digest). (\<lambda>w'.
       let report = \<lparr>plq_plan = plan_digest, plq_tasks = task_digest, plq_passed = passed, plq_results = results\<rparr> in
       bindI (seal_envelope sha ports st ''S02.81'' (valid_plan_quality report)
                (stage_envelope st (''S02.81-pass'' @ str_int n) ''PlanQualityReport'' [] (BPlanQuality report) (clock w'))) (\<lambda>ref.
       retI \<lparr>ex_route = (if passed then CONTINUE else if n < max_s02_revisions then REVISION else REJECTED),
             ex_updates = [(''artifact_refs'', VRefs (refs @ [ref])), (''s02_revision_attempts'', VInt (n + 1))]\<rparr>) w')) w))))))"

section \<open>The approval gate S02.90\<close>

definition plan_interrupt :: "state \<Rightarrow> string \<Rightarrow> int \<Rightarrow> interrupt_envelope result" where
  "plan_interrupt st d now =
     bindR (required_state_str st ''case_id'') (\<lambda>cid.
     bindR (required_state_str st ''thread_id'') (\<lambda>thread.
       let i = \<lparr>int_id = cid @ ''-S02-PLAN'', int_case = cid, int_thread = thread, int_stage = ''S02.90'',
                 int_digest = d, int_allowed = [''approve'', ''reject''], int_role = ''owner'',
                 int_policy = s02_policy_version, int_issued = Aware now,
                 int_expires = Aware (now + 24 * 3600)\<rparr> in
       if valid_interrupt i then Inr i else Inl (ValidationError ''InterruptEnvelope'')))"

definition handle_s02_90 :: "('w \<Rightarrow> int) \<Rightarrow> state \<Rightarrow> 'w node_ports \<Rightarrow> ('w, node_execution) io" where
  "handle_s02_90 clock st ports =
     bindI (read_selection ports st) (\<lambda>(sid, p).
     bindI (liftI (strategy_by_id p sid)) (\<lambda>s.
     bindI (liftI (require_ref st ''ExecutionPlan'')) (\<lambda>plan_ref.
     let approval = (\<lambda>d actor role policy. VPlanApproval \<lparr>pl_decision = d, pl_actor = actor, pl_role = role, pl_policy = policy\<rparr>) in
     if st_risk_ceiling s \<notin> approval_risk_tiers
     then retI (cont [(''s02_approval'', approval AutoApproved None None s02_policy_version)])
     else bindI (liftI (get_resume st)) (\<lambda>resume.
       case resume of
         None \<Rightarrow> (\<lambda>w.
           bindI (liftI (plan_interrupt st (ref_digest plan_ref) (clock w))) (\<lambda>interrupt.
           retI \<lparr>ex_route = APPROVAL, ex_updates = [(''pending_interrupt'', VInterrupt interrupt),
             (''s02_approval'', approval PlanPending None None s02_policy_version)]\<rparr>) w)
       | Some c \<Rightarrow>
           bindI (liftI (first_role c)) (\<lambda>role.
           if rc_decision c = ''approve''
           then retI (cont [(''s02_approval'', approval PlanApproved (Some (rc_actor c)) (Some role) (rc_policy c))])
           else retI \<lparr>ex_route = REJECTED,
                      ex_updates = [(''s02_approval'', approval PlanRejected (Some (rc_actor c)) (Some role) (rc_policy c))]\<rparr>)))))"

section \<open>The cycle check decides acyclicity\<close>

declare visit.simps [simp del]

text \<open>Reference notion: the dependencies between the tasks of the list.\<close>

definition depends_on :: "string list dict \<Rightarrow> (string \<times> string) set" where
  "depends_on g = {(t, d). \<exists>deps. map_of g t = Some deps \<and> d \<in> set deps \<and> d \<in> set (keys g)}"

abbreviation grounded_tasks :: "string list dict \<Rightarrow> string set" where
  "grounded_tasks g \<equiv> Wellfounded.acc ((depends_on g)\<inverse>)"

lemma grounded_taskI:
  assumes "\<And>d. (t, d) \<in> depends_on g \<Longrightarrow> d \<in> grounded_tasks g"
  shows "t \<in> grounded_tasks g"
  by (rule acc.accI) (simp add: assms)

lemma depends_onD: "(t, d) \<in> depends_on g \<Longrightarrow> map_of g t = Some deps \<Longrightarrow> d \<in> set deps \<inter> set (keys g)"
  by (auto simp: depends_on_def)

lemma visit_Some_cases:
  assumes "visit g path visited t = Some v"
  obtains "t \<in> set visited" "v = visited"
  | "t \<notin> set visited" "t \<notin> set path" "map_of g t = None" "v = t # visited"
  | deps v' where "t \<notin> set visited" "t \<notin> set path" "map_of g t = Some deps"
      "visit_deps g (t # path) visited deps = Some v'" "v = t # v'"
  using assms by (auto simp: visit.simps split: if_splits option.splits)

lemma visit_None_cases:
  assumes "visit g path visited t = None"
  obtains "t \<in> set path"
  | deps where "t \<notin> set visited" "t \<notin> set path" "map_of g t = Some deps"
      "visit_deps g (t # path) visited deps = None"
  using assms by (auto simp: visit.simps split: if_splits option.splits)

lemma visit_grounds:
  "visit g path visited t = Some v \<Longrightarrow> set visited \<subseteq> grounded_tasks g \<Longrightarrow>
     set v \<subseteq> grounded_tasks g \<and> insert t (set visited) \<subseteq> set v"
  "visit_deps g path visited ds = Some v \<Longrightarrow> set visited \<subseteq> grounded_tasks g \<Longrightarrow>
     set v \<subseteq> grounded_tasks g \<and> set visited \<union> set ds \<inter> set (keys g) \<subseteq> set v"
proof (induction g path visited t and g path visited ds arbitrary: v and v rule: visit_visit_deps.induct)
  case (1 g path visited t)
  from 1(2) show ?case
  proof (cases rule: visit_Some_cases)
    case 2
    have "t \<in> grounded_tasks g" by (rule grounded_taskI) (use 2 in \<open>simp add: depends_on_def\<close>)
    with 2 1(3) show ?thesis by auto
  next
    case (3 deps v')
    then have v': "set v' \<subseteq> grounded_tasks g" "set visited \<union> set deps \<inter> set (keys g) \<subseteq> set v'"
      using 1(1)[OF 3(1,2,3,4) 1(3)] by blast+
    have "t \<in> grounded_tasks g"
      by (rule grounded_taskI) (use depends_onD[OF _ 3(3)] v' in blast)
    with 3(5) v' show ?thesis by auto
  qed (use 1(3) in simp)
next
  case (3 g path visited d ds)
  show ?case
  proof (cases "d \<in> set (keys g)")
    case True
    then obtain v1 where v1: "visit g path visited d = Some v1" "visit_deps g path v1 ds = Some v"
      using 3(4) by (auto split: option.splits)
    have "set v1 \<subseteq> grounded_tasks g \<and> insert d (set visited) \<subseteq> set v1" by (rule 3(1)[OF True v1(1) 3(5)])
    moreover from this have "set v \<subseteq> grounded_tasks g \<and> set v1 \<union> set ds \<inter> set (keys g) \<subseteq> set v"
      by (intro 3(2)[OF True v1]) simp
    ultimately show ?thesis by auto
  next
    case False
    then have "set v \<subseteq> grounded_tasks g \<and> set visited \<union> set ds \<inter> set (keys g) \<subseteq> set v"
      using 3(3)[OF False _ 3(5)] 3(4) by simp
    with False show ?thesis by (simp add: Int_insert_left)
  qed
qed simp

lemma visit_finds_cycle:
  "visit g path visited t = None \<Longrightarrow> \<forall>p\<in>set path. (p, t) \<in> (depends_on g)\<^sup>+ \<Longrightarrow> \<not> acyclic (depends_on g)"
  "visit_deps g path visited ds = None \<Longrightarrow>
     \<forall>p\<in>set path. \<forall>d\<in>set ds \<inter> set (keys g). (p, d) \<in> (depends_on g)\<^sup>+ \<Longrightarrow> \<not> acyclic (depends_on g)"
proof (induction g path visited t and g path visited ds rule: visit_visit_deps.induct)
  case (1 g path visited t)
  from 1(2) show ?case
  proof (cases rule: visit_None_cases)
    case 1
    with \<open>\<forall>p\<in>set path. (p, t) \<in> (depends_on g)\<^sup>+\<close> show ?thesis by (auto simp: acyclic_def)
  next
    case (2 deps)
    have "(t, d) \<in> depends_on g" if "d \<in> set deps \<inter> set (keys g)" for d
      using that 2(3) by (simp add: depends_on_def)
    then have "\<forall>p\<in>set (t # path). \<forall>d\<in>set deps \<inter> set (keys g). (p, d) \<in> (depends_on g)\<^sup>+"
      using 1(3) by (auto intro: trancl_into_trancl)
    then show ?thesis by (rule 1(1)[OF 2])
  qed
next
  case (3 g path visited d ds)
  then show ?case by (cases "d \<in> set (keys g)") (simp_all split: option.splits)
qed simp

lemma visit_all_grounds:
  "visit_all g visited ts = None \<Longrightarrow> set visited \<subseteq> grounded_tasks g \<Longrightarrow> set ts \<subseteq> grounded_tasks g"
proof (induction ts arbitrary: visited)
  case (Cons t ts)
  then obtain v where v: "visit g [] visited t = Some v" "visit_all g v ts = None" by (auto split: option.splits)
  from visit_grounds(1)[OF v(1) Cons.prems(2)] have v': "set v \<subseteq> grounded_tasks g" "t \<in> set v" by auto
  with Cons.IH[OF v(2) v'(1)] show ?case by auto
qed simp

lemma visit_all_cycle: "visit_all g visited ts = Some t \<Longrightarrow> \<not> acyclic (depends_on g)"
  by (induction ts arbitrary: visited) (simp_all split: option.splits add: visit_finds_cycle(1))

lemma keys_grounded_acyclic:
  assumes "set (keys g) \<subseteq> grounded_tasks g"
  shows "acyclic (depends_on g)"
proof -
  have "t \<in> grounded_tasks g" for t
  proof (rule grounded_taskI)
    show "d \<in> grounded_tasks g" if "(t, d) \<in> depends_on g" for d
      using that assms by (auto simp: depends_on_def)
  qed
  then have "wf ((depends_on g)\<inverse>)" by (rule acc_wfI[OF allI])
  then show ?thesis by (rule acyclic_converse[THEN iffD1, OF wf_acyclic])
qed

lemma check_acyclic_iff: "fst (check_acyclic tasks) \<longleftrightarrow> acyclic (depends_on (dependency_graph tasks))"
proof (cases "visit_all (dependency_graph tasks) [] (keys (dependency_graph tasks))")
  case None
  then have "set (keys (dependency_graph tasks)) \<subseteq> grounded_tasks (dependency_graph tasks)"
    by (rule visit_all_grounds) simp
  with None keys_grounded_acyclic show ?thesis by (simp add: check_acyclic_def)
next
  case (Some t)
  with visit_all_cycle[OF Some] show ?thesis by (simp add: check_acyclic_def)
qed

section \<open>The quality gate\<close>

lemma Max_less_Min_iff:
  fixes A B :: "int set"
  assumes "finite A" and "A \<noteq> {}" and "finite B" and "B \<noteq> {}"
  shows "Max A < Min B \<longleftrightarrow> (\<forall>a\<in>A. \<forall>b\<in>B. a < b)"
  using assms by (simp add: Max_less_iff Min_gr_iff) blast

lemma check_phase_risk_order_iff:
  "fst (check_phase_risk_order phases) \<longleftrightarrow>
     (\<forall>p\<in>set phases. \<forall>q\<in>set phases. ph_kind p = Diagnostic \<longrightarrow> ph_kind q = Implementation \<longrightarrow> ph_sequence p < ph_sequence q)"
proof (cases "filter (\<lambda>p. ph_kind p = Diagnostic) phases = [] \<or> filter (\<lambda>p. ph_kind p = Implementation) phases = []")
  case True
  then show ?thesis by (auto simp: check_phase_risk_order_def filter_empty_conv)
next
  case False
  then have "fst (check_phase_risk_order phases) \<longleftrightarrow>
      Max (set (map ph_sequence (filter (\<lambda>p. ph_kind p = Diagnostic) phases))) <
      Min (set (map ph_sequence (filter (\<lambda>p. ph_kind p = Implementation) phases)))"
    by (simp add: check_phase_risk_order_def)
  also have "\<dots> \<longleftrightarrow> (\<forall>a\<in>set (map ph_sequence (filter (\<lambda>p. ph_kind p = Diagnostic) phases)).
      \<forall>b\<in>set (map ph_sequence (filter (\<lambda>p. ph_kind p = Implementation) phases)). a < b)"
    by (rule Max_less_Min_iff) (use False in \<open>auto simp: filter_empty_conv\<close>)
  finally show ?thesis by auto
qed

lemma check_risk_ladder_orderD:
  assumes "fst (check_risk_ladder_order phases)" and "p \<in> set phases" and "q \<in> set phases"
    and "ph_sequence p < ph_sequence q"
  shows "risk_tier_order (ph_risk p) \<le> risk_tier_order (ph_risk q)"
proof -
  let ?xs = "sort_key ph_sequence phases"
  have tiers: "sorted (map (\<lambda>p. risk_tier_order (ph_risk p)) ?xs)"
    using assms(1) by (auto simp: check_risk_ladder_order_def Let_def split: if_splits) (metis sorted_sort)
  obtain i j where ij: "i < length ?xs" "p = ?xs ! i" "j < length ?xs" "q = ?xs ! j"
    using assms(2,3) by (metis in_set_conv_nth set_sort)
  have "i < j"
    using sorted_nth_mono[of "map ph_sequence ?xs" j i] ij assms(4) by (force simp: not_less[symmetric])
  with sorted_nth_mono[OF tiers, of i j] ij show ?thesis by simp
qed

lemma seal_envelope_result:
  assumes "seal_envelope sha ports st node ok env w = (Inr ref, w')"
  obtains e where "env = Inr e" and "ok" and "ref_type ref = env_type e" and "ref_id ref = env_id e"
    and "ref_digest ref = sha (Sealed e)"
  using assms
  by (auto simp: seal_envelope_def s06_put_envelope_def mk_ref_def bindI_def Let_def bindR_Inr_iff
      split: sum.splits prod.splits if_splits)

lemma seal_plan_result:
  assumes "seal_plan sha clock ports st selected ps ts w = (Inr (p, t), w')"
  obtains cid e e' where "required_state_str st ''case_id'' = Inr cid" and "ref_id p = cid @ ''-ExecutionPlan''"
    and "ref_type p = ''ExecutionPlan''" and "ref_digest p = sha (Sealed e)"
    and "env_body e = BPlan \<lparr>ep_selected = ref_digest selected, ep_phases = ps\<rparr>"
    and "ref_type t = ''TaskList''" and "ref_digest t = sha (Sealed e')"
    and "env_body e' = BTasks \<lparr>tkl_plan = ref_digest p, tkl_tasks = ts\<rparr>"
    and "valid_plan \<lparr>ep_selected = ref_digest selected, ep_phases = ps\<rparr>"
    and "valid_task_list \<lparr>tkl_plan = ref_digest p, tkl_tasks = ts\<rparr>"
proof -
  let ?plan = "\<lparr>ep_selected = ref_digest selected, ep_phases = ps\<rparr>"
  from assms obtain w1 w2 where
    s1: "seal_envelope sha ports st ''S02.81'' (valid_plan ?plan)
       (base_envelope st ''ExecutionPlan'' (BPlan ?plan) (clock w)) w = (Inr p, w1)" and
    s2: "seal_envelope sha ports st ''S02.81'' (valid_task_list \<lparr>tkl_plan = ref_digest p, tkl_tasks = ts\<rparr>)
       (base_envelope st ''TaskList'' (BTasks \<lparr>tkl_plan = ref_digest p, tkl_tasks = ts\<rparr>) (clock w1)) w1 = (Inr t, w2)"
    by (auto simp: seal_plan_def Let_def elim!: bindI_result_Inr)
  show ?thesis
  proof (rule seal_envelope_result[OF s1], rule seal_envelope_result[OF s2])
    fix e e' assume "base_envelope st ''ExecutionPlan'' (BPlan ?plan) (clock w) = Inr e" "valid_plan ?plan"
      "ref_type p = env_type e" "ref_id p = env_id e" "ref_digest p = sha (Sealed e)"
      "base_envelope st ''TaskList'' (BTasks \<lparr>tkl_plan = ref_digest p, tkl_tasks = ts\<rparr>) (clock w1) = Inr e'"
      "valid_task_list \<lparr>tkl_plan = ref_digest p, tkl_tasks = ts\<rparr>" "ref_type t = env_type e'" "ref_digest t = sha (Sealed e')"
    then show thesis by (intro that[of "env_case e" e e']) (auto simp: base_envelope_def bindR_Inr_iff Let_def split: if_splits)
  qed
qed

lemma handle_s02_81_result:
  assumes "handle_s02_81 sha clock fs st ports w = (Inr ex, w')"
  obtains selected snapshot w1 d ps ts where "selected_solution_ref st = Inr selected"
    and "read_snapshot ports st w = (Inr snapshot, w1)"
    and "get_draft st = Inr d" and "checked_phases d = Inr ps" and "checked_tasks d = Inr ts"
    and "list_all qr_passed (quality_results (repository_file_paths fs snapshot w1) d (get_critique st) ps ts) \<Longrightarrow>
      \<exists>p t r w2 w3. seal_plan sha clock ports st selected ps ts w2 = (Inr (p, t), w3) \<and>
        ex = \<lparr>ex_route = CONTINUE, ex_updates = [(''artifact_refs'', VRefs [p, t, r]),
          (''s02_revision_attempts'', VInt (s02_pass_number st + 1))]\<rparr>"
    and "\<not> list_all qr_passed (quality_results (repository_file_paths fs snapshot w1) d (get_critique st) ps ts) \<Longrightarrow>
      \<exists>r. ex = \<lparr>ex_route = (if s02_pass_number st < max_s02_revisions then REVISION else REJECTED),
        ex_updates = [(''artifact_refs'', VRefs [r]), (''s02_revision_attempts'', VInt (s02_pass_number st + 1))]\<rparr>"
proof -
  from assms obtain selected snapshot w1 d ps ts where
    reads: "selected_solution_ref st = Inr selected" "read_snapshot ports st w = (Inr snapshot, w1)"
      "get_draft st = Inr d" "checked_phases d = Inr ps" "checked_tasks d = Inr ts"
    unfolding handle_s02_81_def by (auto elim!: bindI_result_Inr)
  let ?q = "list_all qr_passed (quality_results (repository_file_paths fs snapshot w1) d (get_critique st) ps ts)"
  show ?thesis
  proof (rule that[OF reads])
    assume ?q
    with assms reads show "\<exists>p t r w2 w3. seal_plan sha clock ports st selected ps ts w2 = (Inr (p, t), w3) \<and>
        ex = \<lparr>ex_route = CONTINUE, ex_updates = [(''artifact_refs'', VRefs [p, t, r]),
          (''s02_revision_attempts'', VInt (s02_pass_number st + 1))]\<rparr>"
      by (fastforce simp: handle_s02_81_def Let_def bindI_Inr elim!: bindI_result_Inr)
  next
    assume "\<not> ?q"
    with assms reads show "\<exists>r. ex = \<lparr>ex_route = (if s02_pass_number st < max_s02_revisions then REVISION else REJECTED),
        ex_updates = [(''artifact_refs'', VRefs [r]), (''s02_revision_attempts'', VInt (s02_pass_number st + 1))]\<rparr>"
      by (auto simp: handle_s02_81_def Let_def bindI_Inr elim!: bindI_result_Inr)
  qed
qed

text \<open>Specification: what a plan has to satisfy, in terms of its phases, tasks and dependencies.\<close>

definition admissible_plan :: "string list \<Rightarrow> plan_draft \<Rightarrow> critique option \<Rightarrow> execution_phase list \<Rightarrow> plan_task list \<Rightarrow> bool" where
  "admissible_plan allowed d critic ps ts \<longleftrightarrow>
     ps \<noteq> [] \<and> ts \<noteq> [] \<and> dr_phase_failures d = [] \<and> dr_task_failures d = [] \<and> dr_path_repairs d = [] \<and>
     acyclic (depends_on (dependency_graph ts)) \<and>
     (\<forall>p\<in>set ps. \<forall>q\<in>set ps. ph_kind p = Diagnostic \<longrightarrow> ph_kind q = Implementation \<longrightarrow> ph_sequence p < ph_sequence q) \<and>
     (\<forall>p\<in>set ps. \<forall>q\<in>set ps. ph_sequence p < ph_sequence q \<longrightarrow> risk_tier_order (ph_risk p) \<le> risk_tier_order (ph_risk q)) \<and>
     (\<forall>t\<in>set ts. \<forall>f\<in>set (tk_files t). tk_creation t \<or> normalize_repo_path f \<in> set allowed) \<and>
     dr_coverage d \<noteq> [] \<and> (\<forall>c\<in>set (dr_coverage d). snd c) \<and> dr_rollback_ok d \<and>
     (\<exists>c. critic = Some c \<and> cq_approved c)"

lemma quality_results_admissible:
  assumes "list_all qr_passed (quality_results allowed d critic ps ts)"
  shows "admissible_plan allowed d critic ps ts"
proof -
  from assms have checks: "ps \<noteq> []" "dr_phase_failures d = []" "ts \<noteq> []" "dr_task_failures d = []"
    "fst (check_acyclic ts)" "fst (check_phase_risk_order ps)" "fst (check_risk_ladder_order ps)"
    "path_resolution_failures ts allowed = []" "dr_path_repairs d = []" "dr_coverage d \<noteq> []" "list_all snd (dr_coverage d)"
    "dr_rollback_ok d" "(case critic of None \<Rightarrow> False | Some c \<Rightarrow> cq_approved c)"
    by (simp_all add: quality_results_def Let_def)
  have "\<forall>t\<in>set ts. \<forall>f\<in>set (tk_files t). tk_creation t \<or> normalize_repo_path f \<in> set allowed"
    using checks(8) by (auto simp: path_resolution_failures_def filter_empty_conv)
  with checks show ?thesis
    using check_risk_ladder_orderD[OF checks(7)] checks(5)[unfolded check_acyclic_iff] checks(6)[unfolded check_phase_risk_order_iff]
    by (auto simp: admissible_plan_def list_all_iff split: option.splits)
qed

text \<open>C8. Only an admissible plan is sealed: S02.81 returns "continue" only when the phases and tasks
  passed every check of the specification (no failed record, an acyclic dependency relation, diagnostic
  phases before implementation phases, risk tiers that never fall along the sequence, files that exist
  unless they are to be created, every criterion covered, a rollback and the critic's approval), and then
  it seals the execution plan with exactly these phases and a task list that carries the plan's digest.
  On any other route it seals only the quality report, and the revision counter grows by one on each.\<close>

theorem sealed_plan_is_admissible:
  assumes "handle_s02_81 sha clock fs st ports w = (Inr ex, w')"
  shows "\<exists>d ps ts snapshot w1 refs. get_draft st = Inr d \<and> checked_phases d = Inr ps \<and> checked_tasks d = Inr ts \<and>
     read_snapshot ports st w = (Inr snapshot, w1) \<and>
     ex_updates ex = [(''artifact_refs'', VRefs refs), (''s02_revision_attempts'', VInt (s02_pass_number st + 1))] \<and>
     (if ex_route ex = CONTINUE
      then admissible_plan (repository_file_paths fs snapshot w1) d (get_critique st) ps ts \<and>
        (\<exists>p t r e e' s. refs = [p, t, r] \<and> ref_type p = ''ExecutionPlan'' \<and> ref_type t = ''TaskList'' \<and>
          ref_digest p = sha (Sealed e) \<and> env_body e = BPlan \<lparr>ep_selected = s, ep_phases = ps\<rparr> \<and>
          ref_digest t = sha (Sealed e') \<and> env_body e' = BTasks \<lparr>tkl_plan = ref_digest p, tkl_tasks = ts\<rparr>)
      else length refs = 1 \<and> ex_route ex \<in> {REVISION, REJECTED})"
  using assms
proof (rule handle_s02_81_result)
  fix selected snapshot w1 d ps ts
  let ?q = "list_all qr_passed (quality_results (repository_file_paths fs snapshot w1) d (get_critique st) ps ts)"
  assume reads: "read_snapshot ports st w = (Inr snapshot, w1)" "get_draft st = Inr d" "checked_phases d = Inr ps"
      "checked_tasks d = Inr ts"
    and pass: "?q \<Longrightarrow> \<exists>p t r w2 w3. seal_plan sha clock ports st selected ps ts w2 = (Inr (p, t), w3) \<and>
        ex = \<lparr>ex_route = CONTINUE, ex_updates = [(''artifact_refs'', VRefs [p, t, r]),
          (''s02_revision_attempts'', VInt (s02_pass_number st + 1))]\<rparr>"
    and other: "\<not> ?q \<Longrightarrow> \<exists>r. ex = \<lparr>ex_route = (if s02_pass_number st < max_s02_revisions then REVISION else REJECTED),
        ex_updates = [(''artifact_refs'', VRefs [r]), (''s02_revision_attempts'', VInt (s02_pass_number st + 1))]\<rparr>"
  show ?thesis
  proof (cases ?q)
    case True
    from pass[OF True] obtain p t r w2 w3 where s: "seal_plan sha clock ports st selected ps ts w2 = (Inr (p, t), w3)"
      and ex: "ex = \<lparr>ex_route = CONTINUE, ex_updates = [(''artifact_refs'', VRefs [p, t, r]),
          (''s02_revision_attempts'', VInt (s02_pass_number st + 1))]\<rparr>" by blast
    from s show ?thesis
      by (rule seal_plan_result) (use reads ex quality_results_admissible[OF True] in auto)
  next
    case False
    from other[OF False] reads show ?thesis by auto
  qed
qed

text \<open>A plan with one phase and one task that every check accepts.\<close>

definition demo_phase :: execution_phase where
  "demo_phase = \<lparr>ph_id = ''p1'', ph_sequence = 1, ph_kind = Implementation, ph_risk = Code,
     ph_treatment = \<lparr>pt_variable = ''cache'', pt_before = ''off'', pt_after = ''on''\<rparr>, ph_done = [''p95 at 100''],
     ph_affected = [''latency''], ph_validation = [''unit''], ph_rollback = Some ''git revert'', ph_trigger = ''p95 up'',
     ph_deadline = 60\<rparr>"

definition demo_task :: plan_task where
  "demo_task = \<lparr>tk_id = ''t1'', tk_phase = ''p1'', tk_objective = ''add a cache'', tk_files = [''a.py''], tk_symbols = [],
     tk_depends = [], tk_creation = False, tk_instructions = ''memoize'', tk_owner = ''agent''\<rparr>"

definition demo_draft :: plan_draft where
  "demo_draft = empty_draft\<lparr>dr_phases := Phases [demo_phase], dr_tasks := Tasks [demo_task],
     dr_coverage := [(''latency'', True)], dr_rollback_ok := True\<rparr>"

definition demo_files :: "world files" where
  "demo_files = \<lparr>fs_exists = (\<lambda>_ _ _. True), fs_tree = (\<lambda>_ _. Some [''a.py'']), fs_glob = (\<lambda>_ _ _ _. []),
     fs_is_dir = (\<lambda>_ _. True)\<rparr>"

definition earlier_plan :: artifact_ref where
  "earlier_plan = (demo_ref ''ExecutionPlan'' ''c-ExecutionPlan'')\<lparr>ref_digest := rep_digest CHR ''b''\<rparr>"

definition demo_s02 :: "bool \<Rightarrow> bool \<Rightarrow> state" where
  "demo_s02 replan approved = (demo_s06 KEEP)(
     ''artifact_refs'' \<mapsto> VRefs ([demo_ref ''SourceSnapshot'' ''s'',
        demo_ref ''SelectedSolution'' ''c-S01.90-pass0-SelectedSolution''] @ (if replan then [earlier_plan] else [])),
     ''s02_plan_draft'' \<mapsto> VDraft demo_draft,
     ''s02_critique'' \<mapsto> VCritique \<lparr>cq_omissions = [], cq_concerns = [], cq_ignored = [], cq_approved = approved\<rparr>)"

lemma demo_s02_sel [simp]:
  "get_str (demo_s02 rp b) ''case_id'' = Some ''c''" "get_str (demo_s02 rp b) ''tenant_id'' = Some ''t''"
  "get_draft (demo_s02 rp b) = Inr demo_draft" "checked_phases demo_draft = Inr [demo_phase]"
  "checked_tasks demo_draft = Inr [demo_task]" "s02_pass_number (demo_s02 rp b) = 0"
  "get_critique (demo_s02 rp b) = Some \<lparr>cq_omissions = [], cq_concerns = [], cq_ignored = [], cq_approved = b\<rparr>"
  "selected_solution_ref (demo_s02 rp b) = Inr (demo_ref ''SelectedSolution'' ''c-S01.90-pass0-SelectedSolution'')"
  "require_ref (demo_s02 rp b) ''SourceSnapshot'' = Inr (demo_ref ''SourceSnapshot'' ''s'')"
  by (simp_all add: demo_s02_def demo_s06_def get_str_def get_draft_def checked_phases_def checked_tasks_def demo_draft_def
      s02_pass_number_def get_int_def get_critique_def selected_solution_ref_def s01_pass_number_def get_strs_def
      require_stage_ref_def required_state_str_def stage_artifact_id_def require_ref_def try_ref_def get_refs_def demo_ref_def earlier_plan_def)

lemma demo_snapshot [simp]:
  "read_snapshot (demo_ports None) (demo_s02 rp b) w = (Inr \<lparr>sn_path = ''/repo'', sn_revision = Some ''abc'', sn_files = []\<rparr>, w)"
  by (simp add: read_snapshot_def read_model_def required_state_str_def demo_ports_def index_def demo_env_def decode_snapshot_def)

lemma demo_paths [simp]:
  "repository_file_paths demo_files \<lparr>sn_path = ''/repo'', sn_revision = Some ''abc'', sn_files = []\<rparr> w = [''a.py'']"
  by (simp add: repository_file_paths_def demo_files_def sorted_set_def path_scan_limit_def ignored_path_parts_def normalize_repo_path_def)

lemma demo_quality:
  "list_all qr_passed (quality_results [''a.py''] demo_draft (Some \<lparr>cq_omissions = [], cq_concerns = [], cq_ignored = [], cq_approved = b\<rparr>)
     [demo_phase] [demo_task]) \<longleftrightarrow> b"
  by (simp add: quality_results_def Let_def demo_draft_def empty_draft_def check_acyclic_def dependency_graph_def py_dict_def visit.simps demo_task_def
      demo_phase_def check_phase_risk_order_def check_risk_ladder_order_def path_resolution_failures_def normalize_repo_path_def)

lemma quality_results_named:
  "quality_results a d c ps ts \<noteq> []" "list_all (\<lambda>r. qr_dimension r \<noteq> []) (quality_results a d c ps ts)"
  by (simp_all add: quality_results_def Let_def)

lemma demo_seal_envelope:
  assumes "ok" and "valid_envelope e" and "env_type e \<noteq> []"
  shows "seal_envelope (\<lambda>_. rep_digest CHR ''a'') (demo_ports None) (demo_s02 rp b) node ok (Inr e) w =
    (Inr (demo_ref (env_type e) (env_id e)), w)"
  using assms by (simp add: seal_envelope_def s06_put_envelope_def required_state_str_def demo_ports_def mk_ref_def Let_def valid_ref_def
      demo_ref_def len_in_def demo_digest_valid valid_envelope_def)

lemma demo_plan_seal:
  "seal_plan (\<lambda>_. rep_digest CHR ''a'') w_time (demo_ports None) (demo_s02 rp b)
     (demo_ref ''SelectedSolution'' ''c-S01.90-pass0-SelectedSolution'') [demo_phase] [demo_task] w =
   (Inr (demo_ref ''ExecutionPlan'' ''c-ExecutionPlan'', demo_ref ''TaskList'' ''c-TaskList''), w)"
  by (simp add: seal_plan_def Let_def base_envelope_def required_state_str_def valid_envelope_def len_in_def bindI_def
      demo_seal_envelope valid_plan_def valid_task_list_def valid_phase_def valid_task_def demo_digest_valid demo_phase_def demo_task_def)

lemma demo_s02_81:
  "handle_s02_81 (\<lambda>_. rep_digest CHR ''a'') w_time demo_files (demo_s02 rp True) (demo_ports None) demo_world =
     (Inr \<lparr>ex_route = CONTINUE, ex_updates = [(''artifact_refs'', VRefs [demo_ref ''ExecutionPlan'' ''c-ExecutionPlan'',
        demo_ref ''TaskList'' ''c-TaskList'', demo_ref ''PlanQualityReport'' ''c-S02.81-pass0-PlanQualityReport'']),
        (''s02_revision_attempts'', VInt 1)]\<rparr>, demo_world)"
  by (simp add: handle_s02_81_def bindI_def Let_def demo_quality demo_plan_seal stage_envelope_def required_state_str_def valid_envelope_def
    len_in_def stage_artifact_id_def demo_seal_envelope valid_plan_quality_def demo_digest_valid quality_results_named)

theorem sealed_plan_is_admissible_witness:
  "\<exists>ex. handle_s02_81 (\<lambda>_. rep_digest CHR ''a'') w_time demo_files (demo_s02 False True) (demo_ports None) demo_world = (Inr ex, demo_world) \<and>
     ex_route ex = CONTINUE \<and>
     admissible_plan [''a.py''] demo_draft (get_critique (demo_s02 False True)) [demo_phase] [demo_task]"
  using sealed_plan_is_admissible[OF demo_s02_81] demo_s02_81 by auto

section \<open>Limits of the gate\<close>

text \<open>C9. The cycle check is exact: for tasks with distinct ids, \<open>_check_acyclic\<close> accepts the list exactly
  when the relation "depends on" between its tasks (dependencies on ids outside the list are ignored) has
  no cycle. The search is a total function: it ends for every list of tasks.\<close>

theorem cycle_check_exact:
  assumes "distinct (map tk_id tasks)"
  shows "fst (check_acyclic tasks) \<longleftrightarrow>
     acyclic {(tk_id t, tk_id u) | t u. t \<in> set tasks \<and> u \<in> set tasks \<and> tk_id u \<in> set (tk_depends t)}"
proof -
  let ?kvs = "map (\<lambda>t. (tk_id t, tk_depends t)) tasks"
  have d: "distinct (keys ?kvs)" using assms by (simp add: o_def)
  have "map_of ?kvs t = Some deps \<longleftrightarrow> (\<exists>x\<in>set tasks. t = tk_id x \<and> deps = tk_depends x)" for t deps
    using map_of_eq_Some_iff[OF d, of t deps] by auto
  then have "depends_on (dependency_graph tasks) =
      {(tk_id t, tk_id u) | t u. t \<in> set tasks \<and> u \<in> set tasks \<and> tk_id u \<in> set (tk_depends t)}"
    by (auto simp: depends_on_def dependency_graph_def py_dict_distinct[OF d])
  then show ?thesis by (simp add: check_acyclic_iff)
qed

theorem cycle_check_exact_witness:
  "\<not> acyclic {(tk_id t, tk_id u) | t u.
     t \<in> set [demo_task\<lparr>tk_depends := [''t2'']\<rparr>, demo_task\<lparr>tk_id := ''t2'', tk_depends := [''t1'']\<rparr>] \<and>
     u \<in> set [demo_task\<lparr>tk_depends := [''t2'']\<rparr>, demo_task\<lparr>tk_id := ''t2'', tk_depends := [''t1'']\<rparr>] \<and> tk_id u \<in> set (tk_depends t)}"
proof -
  let ?ts = "[demo_task\<lparr>tk_depends := [''t2'']\<rparr>, demo_task\<lparr>tk_id := ''t2'', tk_depends := [''t1'']\<rparr>]"
  have "distinct (map tk_id ?ts)" and "\<not> fst (check_acyclic ?ts)"
    by (simp_all add: demo_task_def check_acyclic_def dependency_graph_def py_dict_def visit.simps)
  with cycle_check_exact[of ?ts] show ?thesis by blast
qed

lemma startswith_append: "startswith (p @ b) p"
  by (simp add: startswith_def)

lemma contains_iff: "contains p s \<longleftrightarrow> (\<exists>a b. s = a @ p @ b)"
proof (induction s)
  case (Cons c s)
  have "startswith (c # s) p \<longleftrightarrow> (\<exists>b. c # s = p @ b)" by (auto simp: startswith_def) (metis append_take_drop_id)
  moreover have "(\<exists>a b. c # s = a @ p @ b) \<longleftrightarrow> (\<exists>b. c # s = p @ b) \<or> (\<exists>a b. s = a @ p @ b)"
    by (metis Cons_eq_append_conv append_Nil list.inject append_Cons)
  ultimately show ?case using Cons by simp
qed simp

lemma contains_append: "contains p s \<Longrightarrow> contains p (a @ s @ b)"
  unfolding contains_iff by (metis append.assoc)

lemma lower_append: "lower (a @ b) = lower a @ lower b"
  by (simp add: lower_def)

text \<open>The grounding of the critic overrules objections it should keep: phases are named by substring,
  so as soon as the id of a diagnostic phase occurs in the id of another phase (p1 in p10), the critic's
  sole objection that this other phase has no rollback counts as a complaint about the diagnostic phase;
  it is dropped and the rejected plan becomes approved, although the rule is meant for phases that really
  are diagnostic.\<close>

theorem critic_overruled_by_substring:
  assumes "p \<in> set phases" and "ph_kind p = Diagnostic" and "contains (lower (ph_id p)) (lower q)" and "\<not> blank q"
  shows "grounded_critique \<lparr>ct_omissions = [], ct_concerns = [q @ '' has no rollback''], ct_approved = False\<rparr>
       phases tasks coverage reasons =
     \<lparr>cq_omissions = [], cq_concerns = [], cq_ignored = [q @ '' has no rollback''], cq_approved = True\<rparr>"
proof -
  let ?m = "q @ '' has no rollback''"
  have low: "lower ?m = lower q @ '' has no rollback''" by (simp add: lower_append) (simp add: lower_def lower_char_def)
  have "contains (lower (ph_id p)) (lower ?m)"
    using contains_append[OF assms(3), of "[]" "'' has no rollback''"] by (simp add: low)
  moreover have "contains ''rollback'' (lower ?m)" "contains ''has no rollback'' (lower ?m)"
    unfolding low contains_iff by (rule exI[of _ "lower q @ '' has no ''"], rule exI[of _ "[]"], simp)
      (rule exI[of _ "lower q @ '' ''"], rule exI[of _ "[]"], simp)
  ultimately have "contradicts_diagnostic_rollback_rule ?m (diagnostic_phase_ids phases)"
    using assms(1,2) by (auto simp: contradicts_diagnostic_rollback_rule_def Let_def diagnostic_phase_ids_def
        list_ex_iff rollback_markers_def)
  moreover have "\<not> blank ?m" using assms(4) by (simp add: blank_def strip_def)
  ultimately show ?thesis by (simp add: grounded_critique_def Let_def)
qed

theorem critic_overruled_by_substring_witness:
  "cq_approved (grounded_critique \<lparr>ct_omissions = [], ct_concerns = [''p10'' @ '' has no rollback''], ct_approved = False\<rparr>
     [demo_phase\<lparr>ph_kind := Diagnostic\<rparr>, demo_phase\<lparr>ph_id := ''p10'', ph_sequence := 2\<rparr>] [] [] [])"
  by (subst critic_overruled_by_substring[of "demo_phase\<lparr>ph_kind := Diagnostic\<rparr>"])
    (simp_all add: demo_phase_def lower_def lower_char_def startswith_def blank_def is_space_def)

lemma conflicting_refs_raise:
  assumes "\<not> refs_consistent (get_refs st ''artifact_refs'' @ new)"
  shows "apply_updates st ((''artifact_refs'', VRefs new) # upd) = Inl (ValueError ''artifact reference conflict'')"
proof -
  have "reduce_field ''artifact_refs'' (st ''artifact_refs'') (VRefs new) =
      bindR (merge_artifact_refs (get_refs st ''artifact_refs'') new) (\<lambda>x. Inr (VRefs x))"
    by (simp add: reduce_field_def get_refs_def)
  with assms show ?thesis by (simp add: apply_updates_def apply_update_def merge_artifact_refs_eq)
qed

text \<open>A case cannot be planned twice: the id of the execution plan carries neither the pass of S01 nor
  that of S02, so when S02.81 seals a plan for a case that already holds one (the way back from an S06
  REVERT through S01) and the digests differ, merging its references raises and the run ends with the
  error.\<close>

theorem replanning_conflicts:
  assumes "handle_s02_81 sha clock fs st ports w = (Inr ex, w')" and "ex_route ex = CONTINUE"
    and "required_state_str st ''case_id'' = Inr cid"
    and "old \<in> set (get_refs st ''artifact_refs'')" and "ref_type old = ''ExecutionPlan''" and "ref_id old = cid @ ''-ExecutionPlan''"
  shows "\<exists>p t r. ex_updates ex = [(''artifact_refs'', VRefs [p, t, r]), (''s02_revision_attempts'', VInt (s02_pass_number st + 1))] \<and>
     ref_type p = ''ExecutionPlan'' \<and> ref_id p = cid @ ''-ExecutionPlan'' \<and>
     (ref_digest p \<noteq> ref_digest old \<longrightarrow> apply_updates st (ex_updates ex) = Inl (ValueError ''artifact reference conflict''))"
  using assms(1)
proof (rule handle_s02_81_result)
  fix selected snapshot w1 d ps ts
  let ?q = "list_all qr_passed (quality_results (repository_file_paths fs snapshot w1) d (get_critique st) ps ts)"
  assume pass: "?q \<Longrightarrow> \<exists>p t r w2 w3. seal_plan sha clock ports st selected ps ts w2 = (Inr (p, t), w3) \<and>
        ex = \<lparr>ex_route = CONTINUE, ex_updates = [(''artifact_refs'', VRefs [p, t, r]),
          (''s02_revision_attempts'', VInt (s02_pass_number st + 1))]\<rparr>"
    and other: "\<not> ?q \<Longrightarrow> \<exists>r. ex = \<lparr>ex_route = (if s02_pass_number st < max_s02_revisions then REVISION else REJECTED),
        ex_updates = [(''artifact_refs'', VRefs [r]), (''s02_revision_attempts'', VInt (s02_pass_number st + 1))]\<rparr>"
  have ?q
  proof (rule ccontr)
    assume "\<not> ?q"
    from other[OF this] assms(2) show False by (auto split: if_splits)
  qed
  from pass[OF this] obtain p t r w2 w3 where s: "seal_plan sha clock ports st selected ps ts w2 = (Inr (p, t), w3)"
    and ex: "ex = \<lparr>ex_route = CONTINUE, ex_updates = [(''artifact_refs'', VRefs [p, t, r]),
      (''s02_revision_attempts'', VInt (s02_pass_number st + 1))]\<rparr>" by blast
  from s have p: "ref_type p = ''ExecutionPlan''" "ref_id p = cid @ ''-ExecutionPlan''"
    by (rule seal_plan_result, use assms(3) in simp)+
  have "\<not> refs_consistent (get_refs st ''artifact_refs'' @ [p, t, r])" if "ref_digest p \<noteq> ref_digest old"
  proof
    assume c: "refs_consistent (get_refs st ''artifact_refs'' @ [p, t, r])"
    have "ref_key old = ref_key p" using assms(5,6) p by (simp add: ref_key_def)
    then have "ref_digest old = ref_digest p"
      by (rule c[unfolded refs_consistent_def, rule_format, rotated 2]) (use assms(4) in simp_all)
    with that show False by simp
  qed
  from conflicting_refs_raise[OF this] p show ?thesis
    unfolding ex by (intro exI[of _ p] exI[of _ t] exI[of _ r]) simp
qed

theorem replanning_conflicts_witness:
  "\<exists>ex. handle_s02_81 (\<lambda>_. rep_digest CHR ''a'') w_time demo_files (demo_s02 True True) (demo_ports None) demo_world =
       (Inr ex, demo_world) \<and>
     apply_updates (demo_s02 True True) (ex_updates ex) = Inl (ValueError ''artifact reference conflict'')"
proof -
  have "rep_digest CHR ''a'' \<noteq> rep_digest CHR ''b''" by (simp add: rep_digest_def)
  moreover have "earlier_plan \<in> set (get_refs (demo_s02 True True) ''artifact_refs'')" "ref_type earlier_plan = ''ExecutionPlan''"
    "ref_id earlier_plan = ''c'' @ ''-ExecutionPlan''" "ref_digest earlier_plan = rep_digest CHR ''b''"
    "required_state_str (demo_s02 True True) ''case_id'' = Inr ''c''"
    by (simp_all add: demo_s02_def get_refs_def earlier_plan_def demo_ref_def required_state_str_def get_str_def demo_s06_def)
  ultimately show ?thesis
    using replanning_conflicts[OF demo_s02_81[of True], of "''c''" earlier_plan] demo_s02_81[of True] by auto
qed

end
