(* ===== verification/Worker.thy ===== *)
theory Worker
  imports Planning
begin

text \<open>
  Workers: the in-process broker (\<open>adapters/production/local_worker_broker.py\<close>), running a command of the
  repository (\<open>application/a2_worker_capabilities.py\<close>) and the capability of the checks
  (\<open>application/s04_worker_capabilities.py\<close>). Processes, time and \<open>shutil.which\<close> are parameters, and so is
  the regular expression that reads a coverage percentage. A thread of the broker that ends is an
  explicit event.
\<close>

section \<open>The local broker\<close>

text \<open>A job is queued for the pool, running on its thread, or done with the result or exception of its
  future.\<close>

datatype future = Queued | Running | Done "artifact_ref result"

record local_broker =
  lb_capabilities :: "string list"
  lb_futures :: "future dict"

definition broker_submit :: "worker_job \<Rightarrow> local_broker \<Rightarrow> bool \<times> local_broker" where
  "broker_submit j b =
     (if wj_capability j \<in> set (lb_capabilities b)
      then (True, b\<lparr>lb_futures := AList.update (wj_id j) Queued (lb_futures b)\<rparr>)
      else (False, b))"

definition broker_cancel :: "string \<Rightarrow> local_broker \<Rightarrow> bool \<times> local_broker" where
  "broker_cancel jid b =
     (case map_of (lb_futures b) jid of
        None \<Rightarrow> (False, b)
      | Some f \<Rightarrow> (f = Queued, b\<lparr>lb_futures := AList.delete jid (lb_futures b)\<rparr>))"

definition broker_reconcile :: "string \<Rightarrow> local_broker \<Rightarrow> artifact_ref option result \<times> local_broker" where
  "broker_reconcile jid b =
     (case map_of (lb_futures b) jid of
        Some (Done r) \<Rightarrow> (bindR r (\<lambda>ref. Inr (Some ref)), b\<lparr>lb_futures := AList.delete jid (lb_futures b)\<rparr>)
      | _ \<Rightarrow> (Inr None, b))"

text \<open>The threads: a queued job starts, a running job ends with its result, or with \<open>TimeoutError\<close> at its
  deadline.\<close>

inductive worker_event :: "string \<Rightarrow> local_broker \<Rightarrow> local_broker \<Rightarrow> bool" where
  job_starts: "map_of (lb_futures b) jid = Some Queued \<Longrightarrow>
     worker_event jid b (b\<lparr>lb_futures := AList.update jid Running (lb_futures b)\<rparr>)"
| job_ends: "map_of (lb_futures b) jid = Some Running \<Longrightarrow>
     worker_event jid b (b\<lparr>lb_futures := AList.update jid (Done r) (lb_futures b)\<rparr>)"

inductive_cases worker_eventE: "worker_event jid b b'"

section \<open>Commands of the repository\<close>

record completed_process =
  cp_code :: int
  cp_stdout :: string
  cp_stderr :: string

record 'w processes =
  pr_which :: "string \<Rightarrow> 'w \<Rightarrow> string option"
  pr_run :: "string list \<Rightarrow> string \<Rightarrow> int \<Rightarrow> ('w, completed_process) io"   \<comment> \<open>\<open>subprocess.run\<close>\<close>

definition run_repository_command :: "'w processes \<Rightarrow> string list \<Rightarrow> string \<Rightarrow> int \<Rightarrow> ('w, completed_process) io" where
  "run_repository_command pr argv cwd timeout = (\<lambda>w.
     let resolved = (case argv of [] \<Rightarrow> None | a # _ \<Rightarrow> pr_which pr a w);
         argv' = (case resolved of Some r \<Rightarrow> if r = [] then argv else r # tl argv | None \<Rightarrow> argv) in
     case pr_run pr argv' cwd timeout w of
       (Inl (OSError msg), w') \<Rightarrow> (Inr \<lparr>cp_code = -1, cp_stdout = [], cp_stderr = ''could not run: '' @ msg\<rparr>, w')
     | out \<Rightarrow> out)"

definition output_tail_bytes :: nat where
  "output_tail_bytes = 8000"

definition tail_of :: "nat \<Rightarrow> string \<Rightarrow> string" where
  "tail_of n s = drop (length s - n) s"

section \<open>The checks of S04\<close>

definition find_manifest :: "'w node_ports \<Rightarrow> string \<Rightarrow> worker_job \<Rightarrow> ('w, repository_manifest) io" where
  "find_manifest ports tenant j =
     (case find (\<lambda>r. ref_type r = ''RepositoryManifest'') (wj_inputs j) of
        None \<Rightarrow> failI (ValueError ''worker job has no RepositoryManifest input ref'')
      | Some ref \<Rightarrow> bindI (np_read ports tenant ref) (\<lambda>payload.
          case payload of
            Sealed e \<Rightarrow> liftI (decode_manifest (env_body e))
          | _ \<Rightarrow> failI (ValidationError ''RepositoryManifest'')))"

definition find_command :: "repository_manifest \<Rightarrow> string \<Rightarrow> repository_command result" where
  "find_command m kind =
     (case find (\<lambda>c. cm_kind c = kind) (rm_commands m) of
        None \<Rightarrow> Inl (ValueError ''no such command in RepositoryManifest'')
      | Some c \<Rightarrow> Inr c)"

definition is_pytest_invocation :: "string list \<Rightarrow> bool" where
  "is_pytest_invocation argv \<longleftrightarrow> list_ex (\<lambda>part. lower (file_stem part) = ''pytest'') argv"

definition coverage_argv :: "repository_command \<Rightarrow> repository_manifest \<Rightarrow> string list \<times> bool" where
  "coverage_argv c m =
     (if dict_get (rm_coverage m) ''pytest_cov'' 0 \<le> 0 then (cm_argv c, False)
      else if \<not> is_pytest_invocation (cm_argv c) then (cm_argv c, False)
      else (cm_argv c @ [''--cov=.'', ''--cov-report=term''], True))"

definition s04_check_kinds :: "string list" where
  "s04_check_kinds = [''build'', ''lint'', ''type'', ''unit'', ''integration'', ''security'']"

text \<open>\<open>coverage_of\<close> is \<open>_parse_coverage_percent\<close>, \<open>put_blob\<close> the store.\<close>

definition s04_capability :: "(blob \<Rightarrow> string) \<Rightarrow> 'w processes \<Rightarrow> (string \<Rightarrow> rat option) \<Rightarrow>
    (string \<Rightarrow> blob \<Rightarrow> string \<Rightarrow> string \<Rightarrow> ('w, artifact_ref) io) \<Rightarrow> 'w node_ports \<Rightarrow> string \<Rightarrow> string \<Rightarrow>
    worker_job \<Rightarrow> ('w, artifact_ref) io" where
  "s04_capability sha pr coverage_of put_blob ports tenant dir j =
     bindI (find_manifest ports tenant j) (\<lambda>m.
     bindI (liftI (find_command m (wj_capability j))) (\<lambda>c.
     let (argv, requested) = (if wj_capability j = ''unit'' then coverage_argv c m else (cm_argv c, False)) in
     bindI (run_repository_command pr argv dir (wj_timeout j)) (\<lambda>out.
     let content = Output \<lparr>wo_command = cm_id c, wo_argv = argv, wo_cwd = dir, wo_exit = cp_code out,
           wo_stdout = tail_of output_tail_bytes (cp_stdout out), wo_stderr = tail_of output_tail_bytes (cp_stderr out),
           wo_coverage = (if requested then coverage_of (cp_stdout out) else None), wo_rounds = []\<rparr> in
     put_blob tenant content (sha content) ''application/json'')))"

section \<open>Waiting for a worker\<close>

text \<open>\<open>time.monotonic\<close> and \<open>time.sleep(0.05)\<close>.\<close>

record 'w timer =
  tm_now :: "'w \<Rightarrow> rat"
  tm_sleep :: "'w \<Rightarrow> 'w"

text \<open>The loop polls until the deadline; \<open>n\<close> bounds the number of polls. A wait of at most 30 seconds polls
  every 0.05 seconds, so 601 polls are enough (\<open>await_fuel\<close> below).\<close>

fun await_loop :: "nat \<Rightarrow> 'w timer \<Rightarrow> (string \<Rightarrow> ('w, artifact_ref option) io) \<Rightarrow> string \<Rightarrow> rat \<Rightarrow>
    ('w, artifact_ref option) io" where
  "await_loop 0 tm reconcile jid deadline w = (Inr None, w)"
| "await_loop (Suc n) tm reconcile jid deadline w =
     (if tm_now tm w < deadline
      then case reconcile jid w of
          (Inl e, w') \<Rightarrow> (Inl e, w')
        | (Inr (Some ref), w') \<Rightarrow> (Inr (Some ref), w')
        | (Inr None, w') \<Rightarrow> await_loop n tm reconcile jid deadline (tm_sleep tm w')
      else (Inr None, w))"

definition await_worker_result :: "'w timer \<Rightarrow> (string \<Rightarrow> ('w, artifact_ref option) io) \<Rightarrow> string \<Rightarrow> rat \<Rightarrow>
    ('w, artifact_ref option) io" where
  "await_worker_result tm reconcile jid timeout = (\<lambda>w.
     await_loop 601 tm reconcile jid (tm_now tm w + min timeout 30) w)"

section \<open>Properties\<close>

text \<open>Everything that can happen to the broker but a submission of the job \<open>jid\<close>.\<close>

inductive broker_step :: "string \<Rightarrow> local_broker \<Rightarrow> local_broker \<Rightarrow> bool" for jid where
  "worker_event j b b' \<Longrightarrow> broker_step jid b b'"
| "wj_id j \<noteq> jid \<Longrightarrow> broker_step jid b (snd (broker_submit j b))"
| "broker_step jid b (snd (broker_cancel j b))"
| "broker_step jid b (snd (broker_reconcile j b))"

lemma broker_step_forgets:
  assumes "broker_step jid b b'" and "map_of (lb_futures b) jid = None"
  shows "map_of (lb_futures b') jid = None"
  using assms
proof (cases rule: broker_step.cases)
  case (1 j)
  then show ?thesis using assms(2) by (cases rule: worker_event.cases) (auto simp: update_conv')
qed (auto simp: broker_submit_def broker_cancel_def broker_reconcile_def update_conv' AList.delete_conv'
      split: option.splits future.splits)

lemma forgotten_job:
  assumes "(broker_step jid)\<^sup>*\<^sup>* b b'" and "map_of (lb_futures b) jid = None"
  shows "broker_reconcile jid b' = (Inr None, b')"
proof -
  have "map_of (lb_futures b') jid = None"
    using assms by (induction rule: rtranclp_induct) (auto dest: broker_step_forgets)
  then show ?thesis by (simp add: broker_reconcile_def)
qed

text \<open>C33. The broker hands out each result once: an accepted job can start and end, the next
  \<open>reconcile\<close> then returns exactly its result (or raises its exception), and after that, whatever else
  happens short of a new submission, the job is unknown. Cancelling a job that is already running
  reports \<open>False\<close> and yet loses it: its result is never returned.\<close>

theorem broker_delivers_once:
  assumes "broker_submit j b = (True, b1)"
  shows "\<exists>b2 b3. worker_event (wj_id j) b1 b2 \<and> worker_event (wj_id j) b2 b3 \<and>
     (\<forall>b4. (broker_step (wj_id j))\<^sup>*\<^sup>* (snd (broker_cancel (wj_id j) b2)) b4 \<longrightarrow>
        \<not> fst (broker_cancel (wj_id j) b2) \<and> broker_reconcile (wj_id j) b4 = (Inr None, b4)) \<and>
     (\<exists>b4. broker_reconcile (wj_id j) b3 = (bindR r (\<lambda>ref. Inr (Some ref)), b4) \<and>
        (\<forall>b5. (broker_step (wj_id j))\<^sup>*\<^sup>* b4 b5 \<longrightarrow> broker_reconcile (wj_id j) b5 = (Inr None, b5)))"
proof -
  let ?id = "wj_id j"
  let ?b2 = "b1\<lparr>lb_futures := AList.update ?id Running (lb_futures b1)\<rparr>"
  let ?b3 = "?b2\<lparr>lb_futures := AList.update ?id (Done r) (lb_futures ?b2)\<rparr>"
  have "map_of (lb_futures b1) ?id = Some Queued"
    using assms by (auto simp: broker_submit_def update_conv' split: if_splits)
  then have e: "worker_event ?id b1 ?b2" by (rule job_starts)
  have "worker_event ?id ?b2 ?b3" by (rule job_ends) (simp add: update_conv')
  note e = e this
  have c: "\<not> fst (broker_cancel ?id ?b2)" "map_of (lb_futures (snd (broker_cancel ?id ?b2))) ?id = None"
    by (simp_all add: broker_cancel_def update_conv' AList.delete_conv')
  have r: "broker_reconcile ?id ?b3 = (bindR r (\<lambda>ref. Inr (Some ref)), ?b3\<lparr>lb_futures := AList.delete ?id (lb_futures ?b3)\<rparr>)"
    by (simp add: broker_reconcile_def update_conv')
  have "map_of (lb_futures (?b3\<lparr>lb_futures := AList.delete ?id (lb_futures ?b3)\<rparr>)) ?id = None"
    by (simp add: AList.delete_conv')
  with e c r show ?thesis by (intro exI[of _ ?b2] exI[of _ ?b3]) (auto intro: forgotten_job)
qed

text \<open>A clock that a sleep moves on by at least 0.05 seconds and that never goes back.\<close>

locale advancing_timer =
  fixes tm :: "'w timer" and reconcile :: "string \<Rightarrow> ('w, artifact_ref option) io"
  assumes sleeps: "tm_now tm w + 1 / 20 \<le> tm_now tm (tm_sleep tm w)"
    and moves_on: "tm_now tm w \<le> tm_now tm (snd (reconcile jid w))"
begin

lemma await_fuel:
  "deadline - tm_now tm w \<le> of_nat k / 20 \<Longrightarrow> k \<le> n \<Longrightarrow>
     await_loop (Suc n) tm reconcile jid deadline w = await_loop (Suc k) tm reconcile jid deadline w"
proof (induction k arbitrary: n w)
  case (Suc k)
  obtain m where n: "n = Suc m" "k \<le> m" using Suc.prems(2) by (cases n) auto
  show ?case
  proof (cases "reconcile jid w")
    case (Pair r w')
    have "tm_now tm w + 1 / 20 \<le> tm_now tm (tm_sleep tm w')"
      using moves_on[of w jid] sleeps[of w'] Pair by simp
    then have "deadline - tm_now tm (tm_sleep tm w') \<le> of_nat k / 20" using Suc.prems(1) by (simp add: field_simps)
    from Suc.IH[OF this n(2)] show ?thesis using n Pair by (simp split: sum.splits option.splits)
  qed
qed simp

lemma await_gives_up:
  "await_loop (Suc k) tm reconcile jid deadline w = (Inr None, w') \<Longrightarrow> deadline - tm_now tm w \<le> of_nat k / 20 \<Longrightarrow>
     deadline \<le> tm_now tm w'"
proof (induction k arbitrary: w)
  case (Suc k)
  show ?case
  proof (cases "tm_now tm w < deadline")
    case True
    obtain r w1 where r: "reconcile jid w = (r, w1)" by fastforce
    have "tm_now tm w + 1 / 20 \<le> tm_now tm (tm_sleep tm w1)"
      using moves_on[of w jid] sleeps[of w1] r by simp
    then have d: "deadline - tm_now tm (tm_sleep tm w1) \<le> of_nat k / 20" using Suc.prems(2) by (simp add: field_simps)
    have "await_loop (Suc k) tm reconcile jid deadline (tm_sleep tm w1) = (Inr None, w')"
      using Suc.prems(1)[unfolded await_loop.simps(2)[of "Suc k"]] True r
      by (auto split: sum.splits option.splits simp del: await_loop.simps)
    from Suc.IH[OF this d] show ?thesis .
  qed (use Suc.prems in auto)
qed (auto split: if_splits)

end

text \<open>C34. Waiting for a worker ends by itself: with a clock that a sleep of 0.05 seconds moves on by at
  least that, the loop of \<open>_await_worker_result\<close> polls at most 601 times, so that a larger bound on the
  polls changes nothing, and it gives up only when 30 seconds (or the shorter timeout) have passed. The
  120 seconds a check is allowed to take are never waited for.\<close>

theorem await_is_bounded:
  assumes sleeps: "\<And>w. tm_now tm w + 1 / 20 \<le> tm_now tm (tm_sleep tm w)"
    and moves_on: "\<And>jid w. tm_now tm w \<le> tm_now tm (snd (reconcile jid w))"
  shows "(601 \<le> n \<longrightarrow> await_loop n tm reconcile jid (tm_now tm w + min timeout 30) w = await_worker_result tm reconcile jid timeout w) \<and>
     (await_worker_result tm reconcile jid timeout w = (Inr None, w') \<longrightarrow> tm_now tm w + min timeout 30 \<le> tm_now tm w') \<and>
     await_worker_result tm reconcile jid 120 = await_worker_result tm reconcile jid 30"
proof -
  have at: "advancing_timer tm reconcile" using assms by unfold_locales
  have d: "(tm_now tm w + min timeout 30) - tm_now tm w \<le> of_nat 600 / 20" by simp
  have eq: "await_worker_result tm reconcile jid timeout w = await_loop (Suc 600) tm reconcile jid (tm_now tm w + min timeout 30) w"
    by (simp add: await_worker_result_def del: await_loop.simps)
  have "await_loop n tm reconcile jid (tm_now tm w + min timeout 30) w = await_worker_result tm reconcile jid timeout w" if n: "601 \<le> n"
  proof -
    obtain m where "n = Suc m" "600 \<le> m" using n by (cases n) auto
    with advancing_timer.await_fuel[OF at d, of m] eq show ?thesis by simp
  qed
  moreover have "tm_now tm w + min timeout 30 \<le> tm_now tm w'" if "await_worker_result tm reconcile jid timeout w = (Inr None, w')"
    by (rule advancing_timer.await_gives_up[OF at that[unfolded eq] d])
  moreover have "await_worker_result tm reconcile jid 120 = await_worker_result tm reconcile jid 30"
    by (simp add: await_worker_result_def)
  ultimately show ?thesis by blast
qed

text \<open>The local broker polled on a clock: a poll takes no time, a sleep 0.05 seconds.\<close>

definition poll_timer :: "(rat \<times> local_broker) timer" where
  "poll_timer = \<lparr>tm_now = fst, tm_sleep = (\<lambda>(t, b). (t + 1 / 20, b))\<rparr>"

definition local_reconcile :: "string \<Rightarrow> (rat \<times> local_broker, artifact_ref option) io" where
  "local_reconcile jid = (\<lambda>(t, b). case broker_reconcile jid b of (r, b') \<Rightarrow> (r, (t, b')))"

lemma local_clock:
  "tm_now poll_timer w + 1 / 20 \<le> tm_now poll_timer (tm_sleep poll_timer w)"
  "tm_now poll_timer w \<le> tm_now poll_timer (snd (local_reconcile jid w))"
  by (cases w, simp_all add: poll_timer_def local_reconcile_def split: prod.splits)

interpretation local_wait: advancing_timer poll_timer local_reconcile
  by unfold_locales (rule local_clock)+

text \<open>A job that is done is fetched at the first poll.\<close>

lemma done_job_fetched:
  assumes "map_of (lb_futures b) jid = Some (Done (Inr ref))" and "0 < timeout"
  shows "\<exists>b'. await_worker_result poll_timer local_reconcile jid timeout (t, b) = (Inr (Some ref), (t, b'))"
  using assms by (simp add: await_worker_result_def poll_timer_def local_reconcile_def broker_reconcile_def numeral_eq_Suc)

theorem await_is_bounded_witness:
  "await_loop 700 poll_timer local_reconcile ''j'' (fst (0, \<lparr>lb_capabilities = [], lb_futures = [(''j'', Running)]\<rparr>) + min 120 30)
     (0, \<lparr>lb_capabilities = [], lb_futures = [(''j'', Running)]\<rparr>) =
   await_worker_result poll_timer local_reconcile ''j'' 120 (0, \<lparr>lb_capabilities = [], lb_futures = [(''j'', Running)]\<rparr>)"
proof -
  let ?w = "(0, \<lparr>lb_capabilities = [], lb_futures = [(''j'', Running)]\<rparr>) :: rat \<times> local_broker"
  from await_is_bounded[where tm = poll_timer and reconcile = local_reconcile and n = 700 and jid = "''j''" and w = ?w and timeout = 120,
    OF local_clock(1) local_clock(2), THEN conjunct1]
  show ?thesis by (simp add: poll_timer_def del: await_loop.simps)
qed

theorem broker_delivers_once_witness:
  "\<exists>b4 b5. broker_reconcile ''j'' b4 = (Inr (Some (demo_ref ''Blob'' ''k'')), b5) \<and> broker_reconcile ''j'' b5 = (Inr None, b5)"
proof -
  let ?j = "\<lparr>wj_id = ''j'', wj_case = ''c'', wj_node = ''S04'', wj_key = ''j'', wj_inputs = [], wj_capability = ''unit'', wj_timeout = 120\<rparr>"
  let ?b = "\<lparr>lb_capabilities = s04_check_kinds, lb_futures = []\<rparr>"
  have "broker_submit ?j ?b = (True, \<lparr>lb_capabilities = s04_check_kinds, lb_futures = [(''j'', Queued)]\<rparr>)"
    by (simp add: broker_submit_def s04_check_kinds_def)
  from broker_delivers_once[OF this, of "Inr (demo_ref ''Blob'' ''k'')"] show ?thesis by fastforce
qed

end
