(* ===== verification/Verification.thy ===== *)
theory Verification
  imports Worker
begin

text \<open>
  Step 04, verify one phase (\<open>application/s04_handlers.py\<close>): the checks that the repository's own commands
  resolve to, running them through a worker broker in the workspace of S03, the attribution of failures
  to the baseline, the gate S04.80 and the sealed report of S04.90. The broker that S04 builds for a
  workspace is a parameter with the operations of \<open>LocalWorkerBroker\<close>; durations are not modelled.
\<close>

section \<open>State\<close>

definition get_s04_manifest :: "state \<Rightarrow> s04_manifest" where
  "get_s04_manifest st =
     (case st ''s04_manifest'' of
        Some (VManifest m) \<Rightarrow> m
      | _ \<Rightarrow> \<lparr>mf_plan = [], mf_patch = [], mf_workspace_ok = False, mf_resolved = [], mf_touched = None, mf_gate = None\<rparr>)"

text \<open>A list that came back from JSON holds plain dictionaries, which have no attributes.\<close>

definition get_checks :: "state \<Rightarrow> check_result list result" where
  "get_checks st =
     (case st ''s04_check_results'' of
        Some (VChecks cs) \<Rightarrow> Inr cs
      | Some (VPlain _) \<Rightarrow> Inl (AttributeError ''passed'')
      | _ \<Rightarrow> Inr [])"

definition get_failure_attributions :: "state \<Rightarrow> failure_attribution list" where
  "get_failure_attributions st = (case st ''s04_failure_attributions'' of Some (VAttributions xs) \<Rightarrow> xs | _ \<Rightarrow> [])"

definition workspace_path :: "state \<Rightarrow> string option" where
  "workspace_path st = (case st ''s03_workspace'' of Some (VWorkspace k) \<Rightarrow> Some (wk_path k) | _ \<Rightarrow> None)"

definition decode_tasks :: "body \<Rightarrow> task_list result" where
  "decode_tasks b = (case b of BTasks t \<Rightarrow> if valid_task_list t then Inr t else Inl (ValidationError ''TaskList'')
     | _ \<Rightarrow> Inl (ValidationError ''TaskList''))"

definition decode_baseline :: "body \<Rightarrow> baseline_snapshot result" where
  "decode_baseline b = (case b of
       BBaseline l \<Rightarrow> if valid_baseline l then Inr l else Inl (ValidationError ''BaselineSnapshot'')
     | _ \<Rightarrow> Inl (ValidationError ''BaselineSnapshot''))"

section \<open>Entry and the kinds to check\<close>

definition handle_s04_10 :: "'w files \<Rightarrow> state \<Rightarrow> 'w node_ports \<Rightarrow> ('w, node_execution) io" where
  "handle_s04_10 fs st ports =
     bindI (liftI (require_ref st ''ExecutionPlan'')) (\<lambda>plan_ref.
     bindI (liftI (require_phase_ref st ''S03.80'' ''PatchArtifact'')) (\<lambda>patch_ref. (\<lambda>w.
       let ok = fs_is_dir fs (case workspace_path st of Some p \<Rightarrow> p | None \<Rightarrow> []) w in
       retI \<lparr>ex_route = (if ok then CONTINUE else REJECTED),
             ex_updates = [(''s04_manifest'', VManifest \<lparr>mf_plan = ref_digest plan_ref, mf_patch = ref_digest patch_ref,
                 mf_workspace_ok = ok, mf_resolved = [], mf_touched = None, mf_gate = None\<rparr>),
               (''s04_check_results'', VChecks []), (''s04_failure_attributions'', VAttributions [])]\<rparr> w)))"

definition handle_s04_20 :: "state \<Rightarrow> 'w node_ports \<Rightarrow> ('w, node_execution) io" where
  "handle_s04_20 st ports =
     bindI (read_manifest ports st) (\<lambda>m.
     retI (cont [(''s04_manifest'', VManifest ((get_s04_manifest st)
       \<lparr>mf_resolved := sorted_set (filter (\<lambda>k. k \<noteq> ''benchmark'') (map cm_kind (rm_commands m)))\<rparr>))]))"

definition resolved_kinds :: "state \<Rightarrow> check_kind list \<Rightarrow> check_kind list" where
  "resolved_kinds st kinds = filter (\<lambda>k. check_kind_name k \<in> set (mf_resolved (get_s04_manifest st))) kinds"

section \<open>Running checks\<close>

record 'w broker_ops =
  bk_submit :: "worker_job \<Rightarrow> ('w, bool) io"
  bk_reconcile :: "string \<Rightarrow> ('w, artifact_ref option) io"
  bk_close :: "'w \<Rightarrow> 'w"

definition output_tail_chars :: nat where
  "output_tail_chars = 2000"

definition max_check_seconds :: rat where
  "max_check_seconds = 120"

definition mk_check :: "check_result \<Rightarrow> check_result result" where
  "mk_check c = (if valid_check c then Inr c else Inl (ValidationError ''CheckResult''))"

definition failed_check :: "check_kind \<Rightarrow> string \<Rightarrow> check_result" where
  "failed_check kind why = \<lparr>ck_command = check_kind_name kind, ck_kind = kind, ck_exit = -1, ck_passed = False,
     ck_tail = why, ck_coverage = None\<rparr>"

definition check_of_output :: "check_kind \<Rightarrow> blob \<Rightarrow> check_result" where
  "check_of_output kind payload =
     (case payload of
        Output out \<Rightarrow> \<lparr>ck_command = wo_command out, ck_kind = kind, ck_exit = wo_exit out, ck_passed = (wo_exit out = 0),
          ck_tail = tail_of output_tail_chars (wo_stdout out @ wo_stderr out), ck_coverage = wo_coverage out\<rparr>
      | _ \<Rightarrow> failed_check kind [])"

definition run_one_check :: "'w timer \<Rightarrow> 'w broker_ops \<Rightarrow> 'w node_ports \<Rightarrow> string \<Rightarrow> string \<Rightarrow> artifact_ref \<Rightarrow> check_kind \<Rightarrow>
    ('w, check_result) io" where
  "run_one_check tm bk ports cid tenant manifest_ref kind =
     (let jid = cid @ ''-S04-'' @ check_kind_name kind;
          job = \<lparr>wj_id = jid, wj_case = cid, wj_node = ''S04'', wj_key = jid, wj_inputs = [manifest_ref],
                  wj_capability = check_kind_name kind, wj_timeout = 120\<rparr> in
      bindI (liftI (if valid_job job then Inr job else Inl (ValidationError ''WorkerJob''))) (\<lambda>job.
      bindI (bk_submit bk job) (\<lambda>accepted.
      if \<not> accepted then retI (failed_check kind ''worker job was not accepted'')
      else bindI (await_worker_result tm (bk_reconcile bk) jid max_check_seconds) (\<lambda>out.
        case out of
          None \<Rightarrow> retI (failed_check kind ''timed out waiting for the worker'')
        | Some ref \<Rightarrow> bindI (np_read ports tenant ref) (\<lambda>payload. liftI (mk_check (check_of_output kind payload)))))))"

fun check_each :: "(check_kind \<Rightarrow> ('w, check_result) io) \<Rightarrow> check_kind list \<Rightarrow> ('w, check_result list) io" where
  "check_each f [] = retI []"
| "check_each f (k # ks) = bindI (f k) (\<lambda>r. bindI (check_each f ks) (\<lambda>rs. retI (r # rs)))"

text \<open>\<open>try\<close> \dots \<open>finally: broker.close()\<close>.\<close>

definition finallyI :: "('w, 'a) io \<Rightarrow> ('w \<Rightarrow> 'w) \<Rightarrow> ('w, 'a) io" where
  "finallyI m f = (\<lambda>w. case m w of (r, w') \<Rightarrow> (r, f w'))"

definition run_checks :: "'w timer \<Rightarrow> (string \<Rightarrow> string \<Rightarrow> 'w broker_ops) \<Rightarrow> 'w node_ports \<Rightarrow> state \<Rightarrow> check_kind list \<Rightarrow>
    ('w, check_result list) io" where
  "run_checks tm mk_broker ports st kinds =
     (if kinds = [] then retI []
      else bindI (liftI (require_ref st ''RepositoryManifest'')) (\<lambda>manifest_ref.
        bindI (liftI (case workspace_path st of Some p \<Rightarrow> Inr p | None \<Rightarrow> Inl (KeyError ''path''))) (\<lambda>dir.
        bindI (liftI (required_state_str st ''case_id'')) (\<lambda>cid.
        bindI (liftI (required_state_str st ''tenant_id'')) (\<lambda>tenant.
        let bk = mk_broker tenant dir in
        finallyI (check_each (run_one_check tm bk ports cid tenant manifest_ref) kinds) (bk_close bk))))))"

definition check_node :: "'w timer \<Rightarrow> (string \<Rightarrow> string \<Rightarrow> 'w broker_ops) \<Rightarrow> check_kind list \<Rightarrow> state \<Rightarrow> 'w node_ports \<Rightarrow>
    ('w, node_execution) io" where
  "check_node tm mk_broker kinds st ports =
     bindI (run_checks tm mk_broker ports st (resolved_kinds st kinds)) (\<lambda>results.
     bindI (liftI (get_checks st)) (\<lambda>existing.
     retI (cont [(''s04_check_results'', VChecks (existing @ results))])))"

definition handle_s04_30 :: "'w timer \<Rightarrow> (string \<Rightarrow> string \<Rightarrow> 'w broker_ops) \<Rightarrow> state \<Rightarrow> 'w node_ports \<Rightarrow> ('w, node_execution) io" where
  "handle_s04_30 tm mk_broker = check_node tm mk_broker [BuildCheck, LintCheck, TypeCheck]"

definition handle_s04_40 :: "'w timer \<Rightarrow> (string \<Rightarrow> string \<Rightarrow> 'w broker_ops) \<Rightarrow> state \<Rightarrow> 'w node_ports \<Rightarrow> ('w, node_execution) io" where
  "handle_s04_40 tm mk_broker = check_node tm mk_broker [UnitCheck]"

definition handle_s04_50 :: "'w timer \<Rightarrow> (string \<Rightarrow> string \<Rightarrow> 'w broker_ops) \<Rightarrow> state \<Rightarrow> 'w node_ports \<Rightarrow> ('w, node_execution) io" where
  "handle_s04_50 tm mk_broker = check_node tm mk_broker [IntegrationCheck, SecurityCheck]"

section \<open>Attribution, gate and report\<close>

definition handle_s04_60 :: "state \<Rightarrow> 'w node_ports \<Rightarrow> ('w, node_execution) io" where
  "handle_s04_60 st ports =
     bindI (liftI (require_phase_ref st ''S03.80'' ''PatchArtifact'')) (\<lambda>patch_ref.
     bindI (read_model ports st patch_ref decode_patch) (\<lambda>patch.
     bindI (read_manifest ports st) (\<lambda>m.
     let touched = filter (\<lambda>p. list_ex (\<lambda>t. p = t \<or> startswith p (t @ ''/'')) (rm_test_roots m)) (pa_files patch) in
     retI (cont [(''s04_manifest'', VManifest ((get_s04_manifest st)\<lparr>mf_touched := Some touched\<rparr>))]))))"

definition baseline_failing_kinds :: "metric_aggregate list \<Rightarrow> string list" where
  "baseline_failing_kinds aggregates =
     map (\<lambda>a. take (length (ma_metric a) - length ''_command_result'') (ma_metric a))
       (filter (\<lambda>a. endswith (ma_metric a) ''_command_result'' \<and> ma_mean a \<noteq> 0) aggregates)"

definition attribute_failure :: "string list \<Rightarrow> check_result \<Rightarrow> failure_attribution" where
  "attribute_failure failing r =
     (let kind = check_kind_name (ck_kind r) in
      if kind \<in> set failing
      then \<lparr>fa_kind = ck_kind r, fa_class = BaselineExisting,
             fa_detail = kind @ ''_command_result already showed a nonzero baseline mean before this patch existed''\<rparr>
      else \<lparr>fa_kind = ck_kind r, fa_class = PatchRegression,
             fa_detail = kind @ '' passed (or had no prior baseline) and now fails''\<rparr>)"

definition handle_s04_70 :: "state \<Rightarrow> 'w node_ports \<Rightarrow> ('w, node_execution) io" where
  "handle_s04_70 st ports =
     bindI (liftI (get_checks st)) (\<lambda>results.
     let failed = filter (\<lambda>r. \<not> ck_passed r) results in
     if failed = [] then retI (cont [(''s04_failure_attributions'', VAttributions [])])
     else bindI (case try_ref st ''BaselineSnapshot'' of
                   None \<Rightarrow> retI []
                 | Some ref \<Rightarrow> bindI (read_model ports st ref decode_baseline) (\<lambda>b. retI (baseline_failing_kinds (bl_aggregates b)))) (\<lambda>failing.
       retI (cont [(''s04_failure_attributions'', VAttributions (map (attribute_failure failing) failed))])))"

definition checks_pass :: "check_result list \<Rightarrow> bool" where
  "checks_pass results \<longleftrightarrow> filter (\<lambda>r. ck_kind r \<in> mandatory_kinds) results \<noteq> [] \<and> list_all ck_passed results"

definition handle_s04_80 :: "state \<Rightarrow> 'w node_ports \<Rightarrow> ('w, node_execution) io" where
  "handle_s04_80 st ports =
     bindI (liftI (get_checks st)) (\<lambda>results.
     retI \<lparr>ex_route = (if checks_pass results then CONTINUE else REVISION),
           ex_updates = [(''s04_manifest'', VManifest ((get_s04_manifest st)\<lparr>mf_gate := Some (checks_pass results)\<rparr>))]\<rparr>)"

definition no_checks_resolved :: check_result where
  "no_checks_resolved = \<lparr>ck_command = ''no-checks-resolved'', ck_kind = IntegrationCheck, ck_exit = 1, ck_passed = False,
     ck_tail = ''no build/lint/type/unit check was resolved for this repository, so this phase could not be verified'',
     ck_coverage = None\<rparr>"

definition handle_s04_90 :: "(blob \<Rightarrow> string) \<Rightarrow> ('w \<Rightarrow> int) \<Rightarrow> state \<Rightarrow> 'w node_ports \<Rightarrow> ('w, node_execution) io" where
  "handle_s04_90 sha clock st ports =
     bindI (liftI (require_phase_ref st ''S03.80'' ''PatchArtifact'')) (\<lambda>patch_ref.
     bindI (liftI (require_phase_ref st ''S03.80'' ''ExecutionProvenance'')) (\<lambda>provenance_ref.
     bindI (liftI (require_ref st ''TaskList'')) (\<lambda>tasks_ref.
     bindI (read_model ports st tasks_ref decode_tasks) (\<lambda>tasks.
     bindI (liftI (active_phase_id st)) (\<lambda>phase.
     bindI (liftI (get_checks st)) (\<lambda>results.
     let passed = checks_pass results;
         report = \<lparr>vr_patch = ref_digest patch_ref, vr_provenance = ref_digest provenance_ref, vr_phase = phase,
           vr_checks = (if results = [] then [no_checks_resolved] else results),
           vr_attributions = get_failure_attributions st, vr_passed = passed\<rparr> in
     bindI (seal_and_put sha clock ports st ''S04.90'' ''VerificationReport'' (valid_verification report) (BVerification report)) (\<lambda>ref.
     retI (cont [(''artifact_refs'', VRefs [ref]),
       (if passed
        then (''s03_completed_task_ids'', VStrs (sorted_set (get_strs st ''s03_completed_task_ids'' @
               map tk_id (filter (\<lambda>t. tk_phase t = phase) (tkl_tasks tasks)))))
        else (''s03_revision_attempts'', VInt (pass_number st + 1)))]))))))))"

section \<open>What the checks establish\<close>

lemma await_first_poll:
  assumes "reconcile jid w = (Inr (Some ref), w')" and "0 < timeout"
  shows "await_worker_result tm reconcile jid timeout w = (Inr (Some ref), w')"
proof -
  have "await_worker_result tm reconcile jid timeout w = await_loop (Suc 600) tm reconcile jid (tm_now tm w + min timeout 30) w"
    by (simp add: await_worker_result_def del: await_loop.simps)
  also have "\<dots> = (Inr (Some ref), w')" using assms by (subst await_loop.simps(2)) simp
  finally show ?thesis .
qed

lemma run_one_check_kind:
  assumes "run_one_check tm bk ports cid tenant mref kind w = (Inr r, w')"
  shows "ck_kind r = kind" and "ck_passed r \<longleftrightarrow> ck_exit r = 0" and "valid_check r"
proof -
  have f: "valid_check (failed_check kind why)" if "length why \<le> 4000" for why
    using that by (cases kind) (simp_all add: valid_check_def failed_check_def)
  have "ck_kind r = kind \<and> (ck_passed r \<longleftrightarrow> ck_exit r = 0) \<and> valid_check r"
    using assms f
    by (auto simp: run_one_check_def Let_def mk_check_def check_of_output_def failed_check_def
        split: option.splits if_splits blob.splits elim!: bindI_result_Inr)
  then show "ck_kind r = kind" "ck_passed r \<longleftrightarrow> ck_exit r = 0" "valid_check r" by simp_all
qed

lemma check_each_kinds:
  "check_each (run_one_check tm bk ports cid tenant mref) kinds w = (Inr rs, w') \<Longrightarrow>
     map ck_kind rs = kinds \<and> list_all (\<lambda>r. (ck_passed r \<longleftrightarrow> ck_exit r = 0) \<and> valid_check r) rs"
proof (induction kinds arbitrary: w rs w')
  case (Cons k ks)
  from Cons.prems obtain r w1 rs' w2 where r: "run_one_check tm bk ports cid tenant mref k w = (Inr r, w1)"
    "check_each (run_one_check tm bk ports cid tenant mref) ks w1 = (Inr rs', w2)" "rs = r # rs'"
    by (auto elim!: bindI_result_Inr)
  from run_one_check_kind[OF r(1)] Cons.IH[OF r(2)] r(3) show ?case by simp
qed simp

lemma run_checks_kinds:
  assumes "run_checks tm mk_broker ports st kinds w = (Inr rs, w')"
  shows "map ck_kind rs = kinds" and "list_all (\<lambda>r. (ck_passed r \<longleftrightarrow> ck_exit r = 0) \<and> valid_check r) rs"
proof -
  have "map ck_kind rs = kinds \<and> list_all (\<lambda>r. (ck_passed r \<longleftrightarrow> ck_exit r = 0) \<and> valid_check r) rs"
  proof (cases "kinds = []")
    case False
    then obtain bk cid tenant mref w1 w2 where
      "check_each (run_one_check tm bk ports cid tenant mref) kinds w1 = (Inr rs, w2)"
      using assms by (auto simp: run_checks_def finallyI_def Let_def split: prod.splits option.splits elim!: bindI_result_Inr)
    then show ?thesis by (rule check_each_kinds)
  qed (use assms in \<open>simp add: run_checks_def\<close>)
  then show "map ck_kind rs = kinds" "list_all (\<lambda>r. (ck_passed r \<longleftrightarrow> ck_exit r = 0) \<and> valid_check r) rs" by simp_all
qed

lemma seal_and_put_result:
  assumes "seal_and_put sha clock ports st node ty ok b w = (Inr ref, w')"
  obtains e where "ok" and "ref_type ref = ty" and "ref_digest ref = sha (Sealed e)" and "env_body e = b" and "env_type e = ty"
  using assms
  by (auto simp: seal_and_put_def s06_put_envelope_def mk_ref_def stage_envelope_def bindR_Inr_iff Let_def
      split: if_splits elim!: bindI_result_Inr)

text \<open>C7. A phase counts as verified only on evidence: S04.90 promotes the tasks of the active phase to
  the completed tasks exactly when a build, lint, type or unit check ran and every check that ran passed,
  and the report it seals holds these very check results with that verdict and satisfies the contract of
  \<open>VerificationReport\<close>; in every other case, also when no check was resolved at all, it completes no
  task and raises the repair counter by one.\<close>

theorem phase_verified_on_evidence:
  assumes "handle_s04_90 sha clock st ports w = (Inr ex, w')"
  shows "\<exists>results phase tref v v' tasks ref e report. require_ref st ''TaskList'' = Inr tref \<and>
     read_model ports st tref decode_tasks v = (Inr tasks, v') \<and> get_checks st = Inr results \<and> active_phase_id st = Inr phase \<and>
     ex = \<lparr>ex_route = CONTINUE, ex_updates = [(''artifact_refs'', VRefs [ref]),
       (if checks_pass results
        then (''s03_completed_task_ids'', VStrs (sorted_set (get_strs st ''s03_completed_task_ids'' @
               map tk_id (filter (\<lambda>t. tk_phase t = phase) (tkl_tasks tasks)))))
        else (''s03_revision_attempts'', VInt (pass_number st + 1)))]\<rparr> \<and>
     ref_type ref = ''VerificationReport'' \<and> ref_digest ref = sha (Sealed e) \<and> env_body e = BVerification report \<and>
     valid_verification report \<and> vr_passed report = checks_pass results \<and> (results \<noteq> [] \<longrightarrow> vr_checks report = results)"
  using assms[unfolded handle_s04_90_def Let_def]
proof (elim bindI_result_Inr)
  fix patch_ref provenance_ref tref tasks phase results ref v0 w0 w1 w2 w3 w4
  let ?report = "\<lparr>vr_patch = ref_digest patch_ref, vr_provenance = ref_digest provenance_ref, vr_phase = phase,
     vr_checks = (if results = [] then [no_checks_resolved] else results),
     vr_attributions = get_failure_attributions st, vr_passed = checks_pass results\<rparr>"
  assume "liftI (require_ref st ''TaskList'') v0 = (Inr tref, w0)" and rd: "read_model ports st tref decode_tasks w0 = (Inr tasks, w1)"
    and "liftI (active_phase_id st) w1 = (Inr phase, w2)" and "liftI (get_checks st) w2 = (Inr results, w3)"
    and seal: "seal_and_put sha clock ports st ''S04.90'' ''VerificationReport'' (valid_verification ?report)
      (BVerification ?report) w3 = (Inr ref, w4)"
    and ex: "retI (cont [(''artifact_refs'', VRefs [ref]),
       (if checks_pass results
        then (''s03_completed_task_ids'', VStrs (sorted_set (get_strs st ''s03_completed_task_ids'' @
               map tk_id (filter (\<lambda>t. tk_phase t = phase) (tkl_tasks tasks)))))
        else (''s03_revision_attempts'', VInt (pass_number st + 1)))]) w4 = (Inr ex, w')"
  then have r: "require_ref st ''TaskList'' = Inr tref" "active_phase_id st = Inr phase" "get_checks st = Inr results" by simp_all
  from seal obtain e where "valid_verification ?report" "ref_type ref = ''VerificationReport''"
    "ref_digest ref = sha (Sealed e)" "env_body e = BVerification ?report" by (rule seal_and_put_result)
  moreover from ex have "ex = \<lparr>ex_route = CONTINUE, ex_updates = [(''artifact_refs'', VRefs [ref]),
     (if checks_pass results
      then (''s03_completed_task_ids'', VStrs (sorted_set (get_strs st ''s03_completed_task_ids'' @
             map tk_id (filter (\<lambda>t. tk_phase t = phase) (tkl_tasks tasks)))))
      else (''s03_revision_attempts'', VInt (pass_number st + 1)))]\<rparr>" by (simp add: cont_def)
  ultimately show ?thesis
    using r rd by (intro exI[of _ results] exI[of _ phase] exI[of _ tref] exI[of _ w0] exI[of _ w1] exI[of _ tasks] exI[of _ ref] exI[of _ e] exI[of _ ?report] conjI)
      (assumption | simp)+
qed

lemma endswith_iff: "endswith s p \<longleftrightarrow> (\<exists>t. s = t @ p)"
proof
  assume "endswith s p"
  then have "take (length p) (rev s) = rev p" by (simp add: endswith_def startswith_def)
  then have "rev s = rev p @ drop (length p) (rev s)" by (metis append_take_drop_id)
  then have "s = rev (drop (length p) (rev s)) @ p" by (metis rev_append rev_rev_ident)
  then show "\<exists>t. s = t @ p" by blast
qed (auto simp: endswith_def startswith_def)

lemma baseline_failing_iff:
  "k \<in> set (baseline_failing_kinds xs) \<longleftrightarrow> (\<exists>a\<in>set xs. ma_metric a = k @ ''_command_result'' \<and> ma_mean a \<noteq> 0)"
  by (force simp: baseline_failing_kinds_def endswith_iff)

text \<open>Failures are attributed by the baseline: S04.70 gives every failed check, and no other, one
  attribution, in order; it is "existing failure" exactly when the sealed baseline has a nonzero mean for
  the command result of this kind, so without a baseline every failure is a regression of the patch.\<close>

theorem failures_attributed_by_baseline:
  assumes "handle_s04_70 st ports w = (Inr ex, w')" and "get_checks st = Inr results"
  shows "\<exists>as. ex = \<lparr>ex_route = CONTINUE, ex_updates = [(''s04_failure_attributions'', VAttributions as)]\<rparr> \<and>
     map fa_kind as = map ck_kind (filter (\<lambda>r. \<not> ck_passed r) results) \<and>
     (case try_ref st ''BaselineSnapshot'' of
        None \<Rightarrow> list_all (\<lambda>a. fa_class a = PatchRegression) as
      | Some ref \<Rightarrow> as = [] \<or> (\<exists>b w1. read_model ports st ref decode_baseline w = (Inr b, w1) \<and>
          list_all (\<lambda>a. fa_class a = (if \<exists>x\<in>set (bl_aggregates b). ma_metric x = check_kind_name (fa_kind a) @ ''_command_result'' \<and> ma_mean x \<noteq> 0
             then BaselineExisting else PatchRegression)) as))"
proof -
  let ?failed = "filter (\<lambda>r. \<not> ck_passed r) results"
  have kinds: "map fa_kind (map (attribute_failure f) xs) = map ck_kind xs" for f xs
    by (simp add: attribute_failure_def Let_def o_def)
  have cls: "list_all (\<lambda>a. fa_class a = (if check_kind_name (fa_kind a) \<in> set f then BaselineExisting else PatchRegression))
      (map (attribute_failure f) xs)" for f xs
    by (auto simp: attribute_failure_def Let_def list_all_iff)
  show ?thesis
  proof (cases "?failed = []")
    case True
    then have "ex = \<lparr>ex_route = CONTINUE, ex_updates = [(''s04_failure_attributions'', VAttributions [])]\<rparr>"
      using assms by (simp add: handle_s04_70_def cont_def)
    with True show ?thesis by (intro exI[of _ "[]"]) (simp split: option.splits)
  next
    case False
    show ?thesis
    proof (cases "try_ref st ''BaselineSnapshot''")
      case None
      then have "ex = \<lparr>ex_route = CONTINUE, ex_updates = [(''s04_failure_attributions'', VAttributions (map (attribute_failure []) ?failed))]\<rparr>"
        using assms False by (simp add: handle_s04_70_def cont_def)
      with None cls[of "[]" ?failed] kinds[of "[]" ?failed] show ?thesis
        by (intro exI[of _ "map (attribute_failure []) ?failed"]) (simp add: list_all_iff)
    next
      case (Some ref)
      with assms False obtain b w1 where "read_model ports st ref decode_baseline w = (Inr b, w1)"
        and "ex = \<lparr>ex_route = CONTINUE, ex_updates = [(''s04_failure_attributions'',
          VAttributions (map (attribute_failure (baseline_failing_kinds (bl_aggregates b))) ?failed))]\<rparr>"
        by (auto simp: handle_s04_70_def cont_def bindI_assoc elim!: bindI_result_Inr)
      with Some cls[of "baseline_failing_kinds (bl_aggregates b)" ?failed] kinds[of "baseline_failing_kinds (bl_aggregates b)" ?failed] show ?thesis
        by (intro exI[of _ "map (attribute_failure (baseline_failing_kinds (bl_aggregates b))) ?failed"]) (simp add: baseline_failing_iff)
    qed
  qed
qed

text \<open>A verified phase: one unit check, run in the workspace of the phase of \<open>demo_s06\<close>.\<close>

definition demo_check :: "bool \<Rightarrow> check_result" where
  "demo_check ok = \<lparr>ck_command = ''unit'', ck_kind = UnitCheck, ck_exit = (if ok then 0 else 1), ck_passed = ok, ck_tail = [], ck_coverage = None\<rparr>"

definition demo_workspace :: workspace where
  "demo_workspace = \<lparr>wk_path = ''/tmp/w'', wk_base = ''abc'', wk_isolation = GitWorktree, wk_source = ''/repo''\<rparr>"

text \<open>A repository with one unit test command.\<close>

definition demo_manifest :: repository_manifest where
  "demo_manifest = \<lparr>rm_test_roots = [''tests''], rm_commands = [\<lparr>cm_id = ''unit'', cm_argv = [''pytest''], cm_kind = ''unit''\<rparr>], rm_coverage = [], rm_files = [''pyproject.toml'']\<rparr>"

definition demo_s04 :: "bool \<Rightarrow> state" where
  "demo_s04 ok = (demo_s06 KEEP)(
     ''artifact_refs'' \<mapsto> VRefs [demo_ref ''ExecutionPlan'' ''c-ExecutionPlan'', demo_ref ''TaskList'' ''c-TaskList'',
        demo_ref ''BaselineSnapshot'' ''b'', demo_ref ''PatchArtifact'' ''c-S03.80-p1-pass0-PatchArtifact'',
        demo_ref ''ExecutionProvenance'' ''c-S03.80-p1-pass0-ExecutionProvenance''],
     ''s04_check_results'' \<mapsto> VChecks [demo_check ok], ''s03_workspace'' \<mapsto> VWorkspace demo_workspace,
     ''completed_nodes'' \<mapsto> VStrs [''S04.90''])"

definition demo_baseline :: baseline_snapshot where
  "demo_baseline = \<lparr>bl_request = rep_digest CHR ''a'', bl_source = rep_digest CHR ''a'', bl_workload = ''w'', bl_environment = ''e'', bl_aggregates = [\<lparr>ma_metric = ''unit_command_result'', ma_unit = ''exit'',
     ma_samples = [''s''], ma_count = 1, ma_minimum = 1, ma_maximum = 1, ma_mean = 1, ma_p50 = None, ma_p95 = None\<rparr>]\<rparr>"

definition s04_ports :: "world node_ports" where
  "s04_ports = (demo_ports None)\<lparr>np_read := \<lambda>_ r.
     if ref_type r = ''TaskList'' then retI (demo_env ''TaskList'' (BTasks \<lparr>tkl_plan = rep_digest CHR ''a'', tkl_tasks = [demo_task]\<rparr>))
     else if ref_type r = ''BaselineSnapshot'' then retI (demo_env ''BaselineSnapshot'' (BBaseline demo_baseline))
     else failI (DatabaseError ''NoSuchKey'')\<rparr>"

lemma demo_s04_sel [simp]:
  "get_str (demo_s04 ok) ''case_id'' = Some ''c''" "get_str (demo_s04 ok) ''tenant_id'' = Some ''t''"
  "active_phase_id (demo_s04 ok) = Inr ''p1''" "pass_number (demo_s04 ok) = 0" "get_checks (demo_s04 ok) = Inr [demo_check ok]"
  "get_strs (demo_s04 ok) ''s03_completed_task_ids'' = []" "get_failure_attributions (demo_s04 ok) = []"
  "workspace_path (demo_s04 ok) = Some ''/tmp/w''"
  by (simp_all add: demo_s04_def demo_s06_def get_str_def active_phase_id_def pass_number_def get_int_def get_checks_def get_strs_def
      get_failure_attributions_def workspace_path_def demo_workspace_def)

lemma demo_s04_refs [simp]:
  "require_phase_ref (demo_s04 ok) ''S03.80'' ''PatchArtifact'' = Inr (demo_ref ''PatchArtifact'' ''c-S03.80-p1-pass0-PatchArtifact'')"
  "require_phase_ref (demo_s04 ok) ''S03.80'' ''ExecutionProvenance'' =
     Inr (demo_ref ''ExecutionProvenance'' ''c-S03.80-p1-pass0-ExecutionProvenance'')"
  "require_ref (demo_s04 ok) ''TaskList'' = Inr (demo_ref ''TaskList'' ''c-TaskList'')"
  "require_ref (demo_s04 ok) ''ExecutionPlan'' = Inr (demo_ref ''ExecutionPlan'' ''c-ExecutionPlan'')"
  "try_ref (demo_s04 ok) ''BaselineSnapshot'' = Some (demo_ref ''BaselineSnapshot'' ''b'')"
  by (simp_all add: require_phase_ref_def phase_stage_def require_stage_ref_def required_state_str_def stage_artifact_id_def
      require_ref_def try_ref_def) (simp_all add: demo_s04_def get_refs_def demo_ref_def)

lemma demo_s04_reads [simp]:
  "read_model s04_ports (demo_s04 ok) (demo_ref ''TaskList'' i) decode_tasks w =
     (Inr \<lparr>tkl_plan = rep_digest CHR ''a'', tkl_tasks = [demo_task]\<rparr>, w)"
  "read_model s04_ports (demo_s04 ok) (demo_ref ''BaselineSnapshot'' i) decode_baseline w = (Inr demo_baseline, w)"
  by (simp_all add: read_model_def required_state_str_def s04_ports_def demo_env_def decode_tasks_def decode_baseline_def demo_baseline_def valid_aggregate_def valid_baseline_def demo_digest_valid
      valid_task_list_def demo_digest_valid valid_task_def demo_task_def)

lemma demo_s04_seal:
  "seal_and_put (\<lambda>_. rep_digest CHR ''a'') w_time s04_ports (demo_s04 ok) ''S04.90'' ''VerificationReport'' True b w =
     (Inr (demo_ref ''VerificationReport'' ''c-S04.90-p1-pass0-VerificationReport''), w)"
  by (simp add: seal_and_put_def phase_stage_def stage_envelope_def required_state_str_def valid_envelope_def len_in_def
      stage_artifact_id_def s06_put_envelope_def s04_ports_def demo_ports_def mk_ref_def Let_def valid_ref_def demo_ref_def demo_digest_valid)

lemma demo_s04_90:
  "handle_s04_90 (\<lambda>_. rep_digest CHR ''a'') w_time (demo_s04 ok) s04_ports w =
     (Inr \<lparr>ex_route = CONTINUE, ex_updates = [(''artifact_refs'', VRefs [demo_ref ''VerificationReport'' ''c-S04.90-p1-pass0-VerificationReport'']),
       (if ok then (''s03_completed_task_ids'', VStrs (sorted_set [''t1''])) else (''s03_revision_attempts'', VInt 1))]\<rparr>, w)"
  by (simp add: handle_s04_90_def bindI_def Let_def checks_pass_def demo_check_def mandatory_kinds_def valid_verification_def
      valid_check_def demo_digest_valid demo_s04_seal cont_def demo_task_def)

theorem phase_verified_on_evidence_witness:
  "\<exists>ref (e :: envelope) report. handle_s04_90 (\<lambda>_. rep_digest CHR ''a'') w_time (demo_s04 True) s04_ports demo_world =
     (Inr \<lparr>ex_route = CONTINUE, ex_updates = [(''artifact_refs'', VRefs [ref]), (''s03_completed_task_ids'', VStrs (sorted_set [''t1'']))]\<rparr>, demo_world) \<and>
     env_body e = BVerification report \<and> valid_verification report \<and> vr_passed report"
proof -
  have p: "checks_pass [demo_check True]" by (simp add: checks_pass_def demo_check_def mandatory_kinds_def)
  from phase_verified_on_evidence[OF demo_s04_90[of True demo_world]] obtain results and e :: envelope and report where
    "get_checks (demo_s04 True) = Inr results" "env_body e = BVerification report" "valid_verification report"
    "vr_passed report = checks_pass results" by blast
  with p have "env_body e = BVerification report \<and> valid_verification report \<and> vr_passed report" by simp
  with demo_s04_90[of True demo_world] show ?thesis by auto
qed

theorem failures_attributed_by_baseline_witness:
  "\<exists>as. handle_s04_70 (demo_s04 False) s04_ports demo_world =
     (Inr \<lparr>ex_route = CONTINUE, ex_updates = [(''s04_failure_attributions'', VAttributions as)]\<rparr>, demo_world) \<and>
     map fa_class as = [BaselineExisting]"
proof -
  obtain ex where h: "handle_s04_70 (demo_s04 False) s04_ports demo_world = (Inr ex, demo_world)"
    by (simp add: handle_s04_70_def demo_check_def bindI_def)
  from failures_attributed_by_baseline[OF h] obtain as where
    a: "ex = \<lparr>ex_route = CONTINUE, ex_updates = [(''s04_failure_attributions'', VAttributions as)]\<rparr>"
      "map fa_kind as = [UnitCheck]"
      "list_all (\<lambda>a. fa_class a = (if \<exists>x\<in>set (bl_aggregates demo_baseline). ma_metric x = check_kind_name (fa_kind a) @ ''_command_result'' \<and> ma_mean x \<noteq> 0
             then BaselineExisting else PatchRegression)) as"
    by (auto simp: demo_check_def)
  from a(2) obtain x where "as = [x]" "fa_kind x = UnitCheck" by (cases as) auto
  with a h show ?thesis by (auto simp: demo_baseline_def)
qed

end
