(* ===== verification/Workflow.thy ===== *)
theory Workflow
  imports Graphs Verification
begin

text \<open>
  The stages as state machines: a step runs the handler of a node, commits its result to the state with
  the reducers and follows the edge the graph declares. The theory holds the properties that span the
  handlers, the runtime's commit and the graphs: which loops end, and after how many retries.
\<close>

section \<open>Committed routes along a run\<close>

definition routes_ok :: "state \<Rightarrow> bool" where
  "routes_ok st \<longleftrightarrow> distinct (keys (get_routes st)) \<and>
     (\<forall>n. CHR ''#'' \<notin> set n \<longrightarrow> route_contiguous n (get_routes st))"

lemma commit_field:
  assumes "apply_updates st (commit node ex st) = Inr st'" and "distinct (keys (ex_updates ex))"
  shows "k \<notin> set (keys (ex_updates ex)) \<Longrightarrow> k \<notin> {''current_node'', ''completed_nodes'', ''node_routes''} \<Longrightarrow> st' k = st k"
    and "map_of (ex_updates ex) k = Some v \<Longrightarrow> k \<notin> {''current_node'', ''completed_nodes'', ''node_routes''} \<Longrightarrow>
      \<exists>x. reduce_field k (st k) v = Inr x \<and> st' k = Some x"
    and "\<exists>r. merge_node_routes (get_routes st) [(next_route_key node (get_routes st) (route_value (ex_route ex)), route_value (ex_route ex))] = Inr r \<and>
      st' ''node_routes'' = Some (VRoutes r)"
proof -
  have d: "distinct (keys (commit node ex st))"
    using assms(2) by (simp add: commit_def Let_def distinct_update)
  show "st' k = st k" if "k \<notin> set (keys (ex_updates ex))" "k \<notin> {''current_node'', ''completed_nodes'', ''node_routes''}"
    using that by (intro apply_updates_other[OF assms(1)]) (simp add: commit_def Let_def dom_update)
  show "\<exists>x. reduce_field k (st k) v = Inr x \<and> st' k = Some x"
    if "map_of (ex_updates ex) k = Some v" "k \<notin> {''current_node'', ''completed_nodes'', ''node_routes''}"
    using that by (intro apply_updates_field[OF assms(1) d]) (auto simp: commit_def Let_def update_conv')
  have "map_of (commit node ex st) ''node_routes'' =
      Some (VRoutes [(next_route_key node (get_routes st) (route_value (ex_route ex)), route_value (ex_route ex))])"
    by (simp add: commit_def Let_def update_conv')
  from apply_updates_field[OF assms(1) d this] show "\<exists>r. merge_node_routes (get_routes st)
      [(next_route_key node (get_routes st) (route_value (ex_route ex)), route_value (ex_route ex))] = Inr r \<and>
      st' ''node_routes'' = Some (VRoutes r)"
    by (auto simp: reduce_field_def bindR_Inr_iff get_routes_def)
qed

lemma commit_route:
  assumes "apply_updates st (commit node ex st) = Inr st'" and "distinct (keys (ex_updates ex))"
    and "routes_ok st" and "CHR ''#'' \<notin> set node"
  shows "routes_ok st'" and "route_for node st' = route_value (ex_route ex)"
    and "other \<noteq> node \<Longrightarrow> CHR ''#'' \<notin> set other \<Longrightarrow> route_for other st' = route_for other st"
proof -
  from commit_field(3)[OF assms(1,2)] obtain r where
    r: "merge_node_routes (get_routes st) [(next_route_key node (get_routes st) (route_value (ex_route ex)), route_value (ex_route ex))] = Inr r"
    "st' ''node_routes'' = Some (VRoutes r)" by blast
  let ?st = "st(''node_routes'' \<mapsto> VRoutes r)"
  have same: "get_routes st' = get_routes ?st" "get_routes st' = r" using r(2) by (simp_all add: get_routes_def)
  have rf: "route_for n st' = route_for n ?st" for n unfolding route_for_def same(2) get_routes_upd ..
  from assms(3,4) have ok: "distinct (keys (get_routes st))" "route_contiguous node (get_routes st)" by (simp_all add: routes_ok_def)
  from merge_next_route[OF ok assms(4), of "route_value (ex_route ex)"] r(1) have
    m: "distinct (keys r)" "route_contiguous node r" "route_for node ?st = route_value (ex_route ex)"
    "\<And>other. other \<noteq> node \<Longrightarrow> CHR ''#'' \<notin> set other \<Longrightarrow>
        route_for other ?st = route_for other st \<and> route_contiguous other r = route_contiguous other (get_routes st)"
    by auto
  show "route_for node st' = route_value (ex_route ex)" using m(3) by (simp add: rf)
  show "route_for other st' = route_for other st" if "other \<noteq> node" "CHR ''#'' \<notin> set other"
    using m(4)[OF that] by (simp add: rf)
  have "route_contiguous n r" if "CHR ''#'' \<notin> set n" for n
    using that m(2) m(4)[of n] assms(3) by (cases "n = node") (auto simp: routes_ok_def)
  then show "routes_ok st'" using m(1) by (simp add: routes_ok_def same(2))
qed

section \<open>Stages as state machines\<close>

type_synonym 'w handlers = "string \<Rightarrow> (state \<Rightarrow> 'w node_ports \<Rightarrow> ('w, node_execution) io) option"

inductive stage_step :: "'w handlers \<Rightarrow> 'w node_ports \<Rightarrow> state_graph \<Rightarrow> string \<times> state \<Rightarrow> string \<times> state \<Rightarrow> bool"
  for handlers ports g where
  run_node: "stage_step handlers ports g (n, st) (n', st')"
    if "handlers n = Some h" and "h st ports w = (Inr ex, w')" and "apply_updates st (commit n ex st) = Inr st'"
      and "edge_targets g n st' = Inr ts" and "n' \<in> set ts"

inductive_cases stage_stepE: "stage_step handlers ports g (n, st) c'"

fun index_of :: "'a list \<Rightarrow> 'a \<Rightarrow> nat" where
  "index_of [] x = 0"
| "index_of (y # ys) x = (if x = y then 0 else Suc (index_of ys x))"

lemma index_of_le: "index_of xs x \<le> length xs"
  by (induction xs) auto

section \<open>The planning loop\<close>

record 'w planning_env =
  pe_sha :: "blob \<Rightarrow> string"
  pe_clock :: "'w \<Rightarrow> int"
  pe_files :: "'w files"
  pe_fmt :: "rat \<Rightarrow> string"
  pe_plan_prompt :: "solution_strategy \<Rightarrow> string list dict \<Rightarrow> source_snapshot \<Rightarrow> optimization_request option \<Rightarrow> (string \<times> string) list"
  pe_planner :: "(model_request \<Rightarrow> ('w, (raw_phase list \<times> raw_task list) completion) io) option"
  pe_critic_prompt :: "execution_phase list \<Rightarrow> plan_task list \<Rightarrow> (string \<times> string) list"
  pe_critic :: "(model_request \<Rightarrow> ('w, critic_reply completion) io) option"

definition s02_handlers :: "'w planning_env \<Rightarrow> 'w handlers" where
  "s02_handlers e = map_of
     [(''S02.10'', handle_s02_10 (pe_files e)), (''S02.20'', handle_s02_20 (pe_files e)),
      (''S02.30'', handle_s02_30 (pe_plan_prompt e) (pe_planner e)), (''S02.40'', handle_s02_40),
      (''S02.50'', handle_s02_50 (pe_files e)), (''S02.60'', handle_s02_60 (pe_fmt e)), (''S02.70'', handle_s02_70),
      (''S02.80'', handle_s02_80 (pe_critic_prompt e) (pe_critic e)),
      (''S02.81'', handle_s02_81 (pe_sha e) (pe_clock e) (pe_files e)), (''S02.90'', handle_s02_90 (pe_clock e))]"

text \<open>What each node writes.\<close>

lemma s02_updates:
  "handle_s02_10 fs st ports w = (Inr ex, w') \<Longrightarrow> keys (ex_updates ex) = [''s02_resolution_ok'']"
  "handle_s02_20 fs st ports w = (Inr ex, w') \<Longrightarrow> keys (ex_updates ex) = [''s02_dependency_map'']"
  "handle_s02_30 pp ask st ports w = (Inr ex, w') \<Longrightarrow> keys (ex_updates ex) = [''s02_plan_draft'']"
  "handle_s02_40 st ports w = (Inr ex, w') \<Longrightarrow> keys (ex_updates ex) = [''s02_plan_draft'']"
  "handle_s02_50 fs st ports w = (Inr ex, w') \<Longrightarrow> keys (ex_updates ex) = [''s02_plan_draft'']"
  "handle_s02_60 fmt st ports w = (Inr ex, w') \<Longrightarrow> keys (ex_updates ex) = [''s02_plan_draft'']"
  "handle_s02_70 st ports w = (Inr ex, w') \<Longrightarrow> keys (ex_updates ex) = [''s02_plan_draft'']"
  "handle_s02_80 cp askc st ports w = (Inr ex, w') \<Longrightarrow> keys (ex_updates ex) = [''s02_critique'']"
  "handle_s02_90 clock st ports w = (Inr ex, w') \<Longrightarrow>
     keys (ex_updates ex) \<in> {[''s02_approval''], [''pending_interrupt'', ''s02_approval'']}"
  by (auto simp: handle_s02_10_def handle_s02_20_def Let_def cont_def elim!: bindI_result_Inr)
     (auto simp: handle_s02_30_def handle_s02_40_def handle_s02_50_def handle_s02_60_def handle_s02_70_def handle_s02_80_def
       handle_s02_90_def Let_def cont_def elim!: bindI_result_Inr split: option.splits prod.splits if_splits)

lemma s02_targets:
  "edge_targets build_s02_graph ''S02.10'' st = Inr [''S02.20'']" "edge_targets build_s02_graph ''S02.20'' st = Inr [''S02.30'']"
  "edge_targets build_s02_graph ''S02.30'' st = Inr [''S02.40'']" "edge_targets build_s02_graph ''S02.40'' st = Inr [''S02.50'']"
  "edge_targets build_s02_graph ''S02.50'' st = Inr [''S02.60'']" "edge_targets build_s02_graph ''S02.60'' st = Inr [''S02.70'']"
  "edge_targets build_s02_graph ''S02.70'' st = Inr [''S02.80'']" "edge_targets build_s02_graph ''S02.80'' st = Inr [''S02.81'']"
  "edge_targets build_s02_graph ''S02.81'' st = bindR (path_target [(''continue'', ''S02.90''), (''revision'', ''S02.30''), (''rejected'', END)]
     (route_for ''S02.81'' st)) (\<lambda>t. Inr [t])"
  "edge_targets build_s02_graph ''S02.90'' st = bindR (path_target [(''continue'', END), (''approval'', END), (''rejected'', END)]
     (route_for ''S02.90'' st)) (\<lambda>t. Inr [t])"
  by (auto simp: edge_targets_def branch_targets_def build_s02_graph_def builder_defs s02_node_ids_def START_def END_def bindR_def split: sum.splits)

definition s02_step :: "'w planning_env \<Rightarrow> 'w node_ports \<Rightarrow> string \<times> state \<Rightarrow> string \<times> state \<Rightarrow> bool" where
  "s02_step e ports c c' \<longleftrightarrow> routes_ok (snd c) \<and> stage_step (s02_handlers e) ports build_s02_graph c c'"

definition s02_retry :: "string \<times> state \<Rightarrow> string \<times> state \<Rightarrow> bool" where
  "s02_retry c c' \<longleftrightarrow> fst c = ''S02.81'' \<and> fst c' = ''S02.30''"

lemma reduce_counter:
  "reduce_field ''s02_revision_attempts'' old v = Inr v" "reduce_field ''s03_revision_attempts'' old v = Inr v"
  by (simp_all add: reduce_field_def summed_list_fields_def)

lemma s02_81_step:
  assumes "handle_s02_81 sha clock fs st ports w = (Inr ex, w')" and "apply_updates st (commit ''S02.81'' ex st) = Inr st'"
    and "routes_ok st"
  shows "s02_pass_number st' = s02_pass_number st + 1" and "routes_ok st'"
    and "route_for ''S02.81'' st' = ''revision'' \<Longrightarrow> s02_pass_number st < max_s02_revisions"
proof -
  from assms(1) obtain refs where u: "ex_updates ex = [(''artifact_refs'', VRefs refs), (''s02_revision_attempts'', VInt (s02_pass_number st + 1))]"
    and r: "ex_route ex = REVISION \<Longrightarrow> s02_pass_number st < max_s02_revisions"
  proof (rule handle_s02_81_result)
    fix selected snapshot w1 d ps ts
    let ?q = "list_all qr_passed (quality_results (repository_file_paths fs snapshot w1) d (get_critique st) ps ts)"
    assume pass: "?q \<Longrightarrow> \<exists>p t r w2 w3. seal_plan sha clock ports st selected ps ts w2 = (Inr (p, t), w3) \<and>
        ex = \<lparr>ex_route = CONTINUE, ex_updates = [(''artifact_refs'', VRefs [p, t, r]),
          (''s02_revision_attempts'', VInt (s02_pass_number st + 1))]\<rparr>"
      and other: "\<not> ?q \<Longrightarrow> \<exists>r. ex = \<lparr>ex_route = (if s02_pass_number st < max_s02_revisions then REVISION else REJECTED),
        ex_updates = [(''artifact_refs'', VRefs [r]), (''s02_revision_attempts'', VInt (s02_pass_number st + 1))]\<rparr>"
    show thesis
    proof (cases ?q)
      case True
      from pass[OF True] show thesis by (auto intro: that)
    next
      case False
      from other[OF False] show thesis by (auto intro: that split: if_splits)
    qed
  qed
  have d: "distinct (keys (ex_updates ex))" by (simp add: u)
  from commit_field(2)[OF assms(2) d, of "''s02_revision_attempts''"] show "s02_pass_number st' = s02_pass_number st + 1"
    by (auto simp: u reduce_counter s02_pass_number_def get_int_def)
  from commit_route[OF assms(2) d assms(3)] show "routes_ok st'" by simp
  from commit_route(2)[OF assms(2) d assms(3)] r show "route_for ''S02.81'' st' = ''revision'' \<Longrightarrow> s02_pass_number st < max_s02_revisions"
    by (cases "ex_route ex") simp_all
qed

lemma s02_other_step:
  assumes "s02_handlers e n = Some h" and "n \<noteq> ''S02.81''" and "h st ports w = (Inr ex, w')"
    and "apply_updates st (commit n ex st) = Inr st'" and "routes_ok st"
  shows "s02_pass_number st' = s02_pass_number st" and "routes_ok st'"
proof -
  have k: "distinct (keys (ex_updates ex)) \<and> ''s02_revision_attempts'' \<notin> set (keys (ex_updates ex)) \<and> CHR ''#'' \<notin> set n"
    using assms(1-3)
    by (auto simp: s02_handlers_def simp del: set_map split: if_splits dest!: s02_updates)
  then show "s02_pass_number st' = s02_pass_number st"
    using commit_field(1)[OF assms(4), of "''s02_revision_attempts''"] by (simp add: s02_pass_number_def get_int_def)
  from k show "routes_ok st'" using commit_route(1)[OF assms(4) _ assms(5)] by simp
qed

lemma s02_index:
  "index_of s02_node_ids ''S02.10'' = 0" "index_of s02_node_ids ''S02.20'' = 1" "index_of s02_node_ids ''S02.30'' = 2"
  "index_of s02_node_ids ''S02.40'' = 3" "index_of s02_node_ids ''S02.50'' = 4" "index_of s02_node_ids ''S02.60'' = 5"
  "index_of s02_node_ids ''S02.70'' = 6" "index_of s02_node_ids ''S02.80'' = 7" "index_of s02_node_ids ''S02.81'' = 8"
  "index_of s02_node_ids ''S02.90'' = 9" "index_of s02_node_ids END = 10"
  by (simp_all add: s02_node_ids_def END_def)

lemma s02_gate_targets:
  "edge_targets build_s02_graph ''S02.81'' st = Inr ts \<Longrightarrow> ts \<in> {[''S02.90''], [''S02.30''], [END]}"
  "edge_targets build_s02_graph ''S02.90'' st = Inr ts \<Longrightarrow> ts = [END]"
  by (auto simp: s02_targets(9,10) path_target_def bindR_Inr_iff split: if_splits)

lemma s02_edges_forward:
  assumes "n \<in> set s02_node_ids" and "edge_targets build_s02_graph n st = Inr ts" and "n' \<in> set ts"
  shows "n = ''S02.81'' \<and> n' = ''S02.30'' \<or> index_of s02_node_ids n < index_of s02_node_ids n'"
proof -
  from assms(1) consider "n \<in> {''S02.10'', ''S02.20'', ''S02.30'', ''S02.40''}" | "n \<in> {''S02.50'', ''S02.60'', ''S02.70'', ''S02.80''}"
    | "n = ''S02.81''" | "n = ''S02.90''" unfolding s02_node_ids_def list.set by blast
  then show ?thesis
  proof cases
    case 3
    with s02_gate_targets(1)[of st ts] assms(2,3) show ?thesis by (auto simp: s02_index)
  next
    case 4
    with s02_gate_targets(2)[of st ts] assms(2,3) show ?thesis by (simp add: s02_index)
  qed (use assms(2,3) in \<open>auto simp: s02_targets(1-8) s02_index\<close>)
qed

lemma s02_handlers_dom: "s02_handlers e n = Some h \<Longrightarrow> n \<in> set s02_node_ids"
  by (auto simp: s02_handlers_def s02_node_ids_def split: if_splits)

abbreviation planning_node :: "string \<times> state \<Rightarrow> nat" where
  "planning_node c \<equiv> index_of s02_node_ids (fst c)"

interpretation planning: bounded_retries "s02_step e ports" s02_retry planning_node 10 "\<lambda>c. s02_pass_number (snd c)" max_s02_revisions
  for e :: "'w planning_env" and ports
proof
  show "planning_node c \<le> 10" for c
    using index_of_le[of s02_node_ids "fst c"] by (simp add: s02_node_ids_def)
  fix c c' :: "string \<times> state"
  assume step: "s02_step e ports c c'"
  obtain n st n' st' where c: "c = (n, st)" "c' = (n', st')" by fastforce
  from step obtain h w ex w' ts where run: "routes_ok st" "s02_handlers e n = Some h" "h st ports w = (Inr ex, w')"
    "apply_updates st (commit n ex st) = Inr st'" "edge_targets build_s02_graph n st' = Inr ts" "n' \<in> set ts"
    by (auto simp: s02_step_def c elim: stage_stepE)
  show "planning_node c < planning_node c' \<and> s02_pass_number (snd c) \<le> s02_pass_number (snd c')" if "\<not> s02_retry c c'"
  proof -
    have "planning_node c < planning_node c'"
      using s02_edges_forward[OF s02_handlers_dom[OF run(2)] run(5,6)] that by (auto simp: c s02_retry_def)
    moreover have "s02_pass_number st \<le> s02_pass_number st'"
    proof (cases "n = ''S02.81''")
      case True
      then have "handle_s02_81 (pe_sha e) (pe_clock e) (pe_files e) st ports w = (Inr ex, w')"
        using run(2,3) by (auto simp: s02_handlers_def)
      from s02_81_step(1)[OF this run(4)[unfolded True] run(1)] show ?thesis by simp
    qed (use s02_other_step(1)[OF run(2) _ run(3,4,1)] in simp)
    ultimately show ?thesis by (simp add: c)
  qed
  show "s02_pass_number (snd c) < max_s02_revisions \<and> s02_pass_number (snd c) < s02_pass_number (snd c')" if "s02_retry c c'"
  proof -
    from that have n: "n = ''S02.81''" "n' = ''S02.30''" by (simp_all add: s02_retry_def c)
    then have "handle_s02_81 (pe_sha e) (pe_clock e) (pe_files e) st ports w = (Inr ex, w')"
      using run(2,3) by (auto simp: s02_handlers_def)
    note s = s02_81_step[OF this run(4)[unfolded n] run(1)]
    have "route_for ''S02.81'' st' = ''revision''"
      using run(5,6) n by (auto simp: s02_targets path_target_def END_def bindR_Inr_iff split: if_splits)
    with s show ?thesis by (simp add: c)
  qed
qed

lemma s02_step_keeps_routes:
  assumes "s02_step e ports (n, st) (n', st')"
  shows "routes_ok st'"
proof -
  from assms obtain h w ex w' where run: "routes_ok st" "s02_handlers e n = Some h" "h st ports w = (Inr ex, w')"
    "apply_updates st (commit n ex st) = Inr st'"
    by (auto simp: s02_step_def elim: stage_stepE)
  show ?thesis
  proof (cases "n = ''S02.81''")
    case True
    then have "handle_s02_81 (pe_sha e) (pe_clock e) (pe_files e) st ports w = (Inr ex, w')"
      using run(2,3) by (auto simp: s02_handlers_def)
    from s02_81_step(2)[OF this run(4)[unfolded True] run(1)] show ?thesis .
  qed (use s02_other_step(2)[OF run(2) _ run(3,4,1)] in simp)
qed

text \<open>C10. Planning ends: a run of stage S02 (handler, commit, edge of the graph) from a state with
  well-formed routes keeps them well formed and cannot go on forever, whatever the model and the critic
  reply. The plan is redrafted at most twice (fewer times when the counter does not start at zero), and a
  run passes at most 33 nodes.\<close>

theorem planning_terminates:
  "wf {(c', c). s02_step e ports c c'} \<and>
   (\<forall>n st n' st'. s02_step e ports (n, st) (n', st') \<longrightarrow> routes_ok st') \<and>
   (\<forall>c cs. is_run (s02_step e ports) (c # cs) \<longrightarrow>
      int (retries s02_retry (c # cs)) \<le> max 0 (2 - s02_pass_number (snd c)) \<and>
      (s02_pass_number (snd c) \<ge> 0 \<longrightarrow> length (c # cs) \<le> 33))"
proof (intro conjI allI impI)
  fix c cs assume run: "is_run (s02_step e ports) (c # cs)"
  show r: "int (retries s02_retry (c # cs)) \<le> max 0 (2 - s02_pass_number (snd c))"
    using planning.retries_bounded[OF run] by (simp add: max_s02_revisions_def)
  assume "s02_pass_number (snd c) \<ge> 0"
  with r have "retries s02_retry (c # cs) \<le> 2" by simp
  then have "Suc (retries s02_retry (c # cs)) * Suc 10 \<le> 3 * Suc 10" by (intro mult_le_mono1) simp
  from order_trans[OF planning.run_bounded[OF run] this] show "length (c # cs) \<le> 33" by simp
qed (use planning.terminates s02_step_keeps_routes in auto)

definition demo_planning :: "world planning_env" where
  "demo_planning = \<lparr>pe_sha = (\<lambda>_. rep_digest CHR ''a''), pe_clock = w_time, pe_files = demo_files, pe_fmt = (\<lambda>_. []),
     pe_plan_prompt = (\<lambda>_ _ _ _. []), pe_planner = None, pe_critic_prompt = (\<lambda>_ _. []), pe_critic = None\<rparr>"

definition drafted :: state where
  "drafted = [''s02_plan_draft'' \<mapsto> VDraft demo_draft]"

lemma drafted_step: "\<exists>st'. s02_step demo_planning (demo_ports None) (''S02.70'', drafted) (''S02.80'', st')"
proof -
  let ?ex = "cont [(''s02_plan_draft'', VDraft (demo_draft\<lparr>dr_rollback_ok := True, dr_rollback_reasons := []\<rparr>))]"
  have h: "handle_s02_70 drafted (demo_ports None) demo_world = (Inr ?ex, demo_world)"
    by (simp add: handle_s02_70_def get_draft_def drafted_def rollback_gaps_def demo_phase_def)
  have "\<exists>st'. apply_updates drafted (commit ''S02.70'' ?ex drafted) = Inr st'"
    by (simp add: apply_updates_def apply_update_def commit_def cont_def reduce_field_def latest_node_def drafted_def
        merge_node_ids_eq wf_node_id_def parse_decimal_def is_digit_def merge_node_routes_def merge_route_def
        next_route_key_def latest_route_key_def get_routes_def summed_list_fields_def)
  then obtain st' where "apply_updates drafted (commit ''S02.70'' ?ex drafted) = Inr st'" by blast
  moreover have "routes_ok drafted"
    by (simp add: routes_ok_def get_routes_def drafted_def route_contiguous_def)
  ultimately have "s02_step demo_planning (demo_ports None) (''S02.70'', drafted) (''S02.80'', st')"
    using h unfolding s02_step_def
    by (auto intro!: run_node[where h = handle_s02_70] simp: s02_handlers_def s02_targets)
  then show ?thesis by blast
qed

theorem planning_terminates_witness:
  "\<exists>st'. is_run (s02_step demo_planning (demo_ports None)) [(''S02.70'', drafted), (''S02.80'', st')] \<and>
     int (retries s02_retry [(''S02.70'', drafted), (''S02.80'', st')]) \<le> 2 \<and> routes_ok st'"
proof -
  obtain st' where s: "s02_step demo_planning (demo_ports None) (''S02.70'', drafted) (''S02.80'', st')"
    using drafted_step by blast
  then have run: "is_run (s02_step demo_planning (demo_ports None)) [(''S02.70'', drafted), (''S02.80'', st')]" by simp
  have zero: "s02_pass_number drafted = 0" by (simp add: s02_pass_number_def get_int_def drafted_def)
  from planning_terminates[of demo_planning "demo_ports None"] s run
  have "routes_ok st'" "int (retries s02_retry [(''S02.70'', drafted), (''S02.80'', st')]) \<le> max 0 (2 - s02_pass_number drafted)"
    by fastforce+
  with run zero show ?thesis by auto
qed

section \<open>A commit succeeds\<close>

definition progress_ok :: "state \<Rightarrow> bool" where
  "progress_ok st \<longleftrightarrow> routes_ok st \<and> list_all wf_node_id (get_strs st ''completed_nodes'') \<and>
     (\<exists>x. node_progress (case st ''current_node'' of Some (VStr a) \<Rightarrow> a | _ \<Rightarrow> []) = Inr x \<or>
       CHR ''.'' \<notin> set (case st ''current_node'' of Some (VStr a) \<Rightarrow> a | _ \<Rightarrow> []))"

definition node_id_ok :: "string \<Rightarrow> bool" where
  "node_id_ok n \<longleftrightarrow> wf_node_id n \<and> CHR ''#'' \<notin> set n \<and> (\<exists>x. node_progress n = Inr x)"

lemma apply_updates_succeeds:
  assumes "distinct (keys upd)" and "\<And>k v. (k, v) \<in> set upd \<Longrightarrow> \<exists>x. reduce_field k (st k) v = Inr x"
  shows "\<exists>st'. apply_updates st upd = Inr st'"
  using assms
proof (induction upd arbitrary: st)
  case (Cons u upd)
  obtain k v where u: "u = (k, v)" by fastforce
  from Cons.prems(2)[of k v] u obtain x where x: "reduce_field k (st k) v = Inr x" by auto
  have "\<exists>st'. apply_updates (st(k \<mapsto> x)) upd = Inr st'"
  proof (rule Cons.IH)
    show "distinct (keys upd)" using Cons.prems(1) by simp
    fix k' v' assume m: "(k', v') \<in> set upd"
    then have "k' \<noteq> k" using Cons.prems(1) u by force
    with Cons.prems(2)[of k' v'] m u show "\<exists>x'. reduce_field k' ((st(k \<mapsto> x)) k') v' = Inr x'" by simp
  qed
  with x u show ?case by (auto simp: apply_updates_def apply_update_def)
qed (simp add: apply_updates_def)

lemma node_progress_value: "node_progress v = Inr x \<Longrightarrow> snd (snd x) = v"
  by (auto simp: node_progress_def bindR_Inr_iff Let_def)

lemma latest_node_one_of:
  assumes "node_progress b = Inr r" and "(\<exists>x. node_progress a = Inr x) \<or> CHR ''.'' \<notin> set a"
  shows "latest_node a b = Inr a \<or> latest_node a b = Inr b"
proof (cases "CHR ''.'' \<in> set a \<and> CHR ''.'' \<in> set b")
  case True
  then obtain l where l: "node_progress a = Inr l" using assms(2) by blast
  show ?thesis
    using True l assms(1) node_progress_value[OF l] node_progress_value[OF assms(1)]
    by (cases "l < r") (simp_all add: latest_node_def)
qed (auto simp: latest_node_def)

lemma commit_current_node:
  assumes "node_id_ok n" and "progress_ok st"
  shows "\<exists>a. reduce_field ''current_node'' (st ''current_node'') (VStr n) = Inr (VStr a) \<and>
     ((\<exists>x. node_progress a = Inr x) \<or> CHR ''.'' \<notin> set a)"
proof -
  define a where "a = (case st ''current_node'' of Some (VStr a) \<Rightarrow> a | _ \<Rightarrow> [])"
  obtain s m v where r: "node_progress n = Inr (s, m, v)" using assms(1) by (auto simp: node_id_ok_def)
  have a: "(\<exists>x. node_progress a = Inr x) \<or> CHR ''.'' \<notin> set a" using assms(2) by (auto simp: progress_ok_def a_def)
  have "reduce_field ''current_node'' (st ''current_node'') (VStr n) = bindR (latest_node a n) (\<lambda>x. Inr (VStr x))"
    by (simp add: reduce_field_def a_def)
  with latest_node_one_of[OF r a] a r show ?thesis by auto
qed

lemma map_of_commit:
  "map_of (commit n ex st) k =
     (if k = ''node_routes'' then Some (VRoutes [(next_route_key n (get_routes st) (route_value (ex_route ex)), route_value (ex_route ex))])
      else if k = ''completed_nodes'' then Some (VStrs [n]) else if k = ''current_node'' then Some (VStr n)
      else map_of (ex_updates ex) k)"
  by (simp add: commit_def Let_def update_conv')

lemma commit_succeeds:
  assumes "progress_ok st" and "node_id_ok n" and "distinct (keys (ex_updates ex))"
    and plain: "\<And>k v. (k, v) \<in> set (ex_updates ex) \<Longrightarrow>
      k \<notin> {''current_node'', ''completed_nodes'', ''node_routes''} \<and> (\<exists>x. reduce_field k (st k) v = Inr x)"
  shows "\<exists>st'. apply_updates st (commit n ex st) = Inr st' \<and> progress_ok st'"
proof -
  have ok: "routes_ok st" "wf_node_id n" "CHR ''#'' \<notin> set n" "list_all wf_node_id (get_strs st ''completed_nodes'')"
    using assms(1,2) by (simp_all add: progress_ok_def node_id_ok_def)
  have d: "distinct (keys (commit n ex st))" using assms(3) by (simp add: commit_def Let_def distinct_update)
  let ?r = "route_value (ex_route ex)"
  from ok(1,3) have c: "distinct (keys (get_routes st))" "route_contiguous n (get_routes st)" by (simp_all add: routes_ok_def)
  obtain rs where "merge_node_routes (get_routes st) [(next_route_key n (get_routes st) ?r, ?r)] = Inr rs"
    using merge_next_route[OF c ok(3), of ?r] by blast
  then have routes: "\<exists>x. reduce_field ''node_routes'' (st ''node_routes'') (VRoutes [(next_route_key n (get_routes st) ?r, ?r)]) = Inr x"
    by (simp add: reduce_field_def get_routes_def)
  have comp: "reduce_field ''completed_nodes'' (st ''completed_nodes'') (VStrs [n]) =
      Inr (VStrs (sort_key node_key (remdups (get_strs st ''completed_nodes'' @ [n]))))"
    using ok(2,4) by (simp add: reduce_field_def merge_node_ids_eq get_strs_def)
  obtain a where cur: "reduce_field ''current_node'' (st ''current_node'') (VStr n) = Inr (VStr a)"
    "(\<exists>x. node_progress a = Inr x) \<or> CHR ''.'' \<notin> set a" using commit_current_node[OF assms(2,1)] by blast
  have "\<exists>st'. apply_updates st (commit n ex st) = Inr st'"
  proof (rule apply_updates_succeeds[OF d])
    fix k v assume "(k, v) \<in> set (commit n ex st)"
    then have "map_of (commit n ex st) k = Some v" using d by simp
    then show "\<exists>x. reduce_field k (st k) v = Inr x"
    proof (cases "k \<in> {''node_routes'', ''completed_nodes'', ''current_node''}")
      case True
      with \<open>map_of (commit n ex st) k = Some v\<close> routes comp cur(1) show ?thesis by (fastforce simp: map_of_commit)
    next
      case False
      with \<open>map_of (commit n ex st) k = Some v\<close> have "(k, v) \<in> set (ex_updates ex)"
        by (simp add: map_of_commit map_of_SomeD)
      with plain show ?thesis by blast
    qed
  qed
  then obtain st' where st': "apply_updates st (commit n ex st) = Inr st'" by blast
  have "map_of (commit n ex st) ''completed_nodes'' = Some (VStrs [n])" "map_of (commit n ex st) ''current_node'' = Some (VStr n)"
    by (simp_all add: map_of_commit)
  with apply_updates_field[OF st' d] comp cur have
    "st' ''completed_nodes'' = Some (VStrs (sort_key node_key (remdups (get_strs st ''completed_nodes'' @ [n]))))"
    "st' ''current_node'' = Some (VStr a)" by force+
  then have "progress_ok st'"
    using cur(2) ok(2,4) commit_route(1)[OF st' assms(3) ok(1,3)]
    by (auto simp: progress_ok_def get_strs_def list_all_iff)
  with st' show ?thesis by blast
qed
section \<open>One pass of verification\<close>

record 'w verify_env =
  ve_sha :: "blob \<Rightarrow> string"
  ve_clock :: "'w \<Rightarrow> int"
  ve_files :: "'w files"
  ve_timer :: "'w timer"
  ve_broker :: "string \<Rightarrow> string \<Rightarrow> 'w broker_ops"

definition s04_handlers :: "'w verify_env \<Rightarrow> 'w handlers" where
  "s04_handlers e = map_of
     [(''S04.10'', handle_s04_10 (ve_files e)), (''S04.20'', handle_s04_20),
      (''S04.30'', handle_s04_30 (ve_timer e) (ve_broker e)), (''S04.40'', handle_s04_40 (ve_timer e) (ve_broker e)),
      (''S04.50'', handle_s04_50 (ve_timer e) (ve_broker e)), (''S04.60'', handle_s04_60), (''S04.70'', handle_s04_70),
      (''S04.80'', handle_s04_80), (''S04.90'', handle_s04_90 (ve_sha e) (ve_clock e))]"

abbreviation s04_step :: "'w verify_env \<Rightarrow> 'w node_ports \<Rightarrow> string \<times> state \<Rightarrow> string \<times> state \<Rightarrow> bool" where
  "s04_step e ports \<equiv> stage_step (s04_handlers e) ports build_s04_graph"

lemma s04_handlers_sel:
  "s04_handlers e ''S04.10'' = Some (handle_s04_10 (ve_files e))" "s04_handlers e ''S04.20'' = Some handle_s04_20"
  "s04_handlers e ''S04.30'' = Some (handle_s04_30 (ve_timer e) (ve_broker e))"
  "s04_handlers e ''S04.40'' = Some (handle_s04_40 (ve_timer e) (ve_broker e))"
  "s04_handlers e ''S04.50'' = Some (handle_s04_50 (ve_timer e) (ve_broker e))"
  "s04_handlers e ''S04.60'' = Some handle_s04_60" "s04_handlers e ''S04.70'' = Some handle_s04_70"
  "s04_handlers e ''S04.80'' = Some handle_s04_80" "s04_handlers e ''S04.90'' = Some (handle_s04_90 (ve_sha e) (ve_clock e))"
  by (simp_all add: s04_handlers_def)

lemma reduce_s04:
  "reduce_field ''s04_manifest'' old v = Inr v" "reduce_field ''s04_check_results'' old v = Inr v"
  "reduce_field ''s04_failure_attributions'' old v = Inr v"
  by (simp_all add: reduce_field_def summed_list_fields_def)

text \<open>A node whose update is a single plain field.\<close>

lemma commit_single:
  assumes "apply_updates st (commit n (cont [(k, v)]) st) = Inr st'" and "\<And>old. reduce_field k old v = Inr v"
    and "k \<notin> {''current_node'', ''completed_nodes'', ''node_routes''}"
  shows "st' k = Some v" and "k' \<noteq> k \<Longrightarrow> k' \<notin> {''current_node'', ''completed_nodes'', ''node_routes''} \<Longrightarrow> st' k' = st k'"
  using commit_field(1)[OF assms(1), of k'] commit_field(2)[OF assms(1), of k v] assms(2,3) by (auto simp: cont_def)

lemma check_node_step:
  assumes "check_node tm bk kinds st ports w = (Inr ex, w')" and "apply_updates st (commit n ex st) = Inr st'"
    and "get_checks st = Inr before"
  shows "\<exists>rs. get_checks st' = Inr (before @ rs) \<and> map ck_kind rs = resolved_kinds st kinds \<and>
     list_all (\<lambda>r. ck_passed r \<longleftrightarrow> ck_exit r = 0) rs \<and> st' ''s04_manifest'' = st ''s04_manifest''"
proof -
  from assms(1,3) obtain rs w1 where rs: "run_checks tm bk ports st (resolved_kinds st kinds) w = (Inr rs, w1)"
    and ex: "ex = cont [(''s04_check_results'', VChecks (before @ rs))]"
    by (auto simp: check_node_def elim!: bindI_result_Inr)
  have "st' ''s04_check_results'' = Some (VChecks (before @ rs))" "st' ''s04_manifest'' = st ''s04_manifest''"
    using commit_single[OF assms(2)[unfolded ex] reduce_s04(2)] by simp_all
  with run_checks_kinds[OF rs] show ?thesis by (auto simp: get_checks_def list_all_iff)
qed

lemma s04_step_node:
  assumes "s04_step e ports (n, st) (n', st')" and "s04_handlers e n = Some h"
  obtains w ex w' where "h st ports w = (Inr ex, w')" and "apply_updates st (commit n ex st) = Inr st'"
  using assms by (auto elim: stage_stepE)

lemma s04_10_resets:
  assumes "s04_step e ports (''S04.10'', st) (n', st')"
  shows "get_checks st' = Inr []"
proof -
  obtain w ex w' where h: "handle_s04_10 (ve_files e) st ports w = (Inr ex, w')"
    and u: "apply_updates st (commit ''S04.10'' ex st) = Inr st'" by (rule s04_step_node[OF assms s04_handlers_sel(1)])
  from h have "distinct (keys (ex_updates ex))" "map_of (ex_updates ex) ''s04_check_results'' = Some (VChecks [])"
    by (auto simp: handle_s04_10_def Let_def elim!: bindI_result_Inr)
  from commit_field(2)[OF u this] show ?thesis by (auto simp: reduce_s04 get_checks_def)
qed

lemma s04_20_resolves:
  assumes "s04_step e ports (''S04.20'', st) (n', st')"
  shows "\<exists>m v v'. read_manifest ports st v = (Inr m, v') \<and> get_checks st' = get_checks st \<and>
     set (mf_resolved (get_s04_manifest st')) = set (map cm_kind (rm_commands m)) - {''benchmark''}"
proof -
  obtain w ex w' where h: "handle_s04_20 st ports w = (Inr ex, w')"
    and u: "apply_updates st (commit ''S04.20'' ex st) = Inr st'" by (rule s04_step_node[OF assms s04_handlers_sel(2)])
  from h obtain m v' where m: "read_manifest ports st w = (Inr m, v')" and
    ex: "ex = cont [(''s04_manifest'', VManifest ((get_s04_manifest st)
     \<lparr>mf_resolved := sorted_set (filter (\<lambda>k. k \<noteq> ''benchmark'') (map cm_kind (rm_commands m)))\<rparr>))]"
    by (auto simp: handle_s04_20_def elim!: bindI_result_Inr)
  have "st' ''s04_manifest'' = Some (VManifest ((get_s04_manifest st)
     \<lparr>mf_resolved := sorted_set (filter (\<lambda>k. k \<noteq> ''benchmark'') (map cm_kind (rm_commands m)))\<rparr>))"
    "st' ''s04_check_results'' = st ''s04_check_results''"
    using commit_single[OF u[unfolded ex] reduce_s04(1)] by simp_all
  with m show ?thesis by (intro exI[of _ m] exI[of _ w] exI[of _ v']) (auto simp: get_s04_manifest_def get_checks_def)
qed

lemma s04_check_step:
  assumes "s04_step e ports (n, st) (n', st')" and "s04_handlers e n = Some (check_node tm bk kinds)"
    and "get_checks st = Inr before"
  shows "\<exists>rs. get_checks st' = Inr (before @ rs) \<and> map ck_kind rs = resolved_kinds st kinds \<and>
     list_all (\<lambda>r. ck_passed r \<longleftrightarrow> ck_exit r = 0) rs \<and> get_s04_manifest st' = get_s04_manifest st"
proof (rule s04_step_node[OF assms(1,2)])
  fix w ex w' assume "check_node tm bk kinds st ports w = (Inr ex, w')" "apply_updates st (commit n ex st) = Inr st'"
  from check_node_step[OF this assms(3)] show ?thesis by (auto simp: get_s04_manifest_def)
qed

lemma s04_keeps_checks:
  assumes "s04_step e ports (n, st) (n', st')" and "n = ''S04.60'' \<or> n = ''S04.70''"
  shows "get_checks st' = get_checks st"
proof -
  from assms obtain h w ex w' where run: "s04_handlers e n = Some h" "h st ports w = (Inr ex, w')"
    "apply_updates st (commit n ex st) = Inr st'" by (auto elim: stage_stepE)
  from assms(2) run(1,2) have "distinct (keys (ex_updates ex)) \<and> ''s04_check_results'' \<notin> set (keys (ex_updates ex))"
    by (auto simp: cont_def s04_handlers_sel handle_s04_60_def handle_s04_70_def Let_def split: if_splits option.splits elim!: bindI_result_Inr)
  then have "st' ''s04_check_results'' = st ''s04_check_results''"
    by (intro commit_field(1)[OF run(3)]) simp_all
  then show ?thesis by (simp add: get_checks_def)
qed

lemma s04_80_gates:
  assumes "s04_step e ports (''S04.80'', st) (n', st')" and "get_checks st = Inr results"
  shows "get_checks st' = Inr results" and "gate_passed st' \<longleftrightarrow> checks_pass results"
proof -
  obtain w ex w' where h: "handle_s04_80 st ports w = (Inr ex, w')"
    and u: "apply_updates st (commit ''S04.80'' ex st) = Inr st'" by (rule s04_step_node[OF assms(1) s04_handlers_sel(8)])
  from h assms(2) have ex: "ex_updates ex = [(''s04_manifest'', VManifest ((get_s04_manifest st)\<lparr>mf_gate := Some (checks_pass results)\<rparr>))]"
    by (auto simp: handle_s04_80_def)
  then have d: "distinct (keys (ex_updates ex))" by simp
  show "get_checks st' = Inr results"
    using commit_field(1)[OF u d, of "''s04_check_results''"] assms(2) by (simp add: ex get_checks_def)
  show "gate_passed st' \<longleftrightarrow> checks_pass results"
    using commit_field(2)[OF u d, of "''s04_manifest''"] by (auto simp: ex reduce_s04 gate_passed_def)
qed

lemma resolved_kinds_eq:
  "set (mf_resolved (get_s04_manifest st)) = kinds - {''benchmark''} \<Longrightarrow>
     resolved_kinds st ks = filter (\<lambda>k. check_kind_name k \<in> kinds) ks"
  unfolding resolved_kinds_def by (rule filter_cong) (auto elim: check_kind_name.elims)

text \<open>C11. The gate judges exactly the checks the repository has: along a pass through S04, whatever an
  earlier pass left in the state, the results that S04.80 judges are one result for each kind among build,
  lint, type, unit, integration and security for which the repository manifest has a command, in this
  order and for no other kind; a result counts as passed exactly when its command exited with 0; and the
  gate passes exactly when a mandatory kind is among them and all passed.\<close>

theorem gate_judges_resolved_checks:
  assumes "is_run (s04_step e ports) [(''S04.10'', s1), (''S04.20'', s2), (''S04.30'', s3), (''S04.40'', s4), (''S04.50'', s5),
     (''S04.60'', s6), (''S04.70'', s7), (''S04.80'', s8), (''S04.90'', s9)]"
  shows "\<exists>m v v' results. read_manifest ports s2 v = (Inr m, v') \<and> get_checks s9 = Inr results \<and>
     map ck_kind results = filter (\<lambda>k. check_kind_name k \<in> set (map cm_kind (rm_commands m)))
       [BuildCheck, LintCheck, TypeCheck, UnitCheck, IntegrationCheck, SecurityCheck] \<and>
     list_all (\<lambda>r. ck_passed r \<longleftrightarrow> ck_exit r = 0) results \<and> (gate_passed s9 \<longleftrightarrow> checks_pass results)"
proof -
  from assms have steps: "s04_step e ports (''S04.10'', s1) (''S04.20'', s2)" "s04_step e ports (''S04.20'', s2) (''S04.30'', s3)"
    "s04_step e ports (''S04.30'', s3) (''S04.40'', s4)" "s04_step e ports (''S04.40'', s4) (''S04.50'', s5)"
    "s04_step e ports (''S04.50'', s5) (''S04.60'', s6)" "s04_step e ports (''S04.60'', s6) (''S04.70'', s7)"
    "s04_step e ports (''S04.70'', s7) (''S04.80'', s8)" "s04_step e ports (''S04.80'', s8) (''S04.90'', s9)" by simp_all
  obtain m v v' where m: "read_manifest ports s2 v = (Inr m, v')" and c3: "get_checks s3 = Inr []"
    and r3: "set (mf_resolved (get_s04_manifest s3)) = set (map cm_kind (rm_commands m)) - {''benchmark''}"
    using s04_20_resolves[OF steps(2)] s04_10_resets[OF steps(1)] by auto
  note h = s04_handlers_sel(3-5)[unfolded handle_s04_30_def handle_s04_40_def handle_s04_50_def]
  from s04_check_step[OF steps(3) h(1) c3] obtain r1 where r1: "get_checks s4 = Inr r1" "get_s04_manifest s4 = get_s04_manifest s3"
    "map ck_kind r1 = resolved_kinds s3 [BuildCheck, LintCheck, TypeCheck]" "list_all (\<lambda>r. ck_passed r \<longleftrightarrow> ck_exit r = 0) r1" by auto
  from s04_check_step[OF steps(4) h(2) r1(1)] obtain r2 where r2: "get_checks s5 = Inr (r1 @ r2)" "get_s04_manifest s5 = get_s04_manifest s4"
    "map ck_kind r2 = resolved_kinds s4 [UnitCheck]" "list_all (\<lambda>r. ck_passed r \<longleftrightarrow> ck_exit r = 0) r2" by auto
  from s04_check_step[OF steps(5) h(3) r2(1)] obtain r3' where r3': "get_checks s6 = Inr ((r1 @ r2) @ r3')"
    "map ck_kind r3' = resolved_kinds s5 [IntegrationCheck, SecurityCheck]" "list_all (\<lambda>r. ck_passed r \<longleftrightarrow> ck_exit r = 0) r3'" by auto
  have c8: "get_checks s8 = Inr ((r1 @ r2) @ r3')"
    using s04_keeps_checks[OF steps(6)] s04_keeps_checks[OF steps(7)] r3'(1) by simp
  have kinds: "resolved_kinds s ks = filter (\<lambda>k. check_kind_name k \<in> set (map cm_kind (rm_commands m))) ks" if "s \<in> {s3, s4, s5}" for s ks
    using that by (intro resolved_kinds_eq) (auto simp: r3 r1(2) r2(2))
  have "map ck_kind ((r1 @ r2) @ r3') = filter (\<lambda>k. check_kind_name k \<in> set (map cm_kind (rm_commands m)))
       ([BuildCheck, LintCheck, TypeCheck] @ [UnitCheck] @ [IntegrationCheck, SecurityCheck])"
    by (simp only: map_append filter_append r1(3) r2(3) r3'(2) kinds append_assoc) (simp add: kinds)
  moreover have "list_all (\<lambda>r. ck_passed r \<longleftrightarrow> ck_exit r = 0) ((r1 @ r2) @ r3')" using r1(4) r2(4) r3'(3) by simp
  ultimately show ?thesis
    using m s04_80_gates[OF steps(8) c8] by (intro exI[of _ m] exI[of _ v] exI[of _ v'] exI[of _ "(r1 @ r2) @ r3'"]) simp
qed

lemma s04_targets:
  "edge_targets build_s04_graph ''S04.10'' st = bindR (path_target [(''continue'', ''S04.20''), (''rejected'', END)] (route_for ''S04.10'' st)) (\<lambda>t. Inr [t])"
  "edge_targets build_s04_graph ''S04.20'' st = Inr [''S04.30'']" "edge_targets build_s04_graph ''S04.30'' st = Inr [''S04.40'']"
  "edge_targets build_s04_graph ''S04.40'' st = Inr [''S04.50'']" "edge_targets build_s04_graph ''S04.50'' st = Inr [''S04.60'']"
  "edge_targets build_s04_graph ''S04.60'' st = Inr [''S04.70'']" "edge_targets build_s04_graph ''S04.70'' st = Inr [''S04.80'']"
  "edge_targets build_s04_graph ''S04.80'' st = bindR (path_target [(''continue'', ''S04.90''), (''revision'', ''S04.90'')] (route_for ''S04.80'' st)) (\<lambda>t. Inr [t])"
  by (auto simp: edge_targets_def branch_targets_def build_s04_graph_def builder_defs s04_node_ids_def START_def END_def bindR_def split: sum.splits)

text \<open>A gate with a worker that answers at once.\<close>

definition gate_ports :: "world node_ports" where
  "gate_ports = (demo_ports None)\<lparr>np_read := \<lambda>_ r.
     if ref_type r = ''RepositoryManifest'' then retI (demo_env ''RepositoryManifest'' (BManifest demo_manifest))
     else if ref_type r = ''Blob'' then retI (Output \<lparr>wo_command = ''unit'', wo_argv = [''pytest''], wo_cwd = ''/tmp/w'', wo_exit = 0,
       wo_stdout = [], wo_stderr = [], wo_coverage = None, wo_rounds = []\<rparr>)
     else retI (demo_env ''PatchArtifact'' (BPatch demo_patch))\<rparr>"

definition demo_verify :: "world verify_env" where
  "demo_verify = \<lparr>ve_sha = (\<lambda>_. rep_digest CHR ''a''), ve_clock = w_time, ve_files = demo_files,
     ve_timer = \<lparr>tm_now = (\<lambda>_. 0), tm_sleep = (\<lambda>w. w)\<rparr>,
     ve_broker = (\<lambda>_ _. \<lparr>bk_submit = (\<lambda>_. retI True), bk_reconcile = (\<lambda>_. retI (Some (demo_ref ''Blob'' ''k''))), bk_close = (\<lambda>w. w)\<rparr>)\<rparr>"

definition gate_start :: state where
  "gate_start = (demo_s06 KEEP)(
     ''artifact_refs'' \<mapsto> VRefs [demo_ref ''ExecutionPlan'' ''c-ExecutionPlan'', demo_ref ''RepositoryManifest'' ''m'',
        demo_ref ''PatchArtifact'' ''c-S03.80-p1-pass0-PatchArtifact''],
     ''s03_workspace'' \<mapsto> VWorkspace demo_workspace)"

definition gate_frame :: "string set" where
  "gate_frame = {''case_id'', ''tenant_id'', ''artifact_refs'', ''s03_active_phase_id'', ''s03_revision_attempts'', ''s03_workspace''}"

definition gate_ready :: "state \<Rightarrow> bool" where
  "gate_ready st \<longleftrightarrow> progress_ok st \<and> get_checks st \<noteq> Inl (AttributeError ''passed'') \<and>
     (\<forall>k \<in> gate_frame. st k = gate_start k)"

lemma gate_ready_reads:
  assumes "gate_ready st"
  shows "required_state_str st ''case_id'' = Inr ''c''" "required_state_str st ''tenant_id'' = Inr ''t''"
    "require_ref st ''ExecutionPlan'' = Inr (demo_ref ''ExecutionPlan'' ''c-ExecutionPlan'')"
    "require_ref st ''RepositoryManifest'' = Inr (demo_ref ''RepositoryManifest'' ''m'')"
    "require_phase_ref st ''S03.80'' ''PatchArtifact'' = Inr (demo_ref ''PatchArtifact'' ''c-S03.80-p1-pass0-PatchArtifact'')"
    "workspace_path st = Some ''/tmp/w''" "\<exists>cs. get_checks st = Inr cs" "try_ref st ''BaselineSnapshot'' = None"
proof -
  have f: "st ''case_id'' = Some (VStr ''c'')" "st ''tenant_id'' = Some (VStr ''t'')" "st ''s03_active_phase_id'' = Some (VStr ''p1'')"
    "st ''s03_revision_attempts'' = None" "st ''s03_workspace'' = Some (VWorkspace demo_workspace)"
    "st ''artifact_refs'' = Some (VRefs [demo_ref ''ExecutionPlan'' ''c-ExecutionPlan'', demo_ref ''RepositoryManifest'' ''m'',
        demo_ref ''PatchArtifact'' ''c-S03.80-p1-pass0-PatchArtifact''])"
    using assms by (simp_all add: gate_ready_def gate_frame_def) (simp_all add: gate_start_def demo_s06_def)
  show "required_state_str st ''case_id'' = Inr ''c''" "required_state_str st ''tenant_id'' = Inr ''t''"
    "require_ref st ''ExecutionPlan'' = Inr (demo_ref ''ExecutionPlan'' ''c-ExecutionPlan'')"
    "require_ref st ''RepositoryManifest'' = Inr (demo_ref ''RepositoryManifest'' ''m'')"
    "require_phase_ref st ''S03.80'' ''PatchArtifact'' = Inr (demo_ref ''PatchArtifact'' ''c-S03.80-p1-pass0-PatchArtifact'')"
    "workspace_path st = Some ''/tmp/w''" "try_ref st ''BaselineSnapshot'' = None"
    by (simp_all add: required_state_str_def get_str_def f require_ref_def try_ref_def get_refs_def require_phase_ref_def phase_stage_def
        active_phase_id_def pass_number_def get_int_def require_stage_ref_def stage_artifact_id_def workspace_path_def demo_workspace_def demo_ref_def)
  show "\<exists>cs. get_checks st = Inr cs" using assms by (auto simp: gate_ready_def get_checks_def split: option.splits sval.splits)
qed

lemma gate_ready_step:
  assumes "gate_ready st" and "s04_handlers demo_verify n = Some h" and "h st gate_ports demo_world = (Inr ex, demo_world)"
    and "node_id_ok n" and "distinct (keys (ex_updates ex))"
    and keys: "\<And>k v. (k, v) \<in> set (ex_updates ex) \<Longrightarrow> k \<in> {''s04_manifest'', ''s04_failure_attributions''} \<or> k = ''s04_check_results'' \<and> (\<exists>cs. v = VChecks cs)"
    and "\<And>st'. route_for n st' = route_value (ex_route ex) \<Longrightarrow> edge_targets build_s04_graph n st' = Inr [n']"
  shows "\<exists>st'. s04_step demo_verify gate_ports (n, st) (n', st') \<and> gate_ready st'"
proof -
  have "progress_ok st" using assms(1) by (simp add: gate_ready_def)
  then obtain st' where st': "apply_updates st (commit n ex st) = Inr st'" "progress_ok st'"
    using commit_succeeds[OF _ assms(4,5)] keys by (fastforce simp: reduce_s04)
  have "route_for n st' = route_value (ex_route ex)"
    using commit_route(2)[OF st'(1) assms(5)] \<open>progress_ok st\<close> assms(4) by (simp add: progress_ok_def node_id_ok_def)
  from assms(7)[OF this] have "s04_step demo_verify gate_ports (n, st) (n', st')"
    using assms(2,3) st'(1) by (auto intro: run_node)
  moreover have "st' k = st k" if "k \<in> gate_frame" for k
  proof (rule commit_field(1)[OF st'(1) assms(5)])
    show "k \<notin> set (keys (ex_updates ex))"
    proof
      assume "k \<in> set (keys (ex_updates ex))"
      then obtain v where "(k, v) \<in> set (ex_updates ex)" by auto
      from keys[OF this] that show False by (auto simp: gate_frame_def)
    qed
    show "k \<notin> {''current_node'', ''completed_nodes'', ''node_routes''}" using that by (auto simp: gate_frame_def)
  qed
  moreover have "get_checks st' \<noteq> Inl (AttributeError ''passed'')"
  proof (cases "map_of (ex_updates ex) ''s04_check_results''")
    case None
    then have "st' ''s04_check_results'' = st ''s04_check_results''" by (intro commit_field(1)[OF st'(1) assms(5)]) (auto simp: map_of_eq_None_iff)
    with assms(1) show ?thesis by (simp add: gate_ready_def get_checks_def)
  next
    case (Some v)
    with keys[OF map_of_SomeD[OF Some]] commit_field(2)[OF st'(1) assms(5) Some] show ?thesis by (auto simp: get_checks_def reduce_s04)
  qed
  ultimately show ?thesis using st'(2) assms(1) unfolding gate_ready_def by metis
qed

lemma gate_reads [simp]:
  assumes "gate_ready st"
  shows "read_manifest gate_ports st w = (Inr demo_manifest, w)"
    and "read_model gate_ports st (demo_ref ''PatchArtifact'' i) decode_patch w = (Inr demo_patch, w)"
  using gate_ready_reads[OF assms]
  by (simp_all add: read_manifest_def read_model_def gate_ports_def demo_env_def decode_manifest_def decode_patch_def demo_patch_def valid_patch_def demo_digest_valid)

lemma s04_node_ids_ok:
  "node_id_ok ''S04.10''" "node_id_ok ''S04.20''" "node_id_ok ''S04.30''" "node_id_ok ''S04.40''" "node_id_ok ''S04.50''"
  "node_id_ok ''S04.60''" "node_id_ok ''S04.70''" "node_id_ok ''S04.80''"
  by (simp_all add: node_id_ok_def wf_node_id_def parse_decimal_def is_digit_def node_progress_def split_head_def parse_int_def)

lemma demo_check_node:
  assumes "gate_ready st"
  shows "\<exists>cs. check_node (ve_timer demo_verify) (ve_broker demo_verify) kinds st gate_ports demo_world =
     (Inr (cont [(''s04_check_results'', VChecks cs)]), demo_world)"
proof -
  have one: "\<exists>r. run_one_check (ve_timer demo_verify) (ve_broker demo_verify t d) gate_ports ''c'' ''t'' (demo_ref ''RepositoryManifest'' ''m'') k w = (Inr r, w)" for t d k w
    by (cases k) (simp_all add: run_one_check_def Let_def valid_job_def valid_ref_def demo_ref_def len_in_def demo_digest_valid bindI_def demo_verify_def
        await_first_poll max_check_seconds_def gate_ports_def mk_check_def check_of_output_def valid_check_def tail_of_def)
  have each: "\<exists>rs. check_each (run_one_check (ve_timer demo_verify) (ve_broker demo_verify t d) gate_ports ''c'' ''t'' (demo_ref ''RepositoryManifest'' ''m'')) ks w = (Inr rs, w)"
    for t d ks w
  proof (induction ks)
    case (Cons k ks)
    with one[of t d k w] show ?case by (auto simp: bindI_def)
  qed simp
  have "\<exists>rs. run_checks (ve_timer demo_verify) (ve_broker demo_verify) gate_ports st (resolved_kinds st kinds) demo_world = (Inr rs, demo_world)"
    using gate_ready_reads[OF assms] each[of "''t''" "''/tmp/w''" "resolved_kinds st kinds" demo_world]
    by (auto simp: run_checks_def finallyI_def Let_def) (simp add: demo_verify_def)
  moreover obtain cs where "get_checks st = Inr cs" using gate_ready_reads(7)[OF assms] by blast
  ultimately show ?thesis by (auto simp: check_node_def bindI_def)
qed

lemma gate_start_ready: "gate_ready gate_start"
  by (simp add: gate_ready_def progress_ok_def routes_ok_def get_routes_def route_contiguous_def get_strs_def get_checks_def gate_start_def demo_s06_def)

lemma demo_check_step:
  assumes "gate_ready st" and "s04_handlers demo_verify n = Some (check_node (ve_timer demo_verify) (ve_broker demo_verify) kinds)"
    and "node_id_ok n" and "\<And>st'. edge_targets build_s04_graph n st' = Inr [n']"
  shows "\<exists>st'. s04_step demo_verify gate_ports (n, st) (n', st') \<and> gate_ready st'"
proof -
  obtain cs where "check_node (ve_timer demo_verify) (ve_broker demo_verify) kinds st gate_ports demo_world =
     (Inr (cont [(''s04_check_results'', VChecks cs)]), demo_world)" using demo_check_node[OF assms(1)] by blast
  from gate_ready_step[OF assms(1,2) this assms(3)] assms(4) show ?thesis by (auto simp: cont_def)
qed

lemma demo_gate_run:
  "\<exists>s2 s3 s4 s5 s6 s7 s8 s9. gate_ready s2 \<and> is_run (s04_step demo_verify gate_ports)
     [(''S04.10'', gate_start), (''S04.20'', s2), (''S04.30'', s3), (''S04.40'', s4), (''S04.50'', s5),
      (''S04.60'', s6), (''S04.70'', s7), (''S04.80'', s8), (''S04.90'', s9)]"
proof -
  note reads = gate_ready_reads gate_reads
  have "\<exists>s2. s04_step demo_verify gate_ports (''S04.10'', gate_start) (''S04.20'', s2) \<and> gate_ready s2"
    by (rule gate_ready_step[OF gate_start_ready s04_handlers_sel(1) _ s04_node_ids_ok(1)])
      (simp add: handle_s04_10_def reads[OF gate_start_ready] demo_verify_def demo_files_def, auto simp: s04_targets path_target_def)
  then obtain s2 where s2: "s04_step demo_verify gate_ports (''S04.10'', gate_start) (''S04.20'', s2)" "gate_ready s2" by blast
  have "\<exists>s3. s04_step demo_verify gate_ports (''S04.20'', s2) (''S04.30'', s3) \<and> gate_ready s3"
    by (rule gate_ready_step[OF s2(2) s04_handlers_sel(2) _ s04_node_ids_ok(2)])
      (simp add: handle_s04_20_def reads[OF s2(2)] bindI_def, auto simp: s04_targets cont_def)
  then obtain s3 where s3: "s04_step demo_verify gate_ports (''S04.20'', s2) (''S04.30'', s3)" "gate_ready s3" by blast
  note h = s04_handlers_sel(3-5)[unfolded handle_s04_30_def handle_s04_40_def handle_s04_50_def]
  from demo_check_step[OF s3(2) h(1) s04_node_ids_ok(3) s04_targets(3)] obtain s4 where
    s4: "s04_step demo_verify gate_ports (''S04.30'', s3) (''S04.40'', s4)" "gate_ready s4" by blast
  from demo_check_step[OF s4(2) h(2) s04_node_ids_ok(4) s04_targets(4)] obtain s5 where
    s5: "s04_step demo_verify gate_ports (''S04.40'', s4) (''S04.50'', s5)" "gate_ready s5" by blast
  from demo_check_step[OF s5(2) h(3) s04_node_ids_ok(5) s04_targets(5)] obtain s6 where
    s6: "s04_step demo_verify gate_ports (''S04.50'', s5) (''S04.60'', s6)" "gate_ready s6" by blast
  have "\<exists>s7. s04_step demo_verify gate_ports (''S04.60'', s6) (''S04.70'', s7) \<and> gate_ready s7"
    by (rule gate_ready_step[OF s6(2) s04_handlers_sel(6) _ s04_node_ids_ok(6)])
      (simp add: handle_s04_60_def reads[OF s6(2)] bindI_def Let_def, auto simp: s04_targets cont_def)
  then obtain s7 where s7: "s04_step demo_verify gate_ports (''S04.60'', s6) (''S04.70'', s7)" "gate_ready s7" by blast
  obtain c7 where c7: "get_checks s7 = Inr c7" using gate_ready_reads(7)[OF s7(2)] by blast
  have "\<exists>as. handle_s04_70 s7 gate_ports demo_world = (Inr (cont [(''s04_failure_attributions'', VAttributions as)]), demo_world)"
    by (cases "filter (\<lambda>r. \<not> ck_passed r) c7 = []") (simp_all add: handle_s04_70_def c7 gate_ready_reads(8)[OF s7(2)] cont_def)
  then obtain as where "handle_s04_70 s7 gate_ports demo_world = (Inr (cont [(''s04_failure_attributions'', VAttributions as)]), demo_world)" by blast
  then have "\<exists>s8. s04_step demo_verify gate_ports (''S04.70'', s7) (''S04.80'', s8) \<and> gate_ready s8"
    by (rule gate_ready_step[OF s7(2) s04_handlers_sel(7) _ s04_node_ids_ok(7)]) (auto simp: s04_targets cont_def)
  then obtain s8 where s8: "s04_step demo_verify gate_ports (''S04.70'', s7) (''S04.80'', s8)" "gate_ready s8" by blast
  obtain c8 where c8: "get_checks s8 = Inr c8" using gate_ready_reads(7)[OF s8(2)] by blast
  have "\<exists>s9. s04_step demo_verify gate_ports (''S04.80'', s8) (''S04.90'', s9) \<and> gate_ready s9"
    by (rule gate_ready_step[OF s8(2) s04_handlers_sel(8) _ s04_node_ids_ok(8)])
      (simp add: handle_s04_80_def c8, auto simp: s04_targets path_target_def)
  with s2 s3 s4 s5 s6 s7 s8 show ?thesis by fastforce
qed

theorem gate_judges_resolved_checks_witness:
  "\<exists>s9 results. get_checks s9 = Inr results \<and> map ck_kind results = [UnitCheck] \<and> (gate_passed s9 \<longleftrightarrow> checks_pass results)"
proof -
  obtain s2 s3 s4 s5 s6 s7 s8 s9 where s2: "gate_ready s2" and run: "is_run (s04_step demo_verify gate_ports)
     [(''S04.10'', gate_start), (''S04.20'', s2), (''S04.30'', s3), (''S04.40'', s4), (''S04.50'', s5),
      (''S04.60'', s6), (''S04.70'', s7), (''S04.80'', s8), (''S04.90'', s9)]" using demo_gate_run by blast
  from gate_judges_resolved_checks[OF run] gate_reads(1)[OF s2] show ?thesis by (force simp: demo_manifest_def)
qed
section \<open>A lost workspace\<close>

lemma commit_completed:
  assumes "apply_updates st (commit node ex st) = Inr st'" and "distinct (keys (ex_updates ex))"
  shows "set (get_strs st' ''completed_nodes'') = insert node (set (get_strs st ''completed_nodes''))"
proof -
  have d: "distinct (keys (commit node ex st))" using assms(2) by (simp add: commit_def Let_def distinct_update)
  have "map_of (commit node ex st) ''completed_nodes'' = Some (VStrs [node])" by (simp add: map_of_commit)
  from apply_updates_field[OF assms(1) d this] obtain x where
    x: "reduce_field ''completed_nodes'' (st ''completed_nodes'') (VStrs [node]) = Inr x" "st' ''completed_nodes'' = Some x" by blast
  have "bindR (merge_node_ids (get_strs st ''completed_nodes'') [node]) (\<lambda>x. Inr (VStrs x)) = Inr x"
    using x(1) by (simp add: reduce_field_def get_strs_def)
  with x(2) show ?thesis by (auto simp: bindR_Inr_iff merge_node_ids_eq get_strs_def[of st'] split: if_splits)
qed

lemma derive_key_cong:
  assumes "\<And>f. f \<in> {''case_id'', ''a3_revision_attempts'', ''s02_revision_attempts'', ''s03_revision_attempts'', ''resume_attempts'',
    ''resume_target_node''} \<Longrightarrow> st' f = st f"
  shows "derive_idempotency_key spec st' = derive_idempotency_key spec st"
proof -
  have "get_int st' (fst fs) = get_int st (fst fs)" if "fs \<in> set revision_fields" for fs
  proof -
    from that have "st' (fst fs) = st (fst fs)" unfolding revision_fields_def by (intro assms) auto
    then show ?thesis by (simp add: get_int_def)
  qed
  then have "foldl (add_revision s st') b revision_fields = foldl (add_revision s st) b revision_fields" for s b
    by (intro foldl_cong) (simp_all add: add_revision_def)
  moreover have "get_int st' ''resume_attempts'' = get_int st ''resume_attempts''"
    "get_str st' ''resume_target_node'' = get_str st ''resume_target_node''" "get_str st' ''case_id'' = get_str st ''case_id''"
    using assms by (simp_all add: get_int_def get_str_def)
  ultimately show ?thesis by (simp add: derive_idempotency_key_def require_identity_def)
qed

lemma handle_s04_10_result:
  assumes "handle_s04_10 fs st ports w = (Inr ex, w')"
  shows "keys (ex_updates ex) = [''s04_manifest'', ''s04_check_results'', ''s04_failure_attributions'']"
    and "\<exists>m. map_of (ex_updates ex) ''s04_manifest'' = Some (VManifest m) \<and> mf_gate m = None"
  using assms by (auto simp: handle_s04_10_def Let_def elim!: bindI_result_Inr)



end
