(* ===== verification/Metrics.thy ===== *)
theory Metrics
  imports Policy_Decision
begin

text \<open>
  The metric package (\<open>application/metrics/\<close>, \<open>contracts/metrics.py\<close>): the definitions of the built-in metrics, the
  resolution of a metric id and the statistic of an aggregate that a criterion is judged by.
\<close>

datatype value_kind = NumberKind | BooleanKind | DistributionKind

datatype comparison = Threshold | Relative | Statistical | GuardrailComparison

record metric_definition =
  md_id :: string
  md_kind :: value_kind
  md_unit :: string
  md_direction :: criterion_direction
  md_aggregation :: string
  md_comparison :: comparison
  md_sources :: "string list"
  md_samples :: int

definition aggregations :: "string list" where
  "aggregations = [''mean'', ''p50'', ''p95'', ''p99'', ''sum'', ''rate'', ''maximum'', ''verdict'']"

definition valid_metric :: "metric_definition \<Rightarrow> bool" where
  "valid_metric m \<longleftrightarrow> len_in 1 255 (md_id m) \<and> len_in 1 100 (md_unit m) \<and> md_aggregation m \<in> set aggregations \<and>
     md_sources m \<noteq> [] \<and> 1 \<le> md_samples m \<and> md_samples m \<le> 10000"

definition metric :: "string \<Rightarrow> value_kind \<Rightarrow> string \<Rightarrow> criterion_direction \<Rightarrow> string \<Rightarrow> string list \<Rightarrow> int \<Rightarrow> comparison \<Rightarrow> metric_definition" where
  "metric i kind unit direction aggregation sources samples cmp = \<lparr>md_id = i, md_kind = kind, md_unit = unit, md_direction = direction,
     md_aggregation = aggregation, md_comparison = cmp, md_sources = sources, md_samples = samples\<rparr>"

definition builtin_metrics :: "metric_definition list" where
  "builtin_metrics =
     [metric ''p50_latency_ms'' DistributionKind ''ms'' Minimize ''p50'' [''benchmark'', ''telemetry''] 3 Statistical,
      metric ''p95_latency_ms'' DistributionKind ''ms'' Minimize ''p95'' [''benchmark'', ''telemetry''] 3 Statistical,
      metric ''p99_latency_ms'' DistributionKind ''ms'' Minimize ''p99'' [''benchmark'', ''telemetry''] 3 Statistical,
      metric ''throughput_rps'' NumberKind ''requests_per_second'' Maximize ''rate'' [''benchmark'', ''telemetry''] 3 Threshold,
      metric ''peak_memory_mb'' NumberKind ''MiB'' Minimize ''maximum'' [''telemetry'', ''profiler''] 1 Threshold,
      metric ''cpu_utilization_percent'' DistributionKind ''percent'' Minimize ''p95'' [''telemetry'', ''profiler''] 3 Threshold,
      metric ''input_tokens'' NumberKind ''tokens'' Minimize ''sum'' [''evaluator'', ''telemetry''] 1 Threshold,
      metric ''output_tokens'' NumberKind ''tokens'' Minimize ''sum'' [''evaluator'', ''telemetry''] 1 Threshold,
      metric ''total_tokens'' NumberKind ''tokens'' Minimize ''sum'' [''evaluator'', ''telemetry''] 1 Threshold,
      metric ''cost_usd'' NumberKind ''USD'' Minimize ''sum'' [''evaluator'', ''telemetry''] 1 Threshold,
      metric ''quality_score'' NumberKind ''score'' Maximize ''mean'' [''evaluator'', ''judge''] 3 Statistical,
      metric ''correctness'' BooleanKind ''exit_code'' Target ''verdict'' [''test'', ''evaluator''] 1 GuardrailComparison,
      metric ''unit_command_result'' NumberKind ''exit_code'' Target ''verdict'' [''test''] 1 GuardrailComparison]"

definition resolve_metric :: "string \<Rightarrow> string option \<Rightarrow> criterion_direction option \<Rightarrow> metric_definition result" where
  "resolve_metric i unit direction =
     (case find (\<lambda>m. md_id m = i) builtin_metrics of
        Some m \<Rightarrow> Inr m
      | None \<Rightarrow>
          let m = metric i NumberKind (case unit of None \<Rightarrow> ''scalar'' | Some u \<Rightarrow> if u = [] then ''scalar'' else u)
                (case direction of None \<Rightarrow> Target | Some d \<Rightarrow> d) ''mean'' [''benchmark'', ''telemetry'', ''evaluator''] 1 Threshold in
          if valid_metric m then Inr m else Inl (ValidationError ''MetricDefinition''))"

definition select_aggregate_value :: "metric_aggregate \<Rightarrow> string \<Rightarrow> rat result" where
  "select_aggregate_value a strategy =
     (if strategy \<in> {''mean'', ''rate''} then Inr (ma_mean a)
      else if strategy = ''p50'' then (case ma_p50 a of None \<Rightarrow> Inl (ValueError ''metric has no p50'') | Some v \<Rightarrow> Inr v)
      else if strategy = ''p95'' then (case ma_p95 a of None \<Rightarrow> Inl (ValueError ''metric has no p95'') | Some v \<Rightarrow> Inr v)
      else if strategy \<in> {''p99'', ''maximum'', ''verdict''} then Inr (ma_maximum a)
      else if strategy = ''sum'' then Inr (ma_mean a * of_int (ma_count a))
      else Inl (ValueError ''unsupported aggregation strategy''))"

lemma builtin_metrics_valid: "list_all valid_metric builtin_metrics"
  by (simp add: builtin_metrics_def metric_def valid_metric_def aggregations_def len_in_def)

lemma builtin_metrics_distinct: "distinct (map md_id builtin_metrics)"
  by (simp add: builtin_metrics_def metric_def)

lemma resolve_metric_valid: "resolve_metric i unit direction = Inr m \<Longrightarrow> valid_metric m \<and> md_id m = i"
  using builtin_metrics_valid
  by (auto simp: resolve_metric_def find_Some_iff list_all_length Let_def metric_def split: option.splits if_splits)

lemma resolve_metric_total:
  assumes "len_in 1 255 i" and "pred_option (\<lambda>u. length u \<le> 100) unit"
  shows "\<exists>m. resolve_metric i unit direction = Inr m"
  using assms by (auto simp: resolve_metric_def Let_def metric_def valid_metric_def aggregations_def len_in_def Suc_le_eq
      split: option.splits)

text \<open>Every aggregation a contract admits selects a statistic; only the two percentiles can be absent.\<close>

lemma select_aggregate_total:
  assumes "strategy \<in> set aggregations" and "strategy = ''p50'' \<Longrightarrow> ma_p50 a \<noteq> None" and "strategy = ''p95'' \<Longrightarrow> ma_p95 a \<noteq> None"
  shows "\<exists>v. select_aggregate_value a strategy = Inr v"
proof -
  from assms(1) have "strategy = ''mean'' \<or> strategy = ''p50'' \<or> strategy = ''p95'' \<or> strategy = ''p99'' \<or> strategy = ''sum'' \<or>
      strategy = ''rate'' \<or> strategy = ''maximum'' \<or> strategy = ''verdict''" by (simp add: aggregations_def)
  then show ?thesis
    by (elim disjE) (use assms(2,3) in \<open>auto simp: select_aggregate_value_def\<close>)
qed

end
