(* ===== verification/Analysis.thy ===== *)
theory Analysis
  imports Metrics Planning
begin

text \<open>
  Stage A3 up to the sealed findings (\<open>application/a3_handlers/\<close>, nodes A3.10 to A3.51): intake, the catalogue of the
  evidence, problem signals and their priority, the four analyzers, the drafts of the generator, the resolution of their
  citations, the judge and the assignment of maturity. The model, the prompts, the Python parser and the registry of
  domain analyzers are parameters.
\<close>

section \<open>Reading and sealing\<close>

definition checked :: "string \<Rightarrow> bool \<Rightarrow> 'a \<Rightarrow> 'a result" where
  "checked ty ok x = (if ok then Inr x else Inl (ValidationError ty))"

definition decode_bundle :: "body \<Rightarrow> evidence_bundle result" where
  "decode_bundle b = (case b of BBundle x \<Rightarrow> checked ''EvidenceBundle'' (valid_bundle x) x | _ \<Rightarrow> Inl (ValidationError ''EvidenceBundle''))"

definition decode_evidence_quality :: "body \<Rightarrow> bool result" where
  "decode_evidence_quality b = (case b of BEvidenceQuality x \<Rightarrow> Inr x | _ \<Rightarrow> Inl (ValidationError ''EvidenceQualityReport''))"

definition decode_a3_comparability :: "body \<Rightarrow> comparability_report result" where
  "decode_a3_comparability b = (case b of BComparability x \<Rightarrow> Inr x | _ \<Rightarrow> Inl (ValidationError ''ComparabilityReport''))"

definition decode_a3_baseline :: "body \<Rightarrow> baseline_snapshot result" where
  "decode_a3_baseline b = (case b of BBaseline x \<Rightarrow> checked ''BaselineSnapshot'' (valid_baseline x) x | _ \<Rightarrow> Inl (ValidationError ''BaselineSnapshot''))"

definition decode_catalog :: "body \<Rightarrow> evidence_catalog result" where
  "decode_catalog b = (case b of BCatalog x \<Rightarrow> checked ''EvidenceCatalog'' (valid_catalog x) x | _ \<Rightarrow> Inl (ValidationError ''EvidenceCatalog''))"

definition decode_signals :: "body \<Rightarrow> problem_signal list result" where
  "decode_signals b = (case b of BSignals x \<Rightarrow> checked ''ProblemSignalSet'' (list_all valid_signal x) x | _ \<Rightarrow> Inl (ValidationError ''ProblemSignalSet''))"

definition decode_prioritized :: "body \<Rightarrow> prioritized_signals result" where
  "decode_prioritized b = (case b of BPrioritized x \<Rightarrow> checked ''PrioritizedSignalSet'' (list_all valid_signal (pz_signals x)) x
     | _ \<Rightarrow> Inl (ValidationError ''PrioritizedSignalSet''))"

definition decode_observations :: "body \<Rightarrow> observation_branch result" where
  "decode_observations b = (case b of BObservations x \<Rightarrow> checked ''AnalyzerObservationBranch'' (valid_branch x) x
     | _ \<Rightarrow> Inl (ValidationError ''AnalyzerObservationBranch''))"

definition decode_branch_evidence :: "body \<Rightarrow> string option result" where
  "decode_branch_evidence b = (case b of BBranchEvidence x \<Rightarrow> Inr x | _ \<Rightarrow> Inl (ValidationError ''BranchEvidenceRefs''))"

definition decode_finding_drafts :: "body \<Rightarrow> finding_draft list result" where
  "decode_finding_drafts b = (case b of BFindingDrafts x _ \<Rightarrow> checked ''FindingDraftSet'' (list_all valid_finding_draft x) x
     | _ \<Rightarrow> Inl (ValidationError ''FindingDraftSet''))"

definition decode_citations :: "body \<Rightarrow> citation_report list result" where
  "decode_citations b = (case b of BCitations x \<Rightarrow> checked ''CitationResolutionReportSet'' (list_all valid_citation x) x
     | _ \<Rightarrow> Inl (ValidationError ''CitationResolutionReportSet''))"

definition decode_judgements :: "body \<Rightarrow> judgement list result" where
  "decode_judgements b = (case b of BJudgements x \<Rightarrow> checked ''FindingJudgementSet'' (list_all valid_judgement x) x
     | _ \<Rightarrow> Inl (ValidationError ''FindingJudgementSet''))"

definition read_typed :: "'w node_ports \<Rightarrow> state \<Rightarrow> string \<Rightarrow> (body \<Rightarrow> 'a result) \<Rightarrow> ('w, artifact_ref \<times> 'a) io" where
  "read_typed ports st ty decode =
     bindI (liftI (require_ref st ty)) (\<lambda>ref. bindI (read_model ports st ref decode) (\<lambda>x. retI (ref, x)))"

definition read_stage :: "'w node_ports \<Rightarrow> state \<Rightarrow> string \<Rightarrow> string \<Rightarrow> (body \<Rightarrow> 'a result) \<Rightarrow> ('w, artifact_ref \<times> 'a) io" where
  "read_stage ports st stage ty decode =
     bindI (liftI (require_stage_ref st stage ty)) (\<lambda>ref. bindI (read_model ports st ref decode) (\<lambda>x. retI (ref, x)))"

definition lane_envelope :: "state \<Rightarrow> string \<Rightarrow> string list \<Rightarrow> body \<Rightarrow> int \<Rightarrow> envelope result" where
  "lane_envelope st ty parents b now =
     bindR (required_state_str st ''case_id'') (\<lambda>cid.
     bindR (required_state_str st ''tenant_id'') (\<lambda>tenant.
       let e = \<lparr>env_type = ty, env_id = cid @ ''-'' @ ty, env_tenant = tenant, env_case = cid,
                 env_created = now, env_parents = parents, env_body = b\<rparr> in
       if valid_envelope e then Inr e else Inl (ValidationError ty)))"

text \<open>What the nodes of the analysis are given: digests, the clock, the model with its prompts, the parser and the registry. A
  reply of the model is a JSON object, of which the code reads the keys below; an item that fails validation is \<open>None\<close>.\<close>

record a3_reply =
  rl_findings :: "(string \<times> finding_draft option) list"    \<comment> \<open>with the id that a failure reports\<close>
  rl_verdict :: "string option"
  rl_reasons :: "string list"
  rl_strategies :: "strategy_draft option list"

datatype ast_node = FunctionNode string int "int option" | BareExcept int | NameCall string | OtherNode

record 'w a3_env =
  an_sha :: "blob \<Rightarrow> string"
  an_clock :: "'w \<Rightarrow> int"
  an_model :: "(model_request \<Rightarrow> ('w, a3_reply completion) io) option"
  an_parse :: "'w \<Rightarrow> string \<Rightarrow> string \<Rightarrow> string + ast_node list"    \<comment> \<open>the name of the exception or the walk of the tree\<close>
  an_analyzers :: "('w \<Rightarrow> nat) option"                        \<comment> \<open>active domain analyzers, when a registry is wired\<close>
  an_finding_prompt :: "prioritized_signals \<Rightarrow> evidence_catalog \<Rightarrow> evidence_bundle \<Rightarrow> observation_branch list \<Rightarrow> (string \<times> string) list"
  an_citation_prompt :: "string list \<Rightarrow> string list \<Rightarrow> string list \<Rightarrow> string"
  an_judge_prompt :: "finding_draft \<Rightarrow> citation_report option \<Rightarrow> (string \<times> string) list"
  an_strategy_prompt :: "finding list \<Rightarrow> (string \<times> string \<times> bool \<times> string list) list \<Rightarrow> (string \<times> string) list"

definition a3_seal :: "'w a3_env \<Rightarrow> 'w node_ports \<Rightarrow> state \<Rightarrow> string \<Rightarrow> string \<Rightarrow> string list \<Rightarrow> bool \<Rightarrow> body \<Rightarrow> ('w, artifact_ref) io" where
  "a3_seal e ports st node ty parents ok b = (\<lambda>w.
     seal_envelope (an_sha e) ports st node ok (lane_envelope st ty parents b (an_clock e w)) w)"

definition a3_seal_stage :: "'w a3_env \<Rightarrow> 'w node_ports \<Rightarrow> state \<Rightarrow> string \<Rightarrow> string \<Rightarrow> string \<Rightarrow> string list \<Rightarrow> bool \<Rightarrow> body \<Rightarrow>
    ('w, artifact_ref) io" where
  "a3_seal_stage e ports st node stage ty parents ok b = (\<lambda>w.
     seal_envelope (an_sha e) ports st node ok (stage_envelope st stage ty parents b (an_clock e w)) w)"

section \<open>Intake and the catalogue\<close>

definition a3_mismatches :: "artifact_ref \<Rightarrow> artifact_ref \<Rightarrow> evidence_bundle \<Rightarrow> baseline_snapshot \<Rightarrow> string list" where
  "a3_mismatches request_ref snapshot_ref bundle baseline =
     (if eb_baseline bundle \<noteq> ref_digest snapshot_ref then [''EvidenceBundle.baseline_digest does not match SourceSnapshot digest''] else []) @
     (if bl_source baseline \<noteq> ref_digest snapshot_ref then [''BaselineSnapshot.source_snapshot_digest does not match SourceSnapshot digest''] else []) @
     (if bl_request baseline \<noteq> ref_digest request_ref then [''BaselineSnapshot.request_digest does not match OptimizationRequest digest''] else [])"

definition handle_a3_10 :: "'w a3_env \<Rightarrow> state \<Rightarrow> 'w node_ports \<Rightarrow> ('w, node_execution) io" where
  "handle_a3_10 e st ports =
     bindI (read_typed ports st ''OptimizationRequest'' decode_request) (\<lambda>(request_ref, request).
     bindI (read_typed ports st ''SourceSnapshot'' decode_snapshot) (\<lambda>(snapshot_ref, snapshot).
     bindI (read_typed ports st ''EvidenceBundle'' decode_bundle) (\<lambda>(bundle_ref, bundle).
     bindI (read_typed ports st ''EvidenceQualityReport'' decode_evidence_quality) (\<lambda>(_, quality).
     bindI (read_typed ports st ''ComparabilityReport'' decode_a3_comparability) (\<lambda>(_, cmp).
     bindI (read_typed ports st ''BaselineSnapshot'' decode_a3_baseline) (\<lambda>(baseline_ref, baseline).
     let mismatches = a3_mismatches request_ref snapshot_ref bundle baseline in
     bindI (a3_seal e ports st ''A3.10'' ''A3IntakeDecision'' [ref_digest request_ref, ref_digest bundle_ref, ref_digest baseline_ref] True
              (BA3Intake \<lparr>ai_verified = mismatches = [], ai_mismatches = mismatches, ai_gates = quality \<and> cp_comparable cmp\<rparr>)) (\<lambda>ref.
     retI (cont [(''artifact_refs'', VRefs [ref])]))))))))"

definition by_metric :: "evidence_item list \<Rightarrow> string list dict" where
  "by_metric items = fold (\<lambda>i d. AList.update (ei_type i) (dict_get d (ei_type i) [] @ [ei_id i]) d) items []"

definition index_evidence :: "evidence_item list \<Rightarrow> evidence_catalog" where
  "index_evidence items = \<lparr>ec_entries = map (\<lambda>i. \<lparr>ca_id = ei_id i, ca_metric = Some (ei_type i), ca_trust = ei_trust i,
       ca_observed = ei_observed i\<rparr>) items, ec_by_metric = by_metric items\<rparr>"

definition handle_a3_11 :: "'w a3_env \<Rightarrow> state \<Rightarrow> 'w node_ports \<Rightarrow> ('w, node_execution) io" where
  "handle_a3_11 e st ports =
     bindI (read_typed ports st ''EvidenceBundle'' decode_bundle) (\<lambda>(bundle_ref, bundle).
     let catalog = index_evidence (eb_evidence bundle) in
     bindI (a3_seal e ports st ''A3.11'' ''EvidenceCatalog'' [ref_digest bundle_ref] (valid_catalog catalog) (BCatalog catalog)) (\<lambda>ref.
     retI (cont [(''artifact_refs'', VRefs [ref])])))"

section \<open>Problem signals\<close>

fun criterion_breached :: "criterion \<Rightarrow> rat \<Rightarrow> bool" where
  "criterion_breached c observed =
     (case cr_direction c of
        Minimize \<Rightarrow> cr_target c < observed
      | Maximize \<Rightarrow> observed < cr_target c
      | Target \<Rightarrow> observed \<noteq> cr_target c)"

fun numeric_value :: "evidence_value option \<Rightarrow> rat option" where
  "numeric_value (Some (Number v)) = Some v"
| "numeric_value (Some (Flag b)) = Some (if b then 1 else 0)"
| "numeric_value _ = None"

definition supporting_ids :: "evidence_item list \<Rightarrow> string \<Rightarrow> (rat \<Rightarrow> bool) \<Rightarrow> string list" where
  "supporting_ids items metric_id breaches =
     map ei_id (filter (\<lambda>i. ei_metric i = Some metric_id \<and> (case numeric_value (ei_value i) of None \<Rightarrow> False | Some v \<Rightarrow> breaches v)) items)"

definition signal_evidence :: "evidence_catalog \<Rightarrow> string \<Rightarrow> metric_aggregate \<Rightarrow> string list \<Rightarrow> string list" where
  "signal_evidence catalog metric_id agg precise =
     (if precise \<noteq> [] then precise
      else let same = dict_get (ec_by_metric catalog) metric_id [] in if same \<noteq> [] then same else ma_samples agg)"

definition grounding_suffix :: "string list \<Rightarrow> string list \<Rightarrow> string" where
  "grounding_suffix evidence precise =
     (if precise \<noteq> [] then [] else if evidence = [] then '' [evidence: none available]'' else '' [evidence: same-metric, not numerically confirmed]'')"

definition mk_signal :: "string \<Rightarrow> string \<Rightarrow> string \<Rightarrow> string \<Rightarrow> rat \<Rightarrow> rat \<Rightarrow> string \<Rightarrow> string list \<Rightarrow> int \<Rightarrow> problem_signal result" where
  "mk_signal i cid metric_id text observed target unit evidence now =
     (let s = \<lparr>sg_id = i, sg_criterion = cid, sg_metric = metric_id, sg_description = text, sg_baseline = observed, sg_target = target,
           sg_unit = unit, sg_evidence = evidence, sg_detected = now\<rparr> in checked ''ProblemSignal'' (valid_signal s) s)"

definition criterion_signal :: "evidence_catalog \<Rightarrow> evidence_item list \<Rightarrow> metric_aggregate dict \<Rightarrow> int \<Rightarrow> criterion \<Rightarrow> problem_signal list result" where
  "criterion_signal catalog items aggregates now c =
     (case map_of aggregates (cr_metric c) of
        None \<Rightarrow> Inr []
      | Some agg \<Rightarrow>
          bindR (select_aggregate_value agg (cr_aggregation c)) (\<lambda>observed.
          if \<not> criterion_breached c observed then Inr []
          else let precise = supporting_ids items (cr_metric c) (criterion_breached c); evidence = signal_evidence catalog (cr_metric c) agg precise in
            bindR (mk_signal (''signal-'' @ cr_id c) (cr_id c) (cr_metric c) (cr_metric c @ '' breaches its target'' @ grounding_suffix evidence precise)
                observed (cr_target c) (cr_unit c) evidence now) (\<lambda>s. Inr [s])))"

definition guardrail_signal :: "evidence_catalog \<Rightarrow> evidence_item list \<Rightarrow> metric_aggregate dict \<Rightarrow> int \<Rightarrow> guardrail \<Rightarrow> problem_signal list result" where
  "guardrail_signal catalog items aggregates now g =
     (case map_of aggregates (gr_metric g) of
        None \<Rightarrow> Inr []
      | Some agg \<Rightarrow>
          bindR (resolve_metric (gr_metric g) (Some (gr_unit g)) (Some Target)) (\<lambda>m.
          bindR (select_aggregate_value agg (md_aggregation m)) (\<lambda>observed.
          if apply_operator observed (gr_operator g) (gr_threshold g) then Inr []
          else let precise = supporting_ids items (gr_metric g) (\<lambda>v. \<not> apply_operator v (gr_operator g) (gr_threshold g));
                   evidence = signal_evidence catalog (gr_metric g) agg precise in
            bindR (mk_signal (''signal-guardrail-'' @ gr_id g) (gr_id g) (gr_metric g) (''guardrail '' @ gr_id g @ '' violated'' @ grounding_suffix evidence precise)
                observed (gr_threshold g) (gr_unit g) evidence now) (\<lambda>s. Inr [s]))))"

definition find_signals :: "optimization_request \<Rightarrow> baseline_snapshot \<Rightarrow> evidence_catalog \<Rightarrow> evidence_bundle \<Rightarrow> int \<Rightarrow> problem_signal list result" where
  "find_signals request baseline catalog bundle now =
     (let aggregates = py_dict (map (\<lambda>a. (ma_metric a, a)) (bl_aggregates baseline)) in
      bindR (mapR (criterion_signal catalog (eb_evidence bundle) aggregates now) (req_criteria request)) (\<lambda>cs.
      bindR (mapR (guardrail_signal catalog (eb_evidence bundle) aggregates now) (req_guardrails request)) (\<lambda>gs.
      Inr (concat cs @ concat gs))))"

definition handle_a3_20 :: "'w a3_env \<Rightarrow> state \<Rightarrow> 'w node_ports \<Rightarrow> ('w, node_execution) io" where
  "handle_a3_20 e st ports =
     bindI (read_request ports st) (\<lambda>request.
     bindI (read_typed ports st ''BaselineSnapshot'' decode_a3_baseline) (\<lambda>(baseline_ref, baseline).
     bindI (read_typed ports st ''EvidenceCatalog'' decode_catalog) (\<lambda>(catalog_ref, catalog).
     bindI (read_typed ports st ''EvidenceBundle'' decode_bundle) (\<lambda>(bundle_ref, bundle). (\<lambda>w.
     bindI (liftI (find_signals request baseline catalog bundle (an_clock e w))) (\<lambda>signals.
     bindI (a3_seal e ports st ''A3.20'' ''ProblemSignalSet'' [ref_digest baseline_ref, ref_digest catalog_ref, ref_digest bundle_ref] True
              (BSignals signals)) (\<lambda>ref.
     retI (cont [(''artifact_refs'', VRefs [ref])]))) w)))))"

text \<open>Python's \<open>round(x, 4)\<close>: to the nearest multiple, a tie to the even one.\<close>

definition round_half_even :: "rat \<Rightarrow> int" where
  "round_half_even x = (let f = \<lfloor>x\<rfloor>; d = x - of_int f in
     if d < 1 / 2 then f else if 1 / 2 < d then f + 1 else if even f then f else f + 1)"

definition round4 :: "rat \<Rightarrow> rat" where
  "round4 x = of_int (round_half_even (x * 10000)) / 10000"

definition priority_score :: "problem_signal \<Rightarrow> rat" where
  "priority_score s =
     (let deviation = \<bar>sg_baseline s - sg_target s\<bar>; denom = (if sg_target s \<noteq> 0 then \<bar>sg_target s\<bar> else 1);
          magnitude = min (deviation / denom) 10; weight = of_nat (min (length (sg_evidence s)) 5) / 5 in
      round4 (magnitude * (7 / 10) + weight * (3 / 10)))"

definition prioritize :: "problem_signal list \<Rightarrow> prioritized_signals" where
  "prioritize signals = \<lparr>pz_signals = signals, pz_scores = py_dict (map (\<lambda>s. (sg_id s, priority_score s)) signals)\<rparr>"

definition handle_a3_21 :: "'w a3_env \<Rightarrow> state \<Rightarrow> 'w node_ports \<Rightarrow> ('w, node_execution) io" where
  "handle_a3_21 e st ports =
     bindI (read_typed ports st ''ProblemSignalSet'' decode_signals) (\<lambda>(signal_ref, signals).
     bindI (a3_seal e ports st ''A3.21'' ''PrioritizedSignalSet'' [ref_digest signal_ref] True (BPrioritized (prioritize signals))) (\<lambda>ref.
     retI (cont [(''artifact_refs'', VRefs [ref])])))"

section \<open>Analyzers\<close>

definition long_function_lines :: int where
  "long_function_lines = 50"

definition parsed_files :: "(string \<Rightarrow> string \<Rightarrow> string + ast_node list) \<Rightarrow> source_snapshot \<Rightarrow> (string \<times> ast_node list) list \<times> string list" where
  "parsed_files parse snapshot =
     (let results = map (\<lambda>f. (fi_path f, parse (sn_path snapshot) (fi_path f))) (filter (\<lambda>f. endswith ''.py'' (fi_path f)) (sn_files snapshot)) in
      (List.map_filter (\<lambda>(p, r). case r of Inr t \<Rightarrow> Some (p, t) | Inl _ \<Rightarrow> None) results,
       List.map_filter (\<lambda>(p, r). case r of Inl x \<Rightarrow> Some (p @ '': '' @ x) | Inr _ \<Rightarrow> None) results))"

fun syntax_observation :: "string list \<Rightarrow> string \<Rightarrow> ast_node \<Rightarrow> observation option" where
  "syntax_observation signals path (FunctionNode name line end_line) =
     (let last_line = (case end_line of None \<Rightarrow> line | Some l \<Rightarrow> if l = 0 then line else l) in
      if long_function_lines \<le> last_line - line
      then Some \<lparr>ob_id = ''syntax-'' @ path @ ''-'' @ name @ ''-'' @ str_int line, ob_source = Syntax, ob_signals = signals, ob_files = [path],
             ob_symbols = [name], ob_positive = False\<rparr>
      else None)"
| "syntax_observation signals path (BareExcept line) =
     Some \<lparr>ob_id = ''syntax-'' @ path @ ''-bare-except-'' @ str_int line, ob_source = Syntax, ob_signals = signals, ob_files = [path],
       ob_symbols = [], ob_positive = False\<rparr>"
| "syntax_observation signals path _ = None"

definition syntax_observations :: "string list \<Rightarrow> (string \<times> ast_node list) list \<Rightarrow> observation list" where
  "syntax_observations signals files = concat (map (\<lambda>(p, t). List.map_filter (syntax_observation signals p) t) files)"

definition called_names :: "ast_node list \<Rightarrow> string list" where
  "called_names t = sorted_set (List.map_filter (\<lambda>n. case n of NameCall c \<Rightarrow> Some c | _ \<Rightarrow> None) t)"

definition call_observations :: "string list \<Rightarrow> (string \<times> ast_node list) list \<Rightarrow> observation list" where
  "call_observations signals files = List.map_filter (\<lambda>(p, t).
     if called_names t = [] then None
     else Some \<lparr>ob_id = ''semantic-'' @ p @ ''-call-graph'', ob_source = Semantic, ob_signals = signals, ob_files = [p],
            ob_symbols = called_names t, ob_positive = True\<rparr>) files"

definition seal_branch :: "'w a3_env \<Rightarrow> 'w node_ports \<Rightarrow> state \<Rightarrow> artifact_ref \<Rightarrow> artifact_ref \<Rightarrow> observation_branch \<Rightarrow> ('w, node_execution) io" where
  "seal_branch e ports st snapshot_ref signal_ref b =
     bindI (a3_seal_stage e ports st (bh_id b) (bh_id b) ''AnalyzerObservationBranch'' [ref_digest snapshot_ref, ref_digest signal_ref]
              (valid_branch b) (BObservations b)) (\<lambda>ref.
     retI (cont [(''artifact_refs'', VRefs [ref])]))"

definition analyze_source :: "'w a3_env \<Rightarrow> state \<Rightarrow> 'w node_ports \<Rightarrow> string \<Rightarrow> analyzer_source \<Rightarrow>
    (string list \<Rightarrow> (string \<times> ast_node list) list \<Rightarrow> observation list) \<Rightarrow> ('w, node_execution) io" where
  "analyze_source e st ports node source observe =
     bindI (read_typed ports st ''SourceSnapshot'' decode_snapshot) (\<lambda>(snapshot_ref, snapshot).
     bindI (read_typed ports st ''PrioritizedSignalSet'' decode_prioritized) (\<lambda>(signal_ref, prioritized). (\<lambda>w.
     let signals = map sg_id (pz_signals prioritized); (files, gaps) = parsed_files (an_parse e w) snapshot in
     seal_branch e ports st snapshot_ref signal_ref
       \<lparr>bh_id = node, bh_source = source, bh_observations = (if signals = [] then [] else observe signals files),
        bh_gaps = (if signals = [] then [] else gaps),
        bh_unavailable = (if signals = [] then Some ''no prioritized signal to scope analysis to'' else None)\<rparr> w)))"

definition handle_a3_30 :: "'w a3_env \<Rightarrow> state \<Rightarrow> 'w node_ports \<Rightarrow> ('w, node_execution) io" where
  "handle_a3_30 e st ports = analyze_source e st ports ''A3.30'' Syntax syntax_observations"

definition handle_a3_31 :: "'w a3_env \<Rightarrow> state \<Rightarrow> 'w node_ports \<Rightarrow> ('w, node_execution) io" where
  "handle_a3_31 e st ports = analyze_source e st ports ''A3.31'' Semantic call_observations"

definition handle_a3_32 :: "'w a3_env \<Rightarrow> state \<Rightarrow> 'w node_ports \<Rightarrow> ('w, node_execution) io" where
  "handle_a3_32 e st ports =
     bindI (read_typed ports st ''SourceSnapshot'' decode_snapshot) (\<lambda>(snapshot_ref, _).
     bindI (read_typed ports st ''PrioritizedSignalSet'' decode_prioritized) (\<lambda>(signal_ref, _).
     bindI (case an_analyzers e of
              None \<Rightarrow> retI 0
            | Some active \<Rightarrow> bindI (liftI (required_state_str st ''tenant_id'')) (\<lambda>_ w. (Inr (active w), w))) (\<lambda>n.
     seal_branch e ports st snapshot_ref signal_ref
       \<lparr>bh_id = ''A3.32'', bh_source = Domain, bh_observations = [], bh_gaps = [],
        bh_unavailable = Some (if n = 0 then ''no domain analyzer registered''
          else str_nat n @ '' domain analyzer registration(s) exist but no execution path is wired'')\<rparr>)))"

text \<open>\<open>except ValueError\<close>, of which a validation error is a subclass.\<close>

definition catch_value_error :: "('w, 'a) io \<Rightarrow> ('w, 'a option) io" where
  "catch_value_error f = (\<lambda>w. case f w of
     (Inr x, w') \<Rightarrow> (Inr (Some x), w')
   | (Inl (ValueError _), w') \<Rightarrow> (Inr None, w')
   | (Inl (ValidationError _), w') \<Rightarrow> (Inr None, w')
   | (Inl err, w') \<Rightarrow> (Inl err, w'))"

definition handle_a3_33 :: "'w a3_env \<Rightarrow> state \<Rightarrow> 'w node_ports \<Rightarrow> ('w, node_execution) io" where
  "handle_a3_33 e st ports =
     bindI (read_typed ports st ''SourceSnapshot'' decode_snapshot) (\<lambda>(snapshot_ref, _).
     bindI (read_typed ports st ''PrioritizedSignalSet'' decode_prioritized) (\<lambda>(signal_ref, _).
     bindI (catch_value_error (read_stage ports st ''A2.63'' ''BranchEvidenceRefs'' decode_branch_evidence)) (\<lambda>telemetry.
     seal_branch e ports st snapshot_ref signal_ref
       \<lparr>bh_id = ''A3.33'', bh_source = Runtime, bh_observations = [], bh_gaps = [],
        bh_unavailable = (case telemetry of Some (_, reason) \<Rightarrow> reason | None \<Rightarrow> Some ''no A2.63 telemetry branch found in state'')\<rparr>)))"

section \<open>Findings\<close>

definition a3_prompt_version :: string where
  "a3_prompt_version = ''a3-v1''"

fun evidence_supports_claim :: "evidence_item \<Rightarrow> bool" where
  "evidence_supports_claim i = (case ei_value i of Some (Number _) \<Rightarrow> True | _ \<Rightarrow> False)"

definition parse_finding_drafts :: "a3_reply \<Rightarrow> finding_draft list \<times> string list" where
  "parse_finding_drafts reply =
     (let ok = (\<lambda>(i, d). case d of Some x \<Rightarrow> valid_finding_draft x | None \<Rightarrow> False) in
      (map (the \<circ> snd) (filter ok (rl_findings reply)), map fst (filter (\<lambda>x. \<not> ok x) (rl_findings reply))))"

definition invalid_citations :: "finding_draft list \<Rightarrow> string list \<Rightarrow> string list \<Rightarrow> string list" where
  "invalid_citations drafts known supporting = concat (map (\<lambda>d.
     (if filter (\<lambda>i. i \<notin> set known) (fd_support d) \<noteq> [] then [fd_id d @ '': unknown supporting_evidence_ids''] else []) @
     (if filter (\<lambda>i. i \<in> set known \<and> i \<notin> set supporting) (fd_support d) \<noteq> [] then [fd_id d @ '': unsupported supporting_evidence_ids''] else [])) drafts)"

definition generate_finding_drafts :: "(model_request \<Rightarrow> ('w, a3_reply completion) io) \<Rightarrow> (string list \<Rightarrow> string) \<Rightarrow> state \<Rightarrow>
    (string \<times> string) list \<Rightarrow> string list \<Rightarrow> string list \<Rightarrow> ('w, finding_draft list \<times> string list \<times> int) io" where
  "generate_finding_drafts ask repair_text st messages known supporting =
     bindI (liftI (required_state_str st ''case_id'')) (\<lambda>cid.
     let request = \<lparr>mq_messages = messages, mq_key = cid @ '':A3.40:'' @ a3_prompt_version\<rparr> in
     bindI (one_repair_complete ask request) (\<lambda>(reply, tokens).
     case reply of
       None \<Rightarrow> retI ([], [''generator did not produce schema-valid output within the one-repair budget''], tokens)
     | Some r \<Rightarrow>
         let (drafts, failures) = parse_finding_drafts r; citations = invalid_citations drafts known supporting in
         if citations = [] then retI (drafts, failures, tokens)
         else bindI (ask \<lparr>mq_messages = messages @ [(''user'', repair_text citations)], mq_key = mq_key request @ '':repair-citations-1''\<rparr>) (\<lambda>second.
           let total = tokens + co_tokens second in
           case (if co_valid second then co_parsed second else None) of
             None \<Rightarrow> retI (drafts, failures @ citations, total)
           | Some r' \<Rightarrow> let (drafts', failures') = parse_finding_drafts r' in
               retI (drafts', failures' @ invalid_citations drafts' known supporting, total))))"

definition read_branches :: "'w node_ports \<Rightarrow> state \<Rightarrow> ('w, observation_branch list) io" where
  "read_branches ports st =
     bindI (read_stage ports st ''A3.30'' ''AnalyzerObservationBranch'' decode_observations) (\<lambda>(_, a).
     bindI (read_stage ports st ''A3.31'' ''AnalyzerObservationBranch'' decode_observations) (\<lambda>(_, b).
     bindI (read_stage ports st ''A3.32'' ''AnalyzerObservationBranch'' decode_observations) (\<lambda>(_, c).
     bindI (read_stage ports st ''A3.33'' ''AnalyzerObservationBranch'' decode_observations) (\<lambda>(_, d).
     retI [a, b, c, d]))))"

definition handle_a3_40 :: "'w a3_env \<Rightarrow> state \<Rightarrow> 'w node_ports \<Rightarrow> ('w, node_execution) io" where
  "handle_a3_40 e st ports =
     (case an_model e of
        None \<Rightarrow> failI (RuntimeError ''A3.40 requires ModelProviderPort wired into NodePorts'')
      | Some ask \<Rightarrow>
          bindI (read_typed ports st ''PrioritizedSignalSet'' decode_prioritized) (\<lambda>(signal_ref, prioritized).
          bindI (read_typed ports st ''EvidenceCatalog'' decode_catalog) (\<lambda>(catalog_ref, catalog).
          bindI (read_typed ports st ''EvidenceBundle'' decode_bundle) (\<lambda>(bundle_ref, bundle).
          bindI (read_branches ports st) (\<lambda>branches.
          let known = map ca_id (ec_entries catalog); supporting = map ei_id (filter evidence_supports_claim (eb_evidence bundle)) in
          bindI (if pz_signals prioritized = [] then retI ([], [], 0)
                 else generate_finding_drafts ask (\<lambda>bad. an_citation_prompt e bad (sorted_set known) (sorted_set supporting)) st
                        (an_finding_prompt e prioritized catalog bundle branches) known supporting) (\<lambda>(drafts, failures, tokens).
          bindI (a3_seal e ports st ''A3.40'' ''FindingDraftSet'' [ref_digest signal_ref, ref_digest catalog_ref, ref_digest bundle_ref] True
                   (BFindingDrafts drafts failures)) (\<lambda>ref.
          retI (cont [(''artifact_refs'', VRefs [ref]), (''a3_model_tokens_spent'', VInt tokens)]))))))))"

text \<open>A value supports a claim in A3.41 when it is a number other than zero; a truth value counts as 1 or 0.\<close>

definition value_supports :: "evidence_value option \<Rightarrow> bool" where
  "value_supports v = (case numeric_value v of None \<Rightarrow> False | Some x \<Rightarrow> x \<noteq> 0)"

definition resolve_citation :: "string list \<Rightarrow> evidence_value option dict \<Rightarrow> string \<Rightarrow> citation_entry" where
  "resolve_citation known values i =
     (let resolved = i \<in> set known; supports = resolved \<and> value_supports (dict_get values i None) in
      \<lparr>ct_evidence = i, ct_resolved = resolved, ct_in_scope = resolved, ct_supports = supports,
       ct_reason = (if resolved \<and> supports then None else if \<not> resolved then Some ''evidence id not found in catalog''
         else Some ''evidence value does not support the claim (zero/neutral outcome)'')\<rparr>)"

definition resolve_citations :: "evidence_catalog \<Rightarrow> evidence_bundle \<Rightarrow> finding_draft \<Rightarrow> citation_report" where
  "resolve_citations catalog bundle d =
     (let entries = map (resolve_citation (map ca_id (ec_entries catalog)) (py_dict (map (\<lambda>i. (ei_id i, ei_value i)) (eb_evidence bundle)))) (fd_support d) in
      \<lparr>cx_finding = fd_id d, cx_entries = entries, cx_all_resolved = list_all entry_holds entries\<rparr>)"

definition handle_a3_41 :: "'w a3_env \<Rightarrow> state \<Rightarrow> 'w node_ports \<Rightarrow> ('w, node_execution) io" where
  "handle_a3_41 e st ports =
     bindI (read_typed ports st ''FindingDraftSet'' decode_finding_drafts) (\<lambda>(draft_ref, drafts).
     bindI (read_typed ports st ''EvidenceCatalog'' decode_catalog) (\<lambda>(catalog_ref, catalog).
     bindI (read_typed ports st ''EvidenceBundle'' decode_bundle) (\<lambda>(_, bundle).
     let reports = map (resolve_citations catalog bundle) drafts in
     bindI (a3_seal e ports st ''A3.41'' ''CitationResolutionReportSet'' [ref_digest draft_ref, ref_digest catalog_ref]
              (list_all valid_citation reports) (BCitations reports)) (\<lambda>ref.
     retI (cont [(''artifact_refs'', VRefs [ref])])))))"

section \<open>Judgement and maturity\<close>

definition judge_finding :: "(model_request \<Rightarrow> ('w, a3_reply completion) io) \<Rightarrow> state \<Rightarrow> string \<Rightarrow> (string \<times> string) list \<Rightarrow>
    ('w, judgement option \<times> int) io" where
  "judge_finding ask st fid messages =
     bindI (liftI (required_state_str st ''case_id'')) (\<lambda>cid.
     bindI (ask \<lparr>mq_messages = messages, mq_key = cid @ '':A3.50:'' @ fid @ '':'' @ a3_prompt_version\<rparr>) (\<lambda>result.
     case (if co_valid result then co_parsed result else None) of
       None \<Rightarrow> retI (None, co_tokens result)
     | Some raw \<Rightarrow> (case rl_verdict raw of
         None \<Rightarrow> retI (None, co_tokens result)
       | Some v \<Rightarrow>
           let reasons = (if rl_reasons raw = [] then [''no reason provided''] else rl_reasons raw) in
           if v = ''accept'' then retI (Some \<lparr>ju_finding = fid, ju_verdict = Accept, ju_reasons = reasons\<rparr>, co_tokens result)
           else if v = ''reject'' then retI (Some \<lparr>ju_finding = fid, ju_verdict = Reject, ju_reasons = reasons\<rparr>, co_tokens result)
           else failI (ValidationError ''FindingJudgement''))))"

fun judge_all :: "(finding_draft \<Rightarrow> ('w, judgement option \<times> int) io) \<Rightarrow> finding_draft list \<Rightarrow> ('w, judgement list \<times> int) io" where
  "judge_all judge [] = retI ([], 0)"
| "judge_all judge (d # ds) =
     bindI (judge d) (\<lambda>(j, spent).
     bindI (judge_all judge ds) (\<lambda>(js, rest).
     retI ((case j of Some x \<Rightarrow> x # js | None \<Rightarrow> js), spent + rest)))"

definition handle_a3_50 :: "'w a3_env \<Rightarrow> state \<Rightarrow> 'w node_ports \<Rightarrow> ('w, node_execution) io" where
  "handle_a3_50 e st ports =
     (case an_model e of
        None \<Rightarrow> failI (RuntimeError ''A3.50 requires ModelProviderPort wired into NodePorts'')
      | Some ask \<Rightarrow>
          bindI (read_typed ports st ''FindingDraftSet'' decode_finding_drafts) (\<lambda>(draft_ref, drafts).
          bindI (read_typed ports st ''CitationResolutionReportSet'' decode_citations) (\<lambda>(citation_ref, citations).
          let reports = py_dict (map (\<lambda>r. (cx_finding r, r)) citations) in
          bindI (judge_all (\<lambda>d. judge_finding ask st (fd_id d) (an_judge_prompt e d (map_of reports (fd_id d)))) drafts) (\<lambda>(judgements, tokens).
          bindI (a3_seal e ports st ''A3.50'' ''FindingJudgementSet'' [ref_digest draft_ref, ref_digest citation_ref] True (BJudgements judgements)) (\<lambda>ref.
          retI (cont [(''artifact_refs'', VRefs [ref]), (''a3_model_tokens_spent'', VInt tokens)]))))))"

definition compute_trust_level :: "finding_draft \<Rightarrow> citation_report \<Rightarrow> judgement \<Rightarrow> evidence_bundle \<Rightarrow> trust_level" where
  "compute_trust_level d citation j bundle =
     (if ju_verdict j \<noteq> Accept \<or> \<not> cx_all_resolved citation then T1
      else let items = py_dict (map (\<lambda>i. (ei_id i, i)) (eb_evidence bundle)) in
        if \<not> list_all (\<lambda>i. case map_of items i of None \<Rightarrow> True | Some x \<Rightarrow> ei_collector x \<noteq> [] \<and> ei_sample x \<noteq> []) (fd_support d) then T2
        else if 1 < length (fd_support d) then T3 else T2)"

definition mature_finding :: "citation_report dict \<Rightarrow> judgement dict \<Rightarrow> evidence_bundle \<Rightarrow> finding_draft \<Rightarrow> finding list" where
  "mature_finding citations judgements bundle d =
     (case (map_of judgements (fd_id d), map_of citations (fd_id d)) of
        (Some j, Some c) \<Rightarrow>
          if \<not> cx_all_resolved c then []
          else let trust = compute_trust_level d c j bundle;
                   claim = (if fd_claim d = VerifiedCause \<and> (ju_verdict j \<noteq> Accept \<or> trust \<noteq> T4) then Hypothesis else fd_claim d) in
            [\<lparr>fn_draft = d\<lparr>fd_claim := claim\<rparr>, fn_trust = trust, fn_judgement = j\<rparr>]
      | _ \<Rightarrow> [])"

definition mature_findings :: "citation_report list \<Rightarrow> judgement list \<Rightarrow> evidence_bundle \<Rightarrow> finding_draft list \<Rightarrow> finding list" where
  "mature_findings citations judgements bundle drafts =
     concat (map (mature_finding (py_dict (map (\<lambda>r. (cx_finding r, r)) citations)) (py_dict (map (\<lambda>j. (ju_finding j, j)) judgements)) bundle) drafts)"

definition publish_findings :: "'w a3_env \<Rightarrow> 'w node_ports \<Rightarrow> state \<Rightarrow> artifact_ref \<Rightarrow> artifact_ref \<Rightarrow> artifact_ref \<Rightarrow> citation_report list \<Rightarrow>
    observation_branch list \<Rightarrow> finding list \<Rightarrow> ('w, node_execution) io" where
  "publish_findings e ports st draft_ref judgement_ref bundle_ref citations branches findings =
     (if findings = [] then retI \<lparr>ex_route = REJECTED, ex_updates = []\<rparr>
      else let s = \<lparr>fs_bundle = ref_digest bundle_ref, fs_findings = findings, fs_observations = concat (map bh_observations branches),
                 fs_reports = citations, fs_gaps = concat (map bh_gaps branches)\<rparr> in
        bindI (a3_seal e ports st ''A3.51'' ''FindingSet'' [ref_digest bundle_ref, ref_digest draft_ref, ref_digest judgement_ref]
                 (valid_finding_set s) (BFindings s)) (\<lambda>ref.
        retI (cont [(''artifact_refs'', VRefs [ref])])))"

definition handle_a3_51 :: "'w a3_env \<Rightarrow> state \<Rightarrow> 'w node_ports \<Rightarrow> ('w, node_execution) io" where
  "handle_a3_51 e st ports =
     bindI (read_typed ports st ''FindingDraftSet'' decode_finding_drafts) (\<lambda>(draft_ref, drafts).
     bindI (read_typed ports st ''CitationResolutionReportSet'' decode_citations) (\<lambda>(_, citations).
     bindI (read_typed ports st ''FindingJudgementSet'' decode_judgements) (\<lambda>(judgement_ref, judgements).
     bindI (read_typed ports st ''EvidenceBundle'' decode_bundle) (\<lambda>(bundle_ref, bundle).
     bindI (read_branches ports st) (\<lambda>branches.
     let findings = mature_findings citations judgements bundle drafts in
     bindI (liftI (mapR (\<lambda>f. checked ''Finding'' (valid_finding f) f) findings)) (\<lambda>_.
     publish_findings e ports st draft_ref judgement_ref bundle_ref citations branches findings))))))"

section \<open>What the sealed findings rest on\<close>

text \<open>A draft is grounded when every id it cites as support names evidence of the bundle whose value is a number other than zero.\<close>

definition grounded :: "evidence_bundle \<Rightarrow> finding_draft \<Rightarrow> bool" where
  "grounded b d \<longleftrightarrow> list_all (\<lambda>i. \<exists>v. map_of (rev (map (\<lambda>x. (ei_id x, ei_value x)) (eb_evidence b))) i = Some v \<and> value_supports v) (fd_support d)"

definition judged :: "judgement list \<Rightarrow> finding_draft \<Rightarrow> bool" where
  "judged js d \<longleftrightarrow> fd_id d \<in> ju_finding ` set js"

lemma value_supports_None [simp]: "\<not> value_supports None"
  by (simp add: value_supports_def)

lemma resolve_citation_holds:
  "entry_holds (resolve_citation (map ca_id (ec_entries (index_evidence items))) (py_dict (map (\<lambda>i. (ei_id i, ei_value i)) items)) i) \<longleftrightarrow>
   (\<exists>v. map_of (rev (map (\<lambda>x. (ei_id x, ei_value x)) items)) i = Some v \<and> value_supports v)"
proof -
  have "(\<exists>v. map_of (rev (map (\<lambda>x. (ei_id x, ei_value x)) items)) i = Some v) \<longleftrightarrow> i \<in> ei_id ` set items"
    by (metis (no_types, lifting) dom_map_of_conv_image_fst domD domI image_image list.set_map set_rev fst_conv image_cong)
  then show ?thesis
    by (auto simp: entry_holds_def resolve_citation_def Let_def index_evidence_def o_def dict_get_def map_of_py_dict split: option.splits)
qed

lemma resolved_iff_grounded:
  "cx_all_resolved (resolve_citations (index_evidence (eb_evidence b)) b d) \<longleftrightarrow> grounded b d"
  by (simp add: resolve_citations_def Let_def grounded_def list_all_iff resolve_citation_holds)

lemma report_lookup:
  assumes "d \<in> set drafts" and "distinct (map fd_id drafts)"
  shows "map_of (py_dict (map (\<lambda>r. (cx_finding r, r)) (map (resolve_citations c b) drafts))) (fd_id d) = Some (resolve_citations c b d)"
proof -
  have eq: "map (\<lambda>r. (cx_finding r, r)) (map (resolve_citations c b) drafts) = map (\<lambda>d. (fd_id d, resolve_citations c b d)) drafts"
    by (simp add: resolve_citations_def Let_def)
  have "distinct (map fst (rev (map (\<lambda>d. (fd_id d, resolve_citations c b d)) drafts)))"
    using assms(2) by (simp add: rev_map[symmetric] o_def)
  with assms(1) show ?thesis unfolding eq map_of_py_dict by (intro map_of_is_SomeI) auto
qed

lemma judgement_lookup:
  "(\<exists>j. map_of (py_dict (map (\<lambda>j. (ju_finding j, j)) js)) (fd_id d) = Some j) \<longleftrightarrow> judged js d"
  by (simp add: map_of_py_dict judged_def) (metis (no_types, lifting) dom_map_of_conv_image_fst domD domI image_image list.set_map set_rev fst_conv image_cong)

lemma trust_below_T4: "compute_trust_level d c j b \<noteq> T4"
  by (simp add: compute_trust_level_def Let_def)

lemma mature_findings_shape:
  assumes "distinct (map fd_id drafts)"
  shows "list_all2 (\<lambda>f d. \<exists>j. map_of (py_dict (map (\<lambda>j. (ju_finding j, j)) js)) (fd_id d) = Some j \<and> fn_judgement f = j \<and>
      fn_draft f = d\<lparr>fd_claim := (if fd_claim d = VerifiedCause then Hypothesis else fd_claim d)\<rparr> \<and>
      fn_trust f = compute_trust_level d (resolve_citations (index_evidence (eb_evidence b)) b d) j b)
    (mature_findings (map (resolve_citations (index_evidence (eb_evidence b)) b) drafts) js b drafts)
    (filter (\<lambda>d. grounded b d \<and> judged js d) drafts)"
proof -
  let ?r = "py_dict (map (\<lambda>r. (cx_finding r, r)) (map (resolve_citations (index_evidence (eb_evidence b)) b) drafts))"
    and ?j = "py_dict (map (\<lambda>j. (ju_finding j, j)) js)"
  have step: "mature_finding ?r ?j b d = (case map_of ?j (fd_id d) of None \<Rightarrow> [] | Some j \<Rightarrow> if grounded b d
      then [\<lparr>fn_draft = d\<lparr>fd_claim := (if fd_claim d = VerifiedCause then Hypothesis else fd_claim d)\<rparr>,
             fn_trust = compute_trust_level d (resolve_citations (index_evidence (eb_evidence b)) b d) j b, fn_judgement = j\<rparr>] else [])"
    if "d \<in> set drafts" for d
    using report_lookup[OF that assms, of "index_evidence (eb_evidence b)" b] trust_below_T4
    by (simp add: mature_finding_def Let_def resolved_iff_grounded split: option.splits)
  have "list_all2 (\<lambda>f d. \<exists>j. map_of ?j (fd_id d) = Some j \<and> fn_judgement f = j \<and>
      fn_draft f = d\<lparr>fd_claim := (if fd_claim d = VerifiedCause then Hypothesis else fd_claim d)\<rparr> \<and>
      fn_trust f = compute_trust_level d (resolve_citations (index_evidence (eb_evidence b)) b d) j b)
    (concat (map (mature_finding ?r ?j b) ds)) (filter (\<lambda>d. grounded b d \<and> judged js d) ds)" if "set ds \<subseteq> set drafts" for ds
    using that
  proof (induction ds)
    case (Cons d ds)
    then have "d \<in> set drafts" by simp
    from step[OF this] Cons judgement_lookup[of js d] show ?case by (cases "map_of ?j (fd_id d)") auto
  qed simp
  from this[of drafts] show ?thesis by (simp add: mature_findings_def)
qed
lemma a3_seal_result:
  assumes "a3_seal e ports st node ty parents ok b w = (Inr ref, w')"
  obtains env where "ok" and "ref_type ref = ty" and "ref_digest ref = an_sha e (Sealed env)" and "env_body env = b" and "env_parents env = parents"
  using assms[unfolded a3_seal_def]
  by (rule seal_envelope_result) (auto simp: lane_envelope_def bindR_Inr_iff Let_def split: if_splits intro: that)

lemma handle_a3_51_result:
  assumes "handle_a3_51 e st ports w = (Inr ex, w')"
    and "read_typed ports st ''FindingDraftSet'' decode_finding_drafts w = (Inr (draft_ref, drafts), w1)"
    and "read_typed ports st ''CitationResolutionReportSet'' decode_citations w1 = (Inr (citation_ref, citations), w2)"
    and "read_typed ports st ''FindingJudgementSet'' decode_judgements w2 = (Inr (judgement_ref, js), w3)"
    and "read_typed ports st ''EvidenceBundle'' decode_bundle w3 = (Inr (bundle_ref, bundle), w4)"
  shows "if mature_findings citations js bundle drafts = [] then ex = \<lparr>ex_route = REJECTED, ex_updates = []\<rparr>
     else \<exists>s ref env. ex = \<lparr>ex_route = CONTINUE, ex_updates = [(''artifact_refs'', VRefs [ref])]\<rparr> \<and>
       ref_digest ref = an_sha e (Sealed env) \<and> env_body env = BFindings s \<and> fs_bundle s = ref_digest bundle_ref \<and>
       fs_findings s = mature_findings citations js bundle drafts"
proof -
  let ?fs = "mature_findings citations js bundle drafts"
  from assms obtain branches v where tail: "publish_findings e ports st draft_ref judgement_ref bundle_ref citations branches ?fs v = (Inr ex, w')"
    unfolding handle_a3_51_def by (auto simp: bindI_Inr Let_def elim!: bindI_result_Inr)
  show ?thesis
  proof (cases "?fs = []")
    case False
    let ?s = "\<lparr>fs_bundle = ref_digest bundle_ref, fs_findings = ?fs, fs_observations = concat (map bh_observations branches),
      fs_reports = citations, fs_gaps = concat (map bh_gaps branches)\<rparr>"
    from False tail obtain ref u where seal: "a3_seal e ports st ''A3.51'' ''FindingSet'' [ref_digest bundle_ref, ref_digest draft_ref,
        ref_digest judgement_ref] (valid_finding_set ?s) (BFindings ?s) v = (Inr ref, u)" and ex: "ex = cont [(''artifact_refs'', VRefs [ref])]"
      by (auto simp: publish_findings_def Let_def elim!: bindI_result_Inr)
    from seal obtain env where "ref_digest ref = an_sha e (Sealed env)" "env_body env = BFindings ?s" by (rule a3_seal_result)
    with ex show ?thesis unfolding if_not_P[OF False] by (intro exI[of _ ?s] exI[of _ ref] exI[of _ env]) (simp add: cont_def)
  qed (use tail in \<open>simp add: publish_findings_def\<close>)
qed



text \<open>A measured zero is not evidence for the later nodes: the citation check of A3.40 accepts a draft that cites numbers only,
  among them a zero, but A3.41 leaves the citation of the zero unresolved and A3.51 drops the draft whatever the judge says. So a
  problem that shows as the value zero (no throughput, an exhausted budget) can have no finding.\<close>

theorem zero_evidence_is_lost:
  assumes "\<And>i. i \<in> set (fd_support d) \<Longrightarrow> \<exists>v. map_of (rev (map (\<lambda>x. (ei_id x, ei_value x)) (eb_evidence bundle))) i = Some (Some (Number v))"
    and "z \<in> set (fd_support d)" and "map_of (rev (map (\<lambda>x. (ei_id x, ei_value x)) (eb_evidence bundle))) z = Some (Some (Number 0))"
  shows "invalid_citations [d] (map ca_id (ec_entries (index_evidence (eb_evidence bundle)))) (map ei_id (filter evidence_supports_claim (eb_evidence bundle))) = [] \<and>
    mature_findings [resolve_citations (index_evidence (eb_evidence bundle)) bundle d] js bundle [d] = []"
proof -
  have "i \<in> ei_id ` {x \<in> set (eb_evidence bundle). evidence_supports_claim x}" if "i \<in> set (fd_support d)" for i
  proof -
    from assms(1)[OF that] obtain v where "(i, Some (Number v)) \<in> set (map (\<lambda>x. (ei_id x, ei_value x)) (eb_evidence bundle))"
      by (metis map_of_SomeD set_rev)
    then obtain x where "x \<in> set (eb_evidence bundle)" "ei_id x = i" "ei_value x = Some (Number v)" by auto
    then show ?thesis by (intro image_eqI[of _ _ x]) simp_all
  qed
  then have "invalid_citations [d] (map ca_id (ec_entries (index_evidence (eb_evidence bundle)))) (map ei_id (filter evidence_supports_claim (eb_evidence bundle))) = []"
    by (auto simp: invalid_citations_def index_evidence_def o_def filter_empty_conv)
  moreover have "\<not> grounded bundle d" using assms(2,3) by (auto simp: grounded_def list_all_iff value_supports_def intro!: bexI[of _ z])
  then have "mature_findings [resolve_citations (index_evidence (eb_evidence bundle)) bundle d] js bundle [d] = []"
    using mature_findings_shape[of "[d]" js "bundle"] by simp
  ultimately show ?thesis by simp
qed

text \<open>A case with one finding, on one piece of evidence and a judgement against it.\<close>

definition demo_item :: "string \<Rightarrow> rat \<Rightarrow> evidence_item" where
  "demo_item i v = \<lparr>ei_id = i, ei_type = ''benchmark'', ei_trust = T2, ei_collector = ''c'', ei_sample = ''s'', ei_observed = Aware 0,
     ei_value = Some (Number v), ei_metric = Some ''p95''\<rparr>"

definition demo_bundle :: evidence_bundle where
  "demo_bundle = \<lparr>eb_baseline = rep_digest CHR ''a'', eb_evidence = [demo_item ''e1'' 120, demo_item ''e2'' 0]\<rparr>"

definition demo_finding_draft :: finding_draft where
  "demo_finding_draft = \<lparr>fd_id = ''f1'', fd_signals = [''signal-latency''], fd_claim = VerifiedCause, fd_symptom = ''slow'', fd_files = [''a.py''],
     fd_symbols = [], fd_cause = ''no cache'', fd_support = [''e1''], fd_counter = [], fd_confidence = 1 / 2\<rparr>"

definition demo_judgement :: judgement where
  "demo_judgement = \<lparr>ju_finding = ''f1'', ju_verdict = Reject, ju_reasons = [''weak'']\<rparr>"

definition demo_a3 :: "world a3_env" where
  "demo_a3 = \<lparr>an_sha = (\<lambda>_. rep_digest CHR ''a''), an_clock = w_time, an_model = None, an_parse = (\<lambda>_ _ _. Inr []), an_analyzers = None,
     an_finding_prompt = (\<lambda>_ _ _ _. []), an_citation_prompt = (\<lambda>_ _ _. []), an_judge_prompt = (\<lambda>_ _. []), an_strategy_prompt = (\<lambda>_ _. [])\<rparr>"

definition digest_ref :: "char \<Rightarrow> string \<Rightarrow> string \<Rightarrow> artifact_ref" where
  "digest_ref c ty i = (demo_ref ty i)\<lparr>ref_digest := rep_digest c\<rparr>"

definition a3_state :: state where
  "a3_state = (demo_s06 KEEP)(''artifact_refs'' \<mapsto> VRefs [digest_ref CHR ''b'' ''FindingDraftSet'' ''d'', demo_ref ''CitationResolutionReportSet'' ''c'',
     digest_ref CHR ''c'' ''FindingJudgementSet'' ''j'', demo_ref ''EvidenceBundle'' ''b'',
     demo_ref ''AnalyzerObservationBranch'' ''c-A3.30-AnalyzerObservationBranch'', demo_ref ''AnalyzerObservationBranch'' ''c-A3.31-AnalyzerObservationBranch'',
     demo_ref ''AnalyzerObservationBranch'' ''c-A3.32-AnalyzerObservationBranch'', demo_ref ''AnalyzerObservationBranch'' ''c-A3.33-AnalyzerObservationBranch''])"

definition demo_branch :: observation_branch where
  "demo_branch = \<lparr>bh_id = ''A3.32'', bh_source = Domain, bh_observations = [], bh_gaps = [], bh_unavailable = Some ''no domain analyzer registered''\<rparr>"

definition a3_ports :: "world node_ports" where
  "a3_ports = (demo_ports None)\<lparr>np_read := \<lambda>_ r.
     if ref_type r = ''FindingDraftSet'' then retI (demo_env ''FindingDraftSet'' (BFindingDrafts [demo_finding_draft] []))
     else if ref_type r = ''CitationResolutionReportSet'' then retI (demo_env ''CitationResolutionReportSet''
       (BCitations [resolve_citations (index_evidence (eb_evidence demo_bundle)) demo_bundle demo_finding_draft]))
     else if ref_type r = ''FindingJudgementSet'' then retI (demo_env ''FindingJudgementSet'' (BJudgements [demo_judgement]))
     else if ref_type r = ''EvidenceBundle'' then retI (demo_env ''EvidenceBundle'' (BBundle demo_bundle))
     else retI (demo_env ''AnalyzerObservationBranch'' (BObservations demo_branch))\<rparr>"

lemma digest_ref_sel [simp]: "ref_type (digest_ref c ty i) = ty" "ref_digest (digest_ref c ty i) = rep_digest c" "ref_id (digest_ref c ty i) = i"
  by (simp_all add: digest_ref_def demo_ref_def)

lemma rep_digest_parent: "startswith (rep_digest c) ''sha256:'' \<and> length (rep_digest c) = 71"
  by (simp add: rep_digest_def startswith_def)

lemma rep_digest_inject [simp]: "rep_digest a = rep_digest b \<longleftrightarrow> a = b"
  by (simp add: rep_digest_def)

lemma a3_state_sel [simp]:
  "required_state_str a3_state ''case_id'' = Inr ''c''" "required_state_str a3_state ''tenant_id'' = Inr ''t''"
  by (simp_all add: a3_state_def demo_s06_def required_state_str_def get_str_def)

lemma demo_grounded: "grounded demo_bundle demo_finding_draft"
  by (simp add: grounded_def demo_finding_draft_def demo_bundle_def demo_item_def value_supports_def)

lemma demo_report_valid_citation:
  "valid_citation (resolve_citations (index_evidence (eb_evidence demo_bundle)) demo_bundle demo_finding_draft)"
  by (simp add: valid_citation_def resolve_citations_def Let_def demo_finding_draft_def resolve_citation_def)

lemma a3_refs [simp]:
  "require_ref a3_state ''FindingDraftSet'' = Inr (digest_ref CHR ''b'' ''FindingDraftSet'' ''d'')"
  "require_ref a3_state ''CitationResolutionReportSet'' = Inr (demo_ref ''CitationResolutionReportSet'' ''c'')"
  "require_ref a3_state ''FindingJudgementSet'' = Inr (digest_ref CHR ''c'' ''FindingJudgementSet'' ''j'')"
  "require_ref a3_state ''EvidenceBundle'' = Inr (demo_ref ''EvidenceBundle'' ''b'')"
  by (simp_all add: require_ref_def try_ref_def a3_state_def get_refs_def)

lemma a3_demo_valid: "valid_finding_draft demo_finding_draft" "valid_judgement demo_judgement" "valid_bundle demo_bundle"
  by (simp_all add: valid_finding_draft_def demo_finding_draft_def len_in_def valid_judgement_def demo_judgement_def valid_bundle_def demo_bundle_def
      demo_digest_valid)

lemma a3_reads:
  "read_typed a3_ports a3_state ''FindingDraftSet'' decode_finding_drafts w = (Inr (digest_ref CHR ''b'' ''FindingDraftSet'' ''d'', [demo_finding_draft]), w)"
  "read_typed a3_ports a3_state ''CitationResolutionReportSet'' decode_citations w = (Inr (demo_ref ''CitationResolutionReportSet'' ''c'',
     [resolve_citations (index_evidence (eb_evidence demo_bundle)) demo_bundle demo_finding_draft]), w)"
  "read_typed a3_ports a3_state ''FindingJudgementSet'' decode_judgements w = (Inr (digest_ref CHR ''c'' ''FindingJudgementSet'' ''j'', [demo_judgement]), w)"
  "read_typed a3_ports a3_state ''EvidenceBundle'' decode_bundle w = (Inr (demo_ref ''EvidenceBundle'' ''b'', demo_bundle), w)"
  by (simp_all add: read_typed_def read_model_def a3_ports_def demo_env_def decode_finding_drafts_def decode_citations_def
      decode_judgements_def decode_bundle_def checked_def demo_report_valid_citation a3_demo_valid bindI_def)

lemma a3_branch_reads:
  assumes "node \<in> {''A3.30'', ''A3.31'', ''A3.32'', ''A3.33''}"
  shows "\<exists>ref. read_stage a3_ports a3_state node ''AnalyzerObservationBranch'' decode_observations w = (Inr (ref, demo_branch), w)"
proof -
  have "\<exists>ref. require_stage_ref a3_state node ''AnalyzerObservationBranch'' = Inr ref \<and> ref_type ref = ''AnalyzerObservationBranch''"
    using assms by (auto simp: require_stage_ref_def stage_artifact_id_def) (simp_all add: a3_state_def get_refs_def demo_ref_def)
  then show ?thesis
    by (auto simp: read_stage_def read_model_def a3_ports_def demo_env_def decode_observations_def checked_def valid_branch_def demo_branch_def bindI_def)
qed

lemma a3_branches: "read_branches a3_ports a3_state w = (Inr [demo_branch, demo_branch, demo_branch, demo_branch], w)"
proof -
  have "\<exists>ref. read_stage a3_ports a3_state ''A3.30'' ''AnalyzerObservationBranch'' decode_observations w = (Inr (ref, demo_branch), w)"
    "\<exists>ref. read_stage a3_ports a3_state ''A3.31'' ''AnalyzerObservationBranch'' decode_observations w = (Inr (ref, demo_branch), w)"
    "\<exists>ref. read_stage a3_ports a3_state ''A3.32'' ''AnalyzerObservationBranch'' decode_observations w = (Inr (ref, demo_branch), w)"
    "\<exists>ref. read_stage a3_ports a3_state ''A3.33'' ''AnalyzerObservationBranch'' decode_observations w = (Inr (ref, demo_branch), w)"
    by (rule a3_branch_reads, simp)+
  then show ?thesis by (auto simp: read_branches_def bindI_Inr)
qed

lemma a3_seal_demo:
  assumes "distinct parents" and "parents = map rep_digest cs"
  shows "\<exists>ref. a3_seal demo_a3 a3_ports a3_state ''A3.51'' ''FindingSet'' parents True b w = (Inr ref, w)"
  using assms rep_digest_parent
  by (simp add: a3_seal_def seal_envelope_def lane_envelope_def valid_envelope_def len_in_def s06_put_envelope_def a3_ports_def demo_ports_def mk_ref_def
      valid_ref_def demo_ref_def demo_digest_valid demo_a3_def Let_def bindI_def list_all_iff)

lemma demo_a3_51: "\<exists>ex. handle_a3_51 demo_a3 a3_state a3_ports demo_world = (Inr ex, demo_world)"
proof -
  let ?c = "resolve_citations (index_evidence (eb_evidence demo_bundle)) demo_bundle demo_finding_draft"
  let ?f = "\<lparr>fn_draft = demo_finding_draft\<lparr>fd_claim := Hypothesis\<rparr>, fn_trust = T1, fn_judgement = demo_judgement\<rparr>"
  have c: "cx_finding ?c = ''f1''" by (simp add: resolve_citations_def Let_def demo_finding_draft_def)
  have fs: "mature_findings [?c] [demo_judgement] demo_bundle [demo_finding_draft] = [?f]"
    using demo_grounded c by (simp add: mature_findings_def mature_finding_def map_of_py_dict resolved_iff_grounded Let_def compute_trust_level_def
        demo_judgement_def) (simp add: demo_finding_draft_def)
  have ok: "valid_finding ?f"
    by (simp add: valid_finding_def valid_finding_draft_def demo_finding_draft_def len_in_def valid_judgement_def demo_judgement_def)
  have set_ok: "valid_finding_set \<lparr>fs_bundle = rep_digest CHR ''a'', fs_findings = [?f], fs_observations = [], fs_reports = [?c], fs_gaps = []\<rparr>"
    using ok demo_report_valid_citation by (simp add: valid_finding_set_def demo_digest_valid)
  have p: "distinct [rep_digest CHR ''a'', rep_digest CHR ''b'', rep_digest CHR ''c'']"
    "[rep_digest CHR ''a'', rep_digest CHR ''b'', rep_digest CHR ''c''] = map rep_digest ''abc''" by simp_all
  from a3_seal_demo[OF p] obtain ref where "a3_seal demo_a3 a3_ports a3_state ''A3.51'' ''FindingSet'' [rep_digest CHR ''a'', rep_digest CHR ''b'', rep_digest CHR ''c''] True
      (BFindings \<lparr>fs_bundle = rep_digest CHR ''a'', fs_findings = [?f], fs_observations = [], fs_reports = [?c], fs_gaps = []\<rparr>) demo_world = (Inr ref, demo_world)" ..
  moreover have "handle_a3_51 demo_a3 a3_state a3_ports demo_world = publish_findings demo_a3 a3_ports a3_state (digest_ref CHR ''b'' ''FindingDraftSet'' ''d'')
      (digest_ref CHR ''c'' ''FindingJudgementSet'' ''j'') (demo_ref ''EvidenceBundle'' ''b'') [?c] [demo_branch, demo_branch, demo_branch, demo_branch] [?f] demo_world"
    unfolding handle_a3_51_def
    by (simp only: bindI_Inr[OF a3_reads(1)] bindI_Inr[OF a3_reads(2)] bindI_Inr[OF a3_reads(3)] bindI_Inr[OF a3_reads(4)] bindI_Inr[OF a3_branches]
        prod.case Let_def fs) (simp add: ok checked_def)
  ultimately show ?thesis using set_ok by (simp add: publish_findings_def demo_branch_def bindI_Inr)
qed



theorem zero_evidence_is_lost_witness:
  "mature_findings [resolve_citations (index_evidence (eb_evidence demo_bundle)) demo_bundle (demo_finding_draft\<lparr>fd_support := [''e1'', ''e2'']\<rparr>)]
     [demo_judgement\<lparr>ju_verdict := Accept\<rparr>] demo_bundle [demo_finding_draft\<lparr>fd_support := [''e1'', ''e2'']\<rparr>] = []"
proof -
  let ?d = "demo_finding_draft\<lparr>fd_support := [''e1'', ''e2'']\<rparr>"
  have m: "map_of (rev (map (\<lambda>x. (ei_id x, ei_value x)) (eb_evidence demo_bundle))) = [''e1'' \<mapsto> Some (Number 120), ''e2'' \<mapsto> Some (Number 0)]"
    by (simp add: demo_bundle_def demo_item_def)
  have "\<exists>v. map_of (rev (map (\<lambda>x. (ei_id x, ei_value x)) (eb_evidence demo_bundle))) i = Some (Some (Number v))" if "i \<in> set (fd_support ?d)" for i
    using that unfolding m by auto
  from zero_evidence_is_lost[of ?d demo_bundle "''e2''", OF this] show ?thesis unfolding m by simp
qed

end
