(* ===== verification/Strategies.thy ===== *)
theory Strategies
  imports Analysis
begin

text \<open>
  Stage A3 from the findings to the portfolio (\<open>application/a3_handlers/\<close>, nodes A3.60 to A3.90): generating strategies,
  assembling their phases, impacts, trade-offs, validation, rollback, scope and risk, the quality gate A3.81, the bounded
  revision A3.82 and the sealed portfolio. The model with its prompts is a parameter.
\<close>

section \<open>Passes\<close>

definition max_revision_attempts :: int where
  "max_revision_attempts = 3"

definition revision_number :: "state \<Rightarrow> int" where
  "revision_number st = get_int st ''a3_revision_attempts''"

definition a3_stage :: "string \<Rightarrow> int \<Rightarrow> string" where
  "a3_stage node n = node @ ''-pass'' @ str_int n"

definition decode_findings :: "body \<Rightarrow> finding_set result" where
  "decode_findings b = (case b of BFindings x \<Rightarrow> checked ''FindingSet'' (valid_finding_set x) x | _ \<Rightarrow> Inl (ValidationError ''FindingSet''))"

definition decode_strategy_drafts :: "body \<Rightarrow> strategy_draft list result" where
  "decode_strategy_drafts b = (case b of BStrategyDrafts x \<Rightarrow> checked ''StrategyDraftSet'' (list_all valid_strategy_draft x) x
     | _ \<Rightarrow> Inl (ValidationError ''StrategyDraftSet''))"

definition decode_strategies :: "body \<Rightarrow> solution_strategy list result" where
  "decode_strategies b = (case b of BStrategies x \<Rightarrow> checked ''SolutionStrategySet'' (list_all valid_strategy x) x
     | _ \<Rightarrow> Inl (ValidationError ''SolutionStrategySet''))"

definition decode_a3_quality :: "body \<Rightarrow> a3_quality result" where
  "decode_a3_quality b = (case b of BA3Quality x \<Rightarrow> checked ''A3QualityReport'' (valid_a3_quality x) x | _ \<Rightarrow> Inl (ValidationError ''A3QualityReport''))"

definition decode_directive :: "body \<Rightarrow> revision_directive result" where
  "decode_directive b = (case b of BDirective x \<Rightarrow> checked ''RevisionDirective'' (valid_directive x) x | _ \<Rightarrow> Inl (ValidationError ''RevisionDirective''))"

definition decode_verification_manifest :: "body \<Rightarrow> repository_command list result" where
  "decode_verification_manifest b = (case b of BVerificationManifest x \<Rightarrow> Inr x | _ \<Rightarrow> Inl (ValidationError ''VerificationManifest''))"

definition latest_directive :: "'w node_ports \<Rightarrow> state \<Rightarrow> ('w, revision_directive option) io" where
  "latest_directive ports st =
     bindI (for_each (\<lambda>r. read_model ports st r decode_directive)
              (filter (\<lambda>r. ref_type r = ''RevisionDirective'') (get_refs st ''artifact_refs''))) (\<lambda>ds.
     retI (max_by rd_attempt ds))"

section \<open>Generating strategies\<close>

definition strategy_to_draft :: "solution_strategy \<Rightarrow> strategy_draft" where
  "strategy_to_draft s = \<lparr>sd_id = st_id s, sd_findings = st_findings s, sd_title = st_title s, sd_mechanism = st_mechanism s,
     sd_tradeoffs = st_tradeoffs s, sd_templates = st_templates s, sd_risk_ceiling = st_risk_ceiling s, sd_evidence = st_evidence s,
     sd_paths = map se_path (st_scope_entries s), sd_impacts = Some (st_impacts s), sd_tradeoff = Some (st_tradeoff s),
     sd_validation = Some (st_validation s), sd_rollback = Some (st_rollback s), sd_scope = Some (st_scope s), sd_risk = Some (st_risk s),
     sd_eligible = st_eligible s, sd_gate_reasons = st_gate_reasons s\<rparr>"

record command_candidate =
  vc_id :: string
  vc_display :: string
  vc_compose :: bool        \<comment> \<open>from the compose evaluations, otherwise from the repository\<close>
  vc_metrics :: "string list"

definition compose_candidate :: "string \<Rightarrow> compose_evaluation \<Rightarrow> command_candidate" where
  "compose_candidate file x =
     (let workdir = (case ce_directory x of None \<Rightarrow> [] | Some d \<Rightarrow> if d = [] then [] else '' --workdir '' @ d) in
      \<lparr>vc_id = ce_id x, vc_display = ''docker compose -f '' @ file @ '' exec'' @ workdir @ '' '' @ ce_service x @ '' '' @ join '' '' (ce_argv x),
       vc_compose = True, vc_metrics = sorted_set (ce_metrics x)\<rparr>)"

definition add_candidate :: "command_candidate \<Rightarrow> command_candidate dict \<Rightarrow> command_candidate dict" where
  "add_candidate c d =
     (case map_of d (vc_id c) of
        None \<Rightarrow> AList.update (vc_id c) c d
      | Some x \<Rightarrow> if vc_metrics x \<noteq> vc_metrics c then AList.update (vc_id c) (x\<lparr>vc_metrics := sorted_set (vc_metrics x @ vc_metrics c)\<rparr>) d else d)"

definition validation_candidates :: "optimization_request \<Rightarrow> repository_command list \<Rightarrow> command_candidate list" where
  "validation_candidates request commands =
     (let compose = (case req_execution request of None \<Rightarrow> [] | Some x \<Rightarrow> map (compose_candidate (cf_file x)) (cf_evaluations x));
          metrics = sorted_set (map cr_metric (req_criteria request) @ map gr_metric (req_guardrails request));
          repository = map (\<lambda>c. \<lparr>vc_id = cm_id c, vc_display = join '' '' (cm_argv c), vc_compose = False, vc_metrics = metrics\<rparr>) commands in
      map snd (fold add_candidate (compose @ repository) []))"

definition a3_strategy_key :: "string \<Rightarrow> int \<Rightarrow> string" where
  "a3_strategy_key cid n = cid @ '':A3.60:attempt'' @ str_int n @ '':'' @ a3_prompt_version"

definition generate_strategy_drafts :: "(model_request \<Rightarrow> ('w, a3_reply completion) io) \<Rightarrow> state \<Rightarrow> (string \<times> string) list \<Rightarrow> int \<Rightarrow>
    ('w, strategy_draft list \<times> int) io" where
  "generate_strategy_drafts ask st messages attempt =
     bindI (liftI (required_state_str st ''case_id'')) (\<lambda>cid.
     let request = \<lparr>mq_messages = messages, mq_key = a3_strategy_key cid attempt\<rparr> in
     bindI (ask request) (\<lambda>first.
     bindI (if co_valid first then retI (first, co_tokens first)
            else bindI (ask \<lparr>mq_messages = messages @ [(''user'', ''Reply again with only a valid tool call matching the schema.'')],
                     mq_key = mq_key request @ '':repair-1''\<rparr>) (\<lambda>second. retI (second, co_tokens first + co_tokens second))) (\<lambda>(result, tokens).
     case (if co_valid result then co_parsed result else None) of
       None \<Rightarrow> retI ([], tokens)
     | Some r \<Rightarrow> retI (List.map_filter (\<lambda>d. case d of Some x \<Rightarrow> if valid_strategy_draft x then Some x else None | None \<Rightarrow> None) (rl_strategies r), tokens))))"

definition handle_a3_60 :: "'w a3_env \<Rightarrow> state \<Rightarrow> 'w node_ports \<Rightarrow> ('w, node_execution) io" where
  "handle_a3_60 e st ports =
     (case an_model e of
        None \<Rightarrow> failI (RuntimeError ''A3.60 requires ModelProviderPort wired into NodePorts'')
      | Some ask \<Rightarrow>
          bindI (read_typed ports st ''FindingSet'' decode_findings) (\<lambda>(finding_ref, findings).
          bindI (read_request ports st) (\<lambda>request.
          bindI (read_typed ports st ''VerificationManifest'' decode_verification_manifest) (\<lambda>(_, commands).
          let n = revision_number st in
          bindI (latest_directive ports st) (\<lambda>directive.
          bindI (case directive of
                   Some d \<Rightarrow>
                     if 0 < n \<and> rd_strategies d \<noteq> [] then
                       bindI (read_stage ports st (a3_stage ''A3.80'' (n - 1)) ''SolutionStrategySet'' decode_strategies) (\<lambda>(_, previous).
                       retI (filter (\<lambda>f. fd_id (fn_draft f) \<in> set (rd_findings d)) (fs_findings findings),
                         map strategy_to_draft (filter (\<lambda>s. st_id s \<notin> set (rd_strategies d)) previous)))
                     else retI (fs_findings findings, [])
                 | None \<Rightarrow> retI (fs_findings findings, [])) (\<lambda>(eligible, carried).
          let candidates = validation_candidates request commands in
          bindI (generate_strategy_drafts ask st (an_strategy_prompt e eligible
                   (map (\<lambda>c. (vc_id c, vc_display c, vc_compose c, vc_metrics c)) candidates)) n) (\<lambda>(drafts, tokens).
          bindI (a3_seal_stage e ports st ''A3.60'' (a3_stage ''A3.60'' n) ''StrategyDraftSet'' [ref_digest finding_ref] True
                   (BStrategyDrafts (carried @ drafts))) (\<lambda>ref.
          retI (cont [(''artifact_refs'', VRefs [ref]), (''a3_model_tokens_spent'', VInt tokens)])))))))))"

section \<open>Assembling strategies\<close>

definition gate_draft :: "strategy_draft \<Rightarrow> string list \<Rightarrow> strategy_draft" where
  "gate_draft d reasons = d\<lparr>sd_gate_reasons := reasons, sd_eligible := (sd_eligible d \<and> reasons = [])\<rparr>"

definition order_phases :: "strategy_draft \<Rightarrow> strategy_draft" where
  "order_phases d =
     (let sequences = map tp_sequence (sd_templates d) in
      gate_draft d (sd_gate_reasons d @ (if sequences \<noteq> sort sequences \<or> length (remdups sequences) \<noteq> length sequences
        then [''phase_templates sequence numbers are not strictly ordered/unique''] else [])))"

definition assess_impacts :: "optimization_request \<Rightarrow> strategy_draft \<Rightarrow> strategy_draft" where
  "assess_impacts request d =
     (case sd_impacts d of
        Some _ \<Rightarrow> d
      | None \<Rightarrow> d\<lparr>sd_impacts := Some (map (\<lambda>c. \<lparr>ci_criterion = cr_id c, ci_direction = UnknownImpact, ci_confidence = 0\<rparr>) (req_criteria request))\<rparr>)"

definition default_tradeoff :: "strategy_draft \<Rightarrow> tradeoff_analysis" where
  "default_tradeoff d =
     (let phases = length (sd_templates d) in
      \<lparr>ta_pros = [sd_tradeoffs d], ta_cons = [''unvalidated until executed: '' @ take 200 (sd_mechanism d)],
       ta_prerequisites = map tp_id (filter (\<lambda>p. tp_kind p = Diagnostic) (sd_templates d)),
       ta_effort = (if phases \<le> 1 then LowEffort else if phases \<le> 3 then MediumEffort else HighEffort),
       ta_uncertainty = 1 / 2, ta_evidence = sd_evidence d\<rparr>)"

fun weigh_tradeoffs :: "string dict \<Rightarrow> strategy_draft list \<Rightarrow> strategy_draft list" where
  "weigh_tradeoffs seen [] = []"
| "weigh_tradeoffs seen (d # ds) =
     (let duplicate = map_of seen (sd_tradeoffs d);
          reasons = sd_gate_reasons d @ (case duplicate of Some other \<Rightarrow> [''strategy_tradeoffs text is identical to '' @ other] | None \<Rightarrow> []);
          seen' = (case duplicate of Some _ \<Rightarrow> seen | None \<Rightarrow> AList.update (sd_tradeoffs d) (sd_id d) seen);
          analysis = (case sd_tradeoff d of Some t \<Rightarrow> t | None \<Rightarrow> default_tradeoff d) in
      (gate_draft d reasons)\<lparr>sd_tradeoff := Some analysis\<rparr> # weigh_tradeoffs seen' ds)"

definition criterion_movement :: "criterion \<Rightarrow> movement" where
  "criterion_movement c = (case cr_direction c of
     Minimize \<Rightarrow> Decrease (cr_target c) (cr_unit c) | Maximize \<Rightarrow> Increase (cr_target c) (cr_unit c) | Target \<Rightarrow> MoveTo (cr_target c) (cr_unit c))"

definition expected_movements :: "optimization_request \<Rightarrow> movement dict" where
  "expected_movements request =
     fold (\<lambda>g d. if gr_metric g \<in> set (keys d) then d else AList.update (gr_metric g) (Remain (gr_operator g) (gr_threshold g) (gr_unit g)) d)
       (req_guardrails request)
       (fold (\<lambda>c d. AList.update (cr_metric c) (criterion_movement c) d) (req_criteria request) [])"

definition benchmark_protocol :: "command_candidate list \<Rightarrow> string" where
  "benchmark_protocol cs = ''rerun repository-owned validation commands via A2 worker protocol: '' @
     join ''; '' (map (\<lambda>c. vc_id c @ '' ['' @ (if vc_compose c then ''compose_evaluation'' else ''repository_command'') @ '']: '' @ vc_display c) cs)"

definition bound_stops :: "string list" where
  "bound_stops = [''any validation command exits nonzero'', ''any guardrail metric violates its declared threshold'']"

definition unbound_stops :: "string list" where
  "unbound_stops = [''no verification command available'']"

definition merge_movements :: "movement dict \<Rightarrow> movement dict \<Rightarrow> movement dict" where
  "merge_movements a b = fold (\<lambda>(k, v) d. AList.update k v d) b a"

definition bind_plan :: "command_candidate list \<Rightarrow> movement dict \<Rightarrow> validation_plan option \<Rightarrow> validation_plan \<times> string list" where
  "bind_plan candidates movements plan =
     (let ids = map vc_id candidates in
      case plan of
        None \<Rightarrow>
          if ids \<noteq> [] then (\<lparr>vp_commands = ids, vp_protocol = benchmark_protocol candidates, vp_movements = movements, vp_stop = bound_stops\<rparr>, [])
          else (\<lparr>vp_commands = [], vp_protocol = ''none available'', vp_movements = [], vp_stop = unbound_stops\<rparr>,
                [''no repository-owned verification command exists to bind a validation plan to''])
      | Some p \<Rightarrow>
          if vp_commands p = [] \<and> ids \<noteq> [] then
            (p\<lparr>vp_commands := ids,
               vp_protocol := (if vp_protocol p = ''none available'' then benchmark_protocol candidates else vp_protocol p),
               vp_movements := merge_movements movements (vp_movements p),
               vp_stop := (if vp_stop p \<noteq> unbound_stops then vp_stop p else bound_stops)\<rparr>, [])
          else
            (p\<lparr>vp_movements := vp_movements p @ filter (\<lambda>(k, _). k \<notin> set (keys (vp_movements p))) movements\<rparr>,
             let unknown = filter (\<lambda>i. i \<notin> set ids) (vp_commands p) in
             if unknown \<noteq> [] then [''validation plan references unknown command ids: '' @ join '', '' (sort unknown)] else []))"

definition git_revert_plan :: rollback_plan where
  "git_revert_plan = \<lparr>rp_mechanism = ''git revert <commit-sha-of-this-change>'',
     rp_verification = ''rerun validation_plan.test_command_ids and confirm baseline exit codes are unchanged'', rp_reversible = True\<rparr>"

definition bind_validation :: "command_candidate list \<Rightarrow> movement dict \<Rightarrow> strategy_draft \<Rightarrow> strategy_draft" where
  "bind_validation candidates movements d =
     (let (plan, reasons) = bind_plan candidates movements (sd_validation d) in
      (gate_draft d (sd_gate_reasons d @ reasons))
        \<lparr>sd_validation := Some plan, sd_rollback := Some (case sd_rollback d of Some r \<Rightarrow> r | None \<Rightarrow> git_revert_plan)\<rparr>)"

definition scope_of_paths :: "string list \<Rightarrow> string list \<Rightarrow> scope_resolution result" where
  "scope_of_paths known paths =
     (let entries = (if paths \<noteq> [] then map (\<lambda>p. \<lparr>se_path = p, se_kind = FileScope, se_exists = p \<in> set known, se_proposed = p \<notin> set known\<rparr>) paths
            else [\<lparr>se_path = ''<unspecified>'', se_kind = FileScope, se_exists = False, se_proposed = True\<rparr>]);
          x = \<lparr>sx_entries = entries, sx_resolved = list_all (\<lambda>e. se_exists e \<or> se_proposed e) entries\<rparr> in
      checked ''ScopeResolutionReport'' (valid_scope x) x)"

definition resolve_scope :: "string list \<Rightarrow> strategy_draft \<Rightarrow> strategy_draft result" where
  "resolve_scope known d =
     bindR (case sd_scope d of Some x \<Rightarrow> Inr x | None \<Rightarrow> scope_of_paths known (sd_paths d)) (\<lambda>x.
     Inr ((gate_draft d (sd_gate_reasons d))\<lparr>sd_scope := Some x\<rparr>))"

definition risk_sensitive_keywords :: "string list" where
  "risk_sensitive_keywords = [''migrations/'', ''auth'', ''secrets'', ''security'']"

definition sensitive_path :: "string \<Rightarrow> bool" where
  "sensitive_path p \<longleftrightarrow> list_ex (\<lambda>k. contains k (lower p)) risk_sensitive_keywords"

definition default_risk :: "strategy_draft \<Rightarrow> scope_resolution \<Rightarrow> rollback_plan \<Rightarrow> tradeoff_analysis \<Rightarrow> risk_assessment" where
  "default_risk d x r t =
     (let sensitive = list_ex (\<lambda>e. sensitive_path (se_path e)) (sx_entries x) in
      \<lparr>ra_tier = sd_risk_ceiling d, ra_reversibility = (if rp_reversible r then FastRev else SlowRev), ra_uncertainty = ta_uncertainty t,
       ra_migration = sensitive, ra_security = sensitive, ra_factors = (if sensitive then [''scope touches a sensitive path''] else [])\<rparr>)"

definition assess_risk :: "strategy_draft \<Rightarrow> solution_strategy list result" where
  "assess_risk d =
     (case (sd_impacts d, sd_tradeoff d, sd_validation d, sd_rollback d, sd_scope d) of
        (Some i, Some t, Some v, Some r, Some x) \<Rightarrow>
          let reasons = sd_gate_reasons d @ (if \<not> sx_resolved x then [''scope_resolution is not fully resolved''] else []);
              s = \<lparr>st_id = sd_id d, st_findings = sd_findings d, st_title = sd_title d, st_mechanism = sd_mechanism d, st_tradeoffs = sd_tradeoffs d,
                st_templates = sd_templates d, st_risk_ceiling = sd_risk_ceiling d,
                st_risk = (case sd_risk d of Some a \<Rightarrow> a | None \<Rightarrow> default_risk d x r t), st_impacts = i, st_tradeoff = t, st_validation = v,
                st_rollback = r, st_scope = x, st_evidence = sd_evidence d, st_eligible = (sd_eligible d \<and> reasons = []), st_gate_reasons = reasons\<rparr> in
          bindR (checked ''SolutionStrategy'' (valid_strategy s) s) (\<lambda>s. Inr [s])
      | _ \<Rightarrow> Inr [])"

section \<open>The nodes of a pass\<close>

definition publish_drafts :: "'w a3_env \<Rightarrow> 'w node_ports \<Rightarrow> state \<Rightarrow> string \<Rightarrow> string list \<Rightarrow> strategy_draft list \<Rightarrow> ('w, node_execution) io" where
  "publish_drafts e ports st node parents drafts =
     bindI (a3_seal_stage e ports st node (a3_stage node (revision_number st)) ''StrategyDraftSet'' parents True (BStrategyDrafts drafts)) (\<lambda>ref.
     retI (cont [(''artifact_refs'', VRefs [ref])]))"

definition read_drafts :: "'w node_ports \<Rightarrow> state \<Rightarrow> string \<Rightarrow> ('w, artifact_ref \<times> strategy_draft list) io" where
  "read_drafts ports st node = read_stage ports st (a3_stage node (revision_number st)) ''StrategyDraftSet'' decode_strategy_drafts"

definition handle_a3_61 :: "'w a3_env \<Rightarrow> state \<Rightarrow> 'w node_ports \<Rightarrow> ('w, node_execution) io" where
  "handle_a3_61 e st ports =
     bindI (read_drafts ports st ''A3.60'') (\<lambda>(ref, drafts).
     publish_drafts e ports st ''A3.61'' [ref_digest ref] (map order_phases drafts))"

definition handle_a3_62 :: "'w a3_env \<Rightarrow> state \<Rightarrow> 'w node_ports \<Rightarrow> ('w, node_execution) io" where
  "handle_a3_62 e st ports =
     bindI (read_drafts ports st ''A3.61'') (\<lambda>(ref, drafts).
     bindI (read_request ports st) (\<lambda>request.
     publish_drafts e ports st ''A3.62'' [ref_digest ref] (map (assess_impacts request) drafts)))"

definition handle_a3_63 :: "'w a3_env \<Rightarrow> state \<Rightarrow> 'w node_ports \<Rightarrow> ('w, node_execution) io" where
  "handle_a3_63 e st ports =
     bindI (read_drafts ports st ''A3.62'') (\<lambda>(ref, drafts).
     publish_drafts e ports st ''A3.63'' [ref_digest ref] (weigh_tradeoffs [] drafts))"

definition handle_a3_64 :: "'w a3_env \<Rightarrow> state \<Rightarrow> 'w node_ports \<Rightarrow> ('w, node_execution) io" where
  "handle_a3_64 e st ports =
     bindI (read_drafts ports st ''A3.63'') (\<lambda>(ref, drafts).
     bindI (read_typed ports st ''VerificationManifest'' decode_verification_manifest) (\<lambda>(manifest_ref, commands).
     bindI (read_typed ports st ''OptimizationRequest'' decode_request) (\<lambda>(request_ref, request).
     publish_drafts e ports st ''A3.64'' [ref_digest ref, ref_digest manifest_ref, ref_digest request_ref]
       (map (bind_validation (validation_candidates request commands) (expected_movements request)) drafts))))"

definition handle_a3_70 :: "'w a3_env \<Rightarrow> state \<Rightarrow> 'w node_ports \<Rightarrow> ('w, node_execution) io" where
  "handle_a3_70 e st ports =
     bindI (read_drafts ports st ''A3.64'') (\<lambda>(ref, drafts).
     bindI (read_typed ports st ''SourceSnapshot'' decode_snapshot) (\<lambda>(snapshot_ref, snapshot).
     bindI (liftI (mapR (resolve_scope (map fi_path (sn_files snapshot))) drafts)) (\<lambda>updated.
     publish_drafts e ports st ''A3.70'' [ref_digest ref, ref_digest snapshot_ref] updated)))"

definition handle_a3_80 :: "'w a3_env \<Rightarrow> state \<Rightarrow> 'w node_ports \<Rightarrow> ('w, node_execution) io" where
  "handle_a3_80 e st ports =
     bindI (read_drafts ports st ''A3.70'') (\<lambda>(ref, drafts).
     bindI (liftI (mapR assess_risk drafts)) (\<lambda>strategies.
     bindI (a3_seal_stage e ports st ''A3.80'' (a3_stage ''A3.80'' (revision_number st)) ''SolutionStrategySet'' [ref_digest ref] True
              (BStrategies (concat strategies))) (\<lambda>sref.
     retI (cont [(''artifact_refs'', VRefs [sref])]))))"

section \<open>The quality gate and the revision\<close>

definition gate_result :: "string \<Rightarrow> bool \<Rightarrow> string \<Rightarrow> quality_result" where
  "gate_result dimension ok text = \<lparr>qr_dimension = dimension, qr_passed = ok, qr_detail = Some text\<rparr>"

definition finding_gates :: "finding list \<Rightarrow> quality_result list" where
  "finding_gates fs = map (\<lambda>f. gate_result ''finding_has_evidence'' (fd_support (fn_draft f) \<noteq> []) (fd_id (fn_draft f))) fs"

definition strategy_gates :: "solution_strategy list \<Rightarrow> quality_result list" where
  "strategy_gates ss = map (\<lambda>s. gate_result ''strategy_eligible'' (st_eligible s)
     (st_id s @ '': '' @ (if st_gate_reasons s \<noteq> [] then join ''; '' (st_gate_reasons s) else ''ok''))) ss"

definition maturity_gates :: "finding list \<Rightarrow> quality_result list" where
  "maturity_gates fs = map (\<lambda>f. gate_result ''cause_maturity'' (fd_claim (fn_draft f) \<noteq> VerifiedCause \<or> fn_trust f = T4) (fd_id (fn_draft f))) fs"

definition portfolio_gates :: "solution_strategy list \<Rightarrow> quality_result list" where
  "portfolio_gates ss =
     (let eligible = filter st_eligible ss; different = length (remdups (map st_tradeoffs eligible)) = length eligible in
      [gate_result ''at_least_one_eligible_strategy'' (1 \<le> length eligible) (str_nat (length eligible) @ '' eligible of '' @ str_nat (length ss)),
       gate_result ''strategies_materially_different'' different (if different then ''ok'' else ''duplicate strategy_tradeoffs text'')])"

definition quality_report :: "artifact_ref \<Rightarrow> artifact_ref \<Rightarrow> finding list \<Rightarrow> solution_strategy list \<Rightarrow> a3_quality" where
  "quality_report finding_ref strategy_ref fs ss =
     \<lparr>aq_findings = ref_digest finding_ref, aq_portfolio = ref_digest strategy_ref,
      aq_passed = list_all qr_passed (finding_gates fs @ strategy_gates ss @ maturity_gates fs @ portfolio_gates ss),
      aq_finding_gates = finding_gates fs, aq_strategy_gates = strategy_gates ss, aq_maturity_gates = maturity_gates fs,
      aq_portfolio_gates = portfolio_gates ss\<rparr>"

definition tokens_spent :: "state \<Rightarrow> int" where
  "tokens_spent st = get_int st ''a3_model_tokens_spent''"

definition handle_a3_81 :: "'w a3_env \<Rightarrow> state \<Rightarrow> 'w node_ports \<Rightarrow> ('w, node_execution) io" where
  "handle_a3_81 e st ports =
     (let n = revision_number st in
      bindI (read_typed ports st ''FindingSet'' decode_findings) (\<lambda>(finding_ref, findings).
      bindI (read_stage ports st (a3_stage ''A3.80'' n) ''SolutionStrategySet'' decode_strategies) (\<lambda>(strategy_ref, strategies).
      bindI (read_request ports st) (\<lambda>request.
      let q = quality_report finding_ref strategy_ref (fs_findings findings) strategies in
      bindI (a3_seal_stage e ports st ''A3.81'' (a3_stage ''A3.81'' n) ''A3QualityReport'' [ref_digest finding_ref, ref_digest strategy_ref]
               (valid_a3_quality q) (BA3Quality q)) (\<lambda>ref.
      retI \<lparr>ex_route = (if aq_passed q then CONTINUE
               else if max_revision_attempts \<le> n \<or> req_tokens request \<le> tokens_spent st then REJECTED else REVISION),
            ex_updates = [(''artifact_refs'', VRefs [ref])]\<rparr>)))))"

definition handle_a3_82 :: "'w a3_env \<Rightarrow> state \<Rightarrow> 'w node_ports \<Rightarrow> ('w, node_execution) io" where
  "handle_a3_82 e st ports =
     (let n = revision_number st in
      bindI (read_stage ports st (a3_stage ''A3.80'' n) ''SolutionStrategySet'' decode_strategies) (\<lambda>(_, strategies).
      bindI (read_stage ports st (a3_stage ''A3.81'' n) ''A3QualityReport'' decode_a3_quality) (\<lambda>(quality_ref, _).
      bindI (read_request ports st) (\<lambda>request.
      let exhausted = max_revision_attempts \<le> n + 1 \<or> req_tokens request \<le> tokens_spent st;
          failed = filter (\<lambda>s. \<not> st_eligible s) strategies;
          stop = exhausted \<or> failed = [];
          d = \<lparr>rd_attempt = n + 1, rd_findings = (if stop then [] else sorted_set (concat (map st_findings failed))),
                rd_strategies = (if stop then [] else map st_id failed),
                rd_reason = (if \<not> stop then ''targeted revision of ineligible strategies''
                   else if exhausted then ''revision/token budget exhausted'' else ''quality gate failed with no targetable ineligible strategy'')\<rparr> in
      bindI (a3_seal_stage e ports st ''A3.82'' (a3_stage ''A3.82'' n) ''RevisionDirective'' [ref_digest quality_ref] (valid_directive d) (BDirective d)) (\<lambda>ref.
      retI \<lparr>ex_route = (if stop then REJECTED else CONTINUE),
            ex_updates = [(''artifact_refs'', VRefs [ref]), (''a3_revision_attempts'', VInt (n + 1))]\<rparr>)))))"

definition handle_a3_90 :: "'w a3_env \<Rightarrow> state \<Rightarrow> 'w node_ports \<Rightarrow> ('w, node_execution) io" where
  "handle_a3_90 e st ports =
     (let n = revision_number st in
      bindI (read_typed ports st ''FindingSet'' decode_findings) (\<lambda>(finding_ref, _).
      bindI (read_stage ports st (a3_stage ''A3.80'' n) ''SolutionStrategySet'' decode_strategies) (\<lambda>(strategy_ref, strategies).
      bindI (read_stage ports st (a3_stage ''A3.81'' n) ''A3QualityReport'' decode_a3_quality) (\<lambda>(quality_ref, _).
      bindI (a3_seal e ports st ''A3.90'' ''SolutionPortfolio'' [ref_digest finding_ref, ref_digest strategy_ref, ref_digest quality_ref]
               (strategies \<noteq> [] \<and> list_ex st_eligible strategies) (BPortfolio strategies (ref_digest finding_ref) (ref_digest quality_ref))) (\<lambda>ref.
      retI (cont [(''artifact_refs'', VRefs [ref]), (''solution_portfolio_ref'', VRef ref)]))))))"

section \<open>What the assembly admits\<close>

text \<open>The six nodes A3.61 to A3.80 in their order, on the drafts A3.60 sealed.\<close>

definition assemble :: "optimization_request \<Rightarrow> repository_command list \<Rightarrow> string list \<Rightarrow> strategy_draft list \<Rightarrow> solution_strategy list result" where
  "assemble request commands known drafts =
     bindR (mapR (resolve_scope known) (map (bind_validation (validation_candidates request commands) (expected_movements request))
              (weigh_tradeoffs [] (map (assess_impacts request) (map order_phases drafts))))) (\<lambda>scoped.
     bindR (mapR assess_risk scoped) (\<lambda>ss. Inr (concat ss)))"

definition admissible_draft :: "command_candidate list \<Rightarrow> strategy_draft list \<Rightarrow> strategy_draft \<Rightarrow> bool" where
  "admissible_draft candidates earlier d \<longleftrightarrow> sd_eligible d \<and> sd_gate_reasons d = [] \<and> sorted_wrt (<) (map tp_sequence (sd_templates d)) \<and>
     sd_tradeoffs d \<notin> sd_tradeoffs ` set earlier \<and>
     (case sd_validation d of None \<Rightarrow> candidates \<noteq> [] | Some p \<Rightarrow> set (vp_commands p) \<subseteq> vc_id ` set candidates) \<and>
     pred_option sx_resolved (sd_scope d)"

lemma gate_draft_sel [simp]:
  "sd_gate_reasons (gate_draft d rs) = rs" "sd_eligible (gate_draft d rs) \<longleftrightarrow> sd_eligible d \<and> rs = []"
  "sd_id (gate_draft d rs) = sd_id d" "sd_tradeoffs (gate_draft d rs) = sd_tradeoffs d" "sd_templates (gate_draft d rs) = sd_templates d"
  "sd_validation (gate_draft d rs) = sd_validation d" "sd_scope (gate_draft d rs) = sd_scope d" "sd_paths (gate_draft d rs) = sd_paths d"
  "sd_impacts (gate_draft d rs) = sd_impacts d" "sd_tradeoff (gate_draft d rs) = sd_tradeoff d" "sd_rollback (gate_draft d rs) = sd_rollback d"
  "sd_risk (gate_draft d rs) = sd_risk d"
  by (simp_all add: gate_draft_def)

lemma order_phases_sel [simp]:
  "sd_id (order_phases d) = sd_id d" "sd_tradeoffs (order_phases d) = sd_tradeoffs d" "sd_validation (order_phases d) = sd_validation d"
  "sd_scope (order_phases d) = sd_scope d" "sd_impacts (order_phases d) = sd_impacts d" "sd_risk (order_phases d) = sd_risk d"
  "sd_eligible (order_phases d) \<longleftrightarrow> sd_eligible d \<and> sd_gate_reasons (order_phases d) = []"
  by (simp_all add: order_phases_def Let_def)

lemma order_phases_reasons:
  "sd_gate_reasons (order_phases d) = [] \<longleftrightarrow> sd_gate_reasons d = [] \<and> sorted_wrt (<) (map tp_sequence (sd_templates d))"
proof -
  have "(xs = sort xs \<and> length (remdups xs) = length xs) \<longleftrightarrow> sorted_wrt (<) xs" for xs :: "int list"
  proof -
    have "xs = sort xs \<longleftrightarrow> sorted xs" using sorted_sort[of xs] sorted_sort_id[of xs] by argo
    then show ?thesis by (simp add: strict_sorted_iff remdups_id_iff_distinct)
  qed
  then show ?thesis by (auto simp: order_phases_def Let_def)
qed

lemma assess_impacts_sel [simp]:
  "sd_id (assess_impacts r d) = sd_id d" "sd_tradeoffs (assess_impacts r d) = sd_tradeoffs d" "sd_validation (assess_impacts r d) = sd_validation d"
  "sd_scope (assess_impacts r d) = sd_scope d" "sd_eligible (assess_impacts r d) = sd_eligible d" "sd_gate_reasons (assess_impacts r d) = sd_gate_reasons d"
  "sd_risk (assess_impacts r d) = sd_risk d" "sd_impacts (assess_impacts r d) \<noteq> None"
  by (simp_all add: assess_impacts_def split: option.splits)

lemma weigh_tradeoffs_length [simp]: "length (weigh_tradeoffs seen ds) = length ds"
  by (induction ds arbitrary: seen) (simp_all add: Let_def)

lemma weigh_tradeoffs_nth:
  assumes "i < length ds"
  shows "\<exists>rs t. weigh_tradeoffs seen ds ! i = (gate_draft (ds ! i) (sd_gate_reasons (ds ! i) @ rs))\<lparr>sd_tradeoff := Some t\<rparr> \<and>
    (rs = [] \<longleftrightarrow> sd_tradeoffs (ds ! i) \<notin> set (keys seen) \<union> sd_tradeoffs ` set (take i ds))"
  using assms
proof (induction ds arbitrary: seen i)
  case (Cons d ds)
  show ?case
  proof (cases i)
    case 0
    show ?thesis
    proof (cases "map_of seen (sd_tradeoffs d)")
      case None
      then have "sd_tradeoffs d \<notin> set (keys seen)" by (simp add: map_of_eq_None_iff)
      with None show ?thesis by (auto simp: 0 Let_def intro!: exI[of _ "[]"])
    next
      case (Some other)
      then have "sd_tradeoffs d \<in> set (keys seen)" by (force dest: map_of_SomeD)
      with Some show ?thesis by (auto simp: 0 Let_def intro!: exI[of _ "[''strategy_tradeoffs text is identical to '' @ other]"])
    qed
  next
    case (Suc j)
    then have j: "j < length ds" using Cons.prems by simp
    show ?thesis
    proof (cases "map_of seen (sd_tradeoffs d)")
      case None
      from Cons.IH[OF j, of "AList.update (sd_tradeoffs d) (sd_id d) seen"] obtain rs t where
        "weigh_tradeoffs (AList.update (sd_tradeoffs d) (sd_id d) seen) ds ! j = (gate_draft (ds ! j) (sd_gate_reasons (ds ! j) @ rs))\<lparr>sd_tradeoff := Some t\<rparr>"
        "rs = [] \<longleftrightarrow> sd_tradeoffs (ds ! j) \<notin> insert (sd_tradeoffs d) (fst ` set seen) \<union> sd_tradeoffs ` set (take j ds)"
        by (auto simp: dom_update)
      with None show ?thesis by (intro exI[of _ rs] exI[of _ t]) (simp add: Suc Let_def)
    next
      case (Some other)
      then have "sd_tradeoffs d \<in> fst ` set seen" by (force dest: map_of_SomeD)
      moreover from Cons.IH[OF j, of seen] obtain rs t where
        "weigh_tradeoffs seen ds ! j = (gate_draft (ds ! j) (sd_gate_reasons (ds ! j) @ rs))\<lparr>sd_tradeoff := Some t\<rparr>"
        "rs = [] \<longleftrightarrow> sd_tradeoffs (ds ! j) \<notin> set (keys seen) \<union> sd_tradeoffs ` set (take j ds)"
        by blast
      ultimately show ?thesis using Some by (intro exI[of _ rs] exI[of _ t], simp add: Suc Let_def, metis)
    qed
  qed
qed simp

lemma bind_validation_sel [simp]:
  "sd_id (bind_validation cs ms d) = sd_id d" "sd_tradeoffs (bind_validation cs ms d) = sd_tradeoffs d" "sd_scope (bind_validation cs ms d) = sd_scope d"
  "sd_impacts (bind_validation cs ms d) = sd_impacts d" "sd_tradeoff (bind_validation cs ms d) = sd_tradeoff d" "sd_risk (bind_validation cs ms d) = sd_risk d"
  "sd_validation (bind_validation cs ms d) = Some (fst (bind_plan cs ms (sd_validation d)))" "sd_rollback (bind_validation cs ms d) \<noteq> None"
  "sd_eligible (bind_validation cs ms d) \<longleftrightarrow> sd_eligible d \<and> sd_gate_reasons (bind_validation cs ms d) = []"
  "sd_gate_reasons (bind_validation cs ms d) = sd_gate_reasons d @ snd (bind_plan cs ms (sd_validation d))"
  by (simp_all add: bind_validation_def split: prod.splits)

lemma bind_plan_reasons:
  "snd (bind_plan cs ms plan) = [] \<longleftrightarrow> (case plan of None \<Rightarrow> cs \<noteq> [] | Some p \<Rightarrow> set (vp_commands p) \<subseteq> vc_id ` set cs)"
  by (auto simp: bind_plan_def Let_def filter_empty_conv split: option.splits)

lemma scope_of_paths_resolved: "scope_of_paths known paths = Inr x \<Longrightarrow> sx_resolved x"
  by (auto simp: scope_of_paths_def checked_def Let_def list_all_iff split: if_splits)

lemma resolve_scope_Inr:
  assumes "resolve_scope known d = Inr d'"
  shows "sd_id d' = sd_id d" "sd_tradeoffs d' = sd_tradeoffs d" "sd_gate_reasons d' = sd_gate_reasons d" "sd_impacts d' = sd_impacts d"
    "sd_tradeoff d' = sd_tradeoff d" "sd_validation d' = sd_validation d" "sd_rollback d' = sd_rollback d" "sd_risk d' = sd_risk d"
    "sd_eligible d' \<longleftrightarrow> sd_eligible d \<and> sd_gate_reasons d = []"
    "\<exists>x. sd_scope d' = Some x \<and> (sx_resolved x \<longleftrightarrow> pred_option sx_resolved (sd_scope d)) \<and> (sd_scope d \<noteq> None \<longrightarrow> sd_scope d = Some x)"
  using assms by (auto simp: resolve_scope_def bindR_Inr_iff scope_of_paths_resolved split: option.splits)

lemma assess_risk_Inr:
  assumes "assess_risk d = Inr ss" and "sd_impacts d \<noteq> None" "sd_tradeoff d \<noteq> None" "sd_validation d \<noteq> None" "sd_rollback d \<noteq> None"
    and "sd_scope d = Some x"
  obtains s where "ss = [s]" and "valid_strategy s" and "st_id s = sd_id d" and "st_tradeoffs s = sd_tradeoffs d" and "st_scope s = x"
    and "Some (st_validation s) = sd_validation d" and "\<And>a. sd_risk d = Some a \<Longrightarrow> st_risk s = a"
    and "st_eligible s \<longleftrightarrow> sd_eligible d \<and> sd_gate_reasons d = [] \<and> sx_resolved x"
  using assms(2-6) assms(1) by (auto simp: assess_risk_def bindR_Inr_iff checked_def Let_def split: if_splits option.splits)


lemma mapR_list_all2: "mapR f xs = Inr ys \<Longrightarrow> list_all2 (\<lambda>x y. f x = Inr y) xs ys"
  by (induction xs arbitrary: ys) (auto simp: bindR_Inr_iff)

text \<open>A draft through A3.61 to A3.64 has every part A3.80 asks for, and its gate reasons say whether it is admissible so far.\<close>

lemma bound_draft:
  fixes request commands ds
  defines "candidates \<equiv> validation_candidates request commands"
  defines "bound \<equiv> map (bind_validation candidates (expected_movements request)) (weigh_tradeoffs [] (map (assess_impacts request) (map order_phases ds)))"
  assumes "i < length ds"
  shows "sd_id (bound ! i) = sd_id (ds ! i)" "sd_tradeoffs (bound ! i) = sd_tradeoffs (ds ! i)" "sd_scope (bound ! i) = sd_scope (ds ! i)"
    "sd_impacts (bound ! i) \<noteq> None" "sd_tradeoff (bound ! i) \<noteq> None" "sd_validation (bound ! i) \<noteq> None" "sd_rollback (bound ! i) \<noteq> None"
    "sd_eligible (bound ! i) \<and> sd_gate_reasons (bound ! i) = [] \<and> pred_option sx_resolved (sd_scope (bound ! i)) \<longleftrightarrow>
      admissible_draft candidates (take i ds) (ds ! i)"
proof -
  let ?prepared = "map (assess_impacts request) (map order_phases ds)"
  obtain rs t where w: "weigh_tradeoffs [] ?prepared ! i = (gate_draft (?prepared ! i) (sd_gate_reasons (?prepared ! i) @ rs))\<lparr>sd_tradeoff := Some t\<rparr>"
    and rs: "rs = [] \<longleftrightarrow> sd_tradeoffs (?prepared ! i) \<notin> set (keys []) \<union> sd_tradeoffs ` set (take i ?prepared)"
    using weigh_tradeoffs_nth[of i ?prepared "[]"] assms(3) by auto
  have b: "bound ! i = bind_validation candidates (expected_movements request) (weigh_tradeoffs [] ?prepared ! i)"
    using assms(3) by (simp add: bound_def)
  have rs': "rs = [] \<longleftrightarrow> sd_tradeoffs (ds ! i) \<notin> sd_tradeoffs ` set (take i ds)"
    using rs assms(3) by (simp add: take_map image_image)
  show "sd_id (bound ! i) = sd_id (ds ! i)" "sd_tradeoffs (bound ! i) = sd_tradeoffs (ds ! i)" "sd_scope (bound ! i) = sd_scope (ds ! i)"
    "sd_impacts (bound ! i) \<noteq> None" "sd_tradeoff (bound ! i) \<noteq> None" "sd_validation (bound ! i) \<noteq> None" "sd_rollback (bound ! i) \<noteq> None"
    using assms(3) by (simp_all add: b w del: map_map)
  show "sd_eligible (bound ! i) \<and> sd_gate_reasons (bound ! i) = [] \<and> pred_option sx_resolved (sd_scope (bound ! i)) \<longleftrightarrow>
      admissible_draft candidates (take i ds) (ds ! i)"
    using assms(3) by (auto simp: b w rs' order_phases_reasons bind_plan_reasons admissible_draft_def simp del: map_map)
qed

lemma assemble_nth:
  assumes "assemble request commands known ds = Inr ss"
  shows "length ss = length ds" "i < length ds \<Longrightarrow> valid_strategy (ss ! i) \<and> st_id (ss ! i) = sd_id (ds ! i) \<and> st_tradeoffs (ss ! i) = sd_tradeoffs (ds ! i) \<and>
    (st_eligible (ss ! i) \<longleftrightarrow> admissible_draft (validation_candidates request commands) (take i ds) (ds ! i))"
proof -
  let ?bound = "map (bind_validation (validation_candidates request commands) (expected_movements request))
    (weigh_tradeoffs [] (map (assess_impacts request) (map order_phases ds)))"
  from assms obtain scoped sss where scoped: "list_all2 (\<lambda>d d'. resolve_scope known d = Inr d') ?bound scoped"
    and sss: "list_all2 (\<lambda>d s. assess_risk d = Inr s) scoped sss" and ss: "ss = concat sss"
    by (auto simp: assemble_def bindR_Inr_iff dest!: mapR_list_all2)
  let ?P = "\<lambda>i s. valid_strategy s \<and> st_id s = sd_id (ds ! i) \<and> st_tradeoffs s = sd_tradeoffs (ds ! i) \<and>
    (st_eligible s \<longleftrightarrow> admissible_draft (validation_candidates request commands) (take i ds) (ds ! i))"
  have len: "length sss = length ds" using scoped sss by (simp add: list_all2_conv_all_nth)
  have one: "\<exists>s. sss ! i = [s] \<and> ?P i s" if "i < length ds" for i
  proof -
    have i: "resolve_scope known (?bound ! i) = Inr (scoped ! i)" "assess_risk (scoped ! i) = Inr (sss ! i)"
      using scoped sss that len by (simp_all add: list_all2_conv_all_nth)
    note s = resolve_scope_Inr[OF i(1)] and b = bound_draft[OF that, of request commands]
    obtain x where x: "sd_scope (scoped ! i) = Some x" "sx_resolved x \<longleftrightarrow> pred_option sx_resolved (sd_scope (?bound ! i))" using s(10) by blast
    have parts: "sd_impacts (scoped ! i) \<noteq> None" "sd_tradeoff (scoped ! i) \<noteq> None" "sd_validation (scoped ! i) \<noteq> None" "sd_rollback (scoped ! i) \<noteq> None"
      unfolding s by (rule b)+
    have el: "sd_eligible (scoped ! i) \<and> sd_gate_reasons (scoped ! i) = [] \<and> sx_resolved x \<longleftrightarrow>
        admissible_draft (validation_candidates request commands) (take i ds) (ds ! i)" unfolding b(8)[symmetric] s x(2) by blast
    show ?thesis
      by (rule assess_risk_Inr[OF i(2) parts x(1)]) (metis s(1,2) b(1,2) el)
  qed
  then have hd: "sss ! i = [hd (sss ! i)] \<and> ?P i (hd (sss ! i))" if "i < length ds" for i using that by fastforce
  have "sss = map (\<lambda>i. [hd (sss ! i)]) [0..<length ds]" using hd len by (intro nth_equalityI) simp_all
  then have "ss = map (\<lambda>i. hd (sss ! i)) [0..<length ds]" unfolding ss by (metis concat_map_singleton)
  with hd show "length ss = length ds" "i < length ds \<Longrightarrow> ?P i (ss ! i)" by simp_all
qed

lemma distinct_admissible:
  assumes "\<And>i. i < length xs \<Longrightarrow> P (xs ! i) \<Longrightarrow> f (xs ! i) \<notin> f ` set (take i xs)"
  shows "distinct (map f (filter P xs))"
  using assms
proof (induction xs rule: rev_induct)
  case (snoc x xs)
  have "P x \<Longrightarrow> f x \<notin> f ` set xs" using snoc.prems[of "length xs"] by simp
  moreover have "distinct (map f (filter P xs))"
  proof (rule snoc.IH)
    fix i assume "i < length xs" "P (xs ! i)"
    then show "f (xs ! i) \<notin> f ` set (take i xs)" using snoc.prems[of i] by (simp add: nth_append)
  qed
  ultimately show ?case by auto
qed simp

text \<open>A draft the generator's reply may contain: it satisfies the contract, has a reason when it is not eligible, and names no empty path.\<close>

definition ready_draft :: "strategy_draft \<Rightarrow> bool" where
  "ready_draft d \<longleftrightarrow> valid_strategy_draft d \<and> (sd_eligible d \<or> sd_gate_reasons d \<noteq> []) \<and> [] \<notin> set (sd_paths d)"

lemma ready_gate: "ready_draft d \<Longrightarrow> ready_draft (gate_draft d (sd_gate_reasons d @ rs))"
  by (auto simp: ready_draft_def valid_strategy_draft_def gate_draft_def)

lemma ready_order: "ready_draft d \<Longrightarrow> ready_draft (order_phases d)"
  unfolding order_phases_def Let_def by (rule ready_gate)

lemma ready_impacts: "valid_request request \<Longrightarrow> ready_draft d \<Longrightarrow> ready_draft (assess_impacts request d)"
  by (auto simp: ready_draft_def valid_strategy_draft_def assess_impacts_def valid_impacts_def valid_impact_def list_all_iff valid_request_def
      valid_criterion_def len_in_def split: option.splits)

lemma ready_tradeoff: "ready_draft d \<Longrightarrow> valid_tradeoff t \<Longrightarrow> ready_draft (d\<lparr>sd_tradeoff := Some t\<rparr>)"
  by (simp add: ready_draft_def valid_strategy_draft_def)

lemma ready_weigh: "list_all ready_draft ds \<Longrightarrow> list_all ready_draft (weigh_tradeoffs seen ds)"
proof (induction ds arbitrary: seen)
  case (Cons d ds)
  then have "valid_tradeoff (case sd_tradeoff d of None \<Rightarrow> default_tradeoff d | Some t \<Rightarrow> t)"
    by (auto simp: ready_draft_def valid_strategy_draft_def default_tradeoff_def valid_tradeoff_def Let_def split: option.splits)
  with Cons show ?case by (simp add: Let_def ready_tradeoff ready_gate split: option.splits)
qed simp

lemma bind_plan_valid: "pred_option valid_validation p \<Longrightarrow> valid_validation (fst (bind_plan cs ms p))"
  by (auto simp: bind_plan_def valid_validation_def Let_def benchmark_protocol_def bound_stops_def unbound_stops_def split: option.splits)

lemma ready_bind:
  assumes "ready_draft d"
  shows "ready_draft (bind_validation cs ms d)"
proof -
  from assms have "valid_validation (fst (bind_plan cs ms (sd_validation d)))"
    by (simp add: ready_draft_def valid_strategy_draft_def bind_plan_valid)
  moreover have "valid_rollback_plan git_revert_plan" by (simp add: valid_rollback_plan_def git_revert_plan_def len_in_def)
  ultimately show ?thesis using ready_gate[OF assms, of "snd (bind_plan cs ms (sd_validation d))"]
    by (auto simp: ready_draft_def valid_strategy_draft_def bind_validation_def split: prod.splits option.splits)
qed

lemma ready_scope:
  assumes "ready_draft d"
  obtains d' where "resolve_scope known d = Inr d'" "ready_draft d'"
proof -
  have "\<exists>x. (case sd_scope d of None \<Rightarrow> scope_of_paths known (sd_paths d) | Some x \<Rightarrow> Inr x) = Inr x \<and> valid_scope x"
    using assms by (auto simp: ready_draft_def valid_strategy_draft_def scope_of_paths_def valid_scope_def checked_def Let_def list_all_iff split: option.splits)
  then show thesis using that ready_gate[OF assms, of "[]"]
    by (auto simp: resolve_scope_def ready_draft_def valid_strategy_draft_def)
qed

lemma ready_risk:
  assumes "ready_draft d" and "sd_impacts d \<noteq> None" "sd_tradeoff d \<noteq> None" "sd_validation d \<noteq> None" "sd_rollback d \<noteq> None" "sd_scope d \<noteq> None"
  shows "\<exists>s. assess_risk d = Inr [s]"
  using assms by (auto simp: assess_risk_def ready_draft_def valid_strategy_draft_def valid_strategy_def checked_def Let_def default_risk_def valid_risk_def
      valid_tradeoff_def split: option.splits)

lemma mapR_exists: "(\<And>x. x \<in> set xs \<Longrightarrow> \<exists>y. f x = Inr y) \<Longrightarrow> \<exists>ys. mapR f xs = Inr ys"
  by (induction xs) fastforce+

lemma assemble_total:
  assumes "valid_request request" and "list_all ready_draft ds"
  shows "\<exists>ss. assemble request commands known ds = Inr ss"
proof -
  let ?bound = "map (bind_validation (validation_candidates request commands) (expected_movements request))
    (weigh_tradeoffs [] (map (assess_impacts request) (map order_phases ds)))"
  have "list_all ready_draft (map (assess_impacts request) (map order_phases ds))"
    using assms by (simp add: list_all_iff ready_impacts ready_order)
  from ready_weigh[OF this, of "[]"] have ready: "list_all ready_draft ?bound" by (simp add: list_all_iff ready_bind)
  have scoped: "\<exists>d'. resolve_scope known d = Inr d' \<and> ready_draft d'" if "d \<in> set ?bound" for d
    using ready that by (metis ready_scope list_all_iff)
  then obtain ds' where ds': "mapR (resolve_scope known) ?bound = Inr ds'" using mapR_exists by metis
  note all = mapR_list_all2[OF ds']
  have "\<exists>s. assess_risk d = Inr s" if d: "d \<in> set ds'" for d
  proof -
    from d obtain i where i: "i < length ds'" "d = ds' ! i" by (auto simp: in_set_conv_nth)
    have len: "length ds' = length ds" using mapR_Inr_length[OF ds'] by simp
    have r: "resolve_scope known (?bound ! i) = Inr d" using all i by (simp add: list_all2_conv_all_nth)
    have b: "?bound ! i \<in> set ?bound" using i(1) len by (intro nth_mem) simp
    have "ready_draft d" using scoped[OF b] r by simp
    moreover have "i < length ds" using i(1) len by simp
    note bound_draft[OF this, of request commands]
    ultimately show ?thesis using ready_risk[of d] resolve_scope_Inr[OF r] by fastforce
  qed
  then obtain sss where "mapR assess_risk ds' = Inr sss" using mapR_exists by metis
  with ds' show ?thesis by (simp add: assemble_def)
qed

lemma read_typed_decoded:
  assumes "read_typed ports st ty decode w = (Inr (ref, x), w')"
  shows "\<exists>b. decode b = Inr x"
  using assms by (auto simp: read_typed_def read_model_def elim!: bindI_result_Inr split: blob.splits)

lemma decode_findings_valid: "decode_findings b = Inr fs \<Longrightarrow> valid_finding_set fs"
  by (cases b) (auto simp: decode_findings_def checked_def split: if_splits)

lemma strategy_gates_pass: "list_all qr_passed (strategy_gates ss) \<longleftrightarrow> list_all st_eligible ss"
  by (simp add: strategy_gates_def gate_result_def list_all_iff)

lemma portfolio_gates_pass:
  "list_all qr_passed (portfolio_gates ss) \<longleftrightarrow> list_ex st_eligible ss \<and> distinct (map st_tradeoffs (filter st_eligible ss))"
proof -
  have "length (remdups (map f xs)) = length xs \<longleftrightarrow> distinct (map f xs)" for f :: "solution_strategy \<Rightarrow> string" and xs
    by (metis length_map length_remdups_eq remdups_id_iff_distinct)
  then show ?thesis by (auto simp: portfolio_gates_def gate_result_def Let_def Suc_le_eq list_ex_iff filter_empty_conv)
qed

text \<open>C13. The quality gate A3.81 on strategies assembled from the generator's drafts. Assembly loses and reorders nothing; the case
  continues exactly when there is a draft and every draft is admissible: strictly increasing phases, trade-offs no earlier draft has, a
  validation plan that only names repository commands (none of its own and no command at all is a failure), a resolved scope where the
  draft brought one. Otherwise the case is revised, or rejected once the attempts or the token budget are spent. The gates on the
  findings never decide: a finding set that can be read passes them all.\<close>

theorem quality_gate_exact:
  assumes "handle_a3_81 e st ports w = (Inr ex, w')"
    and "read_typed ports st ''FindingSet'' decode_findings w = (Inr (finding_ref, fs), w1)"
    and "read_stage ports st (a3_stage ''A3.80'' (revision_number st)) ''SolutionStrategySet'' decode_strategies w1 = (Inr (strategy_ref, ss), w2)"
    and "read_request ports st w2 = (Inr request, w3)"
    and "assemble request commands known drafts = Inr ss"
  shows "map st_id ss = map sd_id drafts \<and>
    ex_route ex = (if drafts \<noteq> [] \<and> (\<forall>i<length drafts. admissible_draft (validation_candidates request commands) (take i drafts) (drafts ! i)) then CONTINUE
      else if max_revision_attempts \<le> revision_number st \<or> req_tokens request \<le> tokens_spent st then REJECTED else REVISION)"
proof -
  let ?q = "quality_report finding_ref strategy_ref (fs_findings fs) ss" and ?n = "revision_number st"
  have len: "length ss = length drafts" by (rule assemble_nth(1)[OF assms(5)])
  note nth = assemble_nth(2)[OF assms(5)]
  have ids: "map st_id ss = map sd_id drafts" using len nth by (intro nth_equalityI) auto
  from read_typed_decoded[OF assms(2)] have "valid_finding_set fs" by (auto dest: decode_findings_valid)
  then have "list_all qr_passed (finding_gates (fs_findings fs) @ maturity_gates (fs_findings fs))"
    by (auto simp: finding_gates_def maturity_gates_def gate_result_def valid_finding_set_def valid_finding_def valid_finding_draft_def list_all_iff)
  moreover have "distinct (map st_tradeoffs (filter st_eligible ss))"
  proof (rule distinct_admissible)
    fix i assume "i < length ss" "st_eligible (ss ! i)"
    then have "sd_tradeoffs (drafts ! i) \<notin> sd_tradeoffs ` set (take i drafts)" "i < length drafts" using nth[of i] len by (auto simp: admissible_draft_def)
    moreover have "map st_tradeoffs ss = map sd_tradeoffs drafts" using len nth by (intro nth_equalityI) auto
    then have "st_tradeoffs ` set (take i ss) = sd_tradeoffs ` set (take i drafts)" by (metis list.set_map take_map)
    ultimately show "st_tradeoffs (ss ! i) \<notin> st_tradeoffs ` set (take i ss)" using nth[of i] by simp
  qed
  ultimately have "aq_passed ?q \<longleftrightarrow> ss \<noteq> [] \<and> list_all st_eligible ss" using strategy_gates_pass[of ss] portfolio_gates_pass[of ss]
    by (cases ss) (auto simp: quality_report_def)
  then have "aq_passed ?q \<longleftrightarrow> drafts \<noteq> [] \<and> (\<forall>i<length drafts. admissible_draft (validation_candidates request commands) (take i drafts) (drafts ! i))"
    using len nth by (auto simp: list_all_length)
  moreover have "ex_route ex = (if aq_passed ?q then CONTINUE
      else if max_revision_attempts \<le> ?n \<or> req_tokens request \<le> tokens_spent st then REJECTED else REVISION)"
    using assms(1-4) unfolding handle_a3_81_def by (auto simp: bindI_Inr Let_def elim!: bindI_result_Inr)
  ultimately show ?thesis using ids by argo
qed

text \<open>The generator may assess itself: a draft that brings its own scope, risk and validation plan is taken as it is. The plan need
  not run anything and the files of its scope need not exist: with no validation command in the repository, where a draft without a
  plan is refused, it becomes an eligible strategy with the generator's own risk and an empty list of commands.\<close>

theorem generator_assesses_itself:
  assumes "valid_request request" and "ready_draft d" and "sd_eligible d" and "sd_gate_reasons d = []"
    and "sorted_wrt (<) (map tp_sequence (sd_templates d))" and "sd_scope d = Some x" and "sx_resolved x"
    and "sd_validation d = Some p" and "vp_commands p = []" and "sd_risk d = Some a" and "validation_candidates request commands = []"
  shows "\<exists>s. assemble request commands known [d] = Inr [s] \<and> st_eligible s \<and> st_scope s = x \<and> st_risk s = a \<and> vp_commands (st_validation s) = [] \<and>
    (\<forall>ss. assemble request commands known [d\<lparr>sd_validation := None\<rparr>] = Inr ss \<longrightarrow> \<not> list_ex st_eligible ss)"
proof -
  from assemble_total[OF assms(1), of "[d]"] assms(2) obtain ss where ss: "assemble request commands known [d] = Inr ss" by auto
  from assemble_nth(1)[OF ss] obtain s where s: "ss = [s]" by (cases ss) auto
  have "admissible_draft [] [] d" using assms by (simp add: admissible_draft_def)
  then have el: "st_eligible s" using assemble_nth(2)[OF ss, of 0] s assms(11) by simp
  have parts: "st_scope s = x \<and> st_risk s = a \<and> vp_commands (st_validation s) = []"
    using ss assms(6,8-10) unfolding s assemble_def assms(11)
    by (auto simp: bindR_Inr_iff Let_def resolve_scope_def assess_risk_def checked_def bind_plan_def split: option.splits if_splits)
  have "\<not> list_ex st_eligible ss'" if "assemble request commands known [d\<lparr>sd_validation := None\<rparr>] = Inr ss'" for ss'
    using assemble_nth[OF that] assms(11) by (cases ss') (auto simp: admissible_draft_def)
  with ss s el parts show ?thesis by blast
qed

text \<open>A draft that brings its own scope, risk and an empty validation plan, and the state in which A3.81 judges what becomes of it.\<close>

definition demo_strategy_draft :: strategy_draft where
  "demo_strategy_draft = (strategy_to_draft demo_strategy)\<lparr>sd_validation := Some \<lparr>vp_commands = [], vp_protocol = ''none'', vp_movements = [], vp_stop = [''never'']\<rparr>\<rparr>"

definition demo_finding_set :: finding_set where
  "demo_finding_set = \<lparr>fs_bundle = rep_digest CHR ''a'', fs_findings = [\<lparr>fn_draft = demo_finding_draft\<lparr>fd_claim := Hypothesis\<rparr>, fn_trust = T1,
     fn_judgement = demo_judgement\<rparr>], fs_observations = [], fs_reports = [], fs_gaps = []\<rparr>"

definition a3_gate_state :: state where
  "a3_gate_state = (demo_s06 KEEP)(''artifact_refs'' \<mapsto> VRefs [digest_ref CHR ''b'' ''FindingSet'' ''c-FindingSet'',
     digest_ref CHR ''c'' ''SolutionStrategySet'' ''c-A3.80-pass0-SolutionStrategySet'', demo_ref ''OptimizationRequest'' ''c-OptimizationRequest''])"

definition a3_gate_ports :: "solution_strategy list \<Rightarrow> world node_ports" where
  "a3_gate_ports ss = (demo_ports None)\<lparr>np_read := \<lambda>_ r.
     if ref_type r = ''FindingSet'' then retI (demo_env ''FindingSet'' (BFindings demo_finding_set))
     else if ref_type r = ''SolutionStrategySet'' then retI (demo_env ''SolutionStrategySet'' (BStrategies ss))
     else retI (demo_env ''OptimizationRequest'' (BRequest demo_request))\<rparr>"

lemma demo_draft_ready: "ready_draft demo_strategy_draft"
  using demo_strategy_valid
  by (simp add: ready_draft_def valid_strategy_draft_def valid_strategy_def demo_strategy_draft_def strategy_to_draft_def valid_validation_def)
    (simp add: demo_strategy_def)

lemma demo_no_candidates: "validation_candidates demo_request [] = []"
  by (simp add: validation_candidates_def demo_request_def)

lemma demo_draft_parts:
  "sd_eligible demo_strategy_draft" "sd_gate_reasons demo_strategy_draft = []" "sorted_wrt (<) (map tp_sequence (sd_templates demo_strategy_draft))"
  "sd_scope demo_strategy_draft = Some (st_scope demo_strategy)" "sx_resolved (st_scope demo_strategy)" "sd_risk demo_strategy_draft = Some (st_risk demo_strategy)"
  "sd_validation demo_strategy_draft = Some \<lparr>vp_commands = [], vp_protocol = ''none'', vp_movements = [], vp_stop = [''never'']\<rparr>"
  "sd_id demo_strategy_draft = ''cache''"
  by (simp_all add: demo_strategy_draft_def strategy_to_draft_def demo_strategy_def)

lemma demo_draft_admissible: "admissible_draft [] [] demo_strategy_draft"
  by (simp add: admissible_draft_def demo_draft_parts)

lemma a3_gate_state_sel [simp]:
  "required_state_str a3_gate_state ''case_id'' = Inr ''c''" "required_state_str a3_gate_state ''tenant_id'' = Inr ''t''" "revision_number a3_gate_state = 0"
  "require_ref a3_gate_state ''FindingSet'' = Inr (digest_ref CHR ''b'' ''FindingSet'' ''c-FindingSet'')"
  "require_ref a3_gate_state ''OptimizationRequest'' = Inr (demo_ref ''OptimizationRequest'' ''c-OptimizationRequest'')"
  by (simp_all add: a3_gate_state_def demo_s06_def required_state_str_def get_str_def revision_number_def get_int_def require_ref_def try_ref_def get_refs_def)

lemma a3_gate_stage: "require_stage_ref a3_gate_state (a3_stage ''A3.80'' 0) ''SolutionStrategySet'' =
    Inr (digest_ref CHR ''c'' ''SolutionStrategySet'' ''c-A3.80-pass0-SolutionStrategySet'')"
  by (simp add: require_stage_ref_def stage_artifact_id_def a3_stage_def) (simp add: a3_gate_state_def get_refs_def)

lemma demo_findings_valid: "valid_finding_set demo_finding_set"
  using a3_demo_valid by (simp add: valid_finding_set_def demo_finding_set_def demo_digest_valid valid_finding_def valid_finding_draft_def)

lemma a3_gate_reads:
  "read_typed (a3_gate_ports ss) a3_gate_state ''FindingSet'' decode_findings w =
     (Inr (digest_ref CHR ''b'' ''FindingSet'' ''c-FindingSet'', demo_finding_set), w)"
  "list_all valid_strategy ss \<Longrightarrow> read_stage (a3_gate_ports ss) a3_gate_state (a3_stage ''A3.80'' (revision_number a3_gate_state)) ''SolutionStrategySet'' decode_strategies w =
     (Inr (digest_ref CHR ''c'' ''SolutionStrategySet'' ''c-A3.80-pass0-SolutionStrategySet'', ss), w)"
  "read_request (a3_gate_ports ss) a3_gate_state w = (Inr demo_request, w)"
  by (simp_all add: read_typed_def read_stage_def read_request_def read_model_def a3_gate_ports_def demo_env_def decode_findings_def decode_strategies_def
      decode_request_def checked_def demo_findings_valid demo_request_valid a3_gate_stage bindI_def)

lemma a3_gate_runs:
  assumes "list_all valid_strategy ss"
  shows "\<exists>ex. handle_a3_81 demo_a3 a3_gate_state (a3_gate_ports ss) demo_world = (Inr ex, demo_world)"
proof -
  let ?q = "quality_report (digest_ref CHR ''b'' ''FindingSet'' ''c-FindingSet'') (digest_ref CHR ''c'' ''SolutionStrategySet'' ''c-A3.80-pass0-SolutionStrategySet'')
    (fs_findings demo_finding_set) ss"
  have "valid_a3_quality ?q" by (simp add: valid_a3_quality_def quality_report_def portfolio_gates_def Let_def valid_rep_digest hex_digit_def)
  then have "\<exists>ref. a3_seal_stage demo_a3 (a3_gate_ports ss) a3_gate_state ''A3.81'' (a3_stage ''A3.81'' 0) ''A3QualityReport''
      [rep_digest CHR ''b'', rep_digest CHR ''c''] (valid_a3_quality ?q) (BA3Quality ?q) demo_world = (Inr ref, demo_world)"
    using rep_digest_parent
    by (simp add: a3_seal_stage_def seal_envelope_def stage_envelope_def stage_artifact_id_def a3_stage_def valid_envelope_def len_in_def s06_put_envelope_def
        a3_gate_ports_def demo_ports_def mk_ref_def valid_ref_def demo_ref_def demo_digest_valid demo_a3_def Let_def bindI_def)
  then show ?thesis
    using a3_gate_reads(2)[OF assms, of demo_world] by (auto simp: handle_a3_81_def bindI_Inr a3_gate_reads(1,3) Let_def)
qed

theorem quality_gate_exact_witness:
  "\<exists>ss ex. assemble demo_request [] [] [demo_strategy_draft] = Inr ss \<and>
     handle_a3_81 demo_a3 a3_gate_state (a3_gate_ports ss) demo_world = (Inr ex, demo_world) \<and> ex_route ex = CONTINUE"
proof -
  obtain ss where ss: "assemble demo_request [] [] [demo_strategy_draft] = Inr ss"
    using assemble_total[OF demo_request_valid, of "[demo_strategy_draft]"] demo_draft_ready by auto
  have "list_all valid_strategy ss" using assemble_nth[OF ss] by (auto simp: list_all_length)
  moreover obtain ex where h: "handle_a3_81 demo_a3 a3_gate_state (a3_gate_ports ss) demo_world = (Inr ex, demo_world)"
    using a3_gate_runs[OF calculation] by blast
  ultimately have "ex_route ex = CONTINUE"
    using quality_gate_exact[OF h a3_gate_reads(1) _ a3_gate_reads(3) ss] a3_gate_reads(2) by (simp add: demo_no_candidates demo_draft_admissible)
  with ss h show ?thesis by blast
qed

theorem generator_assesses_itself_witness:
  "\<exists>s. assemble demo_request [] [] [demo_strategy_draft] = Inr [s] \<and> st_eligible s \<and> vp_commands (st_validation s) = []"
  using generator_assesses_itself[OF demo_request_valid demo_draft_ready demo_draft_parts(1-5) demo_draft_parts(7) _ demo_draft_parts(6) demo_no_candidates]
  by auto

end
