(* ===== verification/Analysis_Loop.thy ===== *)
theory Analysis_Loop
  imports Workflow Strategies
begin

text \<open>
  Stage A3 as a state machine: the handlers of the theories Analysis and Strategies, the commit of the runtime and the edges
  of the graph. The revision that A3.82 starts is bounded by the counter \<open>a3_revision_attempts\<close>, which only A3.82 writes.
\<close>

definition a3_handlers :: "'w a3_env \<Rightarrow> 'w handlers" where
  "a3_handlers e = map_of
     [(''A3.10'', handle_a3_10 e), (''A3.11'', handle_a3_11 e), (''A3.20'', handle_a3_20 e), (''A3.21'', handle_a3_21 e),
      (''A3.30'', handle_a3_30 e), (''A3.31'', handle_a3_31 e), (''A3.32'', handle_a3_32 e), (''A3.33'', handle_a3_33 e),
      (''A3.40'', handle_a3_40 e), (''A3.41'', handle_a3_41 e), (''A3.50'', handle_a3_50 e), (''A3.51'', handle_a3_51 e),
      (''A3.60'', handle_a3_60 e), (''A3.61'', handle_a3_61 e), (''A3.62'', handle_a3_62 e), (''A3.63'', handle_a3_63 e),
      (''A3.64'', handle_a3_64 e), (''A3.70'', handle_a3_70 e), (''A3.80'', handle_a3_80 e), (''A3.81'', handle_a3_81 e),
      (''A3.82'', handle_a3_82 e), (''A3.90'', handle_a3_90 e)]"

definition a3_step :: "'w a3_env \<Rightarrow> 'w node_ports \<Rightarrow> string \<times> state \<Rightarrow> string \<times> state \<Rightarrow> bool" where
  "a3_step e ports c c' \<longleftrightarrow> routes_ok (snd c) \<and> stage_step (a3_handlers e) ports build_a3_graph c c'"

definition a3_retry :: "string \<times> state \<Rightarrow> string \<times> state \<Rightarrow> bool" where
  "a3_retry c c' \<longleftrightarrow> fst c = ''A3.82'' \<and> fst c' = ''A3.60''"

text \<open>What the nodes write: new artifacts, the tokens of a model call, the reference to the portfolio.\<close>

definition a3_plain_updates :: "string list set" where
  "a3_plain_updates = {[], [''artifact_refs''], [''artifact_refs'', ''a3_model_tokens_spent''], [''artifact_refs'', ''solution_portfolio_ref'']}"

lemma a3_finding_updates:
  "handle_a3_10 e st ports w = (Inr ex, w') \<Longrightarrow> keys (ex_updates ex) \<in> a3_plain_updates"
  "handle_a3_11 e st ports w = (Inr ex, w') \<Longrightarrow> keys (ex_updates ex) \<in> a3_plain_updates"
  "handle_a3_20 e st ports w = (Inr ex, w') \<Longrightarrow> keys (ex_updates ex) \<in> a3_plain_updates"
  "handle_a3_21 e st ports w = (Inr ex, w') \<Longrightarrow> keys (ex_updates ex) \<in> a3_plain_updates"
  "handle_a3_32 e st ports w = (Inr ex, w') \<Longrightarrow> keys (ex_updates ex) \<in> a3_plain_updates"
  "handle_a3_33 e st ports w = (Inr ex, w') \<Longrightarrow> keys (ex_updates ex) \<in> a3_plain_updates"
  "handle_a3_40 e st ports w = (Inr ex, w') \<Longrightarrow> keys (ex_updates ex) \<in> a3_plain_updates"
  "handle_a3_41 e st ports w = (Inr ex, w') \<Longrightarrow> keys (ex_updates ex) \<in> a3_plain_updates"
  "handle_a3_50 e st ports w = (Inr ex, w') \<Longrightarrow> keys (ex_updates ex) \<in> a3_plain_updates"
  "handle_a3_51 e st ports w = (Inr ex, w') \<Longrightarrow> keys (ex_updates ex) \<in> a3_plain_updates"
  unfolding a3_plain_updates_def
  by (auto simp: handle_a3_10_def handle_a3_11_def handle_a3_20_def handle_a3_21_def handle_a3_32_def handle_a3_33_def handle_a3_40_def handle_a3_41_def
      handle_a3_50_def handle_a3_51_def publish_findings_def seal_branch_def Let_def cont_def elim!: bindI_result_Inr split: option.splits if_splits)

lemma analyze_source_updates:
  "analyze_source e st ports node source observe w = (Inr ex, w') \<Longrightarrow> keys (ex_updates ex) \<in> a3_plain_updates"
  unfolding a3_plain_updates_def
  by (auto simp: analyze_source_def seal_branch_def Let_def cont_def elim!: bindI_result_Inr split: prod.splits)

lemma a3_strategy_updates:
  "handle_a3_60 e st ports w = (Inr ex, w') \<Longrightarrow> keys (ex_updates ex) \<in> a3_plain_updates"
  "publish_drafts e ports st node parents ds w = (Inr ex, w') \<Longrightarrow> keys (ex_updates ex) \<in> a3_plain_updates"
  "handle_a3_80 e st ports w = (Inr ex, w') \<Longrightarrow> keys (ex_updates ex) \<in> a3_plain_updates"
  "handle_a3_81 e st ports w = (Inr ex, w') \<Longrightarrow> keys (ex_updates ex) \<in> a3_plain_updates"
  "handle_a3_90 e st ports w = (Inr ex, w') \<Longrightarrow> keys (ex_updates ex) \<in> a3_plain_updates"
  unfolding a3_plain_updates_def
  by (auto simp: handle_a3_60_def publish_drafts_def handle_a3_80_def handle_a3_81_def handle_a3_90_def Let_def cont_def
      elim!: bindI_result_Inr split: option.splits)

lemma a3_assembly_updates:
  "handle_a3_61 e st ports w = (Inr ex, w') \<Longrightarrow> keys (ex_updates ex) \<in> a3_plain_updates"
  "handle_a3_62 e st ports w = (Inr ex, w') \<Longrightarrow> keys (ex_updates ex) \<in> a3_plain_updates"
  "handle_a3_63 e st ports w = (Inr ex, w') \<Longrightarrow> keys (ex_updates ex) \<in> a3_plain_updates"
  "handle_a3_64 e st ports w = (Inr ex, w') \<Longrightarrow> keys (ex_updates ex) \<in> a3_plain_updates"
  "handle_a3_70 e st ports w = (Inr ex, w') \<Longrightarrow> keys (ex_updates ex) \<in> a3_plain_updates"
  by (auto simp: handle_a3_61_def handle_a3_62_def handle_a3_63_def handle_a3_64_def handle_a3_70_def
      elim!: bindI_result_Inr dest: a3_strategy_updates(2))

lemma a3_handlers_updates:
  assumes "a3_handlers e n = Some h" and "n \<noteq> ''A3.82''" and "h st ports w = (Inr ex, w')"
  shows "keys (ex_updates ex) \<in> a3_plain_updates"
  using assms
  by (auto simp: a3_handlers_def handle_a3_30_def handle_a3_31_def split: if_splits
      dest: a3_finding_updates analyze_source_updates a3_strategy_updates a3_assembly_updates)

lemma a3_handlers_dom: "a3_handlers e n = Some h \<Longrightarrow> n \<in> set a3_node_ids"
  by (auto simp: a3_handlers_def a3_node_ids_def split: if_splits)

lemma a3_other_step:
  assumes "a3_handlers e n = Some h" and "n \<noteq> ''A3.82''" and "h st ports w = (Inr ex, w')"
    and "apply_updates st (commit n ex st) = Inr st'" and "routes_ok st"
  shows "revision_number st' = revision_number st" and "routes_ok st'"
proof -
  have k: "distinct (keys (ex_updates ex))" "''a3_revision_attempts'' \<notin> set (keys (ex_updates ex))"
    using a3_handlers_updates[OF assms(1-3)] by (auto simp: a3_plain_updates_def simp del: set_map)
  then show "revision_number st' = revision_number st"
    using commit_field(1)[OF assms(4), of "''a3_revision_attempts''"] by (simp add: revision_number_def get_int_def)
  have "CHR ''#'' \<notin> set n" using a3_handlers_dom[OF assms(1)] by (auto simp: a3_node_ids_def)
  then show "routes_ok st'" using commit_route(1)[OF assms(4) k(1) assms(5)] by simp
qed

lemma a3_82_step:
  assumes "handle_a3_82 e st ports w = (Inr ex, w')" and "apply_updates st (commit ''A3.82'' ex st) = Inr st'" and "routes_ok st"
  shows "revision_number st' = revision_number st + 1" and "routes_ok st'"
    and "route_for ''A3.82'' st' = ''continue'' \<Longrightarrow> revision_number st < max_revision_attempts - 1"
proof -
  from assms(1) obtain ref where u: "ex_updates ex = [(''artifact_refs'', VRefs [ref]), (''a3_revision_attempts'', VInt (revision_number st + 1))]"
    and r: "ex_route ex = CONTINUE \<Longrightarrow> revision_number st < max_revision_attempts - 1" and two: "ex_route ex \<in> {CONTINUE, REJECTED}"
    by (auto simp: handle_a3_82_def Let_def elim!: bindI_result_Inr split: if_splits)
  have d: "distinct (keys (ex_updates ex))" by (simp add: u)
  from commit_field(2)[OF assms(2) d, of "''a3_revision_attempts''"] show "revision_number st' = revision_number st + 1"
    by (auto simp: u reduce_field_def summed_list_fields_def revision_number_def get_int_def)
  from commit_route[OF assms(2) d assms(3)] show "routes_ok st'" by simp
  from commit_route(2)[OF assms(2) d assms(3)] r two
  show "route_for ''A3.82'' st' = ''continue'' \<Longrightarrow> revision_number st < max_revision_attempts - 1" by auto
qed

section \<open>The edges of the graph\<close>

lemma a3_plain_targets:
  "edge_targets build_a3_graph ''A3.10'' st = Inr [''A3.11'']" "edge_targets build_a3_graph ''A3.11'' st = Inr [''A3.20'']"
  "edge_targets build_a3_graph ''A3.20'' st = Inr [''A3.21'']" "edge_targets build_a3_graph ''A3.21'' st = Inr [''A3.30'', ''A3.31'', ''A3.32'', ''A3.33'']"
  "edge_targets build_a3_graph ''A3.30'' st = Inr []" "edge_targets build_a3_graph ''A3.31'' st = Inr []"
  "edge_targets build_a3_graph ''A3.32'' st = Inr []" "edge_targets build_a3_graph ''A3.33'' st = Inr []"
  "edge_targets build_a3_graph ''A3.40'' st = Inr [''A3.41'']" "edge_targets build_a3_graph ''A3.41'' st = Inr [''A3.50'']"
  "edge_targets build_a3_graph ''A3.50'' st = Inr [''A3.51'']" "edge_targets build_a3_graph ''A3.60'' st = Inr [''A3.61'']"
  "edge_targets build_a3_graph ''A3.61'' st = Inr [''A3.62'']" "edge_targets build_a3_graph ''A3.62'' st = Inr [''A3.63'']"
  "edge_targets build_a3_graph ''A3.63'' st = Inr [''A3.64'']" "edge_targets build_a3_graph ''A3.64'' st = Inr [''A3.70'']"
  "edge_targets build_a3_graph ''A3.70'' st = Inr [''A3.80'']" "edge_targets build_a3_graph ''A3.80'' st = Inr [''A3.81'']"
  "edge_targets build_a3_graph ''A3.90'' st = Inr [END]"
  by (simp_all add: edge_targets_def build_a3_graph_def builder_defs a3_node_ids_def a3_fan_out_def START_def END_def)

lemma a3_routed_targets:
  "edge_targets build_a3_graph ''A3.51'' st = bindR (path_target [(''continue'', ''A3.60''), (''rejected'', END)] (route_for ''A3.51'' st)) (\<lambda>t. Inr [t])"
  "edge_targets build_a3_graph ''A3.81'' st = bindR (path_target [(''continue'', ''A3.90''), (''revision'', ''A3.82''), (''rejected'', END)]
     (route_for ''A3.81'' st)) (\<lambda>t. Inr [t])"
  "edge_targets build_a3_graph ''A3.82'' st = bindR (path_target [(''continue'', ''A3.60''), (''rejected'', END)] (route_for ''A3.82'' st)) (\<lambda>t. Inr [t])"
  by (auto simp: edge_targets_def branch_targets_def build_a3_graph_def builder_defs a3_node_ids_def a3_fan_out_def START_def END_def bindR_def split: sum.splits)

lemma a3_gate_targets:
  "edge_targets build_a3_graph ''A3.51'' st = Inr ts \<Longrightarrow> ts \<in> {[''A3.60''], [END]}"
  "edge_targets build_a3_graph ''A3.81'' st = Inr ts \<Longrightarrow> ts \<in> {[''A3.90''], [''A3.82''], [END]}"
  "edge_targets build_a3_graph ''A3.82'' st = Inr ts \<Longrightarrow> ts = [END] \<or> ts = [''A3.60''] \<and> route_for ''A3.82'' st = ''continue''"
  by (auto simp: a3_routed_targets path_target_def bindR_Inr_iff split: if_splits)

lemma a3_index:
  "index_of a3_node_ids ''A3.10'' = 0" "index_of a3_node_ids ''A3.11'' = 1" "index_of a3_node_ids ''A3.20'' = 2" "index_of a3_node_ids ''A3.21'' = 3"
  "index_of a3_node_ids ''A3.30'' = 4" "index_of a3_node_ids ''A3.31'' = 5" "index_of a3_node_ids ''A3.32'' = 6" "index_of a3_node_ids ''A3.33'' = 7"
  "index_of a3_node_ids ''A3.40'' = 8" "index_of a3_node_ids ''A3.41'' = 9" "index_of a3_node_ids ''A3.50'' = 10" "index_of a3_node_ids ''A3.51'' = 11"
  "index_of a3_node_ids ''A3.60'' = 12" "index_of a3_node_ids ''A3.61'' = 13" "index_of a3_node_ids ''A3.62'' = 14" "index_of a3_node_ids ''A3.63'' = 15"
  "index_of a3_node_ids ''A3.64'' = 16" "index_of a3_node_ids ''A3.70'' = 17" "index_of a3_node_ids ''A3.80'' = 18" "index_of a3_node_ids ''A3.81'' = 19"
  "index_of a3_node_ids ''A3.82'' = 20" "index_of a3_node_ids ''A3.90'' = 21" "index_of a3_node_ids END = 22"
  by (simp_all add: a3_node_ids_def END_def)

lemma a3_edges_forward:
  assumes "n \<in> set a3_node_ids" and "edge_targets build_a3_graph n st = Inr ts" and "n' \<in> set ts"
  shows "n = ''A3.82'' \<and> n' = ''A3.60'' \<or> index_of a3_node_ids n < index_of a3_node_ids n'"
proof -
  from assms(1) consider "n \<in> {''A3.10'', ''A3.11'', ''A3.20'', ''A3.21'', ''A3.30'', ''A3.31'', ''A3.32'', ''A3.33''}"
    | "n \<in> {''A3.40'', ''A3.41'', ''A3.50'', ''A3.60'', ''A3.61''}" | "n \<in> {''A3.62'', ''A3.63'', ''A3.64'', ''A3.70'', ''A3.80'', ''A3.90''}"
    | "n = ''A3.51''" | "n = ''A3.81''" | "n = ''A3.82''" unfolding a3_node_ids_def list.set by (elim insertE emptyE) (simp_all only: insert_iff simp_thms)
  then show ?thesis
  proof cases
    case 4
    with a3_gate_targets(1)[of st ts] assms(2,3) show ?thesis by (auto simp: a3_index)
  next
    case 5
    with a3_gate_targets(2)[of st ts] assms(2,3) show ?thesis by (auto simp: a3_index)
  next
    case 6
    with a3_gate_targets(3)[of st ts] assms(2,3) show ?thesis by (auto simp: a3_index)
  qed (use assms(2,3) in \<open>auto simp: a3_plain_targets a3_index\<close>)
qed

section \<open>The revision loop\<close>

lemma a3_stepE:
  assumes "a3_step e ports (n, st) (n', st')"
  obtains h w ex w' ts where "routes_ok st" "a3_handlers e n = Some h" "h st ports w = (Inr ex, w')"
    "apply_updates st (commit n ex st) = Inr st'" "edge_targets build_a3_graph n st' = Inr ts" "n' \<in> set ts"
  using assms by (auto simp: a3_step_def elim: stage_stepE)

lemma a3_step_counter:
  assumes "a3_step e ports (n, st) (n', st')"
  shows "revision_number st' = (if n = ''A3.82'' then revision_number st + 1 else revision_number st)" and "routes_ok st'"
    and "n = ''A3.82'' \<Longrightarrow> n' = ''A3.60'' \<Longrightarrow> revision_number st < max_revision_attempts - 1"
proof -
  from assms obtain h w ex w' ts where run: "routes_ok st" "a3_handlers e n = Some h" "h st ports w = (Inr ex, w')"
    "apply_updates st (commit n ex st) = Inr st'" "edge_targets build_a3_graph n st' = Inr ts" "n' \<in> set ts" by (rule a3_stepE)
  have "revision_number st' = (if n = ''A3.82'' then revision_number st + 1 else revision_number st) \<and> routes_ok st' \<and>
    (n = ''A3.82'' \<longrightarrow> n' = ''A3.60'' \<longrightarrow> revision_number st < max_revision_attempts - 1)"
  proof (cases "n = ''A3.82''")
    case True
    then have "handle_a3_82 e st ports w = (Inr ex, w')" using run(2,3) by (auto simp: a3_handlers_def)
    note s = a3_82_step[OF this run(4)[unfolded True] run(1)]
    from a3_gate_targets(3)[of st' ts] run(5,6) True s show ?thesis by (auto simp: END_def)
  next
    case False
    with a3_other_step[OF run(2) False run(3,4,1)] show ?thesis by simp
  qed
  then show "revision_number st' = (if n = ''A3.82'' then revision_number st + 1 else revision_number st)" and "routes_ok st'"
    and "n = ''A3.82'' \<Longrightarrow> n' = ''A3.60'' \<Longrightarrow> revision_number st < max_revision_attempts - 1" by blast+
qed

abbreviation analysis_node :: "string \<times> state \<Rightarrow> nat" where
  "analysis_node c \<equiv> index_of a3_node_ids (fst c)"

interpretation analysis: bounded_retries "a3_step e ports" a3_retry analysis_node 22 "\<lambda>c. revision_number (snd c)" "max_revision_attempts - 1"
  for e :: "'w a3_env" and ports
proof
  show "analysis_node c \<le> 22" for c
    using index_of_le[of a3_node_ids "fst c"] by (simp add: a3_node_ids_def)
  fix c c' :: "string \<times> state"
  assume step: "a3_step e ports c c'"
  obtain n st n' st' where c: "c = (n, st)" "c' = (n', st')" by fastforce
  note counter = a3_step_counter[OF step[unfolded c]]
  show "analysis_node c < analysis_node c' \<and> revision_number (snd c) \<le> revision_number (snd c')" if "\<not> a3_retry c c'"
  proof -
    from step[unfolded c] have "n = ''A3.82'' \<and> n' = ''A3.60'' \<or> index_of a3_node_ids n < index_of a3_node_ids n'"
      by (rule a3_stepE) (rule a3_edges_forward[OF a3_handlers_dom])
    with that counter(1) show ?thesis by (auto simp: c a3_retry_def)
  qed
  show "revision_number (snd c) < max_revision_attempts - 1 \<and> revision_number (snd c) < revision_number (snd c')" if "a3_retry c c'"
    using that counter by (auto simp: c a3_retry_def)
qed


definition a3_start :: state where
  "a3_start = [''case_id'' \<mapsto> VStr ''c'', ''tenant_id'' \<mapsto> VStr ''t'', ''artifact_refs'' \<mapsto> VRefs [demo_ref ''EvidenceBundle'' ''b'']]"

lemma a3_start_step: "\<exists>st'. a3_step demo_a3 a3_ports (''A3.11'', a3_start) (''A3.20'', st')"
proof -
  let ?catalog = "index_evidence (eb_evidence demo_bundle)"
  let ?ref = "\<lparr>ref_type = ''EvidenceCatalog'', ref_schema = ''1.0'', ref_id = ''c-EvidenceCatalog'', ref_digest = rep_digest CHR ''a'', ref_uri = ''u''\<rparr>"
  have s: "required_state_str a3_start ''case_id'' = Inr ''c''" "required_state_str a3_start ''tenant_id'' = Inr ''t''"
    "require_ref a3_start ''EvidenceBundle'' = Inr (demo_ref ''EvidenceBundle'' ''b'')"
    by (simp_all add: a3_start_def required_state_str_def get_str_def require_ref_def try_ref_def get_refs_def)
  have ok: "valid_catalog ?catalog" by (simp add: valid_catalog_def index_evidence_def demo_bundle_def demo_item_def)
  have r: "read_typed a3_ports a3_start ''EvidenceBundle'' decode_bundle w = (Inr (demo_ref ''EvidenceBundle'' ''b'', demo_bundle), w)" for w
    by (simp add: read_typed_def read_model_def a3_ports_def demo_env_def decode_bundle_def checked_def a3_demo_valid bindI_def s)
  have seal: "a3_seal demo_a3 a3_ports a3_start ''A3.11'' ''EvidenceCatalog'' [rep_digest CHR ''a''] True (BCatalog ?catalog) w = (Inr ?ref, w)" for w
    using rep_digest_parent
    by (simp add: a3_seal_def seal_envelope_def lane_envelope_def valid_envelope_def len_in_def s06_put_envelope_def a3_ports_def demo_ports_def mk_ref_def
      valid_ref_def demo_ref_def demo_digest_valid demo_a3_def Let_def bindI_def s)
  have h: "handle_a3_11 demo_a3 a3_start a3_ports demo_world = (Inr (cont [(''artifact_refs'', VRefs [?ref])]), demo_world)"
    by (simp add: handle_a3_11_def bindI_Inr r seal ok Let_def)
  have "\<exists>st'. apply_updates a3_start (commit ''A3.11'' (cont [(''artifact_refs'', VRefs [?ref])]) a3_start) = Inr st'"
    by (simp add: apply_updates_def apply_update_def commit_def cont_def reduce_field_def latest_node_def a3_start_def
        merge_node_ids_eq wf_node_id_def parse_decimal_def is_digit_def merge_node_routes_def merge_route_def
        next_route_key_def latest_route_key_def get_routes_def merge_artifact_refs_eq refs_consistent_def demo_ref_def ref_key_def)
  then obtain st' where "apply_updates a3_start (commit ''A3.11'' (cont [(''artifact_refs'', VRefs [?ref])]) a3_start) = Inr st'" by blast
  moreover have "routes_ok a3_start" by (simp add: routes_ok_def get_routes_def a3_start_def route_contiguous_def)
  ultimately have "a3_step demo_a3 a3_ports (''A3.11'', a3_start) (''A3.20'', st')" using h unfolding a3_step_def
    by (auto intro!: run_node[where h = "handle_a3_11 demo_a3"] simp: a3_handlers_def a3_plain_targets)
  then show ?thesis by blast
qed


end
