(* ===== verification/Convergence.thy ===== *)
theory Convergence
  imports Strategies
begin

text \<open>
  Stage C0, where the manual and the automatic lane meet (\<open>application/c0_handlers/\<close>, nodes C0.10 to C0.70): the origin
  of the request, the schemas of the required artifacts, the digests that link them, the equivalence of request, baseline and
  quality, freshness, the convergence decision and the sealed case. The clock (in seconds), the file system and git are
  parameters, and so is the quoting \<open>repr\<close> of a text in a message.
\<close>

section \<open>Required artifacts\<close>

record 'w c0_env =
  c0_sha :: "blob \<Rightarrow> string"
  c0_clock :: "'w \<Rightarrow> int"
  c0_exists :: "'w \<Rightarrow> string \<Rightarrow> bool"
  c0_tools :: "'w tools"
  c0_repr :: "string \<Rightarrow> string"

definition freshness_window :: int where
  "freshness_window = 7 * 24 * 60 * 60"

definition required_artifacts :: "string list" where
  "required_artifacts = [''OptimizationRequest'', ''SourceSnapshot'', ''BaselineSnapshot'', ''EvidenceBundle'', ''FindingSet'',
     ''SolutionPortfolio'', ''A3QualityReport'']"

text \<open>The model class of a type, as the digest fields of the object it parses to.\<close>

definition digest_fields :: "string \<Rightarrow> body \<Rightarrow> string dict result" where
  "digest_fields ty b =
     (if ty = ''OptimizationRequest'' then bindR (decode_request b) (\<lambda>_. Inr [])
      else if ty = ''SourceSnapshot'' then bindR (decode_snapshot b) (\<lambda>_. Inr [])
      else if ty = ''BaselineSnapshot'' then
        bindR (decode_a3_baseline b) (\<lambda>x. Inr [(''request_digest'', bl_request x), (''source_snapshot_digest'', bl_source x)])
      else if ty = ''EvidenceBundle'' then bindR (decode_bundle b) (\<lambda>x. Inr [(''baseline_digest'', eb_baseline x)])
      else if ty = ''FindingSet'' then bindR (decode_findings b) (\<lambda>x. Inr [(''evidence_bundle_digest'', fs_bundle x)])
      else if ty = ''SolutionPortfolio'' then
        bindR (decode_portfolio b) (\<lambda>_. case b of
            BPortfolio _ findings quality \<Rightarrow> Inr [(''finding_set_digest'', findings), (''quality_report_digest'', quality)]
          | _ \<Rightarrow> Inl (ValidationError ty))
      else if ty = ''A3QualityReport'' then
        bindR (decode_a3_quality b) (\<lambda>x. Inr [(''finding_set_digest'', aq_findings x), (''solution_portfolio_digest'', aq_portfolio x)])
      else Inl (KeyError ty))"

definition digest_links :: "(string \<times> string \<times> string) list" where
  "digest_links =
     [(''BaselineSnapshot'', ''request_digest'', ''OptimizationRequest''),
      (''BaselineSnapshot'', ''source_snapshot_digest'', ''SourceSnapshot''),
      (''EvidenceBundle'', ''baseline_digest'', ''SourceSnapshot''),
      (''FindingSet'', ''evidence_bundle_digest'', ''EvidenceBundle''),
      (''SolutionPortfolio'', ''finding_set_digest'', ''FindingSet''),
      (''SolutionPortfolio'', ''quality_report_digest'', ''A3QualityReport''),
      (''A3QualityReport'', ''finding_set_digest'', ''FindingSet'')]"

definition c0_routes :: "string \<Rightarrow> string list" where
  "c0_routes node = (if node = ''C0.60'' then [''continue'', ''rejected''] else [''continue''])"

definition c0_origin :: "state \<Rightarrow> origin" where
  "c0_origin st = (if get_str st ''lane'' = Some ''manual'' then Manual else Automatic)"

definition c0_seal :: "'w c0_env \<Rightarrow> 'w node_ports \<Rightarrow> state \<Rightarrow> string \<Rightarrow> string \<Rightarrow> string list \<Rightarrow> bool \<Rightarrow> body \<Rightarrow> ('w, artifact_ref) io" where
  "c0_seal e ports st node ty parents ok b = (\<lambda>w.
     bindI (liftI (bindR (lane_envelope st ty parents b (c0_clock e w)) (\<lambda>x. checked ty ok x))) (\<lambda>x.
     put_envelope (c0_sha e) ports st x node) w)"

section \<open>The checks\<close>

definition handle_c0_10 :: "'w c0_env \<Rightarrow> state \<Rightarrow> 'w node_ports \<Rightarrow> ('w, node_execution) io" where
  "handle_c0_10 e st ports =
     bindI (read_request ports st) (\<lambda>request.
     if req_origin request \<noteq> c0_origin st then failI (ValueError ''BR-C0-001 violation'') else retI (cont []))"

text \<open>\<open>except ValidationError\<close>: any other error goes on.\<close>

definition validation_errors :: "('w, 'a) io \<Rightarrow> ('w, string list) io" where
  "validation_errors m = (\<lambda>w. case m w of
       (Inr _, w') \<Rightarrow> (Inr [], w')
     | (Inl (ValidationError text), w') \<Rightarrow> (Inr [text], w')
     | (Inl err, w') \<Rightarrow> (Inl err, w'))"

definition check_schema :: "state \<Rightarrow> 'w node_ports \<Rightarrow> string \<Rightarrow> ('w, schema_result) io" where
  "check_schema st ports ty =
     bindI (liftI (require_ref st ty)) (\<lambda>ref.
     bindI (validation_errors (read_model ports st ref (digest_fields ty))) (\<lambda>errors.
     let r = \<lparr>sv_type = ty, sv_version = ref_schema ref, sv_valid = errors = [], sv_errors = errors\<rparr> in
     liftI (checked ''SchemaValidationResult'' (valid_schema_result r) r)))"

definition handle_c0_20 :: "'w c0_env \<Rightarrow> state \<Rightarrow> 'w node_ports \<Rightarrow> ('w, node_execution) io" where
  "handle_c0_20 e st ports =
     bindI (for_each (check_schema st ports) required_artifacts) (\<lambda>results.
     retI (cont [(''c0_schema_results'', VSchemas results)]))"

definition check_link :: "state \<Rightarrow> 'w node_ports \<Rightarrow> artifact_ref dict \<Rightarrow> string \<times> string \<times> string \<Rightarrow> ('w, digest_link) io" where
  "check_link st ports refs = (\<lambda>(child, field, parent).
     bindI (liftI (index refs child (KeyError child))) (\<lambda>child_ref.
     bindI (read_model ports st child_ref (digest_fields child)) (\<lambda>fields.
     bindI (liftI (index refs parent (KeyError parent))) (\<lambda>parent_ref.
     bindI (liftI (index fields field (AttributeError field))) (\<lambda>actual.
     let l = \<lparr>dl_type = child, dl_digest = ref_digest child_ref, dl_parent = Some (ref_digest parent_ref),
               dl_linked = actual = ref_digest parent_ref\<rparr> in
     liftI (checked ''DigestChainLink'' (valid_link l) l))))))"

definition handle_c0_30 :: "'w c0_env \<Rightarrow> state \<Rightarrow> 'w node_ports \<Rightarrow> ('w, node_execution) io" where
  "handle_c0_30 e st ports =
     bindI (liftI (mapR (\<lambda>ty. bindR (require_ref st ty) (\<lambda>r. Inr (ty, r))) required_artifacts)) (\<lambda>refs.
     bindI (for_each (check_link st ports refs) digest_links) (\<lambda>links.
     retI (cont [(''c0_digest_chain'', VChain links)])))"

definition equivalence_verdicts :: "(string \<Rightarrow> string) \<Rightarrow> optimization_request \<Rightarrow> baseline_snapshot \<Rightarrow> a3_quality \<Rightarrow> equivalence_verdict list" where
  "equivalence_verdicts repr request baseline quality =
     (let workload = req_workload request; workload_ok = bl_workload baseline = wl_id workload \<and> bl_environment baseline = wl_environment workload in
      [\<lparr>ev_dimension = ''request_baseline_contract'', ev_equivalent = workload_ok,
        ev_reason = (if workload_ok then None else Some (''baseline was collected for workload='' @ repr (bl_workload baseline) @ ''/environment='' @
          repr (bl_environment baseline) @ '', but the request specified workload='' @ repr (wl_id workload) @ ''/environment='' @
          repr (wl_environment workload)))\<rparr>,
       \<lparr>ev_dimension = ''solution_quality_policy'', ev_equivalent = aq_passed quality,
        ev_reason = (if aq_passed quality then None else Some ''A3QualityReport did not pass its own quality gates'')\<rparr>])"

definition handle_c0_40 :: "'w c0_env \<Rightarrow> state \<Rightarrow> 'w node_ports \<Rightarrow> ('w, node_execution) io" where
  "handle_c0_40 e st ports =
     bindI (read_request ports st) (\<lambda>request.
     bindI (read_typed ports st ''BaselineSnapshot'' decode_a3_baseline) (\<lambda>(_, baseline).
     bindI (read_typed ports st ''A3QualityReport'' decode_a3_quality) (\<lambda>(_, quality).
     retI (cont [(''c0_equivalence_verdicts'', VEquivalence (equivalence_verdicts (c0_repr e) request baseline quality))]))))"

definition source_fresh :: "'w c0_env \<Rightarrow> source_snapshot \<Rightarrow> ('w, bool) io" where
  "source_fresh e source = (\<lambda>w.
     case sn_revision source of
       None \<Rightarrow> (Inr True, w)
     | Some revision \<Rightarrow>
         if c0_exists e w (sn_path source) \<and> revision \<noteq> [] then
           bindI (git (c0_tools e) (sn_path source) [''rev-parse'', ''HEAD'']) (\<lambda>current. retI (current = None \<or> current = Some revision)) w
         else (Inr True, w))"

text \<open>A naive time is taken as UTC. The newest observation decides.\<close>

definition freshness_of :: "int \<Rightarrow> bool \<Rightarrow> evidence_bundle \<Rightarrow> freshness_check list" where
  "freshness_of now source bundle =
     (let observed = map (\<lambda>i. instant (ei_observed i)) (eb_evidence bundle);
          recent = max_by id observed in
      [\<lparr>fc_dimension = ''source'', fc_fresh = source, fc_checked = now, fc_expires = None\<rparr>,
       \<lparr>fc_dimension = ''evidence'', fc_fresh = (case recent of None \<Rightarrow> True | Some t \<Rightarrow> now - t \<le> freshness_window), fc_checked = now,
        fc_expires = (case recent of None \<Rightarrow> None | Some t \<Rightarrow> if now < t + freshness_window then Some (t + freshness_window) else None)\<rparr>])"

definition handle_c0_50 :: "'w c0_env \<Rightarrow> state \<Rightarrow> 'w node_ports \<Rightarrow> ('w, node_execution) io" where
  "handle_c0_50 e st ports = (\<lambda>w0.
     let now = c0_clock e w0 in
     bindI (read_typed ports st ''SourceSnapshot'' decode_snapshot) (\<lambda>(_, source).
     bindI (source_fresh e source) (\<lambda>fresh.
     bindI (read_typed ports st ''EvidenceBundle'' decode_bundle) (\<lambda>(_, bundle).
     retI (cont [(''c0_freshness_checks'', VFreshness (freshness_of now fresh bundle))])))) w0)"

section \<open>The decision\<close>

text \<open>The four lists of the earlier nodes. A list that was restored from a stored execution holds plain dictionaries, of which no
  attribute can be read.\<close>

definition c0_schemas :: "state \<Rightarrow> schema_result list result" where
  "c0_schemas st = (case st ''c0_schema_results'' of Some (VSchemas xs) \<Rightarrow> Inr xs | Some (VPlain _) \<Rightarrow> Inl (AttributeError ''valid'') | _ \<Rightarrow> Inr [])"

definition c0_chain :: "state \<Rightarrow> digest_link list result" where
  "c0_chain st = (case st ''c0_digest_chain'' of Some (VChain xs) \<Rightarrow> Inr xs | Some (VPlain _) \<Rightarrow> Inl (AttributeError ''linked'') | _ \<Rightarrow> Inr [])"

definition c0_equivalence :: "state \<Rightarrow> equivalence_verdict list result" where
  "c0_equivalence st = (case st ''c0_equivalence_verdicts'' of
       Some (VEquivalence xs) \<Rightarrow> Inr xs | Some (VPlain _) \<Rightarrow> Inl (AttributeError ''equivalent'') | _ \<Rightarrow> Inr [])"

definition c0_freshness :: "state \<Rightarrow> freshness_check list result" where
  "c0_freshness st = (case st ''c0_freshness_checks'' of Some (VFreshness xs) \<Rightarrow> Inr xs | Some (VPlain _) \<Rightarrow> Inl (AttributeError ''fresh'') | _ \<Rightarrow> Inr [])"

definition decide_convergence :: "origin \<Rightarrow> schema_result list \<Rightarrow> digest_link list \<Rightarrow> equivalence_verdict list \<Rightarrow> freshness_check list \<Rightarrow> portfolio \<Rightarrow>
    convergence_decision" where
  "decide_convergence origin schemas chain equivalence freshness portfolio =
     (let eligible = length (filter st_eligible portfolio); schema_ok = list_all sv_valid schemas; digest_ok = list_all dl_linked chain;
          equivalence_ok = list_all ev_equivalent equivalence; freshness_ok = list_all fc_fresh freshness; eligible_ok = 1 \<le> eligible in
      \<lparr>cd_origin = origin, cd_schemas = schemas, cd_chain = chain, cd_equivalence = equivalence, cd_freshness = freshness, cd_eligible = eligible,
       cd_converged = (schema_ok \<and> digest_ok \<and> equivalence_ok \<and> freshness_ok \<and> eligible_ok),
       cd_reasons = (if schema_ok then [] else [''one or more artifacts failed schema validation'']) @
         (if digest_ok then [] else [''digest chain is broken between one or more artifacts'']) @
         (if equivalence_ok then [] else [''a semantic equivalence check failed'']) @
         (if freshness_ok then [] else [''a freshness check failed'']) @
         (if eligible_ok then [] else [''no eligible solution strategy is available''])\<rparr>)"

definition handle_c0_60 :: "'w c0_env \<Rightarrow> state \<Rightarrow> 'w node_ports \<Rightarrow> ('w, node_execution) io" where
  "handle_c0_60 e st ports =
     bindI (read_portfolio ports st) (\<lambda>portfolio.
     bindI (liftI (c0_schemas st)) (\<lambda>schemas.
     bindI (liftI (c0_chain st)) (\<lambda>chain.
     bindI (liftI (c0_equivalence st)) (\<lambda>equivalence.
     bindI (liftI (c0_freshness st)) (\<lambda>freshness.
     let d = decide_convergence (c0_origin st) schemas chain equivalence freshness portfolio in
     bindI (c0_seal e ports st ''C0.60'' ''ConvergenceDecision'' [] (valid_convergence d) (BConvergence d)) (\<lambda>ref.
     retI \<lparr>ex_route = (if cd_converged d then CONTINUE else REJECTED), ex_updates = [(''artifact_refs'', VRefs [ref])]\<rparr>))))))"

definition handle_c0_70 :: "'w c0_env \<Rightarrow> state \<Rightarrow> 'w node_ports \<Rightarrow> ('w, node_execution) io" where
  "handle_c0_70 e st ports =
     bindI (liftI (mapR (require_ref st) [''OptimizationRequest'', ''SourceSnapshot'', ''BaselineSnapshot'', ''EvidenceBundle'', ''SolutionPortfolio'',
         ''ConvergenceDecision''])) (\<lambda>refs.
     let digests = map ref_digest refs;
         c = \<lparr>cc_origin = c0_origin st, cc_request = digests ! 0, cc_source = digests ! 1, cc_baseline = digests ! 2, cc_evidence = digests ! 3,
               cc_portfolio = digests ! 4, cc_decision = digests ! 5\<rparr> in
     bindI (c0_seal e ports st ''C0.70'' ''ConvergedCase'' digests (valid_converged c) (BConverged c)) (\<lambda>ref.
     retI (cont [(''artifact_refs'', VRefs [ref]), (''convergence_ref'', VRef ref), (''status'', VStr ''converged'')])))"

section \<open>When a case converges\<close>

lemma read_model_store:
  assumes "\<And>t r w. np_read ports t r w = (Inr (Sealed (store r)), w)"
  shows "read_model ports st ref decode w = (Inr x, w') \<longleftrightarrow> (\<exists>t. required_state_str st ''tenant_id'' = Inr t) \<and> decode (env_body (store ref)) = Inr x \<and> w' = w"
  by (cases "required_state_str st ''tenant_id''"; cases "decode (env_body (store ref))") (auto simp: read_model_def bindI_def assms liftI_def)

lemma read_typed_store:
  assumes "\<And>t r w. np_read ports t r w = (Inr (Sealed (store r)), w)"
  shows "read_typed ports st ty decode w = (Inr (ref, x), w') \<longleftrightarrow>
    require_ref st ty = Inr ref \<and> (\<exists>t. required_state_str st ''tenant_id'' = Inr t) \<and> decode (env_body (store ref)) = Inr x \<and> w' = w"
proof
  assume "read_typed ports st ty decode w = (Inr (ref, x), w')"
  then show "require_ref st ty = Inr ref \<and> (\<exists>t. required_state_str st ''tenant_id'' = Inr t) \<and> decode (env_body (store ref)) = Inr x \<and> w' = w"
    by (auto simp: read_typed_def read_model_store[OF assms] elim!: bindI_result_Inr)
next
  assume r: "require_ref st ty = Inr ref \<and> (\<exists>t. required_state_str st ''tenant_id'' = Inr t) \<and> decode (env_body (store ref)) = Inr x \<and> w' = w"
  then have "read_model ports st ref decode w = (Inr x, w)" by (simp add: read_model_store[OF assms])
  with r show "read_typed ports st ty decode w = (Inr (ref, x), w')" by (simp add: read_typed_def bindI_Inr)
qed

lemma check_schema_valid:
  assumes "\<And>t r w. np_read ports t r w = (Inr (Sealed (store r)), w)" and "check_schema st ports ty w = (Inr y, w')" and "require_ref st ty = Inr ref"
  shows "sv_valid y \<longleftrightarrow> (\<exists>d. digest_fields ty (env_body (store ref)) = Inr d)"
proof -
  from assms(2,3) obtain errors w1 where e: "validation_errors (read_model ports st ref (digest_fields ty)) w = (Inr errors, w1)"
    and y: "sv_valid y \<longleftrightarrow> errors = []"
    by (auto simp: check_schema_def checked_def Let_def elim!: bindI_result_Inr split: if_splits)
  obtain res w2 where m: "read_model ports st ref (digest_fields ty) w = (res, w2)" by fastforce
  show ?thesis
  proof (cases res)
    case (Inl err)
    then have "\<not> (\<exists>t. required_state_str st ''tenant_id'' = Inr t) \<or> (\<forall>d. digest_fields ty (env_body (store ref)) \<noteq> Inr d)"
      using m read_model_store[OF assms(1), of st ref "digest_fields ty" w] by auto
    moreover have "\<exists>t. required_state_str st ''tenant_id'' = Inr t"
      using e m Inl by (cases "required_state_str st ''tenant_id''") (auto simp: validation_errors_def read_model_def bindI_def liftI_def required_state_str_def split: py_error.splits option.splits if_splits)
    ultimately show ?thesis using e m Inl y by (auto simp: validation_errors_def split: py_error.splits)
  next
    case (Inr d)
    then have "read_model ports st ref (digest_fields ty) w = (Inr d, w2)" using m by simp
    then have "digest_fields ty (env_body (store ref)) = Inr d" unfolding read_model_store[OF assms(1)] by simp
    then show ?thesis using e m Inr y by (simp add: validation_errors_def)
  qed
qed

lemma check_link_linked:
  assumes "\<And>t r w. np_read ports t r w = (Inr (Sealed (store r)), w)" and "check_link st ports refs (child, field, parent) w = (Inr y, w')"
    and "map_of refs child = Some c" and "map_of refs parent = Some p"
  shows "\<exists>d. digest_fields child (env_body (store c)) = Inr d \<and> (dl_linked y \<longleftrightarrow> map_of d field = Some (ref_digest p))"
  using assms(2-4)
  by (auto simp: check_link_def index_def checked_def Let_def read_model_store[OF assms(1)] elim!: bindI_result_Inr split: if_splits option.splits)

lemma freshness_of_fresh:
  "list_all fc_fresh (freshness_of now source bundle) \<longleftrightarrow>
     source \<and> (eb_evidence bundle = [] \<or> (\<exists>i \<in> set (eb_evidence bundle). now - instant (ei_observed i) \<le> freshness_window))"
proof (cases "max_by id (map (\<lambda>i. instant (ei_observed i)) (eb_evidence bundle))")
  case None
  then have "eb_evidence bundle = []" by (cases "eb_evidence bundle") (auto split: option.splits if_splits)
  with None show ?thesis by (simp add: freshness_of_def)
next
  case (Some t)
  from max_by_Some[OF this] have "t \<in> (\<lambda>i. instant (ei_observed i)) ` set (eb_evidence bundle)" "\<forall>i \<in> set (eb_evidence bundle). instant (ei_observed i) \<le> t" by auto
  then have "(now - t \<le> freshness_window) = (\<exists>i \<in> set (eb_evidence bundle). now - instant (ei_observed i) \<le> freshness_window)" "eb_evidence bundle \<noteq> []"
    by fastforce+
  with Some show ?thesis by (simp add: freshness_of_def)
qed

text \<open>The links of the chain that hold between the artifacts the state refers to.\<close>

definition linked :: "(string \<Rightarrow> body) \<Rightarrow> (string \<Rightarrow> artifact_ref) \<Rightarrow> string \<times> string \<times> string \<Rightarrow> bool" where
  "linked content refs = (\<lambda>(child, field, parent).
     case digest_fields child (content child) of Inl _ \<Rightarrow> False | Inr d \<Rightarrow> map_of d field = Some (ref_digest (refs parent)))"

lemma handle_c0_20_result:
  assumes "\<And>t r w. np_read ports t r w = (Inr (Sealed (store r)), w)"
    and refs: "\<And>ty. ty \<in> set required_artifacts \<Longrightarrow> require_ref st ty = Inr (R ty)"
    and "handle_c0_20 e st ports w = (Inr (cont [(''c0_schema_results'', VSchemas schemas)]), w')"
  shows "list_all sv_valid schemas \<longleftrightarrow> list_all (\<lambda>ty. \<exists>d. digest_fields ty (env_body (store (R ty))) = Inr d) required_artifacts"
proof -
  from assms(3) obtain v where "for_each (check_schema st ports) required_artifacts w = (Inr schemas, v)"
    by (auto simp: handle_c0_20_def cont_def elim!: bindI_result_Inr)
  from for_each_Inr[OF this] have "list_all2 (\<lambda>ty y. sv_valid y \<longleftrightarrow> (\<exists>d. digest_fields ty (env_body (store (R ty))) = Inr d)) required_artifacts schemas"
    by (rule list.rel_mono_strong) (use check_schema_valid[OF assms(1)] refs in blast)
  then show ?thesis unfolding list_all_iff
    by (simp add: list_all2_conv_all_nth) (metis in_set_conv_nth)
qed

lemma handle_c0_30_result:
  assumes "\<And>t r w. np_read ports t r w = (Inr (Sealed (store r)), w)"
    and refs: "\<And>ty. ty \<in> set required_artifacts \<Longrightarrow> require_ref st ty = Inr (R ty)"
    and "handle_c0_30 e st ports w = (Inr (cont [(''c0_digest_chain'', VChain chain)]), w')"
  shows "list_all dl_linked chain \<longleftrightarrow> list_all (linked (\<lambda>ty. env_body (store (R ty))) R) digest_links"
    and "list_all (\<lambda>(child, _). \<exists>d. digest_fields child (env_body (store (R child))) = Inr d) digest_links"
proof -
  let ?refs = "map (\<lambda>ty. (ty, R ty)) required_artifacts"
  have "mapR (\<lambda>ty. bindR (require_ref st ty) (\<lambda>r. Inr (ty, r))) required_artifacts = Inr ?refs"
    by (rule mapR_total) (simp add: refs)
  with assms(3) obtain v where "for_each (check_link st ports ?refs) digest_links w = (Inr chain, v)"
    by (auto simp: handle_c0_30_def cont_def elim!: bindI_result_Inr)
  from for_each_Inr[OF this] have all: "list_all2 (\<lambda>l y. (dl_linked y \<longleftrightarrow> linked (\<lambda>ty. env_body (store (R ty))) R l) \<and>
      (\<exists>d. digest_fields (fst l) (env_body (store (R (fst l)))) = Inr d)) digest_links chain"
  proof (rule list.rel_mono_strong)
    fix l y assume l: "l \<in> set digest_links" and "\<exists>v v'. check_link st ports ?refs l v = (Inr y, v')"
    then obtain child field parent v v' where c: "l = (child, field, parent)" "check_link st ports ?refs (child, field, parent) v = (Inr y, v')"
      by (metis prod_cases3)
    have "child \<in> set required_artifacts" "parent \<in> set required_artifacts" using l c(1) by (auto simp: digest_links_def required_artifacts_def)
    then have "map_of ?refs child = Some (R child)" "map_of ?refs parent = Some (R parent)" by (simp_all add: map_of_map_restrict)
    from check_link_linked[OF assms(1) c(2) this] show "(dl_linked y \<longleftrightarrow> linked (\<lambda>ty. env_body (store (R ty))) R l) \<and>
      (\<exists>d. digest_fields (fst l) (env_body (store (R (fst l)))) = Inr d)" by (auto simp: linked_def c(1))
  qed
  then show "list_all dl_linked chain \<longleftrightarrow> list_all (linked (\<lambda>ty. env_body (store (R ty))) R) digest_links" unfolding list_all_iff
    by (simp add: list_all2_conv_all_nth) (metis in_set_conv_nth)
  from all show "list_all (\<lambda>(child, _). \<exists>d. digest_fields child (env_body (store (R child))) = Inr d) digest_links"
    unfolding list_all_length list_all2_conv_all_nth by (simp add: case_prod_beta)
qed

lemma decode_portfolio_eligible: "decode_portfolio b = Inr p \<Longrightarrow> list_ex st_eligible p"
  by (cases b) (auto simp: decode_portfolio_def valid_portfolio_def split: if_splits)

lemma read_portfolio_eligible:
  assumes "read_portfolio ports st w = (Inr p, w')"
  shows "list_ex st_eligible p"
  using assms by (auto simp: read_portfolio_def read_model_def elim!: bindI_result_Inr dest: decode_portfolio_eligible split: blob.splits)

lemma handle_c0_60_result:
  assumes "handle_c0_60 e st ports w = (Inr ex, w')" and "c0_schemas st = Inr schemas" and "c0_chain st = Inr chain"
    and "c0_equivalence st = Inr verdicts" and "c0_freshness st = Inr checks"
  shows "ex_route ex = (if list_all sv_valid schemas \<and> list_all dl_linked chain \<and> list_all ev_equivalent verdicts \<and> list_all fc_fresh checks
     then CONTINUE else REJECTED)"
proof -
  from assms obtain p w1 where p: "read_portfolio ports st w = (Inr p, w1)" and
    r: "ex_route ex = (if cd_converged (decide_convergence (c0_origin st) schemas chain verdicts checks p) then CONTINUE else REJECTED)"
    by (auto simp: handle_c0_60_def Let_def elim!: bindI_result_Inr)
  from read_portfolio_eligible[OF p]
  have "filter st_eligible p \<noteq> []" by (auto simp: filter_empty_conv list_ex_iff)
  then show ?thesis using r by (auto simp: decide_convergence_def Let_def Suc_le_eq)
qed

text \<open>C17. The convergence gate, on a store of sealed artifacts and a case whose seven required artifacts are there: the lists that C0.20 to
  C0.50 computed lead C0.60 to continue exactly when every digest link holds, the baseline is of the workload and environment of the
  request, the quality report passed, git does not contradict the revision of the snapshot and some evidence is at most seven days old
  (or there is none at all). In any other case it rejects. The schema results and the number of eligible strategies never decide: once the
  nodes have run, all seven artifacts are valid, and a valid portfolio has an eligible strategy.\<close>

theorem convergence_gate_exact:
  fixes store :: "artifact_ref \<Rightarrow> envelope" and R :: "string \<Rightarrow> artifact_ref"
  defines "content \<equiv> \<lambda>ty. env_body (store (R ty))"
  assumes "\<And>t r w. np_read ports t r w = (Inr (Sealed (store r)), w)"
    and "\<And>ty. ty \<in> set required_artifacts \<Longrightarrow> require_ref st ty = Inr (R ty)"
    and "handle_c0_20 e st ports w1 = (Inr (cont [(''c0_schema_results'', VSchemas schemas)]), w1')"
    and "handle_c0_30 e st ports w2 = (Inr (cont [(''c0_digest_chain'', VChain chain)]), w2')"
    and "handle_c0_40 e st ports w3 = (Inr (cont [(''c0_equivalence_verdicts'', VEquivalence verdicts)]), w3')"
    and "handle_c0_50 e st ports w4 = (Inr (cont [(''c0_freshness_checks'', VFreshness checks)]), w4')"
    and "handle_c0_60 e (st(''c0_schema_results'' \<mapsto> VSchemas schemas, ''c0_digest_chain'' \<mapsto> VChain chain,
        ''c0_equivalence_verdicts'' \<mapsto> VEquivalence verdicts, ''c0_freshness_checks'' \<mapsto> VFreshness checks)) ports w5 = (Inr ex, w5')"
  shows "\<exists>request source baseline bundle quality.
     decode_request (content ''OptimizationRequest'') = Inr request \<and> decode_snapshot (content ''SourceSnapshot'') = Inr source \<and>
     decode_a3_baseline (content ''BaselineSnapshot'') = Inr baseline \<and> decode_bundle (content ''EvidenceBundle'') = Inr bundle \<and>
     decode_a3_quality (content ''A3QualityReport'') = Inr quality \<and> list_all sv_valid schemas \<and>
     ex_route ex = (if list_all (linked content R) digest_links \<and> bl_workload baseline = wl_id (req_workload request) \<and>
         bl_environment baseline = wl_environment (req_workload request) \<and> aq_passed quality \<and> fst (source_fresh e source w4) = Inr True \<and>
         (eb_evidence bundle = [] \<or> (\<exists>i \<in> set (eb_evidence bundle). c0_clock e w4 - instant (ei_observed i) \<le> freshness_window))
       then CONTINUE else REJECTED)"
proof -
  note reads = read_typed_store[OF assms(2)] read_model_store[OF assms(2)]
  note ref = assms(3)[unfolded required_artifacts_def, simplified]
  from assms(6) obtain request baseline quality where
    q: "decode_request (content ''OptimizationRequest'') = Inr request" "decode_a3_baseline (content ''BaselineSnapshot'') = Inr baseline"
    "decode_a3_quality (content ''A3QualityReport'') = Inr quality" and v: "verdicts = equivalence_verdicts (c0_repr e) request baseline quality"
    by (auto simp: handle_c0_40_def read_request_def reads cont_def content_def ref elim!: bindI_result_Inr)
  from assms(7) obtain source fresh evs w' where
    s: "decode_snapshot (content ''SourceSnapshot'') = Inr source" "decode_bundle (content ''EvidenceBundle'') = Inr evs"
    and f: "source_fresh e source w4 = (Inr fresh, w')" and c: "checks = freshness_of (c0_clock e w4) fresh evs"
    by (auto simp: handle_c0_50_def reads cont_def content_def ref Let_def elim!: bindI_result_Inr)
  note chain = handle_c0_30_result[OF assms(2,3,5)]
  have "\<exists>d. digest_fields ty (content ty) = Inr d" if "ty \<in> set required_artifacts" for ty
  proof -
    have "\<exists>d. digest_fields ''OptimizationRequest'' (content ''OptimizationRequest'') = Inr d" "\<exists>d. digest_fields ''SourceSnapshot'' (content ''SourceSnapshot'') = Inr d"
      using q(1) s(1) by (simp_all add: digest_fields_def)
    with chain(2) that show ?thesis by (auto simp: digest_links_def required_artifacts_def content_def)
  qed
  then have schemas: "list_all sv_valid schemas" using handle_c0_20_result[OF assms(2-4)] by (simp add: list_all_iff content_def)
  have "ex_route ex = (if list_all sv_valid schemas \<and> list_all dl_linked chain \<and> list_all ev_equivalent verdicts \<and> list_all fc_fresh checks
      then CONTINUE else REJECTED)"
    by (rule handle_c0_60_result[OF assms(8)]) (simp_all add: c0_schemas_def c0_chain_def c0_equivalence_def c0_freshness_def)
  moreover have "list_all ev_equivalent verdicts \<longleftrightarrow> bl_workload baseline = wl_id (req_workload request) \<and>
      bl_environment baseline = wl_environment (req_workload request) \<and> aq_passed quality" by (simp add: v equivalence_verdicts_def Let_def conj_assoc)
  moreover have "fresh \<longleftrightarrow> fst (source_fresh e source w4) = Inr True" by (simp add: f)
  moreover have "list_all dl_linked chain \<longleftrightarrow> list_all (linked content R) digest_links" using chain(1) by (simp only: content_def)
  ultimately show ?thesis using q s schemas by (intro exI[of _ request] exI[of _ source] exI[of _ baseline] exI[of _ evs] exI[of _ quality])
      (simp add: c freshness_of_fresh)
qed

lemma append_le_iff: "(xs :: string) @ ys \<le> xs @ zs \<longleftrightarrow> ys \<le> zs"
  by (induction xs) auto

lemma find_first_of_type:
  assumes "sorted_wrt (<) (map ref_key m)" and "r \<in> set m" and "\<And>x. x \<in> set m \<Longrightarrow> ref_type x = ref_type r \<Longrightarrow> ref_id r \<le> ref_id x"
  shows "find (\<lambda>x. ref_type x = ref_type r) m = Some r"
  using assms
proof (induction m)
  case (Cons x m)
  show ?case
  proof (cases "ref_type x = ref_type r")
    case True
    have "x = r"
    proof (rule ccontr)
      assume "x \<noteq> r"
      then have "ref_key x < ref_key r" using Cons.prems(1,2) by auto
      then have "ref_id x < ref_id r" using True by (simp add: ref_key_def less_prod_def)
      with Cons.prems(3)[of x] True show False by simp
    qed
    then show ?thesis by simp
  next
    case False
    then have "r \<in> set m" using Cons.prems(2) by auto
    with Cons False show ?thesis by simp
  qed
qed simp

lemma merged_refs_sorted: "merge_artifact_refs l r = Inr m \<Longrightarrow> sorted_wrt (<) (map ref_key m)"
  by (simp add: merge_artifact_refs_keys)

lemma a3_pass_zero_first:
  assumes "n \<in> {0, 1, 2}"
  shows "stage_artifact_id cid (a3_stage node 0) ty \<le> stage_artifact_id cid (a3_stage node n) ty"
proof -
  have "str_int 1 = ''1''" "str_int 2 = ''2''" by code_simp+
  then show ?thesis using assms by (auto simp: stage_artifact_id_def a3_stage_def append_le_iff less_char_def)
qed

text \<open>C37. A case whose analysis was revised never converges. Every pass seals a quality report of its own, C0 takes the first reference of
  the type, and the reducer keeps the references sorted, so C0.40 reads the report of pass 0, which failed (that is why there was a
  revision), although a later one passed. Its verdict leads C0.60 to reject the case.\<close>

theorem revised_analysis_never_converges:
  assumes "\<And>t r w. np_read ports t r w = (Inr (Sealed (store r)), w)"
    and "merge_artifact_refs older newer = Inr (get_refs st ''artifact_refs'')"
    and "\<And>r. r \<in> set (get_refs st ''artifact_refs'') \<Longrightarrow> ref_type r = ''A3QualityReport'' \<Longrightarrow>
      \<exists>n \<in> {0, 1, 2}. ref_id r = stage_artifact_id cid (a3_stage ''A3.81'' n) ''A3QualityReport''"
    and "first \<in> set (get_refs st ''artifact_refs'')" and "ref_type first = ''A3QualityReport''"
    and "ref_id first = stage_artifact_id cid (a3_stage ''A3.81'' 0) ''A3QualityReport''"
    and "decode_a3_quality (env_body (store first)) = Inr failed" and "\<not> aq_passed failed"
    and "handle_c0_40 e st ports w = (Inr (cont [(''c0_equivalence_verdicts'', VEquivalence verdicts)]), w')"
    and "handle_c0_60 e st' ports v = (Inr ex, v')" and "c0_equivalence st' = Inr verdicts"
  shows "ex_route ex = REJECTED"
proof -
  have "find (\<lambda>x. ref_type x = ref_type first) (get_refs st ''artifact_refs'') = Some first"
  proof (rule find_first_of_type[OF merged_refs_sorted[OF assms(2)] assms(4)])
    fix x assume "x \<in> set (get_refs st ''artifact_refs'')" "ref_type x = ref_type first"
    with assms(3)[of x] assms(5) obtain n :: int where "n \<in> {0, 1, 2}" "ref_id x = stage_artifact_id cid (a3_stage ''A3.81'' n) ''A3QualityReport''" by auto
    then show "ref_id first \<le> ref_id x" using a3_pass_zero_first assms(6) by simp
  qed
  then have "require_ref st ''A3QualityReport'' = Inr first" by (simp add: require_ref_def try_ref_def assms(5))
  with assms(9) obtain request baseline where "verdicts = equivalence_verdicts (c0_repr e) request baseline failed"
    by (auto simp: handle_c0_40_def read_typed_store[OF assms(1)] cont_def assms(7) elim!: bindI_result_Inr)
  then have "\<not> list_all ev_equivalent verdicts" using assms(8) by (simp add: equivalence_verdicts_def Let_def)
  moreover obtain schemas chain checks where "c0_schemas st' = Inr schemas" "c0_chain st' = Inr chain" "c0_freshness st' = Inr checks"
    using assms(10) by (auto simp: handle_c0_60_def elim!: bindI_result_Inr)
  from handle_c0_60_result[OF assms(10) this(1,2) assms(11) this(3)] calculation show ?thesis by simp
qed

text \<open>A manual case with its seven artifacts; with \<open>revised\<close>, the quality report of pass 0 failed and one of pass 1 passed.\<close>

definition c0_quality_ref :: "nat \<Rightarrow> artifact_ref" where
  "c0_quality_ref n = digest_ref (if n = 0 then CHR ''1'' else CHR ''2'') ''A3QualityReport'' (if n = 0 then ''c-A3.81-pass0-A3QualityReport'' else ''c-A3.81-pass1-A3QualityReport'')"

definition c0_quality :: "bool \<Rightarrow> a3_quality" where
  "c0_quality ok = \<lparr>aq_findings = rep_digest CHR ''e'', aq_portfolio = rep_digest CHR ''9'', aq_passed = ok, aq_finding_gates = [], aq_strategy_gates = [],
     aq_maturity_gates = [], aq_portfolio_gates = [gate_result ''at_least_one_eligible_strategy'' ok ''1'']\<rparr>"

definition c0_refs :: "bool \<Rightarrow> artifact_ref list" where
  "c0_refs revised = c0_quality_ref 0 # (if revised then [c0_quality_ref 1] else []) @
     [digest_ref CHR ''c'' ''BaselineSnapshot'' ''c-BaselineSnapshot'', digest_ref CHR ''d'' ''EvidenceBundle'' ''c-EvidenceBundle'',
      digest_ref CHR ''e'' ''FindingSet'' ''c-FindingSet'', digest_ref CHR ''a'' ''OptimizationRequest'' ''c-OptimizationRequest'',
      digest_ref CHR ''f'' ''SolutionPortfolio'' ''c-SolutionPortfolio'', digest_ref CHR ''b'' ''SourceSnapshot'' ''c-SourceSnapshot'']"

definition c0_body :: "bool \<Rightarrow> artifact_ref \<Rightarrow> body" where
  "c0_body revised r =
     (if ref_type r = ''OptimizationRequest'' then BRequest demo_request
      else if ref_type r = ''SourceSnapshot'' then BSnapshot \<lparr>sn_path = ''/repo'', sn_revision = Some ''abc'', sn_files = []\<rparr>
      else if ref_type r = ''BaselineSnapshot'' then BBaseline \<lparr>bl_request = rep_digest CHR ''a'', bl_source = rep_digest CHR ''b'', bl_workload = ''w'',
        bl_environment = ''e'', bl_aggregates = []\<rparr>
      else if ref_type r = ''EvidenceBundle'' then BBundle (demo_bundle\<lparr>eb_baseline := rep_digest CHR ''b''\<rparr>)
      else if ref_type r = ''FindingSet'' then BFindings (demo_finding_set\<lparr>fs_bundle := rep_digest CHR ''d''\<rparr>)
      else if ref_type r = ''SolutionPortfolio'' then BPortfolio [demo_strategy] (rep_digest CHR ''e'') (rep_digest (if revised then CHR ''2'' else CHR ''1''))
      else BA3Quality (c0_quality (\<not> revised \<or> ref_digest r = rep_digest CHR ''2'')))"

definition c0_store :: "bool \<Rightarrow> artifact_ref \<Rightarrow> envelope" where
  "c0_store revised r = \<lparr>env_type = ref_type r, env_id = ref_id r, env_tenant = ''t'', env_case = ''c'', env_created = 0, env_parents = [], env_body = c0_body revised r\<rparr>"

definition c0_state :: "bool \<Rightarrow> state" where
  "c0_state revised = [''case_id'' \<mapsto> VStr ''c'', ''tenant_id'' \<mapsto> VStr ''t'', ''lane'' \<mapsto> VStr ''manual'', ''artifact_refs'' \<mapsto> VRefs (c0_refs revised)]"

definition c0_ports :: "bool \<Rightarrow> world node_ports" where
  "c0_ports revised = (demo_ports None)\<lparr>np_read := \<lambda>_ r. retI (Sealed (c0_store revised r))\<rparr>"

definition demo_c0 :: "world c0_env" where
  "demo_c0 = \<lparr>c0_sha = (\<lambda>_. rep_digest CHR ''a''), c0_clock = w_time, c0_exists = (\<lambda>_ _. True),
     c0_tools = \<lparr>tl_run = \<lambda>_ _ w. (Exited 0 ''abc'', w), tl_mkdtemp = retI ''/tmp/x'', tl_write = \<lambda>_ _. retI (), tl_rmtree = \<lambda>_ w. w\<rparr>, c0_repr = id\<rparr>"

definition c0_ref :: "string \<Rightarrow> artifact_ref" where
  "c0_ref ty = hd (filter (\<lambda>r. ref_type r = ty) (c0_refs False))"

lemma c0_ref_sel [simp]:
  "c0_ref ''A3QualityReport'' = c0_quality_ref 0" "c0_ref ''BaselineSnapshot'' = digest_ref CHR ''c'' ''BaselineSnapshot'' ''c-BaselineSnapshot''"
  "c0_ref ''EvidenceBundle'' = digest_ref CHR ''d'' ''EvidenceBundle'' ''c-EvidenceBundle''" "c0_ref ''FindingSet'' = digest_ref CHR ''e'' ''FindingSet'' ''c-FindingSet''"
  "c0_ref ''OptimizationRequest'' = digest_ref CHR ''a'' ''OptimizationRequest'' ''c-OptimizationRequest''"
  "c0_ref ''SolutionPortfolio'' = digest_ref CHR ''f'' ''SolutionPortfolio'' ''c-SolutionPortfolio''"
  "c0_ref ''SourceSnapshot'' = digest_ref CHR ''b'' ''SourceSnapshot'' ''c-SourceSnapshot''"
  by (simp_all add: c0_ref_def c0_refs_def c0_quality_ref_def)

lemma c0_quality_ref_sel [simp]: "ref_type (c0_quality_ref n) = ''A3QualityReport''" "ref_digest (c0_quality_ref 0) = rep_digest CHR ''1''"
  "ref_digest (c0_quality_ref 1) = rep_digest CHR ''2''" "ref_digest (c0_quality_ref (Suc 0)) = rep_digest CHR ''2''"
  by (simp_all add: c0_quality_ref_def)

lemma c0_state_sel [simp]:
  "required_state_str (c0_state b) ''case_id'' = Inr ''c''" "required_state_str (c0_state b) ''tenant_id'' = Inr ''t''"
  "get_refs (c0_state b) ''artifact_refs'' = c0_refs b"
  by (simp_all add: c0_state_def required_state_str_def get_str_def get_refs_def)

lemma required_cases:
  "ty \<in> set required_artifacts \<Longrightarrow> P ''OptimizationRequest'' \<Longrightarrow> P ''SourceSnapshot'' \<Longrightarrow> P ''BaselineSnapshot'' \<Longrightarrow> P ''EvidenceBundle'' \<Longrightarrow> P ''FindingSet'' \<Longrightarrow>
    P ''SolutionPortfolio'' \<Longrightarrow> P ''A3QualityReport'' \<Longrightarrow> P ty"
  unfolding required_artifacts_def list.set by (elim insertE emptyE) simp_all

lemma c0_state_refs: "ty \<in> set required_artifacts \<Longrightarrow> require_ref (c0_state b) ty = Inr (c0_ref ty)"
  by (erule required_cases) (simp_all add: require_ref_def try_ref_def c0_refs_def c0_quality_ref_def)

lemma c0_reads: "np_read (c0_ports b) t r w = (Inr (Sealed (c0_store b r)), w)"
  by (simp add: c0_ports_def)

lemma c0_digests: "c \<in> set ''123456789abcdef'' \<Longrightarrow> valid_digest (rep_digest c)"
  by (auto simp: valid_rep_digest hex_digit_def)

lemma c0_decodes:
  "decode_request (c0_body b (c0_ref ''OptimizationRequest'')) = Inr demo_request"
  "decode_snapshot (c0_body b (c0_ref ''SourceSnapshot'')) = Inr \<lparr>sn_path = ''/repo'', sn_revision = Some ''abc'', sn_files = []\<rparr>"
  "decode_a3_baseline (c0_body b (c0_ref ''BaselineSnapshot'')) = Inr \<lparr>bl_request = rep_digest CHR ''a'', bl_source = rep_digest CHR ''b'', bl_workload = ''w'',
     bl_environment = ''e'', bl_aggregates = []\<rparr>"
  "decode_bundle (c0_body b (c0_ref ''EvidenceBundle'')) = Inr (demo_bundle\<lparr>eb_baseline := rep_digest CHR ''b''\<rparr>)"
  "decode_findings (c0_body b (c0_ref ''FindingSet'')) = Inr (demo_finding_set\<lparr>fs_bundle := rep_digest CHR ''d''\<rparr>)"
  "decode_portfolio (c0_body b (c0_ref ''SolutionPortfolio'')) = Inr [demo_strategy]"
  "decode_a3_quality (c0_body b (c0_ref ''A3QualityReport'')) = Inr (c0_quality (\<not> b))"
  using demo_findings_valid demo_strategy_valid
  by (simp_all add: c0_body_def decode_request_def demo_request_valid decode_snapshot_def decode_a3_baseline_def valid_baseline_def decode_bundle_def
      valid_bundle_def decode_findings_def valid_finding_set_def decode_portfolio_def valid_portfolio_def decode_a3_quality_def valid_a3_quality_def
      c0_quality_def gate_result_def checked_def c0_digests) (simp_all add: demo_strategy_def)

lemma c0_fields:
  "digest_fields ''OptimizationRequest'' (c0_body b (c0_ref ''OptimizationRequest'')) = Inr []"
  "digest_fields ''SourceSnapshot'' (c0_body b (c0_ref ''SourceSnapshot'')) = Inr []"
  "digest_fields ''BaselineSnapshot'' (c0_body b (c0_ref ''BaselineSnapshot'')) =
     Inr [(''request_digest'', rep_digest CHR ''a''), (''source_snapshot_digest'', rep_digest CHR ''b'')]"
  "digest_fields ''EvidenceBundle'' (c0_body b (c0_ref ''EvidenceBundle'')) = Inr [(''baseline_digest'', rep_digest CHR ''b'')]"
  "digest_fields ''FindingSet'' (c0_body b (c0_ref ''FindingSet'')) = Inr [(''evidence_bundle_digest'', rep_digest CHR ''d'')]"
  "digest_fields ''A3QualityReport'' (c0_body b (c0_ref ''A3QualityReport'')) =
     Inr [(''finding_set_digest'', rep_digest CHR ''e''), (''solution_portfolio_digest'', rep_digest CHR ''9'')]"
  by (simp_all add: digest_fields_def c0_decodes del: c0_ref_sel) (simp add: c0_quality_def)

lemma c0_portfolio_fields:
  "digest_fields ''SolutionPortfolio'' (c0_body b (c0_ref ''SolutionPortfolio'')) =
     Inr [(''finding_set_digest'', rep_digest CHR ''e''), (''quality_report_digest'', rep_digest (if b then CHR ''2'' else CHR ''1''))]"
proof -
  have body: "c0_body b (c0_ref ''SolutionPortfolio'') = BPortfolio [demo_strategy] (rep_digest CHR ''e'') (rep_digest (if b then CHR ''2'' else CHR ''1''))"
    by (simp add: c0_body_def)
  show ?thesis using c0_decodes(6)[of b] unfolding body by (simp add: digest_fields_def)
qed

lemma for_each_total: "(\<And>x. x \<in> set xs \<Longrightarrow> \<exists>y. f x w = (Inr y, w)) \<Longrightarrow> \<exists>ys. for_each f xs w = (Inr ys, w)"
proof (induction xs)
  case (Cons x xs)
  then obtain y ys where "f x w = (Inr y, w)" "for_each f xs w = (Inr ys, w)" by (meson list.set_intros)
  then show ?case by (simp add: bindI_def)
qed simp

lemma c0_read_model: "read_model (c0_ports b) (c0_state b) r decode w = (decode (c0_body b r), w)"
  by (simp add: read_model_def c0_reads c0_store_def bindI_def liftI_def)

lemma c0_read_typed:
  "ty \<in> set required_artifacts \<Longrightarrow> read_typed (c0_ports b) (c0_state b) ty decode w = (bindR (decode (c0_body b (c0_ref ty))) (\<lambda>x. Inr (c0_ref ty, x)), w)"
  by (simp add: read_typed_def c0_state_refs c0_read_model bindI_def bindR_def split: sum.splits)

lemma c0_required: "''SourceSnapshot'' \<in> set required_artifacts" "''EvidenceBundle'' \<in> set required_artifacts" "''BaselineSnapshot'' \<in> set required_artifacts"
  "''A3QualityReport'' \<in> set required_artifacts" "''OptimizationRequest'' \<in> set required_artifacts" "''SolutionPortfolio'' \<in> set required_artifacts"
  by (simp_all add: required_artifacts_def)

lemma c0_20_runs: "\<exists>schemas. handle_c0_20 demo_c0 (c0_state b) (c0_ports b) w = (Inr (cont [(''c0_schema_results'', VSchemas schemas)]), w)"
proof -
  have "\<exists>y. check_schema (c0_state b) (c0_ports b) ty w = (Inr y, w)" if "ty \<in> set required_artifacts" for ty
  proof -
    from that have "\<exists>d. digest_fields ty (c0_body b (c0_ref ty)) = Inr d"
      by (rule required_cases) (simp_all only: c0_fields c0_portfolio_fields, simp_all)
    then obtain d where "digest_fields ty (c0_body b (c0_ref ty)) = Inr d" ..
    then have "read_model (c0_ports b) (c0_state b) (c0_ref ty) (digest_fields ty) w = (Inr d, w)" by (simp add: c0_read_model)
    moreover have "ty \<noteq> [] \<and> ref_schema (c0_ref ty) = ''1.0''" using that
      by (rule required_cases) (simp_all add: digest_ref_def demo_ref_def c0_quality_ref_def)
    ultimately show ?thesis
      by (simp add: check_schema_def c0_state_refs[OF that] validation_errors_def Let_def checked_def valid_schema_result_def bindI_def)
  qed
  from for_each_total[of required_artifacts "check_schema (c0_state b) (c0_ports b)" w, OF this] show ?thesis by (auto simp: handle_c0_20_def bindI_def)
qed

lemma c0_30_runs: "\<exists>chain. handle_c0_30 demo_c0 (c0_state b) (c0_ports b) w = (Inr (cont [(''c0_digest_chain'', VChain chain)]), w)"
proof -
  let ?refs = "map (\<lambda>ty. (ty, c0_ref ty)) required_artifacts"
  have refs: "mapR (\<lambda>ty. bindR (require_ref (c0_state b) ty) (\<lambda>r. Inr (ty, r))) required_artifacts = Inr ?refs"
    by (rule mapR_total) (simp add: c0_state_refs)
  have "\<exists>y. check_link (c0_state b) (c0_ports b) ?refs l w = (Inr y, w)" if "l \<in> set digest_links" for l
  proof -
    obtain child field parent where l: "l = (child, field, parent)" by (cases l)
    from that l have in_set: "child \<in> set required_artifacts" "parent \<in> set required_artifacts" by (auto simp: digest_links_def required_artifacts_def)
    have "\<exists>d. digest_fields child (c0_body b (c0_ref child)) = Inr d \<and> map_of d field \<noteq> None"
      using that unfolding l digest_links_def list.set
      by (elim insertE emptyE Pair_inject) (simp_all only: c0_fields c0_portfolio_fields, simp_all)
    then obtain d x where d: "digest_fields child (c0_body b (c0_ref child)) = Inr d" "map_of d field = Some x" by auto
    have dig: "valid_digest (ref_digest (c0_ref ty))" if "ty \<in> set required_artifacts" for ty
      using that by (rule required_cases) (simp_all add: c0_digests)
    have "child \<noteq> []" using in_set(1) by (rule required_cases) simp_all
    moreover have "map_of ?refs child = Some (c0_ref child)" "map_of ?refs parent = Some (c0_ref parent)" using in_set by (simp_all add: map_of_map_restrict)
    ultimately show ?thesis
      using dig[OF in_set(1)] dig[OF in_set(2)] d(2)
      by (simp add: check_link_def l index_def bindI_def c0_read_model d(1) Let_def checked_def valid_link_def del: c0_ref_sel)
  qed
  from for_each_total[of digest_links "check_link (c0_state b) (c0_ports b) ?refs" w, OF this] show ?thesis by (auto simp: handle_c0_30_def refs bindI_def)
qed

lemma c0_40_runs:
  "\<exists>verdicts. handle_c0_40 demo_c0 (c0_state b) (c0_ports b) w = (Inr (cont [(''c0_equivalence_verdicts'', VEquivalence verdicts)]), w)"
proof -
  have r: "read_request (c0_ports b) (c0_state b) w = (Inr demo_request, w)"
    using c0_decodes(1) by (simp add: read_request_def c0_state_refs c0_required c0_read_model bindI_def liftI_def)
  show ?thesis by (simp add: handle_c0_40_def bindI_Inr r c0_read_typed c0_required c0_decodes cont_def del: c0_ref_sel)
qed

lemma c0_50_runs:
  "\<exists>checks. handle_c0_50 demo_c0 (c0_state b) (c0_ports b) w = (Inr (cont [(''c0_freshness_checks'', VFreshness checks)]), w)"
proof -
  have f: "source_fresh demo_c0 \<lparr>sn_path = ''/repo'', sn_revision = Some ''abc'', sn_files = []\<rparr> w = (Inr True, w)"
    by (simp add: source_fresh_def demo_c0_def git_def strip_def is_space_def bindI_def)
  show ?thesis by (simp add: handle_c0_50_def bindI_Inr c0_read_typed c0_required c0_decodes f cont_def Let_def del: c0_ref_sel)
qed

lemma c0_60_runs:
  assumes "c0_schemas st = Inr schemas" "c0_chain st = Inr chain" "c0_equivalence st = Inr verdicts" "c0_freshness st = Inr checks"
    and "list_all valid_schema_result schemas" "schemas \<noteq> []" "list_all valid_link chain" "chain \<noteq> []"
    and "list_all valid_equivalence verdicts" "verdicts \<noteq> []" "list_all valid_freshness checks" "checks \<noteq> []"
    and st: "\<And>k. k \<in> {''case_id'', ''tenant_id'', ''artifact_refs''} \<Longrightarrow> st k = c0_state b k"
  shows "\<exists>ex. handle_c0_60 demo_c0 st (c0_ports b) w = (Inr ex, w)"
proof -
  have s: "required_state_str st ''case_id'' = Inr ''c''" "required_state_str st ''tenant_id'' = Inr ''t''" "get_refs st ''artifact_refs'' = c0_refs b"
    using c0_state_sel[of b] st by (simp_all add: required_state_str_def get_str_def get_refs_def)
  then have "require_ref st ''SolutionPortfolio'' = Inr (c0_ref ''SolutionPortfolio'')"
    using c0_state_refs[of "''SolutionPortfolio''" b] by (simp add: require_ref_def try_ref_def c0_required)
  then have p: "read_portfolio (c0_ports b) st w = (Inr [demo_strategy], w)" for w
    using c0_decodes(6)[of b] by (simp add: read_portfolio_def read_model_def s c0_reads c0_store_def bindI_def liftI_def)
  let ?d = "decide_convergence (c0_origin st) schemas chain verdicts checks [demo_strategy]"
  have "valid_convergence ?d" using assms(5-12) by (auto simp: valid_convergence_def decide_convergence_def gates_hold_def Let_def)
  then have "\<exists>ref. c0_seal demo_c0 (c0_ports b) st ''C0.60'' ''ConvergenceDecision'' [] (valid_convergence ?d) (BConvergence ?d) w = (Inr ref, w)"
    by (simp add: c0_seal_def lane_envelope_def valid_envelope_def len_in_def put_envelope_def c0_ports_def demo_ports_def mk_ref_def checked_def
      valid_ref_def demo_ref_def demo_digest_valid demo_c0_def Let_def bindI_def s)
  then show ?thesis using p by (auto simp: handle_c0_60_def assms(1-4) bindI_Inr Let_def)
qed

lemma c0_lists_valid:
  "handle_c0_20 e st ports w = (Inr (cont [(''c0_schema_results'', VSchemas schemas)]), w') \<Longrightarrow> list_all valid_schema_result schemas \<and> schemas \<noteq> []"
  "handle_c0_30 e st ports w = (Inr (cont [(''c0_digest_chain'', VChain chain)]), w') \<Longrightarrow> list_all valid_link chain \<and> chain \<noteq> []"
  "handle_c0_40 e st ports w = (Inr (cont [(''c0_equivalence_verdicts'', VEquivalence verdicts)]), w') \<Longrightarrow> list_all valid_equivalence verdicts \<and> verdicts \<noteq> []"
  "handle_c0_50 e st ports w = (Inr (cont [(''c0_freshness_checks'', VFreshness checks)]), w') \<Longrightarrow> list_all valid_freshness checks \<and> checks \<noteq> []"
proof -
  have each: "list_all P ys \<and> ys \<noteq> []" if "for_each f xs w = (Inr ys, w')" "xs \<noteq> []" "\<And>x v y v'. f x v = (Inr y, v') \<Longrightarrow> P y"
    for f :: "'x \<Rightarrow> ('w, 'y) io" and P :: "'y \<Rightarrow> bool" and xs ys w w'
    using for_each_Inr[OF that(1)] that(2,3) by (force simp: list_all2_conv_all_nth list_all_length)
  show "list_all valid_schema_result schemas \<and> schemas \<noteq> []"
    if "handle_c0_20 e st ports w = (Inr (cont [(''c0_schema_results'', VSchemas schemas)]), w')"
  proof -
    from that obtain v where "for_each (check_schema st ports) required_artifacts w = (Inr schemas, v)"
      by (auto simp: handle_c0_20_def cont_def elim!: bindI_result_Inr)
    then show ?thesis
      by (rule each) (auto simp: required_artifacts_def check_schema_def checked_def Let_def elim!: bindI_result_Inr split: if_splits)
  qed
  show "list_all valid_link chain \<and> chain \<noteq> []" if "handle_c0_30 e st ports w = (Inr (cont [(''c0_digest_chain'', VChain chain)]), w')"
  proof -
    from that obtain refs v where "for_each (check_link st ports refs) digest_links w = (Inr chain, v)"
      by (auto simp: handle_c0_30_def cont_def elim!: bindI_result_Inr)
    then show ?thesis
      by (rule each) (auto simp: digest_links_def check_link_def checked_def Let_def elim!: bindI_result_Inr split: if_splits prod.splits)
  qed
  show "list_all valid_equivalence verdicts \<and> verdicts \<noteq> []"
    if "handle_c0_40 e st ports w = (Inr (cont [(''c0_equivalence_verdicts'', VEquivalence verdicts)]), w')"
    using that by (auto simp: handle_c0_40_def cont_def equivalence_verdicts_def valid_equivalence_def Let_def elim!: bindI_result_Inr)
  show "list_all valid_freshness checks \<and> checks \<noteq> []" if "handle_c0_50 e st ports w = (Inr (cont [(''c0_freshness_checks'', VFreshness checks)]), w')"
    using that by (auto simp: handle_c0_50_def cont_def freshness_of_def valid_freshness_def Let_def elim!: bindI_result_Inr split: option.splits)
qed

lemma c0_run:
  obtains schemas chain verdicts checks ex st' where
    "handle_c0_20 demo_c0 (c0_state b) (c0_ports b) demo_world = (Inr (cont [(''c0_schema_results'', VSchemas schemas)]), demo_world)"
    "handle_c0_30 demo_c0 (c0_state b) (c0_ports b) demo_world = (Inr (cont [(''c0_digest_chain'', VChain chain)]), demo_world)"
    "handle_c0_40 demo_c0 (c0_state b) (c0_ports b) demo_world = (Inr (cont [(''c0_equivalence_verdicts'', VEquivalence verdicts)]), demo_world)"
    "handle_c0_50 demo_c0 (c0_state b) (c0_ports b) demo_world = (Inr (cont [(''c0_freshness_checks'', VFreshness checks)]), demo_world)"
    "st' = (c0_state b)(''c0_schema_results'' \<mapsto> VSchemas schemas, ''c0_digest_chain'' \<mapsto> VChain chain,
      ''c0_equivalence_verdicts'' \<mapsto> VEquivalence verdicts, ''c0_freshness_checks'' \<mapsto> VFreshness checks)"
    "handle_c0_60 demo_c0 st' (c0_ports b) demo_world = (Inr ex, demo_world)" "c0_equivalence st' = Inr verdicts"
proof -
  obtain schemas chain verdicts checks where r:
    "handle_c0_20 demo_c0 (c0_state b) (c0_ports b) demo_world = (Inr (cont [(''c0_schema_results'', VSchemas schemas)]), demo_world)"
    "handle_c0_30 demo_c0 (c0_state b) (c0_ports b) demo_world = (Inr (cont [(''c0_digest_chain'', VChain chain)]), demo_world)"
    "handle_c0_40 demo_c0 (c0_state b) (c0_ports b) demo_world = (Inr (cont [(''c0_equivalence_verdicts'', VEquivalence verdicts)]), demo_world)"
    "handle_c0_50 demo_c0 (c0_state b) (c0_ports b) demo_world = (Inr (cont [(''c0_freshness_checks'', VFreshness checks)]), demo_world)"
    using c0_20_runs[of b demo_world] c0_30_runs[of b demo_world] c0_40_runs[of b demo_world] c0_50_runs[of b demo_world] by (elim exE)
  note v = c0_lists_valid(1)[OF r(1)] c0_lists_valid(2)[OF r(2)] c0_lists_valid(3)[OF r(3)] c0_lists_valid(4)[OF r(4)]
  let ?st = "(c0_state b)(''c0_schema_results'' \<mapsto> VSchemas schemas, ''c0_digest_chain'' \<mapsto> VChain chain,
      ''c0_equivalence_verdicts'' \<mapsto> VEquivalence verdicts, ''c0_freshness_checks'' \<mapsto> VFreshness checks)"
  have l: "c0_schemas ?st = Inr schemas" "c0_chain ?st = Inr chain" "c0_equivalence ?st = Inr verdicts" "c0_freshness ?st = Inr checks"
    by (simp_all add: c0_schemas_def c0_chain_def c0_equivalence_def c0_freshness_def)
  have same: "\<And>k. k \<in> {''case_id'', ''tenant_id'', ''artifact_refs''} \<Longrightarrow> ?st k = c0_state b k" by auto
  obtain ex where "handle_c0_60 demo_c0 ?st (c0_ports b) demo_world = (Inr ex, demo_world)"
    using c0_60_runs[OF l v(1)[THEN conjunct1] v(1)[THEN conjunct2] v(2)[THEN conjunct1] v(2)[THEN conjunct2] v(3)[THEN conjunct1] v(3)[THEN conjunct2]
      v(4)[THEN conjunct1] v(4)[THEN conjunct2] same] by blast
  then show thesis using r l(3) by (intro that) simp_all
qed

theorem convergence_gate_exact_witness:
  "\<exists>st' ex. handle_c0_60 demo_c0 st' (c0_ports False) demo_world = (Inr ex, demo_world) \<and> ex_route ex = CONTINUE"
proof (rule c0_run[of False])
  fix schemas chain verdicts checks ex st'
  assume r: "handle_c0_20 demo_c0 (c0_state False) (c0_ports False) demo_world = (Inr (cont [(''c0_schema_results'', VSchemas schemas)]), demo_world)"
    "handle_c0_30 demo_c0 (c0_state False) (c0_ports False) demo_world = (Inr (cont [(''c0_digest_chain'', VChain chain)]), demo_world)"
    "handle_c0_40 demo_c0 (c0_state False) (c0_ports False) demo_world = (Inr (cont [(''c0_equivalence_verdicts'', VEquivalence verdicts)]), demo_world)"
    "handle_c0_50 demo_c0 (c0_state False) (c0_ports False) demo_world = (Inr (cont [(''c0_freshness_checks'', VFreshness checks)]), demo_world)"
    and st': "st' = (c0_state False)(''c0_schema_results'' \<mapsto> VSchemas schemas, ''c0_digest_chain'' \<mapsto> VChain chain,
      ''c0_equivalence_verdicts'' \<mapsto> VEquivalence verdicts, ''c0_freshness_checks'' \<mapsto> VFreshness checks)"
    and h: "handle_c0_60 demo_c0 st' (c0_ports False) demo_world = (Inr ex, demo_world)"
  have f: "source_fresh demo_c0 \<lparr>sn_path = ''/repo'', sn_revision = Some ''abc'', sn_files = []\<rparr> demo_world = (Inr True, demo_world)"
    by (simp add: source_fresh_def demo_c0_def git_def strip_def is_space_def bindI_def)
  have now: "\<exists>i \<in> set (eb_evidence (demo_bundle\<lparr>eb_baseline := rep_digest CHR ''b''\<rparr>)). c0_clock demo_c0 demo_world - instant (ei_observed i) \<le> freshness_window"
    by (simp add: demo_bundle_def demo_item_def demo_c0_def freshness_window_def demo_world_def)
  have body: "env_body (c0_store False r) = c0_body False r" for r by (simp add: c0_store_def)
  have links: "list_all (linked (\<lambda>ty. c0_body False (c0_ref ty)) c0_ref) digest_links"
    by (simp add: digest_links_def linked_def c0_fields c0_portfolio_fields del: c0_ref_sel) simp
  have w: "wl_id (req_workload demo_request) = ''w''" "wl_environment (req_workload demo_request) = ''e''" by (simp_all add: demo_request_def)
  from convergence_gate_exact[of "c0_ports False" "c0_store False" "c0_state False" c0_ref, OF c0_reads c0_state_refs r h[unfolded st'], unfolded body c0_decodes]
  have "ex_route ex = CONTINUE" using links f now w by (auto simp: c0_quality_def)
  with h show ?thesis by blast
qed

theorem revised_analysis_never_converges_witness:
  "\<exists>st' ex. handle_c0_60 demo_c0 st' (c0_ports True) demo_world = (Inr ex, demo_world) \<and> ex_route ex = REJECTED"
proof (rule c0_run[of True])
  fix schemas chain verdicts checks ex st'
  assume c40: "handle_c0_40 demo_c0 (c0_state True) (c0_ports True) demo_world = (Inr (cont [(''c0_equivalence_verdicts'', VEquivalence verdicts)]), demo_world)"
    and h: "handle_c0_60 demo_c0 st' (c0_ports True) demo_world = (Inr ex, demo_world)" and v: "c0_equivalence st' = Inr verdicts"
  have m: "merge_artifact_refs [] (c0_refs True) = Inr (get_refs (c0_state True) ''artifact_refs'')" unfolding c0_state_sel by code_simp
  have "str_int 1 = ''1''" by code_simp
  then have ids: "stage_artifact_id ''c'' (a3_stage ''A3.81'' 0) ''A3QualityReport'' = ref_id (c0_quality_ref 0)"
    "stage_artifact_id ''c'' (a3_stage ''A3.81'' 1) ''A3QualityReport'' = ref_id (c0_quality_ref 1)"
    by (simp_all add: stage_artifact_id_def a3_stage_def c0_quality_ref_def)
  have reports: "\<exists>n \<in> {0, 1, 2}. ref_id r = stage_artifact_id ''c'' (a3_stage ''A3.81'' n) ''A3QualityReport''"
    if "r \<in> set (get_refs (c0_state True) ''artifact_refs'')" "ref_type r = ''A3QualityReport''" for r
    using that ids by (auto simp: c0_refs_def)
  have failed: "decode_a3_quality (env_body (c0_store True (c0_quality_ref 0))) = Inr (c0_quality False)" using c0_decodes(7)[of True] by (simp add: c0_store_def)
  have "ex_route ex = REJECTED"
    by (rule revised_analysis_never_converges[of "c0_ports True" "c0_store True" "[]" "c0_refs True", OF c0_reads m reports _ _ _ failed _ c40 h v])
      (simp_all add: ids c0_refs_def c0_quality_def)
  with h show ?thesis by blast
qed

end
