(* ===== verification/Intake.thy ===== *)
theory Intake
  imports Strategies Graphs
begin

text \<open>
  Stage A1, the intake of a manual case (\<open>application/a1_handlers/\<close>, nodes A1.10 to A1.95): the authenticated payload, the draft
  merged from structured fields and extracted text, the identity of the source, the profile of the project, scope, objective,
  criteria, guardrail, budget, workload and evidence requirements, the quality gate A1.80, the approval A1.90 and the frozen
  request A1.95. Parameters are the digests, the clock, the file system, git, the model and the printing of texts and numbers in
  messages. A path is the list of its parts below the root of the file system. Letters and digits are those of ASCII.
\<close>

section \<open>The environment and the artifacts\<close>

text \<open>A file that the walk of \<open>rglob\<close> meets: its parts below the walked directory and its size, none when \<open>stat\<close> fails.\<close>

type_synonym walk_entry = "string list \<times> int option"

record extracted_intent =
  xt_statement :: "string option"
  xt_feature :: "string option"
  xt_metric :: "string option"
  xt_direction :: "criterion_direction option"
  xt_target :: "rat option"
  xt_unit :: "string option"
  xt_guardrail :: "string option"
  xt_workload :: "string option"
  xt_dataset :: "string option"
  xt_environment :: "string option"
  xt_hypothesis :: "string option"
  xt_confidence :: rat

definition valid_extracted :: "extracted_intent \<Rightarrow> bool" where
  "valid_extracted x \<longleftrightarrow> pred_option (len_in 0 4000) (xt_statement x) \<and> pred_option (len_in 0 255) (xt_feature x) \<and>
     pred_option (len_in 0 255) (xt_metric x) \<and> pred_option (\<lambda>t. 0 \<le> t) (xt_target x) \<and> pred_option (len_in 0 100) (xt_unit x) \<and>
     pred_option (len_in 0 255) (xt_guardrail x) \<and> pred_option (len_in 0 255) (xt_workload x) \<and> pred_option (len_in 0 255) (xt_dataset x) \<and>
     pred_option (len_in 0 255) (xt_environment x) \<and> pred_option (len_in 0 2000) (xt_hypothesis x) \<and> 0 \<le> xt_confidence x \<and> xt_confidence x \<le> 1"

record 'w a1_env =
  ae_sha :: "blob \<Rightarrow> string"
  ae_text_sha :: "string \<Rightarrow> string"              \<comment> \<open>\<open>sha256_digest\<close> of a text\<close>
  ae_dict_sha :: "string dict \<Rightarrow> string"         \<comment> \<open>\<open>sha256_digest\<close> of the canonical JSON of a dictionary\<close>
  ae_clock :: "'w \<Rightarrow> int"
  ae_tools :: "'w tools"
  ae_resolve :: "'w \<Rightarrow> string \<Rightarrow> string list"      \<comment> \<open>\<open>Path(text).resolve()\<close>\<close>
  ae_is_dir :: "'w \<Rightarrow> string list \<Rightarrow> bool"
  ae_is_file :: "'w \<Rightarrow> string list \<Rightarrow> bool"
  ae_walk :: "'w \<Rightarrow> string \<Rightarrow> walk_entry list"      \<comment> \<open>the files of \<open>rglob\<close>, in its order\<close>
  ae_model :: "(model_request \<Rightarrow> ('w, extracted_intent completion) io) option"
  ae_repr :: "string \<Rightarrow> string"
  ae_fmt :: "rat \<Rightarrow> string"                      \<comment> \<open>with two decimals\<close>

definition a1_routes :: "string \<Rightarrow> string list" where
  "a1_routes node =
     (if node = ''A1.80'' then [''continue'', ''clarification'', ''rejected'']
      else if node = ''A1.90'' then [''continue'', ''approval'', ''rejected'']
      else [''continue''])"

text \<open>\<open>x or default\<close> for an optional text or number, and the default only for \<open>None\<close>.\<close>

definition text_or :: "string option \<Rightarrow> string \<Rightarrow> string" where
  "text_or x d = (if truthy x then the x else d)"

definition int_or :: "int option \<Rightarrow> int \<Rightarrow> int" where
  "int_or x d = (case x of None \<Rightarrow> d | Some n \<Rightarrow> if n = 0 then d else n)"

definition given :: "'a option \<Rightarrow> 'a \<Rightarrow> 'a" where
  "given x d = (case x of None \<Rightarrow> d | Some v \<Rightarrow> v)"

definition a1_seal :: "'w a1_env \<Rightarrow> 'w node_ports \<Rightarrow> state \<Rightarrow> string \<Rightarrow> string \<Rightarrow> string list \<Rightarrow> bool \<Rightarrow> body \<Rightarrow> ('w, artifact_ref) io" where
  "a1_seal e ports st node ty parents ok b = (\<lambda>w.
     bindI (liftI (bindR (lane_envelope st ty parents b (ae_clock e w)) (\<lambda>x. checked ty ok x))) (\<lambda>x.
     put_envelope (ae_sha e) ports st x node) w)"

definition read_payload :: "'w node_ports \<Rightarrow> state \<Rightarrow> ('w, artifact_ref \<times> manual_payload) io" where
  "read_payload ports st =
     bindI (liftI (require_ref st ''ManualCasePayload'')) (\<lambda>ref.
     bindI (liftI (required_state_str st ''tenant_id'')) (\<lambda>tenant.
     bindI (np_read ports tenant ref) (\<lambda>content.
     liftI (case content of PayloadJson p \<Rightarrow> checked ''ManualCasePayload'' (valid_payload p) (ref, p)
            | _ \<Rightarrow> Inl (ValidationError ''ManualCasePayload'')))))"

definition decode_draft :: "body \<Rightarrow> request_draft result" where
  "decode_draft b = (case b of BRequestDraft x \<Rightarrow> checked ''RawRequestDraft'' (valid_draft x) x | _ \<Rightarrow> Inl (ValidationError ''RawRequestDraft''))"

definition decode_identity :: "body \<Rightarrow> source_identity result" where
  "decode_identity b = (case b of BSourceIdentity x \<Rightarrow> checked ''LocalSourceIdentity'' (valid_identity x) x
     | _ \<Rightarrow> Inl (ValidationError ''LocalSourceIdentity''))"

definition decode_profile :: "body \<Rightarrow> project_profile result" where
  "decode_profile b = (case b of BProfile x \<Rightarrow> checked ''ProjectProfile'' (valid_profile x) x | _ \<Rightarrow> Inl (ValidationError ''ProjectProfile''))"

definition decode_scope :: "body \<Rightarrow> feature_scope result" where
  "decode_scope b = (case b of BScope x \<Rightarrow> checked ''FeatureScope'' (valid_feature_scope x) x | _ \<Rightarrow> Inl (ValidationError ''FeatureScope''))"

definition decode_objective :: "body \<Rightarrow> canonical_objective result" where
  "decode_objective b = (case b of BObjective x \<Rightarrow> checked ''CanonicalObjective'' (valid_canonical x) x
     | _ \<Rightarrow> Inl (ValidationError ''CanonicalObjective''))"

definition decode_criteria :: "body \<Rightarrow> (criterion list \<times> string list) result" where
  "decode_criteria b = (case b of BCriterionSet cs m \<Rightarrow> checked ''CriterionSet'' (list_all valid_criterion cs) (cs, m)
     | _ \<Rightarrow> Inl (ValidationError ''CriterionSet''))"

definition decode_guardrails :: "body \<Rightarrow> (guardrail list \<times> string list) result" where
  "decode_guardrails b = (case b of BGuardrailSet gs m \<Rightarrow> checked ''GuardrailSet'' (list_all valid_guardrail gs) (gs, m)
     | _ \<Rightarrow> Inl (ValidationError ''GuardrailSet''))"

definition decode_budget :: "body \<Rightarrow> (execution_budget \<times> string) result" where
  "decode_budget b = (case b of BBudget x v \<Rightarrow> checked ''ExecutionBudgetArtifact'' (valid_budget x \<and> v \<noteq> []) (x, v)
     | _ \<Rightarrow> Inl (ValidationError ''ExecutionBudgetArtifact''))"

definition decode_workload :: "body \<Rightarrow> workload_identity result" where
  "decode_workload b = (case b of BWorkload x \<Rightarrow> checked ''WorkloadIdentity'' (valid_workload_identity x) x
     | _ \<Rightarrow> Inl (ValidationError ''WorkloadIdentity''))"

definition decode_requirements :: "body \<Rightarrow> (evidence_requirement list \<times> string list) result" where
  "decode_requirements b = (case b of BRequirements rs m \<Rightarrow> checked ''EvidenceRequirementSet'' (list_all valid_requirement rs) (rs, m)
     | _ \<Rightarrow> Inl (ValidationError ''EvidenceRequirementSet''))"

definition decode_a1_quality :: "body \<Rightarrow> a1_quality result" where
  "decode_a1_quality b = (case b of BA1Quality x \<Rightarrow> checked ''A1QualityReport'' (valid_a1_quality x) x
     | _ \<Rightarrow> Inl (ValidationError ''A1QualityReport''))"

definition decode_a1_approval :: "body \<Rightarrow> a1_approval result" where
  "decode_a1_approval b = (case b of BA1Approval x \<Rightarrow> checked ''A1ApprovalDecision'' (valid_a1_approval x) x
     | _ \<Rightarrow> Inl (ValidationError ''A1ApprovalDecision''))"

definition refs_update :: "artifact_ref \<Rightarrow> node_execution" where
  "refs_update ref = cont [(''artifact_refs'', VRefs [ref])]"

section \<open>A1.10: the authenticated payload\<close>

definition get_actor :: "state \<Rightarrow> actor_context result" where
  "get_actor st =
     (let check = \<lambda>a. checked ''ActorContext'' (act_id a \<noteq> [] \<and> act_tenant a \<noteq> [] \<and> act_roles a \<noteq> []) a in
      case st ''actor_context'' of
        Some (VActor a) \<Rightarrow> check a
      | Some (VPlain (VActor a)) \<Rightarrow> check a
      | _ \<Rightarrow> Inl (ValidationError ''ActorContext''))"

definition input_mode :: "manual_payload \<Rightarrow> string" where
  "input_mode p =
     (let structured = mp_feature p \<noteq> None \<or> mp_metric p \<noteq> None \<or> mp_direction p \<noteq> None \<or> mp_target p \<noteq> None \<or> mp_unit p \<noteq> None \<or>
            mp_workload p \<noteq> None \<or> mp_environment p \<noteq> None in
      if truthy (mp_text p) \<and> structured then ''mixed'' else if truthy (mp_text p) then ''raw'' else ''structured'')"

definition authenticate :: "actor_context \<Rightarrow> string \<Rightarrow> manual_payload \<Rightarrow> unit result" where
  "authenticate actor tenant p =
     (if act_tenant actor \<noteq> tenant then Inl (ValueError ''authenticated actor tenant does not match the case tenant'')
      else if act_id actor \<noteq> mp_actor p then Inl (ValueError ''payload actor_id does not match the authenticated actor'')
      else if mp_role p \<notin> set (act_roles actor) then Inl (ValueError ''payload actor_role is not granted to the authenticated actor'')
      else if \<not> tz_aware (act_authenticated actor) then Inl (ValueError ''authenticated_at must be timezone-aware'')
      else Inr ())"

definition handle_a1_10 :: "'w a1_env \<Rightarrow> state \<Rightarrow> 'w node_ports \<Rightarrow> ('w, node_execution) io" where
  "handle_a1_10 e st ports =
     bindI (read_payload ports st) (\<lambda>(payload_ref, p).
     bindI (liftI (get_actor st)) (\<lambda>actor.
     bindI (liftI (required_state_str st ''tenant_id'')) (\<lambda>tenant.
     bindI (liftI (authenticate actor tenant p)) (\<lambda>_.
     let x = \<lparr>ik_mode = input_mode p, ik_actor = mp_actor p, ik_role = mp_role p, ik_path = mp_path p, ik_root = mp_root p,
               ik_payload = ref_digest payload_ref\<rparr> in
     bindI (a1_seal e ports st ''A1.10'' ''IntakeEnvelope'' [ref_digest payload_ref] (valid_intake x) (BIntake x)) (\<lambda>ref.
     retI (refs_update ref))))))"

section \<open>A1.20: the draft\<close>

definition extraction_messages :: "string \<Rightarrow> nat \<Rightarrow> (string \<times> string) list" where
  "extraction_messages text attempt =
     [(''system'', ''Extract only facts explicitly stated by the requester. Use null for unknowns; '' @
         ''never invent paths, commands, metrics, units, targets, or workload identifiers. '' @
         ''direction must be minimize, maximize, target, or null. Return JSON only.''), (''user'', text)] @
     (if attempt = 0 then [] else
        [(''user'', ''The prior response was invalid. Return exactly one JSON object matching the schema.'')])"

text \<open>The loop of two attempts, with the tokens still allowed.\<close>

fun extract_loop :: "(model_request \<Rightarrow> ('w, extracted_intent completion) io) \<Rightarrow> state \<Rightarrow> string \<Rightarrow> nat \<Rightarrow> nat \<Rightarrow> int \<Rightarrow> ('w, extracted_intent option) io" where
  "extract_loop ask st text attempt 0 budget = retI None"
| "extract_loop ask st text attempt (Suc n) budget =
     bindI (liftI (required_state_str st ''case_id'')) (\<lambda>cid.
     bindI (ask \<lparr>mq_messages = extraction_messages text attempt, mq_key = cid @ '':A1.20:extract:'' @ str_nat (attempt + 1)\<rparr>) (\<lambda>result.
     if budget < co_tokens result then retI None
     else case (if co_valid result then co_parsed result else None) of
         Some x \<Rightarrow> if valid_extracted x then retI (Some x)
            else if budget - co_tokens result \<le> 0 then retI None
            else extract_loop ask st text (attempt + 1) n (budget - co_tokens result)
       | None \<Rightarrow> if budget - co_tokens result \<le> 0 then retI None
            else extract_loop ask st text (attempt + 1) n (budget - co_tokens result)))"

definition extract_raw_intent :: "'w a1_env \<Rightarrow> state \<Rightarrow> manual_payload \<Rightarrow> ('w, extracted_intent option) io" where
  "extract_raw_intent e st p =
     (case (mp_text p, ae_model e) of
        (Some text, Some ask) \<Rightarrow>
          let budget = given (mp_tokens p) 1000 in if budget \<le> 0 then retI None else extract_loop ask st text 0 2 budget
      | _ \<Rightarrow> retI None)"

text \<open>One field of the draft: the structured value wins over the extracted one, which wins over the primary criterion. A note has
  the name of the field, where its value comes from and the conflict between the two sources.\<close>

definition merged :: "'a option \<Rightarrow> 'a option \<Rightarrow> 'a option \<Rightarrow> 'a option" where
  "merged primary raw structured = (if structured \<noteq> None then structured else if raw \<noteq> None then raw else primary)"

definition merge_note :: "string \<Rightarrow> 'a option \<Rightarrow> 'a option \<Rightarrow> string \<times> string option \<times> string option" where
  "merge_note f raw structured =
     (f, if structured \<noteq> None then Some ''structured_payload'' else if raw \<noteq> None then Some ''raw_text:model'' else None,
      if raw \<noteq> None \<and> structured \<noteq> None \<and> raw \<noteq> structured then Some (f @ '': raw and structured values disagree'') else None)"

fun direction_name :: "criterion_direction \<Rightarrow> string" where
  "direction_name Minimize = ''minimize''"
| "direction_name Maximize = ''maximize''"
| "direction_name Target = ''target''"

definition of_extracted :: "extracted_intent option \<Rightarrow> (extracted_intent \<Rightarrow> 'a option) \<Rightarrow> 'a option" where
  "of_extracted x f = (case x of None \<Rightarrow> None | Some i \<Rightarrow> f i)"

definition merge_notes :: "extracted_intent option \<Rightarrow> manual_payload \<Rightarrow> (string \<times> string option \<times> string option) list" where
  "merge_notes x p =
     [merge_note ''feature_id'' (of_extracted x xt_feature) (mp_feature p), merge_note ''metric_id'' (of_extracted x xt_metric) (mp_metric p),
      merge_note ''direction'' (of_extracted x xt_direction) (mp_direction p), merge_note ''target'' (of_extracted x xt_target) (mp_target p),
      merge_note ''unit'' (of_extracted x xt_unit) (mp_unit p), merge_note ''guardrail_metric_id'' (of_extracted x xt_guardrail) (mp_guardrail p),
      merge_note ''workload_id'' (of_extracted x xt_workload) (mp_workload p), merge_note ''dataset_id'' (of_extracted x xt_dataset) (mp_dataset p),
      merge_note ''environment_id'' (of_extracted x xt_environment) (mp_environment p),
      merge_note ''requester_hypothesis'' (of_extracted x xt_hypothesis) (mp_hypothesis p)]"

definition note_provenance :: "string dict \<Rightarrow> string \<times> string option \<times> string option \<Rightarrow> string dict" where
  "note_provenance d = (\<lambda>(f, source, _). case source of None \<Rightarrow> d | Some s \<Rightarrow> AList.update f s d)"

text \<open>\<open>_REQUIRED_DRAFT_FIELDS\<close>, with the values of a draft.\<close>

definition unresolved_fields :: "request_draft \<Rightarrow> string list" where
  "unresolved_fields d =
     (if rq_feature d = None then [''feature_id''] else []) @ (if rq_metric d = None then [''metric_id''] else []) @
     (if rq_direction d = None then [''direction''] else []) @ (if rq_target d = None then [''target''] else []) @
     (if rq_unit d = None then [''unit''] else []) @ (if rq_workload d = None then [''workload_id''] else []) @
     (if rq_environment d = None then [''environment_id''] else [])"

definition draft_from_payload :: "extracted_intent option \<Rightarrow> manual_payload \<Rightarrow> request_draft" where
  "draft_from_payload x p =
     (let primary = max_by cn_weight (mp_criteria p);
          commands = (case mp_commands p of None \<Rightarrow> None | Some d \<Rightarrow> if d = [] then None else Some d);
          notes = merge_notes x p;
          conflicts = List.map_filter (\<lambda>(_, _, c). c) notes;
          provenance = foldl note_provenance
            ((if primary = None then [] else map (\<lambda>f. (f, ''structured_payload:criteria'')) [''metric_id'', ''direction'', ''target'', ''unit'']) @
             (if commands = None then [] else [(''commands'', ''structured_payload'')])) notes;
          guardrail = merged None (of_extracted x xt_guardrail) (mp_guardrail p);
          provenance = (if truthy guardrail then provenance else AList.update ''guardrail_metric_id'' ''policy_default'' provenance);
          feature = merged None (of_extracted x xt_feature) (mp_feature p);
          metric = merged (map_option cn_metric primary) (of_extracted x xt_metric) (mp_metric p);
          direction = merged (map_option cn_direction primary) (of_extracted x xt_direction) (mp_direction p);
          said = (if truthy (of_extracted x xt_statement) then of_extracted x xt_statement else mp_text p);
          derived = \<not> truthy said \<and> truthy feature \<and> truthy metric;
          statement = (if derived then Some (''Optimize '' @ the feature @ '': '' @ the metric @ '' ('' @
              (case direction of None \<Rightarrow> ''unspecified'' | Some d \<Rightarrow> direction_name d) @ '')'') else said);
          provenance = (if derived then AList.update ''objective_statement'' ''structured_payload:derived'' provenance
            else if truthy said then AList.update ''objective_statement'' ''raw_text'' provenance else provenance);
          confidence = (if \<not> truthy (mp_text p) then 1 else case x of None \<Rightarrow> 0 | Some i \<Rightarrow> xt_confidence i);
          d = \<lparr>rq_statement = statement, rq_feature = feature, rq_metric = metric, rq_direction = direction,
            rq_target = merged (map_option cn_target primary) (of_extracted x xt_target) (mp_target p),
            rq_unit = merged (map_option cn_unit primary) (of_extracted x xt_unit) (mp_unit p), rq_criteria = mp_criteria p,
            rq_guardrail = (if truthy guardrail then guardrail else Some ''unit_command_result''),
            rq_workload = merged None (of_extracted x xt_workload) (mp_workload p), rq_dataset = merged None (of_extracted x xt_dataset) (mp_dataset p),
            rq_environment = merged None (of_extracted x xt_environment) (mp_environment p), rq_commands = commands,
            rq_confidence = (if conflicts = [] then confidence else min confidence (1 / 2)), rq_unresolved = [],
            rq_hypothesis = merged None (of_extracted x xt_hypothesis) (mp_hypothesis p), rq_provenance = provenance, rq_conflicts = conflicts\<rparr> in
      d\<lparr>rq_unresolved := unresolved_fields d\<rparr>)"

definition handle_a1_20 :: "'w a1_env \<Rightarrow> state \<Rightarrow> 'w node_ports \<Rightarrow> ('w, node_execution) io" where
  "handle_a1_20 e st ports =
     bindI (read_payload ports st) (\<lambda>(_, p).
     bindI (extract_raw_intent e st p) (\<lambda>x.
     let d = draft_from_payload x p in
     bindI (a1_seal e ports st ''A1.20'' ''RawRequestDraft'' [] (valid_draft d) (BRequestDraft d)) (\<lambda>ref.
     retI (refs_update ref))))"

section \<open>A1.30: the identity of the source\<close>

definition path_str :: "string list \<Rightarrow> string" where
  "path_str parts = ''/'' @ join ''/'' parts"

definition relative_str :: "string list \<Rightarrow> string" where
  "relative_str parts = (if parts = [] then ''.'' else join ''/'' parts)"

definition is_relative_to :: "string list \<Rightarrow> string list \<Rightarrow> bool" where
  "is_relative_to p base \<longleftrightarrow> take (length base) p = base"

text \<open>\<open>_git\<close>: the empty text when the command cannot be run or fails.\<close>

definition a1_git :: "'w a1_env \<Rightarrow> string list \<Rightarrow> string list \<Rightarrow> ('w, string) io" where
  "a1_git e cwd args = bindI (git (ae_tools e) (path_str cwd) args) (\<lambda>out. retI (given out []))"

text \<open>The lines of a text that are not blank; \<open>splitlines\<close> knows more than one end of line.\<close>

definition line_end :: "char \<Rightarrow> bool" where
  "line_end c \<longleftrightarrow> of_char c \<in> {10, 11, 12, 13, 28, 29, 30, 133 :: nat}"

definition filled_lines :: "string \<Rightarrow> string list" where
  "filled_lines s = filter (\<lambda>l. \<not> blank l) (split_on (CHR 0x0A) (map (\<lambda>c. if line_end c then CHR 0x0A else c) s))"

definition repository_id :: "'w a1_env \<Rightarrow> string list \<Rightarrow> string" where
  "repository_id e p = take 32 (ae_text_sha e (path_str p))"

definition identify_source :: "'w a1_env \<Rightarrow> state \<Rightarrow> 'w node_ports \<Rightarrow> string list \<Rightarrow> string list \<Rightarrow> ('w, node_execution) io" where
  "identify_source e st ports base path =
     bindI (a1_git e path [''rev-parse'', ''--show-toplevel'']) (\<lambda>toplevel. \<lambda>w1.
     let exact = toplevel \<noteq> [] \<and> ae_resolve e w1 toplevel = path in
     bindI (if exact then a1_git e path [''rev-parse'', ''HEAD''] else retI []) (\<lambda>revision.
     bindI (if exact then a1_git e path [''status'', ''--porcelain=v1''] else retI []) (\<lambda>status.
     let dirty = filled_lines status;
         x = \<lparr>ls_repository = repository_id e path, ls_root = path_str base, ls_canonical = path_str path,
               ls_relative = relative_str (drop (length base) path), ls_revision = (if revision = [] then None else Some revision),
               ls_dirty = dirty \<noteq> [], ls_untracked = int (length (filter (\<lambda>l. startswith l ''??'') dirty))\<rparr> in
     bindI (a1_seal e ports st ''A1.30'' ''LocalSourceIdentity'' [] (valid_identity x) (BSourceIdentity x)) (\<lambda>ref.
     retI (refs_update ref)))) w1)"

definition handle_a1_30 :: "'w a1_env \<Rightarrow> state \<Rightarrow> 'w node_ports \<Rightarrow> ('w, node_execution) io" where
  "handle_a1_30 e st ports =
     bindI (read_payload ports st) (\<lambda>(_, p). \<lambda>w0.
     let base = ae_resolve e w0 (mp_root p); path = ae_resolve e w0 (mp_path p) in
     (if \<not> ae_is_dir e w0 base then failI (ValueError ''allowed root is not a directory'')
      else if \<not> ae_is_dir e w0 path then failI (ValueError ''local source path is not a directory'')
      else if \<not> is_relative_to path base then failI (ValueError ''local source path escapes the allowed root'')
      else identify_source e st ports base path) w0)"

section \<open>A1.40: the profile of the project\<close>

definition max_discovery_files :: int where
  "max_discovery_files = 500"

definition vendor_dir_markers :: "string list" where
  "vendor_dir_markers = [''.git'', ''node_modules'', ''vendor'', ''__pycache__'', ''.venv'']"

definition is_vendor_path :: "string \<Rightarrow> bool" where
  "is_vendor_path relative \<longleftrightarrow> list_ex (\<lambda>part. part \<in> set vendor_dir_markers) (split_on CHR ''/'' relative)"

definition discovered_vendor_markers :: "string list \<Rightarrow> string list" where
  "discovered_vendor_markers paths =
     sorted_set (filter (\<lambda>m. m \<in> set vendor_dir_markers \<and> m \<notin> {''.git'', ''__pycache__''}) (concat (map (split_on CHR ''/'') paths)))"

definition language_for_suffix :: "string \<Rightarrow> string option" where
  "language_for_suffix suffix =
     map_of [(''.py'', ''python''), (''.ts'', ''typescript''), (''.tsx'', ''typescript''), (''.js'', ''javascript''), (''.jsx'', ''javascript''),
       (''.go'', ''go''), (''.rs'', ''rust''), (''.java'', ''java''), (''.cs'', ''csharp''), (''.sol'', ''solidity'')] suffix"

text \<open>\<open>PurePath.suffix\<close>: from the last dot of the name on, unless that dot is its first or its last character.\<close>

definition path_suffix :: "string \<Rightarrow> string" where
  "path_suffix name =
     (let ext = rev (takeWhile (\<lambda>c. c \<noteq> CHR ''.'') (rev name)) in
      if ext \<noteq> [] \<and> length ext + 1 < length name then CHR ''.'' # ext else [])"

record discovery =
  dy_suffixes :: "int dict"
  dy_manifests :: "string list"
  dy_sources :: "string list"
  dy_tests :: "string list"
  dy_vendor :: "string list"
  dy_files :: int
  dy_bytes :: int
  dy_unreadable :: "string list"
  dy_truncated :: bool

definition no_discovery :: discovery where
  "no_discovery = \<lparr>dy_suffixes = [], dy_manifests = [], dy_sources = [], dy_tests = [], dy_vendor = [], dy_files = 0, dy_bytes = 0,
     dy_unreadable = [], dy_truncated = False\<rparr>"

text \<open>What one file adds; \<open>walked\<close> is the name of the directory that is walked, the parent of the files directly in it.\<close>

definition record_file :: "string \<Rightarrow> walk_entry \<Rightarrow> discovery \<Rightarrow> discovery" where
  "record_file walked file d =
     (let parts = fst file; name = last parts; parents = butlast parts; relative = join ''/'' parts; suffix = lower (path_suffix name);
          parent_name = (if parents = [] then walked else last parents) in
      d\<lparr>dy_bytes := dy_bytes d + given (snd file) 0,
        dy_unreadable := dy_unreadable d @ (if snd file = None then [relative] else []),
        dy_sources := dy_sources d @ [relative],
        dy_suffixes := (if suffix = [] then dy_suffixes d else AList.update suffix (dict_get (dy_suffixes d) suffix 0 + 1) (dy_suffixes d)),
        dy_manifests := dy_manifests d @ (if name \<in> {''pyproject.toml'', ''package.json'', ''go.mod'', ''Cargo.toml''} then [relative] else []),
        dy_tests := dy_tests d @ (if parent_name \<in> {''test'', ''tests'', ''__tests__''} then [relative_str parents] else [])\<rparr>)"

fun discover :: "string \<Rightarrow> walk_entry list \<Rightarrow> discovery \<Rightarrow> discovery" where
  "discover walked [] d = d"
| "discover walked (file # files) d =
     (if is_vendor_path (join ''/'' (fst file)) then discover walked files (d\<lparr>dy_vendor := dy_vendor d @ [join ''/'' (fst file)]\<rparr>)
      else if max_discovery_files < dy_files d + 1 then d\<lparr>dy_files := dy_files d + 1, dy_truncated := True\<rparr>
      else discover walked files (record_file walked file (d\<lparr>dy_files := dy_files d + 1\<rparr>)))"

definition language_shares :: "int dict \<Rightarrow> rat dict" where
  "language_shares counts =
     (let sum = sum_list (map snd counts); total = (if sum = 0 then 1 else sum) in
      py_dict (List.map_filter (\<lambda>(suffix, n). map_option (\<lambda>l. (l, of_int n / of_int total)) (language_for_suffix suffix)) counts))"

definition profile_of :: "string \<Rightarrow> walk_entry list \<Rightarrow> project_profile" where
  "profile_of walked files =
     (let d = discover walked files no_discovery in
      \<lparr>pf_languages = language_shares (dy_suffixes d), pf_manifests = sort (dy_manifests d), pf_tests = sorted_set (dy_tests d),
       pf_sources = sort (dy_sources d), pf_vendor = take 100 (sort (dy_vendor d)), pf_files = dy_files d, pf_bytes = dy_bytes d,
       pf_truncated = dy_truncated d, pf_unreadable = take 100 (dy_unreadable d)\<rparr>)"

definition handle_a1_40 :: "'w a1_env \<Rightarrow> state \<Rightarrow> 'w node_ports \<Rightarrow> ('w, node_execution) io" where
  "handle_a1_40 e st ports =
     bindI (read_typed ports st ''LocalSourceIdentity'' decode_identity) (\<lambda>(_, source). \<lambda>w.
     let x = profile_of (basename (ls_canonical source)) (ae_walk e w (ls_canonical source)) in
     bindI (a1_seal e ports st ''A1.40'' ''ProjectProfile'' [] (valid_profile x) (BProfile x)) (\<lambda>ref.
     retI (refs_update ref)) w)"

section \<open>A1.50: the scope\<close>

definition is_alnum :: "char \<Rightarrow> bool" where
  "is_alnum c \<longleftrightarrow> of_char c \<in> {48..57 :: nat} \<union> {65..90} \<union> {97..122}"

definition normalized_name :: "string \<Rightarrow> string" where
  "normalized_name s = filter is_alnum (lower s)"

definition scope_candidates :: "string \<Rightarrow> project_profile \<Rightarrow> string list" where
  "scope_candidates feature profile =
     sort (filter (\<lambda>path. normalized_name feature \<noteq> [] \<and> contains (normalized_name feature) (normalized_name path)) (pf_sources profile))"

definition scope_of :: "request_draft \<Rightarrow> source_identity \<Rightarrow> project_profile \<Rightarrow> feature_scope" where
  "scope_of draft source profile =
     (let feature = text_or (rq_feature draft) ''unknown-feature'';
          markers = discovered_vendor_markers (pf_vendor profile);
          candidates = scope_candidates feature profile in
      \<lparr>fe_feature = feature,
       fe_include = (if candidates \<noteq> [] then take 100 candidates else [if ls_relative source = ''.'' then ''*'' else ls_relative source]),
       fe_exclude = [''.git/**'', ''**/__pycache__/**''] @
         (if markers \<noteq> [] then map (\<lambda>m. ''**/'' @ m @ ''/**'') markers else [''node_modules/**'']),
       fe_confidence = (if candidates \<noteq> [] then 95 / 100 else if truthy (rq_feature draft) then 8 / 10 else 0),
       fe_rationale = (if candidates \<noteq> [] then ''scope is bounded to the authenticated repository and supported by matching project paths''
         else ''requester-declared feature is bounded to the authenticated repository; no narrower path match was proven''),
       fe_support = take 50 candidates\<rparr>)"

definition handle_a1_50 :: "'w a1_env \<Rightarrow> state \<Rightarrow> 'w node_ports \<Rightarrow> ('w, node_execution) io" where
  "handle_a1_50 e st ports =
     bindI (read_typed ports st ''RawRequestDraft'' decode_draft) (\<lambda>(draft_ref, draft).
     bindI (read_typed ports st ''LocalSourceIdentity'' decode_identity) (\<lambda>(_, source).
     bindI (read_typed ports st ''ProjectProfile'' decode_profile) (\<lambda>(profile_ref, profile).
     let x = scope_of draft source profile in
     bindI (a1_seal e ports st ''A1.50'' ''FeatureScope'' [ref_digest draft_ref, ref_digest profile_ref] (valid_feature_scope x) (BScope x)) (\<lambda>ref.
     retI (refs_update ref)))))"

section \<open>A1.60 to A1.63: objective, criteria, guardrail and budget\<close>

definition canonical_of :: "request_draft \<Rightarrow> feature_scope \<Rightarrow> canonical_objective" where
  "canonical_of draft scope =
     (let missing = (if truthy (rq_statement draft) then [] else [''objective_statement'']) @
            (if fe_confidence scope \<le> 0 \<or> fe_feature scope = ''unknown-feature'' then [''feature_id''] else []) in
      \<lparr>cb_objective = (if missing = [] then Some (text_or (rq_statement draft) [], fe_feature scope) else None),
       cb_hypothesis = rq_hypothesis draft, cb_missing = missing\<rparr>)"

definition handle_a1_60 :: "'w a1_env \<Rightarrow> state \<Rightarrow> 'w node_ports \<Rightarrow> ('w, node_execution) io" where
  "handle_a1_60 e st ports =
     bindI (read_typed ports st ''RawRequestDraft'' decode_draft) (\<lambda>(draft_ref, draft).
     bindI (read_typed ports st ''FeatureScope'' decode_scope) (\<lambda>(scope_ref, scope).
     let x = canonical_of draft scope in
     bindI (a1_seal e ports st ''A1.60'' ''CanonicalObjective'' [ref_digest draft_ref, ref_digest scope_ref] (valid_canonical x) (BObjective x)) (\<lambda>ref.
     retI (refs_update ref))))"

definition dash_strip :: "string \<Rightarrow> string" where
  "dash_strip s = rev (dropWhile (\<lambda>c. c = CHR ''-'') (rev (dropWhile (\<lambda>c. c = CHR ''-'') s)))"

definition criterion_id :: "string \<Rightarrow> string" where
  "criterion_id name =
     (let slug = dash_strip (map (\<lambda>c. if is_alnum c then c else CHR ''-'') (lower name)) in if slug = [] then ''criterion'' else slug)"

fun acceptance_operator :: "criterion_direction option \<Rightarrow> guard_operator" where
  "acceptance_operator (Some Maximize) = Gte"
| "acceptance_operator (Some Target) = Eq"
| "acceptance_operator _ = Lte"

definition mk_criterion :: "string \<Rightarrow> string \<Rightarrow> criterion_direction \<Rightarrow> rat \<Rightarrow> string \<Rightarrow> rat \<Rightarrow> criterion result" where
  "mk_criterion i metric_name direction target unit weight =
     bindR (resolve_metric metric_name (Some unit) (Some direction)) (\<lambda>m.
     let c = \<lparr>cr_id = i, cr_metric = metric_name, cr_direction = direction, cr_target = target, cr_weight = weight,
               cr_aggregation = md_aggregation m, cr_unit = unit, cr_operator = acceptance_operator (Some direction)\<rparr> in
     checked ''Criterion'' (valid_criterion c) c)"

definition criteria_of :: "request_draft \<Rightarrow> (criterion list \<times> string list) result" where
  "criteria_of draft =
     (if rq_criteria draft \<noteq> [] then
        bindR (mapR (\<lambda>c. mk_criterion (criterion_id (cn_metric c)) (cn_metric c) (cn_direction c) (cn_target c) (cn_unit c) (cn_weight c)) (rq_criteria draft))
          (\<lambda>cs. Inr (cs, []))
      else
        let missing = (if truthy (rq_metric draft) then [] else [''metric_id'']) @ (if rq_direction draft = None then [''direction''] else []) @
              (if rq_target draft = None then [''target''] else []) @ (if truthy (rq_unit draft) then [] else [''unit'']) in
        if missing = [] then
          bindR (mk_criterion ''primary'' (text_or (rq_metric draft) []) (given (rq_direction draft) Target) (given (rq_target draft) 0)
            (text_or (rq_unit draft) []) 1) (\<lambda>c. Inr ([c], []))
        else Inr ([], missing))"

definition handle_a1_61 :: "'w a1_env \<Rightarrow> state \<Rightarrow> 'w node_ports \<Rightarrow> ('w, node_execution) io" where
  "handle_a1_61 e st ports =
     bindI (read_typed ports st ''RawRequestDraft'' decode_draft) (\<lambda>(draft_ref, draft).
     bindI (liftI (criteria_of draft)) (\<lambda>(cs, missing).
     bindI (a1_seal e ports st ''A1.61'' ''CriterionSet'' [ref_digest draft_ref] True (BCriterionSet cs missing)) (\<lambda>ref.
     retI (refs_update ref))))"

definition guardrails_of :: "request_draft \<Rightarrow> (guardrail list \<times> string list) result" where
  "guardrails_of draft =
     (if truthy (rq_guardrail draft) then
        bindR (resolve_metric (text_or (rq_guardrail draft) []) (Some ''exit_code'') (Some Target)) (\<lambda>m.
        let g = \<lparr>gr_id = ''correctness'', gr_metric = text_or (rq_guardrail draft) [], gr_operator = Eq, gr_threshold = 0, gr_unit = md_unit m\<rparr> in
        bindR (checked ''Guardrail'' (valid_guardrail g) g) (\<lambda>g. Inr ([g], [])))
      else Inr ([], [''correctness_guardrail'']))"

definition handle_a1_62 :: "'w a1_env \<Rightarrow> state \<Rightarrow> 'w node_ports \<Rightarrow> ('w, node_execution) io" where
  "handle_a1_62 e st ports =
     bindI (read_typed ports st ''RawRequestDraft'' decode_draft) (\<lambda>(draft_ref, draft).
     bindI (liftI (guardrails_of draft)) (\<lambda>(gs, missing).
     bindI (a1_seal e ports st ''A1.62'' ''GuardrailSet'' [ref_digest draft_ref] True (BGuardrailSet gs missing)) (\<lambda>ref.
     retI (refs_update ref))))"

definition budget_of :: "manual_payload \<Rightarrow> execution_budget" where
  "budget_of p = \<lparr>bu_deadline = int_or (mp_deadline p) 300, bu_worker = given (mp_worker p) 180, bu_tokens = given (mp_tokens p) 4000,
     bu_storage = given (mp_storage p) 50000000, bu_analyzers = given (mp_analyzers p) [''tree-sitter'', ''semgrep''],
     bu_concurrency = int_or (mp_concurrency p) 1\<rparr>"

definition handle_a1_63 :: "'w a1_env \<Rightarrow> state \<Rightarrow> 'w node_ports \<Rightarrow> ('w, node_execution) io" where
  "handle_a1_63 e st ports =
     bindI (read_payload ports st) (\<lambda>(_, p).
     bindI (a1_seal e ports st ''A1.63'' ''ExecutionBudgetArtifact'' [] (valid_budget (budget_of p) \<and> mp_policy p \<noteq> [])
       (BBudget (budget_of p) (mp_policy p))) (\<lambda>ref.
     retI (refs_update ref)))"

section \<open>A1.70 and A1.71: workload and evidence\<close>

text \<open>Repetitions and warm-up runs.\<close>

definition workload_defaults_by_language :: "(string \<times> int \<times> int) list" where
  "workload_defaults_by_language = [(''python'', 1, 0), (''go'', 2, 1), (''rust'', 2, 1), (''typescript'', 3, 1), (''javascript'', 3, 1), (''java'', 2, 1),
     (''csharp'', 2, 1)]"

definition most_common_language :: "rat dict \<Rightarrow> string" where
  "most_common_language languages = (case max_by snd languages of None \<Rightarrow> ''unknown'' | Some (l, _) \<Rightarrow> l)"

definition workload_defaults_for_metric :: "string option \<Rightarrow> (int \<times> int) result" where
  "workload_defaults_for_metric metric_name =
     bindR (resolve_metric (text_or metric_name []) None None) (\<lambda>m. Inr (if md_aggregation m = ''verdict'' then (1, 0) else (3, 1)))"

definition workload_of :: "manual_payload \<Rightarrow> request_draft \<Rightarrow> project_profile \<Rightarrow> workload_identity result" where
  "workload_of p draft profile =
     (let missing = (if truthy (rq_workload draft) then [] else [''workload_id'']) @ (if truthy (rq_environment draft) then [] else [''environment_id'']) in
      if missing \<noteq> [] then Inr \<lparr>wi_workload = None, wi_execution = None, wi_missing = missing\<rparr>
      else
        bindR (workload_defaults_for_metric (rq_metric draft)) (\<lambda>(metric_repetitions, metric_warmup).
        let (repetitions, warmup) = dict_get workload_defaults_by_language (most_common_language (pf_languages profile)) (1, 0);
            l = \<lparr>wl_id = text_or (rq_workload draft) [], wl_dataset = rq_dataset draft, wl_environment = text_or (rq_environment draft) [],
                  wl_commands = rq_commands draft, wl_repetitions = int_or (mp_repetitions p) (max metric_repetitions repetitions),
                  wl_warmup = given (mp_warmup p) (max metric_warmup warmup), wl_concurrency = int_or (mp_concurrency p) 1,
                  wl_cache = text_or (mp_cache p) ''warm''\<rparr> in
        bindR (checked ''WorkloadContract'' (valid_workload l) l) (\<lambda>l.
        if \<not> mp_compose p then Inr \<lparr>wi_workload = Some l, wi_execution = None, wi_missing = []\<rparr>
        else
          let worker = int_or (mp_worker p) 180;
              x = \<lparr>cf_file = text_or (mp_compose_file p) [], cf_services = mp_services p, cf_evaluations = mp_evaluations p,
                    cf_startup = min worker 3600, cf_cleanup = min (max (worker div 3) 1) 600\<rparr> in
          bindR (checked ''ComposeExecutionContract'' (valid_compose x) x) (\<lambda>x.
          Inr \<lparr>wi_workload = Some l, wi_execution = Some x, wi_missing = []\<rparr>))))"

definition handle_a1_70 :: "'w a1_env \<Rightarrow> state \<Rightarrow> 'w node_ports \<Rightarrow> ('w, node_execution) io" where
  "handle_a1_70 e st ports =
     bindI (read_payload ports st) (\<lambda>(_, p).
     bindI (read_typed ports st ''RawRequestDraft'' decode_draft) (\<lambda>(draft_ref, draft).
     bindI (read_typed ports st ''ProjectProfile'' decode_profile) (\<lambda>(profile_ref, profile).
     bindI (liftI (workload_of p draft profile)) (\<lambda>x.
     bindI (a1_seal e ports st ''A1.70'' ''WorkloadIdentity'' [ref_digest draft_ref, ref_digest profile_ref] (valid_workload_identity x) (BWorkload x)) (\<lambda>ref.
     retI (refs_update ref))))))"

definition criterion_requirement :: "workload_contract \<Rightarrow> criterion \<Rightarrow> evidence_requirement result" where
  "criterion_requirement l c =
     bindR (resolve_metric (cr_metric c) (Some (cr_unit c)) (Some (cr_direction c))) (\<lambda>m.
     let r = \<lparr>er_id = ''evidence-'' @ cr_id c, er_criterion = cr_id c, er_sources = md_sources m, er_samples = max (wl_repetitions l) (md_samples m),
               er_metric = Some (cr_metric c), er_unit = Some (md_unit m), er_aggregation = cr_aggregation c\<rparr> in
     checked ''EvidenceRequirement'' (valid_requirement r) r)"

definition guardrail_requirement :: "guardrail \<Rightarrow> evidence_requirement result" where
  "guardrail_requirement g =
     bindR (resolve_metric (gr_metric g) (Some (gr_unit g)) None) (\<lambda>m.
     let r = \<lparr>er_id = ''guardrail-'' @ gr_id g, er_criterion = gr_id g, er_sources = md_sources m, er_samples = 1, er_metric = Some (gr_metric g),
               er_unit = Some (gr_unit g), er_aggregation = ''verdict''\<rparr> in
     checked ''EvidenceRequirement'' (valid_requirement r) r)"

definition requirements_of :: "criterion list \<times> string list \<Rightarrow> guardrail list \<times> string list \<Rightarrow> workload_identity \<Rightarrow>
    (evidence_requirement list \<times> string list) result" where
  "requirements_of criteria guardrails workload =
     (let missing = snd criteria @ snd guardrails @ wi_missing workload in
      case wi_workload workload of
        None \<Rightarrow> Inr ([], sorted_set (if ''workload_id'' \<in> set missing then missing else missing @ [''workload_id'']))
      | Some l \<Rightarrow>
          bindR (mapR (criterion_requirement l) (fst criteria)) (\<lambda>cs.
          bindR (mapR guardrail_requirement (fst guardrails)) (\<lambda>gs. Inr (cs @ gs, sorted_set missing))))"

definition handle_a1_71 :: "'w a1_env \<Rightarrow> state \<Rightarrow> 'w node_ports \<Rightarrow> ('w, node_execution) io" where
  "handle_a1_71 e st ports =
     bindI (read_typed ports st ''CriterionSet'' decode_criteria) (\<lambda>(criteria_ref, criteria).
     bindI (read_typed ports st ''GuardrailSet'' decode_guardrails) (\<lambda>(guardrails_ref, guardrails).
     bindI (read_typed ports st ''WorkloadIdentity'' decode_workload) (\<lambda>(workload_ref, workload).
     bindI (liftI (requirements_of criteria guardrails workload)) (\<lambda>(rs, missing).
     bindI (a1_seal e ports st ''A1.71'' ''EvidenceRequirementSet'' [ref_digest criteria_ref, ref_digest guardrails_ref, ref_digest workload_ref] True
       (BRequirements rs missing)) (\<lambda>ref.
     retI (refs_update ref))))))"

section \<open>A1.80: the quality gate\<close>

definition join_path :: "string list \<Rightarrow> string \<Rightarrow> string" where
  "join_path base file = (if startswith file ''/'' then file else path_str base @ ''/'' @ file)"

definition validate_compose_contract :: "'w a1_env \<Rightarrow> 'w \<Rightarrow> manual_payload \<Rightarrow> workload_identity \<Rightarrow> criterion list \<Rightarrow> guardrail list \<Rightarrow> string list" where
  "validate_compose_contract e w p workload criteria guardrails =
     (if \<not> mp_compose p then []
      else case wi_execution workload of
        None \<Rightarrow> [''docker_compose execution contract is required'']
      | Some x \<Rightarrow>
          let repository = ae_resolve e w (mp_path p); compose = ae_resolve e w (join_path repository (cf_file x));
              emitted = concat (map ce_metrics (cf_evaluations x));
              required = map cr_metric criteria @ map gr_metric guardrails in
          (if \<not> is_relative_to compose repository \<or> \<not> ae_is_file e w compose then [''compose_file must be an existing file inside the repository'']
           else []) @
          map (\<lambda>m. ''metric '' @ ae_repr e m @ '' is not bound to any declared evaluation'') (sorted_set (filter (\<lambda>m. m \<notin> set emitted) required)))"

definition binding_conflicts :: "(string \<Rightarrow> string) \<Rightarrow> evidence_requirement dict \<Rightarrow> criterion \<Rightarrow> string list result" where
  "binding_conflicts repr by_criterion c =
     (case map_of by_criterion (cr_id c) of
        None \<Rightarrow> Inr [''criterion '' @ repr (cr_id c) @ '' has no evidence requirement'']
      | Some r \<Rightarrow>
          bindR (resolve_metric (cr_metric c) (Some (cr_unit c)) (Some (cr_direction c))) (\<lambda>m. Inr (
            (if set (er_sources r) \<subseteq> set (md_sources m) then []
             else [''criterion '' @ repr (cr_id c) @ '' accepts evidence incompatible with metric '' @ repr (cr_metric c)]) @
            (if er_unit r = Some (cr_unit c) then [] else [''criterion '' @ repr (cr_id c) @ '' evidence unit is inconsistent'']))))"

definition validate_evidence_bindings :: "(string \<Rightarrow> string) \<Rightarrow> criterion list \<Rightarrow> evidence_requirement list \<Rightarrow> string list result" where
  "validate_evidence_bindings repr criteria requirements =
     bindR (mapR (binding_conflicts repr (py_dict (map (\<lambda>r. (er_criterion r, r)) requirements))) criteria) (\<lambda>xs. Inr (concat xs))"

text \<open>Invalid values and warnings.\<close>

definition validate_budget :: "workload_identity \<Rightarrow> execution_budget \<Rightarrow> string list \<times> string list" where
  "validate_budget workload b =
     ((case wi_workload workload of
         None \<Rightarrow> []
       | Some l \<Rightarrow>
           (if bu_worker b < wl_repetitions l + wl_warmup l then [''maximum_worker_seconds cannot execute the declared repetitions and warmups''] else []) @
           (if bu_concurrency b < wl_concurrency l then [''workload concurrency exceeds execution budget''] else [])),
      if bu_deadline b < bu_worker b then [''worker budget exceeds the wall-clock deadline and may be cut short''] else [])"

text \<open>What A1.80 has read.\<close>

record a1_case =
  ax_payload :: manual_payload
  ax_objective :: canonical_objective
  ax_criteria :: "criterion list \<times> string list"
  ax_guardrails :: "guardrail list \<times> string list"
  ax_workload :: workload_identity
  ax_evidence :: "evidence_requirement list \<times> string list"
  ax_draft :: request_draft
  ax_profile :: project_profile
  ax_scope :: feature_scope
  ax_budget :: execution_budget

definition a1_missing :: "a1_case \<Rightarrow> string list" where
  "a1_missing x = sorted_set (sorted_set (cb_missing (ax_objective x) @ snd (ax_criteria x) @ snd (ax_guardrails x) @ wi_missing (ax_workload x) @
     snd (ax_evidence x)) @ rq_unresolved (ax_draft x))"

definition a1_conflicts :: "'w a1_env \<Rightarrow> 'w \<Rightarrow> a1_case \<Rightarrow> string list result" where
  "a1_conflicts e w x =
     bindR (validate_evidence_bindings (ae_repr e) (fst (ax_criteria x)) (fst (ax_evidence x))) (\<lambda>bindings. Inr (
       rq_conflicts (ax_draft x) @
       (if fe_confidence (ax_scope x) < 7 / 10 then [''feature scope confidence '' @ ae_fmt e (fe_confidence (ax_scope x)) @ '' is below 0.70''] else []) @
       (if cb_objective (ax_objective x) = None then [''objective is not canonicalized''] else []) @
       (if fst (ax_criteria x) = [] then [''at least one primary criterion is required''] else []) @
       (if fst (ax_guardrails x) = [] then [''at least one correctness guardrail is required''] else []) @
       (if wi_workload (ax_workload x) = None then [''workload identity is required''] else []) @
       validate_compose_contract e w (ax_payload x) (ax_workload x) (fst (ax_criteria x)) (fst (ax_guardrails x)) @
       (if fst (ax_evidence x) = [] then [''evidence requirements are required''] else []) @
       bindings @
       (if pf_truncated (ax_profile x) then [''project discovery was truncated at '' @ str_int (pf_files (ax_profile x)) @
          '' files; analysis may be incomplete for very large repositories''] else [])))"

definition a1_quality_of :: "'w a1_env \<Rightarrow> 'w \<Rightarrow> a1_case \<Rightarrow> a1_quality result" where
  "a1_quality_of e w x =
     bindR (a1_conflicts e w x) (\<lambda>conflicts.
     let missing = a1_missing x; (invalid, warnings) = validate_budget (ax_workload x) (ax_budget x) in
     Inr \<lparr>ql_passed = (missing = [] \<and> conflicts = [] \<and> invalid = []), ql_missing = missing, ql_conflicts = conflicts, ql_invalid = invalid,
          ql_warnings = warnings, ql_owners = py_dict (map (\<lambda>k. (k, ''requester'')) (missing @ conflicts @ invalid)),
          ql_policy = mp_policy (ax_payload x)\<rparr>)"

definition a1_interrupt :: "state \<Rightarrow> string \<Rightarrow> string \<Rightarrow> string \<Rightarrow> string list \<Rightarrow> string \<Rightarrow> string \<Rightarrow> int \<Rightarrow> interrupt_envelope result" where
  "a1_interrupt st name stage digest decisions role policy now =
     bindR (required_state_str st ''case_id'') (\<lambda>cid.
     bindR (required_state_str st ''thread_id'') (\<lambda>thread.
     let i = \<lparr>int_id = cid @ name, int_case = cid, int_thread = thread, int_stage = stage, int_digest = digest, int_allowed = decisions, int_role = role,
               int_policy = policy, int_issued = Aware now, int_expires = Aware (now + 24 * 3600)\<rparr> in
     checked ''InterruptEnvelope'' (valid_interrupt i) i))"

definition clarification_decisions :: "string list" where
  "clarification_decisions = [''revise'', ''reject'']"

definition route_quality :: "'w a1_env \<Rightarrow> state \<Rightarrow> artifact_ref \<Rightarrow> string \<Rightarrow> a1_quality \<Rightarrow> ('w, node_execution) io" where
  "route_quality e st ref policy q = (\<lambda>w.
     (if ql_passed q then retI (refs_update ref)
      else bindI (liftI (a1_interrupt st ''-A1-CLARIFICATION'' ''A1.80'' (ref_digest ref) clarification_decisions ''requester'' policy (ae_clock e w)))
        (\<lambda>i. retI \<lparr>ex_route = CLARIFICATION, ex_updates = [(''artifact_refs'', VRefs [ref]), (''pending_interrupt'', VInterrupt i)]\<rparr>)) w)"

definition handle_a1_80 :: "'w a1_env \<Rightarrow> state \<Rightarrow> 'w node_ports \<Rightarrow> ('w, node_execution) io" where
  "handle_a1_80 e st ports =
     bindI (read_payload ports st) (\<lambda>(_, p).
     bindI (read_typed ports st ''CanonicalObjective'' decode_objective) (\<lambda>(objective_ref, objective).
     bindI (read_typed ports st ''CriterionSet'' decode_criteria) (\<lambda>(criteria_ref, criteria).
     bindI (read_typed ports st ''GuardrailSet'' decode_guardrails) (\<lambda>(guardrails_ref, guardrails).
     bindI (read_typed ports st ''WorkloadIdentity'' decode_workload) (\<lambda>(workload_ref, workload).
     bindI (read_typed ports st ''EvidenceRequirementSet'' decode_requirements) (\<lambda>(evidence_ref, evidence).
     bindI (read_typed ports st ''RawRequestDraft'' decode_draft) (\<lambda>(draft_ref, draft).
     bindI (read_typed ports st ''ProjectProfile'' decode_profile) (\<lambda>(profile_ref, profile).
     bindI (read_typed ports st ''FeatureScope'' decode_scope) (\<lambda>(scope_ref, scope).
     bindI (read_typed ports st ''ExecutionBudgetArtifact'' decode_budget) (\<lambda>(budget_ref, budget).
     bindI (liftI (required_state_str st ''case_id'')) (\<lambda>_. \<lambda>w.
     let x = \<lparr>ax_payload = p, ax_objective = objective, ax_criteria = criteria, ax_guardrails = guardrails, ax_workload = workload,
               ax_evidence = evidence, ax_draft = draft, ax_profile = profile, ax_scope = scope, ax_budget = fst budget\<rparr> in
     bindI (liftI (a1_quality_of e w x)) (\<lambda>q.
     bindI (a1_seal e ports st ''A1.80'' ''A1QualityReport'' (map ref_digest [objective_ref, criteria_ref, guardrails_ref, workload_ref, evidence_ref,
         draft_ref, profile_ref, scope_ref, budget_ref]) (valid_a1_quality q) (BA1Quality q)) (\<lambda>ref.
     route_quality e st ref (mp_policy p) q)) w)))))))))))"

section \<open>A1.90: the approval\<close>

definition fingerprint_fields :: "string \<Rightarrow> artifact_ref list \<Rightarrow> string dict" where
  "fingerprint_fields cid refs = (''case_id'', cid) #
     zip [''source'', ''scope'', ''objective'', ''criteria'', ''guardrails'', ''workload'', ''evidence'', ''budget''] (map ref_digest refs)"

definition request_fingerprint :: "'w a1_env \<Rightarrow> state \<Rightarrow> artifact_ref list \<Rightarrow> string result" where
  "request_fingerprint e st refs =
     bindR (required_state_str st ''case_id'') (\<lambda>cid. Inr (ae_dict_sha e (fingerprint_fields cid refs)))"

definition approval_binding_of :: "state \<Rightarrow> string \<Rightarrow> string \<Rightarrow> string \<Rightarrow> string \<Rightarrow> approval_binding result" where
  "approval_binding_of st actor role fingerprint policy =
     bindR (required_state_str st ''case_id'') (\<lambda>cid.
     let b = \<lparr>ab_id = cid @ ''-A1-APPROVAL'', ab_actor = actor, ab_role = role, ab_digest = fingerprint, ab_policy = policy\<rparr> in
     checked ''ApprovalBinding'' (valid_binding b) b)"

definition a1_decision :: "approval_binding option \<Rightarrow> string \<Rightarrow> string list \<Rightarrow> string \<Rightarrow> a1_approval" where
  "a1_decision b route reasons policy = \<lparr>aa_approved = b \<noteq> None, aa_binding = b, aa_route = route, aa_reasons = reasons, aa_policy = policy\<rparr>"

definition approval_facts :: "manual_payload \<Rightarrow> string \<Rightarrow> source_identity \<Rightarrow> feature_scope \<Rightarrow> sval dict" where
  "approval_facts p fingerprint source scope =
     [(''actor_id'', VStr (mp_actor p)), (''actor_role'', VStr (mp_role p)), (''request_fingerprint'', VStr fingerprint),
      (''repository_id'', VStr (ls_repository source)), (''feature_id'', VStr (fe_feature scope)), (''dirty'', VBool (ls_dirty source))]"

definition policy_approval :: "'w a1_env \<Rightarrow> state \<Rightarrow> manual_payload \<Rightarrow> string \<Rightarrow> policy_decision \<Rightarrow> a1_approval result" where
  "policy_approval e st p fingerprint d =
     (if \<not> pd_allowed d then Inr (a1_decision None ''rejected'' (pd_reasons d) (pd_version d))
      else if pd_decision d = ''require_approval'' then Inr (a1_decision None ''approval'' (pd_reasons d) (pd_version d))
      else if pd_decision d = ''allow'' then
        bindR (approval_binding_of st (mp_actor p) (mp_role p) fingerprint (pd_version d)) (\<lambda>b. Inr (a1_decision (Some b) ''continue'' (pd_reasons d) (pd_version d)))
      else Inr (a1_decision None ''rejected'' (pd_reasons d @ [''unsupported policy decision '' @ ae_repr e (pd_decision d)]) (pd_version d)))"

definition resumed_approval :: "'w a1_env \<Rightarrow> state \<Rightarrow> string \<Rightarrow> resume_command \<Rightarrow> a1_approval result" where
  "resumed_approval e st fingerprint c =
     (if rc_decision c = ''approve'' then
        bindR (first_role c) (\<lambda>role.
        bindR (approval_binding_of st (rc_actor c) role fingerprint (rc_policy c)) (\<lambda>b. Inr (a1_decision (Some b) ''continue'' [] (rc_policy c))))
      else Inr (a1_decision None ''rejected'' [''resumed with decision '' @ ae_repr e (rc_decision c)] (rc_policy c)))"

definition decide_request :: "'w a1_env \<Rightarrow> state \<Rightarrow> 'w node_ports \<Rightarrow> manual_payload \<Rightarrow> a1_quality \<Rightarrow> source_identity \<Rightarrow> feature_scope \<Rightarrow> string \<Rightarrow>
    ('w, a1_approval) io" where
  "decide_request e st ports p quality source scope fingerprint =
     bindI (liftI (get_resume st)) (\<lambda>resume.
     case resume of
       Some c \<Rightarrow> liftI (resumed_approval e st fingerprint c)
     | None \<Rightarrow>
         if \<not> ql_passed quality then retI (a1_decision None ''rejected'' (ql_missing quality @ ql_conflicts quality @ ql_invalid quality) (mp_policy p))
         else case np_policy ports of
           Some evaluate \<Rightarrow>
             bindI (liftI (required_state_str st ''tenant_id'')) (\<lambda>tenant.
             bindI (evaluate \<lparr>pq_type = ''a1.request_approval'', pq_version = mp_policy p, pq_tenant = tenant,
               pq_facts = approval_facts p fingerprint source scope\<rparr>) (\<lambda>d. liftI (policy_approval e st p fingerprint d)))
         | None \<Rightarrow>
             if mp_role p \<notin> {''owner'', ''approver'', ''platform_owner''}
             then retI (a1_decision None ''approval'' [''actor role requires approval''] (mp_policy p))
             else liftI (bindR (approval_binding_of st (mp_actor p) (mp_role p) fingerprint (mp_policy p)) (\<lambda>b.
               Inr (a1_decision (Some b) ''continue'' [] (mp_policy p)))))"

definition route_decision :: "'w a1_env \<Rightarrow> state \<Rightarrow> artifact_ref \<Rightarrow> a1_approval \<Rightarrow> ('w, node_execution) io" where
  "route_decision e st ref a = (\<lambda>w.
     (if aa_route a = ''continue'' then retI (refs_update ref)
      else if aa_route a \<noteq> ''approval'' then retI \<lparr>ex_route = REJECTED, ex_updates = [(''artifact_refs'', VRefs [ref])]\<rparr>
      else bindI (liftI (a1_interrupt st ''-A1-APPROVAL'' ''A1.90'' (ref_digest ref) [''approve'', ''reject''] ''owner'' (aa_policy a) (ae_clock e w))) (\<lambda>i.
        retI \<lparr>ex_route = APPROVAL, ex_updates = [(''artifact_refs'', VRefs [ref]), (''pending_interrupt'', VInterrupt i)]\<rparr>)) w)"

definition handle_a1_90 :: "'w a1_env \<Rightarrow> state \<Rightarrow> 'w node_ports \<Rightarrow> ('w, node_execution) io" where
  "handle_a1_90 e st ports =
     bindI (read_payload ports st) (\<lambda>(_, p).
     bindI (read_typed ports st ''A1QualityReport'' decode_a1_quality) (\<lambda>(quality_ref, quality).
     bindI (read_typed ports st ''CanonicalObjective'' decode_objective) (\<lambda>(objective_ref, _).
     bindI (read_typed ports st ''CriterionSet'' decode_criteria) (\<lambda>(criteria_ref, _).
     bindI (read_typed ports st ''GuardrailSet'' decode_guardrails) (\<lambda>(guardrails_ref, _).
     bindI (read_typed ports st ''WorkloadIdentity'' decode_workload) (\<lambda>(workload_ref, _).
     bindI (read_typed ports st ''EvidenceRequirementSet'' decode_requirements) (\<lambda>(evidence_ref, _).
     bindI (read_typed ports st ''ExecutionBudgetArtifact'' decode_budget) (\<lambda>(budget_ref, _).
     bindI (read_typed ports st ''LocalSourceIdentity'' decode_identity) (\<lambda>(source_ref, source).
     bindI (read_typed ports st ''FeatureScope'' decode_scope) (\<lambda>(scope_ref, scope).
     bindI (liftI (request_fingerprint e st [source_ref, scope_ref, objective_ref, criteria_ref, guardrails_ref, workload_ref, evidence_ref, budget_ref]))
       (\<lambda>fingerprint.
     bindI (decide_request e st ports p quality source scope fingerprint) (\<lambda>a.
     bindI (a1_seal e ports st ''A1.90'' ''A1ApprovalDecision'' (map ref_digest [quality_ref, objective_ref, criteria_ref, guardrails_ref, workload_ref,
         evidence_ref, budget_ref, source_ref, scope_ref]) (valid_a1_approval a) (BA1Approval a)) (\<lambda>ref.
     route_decision e st ref a)))))))))))))"

section \<open>A1.95: the frozen request\<close>

definition frozen_request :: "source_identity \<Rightarrow> feature_scope \<Rightarrow> objective \<Rightarrow> criterion list \<Rightarrow> guardrail list \<Rightarrow> workload_contract \<Rightarrow>
    compose_execution option \<Rightarrow> evidence_requirement list \<Rightarrow> execution_budget \<Rightarrow> approval_binding \<Rightarrow> string \<Rightarrow> optimization_request" where
  "frozen_request source scope objective criteria guardrails workload execution evidence budget binding fingerprint =
     \<lparr>req_origin = Manual, req_source = \<lparr>sf_repository = ls_repository source, sf_root = ls_root source, sf_path = ls_relative source,
        sf_revision = ls_revision source\<rparr>,
      req_scope = Some scope, req_objective = objective, req_criteria = criteria, req_guardrails = guardrails, req_workload = workload,
      req_execution = execution, req_requirements = evidence, req_budget = budget, req_approval = binding, req_fingerprint = fingerprint\<rparr>"

definition optimization_request_of :: "'w a1_env \<Rightarrow> state \<Rightarrow> 'w node_ports \<Rightarrow> ('w, optimization_request \<times> string list) io" where
  "optimization_request_of e st ports =
     bindI (read_typed ports st ''LocalSourceIdentity'' decode_identity) (\<lambda>(source_ref, source).
     bindI (read_typed ports st ''CanonicalObjective'' decode_objective) (\<lambda>(objective_ref, objective).
     bindI (read_typed ports st ''FeatureScope'' decode_scope) (\<lambda>(scope_ref, scope).
     bindI (read_typed ports st ''CriterionSet'' decode_criteria) (\<lambda>(criteria_ref, criteria).
     bindI (read_typed ports st ''GuardrailSet'' decode_guardrails) (\<lambda>(guardrails_ref, guardrails).
     bindI (read_typed ports st ''ExecutionBudgetArtifact'' decode_budget) (\<lambda>(budget_ref, budget).
     bindI (read_typed ports st ''WorkloadIdentity'' decode_workload) (\<lambda>(workload_ref, workload).
     bindI (read_typed ports st ''EvidenceRequirementSet'' decode_requirements) (\<lambda>(evidence_ref, evidence).
     bindI (read_typed ports st ''A1ApprovalDecision'' decode_a1_approval) (\<lambda>(approval_ref, approval).
     liftI (case cb_objective objective of
         None \<Rightarrow> Inl (ValueError ''A1.95 cannot freeze without CanonicalObjective.objective'')
       | Some goal \<Rightarrow>
     (case wi_workload workload of
         None \<Rightarrow> Inl (ValueError ''A1.95 cannot freeze without WorkloadIdentity.workload'')
       | Some l \<Rightarrow>
     (case aa_binding approval of
         None \<Rightarrow> Inl (ValueError ''A1.95 cannot freeze without an approved A1ApprovalDecision'')
       | Some b \<Rightarrow>
         if \<not> aa_approved approval then Inl (ValueError ''A1.95 cannot freeze without an approved A1ApprovalDecision'')
         else
           bindR (request_fingerprint e st [source_ref, scope_ref, objective_ref, criteria_ref, guardrails_ref, workload_ref, evidence_ref, budget_ref])
           (\<lambda>fingerprint.
           if ab_digest b \<noteq> fingerprint then Inl (ValueError ''A1 approval digest does not match the frozen request fingerprint'')
           else Inr (frozen_request source scope goal (fst criteria) (fst guardrails) l (wi_execution workload) (fst evidence) (fst budget) b fingerprint,
             map ref_digest [source_ref, scope_ref, objective_ref, criteria_ref, guardrails_ref, budget_ref, workload_ref, evidence_ref,
               approval_ref]))))))))))))))"

definition handle_a1_95 :: "'w a1_env \<Rightarrow> state \<Rightarrow> 'w node_ports \<Rightarrow> ('w, node_execution) io" where
  "handle_a1_95 e st ports =
     bindI (optimization_request_of e st ports) (\<lambda>(request, parents).
     bindI (a1_seal e ports st ''A1.95'' ''OptimizationRequest'' parents (valid_request request) (BRequest request)) (\<lambda>ref.
     retI (cont [(''request_ref'', VRef ref), (''artifact_refs'', VRefs [ref])])))"

definition a1_node_handlers :: "'w a1_env \<Rightarrow> (string \<times> (state \<Rightarrow> 'w node_ports \<Rightarrow> ('w, node_execution) io)) list" where
  "a1_node_handlers e =
     [(''A1.10'', handle_a1_10 e), (''A1.20'', handle_a1_20 e), (''A1.30'', handle_a1_30 e), (''A1.40'', handle_a1_40 e), (''A1.50'', handle_a1_50 e),
      (''A1.60'', handle_a1_60 e), (''A1.61'', handle_a1_61 e), (''A1.62'', handle_a1_62 e), (''A1.63'', handle_a1_63 e), (''A1.70'', handle_a1_70 e),
      (''A1.71'', handle_a1_71 e), (''A1.80'', handle_a1_80 e), (''A1.90'', handle_a1_90 e), (''A1.95'', handle_a1_95 e)]"

section \<open>What is sealed and read\<close>

lemma a1_seal_result:
  assumes "a1_seal e ports st node ty parents ok b w = (Inr ref, w')"
  obtains env where "ok" and "env_body env = b" and "env_parents env = parents" and "ref_type ref = ty" and "ref_digest ref = ae_sha e (Sealed env)"
proof -
  from assms obtain env v where "lane_envelope st ty parents b (ae_clock e w) = Inr env" "ok" and put: "put_envelope (ae_sha e) ports st env node v = (Inr ref, w')"
    by (auto simp: a1_seal_def checked_def bindR_Inr_iff elim!: bindI_result_Inr split: if_splits)
  moreover from this(1) have "env_body env = b" "env_parents env = parents" "env_type env = ty"
    by (auto simp: lane_envelope_def bindR_Inr_iff Let_def split: if_splits)
  moreover from put have "ref_type ref = env_type env" "ref_digest ref = ae_sha e (Sealed env)"
    by (auto simp: put_envelope_def mk_ref_def Let_def elim!: bindI_result_Inr split: if_splits)
  ultimately show thesis by (simp add: that)
qed

text \<open>A store that only answers: what is read depends on the reference.\<close>

definition body_of :: "blob \<Rightarrow> body" where
  "body_of c = (case c of Sealed env \<Rightarrow> env_body env | _ \<Rightarrow> BOther [])"

lemma read_typed_result:
  assumes "read_typed ports st ty decode w = (Inr (ref, x), w')" and "\<And>t r w. np_read ports t r w = (Inr (store r), w)"
  shows "require_ref st ty = Inr ref" and "decode (body_of (store ref)) = Inr x" and "w' = w"
  using assms(1) assms(2)
  by (auto simp: read_typed_def read_model_def body_of_def elim!: bindI_result_Inr split: blob.splits)

lemma read_typed_bind:
  assumes "bindI (read_typed ports st ty decode) (\<lambda>(ref, x). f ref x) w = (Inr y, w')" and "\<And>t r w. np_read ports t r w = (Inr (store r), w)"
  obtains ref x where "require_ref st ty = Inr ref" and "decode (body_of (store ref)) = Inr x" and "f ref x w = (Inr y, w')"
  using assms(1) by (elim bindI_result_Inr) (auto dest: read_typed_result[OF _ assms(2)] intro: that)

lemma read_typed_ref: "read_typed ports st ty decode w = (Inr (ref, x), w') \<Longrightarrow> require_ref st ty = Inr ref"
  by (auto simp: read_typed_def elim!: bindI_result_Inr)

lemma require_ref_mem: "require_ref st ty = Inr r \<Longrightarrow> r \<in> set (get_refs st ''artifact_refs'')"
  by (auto simp: require_ref_def try_ref_def find_Some_iff split: option.splits)

section \<open>The frozen request\<close>

definition frozen_types :: "string list" where
  "frozen_types = [''LocalSourceIdentity'', ''FeatureScope'', ''CanonicalObjective'', ''CriterionSet'', ''GuardrailSet'', ''WorkloadIdentity'',
     ''EvidenceRequirementSet'', ''ExecutionBudgetArtifact'']"

text \<open>A request says what the artifact of one of these types says.\<close>

definition says :: "optimization_request \<Rightarrow> body \<Rightarrow> bool" where
  "says r b \<longleftrightarrow>
     (case b of
        BSourceIdentity s \<Rightarrow> req_source r = \<lparr>sf_repository = ls_repository s, sf_root = ls_root s, sf_path = ls_relative s, sf_revision = ls_revision s\<rparr>
      | BScope f \<Rightarrow> req_scope r = Some f
      | BObjective g \<Rightarrow> cb_objective g = Some (req_objective r)
      | BCriterionSet cs _ \<Rightarrow> req_criteria r = cs
      | BGuardrailSet gs _ \<Rightarrow> req_guardrails r = gs
      | BWorkload l \<Rightarrow> wi_workload l = Some (req_workload r) \<and> wi_execution l = req_execution r
      | BRequirements es _ \<Rightarrow> req_requirements r = es
      | BBudget x _ \<Rightarrow> req_budget r = x
      | _ \<Rightarrow> False)"

lemma a1_90_result:
  assumes "handle_a1_90 e st ports w = (Inr ex, w')"
  obtains refs p q source scope fp a ref v1 v2 v3 parents where
    "mapR (require_ref st) frozen_types = Inr refs" "request_fingerprint e st refs = Inr fp"
    "decide_request e st ports p q source scope fp v1 = (Inr a, v2)"
    "a1_seal e ports st ''A1.90'' ''A1ApprovalDecision'' parents (valid_a1_approval a) (BA1Approval a) v2 = (Inr ref, v3)"
    "route_decision e st ref a v3 = (Inr ex, w')"
  using assms unfolding handle_a1_90_def
  by (elim bindI_result_Inr) (auto simp: frozen_types_def split: prod.splits dest!: read_typed_ref elim!: bindI_result_Inr intro: that)

lemma decoded_says:
  "decode_identity b = Inr s \<Longrightarrow> b = BSourceIdentity s" "decode_scope b = Inr f \<Longrightarrow> b = BScope f"
  "decode_objective b = Inr g \<Longrightarrow> b = BObjective g" "decode_criteria b = Inr cs \<Longrightarrow> b = BCriterionSet (fst cs) (snd cs)"
  "decode_guardrails b = Inr gs \<Longrightarrow> b = BGuardrailSet (fst gs) (snd gs)" "decode_workload b = Inr l \<Longrightarrow> b = BWorkload l"
  "decode_requirements b = Inr es \<Longrightarrow> b = BRequirements (fst es) (snd es)" "decode_budget b = Inr x \<Longrightarrow> b = BBudget (fst x) (snd x)"
  "decode_a1_approval b = Inr a \<Longrightarrow> b = BA1Approval a"
  by (auto simp: decode_identity_def decode_scope_def decode_objective_def decode_criteria_def decode_guardrails_def decode_workload_def
      decode_requirements_def decode_budget_def decode_a1_approval_def checked_def split: body.splits if_splits)

lemma optimization_request_result:
  assumes "optimization_request_of e st ports w = (Inr (request, parents), w')" and reads: "\<And>t r w. np_read ports t r w = (Inr (store r), w)"
  obtains refs fp dref a where
    "mapR (require_ref st) frozen_types = Inr refs" "request_fingerprint e st refs = Inr fp" "list_all (\<lambda>r. says request (body_of (store r))) refs"
    "require_ref st ''A1ApprovalDecision'' = Inr dref" "body_of (store dref) = BA1Approval a" "aa_approved a" "aa_binding a = Some (req_approval request)"
    "ab_digest (req_approval request) = fp" "req_fingerprint request = fp"
  using assms(1) unfolding optimization_request_of_def
  by (elim read_typed_bind[OF _ reads])
    (auto simp: frozen_types_def frozen_request_def says_def bindR_Inr_iff dest!: decoded_says split: option.splits if_splits intro: that)

lemma decision_binds:
  assumes "decide_request e st ports p q source scope fp w = (Inr a, w')" and "aa_binding a = Some b"
  shows "ab_digest b = fp"
  using assms
  by (auto simp: decide_request_def resumed_approval_def policy_approval_def approval_binding_of_def a1_decision_def checked_def bindR_Inr_iff Let_def
      elim!: bindI_result_Inr split: option.splits if_splits)

lemma fingerprint_fields_inject:
  assumes "fingerprint_fields c rs = fingerprint_fields c' rs'" and "length rs = 8" and "length rs' = 8"
  shows "map ref_digest rs = map ref_digest rs'"
proof -
  let ?n = "[''source'', ''scope'', ''objective'', ''criteria'', ''guardrails'', ''workload'', ''evidence'', ''budget'']"
  from assms(1) have "map snd (zip ?n (map ref_digest rs)) = map snd (zip ?n (map ref_digest rs'))" by (simp only: fingerprint_fields_def list.inject)
  then show ?thesis using assms(2,3) by (simp add: map_snd_zip)
qed

lemma approved_continues:
  assumes "decide_request e st ports p q source scope fp w = (Inr a, w')" and "aa_binding a = Some b"
  shows "aa_route a = ''continue''"
  using assms
  by (auto simp: decide_request_def resumed_approval_def policy_approval_def a1_decision_def bindR_Inr_iff
      elim!: bindI_result_Inr split: option.splits if_splits)

lemma route_decision_ref:
  assumes "route_decision e st ref a w = (Inr ex, w')" and "(''artifact_refs'', VRefs [d]) \<in> set (ex_updates ex)"
  shows "d = ref"
  using assms by (auto simp: route_decision_def refs_update_def cont_def elim!: bindI_result_Inr split: if_splits)

lemma same_contents:
  assumes "\<And>r c. r \<in> R \<union> R' \<Longrightarrow> sha c = ref_digest r \<longleftrightarrow> c = store r"
    and "set refs \<subseteq> R" and "set refs' \<subseteq> R'" and "map ref_digest refs' = map ref_digest refs"
  shows "map store refs' = map store refs"
proof (rule nth_equalityI)
  from assms(4) have l: "length refs' = length refs" by (metis length_map)
  then show "length (map store refs') = length (map store refs)" by simp
  fix i assume "i < length (map store refs')"
  then have i: "i < length refs" "i < length refs'" using l by simp_all
  with assms(2,3) have "refs ! i \<in> R" "refs' ! i \<in> R'" using nth_mem by blast+
  moreover have "ref_digest (refs' ! i) = ref_digest (refs ! i)" using assms(4) i by (metis nth_map)
  ultimately have "store (refs' ! i) = store (refs ! i)" using assms(1) by (metis UnI1 UnI2)
  then show "map store refs' ! i = map store refs ! i" using i by simp
qed

lemma required_refs_mem: "mapR (require_ref st) tys = Inr refs \<Longrightarrow> set refs \<subseteq> set (get_refs st ''artifact_refs'')"
  by (induction tys arbitrary: refs) (auto simp: bindR_Inr_iff dest: require_ref_mem)

text \<open>C15. What is frozen is what was approved. Let A1.90 decide in one state of the case and A1.95 freeze in a later one with that
  decision among its artifacts. When the store is content-addressed (each reference of the case reads a content with its digest and
  no other content has that digest) and nothing else has the fingerprint that A1.90 computed, the frozen request carries the
  approval of A1.90 and says exactly what the eight artifacts said that A1.90 read: nothing that was changed between the approval
  and the freezing can enter it.\<close>

theorem frozen_request_is_the_approved_one:
  assumes reads: "\<And>t r w. np_read ports t r w = (Inr (store r), w)"
    and content: "\<And>r c. r \<in> set (get_refs st ''artifact_refs'') \<union> set (get_refs st' ''artifact_refs'') \<Longrightarrow> ae_sha e c = ref_digest r \<longleftrightarrow> c = store r"
    and refs: "mapR (require_ref st) frozen_types = Inr refs" and cid: "required_state_str st ''case_id'' = Inr cid"
    and fields: "\<And>d. ae_dict_sha e d = ae_dict_sha e (fingerprint_fields cid refs) \<Longrightarrow> d = fingerprint_fields cid refs"
    and a90: "handle_a1_90 e st ports w = (Inr ex, w1)" and decision: "(''artifact_refs'', VRefs [d]) \<in> set (ex_updates ex)"
    and later: "require_ref st' ''A1ApprovalDecision'' = Inr d"
    and a95: "handle_a1_95 e st' ports w2 = (Inr ex', w3)"
  shows "ex_route ex = CONTINUE \<and> (\<exists>ref env request a. ex' = cont [(''request_ref'', VRef ref), (''artifact_refs'', VRefs [ref])] \<and>
     ref_digest ref = ae_sha e (Sealed env) \<and> env_body env = BRequest request \<and> list_all (\<lambda>r. says request (body_of (store r))) refs \<and>
     body_of (store d) = BA1Approval a \<and> aa_binding a = Some (req_approval request))"
proof -
  from a90 obtain fp p q source scope a ref v1 v2 v3 parents where fp: "request_fingerprint e st refs = Inr fp"
    and dec: "decide_request e st ports p q source scope fp v1 = (Inr a, v2)"
    and seal: "a1_seal e ports st ''A1.90'' ''A1ApprovalDecision'' parents (valid_a1_approval a) (BA1Approval a) v2 = (Inr ref, v3)"
    and route: "route_decision e st ref a v3 = (Inr ex, w1)"
    by (rule a1_90_result) (use refs in auto)
  have "d = ref" using decision by (rule route_decision_ref[OF route])
  moreover obtain env where "env_body env = BA1Approval a" "ref_digest ref = ae_sha e (Sealed env)" using seal by (rule a1_seal_result)
  ultimately have "store d = Sealed env" and body: "env_body env = BA1Approval a" using content[of d "Sealed env"] require_ref_mem[OF later] by auto
  then have d: "body_of (store d) = BA1Approval a" by (simp add: body_of_def)
  from a95 obtain request parents' v ref' where req: "optimization_request_of e st' ports w2 = (Inr (request, parents'), v)"
    and put: "a1_seal e ports st' ''A1.95'' ''OptimizationRequest'' parents' (valid_request request) (BRequest request) v = (Inr ref', w3)"
    and ex': "ex' = cont [(''request_ref'', VRef ref'), (''artifact_refs'', VRefs [ref'])]"
    by (auto simp: handle_a1_95_def elim!: bindI_result_Inr)
  obtain env' where env': "env_body env' = BRequest request" "ref_digest ref' = ae_sha e (Sealed env')" by (rule a1_seal_result[OF put])
  from req reads obtain refs' fp' dref a' where refs': "mapR (require_ref st') frozen_types = Inr refs'" and fp': "request_fingerprint e st' refs' = Inr fp'"
    and says: "list_all (\<lambda>r. says request (body_of (store r))) refs'" and dref: "require_ref st' ''A1ApprovalDecision'' = Inr dref"
    "body_of (store dref) = BA1Approval a'" "aa_binding a' = Some (req_approval request)" "ab_digest (req_approval request) = fp'"
    by (rule optimization_request_result)
  from dref later d have a': "aa_binding a = Some (req_approval request)" by simp
  with dec dref(4) have same: "fp = fp'" using decision_binds by metis
  from fp' obtain cid' where "fp' = ae_dict_sha e (fingerprint_fields cid' refs')" by (auto simp: request_fingerprint_def bindR_Inr_iff)
  with same fp cid have "fingerprint_fields cid' refs' = fingerprint_fields cid refs" by (intro fields) (simp add: request_fingerprint_def)
  then have eq: "map ref_digest refs' = map ref_digest refs"
    using mapR_Inr_length[OF refs] mapR_Inr_length[OF refs'] by (intro fingerprint_fields_inject) (simp_all add: frozen_types_def)
  have "map store refs' = map store refs"
    by (rule same_contents[OF _ required_refs_mem[OF refs] required_refs_mem[OF refs'] eq], erule content)
  moreover have "list_all (\<lambda>r. says request (body_of (store r))) rs \<longleftrightarrow> list_all (\<lambda>c. says request (body_of c)) (map store rs)" for rs
    by (simp add: list.pred_map comp_def)
  ultimately have "list_all (\<lambda>r. says request (body_of (store r))) refs" using says by metis
  moreover have "ex_route ex = CONTINUE" using route approved_continues[OF dec a'] by (auto simp: route_decision_def refs_update_def cont_def)
  ultimately show ?thesis using ex' env' d a' by blast
qed

section \<open>The source of a case\<close>

lemma identify_source_result:
  assumes "identify_source e st ports base (base @ below) w = (Inr ex, w')"
  shows "\<exists>ref env x. ex = refs_update ref \<and> ref_digest ref = ae_sha e (Sealed env) \<and> env_body env = BSourceIdentity x \<and> ls_root x = path_str base \<and>
     ls_canonical x = path_str (base @ below) \<and> ls_relative x = relative_str below \<and>
     (ls_revision x \<noteq> None \<longrightarrow> (\<exists>toplevel w1. a1_git e (base @ below) [''rev-parse'', ''--show-toplevel''] w = (Inr toplevel, w1) \<and>
        ae_resolve e w1 toplevel = base @ below))"
proof -
  let ?x = "\<lambda>revision status. \<lparr>ls_repository = repository_id e (base @ below), ls_root = path_str base, ls_canonical = path_str (base @ below),
    ls_relative = relative_str below, ls_revision = (if revision = [] then None else Some revision), ls_dirty = filled_lines status \<noteq> [],
    ls_untracked = int (length (filter (\<lambda>l. startswith l ''??'') (filled_lines status)))\<rparr>"
  from assms obtain toplevel w1 revision v2 status ref v3 where
    top: "a1_git e (base @ below) [''rev-parse'', ''--show-toplevel''] w = (Inr toplevel, w1)"
    and rev: "(if toplevel \<noteq> [] \<and> ae_resolve e w1 toplevel = base @ below then a1_git e (base @ below) [''rev-parse'', ''HEAD''] else retI []) w1 = (Inr revision, v2)"
    and seal: "a1_seal e ports st ''A1.30'' ''LocalSourceIdentity'' [] (valid_identity (?x revision status)) (BSourceIdentity (?x revision status)) v3 = (Inr ref, w')"
    and ex: "ex = refs_update ref"
    unfolding identify_source_def Let_def by (elim bindI_result_Inr) (auto elim!: bindI_result_Inr)
  define x where "x = ?x revision status"
  have x: "ls_root x = path_str base" "ls_canonical x = path_str (base @ below)" "ls_relative x = relative_str below"
    "ls_revision x = (if revision = [] then None else Some revision)" by (simp_all add: x_def)
  obtain env where "env_body env = BSourceIdentity x" "ref_digest ref = ae_sha e (Sealed env)" using seal unfolding x_def[symmetric] by (rule a1_seal_result)
  moreover have "ae_resolve e w1 toplevel = base @ below" if "ls_revision x \<noteq> None" using rev that x(4) by (auto split: if_splits)
  ultimately show ?thesis using top x ex by blast
qed

text \<open>C18. A case is bound to a directory inside the root the requester was allowed: when A1.30 succeeds, the requested path,
  resolved, is a directory that lies below the resolved root, the sealed identity names exactly that directory by the root and the
  path below it, and it carries a git revision only if the directory itself is the top of a git work tree, never that of a
  repository further up.\<close>

theorem source_stays_in_root:
  assumes "handle_a1_30 e st ports w = (Inr ex, w')"
  shows "\<exists>r p w0 base below. read_payload ports st w = (Inr (r, p), w0) \<and> base = ae_resolve e w0 (mp_root p) \<and>
     ae_resolve e w0 (mp_path p) = base @ below \<and> ae_is_dir e w0 base \<and> ae_is_dir e w0 (base @ below) \<and>
     (\<exists>ref env x. ex = refs_update ref \<and> ref_digest ref = ae_sha e (Sealed env) \<and> env_body env = BSourceIdentity x \<and> ls_root x = path_str base \<and>
        ls_canonical x = path_str (base @ below) \<and> ls_relative x = relative_str below \<and>
        (ls_revision x \<noteq> None \<longrightarrow> (\<exists>toplevel w1. a1_git e (base @ below) [''rev-parse'', ''--show-toplevel''] w0 = (Inr toplevel, w1) \<and>
           ae_resolve e w1 toplevel = base @ below)))"
proof -
  from assms obtain r p w0 where p: "read_payload ports st w = (Inr (r, p), w0)"
    and dirs: "ae_is_dir e w0 (ae_resolve e w0 (mp_root p))" "ae_is_dir e w0 (ae_resolve e w0 (mp_path p))"
    and inside: "is_relative_to (ae_resolve e w0 (mp_path p)) (ae_resolve e w0 (mp_root p))"
    and src: "identify_source e st ports (ae_resolve e w0 (mp_root p)) (ae_resolve e w0 (mp_path p)) w0 = (Inr ex, w')"
    by (auto simp: handle_a1_30_def Let_def elim!: bindI_result_Inr split: if_splits)
  from inside obtain below where path: "ae_resolve e w0 (mp_path p) = ae_resolve e w0 (mp_root p) @ below"
    unfolding is_relative_to_def by (metis append_take_drop_id)
  from identify_source_result[OF src[unfolded path]] p dirs path show ?thesis by metis
qed

section \<open>The quality gate\<close>

lemma a1_passed_iff:
  assumes "a1_quality_of e w x = Inr q"
  shows "ql_passed q \<longleftrightarrow> a1_missing x = [] \<and> a1_conflicts e w x = Inr [] \<and> fst (validate_budget (ax_workload x) (ax_budget x)) = []"
  using assms by (cases "validate_budget (ax_workload x) (ax_budget x)") (auto simp: a1_quality_of_def bindR_Inr_iff Let_def)

text \<open>C19. A request that passes the gate can be frozen: when A1.80 finds nothing on the artifacts of a case, there is an objective and a
  workload, and the request that A1.95 builds from these artifacts and any well-formed approval is a valid \<open>OptimizationRequest\<close>.\<close>

theorem passed_case_freezes_validly:
  assumes "a1_quality_of e w x = Inr q" and "ql_passed q"
    and "valid_identity source" and "valid_feature_scope (ax_scope x)" and "valid_canonical (ax_objective x)"
    and "list_all valid_criterion (fst (ax_criteria x))" and "list_all valid_guardrail (fst (ax_guardrails x))"
    and "valid_workload_identity (ax_workload x)" and "list_all valid_requirement (fst (ax_evidence x))" and "valid_budget (ax_budget x)"
    and "valid_binding b"
  shows "\<exists>goal l. cb_objective (ax_objective x) = Some goal \<and> wi_workload (ax_workload x) = Some l \<and>
     valid_request (frozen_request source (ax_scope x) goal (fst (ax_criteria x)) (fst (ax_guardrails x)) l (wi_execution (ax_workload x))
       (fst (ax_evidence x)) (ax_budget x) b (ab_digest b))"
proof -
  from assms(1,2) have "a1_conflicts e w x = Inr []" by (simp add: a1_passed_iff)
  then have "cb_objective (ax_objective x) \<noteq> None" "fst (ax_criteria x) \<noteq> []" "wi_workload (ax_workload x) \<noteq> None" "fst (ax_evidence x) \<noteq> []"
    by (auto simp: a1_conflicts_def bindR_Inr_iff split: if_splits)
  then obtain goal l where gl: "cb_objective (ax_objective x) = Some goal" "wi_workload (ax_workload x) = Some l"
    and ne: "fst (ax_criteria x) \<noteq> []" "fst (ax_evidence x) \<noteq> []" by auto
  then show ?thesis using assms(3-)
    by (auto simp: valid_request_def frozen_request_def valid_source_reference_def valid_identity_def valid_canonical_def valid_workload_identity_def valid_binding_def)
qed

text \<open>A criterion declared in the unit of its metric; a metric that is not built in takes any unit.\<close>

definition canonical_unit :: "criterion \<Rightarrow> bool" where
  "canonical_unit c \<longleftrightarrow> list_all (\<lambda>m. md_id m = cr_metric c \<longrightarrow> md_unit m = cr_unit c) builtin_metrics"

lemma resolved_unit:
  assumes "resolve_metric (cr_metric c) (Some (cr_unit c)) direction = Inr m" and "cr_unit c \<noteq> []"
  shows "md_unit m = cr_unit c \<longleftrightarrow> canonical_unit c"
proof (cases "find (\<lambda>m. md_id m = cr_metric c) builtin_metrics")
  case None
  with assms show ?thesis
    by (auto simp: resolve_metric_def find_None_iff canonical_unit_def list_all_iff metric_def Let_def split: if_splits)
next
  case (Some m')
  with assms(1) have m: "m' = m" by (simp add: resolve_metric_def)
  with Some have "m \<in> set builtin_metrics" "md_id m = cr_metric c" by (auto simp: find_Some_iff)
  then have "n = m" if "n \<in> set builtin_metrics" "md_id n = cr_metric c" for n
    using that inj_onD[OF conjunct2[OF builtin_metrics_distinct[unfolded distinct_map]], of n m] by simp
  with \<open>m \<in> set builtin_metrics\<close> \<open>md_id m = cr_metric c\<close> show ?thesis unfolding canonical_unit_def list_all_iff by metis
qed

lemma criterion_requirement_result:
  assumes "criterion_requirement l c = Inr r"
  shows "er_criterion r = cr_id c \<and> (\<exists>m. resolve_metric (cr_metric c) (Some (cr_unit c)) (Some (cr_direction c)) = Inr m \<and> er_sources r = md_sources m \<and>
    er_unit r = Some (md_unit m))"
  using assms by (auto simp: criterion_requirement_def checked_def bindR_Inr_iff Let_def split: if_splits)

lemma guardrail_requirement_result: "guardrail_requirement g = Inr r \<Longrightarrow> er_criterion r = gr_id g"
  by (auto simp: guardrail_requirement_def checked_def bindR_Inr_iff Let_def split: if_splits)

lemma mapR_criterion_keys:
  assumes "mapR (criterion_requirement l) cs = Inr rs" shows "map er_criterion rs = map cr_id cs"
  using mapR_list_all2[OF assms] by (induction rule: list_all2_induct) (auto dest: criterion_requirement_result)

lemma mapR_guardrail_keys:
  assumes "mapR guardrail_requirement gs = Inr rs" shows "map er_criterion rs = map gr_id gs"
  using mapR_list_all2[OF assms] by (induction rule: list_all2_induct) (auto dest: guardrail_requirement_result)

lemma binding_conflicts_of_requirement:
  assumes "map_of by_criterion (cr_id c) = Some r" and "criterion_requirement l c = Inr r" and "valid_criterion c"
  shows "\<exists>bs. binding_conflicts repr by_criterion c = Inr bs \<and> (bs = [] \<longleftrightarrow> canonical_unit c)"
proof -
  from criterion_requirement_result[OF assms(2)] obtain m where m: "resolve_metric (cr_metric c) (Some (cr_unit c)) (Some (cr_direction c)) = Inr m"
    "er_sources r = md_sources m" "er_unit r = Some (md_unit m)" by blast
  with resolved_unit[OF m(1)] assms(1,3) show ?thesis by (auto simp: binding_conflicts_def valid_criterion_def)
qed

lemma mapR_concat_empty:
  assumes "list_all (\<lambda>x. \<exists>ys. f x = Inr ys \<and> (ys = [] \<longleftrightarrow> P x)) xs"
  shows "\<exists>yss. mapR f xs = Inr yss \<and> (concat yss = [] \<longleftrightarrow> list_all P xs)"
  using assms by (induction xs) auto

text \<open>A1.71 and A1.80 together: the bindings of criteria with distinct ids of their own are in order exactly when every criterion is
  declared in the unit of its metric.\<close>

lemma evidence_bindings_exact:
  assumes "mapR (criterion_requirement l) cs = Inr rs" and "mapR guardrail_requirement gs = Inr rs'"
    and "distinct (map cr_id cs @ map gr_id gs)" and "list_all valid_criterion cs"
  shows "\<exists>bs. validate_evidence_bindings repr cs (rs @ rs') = Inr bs \<and> (bs = [] \<longleftrightarrow> list_all canonical_unit cs)"
proof -
  let ?kvs = "map (\<lambda>r. (er_criterion r, r)) (rs @ rs')"
  have keys: "map fst ?kvs = map cr_id cs @ map gr_id gs"
    using mapR_criterion_keys[OF assms(1)] mapR_guardrail_keys[OF assms(2)] by (simp add: comp_def)
  have "list_all (\<lambda>c. \<exists>bs. binding_conflicts repr (py_dict ?kvs) c = Inr bs \<and> (bs = [] \<longleftrightarrow> canonical_unit c)) cs"
    unfolding list_all_length
  proof (intro allI impI)
    fix i assume i: "i < length cs"
    with mapR_list_all2[OF assms(1)] have r: "criterion_requirement l (cs ! i) = Inr (rs ! i)" "i < length rs" by (auto simp: list_all2_conv_all_nth)
    then have "(cr_id (cs ! i), rs ! i) \<in> set ?kvs" using criterion_requirement_result[OF r(1)] by force
    then have "map_of (py_dict ?kvs) (cr_id (cs ! i)) = Some (rs ! i)"
      using assms(3) by (simp only: py_dict_distinct keys map_of_is_SomeI)
    then show "\<exists>bs. binding_conflicts repr (py_dict ?kvs) (cs ! i) = Inr bs \<and> (bs = [] \<longleftrightarrow> canonical_unit (cs ! i))"
      using binding_conflicts_of_requirement[OF _ r(1)] assms(4) i by (simp add: list_all_length)
  qed
  from mapR_concat_empty[OF this] show ?thesis by (auto simp: validate_evidence_bindings_def)
qed

lemma criteria_of_result:
  assumes "criteria_of d = Inr cs"
  shows "snd cs = [] \<longleftrightarrow> fst cs \<noteq> []" and "list_all valid_criterion (fst cs)"
    and "fst cs \<noteq> [] \<longleftrightarrow> rq_criteria d \<noteq> [] \<or> truthy (rq_metric d) \<and> rq_direction d \<noteq> None \<and> rq_target d \<noteq> None \<and> truthy (rq_unit d)"
proof -
  have v: "mk_criterion i n direction t u wt = Inr c \<Longrightarrow> valid_criterion c" for i n direction t u wt c
    by (auto simp: mk_criterion_def checked_def bindR_Inr_iff Let_def split: if_splits)
  have vs: "mapR (\<lambda>c. mk_criterion (i c) (n c) (dr c) (t c) (u c) (wt c)) xs = Inr ys \<Longrightarrow> list_all valid_criterion ys \<and> length ys = length xs" for i n dr t u wt xs ys
    by (induction xs arbitrary: ys) (auto simp: bindR_Inr_iff dest: v)
  from assms show "snd cs = [] \<longleftrightarrow> fst cs \<noteq> []" "list_all valid_criterion (fst cs)"
    "fst cs \<noteq> [] \<longleftrightarrow> rq_criteria d \<noteq> [] \<or> truthy (rq_metric d) \<and> rq_direction d \<noteq> None \<and> rq_target d \<noteq> None \<and> truthy (rq_unit d)"
    by (auto simp: criteria_of_def bindR_Inr_iff Let_def dest: vs v split: if_splits)
qed

lemma draft_guardrail: "truthy (rq_guardrail (draft_from_payload i p))"
  by (simp add: draft_from_payload_def Let_def truthy_def)

lemma draft_sel:
  "rq_criteria (draft_from_payload i p) = mp_criteria p" "rq_unresolved (draft_from_payload i p) = unresolved_fields (draft_from_payload i p)"
  by (simp_all add: draft_from_payload_def Let_def unresolved_fields_def)

lemma merged_Some: "a \<noteq> None \<Longrightarrow> merged a b c \<noteq> None"
  by (simp add: merged_def)

lemma draft_primary:
  assumes "mp_criteria p \<noteq> []"
  shows "rq_metric (draft_from_payload i p) \<noteq> None" "rq_direction (draft_from_payload i p) \<noteq> None" "rq_target (draft_from_payload i p) \<noteq> None"
    "rq_unit (draft_from_payload i p) \<noteq> None"
  using merged_Some[of "map_option _ (max_by cn_weight (mp_criteria p))"] assms by (simp_all add: draft_from_payload_def Let_def)

lemma guardrails_of_result:
  assumes "guardrails_of d = Inr gs" and "truthy (rq_guardrail d)"
  shows "\<exists>g. gs = ([g], []) \<and> gr_id g = ''correctness''"
  using assms by (auto simp: guardrails_of_def bindR_Inr_iff checked_def Let_def split: if_splits)

lemma workload_of_result:
  assumes "workload_of p d profile = Inr l"
  shows "wi_missing l = [] \<longleftrightarrow> truthy (rq_workload d) \<and> truthy (rq_environment d)" and "wi_workload l = None \<longleftrightarrow> wi_missing l \<noteq> []"
    and "wi_workload l = Some c \<Longrightarrow> wl_concurrency c = int_or (mp_concurrency p) 1"
  using assms by (auto simp: workload_of_def bindR_Inr_iff checked_def Let_def split: if_splits prod.splits)

lemma sorted_set_empty [simp]: "sorted_set xs = [] \<longleftrightarrow> xs = []"
  by (simp add: sorted_set_def) (metis set_empty set_sort set_remdups)

lemma compose_contract_clean:
  "validate_compose_contract e w p l cs gs = [] \<longleftrightarrow>
     (mp_compose p \<longrightarrow> (\<exists>x. wi_execution l = Some x \<and>
        (let repository = ae_resolve e w (mp_path p); compose = ae_resolve e w (join_path repository (cf_file x)) in
           is_relative_to compose repository \<and> ae_is_file e w compose) \<and>
        (\<forall>m \<in> set (map cr_metric cs @ map gr_metric gs). \<exists>v \<in> set (cf_evaluations x). m \<in> set (ce_metrics v))))"
  by (auto simp: validate_compose_contract_def Let_def filter_empty_conv split: option.splits)

lemma scope_conditions:
  "fe_confidence (scope_of d s profile) \<le> 0 \<or> fe_feature (scope_of d s profile) = ''unknown-feature'' \<longleftrightarrow>
     \<not> truthy (rq_feature d) \<or> rq_feature d = Some ''unknown-feature''"
  "truthy (rq_feature d) \<Longrightarrow> \<not> fe_confidence (scope_of d s profile) < 7 / 10"
  by (auto simp: scope_of_def text_or_def truthy_def Let_def)

lemma judged_on_bindings:
  assumes "validate_evidence_bindings (ae_repr e) (fst (ax_criteria x)) (fst (ax_evidence x)) = Inr bs"
  shows "\<exists>q. a1_quality_of e w x = Inr q \<and> (ql_passed q \<longleftrightarrow> a1_missing x = [] \<and> a1_conflicts e w x = Inr [] \<and>
    fst (validate_budget (ax_workload x) (ax_budget x)) = [])"
proof -
  obtain cs where cs: "a1_conflicts e w x = Inr cs" unfolding a1_conflicts_def assms bindR_simps by blast
  have "\<exists>q. a1_quality_of e w x = Inr q" unfolding a1_quality_of_def cs bindR_simps Let_def split_beta by (rule exI, rule refl)
  then obtain q where "a1_quality_of e w x = Inr q" ..
  with a1_passed_iff[OF this] show ?thesis by (intro exI[of _ q] conjI)
qed

text \<open>The case that A1.80 judges when every node before it worked on the draft \<open>d\<close> of the payload \<open>p\<close>.\<close>

definition intake_case :: "manual_payload \<Rightarrow> request_draft \<Rightarrow> source_identity \<Rightarrow> project_profile \<Rightarrow> a1_case result" where
  "intake_case p d source profile =
     (let scope = scope_of d source profile in
      bindR (criteria_of d) (\<lambda>criteria.
      bindR (guardrails_of d) (\<lambda>guardrails.
      bindR (workload_of p d profile) (\<lambda>workload.
      bindR (requirements_of criteria guardrails workload) (\<lambda>evidence.
      Inr \<lparr>ax_payload = p, ax_objective = canonical_of d scope, ax_criteria = criteria, ax_guardrails = guardrails, ax_workload = workload,
           ax_evidence = evidence, ax_draft = d, ax_profile = profile, ax_scope = scope, ax_budget = budget_of p\<rparr>)))))"

lemma intake_caseE:
  assumes d: "d = draft_from_payload i p" and "intake_case p d source profile = Inr x"
  obtains cs gs l es g where "criteria_of d = Inr cs" "guardrails_of d = Inr gs"
    "workload_of p d profile = Inr l" "requirements_of cs gs l = Inr es"
    "x = \<lparr>ax_payload = p, ax_objective = canonical_of d (scope_of d source profile), ax_criteria = cs,
      ax_guardrails = gs, ax_workload = l, ax_evidence = es, ax_draft = d, ax_profile = profile,
      ax_scope = scope_of d source profile, ax_budget = budget_of p\<rparr>"
    "gs = ([g], [])" "gr_id g = ''correctness''"
    "fst cs \<noteq> [] \<longrightarrow> (rq_unresolved d = [] \<longleftrightarrow> rq_feature d \<noteq> None \<and>
       rq_workload d \<noteq> None \<and> rq_environment d \<noteq> None)"
proof -
  from assms(2) obtain cs gs l es where parts: "criteria_of d = Inr cs" "guardrails_of d = Inr gs" "workload_of p d profile = Inr l"
    "requirements_of cs gs l = Inr es"
    and x: "x = \<lparr>ax_payload = p, ax_objective = canonical_of d (scope_of d source profile), ax_criteria = cs, ax_guardrails = gs, ax_workload = l,
           ax_evidence = es, ax_draft = d, ax_profile = profile, ax_scope = scope_of d source profile, ax_budget = budget_of p\<rparr>"
    by (auto simp: intake_case_def bindR_Inr_iff Let_def)
  obtain g where "gs = ([g], [])" "gr_id g = ''correctness''"
    using guardrails_of_result[OF parts(2)] draft_guardrail d by blast
  moreover have "rq_unresolved d = [] \<longleftrightarrow> rq_feature d \<noteq> None \<and> rq_workload d \<noteq> None \<and> rq_environment d \<noteq> None" if "fst cs \<noteq> []"
    using that criteria_of_result(3)[OF parts(1)] draft_primary[of p i] draft_sel[of i p] unfolding d by (auto simp: unresolved_fields_def truthy_def)
  ultimately show thesis using parts x that by blast
qed

text \<open>C16. The quality gate of the intake, on the artifacts its nodes make from a payload. Criteria with ids of their own, different from
  that of the guardrail, are judged without an error, and the request passes A1.80 exactly when the text and the structured fields
  do not disagree, the feature is named and is not the placeholder, there are a statement of the objective, criteria, a workload and an
  environment, every criterion is declared in the canonical unit of its metric, a compose file lies inside the repository and its
  evaluations emit every metric of criteria and guardrails, the worker budget covers repetitions and warm-ups, and the discovery
  of the project was not cut short. In particular the guardrail, the evidence requirements, the confidence of the scope and the
  concurrency never stop a case on their own.\<close>

theorem intake_gate_exact:
  assumes d: "d = draft_from_payload i p" and case_of: "intake_case p d source profile = Inr x"
    and ids: "distinct (map cr_id (fst (ax_criteria x)))" "''correctness'' \<notin> cr_id ` set (fst (ax_criteria x))"
  shows "\<exists>q. a1_quality_of e w x = Inr q \<and>
    (ql_passed q \<longleftrightarrow> rq_conflicts d = [] \<and> truthy (rq_feature d) \<and> rq_feature d \<noteq> Some ''unknown-feature'' \<and> truthy (rq_statement d) \<and>
       fst (ax_criteria x) \<noteq> [] \<and> list_all canonical_unit (fst (ax_criteria x)) \<and>
       (\<exists>l. wi_workload (ax_workload x) = Some l \<and> wl_repetitions l + wl_warmup l \<le> bu_worker (budget_of p)) \<and>
       (mp_compose p \<longrightarrow> (\<exists>c. wi_execution (ax_workload x) = Some c \<and>
          (let repository = ae_resolve e w (mp_path p); compose = ae_resolve e w (join_path repository (cf_file c)) in
             is_relative_to compose repository \<and> ae_is_file e w compose) \<and>
          (\<forall>m \<in> set (map cr_metric (fst (ax_criteria x)) @ map gr_metric (fst (ax_guardrails x))). \<exists>v \<in> set (cf_evaluations c). m \<in> set (ce_metrics v)))) \<and>
       \<not> pf_truncated profile)"
proof -
  from d case_of obtain cs gs l es g where parts: "criteria_of d = Inr cs" "guardrails_of d = Inr gs" "workload_of p d profile = Inr l"
    "requirements_of cs gs l = Inr es" and x: "x = \<lparr>ax_payload = p, ax_objective = canonical_of d (scope_of d source profile), ax_criteria = cs,
      ax_guardrails = gs, ax_workload = l, ax_evidence = es, ax_draft = d, ax_profile = profile, ax_scope = scope_of d source profile, ax_budget = budget_of p\<rparr>"
    and g: "gs = ([g], [])" "gr_id g = ''correctness''"
    and unresolved: "fst cs \<noteq> [] \<longrightarrow> (rq_unresolved d = [] \<longleftrightarrow> rq_feature d \<noteq> None \<and> rq_workload d \<noteq> None \<and> rq_environment d \<noteq> None)"
    by (rule intake_caseE)
  note c = criteria_of_result[OF parts(1)] and l = workload_of_result[OF parts(3)]
  have sel: "ax_workload x = l" "ax_budget x = budget_of p" "ax_criteria x = cs" "ax_guardrails x = gs" "ax_evidence x = es" by (simp_all add: x)
  note quality = judged_on_bindings[of e x, unfolded sel]
  show ?thesis
  proof (cases "wi_workload l")
    case None
    then have "fst es = []" using parts(4) by (auto simp: requirements_of_def Let_def)
    then have "\<exists>bs. validate_evidence_bindings (ae_repr e) (fst cs) (fst es) = Inr bs"
      by (simp add: validate_evidence_bindings_def bindR_Inr_iff binding_conflicts_def py_dict_def mapR_exists)
    then obtain bs where "validate_evidence_bindings (ae_repr e) (fst cs) (fst es) = Inr bs" ..
    from quality[OF this] obtain q where "a1_quality_of e w x = Inr q" "ql_passed q \<longrightarrow> a1_missing x = []" by blast
    moreover have "a1_missing x \<noteq> []" using None l(2) by (simp add: a1_missing_def x)
    ultimately show ?thesis using None unfolding sel by (intro exI[of _ q]) simp
  next
    case (Some lc)
    with parts(4) obtain rs rs' where rs: "mapR (criterion_requirement lc) (fst cs) = Inr rs" "mapR guardrail_requirement (fst gs) = Inr rs'"
      and es: "es = (rs @ rs', sorted_set (snd cs @ snd gs @ wi_missing l))" by (auto simp: requirements_of_def Let_def bindR_Inr_iff)
    have "distinct (map cr_id (fst cs) @ map gr_id (fst gs))" using ids g by (auto simp: x)
    from evidence_bindings_exact[OF rs this c(2), of "ae_repr e"] obtain bs where
      bs: "validate_evidence_bindings (ae_repr e) (fst cs) (fst es) = Inr bs" "bs = [] \<longleftrightarrow> list_all canonical_unit (fst cs)" using es by auto
    have wl: "wi_missing l = []" "truthy (rq_workload d)" "truthy (rq_environment d)" using Some l(1,2) by auto
    have ev: "rs @ rs' \<noteq> [] " using mapR_Inr_length[OF rs(2)] g by auto
    have missing: "a1_missing x = [] \<longleftrightarrow> fst cs \<noteq> [] \<and> truthy (rq_statement d) \<and> truthy (rq_feature d) \<and> rq_feature d \<noteq> Some ''unknown-feature''"
      using unresolved c(1) wl g scope_conditions(1)[of d source profile]
      by (auto simp: a1_missing_def x es canonical_of_def Let_def truthy_def)
    have conflicts: "a1_conflicts e w x = Inr [] \<longleftrightarrow> rq_conflicts d = [] \<and> list_all canonical_unit (fst cs) \<and>
        validate_compose_contract e w p l (fst cs) (fst gs) = [] \<and> \<not> pf_truncated profile" if "a1_missing x = []"
      using that missing bs g ev Some scope_conditions[of d source profile]
      by (auto simp: a1_conflicts_def x es canonical_of_def Let_def)
    have budget: "fst (validate_budget l (budget_of p)) = [] \<longleftrightarrow> wl_repetitions lc + wl_warmup lc \<le> bu_worker (budget_of p)"
      using l(3)[OF Some] Some by (auto simp: validate_budget_def budget_of_def)
    from quality[OF bs(1)] obtain q where q: "a1_quality_of e w x = Inr q"
      "ql_passed q \<longleftrightarrow> a1_missing x = [] \<and> a1_conflicts e w x = Inr [] \<and> fst (validate_budget l (budget_of p)) = []" by blast
    show ?thesis unfolding sel
      using q missing conflicts budget Some compose_contract_clean[of e w p l "fst cs" "fst gs"]
      by (intro exI[of _ q] conjI) auto
  qed
qed

section \<open>Error paths\<close>

lemma bindI_pair_Inr:
  assumes "bindI m (\<lambda>(a, b). f a b) w = (Inr y, w')"
  obtains a b v where "m w = (Inr (a, b), v)" and "f a b v = (Inr y, w')"
  using assms by (elim bindI_result_Inr) auto

lemma a1_80_result:
  assumes "handle_a1_80 e st ports w = (Inr ex, w')"
  obtains ref policy q v where "route_quality e st ref policy q v = (Inr ex, w')"
  using assms unfolding handle_a1_80_def Let_def by (elim bindI_pair_Inr bindI_result_Inr) (rule that)

lemma a1_80_interrupt:
  assumes "handle_a1_80 e st ports w = (Inr ex, w')" and "(''pending_interrupt'', VInterrupt i) \<in> set (ex_updates ex)"
  shows "int_allowed i = clarification_decisions"
  using assms(1)
proof (rule a1_80_result)
  fix ref policy q v assume "route_quality e st ref policy q v = (Inr ex, w')"
  then show ?thesis using assms(2)
    by (auto simp: route_quality_def refs_update_def cont_def a1_interrupt_def checked_def bindR_Inr_iff Let_def elim!: bindI_result_Inr split: if_splits)
qed

lemma resumed_only_by_approval:
  assumes "handle_a1_90 e st ports w = (Inr ex, w')" and "get_resume st = Inr (Some c)" and "rc_decision c \<noteq> ''approve''"
  shows "ex_route ex = REJECTED"
  using assms(1)
proof (rule a1_90_result)
  fix refs p q source scope fp a ref v1 v2 v3 parents
  assume "decide_request e st ports p q source scope fp v1 = (Inr a, v2)" and r: "route_decision e st ref a v3 = (Inr ex, w')"
  with assms(2,3) have "aa_route a = ''rejected''" by (auto simp: decide_request_def resumed_approval_def a1_decision_def)
  with r show ?thesis by (auto simp: route_decision_def)
qed

text \<open>C39. A clarified case is rejected. The interrupt of A1.80 offers the requester the decisions revise and reject; the command that
  answers it stays in the state of the case, and A1.90 takes every resume command as the answer to its own question. So whatever
  the requester answers, and however good the revised request is, A1.90 rejects the case: only a new case can be approved.\<close>

theorem clarified_case_is_rejected:
  assumes "handle_a1_80 e st ports w = (Inr ex, w1)" and "(''pending_interrupt'', VInterrupt i) \<in> set (ex_updates ex)"
    and "rc_decision c \<in> set (int_allowed i)" and "get_resume st' = Inr (Some c)"
    and "handle_a1_90 e st' ports w2 = (Inr ex', w3)"
  shows "ex_route ex' = REJECTED"
proof -
  from assms(3) a1_80_interrupt[OF assms(1,2)] have "rc_decision c \<noteq> ''approve''" by (auto simp: clarification_decisions_def)
  with assms(5,4) show ?thesis by (rule resumed_only_by_approval)
qed

lemma resolve_metric_nameless: "resolve_metric [] unit direction = Inl (ValidationError ''MetricDefinition'')"
  by (simp add: resolve_metric_def builtin_metrics_def metric_def valid_metric_def len_in_def Let_def)

text \<open>A request without a metric is not sent back for clarification. A1.61 only notes that the metric is missing, but A1.70 looks the
  metric up for the defaults of the workload: when the payload, read without a model, names a workload and an environment but
  neither a metric nor criteria, A1.70 raises on the draft of A1.20, so the case never gets to the gate that would ask the
  requester for the metric.\<close>

theorem missing_metric_crashes:
  assumes reads: "\<And>t r w. np_read ports t r w = (Inr (store r), w)" and tenant: "required_state_str st ''tenant_id'' = Inr t"
    and payload: "require_ref st ''ManualCasePayload'' = Inr pr" "store pr = PayloadJson p" "valid_payload p"
    and draft: "require_ref st ''RawRequestDraft'' = Inr dr" "store dr = Sealed denv" "env_body denv = BRequestDraft (draft_from_payload None p)"
      "valid_draft (draft_from_payload None p)"
    and profile: "require_ref st ''ProjectProfile'' = Inr fr" "store fr = Sealed fenv" "env_body fenv = BProfile profile" "valid_profile profile"
    and fields: "mp_metric p = None" "mp_criteria p = []" "mp_workload p \<noteq> None" "mp_environment p \<noteq> None"
  shows "(\<exists>missing. criteria_of (draft_from_payload None p) = Inr ([], ''metric_id'' # missing)) \<and>
    handle_a1_70 e st ports w = (Inl (ValidationError ''MetricDefinition''), w)"
proof
  let ?d = "draft_from_payload None p"
  have d: "rq_metric ?d = None" "rq_criteria ?d = []" "rq_workload ?d = mp_workload p" "rq_environment ?d = mp_environment p"
    using fields by (simp_all add: draft_from_payload_def Let_def merged_def of_extracted_def)
  then show "\<exists>missing. criteria_of ?d = Inr ([], ''metric_id'' # missing)" by (simp add: criteria_of_def truthy_def)
  have "truthy (mp_workload p)" "truthy (mp_environment p)" using fields payload(3) by (auto simp: valid_payload_def truthy_def len_in_def)
  with d have "workload_of p ?d profile = Inl (ValidationError ''MetricDefinition'')"
    by (simp add: workload_of_def workload_defaults_for_metric_def text_or_def truthy_def resolve_metric_nameless)
  moreover have "read_payload ports st w = (Inr (pr, p), w)" using payload tenant by (simp add: read_payload_def bindI_def reads checked_def)
  moreover have "read_typed ports st ''RawRequestDraft'' decode_draft w = (Inr (dr, ?d), w)"
    using draft tenant by (simp add: read_typed_def read_model_def bindI_def reads decode_draft_def checked_def)
  moreover have "read_typed ports st ''ProjectProfile'' decode_profile w = (Inr (fr, profile), w)"
    using profile tenant by (simp add: read_typed_def read_model_def bindI_def reads decode_profile_def checked_def)
  ultimately show "handle_a1_70 e st ports w = (Inl (ValidationError ''MetricDefinition''), w)" by (simp add: handle_a1_70_def bindI_def)
qed

text \<open>A text that the contract of the payload accepts may be longer than that of the draft allows: without an extracted objective the
  whole text becomes the statement, and A1.20 raises.\<close>

theorem long_text_crashes:
  assumes "mp_text p = Some text" and "4000 < length text"
  shows "\<not> valid_draft (draft_from_payload None p)"
proof -
  from assms have "rq_statement (draft_from_payload None p) = Some text"
    by (auto simp: draft_from_payload_def Let_def of_extracted_def truthy_def)
  with assms(2) show ?thesis by (simp add: valid_draft_def len_in_def)
qed

text \<open>A guardrail metric of the requester is compared as if it were an exit code: whatever the metric measures, A1.62 demands that it be
  exactly zero.\<close>

theorem requested_guardrail_must_be_zero:
  assumes "mp_guardrail p = Some m" and "m \<noteq> []" and "guardrails_of (draft_from_payload i p) = Inr (gs, missing)"
  shows "missing = [] \<and> (\<exists>g. gs = [g] \<and> gr_metric g = m \<and> gr_operator g = Eq \<and> gr_threshold g = 0)"
proof -
  have "rq_guardrail (draft_from_payload i p) = Some m"
    using assms(1,2) by (simp add: draft_from_payload_def Let_def merged_def truthy_def)
  with assms(2,3) show ?thesis
    by (auto simp: guardrails_of_def truthy_def text_or_def checked_def bindR_Inr_iff Let_def split: if_splits)
qed

section \<open>A case\<close>

text \<open>A structured payload that declares a latency criterion; the discovery of its project may have been cut short.\<close>

definition demo_payload :: manual_payload where
  "demo_payload = \<lparr>mp_path = ''/srv/repo'', mp_root = ''/srv'', mp_text = None, mp_feature = Some ''search'', mp_metric = Some ''p95_latency_ms'',
     mp_direction = Some Minimize, mp_target = Some 100, mp_unit = Some ''ms'', mp_criteria = [], mp_workload = Some ''w'', mp_environment = Some ''e'',
     mp_commands = None, mp_compose = False, mp_compose_file = None, mp_services = [], mp_evaluations = [], mp_actor = ''ann'', mp_role = ''owner'',
     mp_policy = ''v1'', mp_guardrail = None, mp_dataset = None, mp_hypothesis = None, mp_repetitions = None, mp_warmup = None, mp_concurrency = None,
     mp_cache = None, mp_deadline = None, mp_worker = None, mp_tokens = None, mp_storage = None, mp_analyzers = None\<rparr>"

definition demo_draft :: request_draft where
  "demo_draft = draft_from_payload None demo_payload"

definition demo_identity :: source_identity where
  "demo_identity = \<lparr>ls_repository = ''r'', ls_root = ''/srv'', ls_canonical = ''/srv/repo'', ls_relative = ''repo'', ls_revision = None, ls_dirty = False,
     ls_untracked = 0\<rparr>"

definition demo_profile :: "bool \<Rightarrow> project_profile" where
  "demo_profile partial = \<lparr>pf_languages = [(''python'', 1)], pf_manifests = [], pf_tests = [], pf_sources = [''search.py''], pf_vendor = [], pf_files = 1,
     pf_bytes = 10, pf_truncated = partial, pf_unreadable = []\<rparr>"

definition demo_scope :: feature_scope where
  "demo_scope = \<lparr>fe_feature = ''search'', fe_include = [''search.py''], fe_exclude = [''.git/**'', ''**/__pycache__/**'', ''node_modules/**''],
     fe_confidence = 95 / 100, fe_rationale = ''scope is bounded to the authenticated repository and supported by matching project paths'',
     fe_support = [''search.py'']\<rparr>"

definition demo_latency :: criterion where
  "demo_latency = \<lparr>cr_id = ''primary'', cr_metric = ''p95_latency_ms'', cr_direction = Minimize, cr_target = 100, cr_weight = 1, cr_aggregation = ''p95'',
     cr_unit = ''ms'', cr_operator = Lte\<rparr>"

definition demo_exit_code :: guardrail where
  "demo_exit_code = \<lparr>gr_id = ''correctness'', gr_metric = ''unit_command_result'', gr_operator = Eq, gr_threshold = 0, gr_unit = ''exit_code''\<rparr>"

definition demo_contract :: workload_contract where
  "demo_contract = \<lparr>wl_id = ''w'', wl_dataset = None, wl_environment = ''e'', wl_commands = None, wl_repetitions = 3, wl_warmup = 1, wl_concurrency = 1,
     wl_cache = ''warm''\<rparr>"

definition demo_requirements :: "evidence_requirement list" where
  "demo_requirements =
     [\<lparr>er_id = ''evidence-primary'', er_criterion = ''primary'', er_sources = [''benchmark'', ''telemetry''], er_samples = 3,
        er_metric = Some ''p95_latency_ms'', er_unit = Some ''ms'', er_aggregation = ''p95''\<rparr>,
      \<lparr>er_id = ''guardrail-correctness'', er_criterion = ''correctness'', er_sources = [''test''], er_samples = 1,
        er_metric = Some ''unit_command_result'', er_unit = Some ''exit_code'', er_aggregation = ''verdict''\<rparr>]"

definition demo_case :: "bool \<Rightarrow> a1_case" where
  "demo_case partial = \<lparr>ax_payload = demo_payload,
     ax_objective = \<lparr>cb_objective = Some (''Optimize search: p95_latency_ms (minimize)'', ''search''), cb_hypothesis = None, cb_missing = []\<rparr>,
     ax_criteria = ([demo_latency], []), ax_guardrails = ([demo_exit_code], []),
     ax_workload = \<lparr>wi_workload = Some demo_contract, wi_execution = None, wi_missing = []\<rparr>, ax_evidence = (demo_requirements, []), ax_draft = demo_draft,
     ax_profile = demo_profile partial, ax_scope = demo_scope, ax_budget = budget_of demo_payload\<rparr>"

lemma draft_fields:
  "rq_feature (draft_from_payload x p) = merged None (of_extracted x xt_feature) (mp_feature p)"
  "rq_metric (draft_from_payload x p) = merged (map_option cn_metric (max_by cn_weight (mp_criteria p))) (of_extracted x xt_metric) (mp_metric p)"
  "rq_direction (draft_from_payload x p) = merged (map_option cn_direction (max_by cn_weight (mp_criteria p))) (of_extracted x xt_direction) (mp_direction p)"
  "rq_target (draft_from_payload x p) = merged (map_option cn_target (max_by cn_weight (mp_criteria p))) (of_extracted x xt_target) (mp_target p)"
  "rq_unit (draft_from_payload x p) = merged (map_option cn_unit (max_by cn_weight (mp_criteria p))) (of_extracted x xt_unit) (mp_unit p)"
  "rq_workload (draft_from_payload x p) = merged None (of_extracted x xt_workload) (mp_workload p)"
  "rq_environment (draft_from_payload x p) = merged None (of_extracted x xt_environment) (mp_environment p)"
  "rq_dataset (draft_from_payload x p) = merged None (of_extracted x xt_dataset) (mp_dataset p)"
  "rq_hypothesis (draft_from_payload x p) = merged None (of_extracted x xt_hypothesis) (mp_hypothesis p)"
  "rq_conflicts (draft_from_payload x p) = List.map_filter (\<lambda>(_, _, c). c) (merge_notes x p)"
  by (simp_all add: draft_from_payload_def Let_def)

lemma structured_draft:
  assumes "mp_text p = None"
  shows "rq_statement (draft_from_payload None p) = (if truthy (mp_feature p) \<and> truthy (rq_metric (draft_from_payload None p)) then
      Some (''Optimize '' @ the (mp_feature p) @ '': '' @ the (rq_metric (draft_from_payload None p)) @ '' ('' @
        (case rq_direction (draft_from_payload None p) of None \<Rightarrow> ''unspecified'' | Some d \<Rightarrow> direction_name d) @ '')'') else None)"
    and "rq_confidence (draft_from_payload None p) = (if rq_conflicts (draft_from_payload None p) = [] then 1 else 1 / 2)"
    and "mp_commands p = None \<Longrightarrow> rq_commands (draft_from_payload None p) = None"
    and "mp_guardrail p = None \<Longrightarrow> rq_guardrail (draft_from_payload None p) = Some ''unit_command_result''"
  using assms by (simp_all add: draft_from_payload_def Let_def of_extracted_def merged_def truthy_def)

lemma demo_payload_sel [simp]:
  "mp_text demo_payload = None" "mp_feature demo_payload = Some ''search''" "mp_metric demo_payload = Some ''p95_latency_ms''"
  "mp_direction demo_payload = Some Minimize" "mp_target demo_payload = Some 100" "mp_unit demo_payload = Some ''ms''" "mp_criteria demo_payload = []"
  "mp_workload demo_payload = Some ''w''" "mp_environment demo_payload = Some ''e''" "mp_dataset demo_payload = None" "mp_hypothesis demo_payload = None"
  "mp_commands demo_payload = None" "mp_guardrail demo_payload = None" "mp_policy demo_payload = ''v1''" "mp_role demo_payload = ''owner''"
  "mp_actor demo_payload = ''ann''" "mp_path demo_payload = ''/srv/repo''" "mp_root demo_payload = ''/srv''" "mp_compose demo_payload = False"
  by (simp_all add: demo_payload_def)

lemma demo_draft_sel [simp]:
  "rq_feature demo_draft = Some ''search''" "rq_metric demo_draft = Some ''p95_latency_ms''" "rq_direction demo_draft = Some Minimize"
  "rq_target demo_draft = Some 100" "rq_unit demo_draft = Some ''ms''" "rq_criteria demo_draft = []" "rq_guardrail demo_draft = Some ''unit_command_result''"
  "rq_workload demo_draft = Some ''w''" "rq_environment demo_draft = Some ''e''" "rq_dataset demo_draft = None" "rq_commands demo_draft = None"
  "rq_hypothesis demo_draft = None" "rq_conflicts demo_draft = []" "rq_confidence demo_draft = 1"
  "rq_statement demo_draft = Some ''Optimize search: p95_latency_ms (minimize)''"
  unfolding demo_draft_def
  by (simp_all add: draft_sel draft_fields structured_draft merged_def of_extracted_def truthy_def merge_notes_def merge_note_def List.map_filter_def)

lemma demo_draft_resolved [simp]: "rq_unresolved demo_draft = []"
  using draft_sel(2)[of None demo_payload] by (simp add: demo_draft_def[symmetric] unresolved_fields_def)

lemma demo_scope_of: "scope_of demo_draft demo_identity (demo_profile partial) = demo_scope"
proof -
  have "contains (normalized_name ''search'') (normalized_name ''search.py'')" "normalized_name ''search'' \<noteq> []"
    by (simp_all add: normalized_name_def lower_def lower_char_def is_alnum_def startswith_def)
  then show ?thesis
    by (simp add: scope_of_def scope_candidates_def demo_profile_def demo_scope_def text_or_def truthy_def Let_def discovered_vendor_markers_def sorted_set_def)
qed

lemma demo_metrics:
  "resolve_metric ''p95_latency_ms'' u d = Inr (metric ''p95_latency_ms'' DistributionKind ''ms'' Minimize ''p95'' [''benchmark'', ''telemetry''] 3 Statistical)"
  "resolve_metric ''unit_command_result'' u d = Inr (metric ''unit_command_result'' NumberKind ''exit_code'' Target ''verdict'' [''test''] 1 GuardrailComparison)"
  by (simp_all add: resolve_metric_def builtin_metrics_def metric_def)

lemma demo_parts:
  "criteria_of demo_draft = Inr ([demo_latency], [])" "guardrails_of demo_draft = Inr ([demo_exit_code], [])"
  "workload_of demo_payload demo_draft (demo_profile partial) = Inr \<lparr>wi_workload = Some demo_contract, wi_execution = None, wi_missing = []\<rparr>"
  "requirements_of ([demo_latency], []) ([demo_exit_code], []) \<lparr>wi_workload = Some demo_contract, wi_execution = None, wi_missing = []\<rparr> = Inr (demo_requirements, [])"
  "canonical_of demo_draft demo_scope = \<lparr>cb_objective = Some (''Optimize search: p95_latency_ms (minimize)'', ''search''), cb_hypothesis = None, cb_missing = []\<rparr>"
  subgoal by (simp add: criteria_of_def truthy_def text_or_def given_def mk_criterion_def demo_metrics metric_def checked_def demo_latency_def valid_criterion_def)
  subgoal by (simp add: guardrails_of_def truthy_def text_or_def demo_metrics metric_def checked_def demo_exit_code_def valid_guardrail_def)
  subgoal by (simp add: workload_of_def truthy_def text_or_def workload_defaults_for_metric_def demo_metrics metric_def most_common_language_def demo_profile_def
      workload_defaults_by_language_def dict_get_def demo_payload_def int_or_def given_def checked_def valid_workload_def demo_contract_def Let_def)
  subgoal by (simp add: requirements_of_def criterion_requirement_def guardrail_requirement_def demo_latency_def demo_exit_code_def demo_metrics metric_def
      checked_def valid_requirement_def demo_contract_def demo_requirements_def sorted_set_def)
  subgoal by (simp add: canonical_of_def demo_scope_def truthy_def text_or_def)
  done

lemma demo_case_made: "intake_case demo_payload demo_draft demo_identity (demo_profile partial) = Inr (demo_case partial)"
  by (simp add: intake_case_def Let_def demo_parts demo_scope_of demo_case_def)

lemma demo_payload_valid: "valid_payload demo_payload"
  by (simp add: valid_payload_def demo_payload_def business_intent_def len_in_def)
definition demo_a1_quality :: a1_quality where
  "demo_a1_quality = \<lparr>ql_passed = True, ql_missing = [], ql_conflicts = [], ql_invalid = [], ql_warnings = [], ql_owners = [], ql_policy = ''v1''\<rparr>"

definition demo_binding :: approval_binding where
  "demo_binding = \<lparr>ab_id = ''c-A1-APPROVAL'', ab_actor = ''ann'', ab_role = ''owner'', ab_digest = rep_digest CHR ''d'', ab_policy = ''v1''\<rparr>"

text \<open>The artifacts of the case, each under a digest of its own.\<close>

definition a1_digests :: "char dict" where
  "a1_digests = [(''ManualCasePayload'', CHR ''0''), (''A1QualityReport'', CHR ''1''), (''CanonicalObjective'', CHR ''2''), (''CriterionSet'', CHR ''3''),
     (''GuardrailSet'', CHR ''4''), (''WorkloadIdentity'', CHR ''5''), (''EvidenceRequirementSet'', CHR ''6''), (''ExecutionBudgetArtifact'', CHR ''7''),
     (''LocalSourceIdentity'', CHR ''8''), (''FeatureScope'', CHR ''9''), (''RawRequestDraft'', CHR ''a''), (''ProjectProfile'', CHR ''b''),
     (''A1ApprovalDecision'', CHR ''c'')]"

definition a1_ref :: "string \<Rightarrow> artifact_ref" where
  "a1_ref ty = digest_ref (dict_get a1_digests ty CHR ''e'') ty (''c-'' @ ty)"

definition a1_body :: "bool \<Rightarrow> string \<Rightarrow> body" where
  "a1_body partial ty =
     (let x = demo_case partial in
      dict_get [(''A1QualityReport'', BA1Quality demo_a1_quality), (''CanonicalObjective'', BObjective (ax_objective x)), (''CriterionSet'', BCriterionSet [demo_latency] []),
        (''GuardrailSet'', BGuardrailSet [demo_exit_code] []), (''WorkloadIdentity'', BWorkload (ax_workload x)),
        (''EvidenceRequirementSet'', BRequirements demo_requirements []), (''ExecutionBudgetArtifact'', BBudget (budget_of demo_payload) ''v1''),
        (''LocalSourceIdentity'', BSourceIdentity demo_identity), (''FeatureScope'', BScope demo_scope), (''RawRequestDraft'', BRequestDraft demo_draft),
        (''ProjectProfile'', BProfile (demo_profile partial)),
        (''A1ApprovalDecision'', BA1Approval (a1_decision (Some demo_binding) ''continue'' [] ''v1''))] ty (BOther []))"

definition a1_store :: "bool \<Rightarrow> artifact_ref \<Rightarrow> blob" where
  "a1_store partial r =
     (if ref_type r = ''ManualCasePayload'' then PayloadJson demo_payload
      else Sealed \<lparr>env_type = ref_type r, env_id = ''c-'' @ ref_type r, env_tenant = ''t'', env_case = ''c'', env_created = 0,
        env_parents = (if ref_type r = ''A1ApprovalDecision'' then map (\<lambda>ty. ref_digest (a1_ref ty)) [''A1QualityReport'', ''CanonicalObjective'', ''CriterionSet'',
          ''GuardrailSet'', ''WorkloadIdentity'', ''EvidenceRequirementSet'', ''ExecutionBudgetArtifact'', ''LocalSourceIdentity'', ''FeatureScope''] else []),
        env_body = a1_body partial (ref_type r)\<rparr>)"

definition a1_state :: "string list \<Rightarrow> resume_command option \<Rightarrow> state" where
  "a1_state tys c = [''case_id'' \<mapsto> VStr ''c'', ''tenant_id'' \<mapsto> VStr ''t'', ''thread_id'' \<mapsto> VStr ''th'', ''artifact_refs'' \<mapsto> VRefs (map a1_ref tys),
     ''resume_command'' \<mapsto> (case c of None \<Rightarrow> VNone | Some x \<Rightarrow> VResume x)]"

definition a1_ports :: "bool \<Rightarrow> world node_ports" where
  "a1_ports partial = (demo_ports None)\<lparr>np_read := \<lambda>_ r. retI (a1_store partial r)\<rparr>"

definition demo_sha :: "bool \<Rightarrow> blob \<Rightarrow> string" where
  "demo_sha partial c = (case find (\<lambda>ty. a1_store partial (a1_ref ty) = c) (keys a1_digests) of Some ty \<Rightarrow> ref_digest (a1_ref ty) | None \<Rightarrow> rep_digest CHR ''f'')"

definition demo_a1 :: "bool \<Rightarrow> world a1_env" where
  "demo_a1 partial = \<lparr>ae_sha = demo_sha partial, ae_text_sha = (\<lambda>_. rep_digest CHR ''a''),
     ae_dict_sha = (\<lambda>d. if d = fingerprint_fields ''c'' (map a1_ref frozen_types) then rep_digest CHR ''d'' else rep_digest CHR ''e''), ae_clock = (\<lambda>_. 0),
     ae_tools = \<lparr>tl_run = (\<lambda>cwd args w. (Exited 0 (if args = [''git'', ''rev-parse'', ''HEAD''] then ''abc'' else if args = [''git'', ''rev-parse'', ''--show-toplevel''] then cwd else []), w)),
       tl_mkdtemp = retI [], tl_write = (\<lambda>_ _. retI ()), tl_rmtree = (\<lambda>_ w. w)\<rparr>,
     ae_resolve = (\<lambda>_ s. filter (\<lambda>x. x \<noteq> []) (split_on CHR ''/'' s)), ae_is_dir = (\<lambda>_ _. True), ae_is_file = (\<lambda>_ _. True), ae_walk = (\<lambda>_ _. []),
     ae_model = None, ae_repr = id, ae_fmt = (\<lambda>_. ''0.00'')\<rparr>"

lemma a1_ref_sel [simp]: "ref_type (a1_ref ty) = ty" "ref_digest (a1_ref ty) = rep_digest (dict_get a1_digests ty CHR ''e'')" "ref_id (a1_ref ty) = ''c-'' @ ty"
  by (simp_all add: a1_ref_def)

lemma a1_state_sel [simp]:
  "required_state_str (a1_state tys c) ''case_id'' = Inr ''c''" "required_state_str (a1_state tys c) ''tenant_id'' = Inr ''t''"
  "required_state_str (a1_state tys c) ''thread_id'' = Inr ''th''" "get_refs (a1_state tys c) ''artifact_refs'' = map a1_ref tys" "get_resume (a1_state tys c) = Inr c"
  by (simp_all add: a1_state_def required_state_str_def get_str_def get_refs_def get_resume_def split: option.splits)

lemma a1_state_refs:
  assumes "ty \<in> set tys" shows "require_ref (a1_state tys c) ty = Inr (a1_ref ty)"
proof -
  have "find (\<lambda>r. ref_type r = ty) (map a1_ref tys) = Some (a1_ref ty)" using assms by (induction tys) auto
  then show ?thesis by (simp add: require_ref_def try_ref_def)
qed

lemma a1_reads: "np_read (a1_ports partial) t r w = (Inr (a1_store partial r), w)"
  by (simp add: a1_ports_def)

lemma a1_read_payload: "''ManualCasePayload'' \<in> set tys \<Longrightarrow> read_payload (a1_ports partial) (a1_state tys c) w = (Inr (a1_ref ''ManualCasePayload'', demo_payload), w)"
  by (simp add: read_payload_def a1_state_refs bindI_def a1_reads a1_store_def checked_def demo_payload_valid)

lemma a1_read_typed:
  "ty \<in> set tys \<Longrightarrow> ty \<noteq> ''ManualCasePayload'' \<Longrightarrow>
   read_typed (a1_ports partial) (a1_state tys c) ty decode w = (bindR (decode (a1_body partial ty)) (\<lambda>x. Inr (a1_ref ty, x)), w)"
  by (simp add: read_typed_def read_model_def a1_state_refs bindI_def bindR_def a1_reads a1_store_def split: sum.splits)

lemma demo_parts_valid:
  "valid_identity demo_identity" "valid_feature_scope demo_scope" "valid_canonical (ax_objective (demo_case partial))" "valid_criterion demo_latency"
  "valid_guardrail demo_exit_code" "valid_workload_identity (ax_workload (demo_case partial))" "list_all valid_requirement demo_requirements"
  "valid_budget (budget_of demo_payload)" "valid_draft demo_draft" "valid_profile (demo_profile partial)" "valid_binding demo_binding"
  by (simp_all add: valid_identity_def demo_identity_def valid_feature_scope_def demo_scope_def valid_canonical_def demo_case_def valid_objective_def len_in_def
      valid_criterion_def demo_latency_def valid_guardrail_def demo_exit_code_def valid_workload_identity_def valid_workload_def demo_contract_def
      valid_requirement_def demo_requirements_def valid_budget_def budget_of_def demo_payload_def int_or_def given_def valid_draft_def valid_profile_def
      demo_profile_def valid_binding_def demo_binding_def valid_rep_digest hex_digit_def)

lemma a1_decodes:
  "decode_a1_quality (a1_body partial ''A1QualityReport'') = Inr demo_a1_quality"
  "decode_objective (a1_body partial ''CanonicalObjective'') = Inr (ax_objective (demo_case partial))"
  "decode_criteria (a1_body partial ''CriterionSet'') = Inr ([demo_latency], [])" "decode_guardrails (a1_body partial ''GuardrailSet'') = Inr ([demo_exit_code], [])"
  "decode_workload (a1_body partial ''WorkloadIdentity'') = Inr (ax_workload (demo_case partial))"
  "decode_requirements (a1_body partial ''EvidenceRequirementSet'') = Inr (demo_requirements, [])"
  "decode_budget (a1_body partial ''ExecutionBudgetArtifact'') = Inr (budget_of demo_payload, ''v1'')"
  "decode_identity (a1_body partial ''LocalSourceIdentity'') = Inr demo_identity" "decode_scope (a1_body partial ''FeatureScope'') = Inr demo_scope"
  "decode_draft (a1_body partial ''RawRequestDraft'') = Inr demo_draft" "decode_profile (a1_body partial ''ProjectProfile'') = Inr (demo_profile partial)"
  "decode_a1_approval (a1_body partial ''A1ApprovalDecision'') = Inr (a1_decision (Some demo_binding) ''continue'' [] ''v1'')"
  using demo_parts_valid
  by (simp_all add: a1_body_def dict_get_def decode_a1_quality_def decode_objective_def decode_criteria_def decode_guardrails_def decode_workload_def
      decode_requirements_def decode_budget_def decode_identity_def decode_scope_def decode_draft_def decode_profile_def decode_a1_approval_def checked_def
      valid_a1_quality_def demo_a1_quality_def valid_a1_approval_def a1_decision_def)

lemma demo_sha_valid: "valid_digest (demo_sha partial c)"
  by (auto simp: demo_sha_def a1_digests_def dict_get_def valid_rep_digest hex_digit_def split: option.splits)

lemma a1_seal_runs:
  assumes "ty \<noteq> []" "length ty \<le> 98" "distinct parents" "list_all (\<lambda>d. startswith d ''sha256:'' \<and> length d = 71) parents"
  shows "a1_seal (demo_a1 partial) (a1_ports partial) (a1_state tys c) node ty parents True b w =
     (Inr \<lparr>ref_type = ty, ref_schema = ''1.0'', ref_id = ''c-'' @ ty, ref_digest = demo_sha partial (Sealed \<lparr>env_type = ty, env_id = ''c-'' @ ty,
        env_tenant = ''t'', env_case = ''c'', env_created = 0, env_parents = parents, env_body = b\<rparr>), ref_uri = ''u''\<rparr>, w)"
  using assms
  by (cases ty) (simp_all add: a1_seal_def lane_envelope_def valid_envelope_def len_in_def checked_def put_envelope_def a1_ports_def demo_ports_def mk_ref_def
      valid_ref_def demo_sha_valid demo_ref_def demo_a1_def Let_def bindI_def)
theorem source_stays_in_root_witness:
  "\<exists>ex ref env x. handle_a1_30 (demo_a1 False) (a1_state [''ManualCasePayload''] None) (a1_ports False) demo_world = (Inr ex, demo_world) \<and>
     ex = refs_update ref \<and> ref_digest ref = demo_sha False (Sealed env) \<and> env_body env = BSourceIdentity x \<and> ls_canonical x = ''/srv/repo'' \<and> ls_relative x = ''repo''"
proof -
  let ?st = "a1_state [''ManualCasePayload''] None"
  have resolve: "ae_resolve (demo_a1 False) w ''/srv'' = [''srv'']" "ae_resolve (demo_a1 False) w ''/srv/repo'' = [''srv'', ''repo'']" for w
    by (simp_all add: demo_a1_def)
  have sha: "ae_sha (demo_a1 False) = demo_sha False" by (simp add: demo_a1_def)
  have dirs: "ae_is_dir (demo_a1 False) w p" for w p by (simp add: demo_a1_def)
  have git: "a1_git (demo_a1 False) [''srv'', ''repo''] args demo_world =
      (Inr (if args = [''rev-parse'', ''HEAD''] then ''abc'' else if args = [''rev-parse'', ''--show-toplevel''] then ''/srv/repo'' else []), demo_world)" for args
    by (simp add: a1_git_def git_def demo_a1_def path_str_def strip_def is_space_def given_def bindI_def)
  have repo: "repository_id (demo_a1 False) [''srv'', ''repo''] \<noteq> []" by (simp add: repository_id_def demo_a1_def rep_digest_def)
  have "\<exists>ex. identify_source (demo_a1 False) ?st (a1_ports False) [''srv''] [''srv'', ''repo''] demo_world = (Inr ex, demo_world)"
    by (simp add: identify_source_def bindI_Inr git resolve valid_identity_def repo path_str_def relative_str_def Let_def a1_seal_runs)
  then obtain ex where h: "handle_a1_30 (demo_a1 False) ?st (a1_ports False) demo_world = (Inr ex, demo_world)"
    using dirs by (auto simp: handle_a1_30_def bindI_Inr a1_read_payload resolve is_relative_to_def Let_def)
  from source_stays_in_root[OF h] obtain base below ref env x where "base = [''srv'']" "base @ below = [''srv'', ''repo'']"
    and "ex = refs_update ref" "ref_digest ref = demo_sha False (Sealed env)" "env_body env = BSourceIdentity x"
      "ls_canonical x = path_str (base @ below)" "ls_relative x = relative_str below"
    using sha by (auto simp: a1_read_payload resolve)
  with h show ?thesis by (auto simp: path_str_def relative_str_def)
qed

lemma demo_ids: "distinct (map cr_id (fst (ax_criteria (demo_case partial))))" "''correctness'' \<notin> cr_id ` set (fst (ax_criteria (demo_case partial)))"
  by (simp_all add: demo_case_def demo_latency_def)

theorem intake_gate_exact_witness:
  "\<exists>q. a1_quality_of (demo_a1 False) demo_world (demo_case False) = Inr q \<and> ql_passed q"
proof -
  have "list_all canonical_unit [demo_latency]" by (simp add: canonical_unit_def builtin_metrics_def metric_def demo_latency_def)
  then show ?thesis
    using intake_gate_exact[OF demo_draft_def demo_case_made[of False] demo_ids, of "demo_a1 False" demo_world]
    by (simp add: truthy_def) (simp add: demo_case_def demo_contract_def budget_of_def given_def demo_payload_def demo_profile_def)
qed
lemma demo_case_sel [simp]: "ax_scope (demo_case partial) = demo_scope" "ax_criteria (demo_case partial) = ([demo_latency], [])"
  "ax_guardrails (demo_case partial) = ([demo_exit_code], [])" "ax_evidence (demo_case partial) = (demo_requirements, [])"
  "ax_budget (demo_case partial) = budget_of demo_payload" "ax_profile (demo_case partial) = demo_profile partial" "ax_payload (demo_case partial) = demo_payload"
  "ax_draft (demo_case partial) = demo_draft"
  by (simp_all add: demo_case_def)

lemma demo_judged: "\<exists>q. a1_quality_of (demo_a1 partial) w (demo_case partial) = Inr q \<and> (ql_passed q \<longleftrightarrow> \<not> partial) \<and> ql_policy q = ''v1''"
proof -
  have "list_all canonical_unit [demo_latency]" by (simp add: canonical_unit_def builtin_metrics_def metric_def demo_latency_def)
  then obtain bs where "validate_evidence_bindings (ae_repr (demo_a1 partial)) [demo_latency] demo_requirements = Inr []"
    by (simp add: validate_evidence_bindings_def binding_conflicts_def demo_latency_def demo_requirements_def demo_metrics metric_def py_dict_def)
  then have c: "a1_conflicts (demo_a1 partial) w (demo_case partial) = Inr (if partial then [''project discovery was truncated at '' @ str_int 1 @
      '' files; analysis may be incomplete for very large repositories''] else [])"
    by (simp add: a1_conflicts_def validate_compose_contract_def demo_scope_def demo_requirements_def) (simp add: demo_case_def demo_profile_def)
  have m: "a1_missing (demo_case partial) = []" by (simp add: a1_missing_def) (simp add: demo_case_def)
  have b: "validate_budget (ax_workload (demo_case partial)) (budget_of demo_payload) = ([], [])"
    by (simp add: demo_case_def validate_budget_def demo_contract_def budget_of_def int_or_def given_def demo_payload_def)
  show ?thesis by (simp add: a1_quality_of_def c m b)
qed

theorem passed_case_freezes_validly_witness:
  "\<exists>goal l. valid_request (frozen_request demo_identity demo_scope goal [demo_latency] [demo_exit_code] l None demo_requirements (budget_of demo_payload)
     demo_binding (rep_digest CHR ''d''))"
proof -
  from demo_judged[of False demo_world] obtain q where q: "a1_quality_of (demo_a1 False) demo_world (demo_case False) = Inr q" "ql_passed q" by auto
  have "wi_execution (ax_workload (demo_case False)) = None" "ab_digest demo_binding = rep_digest CHR ''d''" by (simp_all add: demo_case_def demo_binding_def)
  with passed_case_freezes_validly[OF q, of demo_identity demo_binding] demo_parts_valid show ?thesis by auto
qed

lemma a1_parents_valid:
  assumes "set cs \<subseteq> set ''0123456789abcdef''" shows "list_all (\<lambda>d. startswith d ''sha256:'' \<and> length d = 71) (map rep_digest cs)"
  using assms by (induction cs) (auto simp: rep_digest_def startswith_def)

definition a1_known :: "string list" where
  "a1_known = filter (\<lambda>ty. ty \<noteq> ''A1ApprovalDecision'') (keys a1_digests)"

lemma a1_known_mem [simp]:
  "set a1_known = {''ManualCasePayload'', ''A1QualityReport'', ''CanonicalObjective'', ''CriterionSet'', ''GuardrailSet'', ''WorkloadIdentity'',
     ''EvidenceRequirementSet'', ''ExecutionBudgetArtifact'', ''LocalSourceIdentity'', ''FeatureScope'', ''RawRequestDraft'', ''ProjectProfile''}"
  by (auto simp: a1_known_def a1_digests_def)

lemma a1_runs_80:
  "\<exists>ex. handle_a1_80 (demo_a1 True) (a1_state a1_known None) (a1_ports True) w = (Inr ex, w) \<and>
     (\<exists>i. (''pending_interrupt'', VInterrupt i) \<in> set (ex_updates ex) \<and> set (int_allowed i) = {''revise'', ''reject''})"
proof -
  from demo_judged[of True w] obtain q where q: "a1_quality_of (demo_a1 True) w (demo_case True) = Inr q" "\<not> ql_passed q" "valid_a1_quality q"
    by (auto simp: valid_a1_quality_def)
  have x: "\<lparr>ax_payload = demo_payload, ax_objective = ax_objective (demo_case True), ax_criteria = ([demo_latency], []),
      ax_guardrails = ([demo_exit_code], []), ax_workload = ax_workload (demo_case True), ax_evidence = (demo_requirements, []), ax_draft = demo_draft,
      ax_profile = demo_profile True, ax_scope = demo_scope, ax_budget = budget_of demo_payload\<rparr> = demo_case True" by (simp add: demo_case_def)
  have clock: "ae_clock (demo_a1 True) v = 0" for v by (simp add: demo_a1_def)
  have parents: "list_all (\<lambda>d. startswith d ''sha256:'' \<and> length d = 71) (map rep_digest ''23456ab97'')" by (rule a1_parents_valid) simp
  show ?thesis
    using q parents
    by (simp add: handle_a1_80_def bindI_Inr a1_read_payload a1_read_typed a1_decodes x Let_def a1_seal_runs dict_get_def a1_digests_def
        route_quality_def a1_interrupt_def valid_interrupt_def len_in_def clock checked_def demo_sha_valid clarification_decisions_def)
qed
definition demo_answer :: "string \<Rightarrow> resume_command" where
  "demo_answer decision = \<lparr>rc_id = ''k'', rc_tenant = ''t'', rc_case = ''c'', rc_thread = ''th'', rc_interrupt = ''c-A1-CLARIFICATION'', rc_actor = ''ann'',
     rc_roles = [''requester''], rc_decision = decision, rc_digest = rep_digest CHR ''1'', rc_policy = ''v1'', rc_issued = Aware 0\<rparr>"

lemma a1_fingerprint: "request_fingerprint (demo_a1 partial) (a1_state tys c) (map a1_ref frozen_types) = Inr (rep_digest CHR ''d'')"
  by (simp add: request_fingerprint_def demo_a1_def)

lemma a1_90_runs:
  assumes a: "decide_request (demo_a1 partial) (a1_state a1_known c) (a1_ports partial) demo_payload demo_a1_quality demo_identity demo_scope (rep_digest CHR ''d'') w =
      (Inr a, w)" and "valid_a1_approval a" and "aa_route a \<noteq> ''approval''"
  shows "\<exists>ref. handle_a1_90 (demo_a1 partial) (a1_state a1_known c) (a1_ports partial) w =
      (Inr \<lparr>ex_route = (if aa_route a = ''continue'' then CONTINUE else REJECTED), ex_updates = [(''artifact_refs'', VRefs [ref])]\<rparr>, w) \<and>
    ref = \<lparr>ref_type = ''A1ApprovalDecision'', ref_schema = ''1.0'', ref_id = ''c-A1ApprovalDecision'', ref_digest = demo_sha partial (Sealed
      \<lparr>env_type = ''A1ApprovalDecision'', env_id = ''c-A1ApprovalDecision'', env_tenant = ''t'', env_case = ''c'', env_created = 0,
       env_parents = map rep_digest ''123456789'', env_body = BA1Approval a\<rparr>), ref_uri = ''u''\<rparr>"
proof -
  have parents: "list_all (\<lambda>d. startswith d ''sha256:'' \<and> length d = 71) (map rep_digest ''123456789'')" by (rule a1_parents_valid) simp
  have fp: "request_fingerprint (demo_a1 partial) (a1_state a1_known c) [a1_ref ''LocalSourceIdentity'', a1_ref ''FeatureScope'', a1_ref ''CanonicalObjective'',
      a1_ref ''CriterionSet'', a1_ref ''GuardrailSet'', a1_ref ''WorkloadIdentity'', a1_ref ''EvidenceRequirementSet'', a1_ref ''ExecutionBudgetArtifact''] =
      Inr (rep_digest CHR ''d'')"
    using a1_fingerprint[of partial a1_known c] by (simp add: frozen_types_def)
  show ?thesis
    using assms parents
    by (simp add: handle_a1_90_def bindI_Inr a1_read_payload a1_read_typed a1_decodes fp a1_seal_runs dict_get_def a1_digests_def route_decision_def
        refs_update_def cont_def)
qed

theorem clarified_case_is_rejected_witness:
  "\<exists>ex. handle_a1_90 (demo_a1 True) (a1_state a1_known (Some (demo_answer ''revise''))) (a1_ports True) demo_world = (Inr ex, demo_world) \<and> ex_route ex = REJECTED"
proof -
  let ?c = "demo_answer ''revise''"
  from a1_runs_80[of demo_world] obtain ex i where h: "handle_a1_80 (demo_a1 True) (a1_state a1_known None) (a1_ports True) demo_world = (Inr ex, demo_world)"
    "(''pending_interrupt'', VInterrupt i) \<in> set (ex_updates ex)" "rc_decision ?c \<in> set (int_allowed i)" by (auto simp: demo_answer_def)
  let ?a = "a1_decision None ''rejected'' [''resumed with decision revise''] ''v1''"
  have a: "decide_request (demo_a1 True) (a1_state a1_known (Some ?c)) (a1_ports True) demo_payload demo_a1_quality demo_identity demo_scope (rep_digest CHR ''d'')
      demo_world = (Inr ?a, demo_world)"
    by (simp add: decide_request_def resumed_approval_def demo_answer_def) (simp add: demo_a1_def)
  have "valid_a1_approval ?a" "aa_route ?a \<noteq> ''approval''" by (simp_all add: valid_a1_approval_def a1_decision_def)
  from a1_90_runs[OF a this] obtain ex' where "handle_a1_90 (demo_a1 True) (a1_state a1_known (Some ?c)) (a1_ports True) demo_world = (Inr ex', demo_world)" by blast
  moreover from clarified_case_is_rejected[OF h _ this] have "ex_route ex' = REJECTED" by simp
  ultimately show ?thesis by blast
qed
lemma a1_store_inject: "a1_store partial (a1_ref t) = a1_store partial (a1_ref t') \<Longrightarrow> t = t'"
  by (auto simp: a1_store_def split: if_splits)

lemma demo_sha_content:
  assumes "ty \<in> set (keys a1_digests)"
  shows "demo_sha partial c = ref_digest (a1_ref ty) \<longleftrightarrow> c = a1_store partial (a1_ref ty)"
proof
  assume c: "c = a1_store partial (a1_ref ty)"
  have "find (\<lambda>t. a1_store partial (a1_ref t) = c) (keys a1_digests) = find (\<lambda>t. t = ty) (keys a1_digests)"
    by (rule find_cong) (use a1_store_inject c in auto)
  moreover have "find (\<lambda>t. t = ty) ts = Some ty" if "ty \<in> set ts" for ts using that by (induction ts) auto
  ultimately show "demo_sha partial c = ref_digest (a1_ref ty)" using assms by (simp only: demo_sha_def option.case)
next
  have inj: "dict_get a1_digests t CHR ''e'' = dict_get a1_digests ty CHR ''e'' \<longrightarrow> t = ty" "dict_get a1_digests ty CHR ''e'' \<noteq> CHR ''f''"
    if "t \<in> set (keys a1_digests)" for t
  proof -
    have d: "distinct (map snd a1_digests)" "CHR ''f'' \<notin> snd ` set a1_digests" by (simp_all add: a1_digests_def)
    have in_list: "(u, dict_get a1_digests u CHR ''e'') \<in> set a1_digests" if "u \<in> set (keys a1_digests)" for u
      using that unfolding keys_mem_iff by (auto simp: dict_get_def dest: map_of_SomeD)
    show "dict_get a1_digests t CHR ''e'' = dict_get a1_digests ty CHR ''e'' \<longrightarrow> t = ty"
      using inj_onD[OF conjunct2[OF d(1)[unfolded distinct_map]] _ in_list[OF that] in_list[OF assms]] by simp
    show "dict_get a1_digests ty CHR ''e'' \<noteq> CHR ''f''" using in_list[OF assms] d(2) by force
  qed
  assume d: "demo_sha partial c = ref_digest (a1_ref ty)"
  show "c = a1_store partial (a1_ref ty)"
  proof (cases "find (\<lambda>t. a1_store partial (a1_ref t) = c) (keys a1_digests)")
    case None
    with d inj(2)[OF assms] show ?thesis by (simp add: demo_sha_def)
  next
    case (Some t)
    then have "t \<in> set (keys a1_digests)" "a1_store partial (a1_ref t) = c" by (auto simp: find_Some_iff)
    with d inj(1)[of t] Some show ?thesis by (auto simp: demo_sha_def)
  qed
qed
abbreviation demo_frozen :: optimization_request where
  "demo_frozen \<equiv> frozen_request demo_identity demo_scope (''Optimize search: p95_latency_ms (minimize)'', ''search'') [demo_latency] [demo_exit_code] demo_contract None
     demo_requirements (budget_of demo_payload) demo_binding (rep_digest CHR ''d'')"

lemma demo_frozen_valid: "valid_request demo_frozen"
  using demo_parts_valid
  by (simp add: valid_request_def frozen_request_def valid_source_reference_def valid_objective_def len_in_def valid_rep_digest hex_digit_def)
    (simp add: demo_identity_def valid_workload_def demo_contract_def demo_requirements_def)

lemma a1_approved_state:
  "set (a1_known @ [''A1ApprovalDecision'']) = set (keys a1_digests)"
  by (auto simp: a1_digests_def)

lemma a1_95_runs:
  "\<exists>ex. handle_a1_95 (demo_a1 False) (a1_state (a1_known @ [''A1ApprovalDecision'']) None) (a1_ports False) w = (Inr ex, w)"
proof -
  let ?st = "a1_state (a1_known @ [''A1ApprovalDecision'']) None"
  have fp: "request_fingerprint (demo_a1 False) ?st [a1_ref ''LocalSourceIdentity'', a1_ref ''FeatureScope'', a1_ref ''CanonicalObjective'',
      a1_ref ''CriterionSet'', a1_ref ''GuardrailSet'', a1_ref ''WorkloadIdentity'', a1_ref ''EvidenceRequirementSet'', a1_ref ''ExecutionBudgetArtifact''] =
      Inr (rep_digest CHR ''d'')"
    using a1_fingerprint[of False "a1_known @ [''A1ApprovalDecision'']" None] by (simp add: frozen_types_def)
  have parts: "cb_objective (ax_objective (demo_case False)) = Some (''Optimize search: p95_latency_ms (minimize)'', ''search'')"
    "wi_workload (ax_workload (demo_case False)) = Some demo_contract" "wi_execution (ax_workload (demo_case False)) = None" by (simp_all add: demo_case_def)
  have "optimization_request_of (demo_a1 False) ?st (a1_ports False) w = (Inr (demo_frozen, map rep_digest ''89234756c''), w)"
    by (simp add: optimization_request_of_def bindI_Inr a1_read_typed a1_decodes fp parts a1_decision_def dict_get_def a1_digests_def)
      (simp add: demo_binding_def)
  moreover have "list_all (\<lambda>d. startswith d ''sha256:'' \<and> length d = 71) (map rep_digest ''89234756c'')" by (rule a1_parents_valid) simp
  ultimately show ?thesis by (simp add: handle_a1_95_def bindI_Inr a1_seal_runs demo_frozen_valid)
qed

theorem frozen_request_is_the_approved_one_witness:
  "\<exists>ex ex' ref env request. handle_a1_90 (demo_a1 False) (a1_state a1_known None) (a1_ports False) demo_world = (Inr ex, demo_world) \<and>
     handle_a1_95 (demo_a1 False) (a1_state (a1_known @ [''A1ApprovalDecision'']) None) (a1_ports False) demo_world = (Inr ex', demo_world) \<and>
     ex' = cont [(''request_ref'', VRef ref), (''artifact_refs'', VRefs [ref])] \<and> ref_digest ref = demo_sha False (Sealed env) \<and> env_body env = BRequest request \<and>
     req_criteria request = [demo_latency] \<and> ab_actor (req_approval request) = ''ann''"
proof -
  let ?e = "demo_a1 False" and ?st = "a1_state a1_known None" and ?st' = "a1_state (a1_known @ [''A1ApprovalDecision'']) None"
  let ?a = "a1_decision (Some demo_binding) ''continue'' [] ''v1''" and ?refs = "map a1_ref frozen_types" and ?d = "a1_ref ''A1ApprovalDecision''"
  have a: "decide_request ?e ?st (a1_ports False) demo_payload demo_a1_quality demo_identity demo_scope (rep_digest CHR ''d'') demo_world = (Inr ?a, demo_world)"
    using demo_parts_valid(11)
    by (simp add: decide_request_def demo_a1_quality_def a1_ports_def demo_ports_def platform_ports_def approval_binding_of_def checked_def demo_binding_def)
  have v: "valid_a1_approval ?a" "aa_route ?a \<noteq> ''approval''" using demo_parts_valid(11) by (simp_all add: valid_a1_approval_def a1_decision_def)
  have "a1_store False ?d = Sealed \<lparr>env_type = ''A1ApprovalDecision'', env_id = ''c-A1ApprovalDecision'', env_tenant = ''t'', env_case = ''c'', env_created = 0,
       env_parents = map rep_digest ''123456789'', env_body = BA1Approval ?a\<rparr>"
    by (simp add: a1_store_def a1_body_def dict_get_def a1_digests_def)
  with demo_sha_content[of "''A1ApprovalDecision''" False "a1_store False ?d"] a1_90_runs[OF a v] obtain ex where
    h: "handle_a1_90 ?e ?st (a1_ports False) demo_world = (Inr ex, demo_world)" "(''artifact_refs'', VRefs [?d]) \<in> set (ex_updates ex)"
    by (auto simp: a1_ref_def digest_ref_def demo_ref_def dict_get_def a1_digests_def)
  obtain ex' where h': "handle_a1_95 ?e ?st' (a1_ports False) demo_world = (Inr ex', demo_world)" using a1_95_runs by blast
  have content: "ae_sha ?e c = ref_digest r \<longleftrightarrow> c = a1_store False r"
    if "r \<in> set (get_refs ?st ''artifact_refs'') \<union> set (get_refs ?st' ''artifact_refs'')" for r c
  proof -
    from that have "r \<in> a1_ref ` set (a1_known @ [''A1ApprovalDecision''])" unfolding a1_state_sel set_map set_append by blast
    then obtain ty where "r = a1_ref ty" "ty \<in> set (keys a1_digests)" unfolding a1_approved_state by blast
    moreover have "ae_sha ?e = demo_sha False" by (simp add: demo_a1_def)
    ultimately show ?thesis using demo_sha_content by metis
  qed
  have refs: "mapR (require_ref ?st) frozen_types = Inr ?refs" by (rule mapR_total) (auto simp: frozen_types_def a1_state_refs)
  have fields: "d = fingerprint_fields ''c'' ?refs" if "ae_dict_sha ?e d = ae_dict_sha ?e (fingerprint_fields ''c'' ?refs)" for d
    using that by (simp add: demo_a1_def split: if_splits)
  from frozen_request_is_the_approved_one[OF a1_reads content refs a1_state_sel(1) fields h a1_state_refs h']
  obtain ref env request a where r: "ex' = cont [(''request_ref'', VRef ref), (''artifact_refs'', VRefs [ref])]" "ref_digest ref = ae_sha ?e (Sealed env)"
    "env_body env = BRequest request" "list_all (\<lambda>r. says request (body_of (a1_store False r))) ?refs"
    "body_of (a1_store False ?d) = BA1Approval a" "aa_binding a = Some (req_approval request)" by auto
  have "says request (a1_body False ''CriterionSet'')" using r(4) by (simp add: frozen_types_def a1_store_def body_of_def)
  then have "req_criteria request = [demo_latency]" by (simp add: says_def a1_body_def dict_get_def)
  moreover have "req_approval request = demo_binding"
    using r(5,6) by (auto simp: a1_store_def body_of_def a1_body_def dict_get_def a1_decision_def)
  then have "ab_actor (req_approval request) = ''ann''" by (simp add: demo_binding_def)
  ultimately show ?thesis using h(1) h' r(1-3) by (auto simp: demo_a1_def)
qed

theorem missing_metric_crashes_witness:
  "\<exists>ports st. handle_a1_70 (demo_a1 False) st ports demo_world = (Inl (ValidationError ''MetricDefinition''), demo_world)"
proof -
  let ?p = "demo_payload\<lparr>mp_metric := None\<rparr>"
  let ?env = "\<lambda>b. \<lparr>env_type = ''x'', env_id = ''x'', env_tenant = ''t'', env_case = ''c'', env_created = 0, env_parents = [], env_body = b\<rparr>"
  let ?store = "\<lambda>r. if ref_type r = ''ManualCasePayload'' then PayloadJson ?p
     else if ref_type r = ''RawRequestDraft'' then Sealed (?env (BRequestDraft (draft_from_payload None ?p))) else Sealed (?env (BProfile (demo_profile False)))"
  let ?ports = "(a1_ports False)\<lparr>np_read := \<lambda>_ r. retI (?store r)\<rparr>" and ?st = "a1_state a1_known None"
  have "valid_payload ?p" using demo_payload_valid by (simp add: valid_payload_def business_intent_def)
  moreover have "valid_draft (draft_from_payload None ?p)"
    by (simp add: valid_draft_def draft_sel draft_fields structured_draft merged_def of_extracted_def truthy_def len_in_def merge_notes_def merge_note_def
        List.map_filter_def)
  ultimately have "handle_a1_70 (demo_a1 False) ?st ?ports demo_world = (Inl (ValidationError ''MetricDefinition''), demo_world)"
    using missing_metric_crashes[of ?ports ?store ?st "''t''" "a1_ref ''ManualCasePayload''" ?p "a1_ref ''RawRequestDraft''"
        "?env (BRequestDraft (draft_from_payload None ?p))" "a1_ref ''ProjectProfile''" "?env (BProfile (demo_profile False))" "demo_profile False"
        "demo_a1 False" demo_world] demo_parts_valid(10)
    by (simp add: a1_state_refs)
  then show ?thesis by blast
qed

end
