(* ===== verification/Implementation.thy ===== *)
theory Implementation
  imports Verification
begin

text \<open>
  Step 03, implement one phase (\<open>application/s03_handlers.py\<close> and \<open>application/s03_agent_loop.py\<close>): choosing and
  authorizing the active phase, the isolated workspace, the context of the executor, the deterministic
  sweep and the bounded agent loop, the scope check S03.60, the sanitation check S03.70 and the sealed
  patch of S03.80. The file tree is a parameter, and so are the Python parser behind \<open>_extract_symbols\<close>,
  \<open>difflib\<close>, the secret patterns, the prompts and the model.
\<close>

section \<open>Files\<close>

record 'w tree =
  tr_files :: "string \<Rightarrow> 'w \<Rightarrow> string list"                      \<comment> \<open>relative paths of the files below a root\<close>
  tr_read :: "string \<Rightarrow> string \<Rightarrow> 'w \<Rightarrow> string option"            \<comment> \<open>root, path; \<open>None\<close> when missing or unreadable\<close>
  tr_exists :: "string \<Rightarrow> string \<Rightarrow> 'w \<Rightarrow> bool"
  tr_inside :: "string \<Rightarrow> string \<Rightarrow> 'w \<Rightarrow> bool"                   \<comment> \<open>\<open>(root / path).resolve().is_relative_to(root)\<close>\<close>
  tr_write :: "string \<Rightarrow> string \<Rightarrow> string \<Rightarrow> 'w \<Rightarrow> string option \<times> 'w"   \<comment> \<open>the text of an \<open>OSError\<close>, or none\<close>
  tr_mkdtemp :: "'w \<Rightarrow> string \<times> 'w"
  tr_copytree :: "string \<Rightarrow> string \<Rightarrow> 'w \<Rightarrow> 'w"
  tr_rmtree :: "string \<Rightarrow> 'w \<Rightarrow> 'w"
  tr_symbols :: "string \<Rightarrow> string \<Rightarrow> 'w \<Rightarrow> string dict option"      \<comment> \<open>\<open>_extract_symbols\<close>\<close>

definition ignored_dir_names :: "string list" where
  "ignored_dir_names = [''.git'', ''__pycache__'', ''.pytest_cache'', ''.mypy_cache'', ''.ruff_cache'', ''.venv'', ''node_modules'']"

section \<open>The workspace\<close>

definition get_workspace :: "state \<Rightarrow> workspace option" where
  "get_workspace st = (case st ''s03_workspace'' of Some (VWorkspace k) \<Rightarrow> Some k | _ \<Rightarrow> None)"

definition require_workspace :: "state \<Rightarrow> workspace result" where
  "require_workspace st = (case get_workspace st of Some k \<Rightarrow> Inr k | None \<Rightarrow> Inl (KeyError ''path''))"

definition parent_dir :: "string \<Rightarrow> string" where
  "parent_dir p = join ''/'' (butlast (split_on CHR ''/'' p))"

definition cleanup_workspace :: "'w tools \<Rightarrow> 'w tree \<Rightarrow> workspace \<Rightarrow> ('w, unit) io" where
  "cleanup_workspace tools tr k =
     (if wk_path k = [] then retI ()
      else (\<lambda>w. bindI (if wk_isolation k = GitWorktree \<and> wk_source k \<noteq> [] \<and> tr_exists tr (wk_path k) [] w
                      then bindI (git tools (wk_source k) [''worktree'', ''remove'', ''--force'', wk_path k]) (\<lambda>_. retI ())
                      else retI ()) (\<lambda>_ w'. (Inr (), tr_rmtree tr (parent_dir (wk_path k)) w')) w))"

section \<open>S03.10 to S03.40\<close>

definition s03_policy_version :: string where
  "s03_policy_version = ''s03-authorization-v1''"

definition decode_plan :: "body \<Rightarrow> execution_plan result" where
  "decode_plan b = (case b of BPlan p \<Rightarrow> if valid_plan p then Inr p else Inl (ValidationError ''ExecutionPlan'')
     | _ \<Rightarrow> Inl (ValidationError ''ExecutionPlan''))"

definition read_plan :: "'w node_ports \<Rightarrow> state \<Rightarrow> ('w, execution_plan) io" where
  "read_plan ports st = bindI (liftI (require_ref st ''ExecutionPlan'')) (\<lambda>ref. read_model ports st ref decode_plan)"

definition read_tasks :: "'w node_ports \<Rightarrow> state \<Rightarrow> ('w, task_list) io" where
  "read_tasks ports st = bindI (liftI (require_ref st ''TaskList'')) (\<lambda>ref. read_model ports st ref decode_tasks)"

definition phase_task_ids :: "plan_task list \<Rightarrow> string \<Rightarrow> string list" where
  "phase_task_ids tasks phase = map tk_id (filter (\<lambda>t. tk_phase t = phase) tasks)"

text \<open>The first phase, by sequence, with a task that is not completed.\<close>

definition next_phase :: "execution_phase list \<Rightarrow> plan_task list \<Rightarrow> string list \<Rightarrow> string option" where
  "next_phase phases tasks completed =
     map_option ph_id (find (\<lambda>p. \<not> set (phase_task_ids tasks (ph_id p)) \<subseteq> set completed) (sort_key ph_sequence phases))"

definition handle_s03_10 :: "state \<Rightarrow> 'w node_ports \<Rightarrow> ('w, node_execution) io" where
  "handle_s03_10 st ports =
     (case np_policy ports of
        None \<Rightarrow> failI (RuntimeError ''S03.10 requires ports.policy to be non-None'')
      | Some evaluate \<Rightarrow>
          bindI (read_plan ports st) (\<lambda>plan.
          bindI (read_tasks ports st) (\<lambda>tasks.
          bindI (read_request ports st) (\<lambda>request.
          case next_phase (ep_phases plan) (tkl_tasks tasks) (get_strs st ''s03_completed_task_ids'') of
            None \<Rightarrow> retI \<lparr>ex_route = REJECTED,
                      ex_updates = [(''s03_authorization'', VAuthorization False [''no remaining phase''])]\<rparr>
          | Some phase \<Rightarrow>
              bindI (liftI (required_state_str st ''tenant_id'')) (\<lambda>tenant.
              bindI (liftI (required_state_str st ''case_id'')) (\<lambda>cid.
              bindI (evaluate \<lparr>pq_type = ''s03_phase_authorization'', pq_version = s03_policy_version, pq_tenant = tenant,
                       pq_facts = [(''phase_id'', VStr phase), (''case_id'', VStr cid)]\<rparr>) (\<lambda>d.
              retI \<lparr>ex_route = (if pd_allowed d then CONTINUE else REJECTED),
                    ex_updates = [(''s03_active_phase_id'', VStr phase),
                      (''s03_authorization'', VAuthorization (pd_allowed d) (pd_reasons d))]\<rparr>)))))))"

definition handle_s03_20 :: "'w tools \<Rightarrow> 'w tree \<Rightarrow> state \<Rightarrow> 'w node_ports \<Rightarrow> ('w, node_execution) io" where
  "handle_s03_20 tools tr st ports =
     bindI (case get_workspace st of Some k \<Rightarrow> cleanup_workspace tools tr k | None \<Rightarrow> retI ()) (\<lambda>_.
     bindI (read_snapshot ports st) (\<lambda>snapshot. (\<lambda>w.
     let (tmp, w1) = tr_mkdtemp tr w; dir = tmp @ ''/workspace''; src = sn_path snapshot in
     bindI (case sn_revision snapshot of
              Some r \<Rightarrow> if r = [] then retI None
                        else git tools src [''worktree'', ''add'', ''--detach'', dir, r]
            | None \<Rightarrow> retI None) (\<lambda>added. (\<lambda>w2.
     let isolation = (if added = None then DirectoryCopy else GitWorktree);
         w3 = (if added = None then tr_copytree tr src dir w2 else w2);
         base = (case sn_revision snapshot of Some r \<Rightarrow> if r = [] then ''unversioned'' else r | None \<Rightarrow> ''unversioned'') in
     retI (cont [(''s03_workspace'', VWorkspace \<lparr>wk_path = dir, wk_base = base, wk_isolation = isolation, wk_source = src\<rparr>)]) w3)) w1)))"

definition handle_s03_30 :: "state \<Rightarrow> 'w node_ports \<Rightarrow> ('w, node_execution) io" where
  "handle_s03_30 st ports =
     bindI (read_selection ports st) (\<lambda>(sid, p).
     bindI (liftI (strategy_by_id p sid)) (\<lambda>s.
     retI (cont [(''s03_executor'', VExecutor
       \<lparr>xs_kind = (if st_risk_ceiling s = ExperimentConfig then DeterministicConfig else LlmDriven),
        xs_risk = st_risk_ceiling s, xs_strategy = st_id s\<rparr>)])))"

text \<open>\<open>setdefault(file, []).extend(symbols)\<close> over the tasks and their files, then \<open>sorted(set(...))\<close>.\<close>

definition extend_symbols :: "string list dict \<Rightarrow> string \<times> string list \<Rightarrow> string list dict" where
  "extend_symbols d fs = AList.update (fst fs) (dict_get d (fst fs) [] @ snd fs) d"

definition allowed_symbols_by_path :: "plan_task list \<Rightarrow> string list dict" where
  "allowed_symbols_by_path tasks =
     map (\<lambda>(f, symbols). (f, sorted_set symbols))
       (foldl extend_symbols [] (concat (map (\<lambda>t. map (\<lambda>f. (f, tk_symbols t)) (tk_files t))
         (filter (\<lambda>t. tk_symbols t \<noteq> []) tasks))))"

definition handle_s03_40 :: "state \<Rightarrow> 'w node_ports \<Rightarrow> ('w, node_execution) io" where
  "handle_s03_40 st ports =
     bindI (read_plan ports st) (\<lambda>plan.
     bindI (read_tasks ports st) (\<lambda>tl.
     bindI (read_manifest ports st) (\<lambda>m.
     bindI (liftI (active_phase_id st)) (\<lambda>active.
     case find (\<lambda>p. ph_id p = active) (ep_phases plan) of
       None \<Rightarrow> failI StopIteration
     | Some phase \<Rightarrow>
         let tasks = filter (\<lambda>t. tk_phase t = active) (tkl_tasks tl) in
         retI (cont [(''s03_context'', VPhaseContext
           \<lparr>cx_phase = ph_id phase, cx_kind = ph_kind phase, cx_paths = sorted_set (concat (map tk_files tasks)),
            cx_symbols = allowed_symbols_by_path tasks, cx_command = find (\<lambda>c. cm_kind c = ''unit'') (rm_commands m),
            cx_tasks = map (\<lambda>t. \<lparr>tb_id = tk_id t, tb_objective = tk_objective t, tb_instructions = tk_instructions t,
              tb_symbols = tk_symbols t\<rparr>) tasks,
            cx_treatment = ph_treatment phase, cx_done = ph_done phase\<rparr>)])))))"

section \<open>The executors\<close>

text \<open>\<open>text.replace(before, after)\<close> for a non-empty \<open>before\<close>.\<close>

function replace_all :: "string \<Rightarrow> string \<Rightarrow> string \<Rightarrow> string" where
  "replace_all before after text =
     (if before = [] \<or> text = [] then text
      else if startswith text before then after @ replace_all before after (drop (length before) text)
      else hd text # replace_all before after (tl text))"
  by auto
termination
  by (relation "measure (\<lambda>(before, after, text). length text)") auto

declare replace_all.simps [simp del]

fun config_sweep :: "'w tree \<Rightarrow> string \<Rightarrow> string \<Rightarrow> string \<Rightarrow> string list \<Rightarrow> tool_call list \<Rightarrow> ('w, tool_call list) io" where
  "config_sweep tr dir before after [] calls w = (Inr calls, w)"
| "config_sweep tr dir before after (p # ps) calls w =
     (if \<not> tr_exists tr dir p w then config_sweep tr dir before after ps calls w
      else case tr_read tr dir p w of
          None \<Rightarrow> (Inl (OSError p), w)
        | Some text \<Rightarrow>
            if before \<noteq> [] \<and> contains before text
            then case tr_write tr dir p (replace_all before after text) w of
                (Some err, w') \<Rightarrow> (Inl (OSError err), w')
              | (None, w') \<Rightarrow> config_sweep tr dir before after ps
                   (calls @ [\<lparr>tc_step = length calls + 1, tc_tool = ''write_file'', tc_path = Some p, tc_kind = None,
                              tc_summary = ''replaced''\<rparr>]) w'
            else config_sweep tr dir before after ps calls w)"

definition run_deterministic_executor :: "'w tree \<Rightarrow> string \<Rightarrow> phase_context \<Rightarrow> ('w, tool_call list) io" where
  "run_deterministic_executor tr dir cx =
     bindI (config_sweep tr dir (pt_before (cx_treatment cx)) (pt_after (cx_treatment cx)) (cx_paths cx) []) (\<lambda>calls.
     retI (calls @ [\<lparr>tc_step = length calls + 1, tc_tool = ''done'', tc_path = None, tc_kind = None,
                     tc_summary = ''deterministic config sweep complete''\<rparr>]))"

text \<open>A tool call of the model, as its response schema has it.\<close>

record tool_request =
  tq_tool :: string
  tq_path :: "string option"
  tq_content :: "string option"
  tq_summary :: string

definition max_observation_chars :: nat where
  "max_observation_chars = 8000"

definition s03_read_file :: "'w tree \<Rightarrow> string \<Rightarrow> string option \<Rightarrow> 'w \<Rightarrow> string" where
  "s03_read_file tr dir path w =
     (case path of
        None \<Rightarrow> ''error: read_file requires a path''
      | Some p \<Rightarrow>
          if p = [] then ''error: read_file requires a path''
          else if \<not> tr_inside tr dir p w \<or> \<not> tr_exists tr dir p w then ''error: '' @ p @ '' does not exist inside the workspace''
          else case tr_read tr dir p w of
              None \<Rightarrow> ''error: could not read '' @ p
            | Some text \<Rightarrow> take max_observation_chars text)"

definition s03_write_file :: "'w tree \<Rightarrow> string \<Rightarrow> string option \<Rightarrow> string option \<Rightarrow> string list \<Rightarrow> 'w \<Rightarrow> string \<times> 'w" where
  "s03_write_file tr dir path content allowed w =
     (case path of
        None \<Rightarrow> (''error: write_file requires a path'', w)
      | Some p \<Rightarrow>
          if p = [] then (''error: write_file requires a path'', w)
          else if p \<notin> set allowed then (''error: '' @ p @ '' is outside this phase's authorized scope'', w)
          else case content of
              None \<Rightarrow> (''error: write_file requires content'', w)
            | Some text \<Rightarrow>
                if \<not> tr_inside tr dir p w then (''error: '' @ p @ '' escapes the workspace'', w)
                else case tr_write tr dir p text w of
                    (Some err, w') \<Rightarrow> (''error: could not write '' @ p @ '': '' @ err, w')
                  | (None, w') \<Rightarrow> (''ok: wrote '' @ str_nat (length text) @ '' bytes to '' @ p, w'))"

definition s03_run_command :: "'w processes \<Rightarrow> string \<Rightarrow> repository_command option \<Rightarrow> 'w \<Rightarrow> string result \<times> 'w" where
  "s03_run_command pr dir command w =
     (case command of
        None \<Rightarrow> (Inr ''error: no command is authorized for this phase'', w)
      | Some c \<Rightarrow>
          (case pr_run pr (cm_argv c) dir 60 w of
             (Inr out, w') \<Rightarrow> (Inr (take max_observation_chars (''exit_code='' @ str_int (cp_code out) @ ''
stdout:
'' @ cp_stdout out @ ''
stderr:
'' @ cp_stderr out)), w')
           | (Inl (OSError m), w') \<Rightarrow> (Inr (''error: command failed to run: '' @ m), w')
           | (Inl (TimeoutExpired m), w') \<Rightarrow> (Inr (''error: command failed to run: '' @ m), w')
           | (Inl e, w') \<Rightarrow> (Inl e, w')))"

definition or_default :: "string \<Rightarrow> string \<Rightarrow> string" where
  "or_default s d = (if s = [] then d else s)"

text \<open>The observation and the record of a call, no record for an unknown tool.\<close>

definition run_tool :: "'w tree \<Rightarrow> 'w processes \<Rightarrow> nat \<Rightarrow> string \<Rightarrow> string list \<Rightarrow> repository_command option \<Rightarrow> tool_request \<Rightarrow>
    ('w, string \<times> tool_call option) io" where
  "run_tool tr pr step dir allowed command q = (\<lambda>w.
     let name = (case tq_path q of None \<Rightarrow> ''None'' | Some p \<Rightarrow> p);
         call = (\<lambda>path kind summary. \<lparr>tc_step = step, tc_tool = tq_tool q, tc_path = path, tc_kind = kind,
                   tc_summary = or_default (tq_summary q) summary\<rparr>) in
     if tq_tool q = ''read_file''
     then (Inr (s03_read_file tr dir (tq_path q) w, Some (call (tq_path q) None (''read '' @ name))), w)
     else if tq_tool q = ''write_file''
     then (case s03_write_file tr dir (tq_path q) (tq_content q) allowed w of
             (obs, w') \<Rightarrow> (Inr (obs, Some (call (tq_path q) None (''wrote '' @ name))), w'))
     else if tq_tool q = ''run_command''
     then (case s03_run_command pr dir command w of
             (Inl e, w') \<Rightarrow> (Inl e, w')
           | (Inr obs, w') \<Rightarrow> (Inr (obs, Some (call None (map_option cm_kind command) ''ran the authorized command'')), w'))
     else (Inr (''error: unknown tool'', None), w))"

text \<open>\<open>for step in range(1, max_steps + 1)\<close>: \<open>n\<close> steps are left. A reply that is not valid, an unknown tool and
  \<open>done\<close> end the loop.\<close>

record loop_result =
  lr_calls :: "tool_call list"
  lr_input :: int
  lr_output :: int
  lr_stopped :: string

record tool_completion =
  tp_valid :: bool
  tp_call :: "tool_request option"
  tp_input :: int
  tp_output :: int

type_synonym 'w executor_model = "model_request \<Rightarrow> ('w, tool_completion) io"

definition s03_prompt_version :: string where
  "s03_prompt_version = ''s03-agent-loop-v2''"

text \<open>\<open>dump\<close> is \<open>json.dumps\<close> of the call.\<close>

primrec agent_loop :: "nat \<Rightarrow> (tool_request \<Rightarrow> string) \<Rightarrow> 'w executor_model \<Rightarrow> 'w tree \<Rightarrow> 'w processes \<Rightarrow> string \<Rightarrow> string list \<Rightarrow>
    repository_command option \<Rightarrow> string \<Rightarrow> nat \<Rightarrow> (string \<times> string) list \<Rightarrow> loop_result \<Rightarrow> ('w, loop_result) io" where
  "agent_loop 0 dump ask tr pr dir allowed command prefix step messages result =
     retI (result\<lparr>lr_stopped := ''budget_exhausted''\<rparr>)"
| "agent_loop (Suc n) dump ask tr pr dir allowed command prefix step messages result =
     bindI (ask \<lparr>mq_messages = messages, mq_key = prefix @ '':'' @ s03_prompt_version @ '':step'' @ str_nat step\<rparr>) (\<lambda>reply.
     let result = result\<lparr>lr_input := lr_input result + tp_input reply, lr_output := lr_output result + tp_output reply\<rparr> in
     case (if tp_valid reply then tp_call reply else None) of
       None \<Rightarrow> retI (result\<lparr>lr_stopped := ''invalid_tool_call''\<rparr>)
     | Some q \<Rightarrow>
         if tq_tool q = ''done''
         then retI (result\<lparr>lr_calls := lr_calls result @ [\<lparr>tc_step = step, tc_tool = ''done'', tc_path = None, tc_kind = None,
                tc_summary = or_default (tq_summary q) ''executor signaled done''\<rparr>], lr_stopped := ''done''\<rparr>)
         else bindI (run_tool tr pr step dir allowed command q) (\<lambda>(observation, record).
           case record of
             None \<Rightarrow> retI (result\<lparr>lr_stopped := ''unknown_tool:'' @ tq_tool q\<rparr>)
           | Some call \<Rightarrow>
               agent_loop n dump ask tr pr dir allowed command prefix (Suc step)
                 (messages @ [(''assistant'', dump q), (''user'', observation)])
                 (result\<lparr>lr_calls := lr_calls result @ [call]\<rparr>)))"

definition max_steps :: nat where
  "max_steps = 8"

definition run_agent_loop :: "(tool_request \<Rightarrow> string) \<Rightarrow> 'w executor_model \<Rightarrow> 'w tree \<Rightarrow> 'w processes \<Rightarrow> string \<Rightarrow> string list \<Rightarrow>
    repository_command option \<Rightarrow> string \<Rightarrow> string \<Rightarrow> string \<Rightarrow> ('w, loop_result) io" where
  "run_agent_loop dump ask tr pr dir allowed command system user prefix =
     agent_loop max_steps dump ask tr pr dir allowed command prefix 1 [(''system'', system), (''user'', user)]
       \<lparr>lr_calls = [], lr_input = 0, lr_output = 0, lr_stopped = ''done''\<rparr>"

definition get_context :: "state \<Rightarrow> phase_context option" where
  "get_context st = (case st ''s03_context'' of Some (VPhaseContext c) \<Rightarrow> Some c | _ \<Rightarrow> None)"

definition get_executor :: "state \<Rightarrow> executor_state option" where
  "get_executor st = (case st ''s03_executor'' of Some (VExecutor x) \<Rightarrow> Some x | _ \<Rightarrow> None)"

definition empty_context :: phase_context where
  "empty_context = \<lparr>cx_phase = ''None'', cx_kind = Implementation, cx_paths = [], cx_symbols = [], cx_command = None, cx_tasks = [],
     cx_treatment = \<lparr>pt_variable = [], pt_before = [], pt_after = []\<rparr>, cx_done = []\<rparr>"

text \<open>The parameters of an executor: the model (when one is wired) with its id, the prompts, and the parts of the
  standard library the code calls.\<close>

record 'w implement_env =
  ie_tools :: "'w tools"
  ie_tree :: "'w tree"
  ie_processes :: "'w processes"
  ie_model :: "'w executor_model option"
  ie_model_id :: string
  ie_dump :: "tool_request \<Rightarrow> string"
  ie_system :: string
  ie_user :: "phase_context \<Rightarrow> string"
  ie_secret :: "string \<Rightarrow> bool"
  ie_diff :: "string \<Rightarrow> string \<Rightarrow> string list \<Rightarrow> 'w \<Rightarrow> string"
  ie_sha :: "blob \<Rightarrow> string"
  ie_clock :: "'w \<Rightarrow> int"

definition handle_s03_50 :: "'w implement_env \<Rightarrow> state \<Rightarrow> 'w node_ports \<Rightarrow> ('w, node_execution) io" where
  "handle_s03_50 e st ports =
     (let cx = (case get_context st of Some c \<Rightarrow> c | None \<Rightarrow> empty_context);
          done = (\<lambda>t. retI (cont [(''s03_tool_calls'', VToolState t)])) in
      bindI (liftI (require_workspace st)) (\<lambda>k.
      if map_option xs_kind (get_executor st) = Some DeterministicConfig
      then bindI (run_deterministic_executor (ie_tree e) (wk_path k) cx) (\<lambda>calls.
             done \<lparr>tt_calls = calls, tt_input = 0, tt_output = 0, tt_model = None\<rparr>)
      else case ie_model e of
          None \<Rightarrow> failI (RuntimeError ''S03.50 requires ModelProviderPort wired into NodePorts for an llm_driven executor'')
        | Some ask \<Rightarrow>
            bindI (liftI (required_state_str st ''case_id'')) (\<lambda>cid.
            bindI (run_agent_loop (ie_dump e) ask (ie_tree e) (ie_processes e) (wk_path k) (cx_paths cx) (cx_command cx)
                     (ie_system e) (ie_user e cx) (cid @ '':S03.50:'' @ cx_phase cx)) (\<lambda>r.
            done \<lparr>tt_calls = lr_calls r, tt_input = lr_input r, tt_output = lr_output r, tt_model = Some (ie_model_id e)\<rparr>))))"

section \<open>Scope and sanitation\<close>

definition file_changed :: "'w tree \<Rightarrow> string \<Rightarrow> string \<Rightarrow> 'w \<Rightarrow> string \<Rightarrow> bool" where
  "file_changed tr src dir w f \<longleftrightarrow>
     \<not> (tr_exists tr src f w \<and> tr_read tr src f w \<noteq> None \<and> tr_read tr src f w = tr_read tr dir f w)"

definition diff_changed_files :: "'w tree \<Rightarrow> string \<Rightarrow> string \<Rightarrow> 'w \<Rightarrow> string list" where
  "diff_changed_files tr src dir w =
     sort (filter (file_changed tr src dir w)
       (filter (\<lambda>f. \<not> list_ex (\<lambda>part. part \<in> set ignored_dir_names) (split_on CHR ''/'' f)) (tr_files tr dir w)))"

definition file_suffix :: "string \<Rightarrow> string" where
  "file_suffix p = drop (length (file_stem p)) (last ([] # filter (\<lambda>x. x \<noteq> []) (split_on CHR ''/'' p)))"

definition symbol_scope_violations :: "'w tree \<Rightarrow> string \<Rightarrow> string \<Rightarrow> 'w \<Rightarrow> string \<Rightarrow> string list \<Rightarrow> scope_violation list" where
  "symbol_scope_violations tr src dir w f allowed =
     (if file_suffix f \<noteq> ''.py'' then []
      else case (tr_symbols tr src f w, tr_symbols tr dir f w) of
          (Some original, Some edited) \<Rightarrow>
            map (\<lambda>n. \<lparr>sv_kind = SymbolViolation, sv_path = f, sv_name = n\<rparr>)
              (sorted_set (filter (\<lambda>n. map_of original n \<noteq> map_of edited n \<and> n \<notin> set allowed) (keys original @ keys edited)))
        | _ \<Rightarrow> [])"

definition scope_violations :: "'w tree \<Rightarrow> string \<Rightarrow> string \<Rightarrow> 'w \<Rightarrow> phase_context \<Rightarrow> string list \<Rightarrow> scope_violation list" where
  "scope_violations tr src dir w cx changed =
     map (\<lambda>f. \<lparr>sv_kind = PathViolation, sv_path = f, sv_name = []\<rparr>) (filter (\<lambda>f. f \<notin> set (cx_paths cx)) changed) @
     concat (map (\<lambda>f. case map_of (cx_symbols cx) f of
         Some allowed \<Rightarrow> if f \<in> set (cx_paths cx) then symbol_scope_violations tr src dir w f allowed else []
       | None \<Rightarrow> []) changed)"

definition handle_s03_60 :: "'w implement_env \<Rightarrow> state \<Rightarrow> 'w node_ports \<Rightarrow> ('w, node_execution) io" where
  "handle_s03_60 e st ports =
     bindI (liftI (require_workspace st)) (\<lambda>k. (\<lambda>w.
       let cx = (case get_context st of Some c \<Rightarrow> c | None \<Rightarrow> empty_context);
           changed = diff_changed_files (ie_tree e) (wk_source k) (wk_path k) w;
           violations = scope_violations (ie_tree e) (wk_source k) (wk_path k) w cx changed;
           ok = (violations = []) in
       bindI (if ok then retI () else cleanup_workspace (ie_tools e) (ie_tree e) k) (\<lambda>_.
       retI \<lparr>ex_route = (if ok then CONTINUE else REJECTED),
             ex_updates = [(''s03_scope_report'', VScope \<lparr>sr_in_scope = ok, sr_violations = violations\<rparr> changed)]\<rparr>) w))"

definition binary_extensions :: "string list" where
  "binary_extensions = [''.exe'', ''.dll'', ''.so'', ''.bin'', ''.pyc'', ''.pyd'']"

definition lockfile_names :: "string list" where
  "lockfile_names = [''uv.lock'', ''package-lock.json'', ''poetry.lock'', ''Cargo.lock'', ''yarn.lock'']"

definition sanitize_file :: "(string \<Rightarrow> bool) \<Rightarrow> 'w tree \<Rightarrow> string \<Rightarrow> 'w \<Rightarrow> string \<Rightarrow> (finding_kind \<times> string) list" where
  "sanitize_file secret tr dir w f =
     (if \<not> tr_exists tr dir f w then []
      else if lower (file_suffix f) \<in> set binary_extensions then [(ForbiddenBinary, f)]
      else (if basename f \<in> set lockfile_names then [(LockfileChange, f)] else []) @
           (if startswith f ''migrations/'' \<or> contains ''/migrations/'' f then [(MigrationChange, f)] else []) @
           (case tr_read tr dir f w of
              None \<Rightarrow> []
            | Some text \<Rightarrow> if secret text then [(SecretFinding, f)] else []))"

definition handle_s03_70 :: "'w implement_env \<Rightarrow> state \<Rightarrow> 'w node_ports \<Rightarrow> ('w, node_execution) io" where
  "handle_s03_70 e st ports =
     bindI (liftI (require_workspace st)) (\<lambda>k. (\<lambda>w.
       let changed = (case st ''s03_scope_report'' of Some (VScope _ files) \<Rightarrow> files | _ \<Rightarrow> []);
           findings = concat (map (sanitize_file (ie_secret e) (ie_tree e) (wk_path k) w) changed);
           ok = (findings = []) in
       bindI (if ok then retI () else cleanup_workspace (ie_tools e) (ie_tree e) k) (\<lambda>_.
       retI \<lparr>ex_route = (if ok then CONTINUE else REJECTED),
             ex_updates = [(''s03_sanitation_report'', VSanitation \<lparr>zr_passed = ok, zr_findings = findings\<rparr>)]\<rparr>) w))"

section \<open>The sealed patch\<close>

definition handle_s03_80 :: "'w implement_env \<Rightarrow> state \<Rightarrow> 'w node_ports \<Rightarrow> ('w, node_execution) io" where
  "handle_s03_80 e st ports =
     bindI (liftI (require_ref st ''ExecutionPlan'')) (\<lambda>plan_ref.
     bindI (read_tasks ports st) (\<lambda>tasks.
     bindI (liftI (require_workspace st)) (\<lambda>k.
     bindI (liftI (active_phase_id st)) (\<lambda>phase. (\<lambda>w.
     let (scope, changed) = (case st ''s03_scope_report'' of Some (VScope r files) \<Rightarrow> (r, files)
                             | _ \<Rightarrow> (\<lparr>sr_in_scope = True, sr_violations = []\<rparr>, []));
         sanitation = (case st ''s03_sanitation_report'' of Some (VSanitation r) \<Rightarrow> r | _ \<Rightarrow> \<lparr>zr_passed = True, zr_findings = []\<rparr>);
         t = (case st ''s03_tool_calls'' of Some (VToolState t) \<Rightarrow> t
              | _ \<Rightarrow> \<lparr>tt_calls = [], tt_input = 0, tt_output = 0, tt_model = None\<rparr>);
         ids = sort (phase_task_ids (tkl_tasks tasks) phase);
         diff = ie_diff e (wk_source k) (wk_path k) changed w in
     bindI (liftI (case get_executor st of Some x \<Rightarrow> Inr x | None \<Rightarrow> Inl (ValidationError ''ExecutionProvenance''))) (\<lambda>x.
     let provenance = \<lparr>xp_plan = ref_digest plan_ref, xp_phase = phase, xp_kind = xs_kind x, xp_model = tt_model t,
           xp_calls = tt_calls t, xp_input = tt_input t, xp_output = tt_output t, xp_base = or_default (wk_base k) ''unversioned'',
           xp_isolation = wk_isolation k\<rparr> in
     bindI (seal_and_put (ie_sha e) (ie_clock e) ports st ''S03.80'' ''ExecutionProvenance'' (valid_provenance provenance)
              (BProvenance provenance)) (\<lambda>provenance_ref.
     let patch = \<lparr>pa_plan = ref_digest plan_ref, pa_provenance = ref_digest provenance_ref, pa_phase = phase,
           pa_tasks = (if ids = [] then [''no-tasks''] else ids), pa_base = or_default (wk_base k) ''unversioned'',
           pa_files = (if changed = [] then [''no-changes''] else changed),
           pa_diff = or_default diff ''(no textual diff -- no files changed)'', pa_scope = scope, pa_sanitation = sanitation\<rparr> in
     bindI (seal_and_put (ie_sha e) (ie_clock e) ports st ''S03.80'' ''PatchArtifact'' (valid_patch patch) (BPatch patch)) (\<lambda>patch_ref.
     retI (cont [(''artifact_refs'', VRefs [provenance_ref, patch_ref])])))) w)))))"

definition handle_s03_90 :: "state \<Rightarrow> 'w node_ports \<Rightarrow> ('w, node_execution) io" where
  "handle_s03_90 st ports =
     bindI (read_tasks ports st) (\<lambda>tasks.
     bindI (liftI (active_phase_id st)) (\<lambda>phase.
     retI (cont [(''s03_implemented_task_ids'', VStrs (sorted_set (get_strs st ''s03_implemented_task_ids'' @
       phase_task_ids (tkl_tasks tasks) phase)))])))"

section \<open>What an executor may touch\<close>

lemma write_file_keeps:
  assumes "\<And>p text v. p \<in> set allowed \<Longrightarrow> tr_inside tr dir p v \<Longrightarrow> I v \<Longrightarrow> I (snd (tr_write tr dir p text v))" and "I w"
  shows "I (snd (s03_write_file tr dir path content allowed w))"
proof (cases path)
  case (Some p)
  show ?thesis
  proof (cases content)
    case (Some body)
    with \<open>path = Some p\<close> assms(1)[of p w body] assms(2) show ?thesis
      by (auto simp: s03_write_file_def split: option.splits prod.splits)
  qed (simp add: s03_write_file_def Some assms(2))
qed (simp add: s03_write_file_def assms(2))

lemma run_command_keeps:
  assumes "\<And>argv n v. I v \<Longrightarrow> I (snd (pr_run pr argv dir n v))" and "I w"
  shows "I (snd (s03_run_command pr dir command w))"
proof (cases command)
  case (Some c)
  then show ?thesis
    using assms(1)[OF assms(2), of "cm_argv c" 60]
    by (auto simp: s03_run_command_def split: prod.splits sum.splits py_error.splits)
qed (simp add: s03_run_command_def assms(2))

lemma run_tool_keeps:
  assumes "\<And>p text v. p \<in> set allowed \<Longrightarrow> tr_inside tr dir p v \<Longrightarrow> I v \<Longrightarrow> I (snd (tr_write tr dir p text v))"
    and "\<And>argv n v. I v \<Longrightarrow> I (snd (pr_run pr argv dir n v))"
  shows "keeps I (run_tool tr pr step dir allowed command q) (\<lambda>(obs, rec). \<forall>c. rec = Some c \<longrightarrow> tc_step c = step)"
proof (rule keepsI)
  fix w assume "I w"
  with write_file_keeps[of allowed tr dir I w "tq_path q" "tq_content q"] run_command_keeps[of I pr dir w command] assms
  show "I (snd (run_tool tr pr step dir allowed command q w))"
    by (auto simp: run_tool_def Let_def split: prod.splits sum.splits)
next
  fix w x assume "fst (run_tool tr pr step dir allowed command q w) = Inr x"
  then show "case x of (obs, rec) \<Rightarrow> \<forall>c. rec = Some c \<longrightarrow> tc_step c = step"
    by (auto simp: run_tool_def Let_def split: prod.splits sum.splits if_splits)
qed

definition numbered :: "tool_call list \<Rightarrow> bool" where
  "numbered calls \<longleftrightarrow> map tc_step calls = [1..<Suc (length calls)]"

lemma numbered_snoc: "numbered calls \<Longrightarrow> tc_step c = Suc (length calls) \<Longrightarrow> numbered (calls @ [c])"
  by (simp add: numbered_def)

lemma agent_loop_keeps:
  assumes "\<And>p text v. p \<in> set allowed \<Longrightarrow> tr_inside tr dir p v \<Longrightarrow> I v \<Longrightarrow> I (snd (tr_write tr dir p text v))"
    and "\<And>argv n v. I v \<Longrightarrow> I (snd (pr_run pr argv dir n v))" and "\<And>m v. I v \<Longrightarrow> I (snd (ask m v))"
  shows "numbered (lr_calls r) \<Longrightarrow> step = Suc (length (lr_calls r)) \<Longrightarrow>
    keeps I (agent_loop n dump ask tr pr dir allowed command prefix step messages r)
      (\<lambda>r'. numbered (lr_calls r') \<and> length (lr_calls r') \<le> length (lr_calls r) + n)"
proof (induction n arbitrary: step messages r)
  case (Suc n)
  have ask: "keeps I (ask m) (\<lambda>_. True)" for m by (rule keepsI) (simp_all add: assms(3))
  have tool: "keeps I (run_tool tr pr step dir allowed command q) (\<lambda>(obs, rec). \<forall>c. rec = Some c \<longrightarrow> tc_step c = step)" for q
    by (rule run_tool_keeps[of allowed tr dir I pr, OF assms(1,2)])
  show ?case
    unfolding agent_loop.simps Let_def
    by (rule keeps_bindI[OF ask])
      (auto split: option.splits intro!: keeps_retI keeps_bindI[OF tool[folded Suc.prems(2)]] keeps_weaken[OF Suc.IH] numbered_snoc
        simp: Suc.prems(1) simp flip: Suc.prems(2), simp_all add: Suc.prems)
qed (simp add: keeps_retI)

definition write_or_raise :: "'w tree \<Rightarrow> string \<Rightarrow> string \<Rightarrow> string \<Rightarrow> ('w, unit) io" where
  "write_or_raise tr dir p body = (\<lambda>w. case tr_write tr dir p body w of (Some err, w') \<Rightarrow> (Inl (OSError err), w') | (None, w') \<Rightarrow> (Inr (), w'))"

lemma config_sweep_Cons:
  "config_sweep tr dir before after (p # ps) calls = (\<lambda>w.
     (if \<not> tr_exists tr dir p w then config_sweep tr dir before after ps calls
      else case tr_read tr dir p w of
          None \<Rightarrow> failI (OSError p)
        | Some body \<Rightarrow>
            if before \<noteq> [] \<and> contains before body
            then bindI (write_or_raise tr dir p (replace_all before after body)) (\<lambda>_. config_sweep tr dir before after ps
                   (calls @ [\<lparr>tc_step = length calls + 1, tc_tool = ''write_file'', tc_path = Some p, tc_kind = None, tc_summary = ''replaced''\<rparr>]))
            else config_sweep tr dir before after ps calls) w)"
  by (auto simp: fun_eq_iff write_or_raise_def bindI_def split: option.splits prod.splits)

lemma config_sweep_keeps:
  assumes "\<And>p body v. p \<in> set allowed \<Longrightarrow> I v \<Longrightarrow> I (snd (tr_write tr dir p body v))"
  shows "set ps \<subseteq> set allowed \<Longrightarrow> numbered calls \<Longrightarrow> keeps I (config_sweep tr dir before after ps calls) numbered"
proof (induction ps arbitrary: calls)
  case (Cons p ps)
  have wr: "keeps I (write_or_raise tr dir p body) (\<lambda>_. True)" for body
  proof (rule keepsI)
    fix w assume "I w"
    with assms[of p w body] Cons.prems(1) show "I (snd (write_or_raise tr dir p body w))"
      by (auto simp: write_or_raise_def split: prod.splits option.splits)
  qed simp
  have IH: "keeps I (config_sweep tr dir before after ps c) numbered" if "numbered c" for c
    using that Cons.IH[of c] Cons.prems(1) by simp
  have K: "keeps I (bindI (write_or_raise tr dir p body) (\<lambda>_. config_sweep tr dir before after ps
     (calls @ [\<lparr>tc_step = Suc (length calls), tc_tool = ''write_file'', tc_path = Some p, tc_kind = None, tc_summary = ''replaced''\<rparr>]))) numbered" for body
    by (rule keeps_bindI[OF wr IH]) (simp add: numbered_snoc Cons.prems(2))
  note run = K IH[OF Cons.prems(2)]
  show ?case
    unfolding config_sweep_Cons
    by (rule keepsI) (simp_all add: run[THEN keepsD] run[THEN keeps_Inr] split: option.splits if_splits)
qed (auto intro: keepsI)


text \<open>A small world: the files of one workspace.\<close>

definition demo_tree :: "string dict tree" where
  "demo_tree = \<lparr>tr_files = (\<lambda>_ w. keys w), tr_read = (\<lambda>_ p w. map_of w p), tr_exists = (\<lambda>_ p w. map_of w p \<noteq> None),
     tr_inside = (\<lambda>_ p _. \<not> startswith p ''/''), tr_write = (\<lambda>_ p body w. (None, AList.update p body w)),
     tr_mkdtemp = (\<lambda>w. (''/tmp/d'', w)), tr_copytree = (\<lambda>_ _ w. w), tr_rmtree = (\<lambda>_ _. []), tr_symbols = (\<lambda>_ _ _. None)\<rparr>"

definition demo_executor :: "string dict executor_model" where
  "demo_executor _ = (\<lambda>w. (Inr \<lparr>tp_valid = True, tp_call = Some (if map_of w ''a.py'' = Some ''x''
     then \<lparr>tq_tool = ''done'', tq_path = None, tq_content = None, tq_summary = []\<rparr>
     else \<lparr>tq_tool = ''write_file'', tq_path = Some ''a.py'', tq_content = Some ''x'', tq_summary = []\<rparr>), tp_input = 1, tp_output = 1\<rparr>, w))"

definition demo_implement :: "string dict implement_env" where
  "demo_implement = \<lparr>ie_tools = \<lparr>tl_run = (\<lambda>_ _ w. (NotRun, w)), tl_mkdtemp = retI [], tl_write = (\<lambda>_ _. retI ()), tl_rmtree = (\<lambda>_ w. w)\<rparr>, ie_tree = demo_tree,
     ie_processes = \<lparr>pr_which = (\<lambda>_ _. None), pr_run = (\<lambda>_ _ _ w. (Inl (OSError ''no such file''), w))\<rparr>,
     ie_model = Some demo_executor, ie_model_id = ''m'', ie_dump = tq_tool, ie_system = [], ie_user = cx_phase, ie_secret = (\<lambda>_. False),
     ie_diff = (\<lambda>_ _ _ _. []), ie_sha = (\<lambda>_. []), ie_clock = (\<lambda>_. 0)\<rparr>"

definition demo_context :: phase_context where
  "demo_context = empty_context\<lparr>cx_phase := ''p1'', cx_paths := [''a.py'']\<rparr>"

definition demo_s03 :: state where
  "demo_s03 = [''case_id'' \<mapsto> VStr ''c'', ''s03_workspace'' \<mapsto> VWorkspace demo_workspace, ''s03_context'' \<mapsto> VPhaseContext demo_context]"


section \<open>What the scope check establishes\<close>

definition in_ignored_dir :: "string \<Rightarrow> bool" where
  "in_ignored_dir f \<longleftrightarrow> list_ex (\<lambda>part. part \<in> set ignored_dir_names) (split_on CHR ''/'' f)"

lemma changed_files_iff:
  "f \<in> set (diff_changed_files tr src dir w) \<longleftrightarrow> f \<in> set (tr_files tr dir w) \<and> \<not> in_ignored_dir f \<and> file_changed tr src dir w f"
  by (auto simp: diff_changed_files_def in_ignored_dir_def)

lemma sorted_set_empty_iff [simp]: "sorted_set xs = [] \<longleftrightarrow> xs = []" for xs :: "string list"
  by (metis sorted_set_def length_0_conv length_sort remdups_eq_nil_iff)

lemma changed_symbols_empty_iff:
  fixes original edited :: "string dict"
  shows "filter (\<lambda>n. map_of original n \<noteq> map_of edited n \<and> n \<notin> set allowed) (keys original @ keys edited) = [] \<longleftrightarrow>
     (\<forall>n. map_of original n \<noteq> map_of edited n \<longrightarrow> n \<in> set allowed)"
proof -
  have "n \<in> set (keys original @ keys edited)" if "map_of original n \<noteq> map_of edited n" for n
    using that unfolding set_append Un_iff keys_mem_iff by metis
  then show ?thesis unfolding filter_empty_conv by blast
qed

lemma symbol_scope_empty_iff:
  "symbol_scope_violations tr src dir w f allowed = [] \<longleftrightarrow>
     (file_suffix f = ''.py'' \<longrightarrow> (\<forall>original edited n. tr_symbols tr src f w = Some original \<longrightarrow> tr_symbols tr dir f w = Some edited \<longrightarrow>
        map_of original n \<noteq> map_of edited n \<longrightarrow> n \<in> set allowed))"
  unfolding symbol_scope_violations_def
  by (simp add: changed_symbols_empty_iff del: filter_append split: option.split)

lemma scope_violations_empty_iff:
  "scope_violations tr src dir w cx changed = [] \<longleftrightarrow>
     (\<forall>f\<in>set changed. f \<in> set (cx_paths cx) \<and>
        (\<forall>allowed. map_of (cx_symbols cx) f = Some allowed \<longrightarrow> symbol_scope_violations tr src dir w f allowed = []))"
  by (auto simp: scope_violations_def filter_empty_conv split: option.splits)

text \<open>C6. The scope check is exact on what the workspace holds: S03.60 lets a phase pass exactly when every file of the
  workspace that differs from the source (outside the ignored directories) is a path of the phase and, where the tasks
  declare symbols for a Python file that parses on both sides, every symbol whose source changed is a declared one.
  When it rejects, it removes the workspace; when it passes, it changes nothing.\<close>

theorem scope_check_exact:
  assumes "get_workspace st = Some k" and "get_context st = Some cx" and "handle_s03_60 e st ports w = (Inr ex, w')"
  shows "(ex_route ex = CONTINUE \<longleftrightarrow>
     (\<forall>f. f \<in> set (tr_files (ie_tree e) (wk_path k) w) \<and> \<not> in_ignored_dir f \<and> file_changed (ie_tree e) (wk_source k) (wk_path k) w f \<longrightarrow>
        f \<in> set (cx_paths cx) \<and>
        (\<forall>allowed original edited n. map_of (cx_symbols cx) f = Some allowed \<and> file_suffix f = ''.py'' \<and>
           tr_symbols (ie_tree e) (wk_source k) f w = Some original \<and> tr_symbols (ie_tree e) (wk_path k) f w = Some edited \<and>
           map_of original n \<noteq> map_of edited n \<longrightarrow> n \<in> set allowed))) \<and>
     (ex_route ex = CONTINUE \<longrightarrow> w' = w) \<and>
     (ex_route ex \<noteq> CONTINUE \<longrightarrow> ex_route ex = REJECTED \<and> fst (cleanup_workspace (ie_tools e) (ie_tree e) k w) = Inr () \<and>
        w' = snd (cleanup_workspace (ie_tools e) (ie_tree e) k w))"
proof -
  let ?changed = "diff_changed_files (ie_tree e) (wk_source k) (wk_path k) w"
  have iff: "scope_violations (ie_tree e) (wk_source k) (wk_path k) w cx ?changed = [] \<longleftrightarrow>
     (\<forall>f. f \<in> set (tr_files (ie_tree e) (wk_path k) w) \<and> \<not> in_ignored_dir f \<and> file_changed (ie_tree e) (wk_source k) (wk_path k) w f \<longrightarrow>
        f \<in> set (cx_paths cx) \<and>
        (\<forall>allowed original edited n. map_of (cx_symbols cx) f = Some allowed \<and> file_suffix f = ''.py'' \<and>
           tr_symbols (ie_tree e) (wk_source k) f w = Some original \<and> tr_symbols (ie_tree e) (wk_path k) f w = Some edited \<and>
           map_of original n \<noteq> map_of edited n \<longrightarrow> n \<in> set allowed))"
    unfolding scope_violations_empty_iff symbol_scope_empty_iff Ball_def changed_files_iff by blast
  show ?thesis
  proof (cases "scope_violations (ie_tree e) (wk_source k) (wk_path k) w cx ?changed = []")
    case True
    with assms have "ex_route ex = CONTINUE" "w' = w"
      by (auto simp: handle_s03_60_def require_workspace_def Let_def)
    with True show ?thesis unfolding iff[symmetric] by simp
  next
    case False
    with assms have "ex_route ex = REJECTED" "cleanup_workspace (ie_tools e) (ie_tree e) k w = (Inr (), w')"
      by (auto simp: handle_s03_60_def require_workspace_def Let_def elim!: bindI_result_Inr)
    with False show ?thesis unfolding iff[symmetric] by simp
  qed
qed

theorem scope_check_exact_witness:
  "\<forall>ports. \<exists>ex. handle_s03_60 (demo_implement\<lparr>ie_tree := demo_tree\<lparr>tr_read := \<lambda>root p w. if root = ''/repo'' then Some ''y'' else map_of w p\<rparr>\<rparr>)
       demo_s03 ports [(''b.py'', ''y''), (''c.py'', ''z'')] = (Inr ex, []) \<and> ex_route ex \<noteq> CONTINUE"
proof
  fix ports
  let ?e = "demo_implement\<lparr>ie_tree := demo_tree\<lparr>tr_read := \<lambda>root p w. if root = ''/repo'' then Some ''y'' else map_of w p\<rparr>\<rparr>"
    and ?w = "[(''b.py'', ''y''), (''c.py'', ''z'')]"
  have sel: "get_workspace demo_s03 = Some demo_workspace" "get_context demo_s03 = Some demo_context"
    by (simp_all add: get_workspace_def get_context_def demo_s03_def)
  have changed: "diff_changed_files (ie_tree ?e) ''/repo'' ''/tmp/w'' ?w = [''c.py'']"
    by (simp add: diff_changed_files_def demo_tree_def file_changed_def ignored_dir_names_def)
  have clean: "cleanup_workspace (ie_tools ?e) (ie_tree ?e) demo_workspace ?w = (Inr (), [])"
    by (simp add: cleanup_workspace_def demo_workspace_def demo_implement_def demo_tree_def git_def bindI_def)
  have "scope_violations (ie_tree ?e) ''/repo'' ''/tmp/w'' ?w demo_context [''c.py''] \<noteq> []"
    by (simp add: scope_violations_def demo_context_def empty_context_def)
  then obtain ex where h: "handle_s03_60 ?e demo_s03 ports ?w = (Inr ex, [])"
    using changed clean by (simp add: handle_s03_60_def require_workspace_def sel Let_def demo_workspace_def bindI_def)
  have c: "''c.py'' \<in> set (tr_files (ie_tree ?e) ''/tmp/w'' ?w) \<and> \<not> in_ignored_dir ''c.py'' \<and>
      file_changed (ie_tree ?e) ''/repo'' ''/tmp/w'' ?w ''c.py''"
    unfolding changed_files_iff[symmetric] changed by simp
  have paths: "wk_path demo_workspace = ''/tmp/w''" "wk_source demo_workspace = ''/repo''" "''c.py'' \<notin> set (cx_paths demo_context)"
    by (simp_all add: demo_workspace_def demo_context_def empty_context_def)
  have "ex_route ex \<noteq> CONTINUE"
  proof
    assume "ex_route ex = CONTINUE"
    with scope_check_exact[OF sel h, THEN conjunct1, unfolded paths(1,2)] c have "''c.py'' \<in> set (cx_paths demo_context)" by metis
    with paths(3) show False by simp
  qed
  with h show "\<exists>ex. handle_s03_60 ?e demo_s03 ports ?w = (Inr ex, []) \<and> ex_route ex \<noteq> CONTINUE" by blast
qed

end
