(* ===== verification/Policy_Port.thy ===== *)
theory Policy_Port
  imports Implementation
begin

text \<open>
  The policy behind \<open>NodePorts.policy\<close> (\<open>adapters/production/python_policy.py\<close>) and the decisions every runnable
  entry point registers (\<open>adapters/production/bootstrap_policies.py\<close>). A decision function is pure; looking a list
  up in a set of names raises \<open>TypeError\<close>, as it does in Python. Reasons keep their wording without the values
  formatted into them; \<open>str_of\<close> is \<open>str\<close> of an argument that is not a string.
\<close>

section \<open>The registry of decisions\<close>

type_synonym decision_fn = "policy_request \<Rightarrow> policy_decision result"

record python_policy =
  pp_version :: string
  pp_registry :: "decision_fn dict"

definition mk_policy :: "string \<Rightarrow> python_policy result" where
  "mk_policy version =
     (if blank version then Inl (ValueError ''policy_version must not be empty'') else Inr \<lparr>pp_version = version, pp_registry = []\<rparr>)"

definition register :: "string \<Rightarrow> decision_fn \<Rightarrow> python_policy \<Rightarrow> python_policy result" where
  "register type fn p =
     (if blank type then Inl (ValueError ''decision_type must not be empty'')
      else Inr (p\<lparr>pp_registry := AList.update type fn (pp_registry p)\<rparr>))"

definition bootstrap_decision :: "python_policy \<Rightarrow> policy_decision" where
  "bootstrap_decision p = \<lparr>pd_allowed = False, pd_decision = ''deny'', pd_version = pp_version p,
     pd_reasons = [''business policies are not implemented'']\<rparr>"

definition policy_evaluate :: "python_policy \<Rightarrow> policy_request \<Rightarrow> policy_decision result" where
  "policy_evaluate p q =
     (case map_of (pp_registry p) (pq_type q) of
        None \<Rightarrow> Inr (bootstrap_decision p)
      | Some fn \<Rightarrow> bindR (fn q) (\<lambda>d.
          if pd_version d \<noteq> pp_version p then Inl (ValueError ''registered decision function returned another policy_version'')
          else Inr d))"

section \<open>The registered decisions\<close>

definition deny :: "string \<Rightarrow> string list \<Rightarrow> policy_decision" where
  "deny version reasons = \<lparr>pd_allowed = False, pd_decision = ''deny'', pd_version = version, pd_reasons = reasons\<rparr>"

definition allow :: "string \<Rightarrow> string list \<Rightarrow> policy_decision" where
  "allow version reasons = \<lparr>pd_allowed = True, pd_decision = ''allow'', pd_version = version, pd_reasons = reasons\<rparr>"

definition require_approval :: "string \<Rightarrow> string list \<Rightarrow> policy_decision" where
  "require_approval version reasons = \<lparr>pd_allowed = True, pd_decision = ''require_approval'', pd_version = version, pd_reasons = reasons\<rparr>"

definition decide_on :: "string \<Rightarrow> string list \<Rightarrow> policy_decision \<Rightarrow> policy_decision result" where
  "decide_on version reasons ok = Inr (if reasons = [] then ok else deny version reasons)"

abbreviation fact :: "policy_request \<Rightarrow> string \<Rightarrow> sval option" where
  "fact q k \<equiv> map_of (pq_facts q) k"

text \<open>\<open>value in {...}\<close> for a set of strings: a list is not hashable.\<close>

definition one_of :: "string list \<Rightarrow> sval option \<Rightarrow> bool result" where
  "one_of names v =
     (case v of
        Some (VStr s) \<Rightarrow> Inr (s \<in> set names)
      | Some (VStrs _) \<Rightarrow> Inl (TypeError ''unhashable type: list'')
      | Some (VList _) \<Rightarrow> Inl (TypeError ''unhashable type: list'')
      | _ \<Rightarrow> Inr False)"

definition filled_string :: "sval option \<Rightarrow> bool" where
  "filled_string v \<longleftrightarrow> (case v of Some (VStr s) \<Rightarrow> \<not> blank s | _ \<Rightarrow> False)"

definition argv_items :: "(sval \<Rightarrow> string) \<Rightarrow> sval option \<Rightarrow> string list option" where
  "argv_items str_of v =
     (case v of Some (VStrs xs) \<Rightarrow> Some xs | Some (VList xs) \<Rightarrow> Some (map str_of xs) | _ \<Rightarrow> None)"

text \<open>A \<open>bool\<close> is an \<open>int\<close>.\<close>

definition number_fact :: "sval option \<Rightarrow> int option" where
  "number_fact v = (case v of Some (VInt i) \<Rightarrow> Some i | Some (VBool b) \<Rightarrow> Some (if b then 1 else 0) | _ \<Rightarrow> None)"

definition allowed_command_kinds :: "string list" where
  "allowed_command_kinds = [''build'', ''unit'', ''lint'', ''type'', ''benchmark'', ''ci'', ''compose_evaluation'']"

definition allowed_source_types :: "string list" where
  "allowed_source_types = [''test'', ''static'', ''benchmark'', ''telemetry'', ''source_map'']"

definition shell_metacharacters :: "string list" where
  "shell_metacharacters = ['';'', ''&&'', ''||'', ''|'', ''>'', ''<'', ''`'', ''$('']"

definition max_command_timeout :: int where
  "max_command_timeout = 3600"

definition execution_authorization :: "(sval \<Rightarrow> string) \<Rightarrow> string \<Rightarrow> decision_fn" where
  "execution_authorization str_of version q =
     bindR (one_of allowed_command_kinds (fact q ''kind'')) (\<lambda>known.
     let argv = (case argv_items str_of (fact q ''argv'') of Some (a # as) \<Rightarrow> Some (a # as) | _ \<Rightarrow> None);
         timeout = number_fact (fact q ''timeout_seconds'') in
     decide_on version
       ((if known then [] else [''command kind is not an authorized kind'']) @
        (case argv of
           None \<Rightarrow> [''argv must be a non-empty list'']
         | Some items \<Rightarrow> if list_ex (\<lambda>i. list_ex (\<lambda>m. contains m i) shell_metacharacters) items
                        then [''argv contains shell metacharacters; it is executed without a shell''] else []) @
        (if filled_string (fact q ''working_directory'') then [] else [''working_directory must be a non-empty path'']) @
        (case timeout of
           Some t \<Rightarrow> if 0 < t \<and> t \<le> max_command_timeout then [] else [''timeout_seconds must be within (0, 3600]'']
         | None \<Rightarrow> [''timeout_seconds must be within (0, 3600]'']))
       (allow version [''command authorized for local execution'']))"

definition a1_request_approval :: "string \<Rightarrow> decision_fn" where
  "a1_request_approval version q =
     bindR (one_of [''owner'', ''approver'', ''platform_owner''] (fact q ''actor_role'')) (\<lambda>may.
     Inr (if may then allow version [''role may approve this request'']
          else if fact q ''actor_role'' = Some (VStr ''requester'') then require_approval version [''requester role requires an owner approval'']
          else deny version [''role cannot submit an A1 request'']))"

definition registry_backed :: "policy_request \<Rightarrow> bool" where
  "registry_backed q \<longleftrightarrow> filled_string (fact q ''recipe_id'') \<and>
     (case fact q ''registry_version'' of Some (VInt i) \<Rightarrow> 1 \<le> i | _ \<Rightarrow> False)"

definition collector_authorization :: "string \<Rightarrow> decision_fn" where
  "collector_authorization version q =
     bindR (one_of allowed_source_types (fact q ''source_type'')) (\<lambda>known.
     decide_on version
       ((if known \<or> registry_backed q then [] else [''source_type is outside the evidence vocabulary'']) @
        (if filled_string (fact q ''collector_id'') then [] else [''collector_id must be a non-empty identifier'']))
       (allow version [''collector authorized'']))"

definition phase_authorization :: "string \<Rightarrow> decision_fn" where
  "phase_authorization version q =
     decide_on version
       ((if filled_string (fact q ''phase_id'') then [] else [''phase_id must identify the phase being authorized'']) @
        (if filled_string (fact q ''case_id'') then [] else [''case_id must identify the owning case'']))
       (allow version [''phase authorized; writes remain bound to its resolved scope''])"

definition apply_to_real_repo :: "string \<Rightarrow> decision_fn" where
  "apply_to_real_repo version q =
     decide_on version
       ((if filled_string (fact q ''phase_id'') then [] else [''phase_id must identify the phase being applied'']) @
        (if filled_string (fact q ''case_id'') then [] else [''case_id must identify the owning case'']) @
        (if filled_string (fact q ''base_revision'') then [] else [''base_revision must identify the commit the patch was built against'']))
       (require_approval version [''phase requires an owner approval before a real repository write''])"

definition present :: "sval option \<Rightarrow> bool" where
  "present v \<longleftrightarrow> (case v of None \<Rightarrow> False | Some VNone \<Rightarrow> False | Some (VStr s) \<Rightarrow> \<not> blank s | Some _ \<Rightarrow> True)"

definition require_non_empty_facts :: "string list \<Rightarrow> string \<Rightarrow> string \<Rightarrow> decision_fn" where
  "require_non_empty_facts required subject version q =
     (let missing = filter (\<lambda>k. \<not> present (fact q k)) required in
      Inr (if missing \<noteq> [] then deny version [subject @ '' is missing required facts: '' @ join '', '' missing]
           else allow version [subject @ '' authorized'']))"

definition automatic_intake :: "string \<Rightarrow> decision_fn" where
  "automatic_intake = require_non_empty_facts [''opportunity_id''] ''automatic intake''"

definition discovery_read :: "string \<Rightarrow> decision_fn" where
  "discovery_read = require_non_empty_facts [''query_kind''] ''historical discovery read''"

definition bootstrap_registrations :: "(sval \<Rightarrow> string) \<Rightarrow> string \<Rightarrow> decision_fn dict" where
  "bootstrap_registrations str_of version =
     [(''a1.request_approval'', a1_request_approval version), (''a2.execution_authorization'', execution_authorization str_of version),
      (''a2.collector_authorization'', collector_authorization version), (''s03_phase_authorization'', phase_authorization version),
      (''apply_to_real_repo'', apply_to_real_repo version), (''automatic_intake'', automatic_intake version),
      (''automatic_discovery_read'', discovery_read version)]"

definition build_bootstrap_policy :: "(sval \<Rightarrow> string) \<Rightarrow> string \<Rightarrow> python_policy result" where
  "build_bootstrap_policy str_of version =
     bindR (mk_policy version) (\<lambda>p. foldR (\<lambda>p (type, fn). register type fn p) p (bootstrap_registrations str_of version))"

section \<open>What the policy guarantees\<close>

definition bootstrap_policy :: "(sval \<Rightarrow> string) \<Rightarrow> string \<Rightarrow> python_policy" where
  "bootstrap_policy str_of version = \<lparr>pp_version = version, pp_registry = bootstrap_registrations str_of version\<rparr>"

lemma build_bootstrap_policy_eq:
  "build_bootstrap_policy str_of version =
     (if blank version then Inl (ValueError ''policy_version must not be empty'') else Inr (bootstrap_policy str_of version))"
proof -
  have named: "\<not> blank ''a1.request_approval''" "\<not> blank ''a2.execution_authorization''" "\<not> blank ''a2.collector_authorization''"
    "\<not> blank ''s03_phase_authorization''" "\<not> blank ''apply_to_real_repo''" "\<not> blank ''automatic_intake''" "\<not> blank ''automatic_discovery_read''"
    by (simp_all add: blank_def is_space_def)
  show ?thesis
    by (simp add: build_bootstrap_policy_def mk_policy_def bootstrap_registrations_def register_def named bootstrap_policy_def)
qed

lemmas decision_defs = deny_def allow_def require_approval_def decide_on_def

text \<open>A policy that never releases a write to the real repository by itself.\<close>

locale cautious_policy =
  fixes evaluate :: "policy_request \<Rightarrow> policy_decision result"
  assumes never_plain: "pq_type q = ''apply_to_real_repo'' \<Longrightarrow> evaluate q = Inr d \<Longrightarrow> pd_decision d \<noteq> ''allow''"
begin

lemma repository_needs_approval:
  assumes "w_git (snd (handle_s06_90 sha clock (world_tools answer tmp) st (platform_ports (Some (\<lambda>q. liftI (evaluate q)))) w)) \<noteq> w_git w"
  shows "get_outcome st = Some KEEP \<and> (\<exists>c. get_resume st = Inr (Some c) \<and> rc_decision c = ''approve'')"
proof -
  let ?p = "platform_ports (Some (\<lambda>q. liftI (evaluate q)))"
  have "np_policy ?p = Some (\<lambda>q. liftI (evaluate q))" by (simp add: platform_ports_def)
  from lt.quiet_policy_part[OF this _ assms] never_plain show ?thesis by (fastforce simp: lt.quiet_def)
qed

end

lemma apply_to_real_repo_cautious: "apply_to_real_repo version q = Inr d \<Longrightarrow> pd_decision d \<noteq> ''allow''"
  by (auto simp: apply_to_real_repo_def decision_defs split: if_splits)

interpretation boot: cautious_policy "policy_evaluate (bootstrap_policy str_of version)" for str_of version
proof
  fix q d assume "pq_type q = ''apply_to_real_repo''" and "policy_evaluate (bootstrap_policy str_of version) q = Inr d"
  then have "apply_to_real_repo version q = Inr d"
    by (auto simp: policy_evaluate_def bootstrap_policy_def bootstrap_registrations_def bindR_Inr_iff split: if_splits)
  then show "pd_decision d \<noteq> ''allow''" by (rule apply_to_real_repo_cautious)
qed


lemma decide_on_allowed: "decide_on version reasons ok = Inr d \<Longrightarrow> pd_allowed d \<Longrightarrow> reasons = []"
  by (auto simp: decision_defs split: if_splits)

lemma execution_authorized:
  assumes "execution_authorization str_of version q = Inr d" and "pd_allowed d"
  obtains a as t where "one_of allowed_command_kinds (fact q ''kind'') = Inr True" and "argv_items str_of (fact q ''argv'') = Some (a # as)"
    and "\<not> list_ex (\<lambda>i. list_ex (\<lambda>m. contains m i) shell_metacharacters) (a # as)" and "filled_string (fact q ''working_directory'')"
    and "number_fact (fact q ''timeout_seconds'') = Some t" and "0 < t" and "t \<le> max_command_timeout"
proof -
  let ?argv = "case argv_items str_of (fact q ''argv'') of Some (a # as) \<Rightarrow> Some (a # as) | _ \<Rightarrow> None"
  from assms(1) obtain known where known: "one_of allowed_command_kinds (fact q ''kind'') = Inr known"
    unfolding execution_authorization_def bindR_Inr_iff by blast
  note r = decide_on_allowed[OF assms(1)[unfolded execution_authorization_def known bindR_simps Let_def] assms(2), unfolded append_is_Nil_conv]
  have "known" "filled_string (fact q ''working_directory'')" using r by (simp_all split: if_splits)
  moreover from r obtain t where "number_fact (fact q ''timeout_seconds'') = Some t" "0 < t" "t \<le> max_command_timeout"
    by (cases "number_fact (fact q ''timeout_seconds'')") (simp_all split: if_splits)
  moreover from r obtain items where items: "?argv = Some items" "\<not> list_ex (\<lambda>i. list_ex (\<lambda>m. contains m i) shell_metacharacters) items"
    by (cases ?argv) (simp_all split: if_splits)
  moreover from items(1) obtain a as where "argv_items str_of (fact q ''argv'') = Some (a # as)" "items = a # as"
    by (auto split: option.splits list.splits)
  ultimately show thesis using known by (intro that[of a as t]) simp_all
qed

lemma bootstrap_evaluate:
  assumes "policy_evaluate (bootstrap_policy str_of version) q = Inr d"
  shows "pd_version d = version \<and> (pq_type q \<notin> set (keys (bootstrap_registrations str_of version)) \<longrightarrow> \<not> pd_allowed d)"
proof (cases "map_of (bootstrap_registrations str_of version) (pq_type q)")
  case None
  with assms show ?thesis by (auto simp: policy_evaluate_def bootstrap_policy_def bootstrap_decision_def)
next
  case (Some fn)
  then have "pq_type q \<in> set (keys (bootstrap_registrations str_of version))" unfolding keys_mem_iff by simp
  with Some assms show ?thesis
    by (auto simp: policy_evaluate_def bootstrap_policy_def bindR_Inr_iff simp del: set_map split: if_splits)
qed


definition demo_exec_command :: policy_request where
  "demo_exec_command = \<lparr>pq_type = ''a2.execution_authorization'', pq_version = ''x'', pq_tenant = ''t'',
     pq_facts = [(''kind'', VStr ''unit''), (''argv'', VStrs [''pytest'']), (''working_directory'', VStr ''/repo''), (''timeout_seconds'', VInt 60)]\<rparr>"

lemma demo_exec_command_allowed:
  "policy_evaluate (bootstrap_policy (\<lambda>_. []) ''v'') demo_exec_command = Inr (allow ''v'' [''command authorized for local execution''])"
proof -
  have "\<not> list_ex (\<lambda>m. contains m ''pytest'') shell_metacharacters"
    by (simp add: shell_metacharacters_def contains_def startswith_def)
  then show ?thesis
    by (simp add: policy_evaluate_def bootstrap_policy_def bootstrap_registrations_def demo_exec_command_def execution_authorization_def one_of_def
        allowed_command_kinds_def argv_items_def number_fact_def filled_string_def blank_def is_space_def max_command_timeout_def decision_defs)
qed



end
