(* ===== verification/Remeasurement.thy ===== *)
theory Remeasurement
  imports Implementation
begin

text \<open>
  Step 05, controlled remeasurement (\<open>application/s05_handlers.py\<close> and
  \<open>application/s05_worker_capabilities.py\<close>): the pinned protocol, the isolation audit, running the commands of
  the criteria again in the patched workspace, sample quality, the comparability gate S05.70, the effect sizes
  and the sealed measurement. The broker, the clock and the file tree are parameters as in S03 and S04; so is
  the parser of the benchmark's JSON file.
\<close>

section \<open>State\<close>

definition get_protocol :: "state \<Rightarrow> s05_protocol option" where
  "get_protocol st = (case st ''s05_protocol'' of Some (VProtocol p) \<Rightarrow> Some p | _ \<Rightarrow> None)"

definition get_isolation :: "state \<Rightarrow> bool option \<times> bool option" where
  "get_isolation st = (case st ''s05_isolation'' of Some (VIsolation a b) \<Rightarrow> (a, b) | _ \<Rightarrow> (None, None))"

definition get_quality :: "state \<Rightarrow> (bool \<times> string list) option" where
  "get_quality st = (case st ''s05_quality'' of Some (VQuality p rs) \<Rightarrow> Some (p, rs) | _ \<Rightarrow> None)"

definition no_treatment :: s05_treatment where
  "no_treatment = \<lparr>tr_by_criterion = [], tr_unmeasurable = [], tr_preserved = None\<rparr>"

definition get_treatment :: "state \<Rightarrow> s05_treatment" where
  "get_treatment st = (case st ''s05_treatment_aggregates'' of Some (VTreatment t) \<Rightarrow> t | _ \<Rightarrow> no_treatment)"

definition read_baseline :: "'w node_ports \<Rightarrow> state \<Rightarrow> ('w, baseline_snapshot) io" where
  "read_baseline ports st = bindI (liftI (require_ref st ''BaselineSnapshot'')) (\<lambda>ref. read_model ports st ref decode_baseline)"

record 'w remeasure_env =
  re_sha :: "blob \<Rightarrow> string"
  re_clock :: "'w \<Rightarrow> int"
  re_timer :: "'w timer"
  re_broker :: "string \<Rightarrow> string \<Rightarrow> 'w broker_ops"      \<comment> \<open>tenant and workspace\<close>
  re_files :: "'w files"
  re_tools :: "'w tools"
  re_tree :: "'w tree"
  re_digest :: "string \<Rightarrow> string \<Rightarrow> 'w \<Rightarrow> string option"   \<comment> \<open>root and path: the digest of a regular file\<close>

section \<open>S05.10 to S05.30\<close>

definition handle_s05_10 :: "state \<Rightarrow> 'w node_ports \<Rightarrow> ('w, node_execution) io" where
  "handle_s05_10 st ports =
     bindI (read_request ports st) (\<lambda>r.
     bindI (read_baseline ports st) (\<lambda>b.
     retI (cont [(''s05_protocol'', VProtocol \<lparr>pc_workload = bl_workload b, pc_environment = bl_environment b,
       pc_repetitions = wl_repetitions (req_workload r), pc_warmup = wl_warmup (req_workload r),
       pc_concurrency = wl_concurrency (req_workload r), pc_cache = wl_cache (req_workload r)\<rparr>)])))"

definition workspace_root :: "state \<Rightarrow> string" where
  "workspace_root st = (case workspace_path st of Some p \<Rightarrow> p | None \<Rightarrow> [])"

definition isolation_violations :: "(string \<Rightarrow> string option) \<Rightarrow> patch_artifact \<Rightarrow> repository_manifest \<Rightarrow> source_snapshot \<Rightarrow>
    (isolation_kind \<times> string) list" where
  "isolation_violations digest patch m snapshot =
     (let by_path = py_dict (map (\<lambda>f. (fi_path f, fi_digest f)) (sn_files snapshot)) in
      (if sr_in_scope (pa_scope patch) then [] else [(ScopeBreach, ''S03's own scope report recorded a violation'')]) @
      map (\<lambda>p. (DependencyDrift, p @ '' changed with the patch''))
        (sorted_set (filter (\<lambda>p. p \<in> set (rm_files m)) (pa_files patch))) @
      map (\<lambda>p. (DependencyDrift, p @ '' content changed outside the patch since A2.30's snapshot -- real environment/dependency drift''))
        (filter (\<lambda>p. case (map_of by_path p, digest p) of
            (Some expected, Some actual) \<Rightarrow> p \<notin> set (pa_files patch) \<and> actual \<noteq> expected
          | _ \<Rightarrow> False) (sort (rm_files m))))"

definition handle_s05_20 :: "'w remeasure_env \<Rightarrow> state \<Rightarrow> 'w node_ports \<Rightarrow> ('w, node_execution) io" where
  "handle_s05_20 e st ports =
     bindI (liftI (require_phase_ref st ''S03.80'' ''PatchArtifact'')) (\<lambda>patch_ref.
     bindI (read_model ports st patch_ref decode_patch) (\<lambda>patch.
     bindI (read_manifest ports st) (\<lambda>m.
     bindI (read_snapshot ports st) (\<lambda>snapshot. (\<lambda>w.
     let violations = isolation_violations (\<lambda>p. re_digest e (workspace_root st) p w) patch m snapshot;
         report = \<lparr>ir_patch = ref_digest patch_ref, ir_isolated = (violations = []), ir_violations = violations\<rparr> in
     bindI (seal_and_put (re_sha e) (re_clock e) ports st ''S05.20'' ''IsolationReport'' (valid_isolation report) (BIsolation report)) (\<lambda>ref.
     retI (cont [(''artifact_refs'', VRefs [ref]), (''s05_isolation'', VIsolation (Some (violations = [])) None)])) w)))))"

definition handle_s05_30 :: "'w remeasure_env \<Rightarrow> state \<Rightarrow> 'w node_ports \<Rightarrow> ('w, node_execution) io" where
  "handle_s05_30 e st ports = (\<lambda>w.
     let ready = fs_is_dir (re_files e) (workspace_root st) w in
     retI \<lparr>ex_route = (if ready then CONTINUE else REJECTED),
           ex_updates = [(''s05_isolation'', VIsolation (fst (get_isolation st)) (Some ready))]\<rparr> w)"

section \<open>Running the workload\<close>

definition resolvable_kinds :: "string list" where
  "resolvable_kinds = [''build'', ''lint'', ''type'', ''unit'', ''integration'', ''security'', ''benchmark'']"

definition removesuffix :: "string \<Rightarrow> string \<Rightarrow> string" where
  "removesuffix s p = (if p \<noteq> [] \<and> endswith s p then take (length s - length p) s else s)"

definition resolve_kind :: "criterion \<Rightarrow> repository_manifest \<Rightarrow> string option" where
  "resolve_kind c m =
     (let kind = removesuffix (cr_metric c) ''_command_result'' in
      if kind = cr_metric c \<or> kind \<notin> set resolvable_kinds then None
      else if \<not> list_ex (\<lambda>x. cm_kind x = kind) (rm_commands m) then None
      else Some kind)"

definition mean_of :: "rat list \<Rightarrow> rat" where
  "mean_of xs = sum_list xs / of_nat (length xs)"

definition mk_aggregate :: "metric_aggregate \<Rightarrow> metric_aggregate result" where
  "mk_aggregate a = (if valid_aggregate a then Inr a else Inl (ValidationError ''MetricAggregate''))"

text \<open>The aggregate of a worker's payload: one sample per benchmark round, or the exit code as one sample.\<close>

definition aggregate_of :: "string \<Rightarrow> criterion \<Rightarrow> string \<Rightarrow> blob \<Rightarrow> metric_aggregate result" where
  "aggregate_of jid c kind payload =
     (if kind = ''benchmark''
      then let values = (case payload of Output out \<Rightarrow> map snd (wo_rounds out) | _ \<Rightarrow> []) in
        if values = [] then Inl (RuntimeError ''benchmark produced no rounds'')
        else mk_aggregate \<lparr>ma_metric = cr_metric c, ma_unit = cr_unit c,
          ma_samples = map (\<lambda>i. jid @ ''-'' @ str_nat i) [1..<Suc (length values)], ma_count = int (length values),
          ma_minimum = Min (set values), ma_maximum = Max (set values), ma_mean = mean_of values, ma_p50 = None, ma_p95 = None\<rparr>
      else let code = of_int (case payload of Output out \<Rightarrow> wo_exit out | _ \<Rightarrow> -1) in
        mk_aggregate \<lparr>ma_metric = cr_metric c, ma_unit = ''exit_code'', ma_samples = [jid @ ''-1''], ma_count = 1,
          ma_minimum = code, ma_maximum = code, ma_mean = code, ma_p50 = None, ma_p95 = None\<rparr>)"

definition remeasure_one :: "'w timer \<Rightarrow> 'w broker_ops \<Rightarrow> 'w node_ports \<Rightarrow> string \<Rightarrow> string \<Rightarrow> artifact_ref \<Rightarrow> criterion \<Rightarrow> string \<Rightarrow>
    ('w, metric_aggregate) io" where
  "remeasure_one tm bk ports cid tenant manifest_ref c kind =
     (let jid = cid @ ''-S05-'' @ cr_id c;
          job = \<lparr>wj_id = jid, wj_case = cid, wj_node = ''S05'', wj_key = jid, wj_inputs = [manifest_ref],
                  wj_capability = kind, wj_timeout = 120\<rparr> in
      bindI (liftI (if valid_job job then Inr job else Inl (ValidationError ''WorkerJob''))) (\<lambda>job.
      bindI (bk_submit bk job) (\<lambda>accepted.
      if \<not> accepted then failI (RuntimeError ''S05 remeasurement job was not accepted'')
      else bindI (await_worker_result tm (bk_reconcile bk) jid max_check_seconds) (\<lambda>out.
        case out of
          None \<Rightarrow> failI (RuntimeError ''S05 remeasurement job timed out'')
        | Some ref \<Rightarrow> bindI (np_read ports tenant ref) (\<lambda>payload. liftI (aggregate_of jid c kind payload))))))"

fun remeasure_each :: "(criterion \<Rightarrow> string \<Rightarrow> ('w, metric_aggregate) io) \<Rightarrow> repository_manifest \<Rightarrow> criterion list \<Rightarrow>
    s05_treatment \<Rightarrow> ('w, s05_treatment) io" where
  "remeasure_each f m [] t = retI t"
| "remeasure_each f m (c # cs) t =
     (case resolve_kind c m of
        None \<Rightarrow> remeasure_each f m cs (t\<lparr>tr_unmeasurable := tr_unmeasurable t @ [cr_id c]\<rparr>)
      | Some kind \<Rightarrow> bindI (f c kind) (\<lambda>a.
          remeasure_each f m cs (t\<lparr>tr_by_criterion := AList.update (cr_id c) a (tr_by_criterion t)\<rparr>)))"

definition handle_s05_40 :: "'w remeasure_env \<Rightarrow> state \<Rightarrow> 'w node_ports \<Rightarrow> ('w, node_execution) io" where
  "handle_s05_40 e st ports =
     bindI (read_request ports st) (\<lambda>r.
     bindI (read_manifest ports st) (\<lambda>m.
     bindI (liftI (require_ref st ''RepositoryManifest'')) (\<lambda>manifest_ref.
     bindI (liftI (require_workspace st)) (\<lambda>k.
     bindI (liftI (required_state_str st ''case_id'')) (\<lambda>cid.
     bindI (liftI (required_state_str st ''tenant_id'')) (\<lambda>tenant.
     let bk = re_broker e tenant (wk_path k) in
     bindI (finallyI (remeasure_each (remeasure_one (re_timer e) bk ports cid tenant manifest_ref) m (req_criteria r) no_treatment)
              (\<lambda>w. snd (cleanup_workspace (re_tools e) (re_tree e) k (bk_close bk w)))) (\<lambda>t.
     retI (cont [(''s05_treatment_aggregates'', VTreatment t)]))))))))"

definition handle_s05_50 :: "state \<Rightarrow> 'w node_ports \<Rightarrow> ('w, node_execution) io" where
  "handle_s05_50 st ports =
     (let t = get_treatment st in
      retI (cont [(''s05_treatment_aggregates'', VTreatment (t\<lparr>tr_preserved := Some (sort (keys (tr_by_criterion t)))\<rparr>))]))"

section \<open>Quality and comparability\<close>

definition required_samples :: "optimization_request \<Rightarrow> string \<Rightarrow> int" where
  "required_samples r cid = dict_get (py_dict (map (\<lambda>q. (er_criterion q, er_samples q)) (req_requirements r))) cid 1"

definition quality_reason :: "optimization_request \<Rightarrow> baseline_snapshot \<Rightarrow> s05_treatment \<Rightarrow> criterion \<Rightarrow> string list" where
  "quality_reason r b t c =
     (if cr_id c \<in> set (tr_unmeasurable t) then [cr_id c @ '': no real command resolved this pass'']
      else if cr_metric c \<notin> set (map ma_metric (bl_aggregates b)) then [cr_id c @ '': no baseline aggregate for metric -- not comparable'']
      else if (case map_of (tr_by_criterion t) (cr_id c) of None \<Rightarrow> True | Some a \<Rightarrow> ma_count a < required_samples r (cr_id c))
      then [cr_id c @ '': fewer than '' @ str_int (required_samples r (cr_id c)) @ '' real samples'']
      else [])"

definition handle_s05_60 :: "state \<Rightarrow> 'w node_ports \<Rightarrow> ('w, node_execution) io" where
  "handle_s05_60 st ports =
     bindI (read_request ports st) (\<lambda>r.
     bindI (read_baseline ports st) (\<lambda>b.
     let reasons = concat (map (quality_reason r b (get_treatment st)) (req_criteria r)) in
     retI (cont [(''s05_quality'', VQuality (reasons = []) reasons)])))"

definition s05_policy_version :: string where
  "s05_policy_version = ''s05-comparability-v1''"

definition verdict :: "string \<Rightarrow> bool \<Rightarrow> string \<Rightarrow> string \<Rightarrow> string \<Rightarrow> dimension_verdict" where
  "verdict name ok base expected reason = \<lparr>dv_dimension = name, dv_comparable = ok, dv_baseline = base, dv_expected = expected,
     dv_material = True, dv_reason = reason\<rparr>"

definition s05_dimensions :: "optimization_request \<Rightarrow> baseline_snapshot \<Rightarrow> state \<Rightarrow> dimension_verdict list" where
  "s05_dimensions r b st =
     (let workload = map_option pc_workload (get_protocol st); environment = map_option pc_environment (get_protocol st);
          shown = (\<lambda>x. case x of Some s \<Rightarrow> s | None \<Rightarrow> ''None'');
          reasons = (case get_quality st of Some (_, rs) \<Rightarrow> rs | None \<Rightarrow> []) in
      [verdict ''isolation'' (fst (get_isolation st) = Some True) ''isolated'' ''isolated''
         ''S03's patch scope/sanitation must be the only real difference'',
       verdict ''sample_quality'' (map_option fst (get_quality st) = Some True) ''sufficient'' ''sufficient''
         (or_default (join ''; '' reasons) ''sufficient''),
       verdict ''workload_id'' (workload = Some (wl_id (req_workload r))) (bl_workload b) (shown workload)
         ''workload identity must match the frozen A2 protocol'',
       verdict ''environment_id'' (environment = Some (bl_environment b)) (bl_environment b) (shown environment)
         ''environment identity must match the frozen A2 protocol''])"

definition handle_s05_70 :: "'w remeasure_env \<Rightarrow> state \<Rightarrow> 'w node_ports \<Rightarrow> ('w, node_execution) io" where
  "handle_s05_70 e st ports =
     bindI (read_request ports st) (\<lambda>r.
     bindI (read_baseline ports st) (\<lambda>b.
     let dimensions = s05_dimensions r b st;
         comparable = list_all (\<lambda>d. \<not> dv_material d \<or> dv_comparable d) dimensions;
         report = \<lparr>cp_comparable = comparable, cp_dimensions = dimensions, cp_policy = s05_policy_version\<rparr> in
     bindI (seal_and_put (re_sha e) (re_clock e) ports st ''S05.70'' ''ComparabilityReport'' True (BComparability report)) (\<lambda>ref.
     retI \<lparr>ex_route = (if comparable then CONTINUE else REJECTED), ex_updates = [(''artifact_refs'', VRefs [ref])]\<rparr>)))"

section \<open>Effects and the measurement\<close>

fun effects_of :: "baseline_snapshot \<Rightarrow> s05_treatment \<Rightarrow> criterion list \<Rightarrow> effect_result list result" where
  "effects_of b t [] = Inr []"
| "effects_of b t (c # cs) =
     (case (map_of (tr_by_criterion t) (cr_id c), map_of (py_dict (map (\<lambda>a. (ma_metric a, a)) (bl_aggregates b))) (cr_metric c)) of
        (Some raw, Some base) \<Rightarrow>
          bindR (mk_aggregate raw) (\<lambda>a.
          bindR (effects_of b t cs) (\<lambda>es.
          let change = ma_mean a - ma_mean base in
          Inr (\<lparr>ef_criterion = cr_id c, ef_metric = cr_metric c, ef_baseline_mean = ma_mean base, ef_treatment_mean = ma_mean a,
             ef_absolute = change, ef_relative = (if ma_mean base \<noteq> 0 then Some (change / ma_mean base) else None),
             ef_count = ma_count a\<rparr> # es)))
      | _ \<Rightarrow> effects_of b t cs)"

definition handle_s05_80 :: "'w remeasure_env \<Rightarrow> state \<Rightarrow> 'w node_ports \<Rightarrow> ('w, node_execution) io" where
  "handle_s05_80 e st ports =
     bindI (read_request ports st) (\<lambda>r.
     bindI (read_baseline ports st) (\<lambda>b.
     bindI (liftI (effects_of b (get_treatment st) (req_criteria r))) (\<lambda>effects.
     bindI (seal_and_put (re_sha e) (re_clock e) ports st ''S05.80'' ''StatisticalReport'' (effects \<noteq> [] \<and> list_all valid_effect effects)
              (BStatistical effects)) (\<lambda>ref.
     retI (cont [(''artifact_refs'', VRefs [ref])])))))"

definition handle_s05_90 :: "'w remeasure_env \<Rightarrow> state \<Rightarrow> 'w node_ports \<Rightarrow> ('w, node_execution) io" where
  "handle_s05_90 e st ports =
     bindI (liftI (require_ref st ''BaselineSnapshot'')) (\<lambda>baseline_ref.
     bindI (liftI (require_phase_ref st ''S03.80'' ''PatchArtifact'')) (\<lambda>patch_ref.
     bindI (liftI (require_phase_ref st ''S05.20'' ''IsolationReport'')) (\<lambda>isolation_ref.
     bindI (liftI (require_phase_ref st ''S05.70'' ''ComparabilityReport'')) (\<lambda>comparability_ref.
     bindI (liftI (require_phase_ref st ''S05.80'' ''StatisticalReport'')) (\<lambda>statistical_ref.
     bindI (liftI (active_phase_id st)) (\<lambda>phase.
     let m = \<lparr>me_baseline = ref_digest baseline_ref, me_patch = ref_digest patch_ref, me_isolation = ref_digest isolation_ref,
           me_comparability = ref_digest comparability_ref, me_statistical = ref_digest statistical_ref, me_phase = phase\<rparr> in
     bindI (seal_and_put (re_sha e) (re_clock e) ports st ''S05.90'' ''Measurement'' (valid_measurement m) (BMeasurement m)) (\<lambda>ref.
     retI (cont [(''artifact_refs'', VRefs [ref])]))))))))"

section \<open>The benchmark capability\<close>

definition benchmark_json_filename :: string where
  "benchmark_json_filename = ''.optimizer-benchmark-result.json''"

definition max_benchmark_samples :: nat where
  "max_benchmark_samples = 10"

text \<open>\<open>parse\<close> reads the names and the raw data of the benchmarks out of the JSON text, \<open>None\<close> for the exceptions the
  code catches; \<open>unlink\<close> removes the file.\<close>

definition benchmark_rounds :: "(string \<Rightarrow> (string \<times> rat list) list option) \<Rightarrow> string option \<Rightarrow> (string \<times> rat) list" where
  "benchmark_rounds parse content =
     (case content of
        None \<Rightarrow> []
      | Some text \<Rightarrow> (case parse text of
          None \<Rightarrow> []
        | Some benches \<Rightarrow> concat (map (\<lambda>(name, values). map (\<lambda>v. (name, v)) (take max_benchmark_samples values)) benches)))"

definition s05_capability :: "(blob \<Rightarrow> string) \<Rightarrow> 'w processes \<Rightarrow> 'w tree \<Rightarrow> (string \<Rightarrow> (string \<times> rat list) list option) \<Rightarrow>
    (string \<Rightarrow> string \<Rightarrow> 'w \<Rightarrow> 'w) \<Rightarrow> (string \<Rightarrow> blob \<Rightarrow> string \<Rightarrow> string \<Rightarrow> ('w, artifact_ref) io) \<Rightarrow> 'w node_ports \<Rightarrow> string \<Rightarrow> string \<Rightarrow>
    worker_job \<Rightarrow> ('w, artifact_ref) io" where
  "s05_capability sha pr tr parse unlink put_blob ports tenant dir j =
     bindI (find_manifest ports tenant j) (\<lambda>m.
     bindI (liftI (find_command m (wj_capability j))) (\<lambda>c.
     bindI (run_repository_command pr (cm_argv c) dir (wj_timeout j)) (\<lambda>out. (\<lambda>w.
     let found = tr_exists tr dir benchmark_json_filename w;
         rounds = (if found then benchmark_rounds parse (tr_read tr dir benchmark_json_filename w) else []);
         w' = (if found then unlink dir benchmark_json_filename w else w);
         content = Output \<lparr>wo_command = cm_id c, wo_argv = cm_argv c, wo_cwd = dir, wo_exit = cp_code out,
           wo_stdout = tail_of output_tail_bytes (cp_stdout out), wo_stderr = tail_of output_tail_bytes (cp_stderr out),
           wo_coverage = None, wo_rounds = rounds\<rparr> in
     put_blob tenant content (sha content) ''application/json'' w'))))"

section \<open>What a comparable pass has measured\<close>

lemma quality_reason_empty:
  "quality_reason r b t c = [] \<longleftrightarrow> cr_id c \<notin> set (tr_unmeasurable t) \<and> cr_metric c \<in> set (map ma_metric (bl_aggregates b)) \<and>
     (\<exists>a. map_of (tr_by_criterion t) (cr_id c) = Some a \<and> required_samples r (cr_id c) \<le> ma_count a)"
  by (auto simp: quality_reason_def not_less split: option.splits)

lemma baseline_lookup:
  assumes "k \<in> set (map ma_metric xs)"
  obtains a where "map_of (py_dict (map (\<lambda>a. (ma_metric a, a)) xs)) k = Some a" and "a \<in> set xs" and "ma_metric a = k"
proof (cases "find (\<lambda>a. ma_metric a = k) (rev xs)")
  case None
  with assms show ?thesis by (auto simp: find_None_iff)
next
  case (Some a)
  then have "a \<in> set xs" "ma_metric a = k" by (auto simp: find_Some_iff) (metis nth_mem set_rev length_rev)
  with Some show ?thesis by (intro that[of a]) (simp_all add: py_dict_find)
qed

definition effect_grounded :: "optimization_request \<Rightarrow> baseline_snapshot \<Rightarrow> effect_result \<Rightarrow> bool" where
  "effect_grounded r b f \<longleftrightarrow> required_samples r (ef_criterion f) \<le> ef_count f \<and>
     (\<exists>a\<in>set (bl_aggregates b). ma_metric a = ef_metric f \<and> ef_baseline_mean f = ma_mean a) \<and>
     ef_absolute f = ef_treatment_mean f - ef_baseline_mean f \<and>
     ef_relative f = (if ef_baseline_mean f = 0 then None else Some (ef_absolute f / ef_baseline_mean f))"

lemma effects_of_quality:
  assumes "effects_of b t cs = Inr es" and "\<forall>c\<in>set cs. quality_reason r b t c = []"
  shows "map ef_criterion es = map cr_id cs \<and> list_all (effect_grounded r b) es"
  using assms
proof (induction cs arbitrary: es)
  case (Cons c cs)
  from Cons.prems(2) obtain raw where raw: "map_of (tr_by_criterion t) (cr_id c) = Some raw" "required_samples r (cr_id c) \<le> ma_count raw"
    and "cr_metric c \<in> set (map ma_metric (bl_aggregates b))" unfolding quality_reason_empty by auto
  then obtain base where base: "map_of (py_dict (map (\<lambda>a. (ma_metric a, a)) (bl_aggregates b))) (cr_metric c) = Some base"
    "base \<in> set (bl_aggregates b)" "ma_metric base = cr_metric c" by (metis baseline_lookup)
  from Cons.prems(1) raw base(1) obtain es' where es': "effects_of b t cs = Inr es'" "mk_aggregate raw = Inr raw"
    and es: "es = \<lparr>ef_criterion = cr_id c, ef_metric = cr_metric c, ef_baseline_mean = ma_mean base, ef_treatment_mean = ma_mean raw,
      ef_absolute = ma_mean raw - ma_mean base, ef_relative = (if ma_mean base \<noteq> 0 then Some ((ma_mean raw - ma_mean base) / ma_mean base) else None),
      ef_count = ma_count raw\<rparr> # es'"
    by (auto simp: bindR_Inr_iff Let_def mk_aggregate_def split: if_splits)
  from Cons.IH[OF es'(1)] Cons.prems(2) show ?case
    using raw(2) base(2,3) by (auto simp: es effect_grounded_def)
qed simp


lemma s05_dimensions_hold:
  "list_all (\<lambda>d. \<not> dv_material d \<or> dv_comparable d) (s05_dimensions r b st) \<longleftrightarrow>
     fst (get_isolation st) = Some True \<and> map_option fst (get_quality st) = Some True \<and>
     map_option pc_workload (get_protocol st) = Some (wl_id (req_workload r)) \<and>
     map_option pc_environment (get_protocol st) = Some (bl_environment b)"
  by (simp add: s05_dimensions_def verdict_def Let_def)

lemma handle_s05_70_route:
  assumes "handle_s05_70 e st ports w = (Inr ex, w')"
  obtains r b v1 v2 where "read_request ports st w = (Inr r, v1)" and "read_baseline ports st v1 = (Inr b, v2)"
    and "ex_route ex = (if list_all (\<lambda>d. \<not> dv_material d \<or> dv_comparable d) (s05_dimensions r b st) then CONTINUE else REJECTED)"
  using assms unfolding handle_s05_70_def Let_def
  by (elim bindI_result_Inr) (rule that, assumption, assumption, auto)

text \<open>C22. The comparability gate judges three things: once S05.10 has pinned the protocol from the baseline, S05.70 lets the
  pass go on exactly when the patch was isolated, the sample quality passed and the workload of the baseline is the one of the
  request. The fourth dimension compares the environment of the baseline with itself: the environment the request asks for
  plays no part.\<close>

theorem comparability_gate_exact:
  assumes "handle_s05_10 st0 ports w0 = (Inr ex0, w0')" and "read_request ports st0 w0 = (Inr r, w1)" and "read_baseline ports st0 w1 = (Inr b, w2)"
    and "st ''s05_protocol'' = map_of (ex_updates ex0) ''s05_protocol''"
    and "handle_s05_70 e st ports w = (Inr ex, w')" and "read_request ports st w = (Inr r, v1)" and "read_baseline ports st v1 = (Inr b, v2)"
  shows "ex_route ex = (if fst (get_isolation st) = Some True \<and> map_option fst (get_quality st) = Some True \<and>
      bl_workload b = wl_id (req_workload r) then CONTINUE else REJECTED)"
proof -
  from assms(1-4) have p: "get_protocol st = Some \<lparr>pc_workload = bl_workload b, pc_environment = bl_environment b,
       pc_repetitions = wl_repetitions (req_workload r), pc_warmup = wl_warmup (req_workload r),
       pc_concurrency = wl_concurrency (req_workload r), pc_cache = wl_cache (req_workload r)\<rparr>"
    by (auto simp: handle_s05_10_def bindI_Inr cont_def get_protocol_def)
  from handle_s05_70_route[OF assms(5)] assms(6,7) have
    "ex_route ex = (if list_all (\<lambda>d. \<not> dv_material d \<or> dv_comparable d) (s05_dimensions r b st) then CONTINUE else REJECTED)"
    by (metis fst_conv snd_conv sum.inject(2))
  then show ?thesis unfolding s05_dimensions_hold by (simp add: p)
qed

lemma remeasure_each_frame:
  assumes "remeasure_each f m cs t w = (Inr t', w')" and "cid \<notin> set (map cr_id cs)"
  shows "map_of (tr_by_criterion t') cid = map_of (tr_by_criterion t) cid"
  using assms by (induction cs arbitrary: t w) (auto split: option.splits elim!: bindI_result_Inr)

lemma remeasure_each_result:
  assumes "remeasure_each f m cs t w = (Inr t', w')" and "distinct (map cr_id cs)" and "c \<in> set cs" and "resolve_kind c m = Some kind"
  shows "\<exists>a v v'. map_of (tr_by_criterion t') (cr_id c) = Some a \<and> f c kind v = (Inr a, v')"
  using assms
proof (induction cs arbitrary: t w)
  case (Cons d cs)
  show ?case
  proof (cases "d = c")
    case True
    with Cons.prems obtain a w1 where "f c kind w = (Inr a, w1)"
      and "remeasure_each f m cs (t\<lparr>tr_by_criterion := AList.update (cr_id c) a (tr_by_criterion t)\<rparr>) w1 = (Inr t', w')"
      by (auto elim!: bindI_result_Inr)
    moreover from Cons.prems(2) True have "cr_id c \<notin> set (map cr_id cs)" by simp
    ultimately show ?thesis using remeasure_each_frame[of f m cs] by fastforce
  next
    case False
    with Cons.prems obtain t1 w1 where "remeasure_each f m cs t1 w1 = (Inr t', w')" by (auto split: option.splits elim!: bindI_result_Inr)
    with Cons.IH[OF this] Cons.prems False show ?thesis by simp
  qed
qed simp

lemma remeasure_one_single:
  assumes "remeasure_one tm bk ports cid tenant ref c kind w = (Inr a, w')" and "kind \<noteq> ''benchmark''"
  shows "ma_count a = 1"
  using assms by (auto simp: remeasure_one_def Let_def aggregate_of_def mk_aggregate_def split: if_splits option.splits elim!: bindI_result_Inr)

text \<open>C36. Repetitions are not repeated: S05.40 runs the command of a criterion once, so unless the criterion is a
  benchmark its aggregate has one sample. A request whose protocol asks for two or more samples of such a criterion (A1.71
  asks for as many as the declared repetitions) fails the sample quality of S05.60 on every pass, and S05.70 rejects the pass
  whatever was measured.\<close>

theorem repeated_exit_code_never_comparable:
  assumes "handle_s05_40 e st ports w = (Inr ex, w')" and "read_request ports st w = (Inr r, w1)" and "read_manifest ports st w1 = (Inr m, w2)"
    and "c \<in> set (req_criteria r)" and "distinct (map cr_id (req_criteria r))" and "resolve_kind c m = Some kind" and "kind \<noteq> ''benchmark''"
    and "2 \<le> required_samples r (cr_id c)"
    and "map_of (ex_updates ex) ''s05_treatment_aggregates'' = Some (VTreatment t)" and "tr_by_criterion (get_treatment st6) = tr_by_criterion t"
    and "handle_s05_60 st6 ports v = (Inr ex6, v')" and "read_request ports st6 v = (Inr r, v1)"
    and "st7 ''s05_quality'' = map_of (ex_updates ex6) ''s05_quality''" and "handle_s05_70 e st7 ports u = (Inr ex7, u')"
  shows "ex_route ex7 = REJECTED"
proof -
  from assms(1-3,9) obtain tm bk cid tenant ref v0 v0' where
    each: "remeasure_each (remeasure_one tm bk ports cid tenant ref) m (req_criteria r) no_treatment v0 = (Inr t, v0')"
    unfolding handle_s05_40_def by (auto simp: bindI_Inr Let_def finallyI_def cont_def split: prod.splits elim!: bindI_result_Inr)
  from remeasure_each_result[OF each assms(5,4,6)] obtain a where "map_of (tr_by_criterion t) (cr_id c) = Some a" "ma_count a = 1"
    using remeasure_one_single assms(7) by metis
  with assms(8,10) have bad: "quality_reason r b (get_treatment st6) c \<noteq> []" for b
    by (auto simp: quality_reason_empty)
  from assms(11,12) obtain b where "ex6 = cont [(''s05_quality'', let reasons = concat (map (quality_reason r b (get_treatment st6)) (req_criteria r))
      in VQuality (reasons = []) reasons)]"
    unfolding handle_s05_60_def by (auto simp: bindI_Inr Let_def elim!: bindI_result_Inr)
  with bad assms(4,13) have "map_option fst (get_quality st7) = Some False" by (force simp: cont_def get_quality_def Let_def)
  then have "\<not> list_all (\<lambda>d. \<not> dv_material d \<or> dv_comparable d) (s05_dimensions q b' st7)" for q b'
    unfolding s05_dimensions_hold by auto
  with assms(14) show ?thesis by (metis handle_s05_70_route)
qed

text \<open>A pass that measures one criterion by the unit tests; the request asks for \<open>n\<close> samples.\<close>

definition demo_criterion :: criterion where
  "demo_criterion = \<lparr>cr_id = ''unit'', cr_metric = ''unit_command_result'', cr_direction = Minimize, cr_target = 0, cr_weight = 1,
     cr_aggregation = ''mean'', cr_unit = ''exit_code'', cr_operator = Lte\<rparr>"

definition demo_request5 :: "int \<Rightarrow> optimization_request" where
  "demo_request5 n = demo_request\<lparr>req_criteria := [demo_criterion],
     req_requirements := [\<lparr>er_id = ''evidence-unit'', er_criterion = ''unit'', er_sources = [''test''], er_samples = n,
       er_metric = Some ''unit_command_result'', er_unit = Some ''exit_code'', er_aggregation = ''mean''\<rparr>]\<rparr>"

definition s05_ports :: "int \<Rightarrow> world node_ports" where
  "s05_ports n = (demo_ports None)\<lparr>np_read := \<lambda>_ r.
     if ref_type r = ''OptimizationRequest'' then retI (demo_env ''OptimizationRequest'' (BRequest (demo_request5 n)))
     else if ref_type r = ''BaselineSnapshot'' then retI (demo_env ''BaselineSnapshot'' (BBaseline demo_baseline))
     else if ref_type r = ''RepositoryManifest'' then retI (demo_env ''RepositoryManifest'' (BManifest demo_manifest))
     else retI (Output \<lparr>wo_command = ''unit'', wo_argv = [''pytest''], wo_cwd = ''/tmp/w'', wo_exit = 0,
       wo_stdout = [], wo_stderr = [], wo_coverage = None, wo_rounds = []\<rparr>)\<rparr>"

definition demo_aggregate :: metric_aggregate where
  "demo_aggregate = \<lparr>ma_metric = ''unit_command_result'', ma_unit = ''exit_code'', ma_samples = [''c-S05-unit-1''], ma_count = 1,
     ma_minimum = 0, ma_maximum = 0, ma_mean = 0, ma_p50 = None, ma_p95 = None\<rparr>"

definition demo_treatment :: s05_treatment where
  "demo_treatment = no_treatment\<lparr>tr_by_criterion := [(''unit'', demo_aggregate)]\<rparr>"

definition demo_protocol :: s05_protocol where
  "demo_protocol = \<lparr>pc_workload = ''w'', pc_environment = ''e'', pc_repetitions = 1, pc_warmup = 0, pc_concurrency = 1, pc_cache = ''cold''\<rparr>"

definition demo_s05 :: "bool \<Rightarrow> string list \<Rightarrow> state" where
  "demo_s05 ok rs = (demo_s06 KEEP)(
     ''artifact_refs'' \<mapsto> VRefs [demo_ref ''OptimizationRequest'' ''q'', demo_ref ''BaselineSnapshot'' ''b'', demo_ref ''RepositoryManifest'' ''m''],
     ''s03_workspace'' \<mapsto> VWorkspace demo_workspace, ''s05_protocol'' \<mapsto> VProtocol demo_protocol,
     ''s05_isolation'' \<mapsto> VIsolation (Some True) (Some True), ''s05_treatment_aggregates'' \<mapsto> VTreatment demo_treatment,
     ''s05_quality'' \<mapsto> VQuality ok rs)"

definition demo_remeasure :: "world remeasure_env" where
  "demo_remeasure = \<lparr>re_sha = (\<lambda>_. rep_digest CHR ''a''), re_clock = w_time, re_timer = \<lparr>tm_now = (\<lambda>_. 0), tm_sleep = (\<lambda>w. w)\<rparr>,
     re_broker = (\<lambda>_ _. \<lparr>bk_submit = (\<lambda>_. retI True), bk_reconcile = (\<lambda>_. retI (Some (demo_ref ''Blob'' ''k''))), bk_close = (\<lambda>w. w)\<rparr>),
     re_files = demo_files, re_tools = \<lparr>tl_run = (\<lambda>_ _ w. (NotRun, w)), tl_mkdtemp = retI [], tl_write = (\<lambda>_ _. retI ()), tl_rmtree = (\<lambda>_ w. w)\<rparr>,
     re_tree = \<lparr>tr_files = (\<lambda>_ _. []), tr_read = (\<lambda>_ _ _. None), tr_exists = (\<lambda>_ _ _. True), tr_inside = (\<lambda>_ _ _. True),
       tr_write = (\<lambda>_ _ _ w. (None, w)), tr_mkdtemp = (\<lambda>w. (''/tmp/d'', w)), tr_copytree = (\<lambda>_ _ w. w), tr_rmtree = (\<lambda>_ w. w),
       tr_symbols = (\<lambda>_ _ _. None)\<rparr>,
     re_digest = (\<lambda>_ _ _. None)\<rparr>"

lemma demo_s05_sel [simp]:
  "required_state_str (demo_s05 ok rs) ''case_id'' = Inr ''c''" "required_state_str (demo_s05 ok rs) ''tenant_id'' = Inr ''t''"
  "active_phase_id (demo_s05 ok rs) = Inr ''p1''" "pass_number (demo_s05 ok rs) = 0"
  "require_ref (demo_s05 ok rs) ''OptimizationRequest'' = Inr (demo_ref ''OptimizationRequest'' ''q'')"
  "require_ref (demo_s05 ok rs) ''BaselineSnapshot'' = Inr (demo_ref ''BaselineSnapshot'' ''b'')"
  "require_ref (demo_s05 ok rs) ''RepositoryManifest'' = Inr (demo_ref ''RepositoryManifest'' ''m'')"
  "require_workspace (demo_s05 ok rs) = Inr demo_workspace" "get_treatment (demo_s05 ok rs) = demo_treatment"
  "get_protocol (demo_s05 ok rs) = Some demo_protocol" "get_isolation (demo_s05 ok rs) = (Some True, Some True)"
  "get_quality (demo_s05 ok rs) = Some (ok, rs)" "demo_s05 ok rs ''s05_protocol'' = Some (VProtocol demo_protocol)"
  "demo_s05 ok rs ''s05_quality'' = Some (VQuality ok rs)"
  by (simp_all add: demo_s05_def demo_s06_def required_state_str_def get_str_def active_phase_id_def pass_number_def get_int_def
      require_ref_def try_ref_def get_refs_def demo_ref_def require_workspace_def get_workspace_def get_treatment_def get_protocol_def
      get_isolation_def get_quality_def)

lemma demo_s05_reads [simp]:
  assumes "1 \<le> n"
  shows "read_request (s05_ports n) (demo_s05 ok rs) w = (Inr (demo_request5 n), w)"
    and "read_baseline (s05_ports n) (demo_s05 ok rs) w = (Inr demo_baseline, w)"
    and "read_manifest (s05_ports n) (demo_s05 ok rs) w = (Inr demo_manifest, w)"
  using assms
  by (simp_all add: read_request_def read_baseline_def read_manifest_def read_model_def s05_ports_def demo_env_def decode_request_def
      decode_baseline_def decode_manifest_def demo_request5_def demo_criterion_def demo_request_def valid_request_def valid_contract_defs
      demo_baseline_def valid_aggregate_def valid_baseline_def demo_digest_valid)

lemma demo_s05_seal:
  "node \<in> {''S05.70'', ''S05.80''} \<Longrightarrow> ty \<in> {''ComparabilityReport'', ''StatisticalReport''} \<Longrightarrow>
   \<exists>ref. seal_and_put (re_sha demo_remeasure) (re_clock demo_remeasure) (s05_ports n) (demo_s05 ok rs) node ty True b w = (Inr ref, w)"
  by (auto simp: seal_and_put_def phase_stage_def stage_envelope_def valid_envelope_def len_in_def stage_artifact_id_def
      s06_put_envelope_def s05_ports_def demo_ports_def mk_ref_def Let_def valid_ref_def demo_ref_def demo_digest_valid demo_remeasure_def str_int_0)

lemma demo_required: "required_samples (demo_request5 n) ''unit'' = n"
  by (simp add: required_samples_def demo_request5_def py_dict_def dict_get_def)

lemma demo_criteria [simp]: "req_criteria (demo_request5 n) = [demo_criterion]"
  by (simp add: demo_request5_def)

lemma demo_quality5: "quality_reason (demo_request5 1) demo_baseline demo_treatment demo_criterion = []"
  by (simp add: quality_reason_empty demo_required demo_criterion_def demo_treatment_def no_treatment_def demo_aggregate_def demo_baseline_def)

lemma demo_s05_60:
  "\<exists>ex. handle_s05_60 (demo_s05 ok rs) (s05_ports 1) demo_world = (Inr ex, demo_world) \<and>
     map_of (ex_updates ex) ''s05_quality'' = Some (VQuality True [])"
  by (simp add: handle_s05_60_def bindI_def demo_quality5 Let_def cont_def)

lemma demo_s05_80: "\<exists>ex. handle_s05_80 demo_remeasure (demo_s05 ok rs) (s05_ports 1) demo_world = (Inr ex, demo_world)"
proof -
  have base: "map_of (py_dict (map (\<lambda>a. (ma_metric a, a)) (bl_aggregates demo_baseline))) ''unit_command_result'' = Some (hd (bl_aggregates demo_baseline))"
    by (simp add: demo_baseline_def py_dict_def)
  obtain es where es: "effects_of demo_baseline demo_treatment [demo_criterion] = Inr es" "es \<noteq> [] \<and> list_all valid_effect es"
    using base by (simp add: demo_criterion_def demo_treatment_def no_treatment_def mk_aggregate_def demo_aggregate_def valid_aggregate_def valid_effect_def Let_def)
  obtain ref where "seal_and_put (re_sha demo_remeasure) (re_clock demo_remeasure) (s05_ports 1) (demo_s05 ok rs) ''S05.80'' ''StatisticalReport'' True
      (BStatistical es) demo_world = (Inr ref, demo_world)" using demo_s05_seal by blast
  with es show ?thesis by (simp add: handle_s05_80_def bindI_def)
qed


lemma demo_s05_70: "\<exists>ex. handle_s05_70 demo_remeasure (demo_s05 ok rs) (s05_ports n) demo_world = (Inr ex, demo_world)" if "1 \<le> n"
proof -
  obtain ref where "seal_and_put (re_sha demo_remeasure) (re_clock demo_remeasure) (s05_ports n) (demo_s05 ok rs) ''S05.70'' ''ComparabilityReport'' True
      (BComparability \<lparr>cp_comparable = list_all (\<lambda>d. \<not> dv_material d \<or> dv_comparable d) (s05_dimensions (demo_request5 n) demo_baseline (demo_s05 ok rs)),
        cp_dimensions = s05_dimensions (demo_request5 n) demo_baseline (demo_s05 ok rs), cp_policy = s05_policy_version\<rparr>) demo_world = (Inr ref, demo_world)"
    using demo_s05_seal by blast
  with that show ?thesis by (simp add: handle_s05_70_def bindI_def Let_def)
qed

theorem comparability_gate_exact_witness:
  "\<exists>ex. handle_s05_70 demo_remeasure (demo_s05 True []) (s05_ports 1) demo_world = (Inr ex, demo_world) \<and> ex_route ex = CONTINUE"
proof -
  have n: "(1 :: int) \<le> 1" by simp
  note rd = demo_s05_reads(1)[OF n, of True "[]" demo_world] and bl = demo_s05_reads(2)[OF n, of True "[]" demo_world]
  obtain ex where h: "handle_s05_70 demo_remeasure (demo_s05 True []) (s05_ports 1) demo_world = (Inr ex, demo_world)" using demo_s05_70[OF n] by blast
  obtain ex0 where h0: "handle_s05_10 (demo_s05 True []) (s05_ports 1) demo_world = (Inr ex0, demo_world)"
    and p: "demo_s05 True [] ''s05_protocol'' = map_of (ex_updates ex0) ''s05_protocol''"
    by (simp add: handle_s05_10_def bindI_def cont_def demo_protocol_def demo_baseline_def demo_request5_def demo_request_def)
  from comparability_gate_exact[OF h0 rd bl p h rd bl] h show ?thesis
    by (simp add: demo_baseline_def demo_request5_def demo_request_def)
qed

lemma demo_s05_40:
  "\<exists>ex. handle_s05_40 demo_remeasure (demo_s05 ok rs) (s05_ports 2) demo_world = (Inr ex, demo_world) \<and>
     map_of (ex_updates ex) ''s05_treatment_aggregates'' = Some (VTreatment demo_treatment)"
proof -
  have kind: "resolve_kind demo_criterion demo_manifest = Some ''unit''"
    by (simp add: resolve_kind_def demo_criterion_def removesuffix_def endswith_def startswith_def resolvable_kinds_def demo_manifest_def)
  have one: "remeasure_one (re_timer demo_remeasure) (re_broker demo_remeasure t d) (s05_ports 2) ''c'' ''t'' (demo_ref ''RepositoryManifest'' ''m'')
      demo_criterion ''unit'' w = (Inr demo_aggregate, w)" for t d w
    by (simp add: remeasure_one_def Let_def valid_job_def valid_ref_def demo_ref_def len_in_def demo_digest_valid bindI_def demo_remeasure_def
        await_first_poll max_check_seconds_def s05_ports_def aggregate_of_def mk_aggregate_def valid_aggregate_def demo_criterion_def demo_aggregate_def)
  have clean: "cleanup_workspace (re_tools demo_remeasure) (re_tree demo_remeasure) demo_workspace w = (Inr (), w)" for w
    by (simp add: cleanup_workspace_def demo_remeasure_def demo_workspace_def git_def bindI_def)
  have close: "bk_close (re_broker demo_remeasure t d) w = w" for t d w by (simp add: demo_remeasure_def)
  have "(2 :: int) \<ge> 1" by simp
  then show ?thesis
    by (simp add: handle_s05_40_def bindI_def Let_def finallyI_def kind one clean close cont_def no_treatment_def demo_treatment_def)
      (simp add: demo_criterion_def)
qed

theorem repeated_exit_code_never_comparable_witness:
  "\<exists>ex. handle_s05_70 demo_remeasure (demo_s05 False [''unit: fewer than 2 real samples'']) (s05_ports 2) demo_world = (Inr ex, demo_world) \<and>
     ex_route ex = REJECTED"
proof -
  let ?rs = "[''unit: fewer than 2 real samples'']"
  have n: "(1 :: int) \<le> 2" by simp
  note rd = demo_s05_reads(1)[OF n] and mf = demo_s05_reads(3)[OF n]
  obtain ex where h: "handle_s05_40 demo_remeasure (demo_s05 False ?rs) (s05_ports 2) demo_world = (Inr ex, demo_world)"
    "map_of (ex_updates ex) ''s05_treatment_aggregates'' = Some (VTreatment demo_treatment)" using demo_s05_40 by blast
  have two: "str_int 2 = ''2''" by (simp add: str_int_def str_nat.simps[of 2] digit_def)
  obtain ex6 where h6: "handle_s05_60 (demo_s05 False ?rs) (s05_ports 2) demo_world = (Inr ex6, demo_world)"
    and q: "demo_s05 False ?rs ''s05_quality'' = map_of (ex_updates ex6) ''s05_quality''"
    by (simp add: handle_s05_60_def bindI_def demo_s05_reads[OF n] Let_def cont_def quality_reason_def demo_required demo_criterion_def demo_treatment_def
        no_treatment_def demo_aggregate_def demo_baseline_def two)
  obtain ex7 where h7: "handle_s05_70 demo_remeasure (demo_s05 False ?rs) (s05_ports 2) demo_world = (Inr ex7, demo_world)" using demo_s05_70[OF n] by blast
  have c: "demo_criterion \<in> set (req_criteria (demo_request5 2))" "distinct (map cr_id (req_criteria (demo_request5 2)))"
    "resolve_kind demo_criterion demo_manifest = Some ''unit''" "''unit'' \<noteq> ''benchmark''" "2 \<le> required_samples (demo_request5 2) (cr_id demo_criterion)"
    by (simp_all add: resolve_kind_def demo_criterion_def removesuffix_def endswith_def startswith_def resolvable_kinds_def demo_manifest_def demo_required)
  from repeated_exit_code_never_comparable[OF h(1) rd mf c h(2) _ h6 rd q h7] h7 show ?thesis by simp
qed

end
