(* ===== verification/Report.thy ===== *)
theory Report
  imports Remeasurement
begin

text \<open>
  Step 07, the report of a kept change (\<open>application/s07_handlers.py\<close>): verifying the chain of digests, the
  chronology, the outcome of every criterion and every pass, the evidence, the source change, the cost, the narrative,
  the sealed report and the completeness gate S07.90. The wording of the narrative's facts and of the Markdown document
  are parameters, and so are the model and the blob store.
\<close>

section \<open>Reading the history\<close>

definition s07_stage :: "string \<Rightarrow> string \<Rightarrow> int \<Rightarrow> string" where
  "s07_stage node phase n = node @ ''-'' @ phase @ ''-pass'' @ str_int n"

definition try_stage_ref :: "state \<Rightarrow> string \<Rightarrow> string \<Rightarrow> artifact_ref option result" where
  "try_stage_ref st stage ty =
     bindR (required_state_str st ''case_id'') (\<lambda>cid.
       Inr (find (\<lambda>r. ref_type r = ty \<and> ref_id r = stage_artifact_id cid stage ty) (get_refs st ''artifact_refs'')))"

definition decode_decision :: "body \<Rightarrow> decision result" where
  "decode_decision b = (case b of BDecision d \<Rightarrow> if valid_decision d then Inr d else Inl (ValidationError ''Decision'')
     | _ \<Rightarrow> Inl (ValidationError ''Decision''))"

definition decode_provenance :: "body \<Rightarrow> execution_provenance result" where
  "decode_provenance b = (case b of BProvenance p \<Rightarrow> if valid_provenance p then Inr p else Inl (ValidationError ''ExecutionProvenance'')
     | _ \<Rightarrow> Inl (ValidationError ''ExecutionProvenance''))"

definition decode_measurement :: "body \<Rightarrow> measurement result" where
  "decode_measurement b = (case b of BMeasurement m \<Rightarrow> if valid_measurement m then Inr m else Inl (ValidationError ''Measurement'')
     | _ \<Rightarrow> Inl (ValidationError ''Measurement''))"

definition decode_comparability :: "body \<Rightarrow> comparability_report result" where
  "decode_comparability b = (case b of BComparability r \<Rightarrow> Inr r | _ \<Rightarrow> Inl (ValidationError ''ComparabilityReport''))"

definition decode_apply :: "body \<Rightarrow> apply_result result" where
  "decode_apply b = (case b of BApply r \<Rightarrow> if valid_apply_result r then Inr r else Inl (ValidationError ''RepositoryApplyResult'')
     | _ \<Rightarrow> Inl (ValidationError ''RepositoryApplyResult''))"

definition decode_report :: "body \<Rightarrow> optimization_report result" where
  "decode_report b = (case b of BReport r \<Rightarrow> if valid_report r then Inr r else Inl (ValidationError ''OptimizationReport'')
     | _ \<Rightarrow> Inl (ValidationError ''OptimizationReport''))"

text \<open>\<open>range(n)\<close>.\<close>

definition passes_below :: "int \<Rightarrow> int list" where
  "passes_below n = map int [0..<nat n]"

definition read_if_sealed :: "'w node_ports \<Rightarrow> state \<Rightarrow> string \<Rightarrow> string \<Rightarrow> (body \<Rightarrow> 'a result) \<Rightarrow> ('w, 'a option) io" where
  "read_if_sealed ports st stage ty decode =
     bindI (liftI (try_stage_ref st stage ty)) (\<lambda>ref.
     case ref of
       None \<Rightarrow> retI None
     | Some r \<Rightarrow> bindI (read_model ports st r decode) (\<lambda>x. retI (Some x)))"

record pass_record =
  ps_number :: int
  ps_verification :: "verification_report option"
  ps_decision :: "decision option"

definition reconstruct_pass :: "'w node_ports \<Rightarrow> state \<Rightarrow> string \<Rightarrow> int \<Rightarrow> ('w, pass_record) io" where
  "reconstruct_pass ports st phase n =
     bindI (read_if_sealed ports st (s07_stage ''S04.90'' phase n) ''VerificationReport'' decode_verification) (\<lambda>v.
     bindI (read_if_sealed ports st (s07_stage ''S06.80'' phase n) ''Decision'' decode_decision) (\<lambda>d.
     retI \<lparr>ps_number = n, ps_verification = v, ps_decision = d\<rparr>))"

definition reconstruct_passes :: "'w node_ports \<Rightarrow> state \<Rightarrow> string \<Rightarrow> ('w, pass_record list) io" where
  "reconstruct_passes ports st phase = for_each (reconstruct_pass ports st phase) (passes_below (pass_number st + 1))"

section \<open>S07.10 to S07.30\<close>

definition handle_s07_10 :: "state \<Rightarrow> 'w node_ports \<Rightarrow> ('w, node_execution) io" where
  "handle_s07_10 st ports =
     bindI (liftI (active_phase_id st)) (\<lambda>phase.
     bindI (liftI (selected_solution_ref st)) (\<lambda>selected_ref.
     bindI (liftI (require_ref st ''ExecutionPlan'')) (\<lambda>plan_ref.
     bindI (liftI (require_ref st ''TaskList'')) (\<lambda>tasks_ref.
     bindI (liftI (require_phase_ref st ''S03.80'' ''PatchArtifact'')) (\<lambda>patch_ref.
     bindI (liftI (require_phase_ref st ''S03.80'' ''ExecutionProvenance'')) (\<lambda>provenance_ref.
     bindI (liftI (require_phase_ref st ''S04.90'' ''VerificationReport'')) (\<lambda>verification_ref.
     bindI (liftI (require_phase_ref st ''S05.90'' ''Measurement'')) (\<lambda>measurement_ref.
     bindI (liftI (require_phase_ref st ''S06.80'' ''Decision'')) (\<lambda>decision_ref.
     bindI (read_model ports st plan_ref decode_plan) (\<lambda>plan.
     bindI (read_model ports st tasks_ref decode_tasks) (\<lambda>tasks.
     bindI (read_model ports st patch_ref decode_patch) (\<lambda>patch.
     bindI (read_model ports st provenance_ref decode_provenance) (\<lambda>provenance.
     bindI (read_model ports st verification_ref decode_verification) (\<lambda>verification.
     bindI (read_model ports st measurement_ref decode_measurement) (\<lambda>measurement.
     bindI (read_model ports st decision_ref decode_decision) (\<lambda>decision.
     bindI (liftI (require_ref st ''BaselineSnapshot'')) (\<lambda>baseline_ref.
     let links = [ep_selected plan = ref_digest selected_ref, tkl_plan tasks = ref_digest plan_ref,
           pa_plan patch = ref_digest plan_ref, pa_provenance patch = ref_digest provenance_ref,
           xp_plan provenance = ref_digest plan_ref, vr_patch verification = ref_digest patch_ref,
           vr_provenance verification = ref_digest provenance_ref, me_patch measurement = ref_digest patch_ref,
           me_baseline measurement = ref_digest baseline_ref, de_measurement decision = ref_digest measurement_ref,
           de_verification decision = ref_digest verification_ref];
         intact = list_all (\<lambda>x. x) links in
     retI \<lparr>ex_route = (if intact then CONTINUE else REJECTED), ex_updates = [(''s07_digest_chain'', VBool intact)]\<rparr>)))))))))))))))))"

definition mk_chronology :: "chronology_entry \<Rightarrow> chronology_entry result" where
  "mk_chronology c = (if valid_chronology c then Inr c else Inl (ValidationError ''ChronologyEntry''))"

definition repair_summary :: "int \<Rightarrow> string" where
  "repair_summary n = (if n \<noteq> 0 then ''repaired '' @ str_int n @ '' time(s)'' else ''no repair needed'')"

definition handle_s07_20 :: "state \<Rightarrow> 'w node_ports \<Rightarrow> ('w, node_execution) io" where
  "handle_s07_20 st ports =
     (let n = pass_number st in
      bindI (liftI (mapR (\<lambda>(node, route). mk_chronology \<lparr>ch_node = node, ch_route = route, ch_pass = n\<rparr>)
               (sort_key fst (get_routes st) @ [(''__phase__'', repair_summary n)]))) (\<lambda>entries.
      retI (cont [(''s07_chronology'', VChronology entries)])))"

definition mk_outcome :: "outcome_entry \<Rightarrow> outcome_entry result" where
  "mk_outcome e = (if valid_outcome e then Inr e else Inl (ValidationError ''OutcomeEntry''))"

definition pass_detail :: "pass_record \<Rightarrow> string" where
  "pass_detail p =
     (if pred_option vr_passed (ps_verification p) then
        (case ps_decision p of Some d \<Rightarrow> de_rationale d | None \<Rightarrow> ''pass ended without a sealed decision'')
      else ''verification failed a mandatory check; the phase was re-implemented'')"

definition repaired_entry :: "string \<Rightarrow> pass_record \<Rightarrow> outcome_entry" where
  "repaired_entry phase p = \<lparr>oe_category = Repaired, oe_subject = phase, oe_detail = pass_detail p, oe_pass = ps_number p\<rparr>"

definition target_met_in :: "decision \<Rightarrow> string \<Rightarrow> bool" where
  "target_met_in d cid = dict_get (py_dict (map (\<lambda>t. (tv_criterion t, tv_met t)) (de_targets d))) cid False"

definition criterion_entry :: "decision \<Rightarrow> int \<Rightarrow> criterion \<Rightarrow> outcome_entry" where
  "criterion_entry d n c =
     (let met = target_met_in d (cr_id c) in
      \<lparr>oe_category = (if met then Completed else Missing), oe_subject = cr_id c,
       oe_detail = cr_id c @ (if met then '' met its target'' else '' did not meet its target''), oe_pass = n\<rparr>)"

definition handle_s07_30 :: "state \<Rightarrow> 'w node_ports \<Rightarrow> ('w, node_execution) io" where
  "handle_s07_30 st ports =
     bindI (read_request ports st) (\<lambda>r.
     bindI (liftI (active_phase_id st)) (\<lambda>phase.
     bindI (reconstruct_passes ports st phase) (\<lambda>passes.
     if passes = [] then failI IndexError
     else case ps_decision (last passes) of
         None \<Rightarrow> failI AssertionError
       | Some d \<Rightarrow>
           if de_outcome d \<noteq> KEEP then failI AssertionError
           else bindI (liftI (mapR mk_outcome (map (repaired_entry phase) (butlast passes) @
                    map (criterion_entry d (ps_number (last passes))) (req_criteria r)))) (\<lambda>entries.
             retI (cont [(''s07_outcomes'', VOutcomes entries)])))))"

section \<open>S07.40 to S07.70\<close>

definition evidence_of :: "decision \<Rightarrow> comparability_report \<Rightarrow> effect_result \<Rightarrow> evidence_summary" where
  "evidence_of d cmp e = \<lparr>ev_criterion = ef_criterion e, ev_metric = ef_metric e, ev_baseline_mean = ef_baseline_mean e,
     ev_treatment_mean = ef_treatment_mean e, ev_absolute = ef_absolute e, ev_relative = ef_relative e, ev_comparable = cp_comparable cmp,
     ev_met = target_met_in d (ef_criterion e)\<rparr>"

definition mk_evidence :: "evidence_summary \<Rightarrow> evidence_summary result" where
  "mk_evidence e = (if valid_evidence e then Inr e else Inl (ValidationError ''EvidenceSummary''))"

definition handle_s07_40 :: "state \<Rightarrow> 'w node_ports \<Rightarrow> ('w, node_execution) io" where
  "handle_s07_40 st ports =
     bindI (read_statistical ports st) (\<lambda>effects.
     bindI (liftI (require_phase_ref st ''S05.70'' ''ComparabilityReport'')) (\<lambda>cref.
     bindI (read_model ports st cref decode_comparability) (\<lambda>cmp.
     bindI (liftI (require_phase_ref st ''S06.80'' ''Decision'')) (\<lambda>dref.
     bindI (read_model ports st dref decode_decision) (\<lambda>d.
     bindI (liftI (mapR mk_evidence (map (evidence_of d cmp) effects))) (\<lambda>evidence.
     retI (cont [(''s07_evidence'', VEvidence evidence)])))))))"

definition handle_s07_50 :: "state \<Rightarrow> 'w node_ports \<Rightarrow> ('w, node_execution) io" where
  "handle_s07_50 st ports =
     bindI (liftI (active_phase_id st)) (\<lambda>phase.
     bindI (liftI (require_phase_ref st ''S03.80'' ''PatchArtifact'')) (\<lambda>patch_ref.
     bindI (read_model ports st patch_ref decode_patch) (\<lambda>patch.
     bindI (read_plan ports st) (\<lambda>plan.
     case find (\<lambda>p. ph_id p = phase) (ep_phases plan) of
       None \<Rightarrow> failI StopIteration
     | Some p \<Rightarrow>
         bindI (liftI (require_phase_ref st ''S06.90'' ''RepositoryApplyResult'')) (\<lambda>apply_ref.
         bindI (read_model ports st apply_ref decode_apply) (\<lambda>a.
         let change = \<lparr>sc_phase = phase, sc_base = pa_base patch, sc_files = pa_files patch, sc_patch = ref_digest patch_ref,
               sc_rollback = ph_rollback p, sc_executed = False, sc_applied = ar_applied a, sc_branch = ar_branch a,
               sc_commit = ar_commit a, sc_failure = ar_failure a\<rparr> in
         bindI (liftI (if valid_change change then Inr () else Inl (ValidationError ''SourceChangeSummary''))) (\<lambda>_.
         retI (cont [(''s07_source_change'', VSourceChange change)]))))))))"

definition handle_s07_60 :: "state \<Rightarrow> 'w node_ports \<Rightarrow> ('w, node_execution) io" where
  "handle_s07_60 st ports =
     bindI (liftI (active_phase_id st)) (\<lambda>phase.
     bindI (for_each (\<lambda>n. read_if_sealed ports st (s07_stage ''S03.80'' phase n) ''ExecutionProvenance'' decode_provenance)
              (passes_below (pass_number st + 1))) (\<lambda>found.
     let used = List.map_filter (\<lambda>x. x) found;
         cost = \<lparr>cs_input = sum_list (map xp_input used), cs_output = sum_list (map xp_output used), cs_repairs = pass_number st\<rparr> in
     bindI (liftI (if valid_cost cost then Inr () else Inl (ValidationError ''CostSummary''))) (\<lambda>_.
     retI (cont [(''s07_cost'', VCost cost)]))))"

definition s07_prompt_version :: string where
  "s07_prompt_version = ''s07-narrative-v2''"

record 'w report_env =
  rp_sha :: "blob \<Rightarrow> string"
  rp_clock :: "'w \<Rightarrow> int"
  rp_facts :: "state \<Rightarrow> string"                         \<comment> \<open>\<open>_build_narrative_facts\<close>\<close>
  rp_prompt :: "string \<Rightarrow> (string \<times> string) list"
  rp_model :: "(model_request \<Rightarrow> ('w, string completion) io) option"
  rp_markdown :: "string \<Rightarrow> optimization_report \<Rightarrow> string"
  rp_put_blob :: "string \<Rightarrow> blob \<Rightarrow> string \<Rightarrow> string \<Rightarrow> ('w, artifact_ref) io"

definition handle_s07_70 :: "'w report_env \<Rightarrow> state \<Rightarrow> 'w node_ports \<Rightarrow> ('w, node_execution) io" where
  "handle_s07_70 e st ports =
     (let plain = ''Case kept. '' @ rp_facts e st in
      case rp_model e of
        None \<Rightarrow> retI (cont [(''s07_narrative'', VStr plain)])
      | Some ask \<Rightarrow>
          bindI (liftI (required_state_str st ''case_id'')) (\<lambda>cid.
          bindI (ask \<lparr>mq_messages = rp_prompt e (rp_facts e st), mq_key = cid @ '':S07.70:'' @ s07_prompt_version\<rparr>) (\<lambda>reply.
          let narrative = (if co_valid reply then (case co_parsed reply of Some s \<Rightarrow> strip s | None \<Rightarrow> []) else []) in
          retI (cont [(''s07_narrative'', VStr (or_default narrative plain))]))))"

section \<open>The sealed report and its gate\<close>

definition s07_policy_version :: string where
  "s07_policy_version = ''s07-report-v1''"

definition get_report_parts :: "state \<Rightarrow> (chronology_entry list \<times> outcome_entry list \<times> evidence_summary list \<times> source_change \<times> cost_summary \<times> string) result" where
  "get_report_parts st =
     bindR (mapR mk_chronology (case st ''s07_chronology'' of Some (VChronology xs) \<Rightarrow> xs | _ \<Rightarrow> [])) (\<lambda>chronology.
     bindR (mapR mk_outcome (case st ''s07_outcomes'' of Some (VOutcomes xs) \<Rightarrow> xs | _ \<Rightarrow> [])) (\<lambda>outcomes.
     bindR (mapR mk_evidence (case st ''s07_evidence'' of Some (VEvidence xs) \<Rightarrow> xs | _ \<Rightarrow> [])) (\<lambda>evidence.
     bindR (case st ''s07_source_change'' of
              Some (VSourceChange c) \<Rightarrow> if valid_change c then Inr c else Inl (ValidationError ''SourceChangeSummary'')
            | _ \<Rightarrow> Inl (ValidationError ''SourceChangeSummary'')) (\<lambda>change.
     bindR (case st ''s07_cost'' of
              Some (VCost c) \<Rightarrow> if valid_cost c then Inr c else Inl (ValidationError ''CostSummary'')
            | _ \<Rightarrow> Inl (ValidationError ''CostSummary'')) (\<lambda>cost.
     Inr (chronology, outcomes, evidence, change, cost, (case get_str st ''s07_narrative'' of Some s \<Rightarrow> s | None \<Rightarrow> [])))))))"

definition handle_s07_80 :: "'w report_env \<Rightarrow> state \<Rightarrow> 'w node_ports \<Rightarrow> ('w, node_execution) io" where
  "handle_s07_80 e st ports =
     bindI (liftI (active_phase_id st)) (\<lambda>phase.
     bindI (liftI (require_phase_ref st ''S06.80'' ''Decision'')) (\<lambda>decision_ref.
     bindI (liftI (get_report_parts st)) (\<lambda>(chronology, outcomes, evidence, change, cost, narrative).
     bindI (liftI (required_state_str st ''case_id'')) (\<lambda>cid.
     bindI (liftI (required_state_str st ''tenant_id'')) (\<lambda>tenant.
     let facts = \<lparr>or_outcome = KEEP, or_phase = phase, or_decision = ref_digest decision_ref, or_chronology = chronology, or_outcomes = outcomes,
           or_evidence = evidence, or_change = change, or_cost = cost, or_narrative = narrative, or_json = [], or_markdown = [],
           or_policy = s07_policy_version\<rparr>;
         json = ReportJson cid facts; markdown = Document (rp_markdown e cid facts) in
     bindI (rp_put_blob e tenant json (rp_sha e json) ''application/json'') (\<lambda>json_ref.
     bindI (rp_put_blob e tenant markdown (rp_sha e markdown) ''text/markdown'') (\<lambda>markdown_ref. (\<lambda>w.
     let report = facts\<lparr>or_json := ref_digest json_ref, or_markdown := ref_digest markdown_ref\<rparr> in
     bindI (liftI (bindR (stage_envelope st (s07_stage ''S07.80'' phase 0) ''OptimizationReport'' [] (BReport report) (rp_clock e w))
              (\<lambda>env. if valid_report report then Inr env else Inl (ValidationError ''OptimizationReport'')))) (\<lambda>env.
     bindI (s06_put_envelope (rp_sha e) ports st env ''S07.80'') (\<lambda>ref.
     retI (cont [(''artifact_refs'', VRefs [ref])]))) w))))))))"

definition report_complete :: "optimization_request \<Rightarrow> int \<Rightarrow> optimization_report \<Rightarrow> bool" where
  "report_complete r n report \<longleftrightarrow>
     set (map cr_id (req_criteria r)) \<subseteq> set (map oe_subject (or_outcomes report)) \<and>
     set (passes_below n) \<subseteq> set (map oe_pass (filter (\<lambda>o'. oe_category o' = Repaired) (or_outcomes report)))"

definition handle_s07_90 :: "state \<Rightarrow> 'w node_ports \<Rightarrow> ('w, node_execution) io" where
  "handle_s07_90 st ports =
     bindI (read_request ports st) (\<lambda>r.
     bindI (liftI (active_phase_id st)) (\<lambda>phase.
     bindI (liftI (require_stage_ref st (s07_stage ''S07.80'' phase 0) ''OptimizationReport'')) (\<lambda>ref.
     bindI (read_model ports st ref decode_report) (\<lambda>report.
     retI \<lparr>ex_route = (if report_complete r (pass_number st) report then CONTINUE else REJECTED), ex_updates = []\<rparr>))))"

section \<open>What the report shows\<close>

lemma mapR_checked:
  assumes "mapR mk xs = Inr ys" and "\<And>x y. mk x = Inr y \<Longrightarrow> y = x"
  shows "ys = xs"
  using assms(1)
proof (induction xs arbitrary: ys)
  case (Cons x xs)
  then show ?case using assms(2) by (auto simp: bindR_Inr_iff)
qed simp

lemma passes_numbers:
  assumes "reconstruct_passes ports st phase w = (Inr passes, w')"
  shows "map ps_number passes = passes_below (pass_number st + 1)"
proof -
  have "list_all2 (\<lambda>n p. ps_number p = n) (passes_below (pass_number st + 1)) passes"
    using for_each_Inr[OF assms[unfolded reconstruct_passes_def]]
    by (rule list_all2_mono) (auto simp: reconstruct_pass_def elim!: bindI_result_Inr)
  then show ?thesis by (simp add: list_all2_conv_all_nth list_eq_iff_nth_eq)
qed

lemma passes_below_Suc: "0 \<le> n \<Longrightarrow> passes_below (n + 1) = passes_below n @ [n]"
  by (simp add: passes_below_def nat_add_distrib)

lemma handle_s07_30_result:
  assumes "handle_s07_30 st ports w = (Inr ex, w')" and "0 \<le> pass_number st"
  obtains r phase passes d w1 w2 where "read_request ports st w = (Inr r, w1)" and "active_phase_id st = Inr phase"
    and "reconstruct_passes ports st phase w1 = (Inr passes, w2)" and "passes \<noteq> []" and "ps_decision (last passes) = Some d" and "de_outcome d = KEEP"
    and "map ps_number (butlast passes) = passes_below (pass_number st)"
    and "ex = \<lparr>ex_route = CONTINUE, ex_updates = [(''s07_outcomes'', VOutcomes
      (map (repaired_entry phase) (butlast passes) @ map (criterion_entry d (pass_number st)) (req_criteria r)))]\<rparr>"
proof -
  from assms(1) obtain r phase passes w1 w2 where p: "read_request ports st w = (Inr r, w1)" "active_phase_id st = Inr phase"
    "reconstruct_passes ports st phase w1 = (Inr passes, w2)" "passes \<noteq> []"
    and rest: "(case ps_decision (last passes) of
         None \<Rightarrow> failI AssertionError
       | Some d \<Rightarrow>
           if de_outcome d \<noteq> KEEP then failI AssertionError
           else bindI (liftI (mapR mk_outcome (map (repaired_entry phase) (butlast passes) @
                    map (criterion_entry d (ps_number (last passes))) (req_criteria r)))) (\<lambda>entries.
             retI (cont [(''s07_outcomes'', VOutcomes entries)]))) w2 = (Inr ex, w')"
    unfolding handle_s07_30_def by (auto split: if_splits elim!: bindI_result_Inr)
  from rest obtain d entries where d: "ps_decision (last passes) = Some d" "de_outcome d = KEEP"
    and m: "mapR mk_outcome (map (repaired_entry phase) (butlast passes) @ map (criterion_entry d (ps_number (last passes))) (req_criteria r)) = Inr entries"
    and ex: "ex = cont [(''s07_outcomes'', VOutcomes entries)]"
    by (auto split: option.splits if_splits elim!: bindI_result_Inr)
  have "map ps_number (butlast passes) @ [ps_number (last passes)] = passes_below (pass_number st) @ [pass_number st]"
    using passes_numbers[OF p(3)] passes_below_Suc[OF assms(2)] p(4) by (metis append_butlast_last_id list.simps(8,9) map_append)
  then have n: "map ps_number (butlast passes) = passes_below (pass_number st)" "ps_number (last passes) = pass_number st" by simp_all
  have "entries = map (repaired_entry phase) (butlast passes) @ map (criterion_entry d (ps_number (last passes))) (req_criteria r)"
    by (rule mapR_checked[OF m]) (simp add: mk_outcome_def split: if_splits)
  with ex n that[OF p d] show thesis by (simp add: cont_def)
qed


text \<open>The report counts repairs a phase never had: the pass counter is shared by all phases of a case, and S07.30 looks
  for every pass number below it under the final phase. A phase that was first implemented in pass \<open>n\<close> (no verification
  and no decision of it is sealed for an earlier pass) is reported as repaired \<open>n\<close> times.\<close>

theorem phantom_repairs:
  assumes "handle_s07_30 st ports w = (Inr ex, w')" and "0 \<le> pass_number st" and "active_phase_id st = Inr phase"
    and "\<And>n. 0 \<le> n \<Longrightarrow> n < pass_number st \<Longrightarrow> try_stage_ref st (s07_stage ''S04.90'' phase n) ''VerificationReport'' = Inr None"
    and "\<And>n. 0 \<le> n \<Longrightarrow> n < pass_number st \<Longrightarrow> try_stage_ref st (s07_stage ''S06.80'' phase n) ''Decision'' = Inr None"
  shows "\<exists>os. map_of (ex_updates ex) ''s07_outcomes'' = Some (VOutcomes os) \<and>
    filter (\<lambda>x. oe_category x = Repaired) os = map (\<lambda>n. \<lparr>oe_category = Repaired, oe_subject = phase,
      oe_detail = ''pass ended without a sealed decision'', oe_pass = n\<rparr>) (passes_below (pass_number st))"
proof -
  obtain r phase' passes d w1 w2 where "read_request ports st w = (Inr r, w1)" and ph: "active_phase_id st = Inr phase'"
    and p': "reconstruct_passes ports st phase' w1 = (Inr passes, w2)" and "passes \<noteq> []" and "ps_decision (last passes) = Some d" and "de_outcome d = KEEP"
    and n: "map ps_number (butlast passes) = passes_below (pass_number st)"
    and ex': "ex = \<lparr>ex_route = CONTINUE, ex_updates = [(''s07_outcomes'', VOutcomes
      (map (repaired_entry phase') (butlast passes) @ map (criterion_entry d (pass_number st)) (req_criteria r)))]\<rparr>"
    by (rule handle_s07_30_result[OF assms(1,2)]) (rule that)
  from ph have "phase' = phase" using assms(3) by simp
  note p = p'[unfolded this] and ex = ex'[unfolded this]
  have gone: "pass_detail q = ''pass ended without a sealed decision''" if q: "q \<in> set (butlast passes)" for q
  proof -
    from q have m: "ps_number q \<in> set (passes_below (pass_number st))" by (metis n imageI list.set_map)
    then have range: "0 \<le> ps_number q" "ps_number q < pass_number st" by (auto simp: passes_below_def)
    from q have "q \<in> set passes" by (rule in_set_butlastD)
    with for_each_Inr[OF p[unfolded reconstruct_passes_def]] obtain k v v' where "reconstruct_pass ports st phase k v = (Inr q, v')"
      by (auto simp: list_all2_conv_all_nth in_set_conv_nth)
    moreover from this have "k = ps_number q" by (auto simp: reconstruct_pass_def elim!: bindI_result_Inr)
    ultimately have "ps_verification q = None \<and> ps_decision q = None"
      using assms(4,5)[OF range] by (cases q) (auto simp: reconstruct_pass_def read_if_sealed_def bindI_def)
    then show ?thesis by (simp add: pass_detail_def)
  qed
  have "filter (\<lambda>x. oe_category x = Repaired) (map (repaired_entry phase) (butlast passes) @ map (criterion_entry d (pass_number st)) (req_criteria r)) =
      map (repaired_entry phase) (butlast passes)"
    by (auto simp: repaired_entry_def criterion_entry_def Let_def filter_map o_def)
  also have "\<dots> = map (\<lambda>n. \<lparr>oe_category = Repaired, oe_subject = phase,
      oe_detail = ''pass ended without a sealed decision'', oe_pass = n\<rparr>) (map ps_number (butlast passes))"
    using gone by (simp add: repaired_entry_def)
  finally show ?thesis using ex n by simp
qed

text \<open>A case kept in its second pass, the first of its phase: the decision of pass 1 and the report are sealed.\<close>

definition demo_kept :: decision where
  "demo_kept = \<lparr>de_phase = ''p1'', de_measurement = rep_digest CHR ''a'', de_verification = rep_digest CHR ''a'',
     de_targets = [\<lparr>tv_criterion = ''unit'', tv_metric = ''unit_command_result'', tv_direction = Minimize, tv_target = 0, tv_value = Some 0, tv_met = True\<rparr>],
     de_guardrails = [], de_attribution = \<lparr>at_phase = ''p1'', at_class = AllTargetsMet, at_rationale = ''r''\<rparr>, de_outcome = KEEP,
     de_rationale = ''r'', de_rollback = None\<rparr>"

definition demo_outcomes :: "outcome_entry list" where
  "demo_outcomes = [\<lparr>oe_category = Repaired, oe_subject = ''p1'', oe_detail = ''pass ended without a sealed decision'', oe_pass = 0\<rparr>,
     \<lparr>oe_category = Completed, oe_subject = ''unit'', oe_detail = ''unit met its target'', oe_pass = 1\<rparr>]"

definition demo_report :: optimization_report where
  "demo_report = \<lparr>or_outcome = KEEP, or_phase = ''p1'', or_decision = rep_digest CHR ''a'',
     or_chronology = [\<lparr>ch_node = ''__phase__'', ch_route = ''repaired 1 time(s)'', ch_pass = 1\<rparr>], or_outcomes = demo_outcomes,
     or_evidence = [\<lparr>ev_criterion = ''unit'', ev_metric = ''unit_command_result'', ev_baseline_mean = 1, ev_treatment_mean = 0, ev_absolute = -1,
       ev_relative = None, ev_comparable = True, ev_met = True\<rparr>],
     or_change = \<lparr>sc_phase = ''p1'', sc_base = ''abc'', sc_files = [''a.py''], sc_patch = rep_digest CHR ''a'', sc_rollback = None, sc_executed = False,
       sc_applied = False, sc_branch = None, sc_commit = None, sc_failure = None\<rparr>,
     or_cost = \<lparr>cs_input = 0, cs_output = 0, cs_repairs = 1\<rparr>, or_narrative = ''Case kept.'', or_json = rep_digest CHR ''a'',
     or_markdown = rep_digest CHR ''a'', or_policy = s07_policy_version\<rparr>"

definition demo_s07 :: state where
  "demo_s07 = (demo_s06 KEEP)(''s03_revision_attempts'' \<mapsto> VInt 1,
     ''artifact_refs'' \<mapsto> VRefs [demo_ref ''OptimizationRequest'' ''q'', demo_ref ''Decision'' ''c-S06.80-p1-pass1-Decision'',
       demo_ref ''OptimizationReport'' ''c-S07.80-p1-pass0-OptimizationReport''])"

definition s07_ports :: "world node_ports" where
  "s07_ports = (demo_ports None)\<lparr>np_read := \<lambda>_ r.
     if ref_type r = ''OptimizationRequest'' then retI (demo_env ''OptimizationRequest'' (BRequest (demo_request5 1)))
     else if ref_type r = ''Decision'' then retI (demo_env ''Decision'' (BDecision demo_kept))
     else retI (demo_env ''OptimizationReport'' (BReport demo_report))\<rparr>"

lemma demo_s07_sel [simp]:
  "required_state_str demo_s07 ''case_id'' = Inr ''c''" "required_state_str demo_s07 ''tenant_id'' = Inr ''t''"
  "active_phase_id demo_s07 = Inr ''p1''" "pass_number demo_s07 = 1"
  "get_refs demo_s07 ''artifact_refs'' = [demo_ref ''OptimizationRequest'' ''q'', demo_ref ''Decision'' ''c-S06.80-p1-pass1-Decision'',
     demo_ref ''OptimizationReport'' ''c-S07.80-p1-pass0-OptimizationReport'']"
  by (simp_all add: demo_s07_def demo_s06_def required_state_str_def get_str_def active_phase_id_def pass_number_def get_int_def get_refs_def)

lemma str_int_1: "str_int 1 = ''1''"
  by (simp add: str_int_def str_nat.simps[of "Suc 0"] digit_def)

lemma demo_s07_refs [simp]:
  "try_stage_ref demo_s07 (s07_stage ''S04.90'' ''p1'' 0) ''VerificationReport'' = Inr None"
  "try_stage_ref demo_s07 (s07_stage ''S06.80'' ''p1'' 0) ''Decision'' = Inr None"
  "try_stage_ref demo_s07 (s07_stage ''S04.90'' ''p1'' 1) ''VerificationReport'' = Inr None"
  "try_stage_ref demo_s07 (s07_stage ''S06.80'' ''p1'' 1) ''Decision'' = Inr (Some (demo_ref ''Decision'' ''c-S06.80-p1-pass1-Decision''))"
  "require_stage_ref demo_s07 (s07_stage ''S07.80'' ''p1'' 0) ''OptimizationReport'' =
     Inr (demo_ref ''OptimizationReport'' ''c-S07.80-p1-pass0-OptimizationReport'')"
  "require_ref demo_s07 ''OptimizationRequest'' = Inr (demo_ref ''OptimizationRequest'' ''q'')"
  by (simp_all add: try_stage_ref_def s07_stage_def stage_artifact_id_def str_int_1 require_stage_ref_def require_ref_def try_ref_def demo_ref_def)

lemma demo_report_valid: "valid_report demo_report"
  by (simp add: valid_report_def demo_report_def demo_digest_valid demo_outcomes_def valid_chronology_def valid_outcome_def valid_evidence_def
      valid_change_def valid_cost_def s07_policy_version_def)

lemma demo_s07_reads [simp]:
  "read_request s07_ports demo_s07 w = (Inr (demo_request5 1), w)"
  "read_model s07_ports demo_s07 (demo_ref ''Decision'' i) decode_decision w = (Inr demo_kept, w)"
  "read_model s07_ports demo_s07 (demo_ref ''OptimizationReport'' i) decode_report w = (Inr demo_report, w)"
  by (simp_all add: read_request_def read_model_def s07_ports_def demo_env_def decode_request_def decode_decision_def decode_report_def demo_report_valid
      demo_kept_def valid_decision_def demo_digest_valid demo_request5_def demo_criterion_def demo_request_def valid_request_def valid_contract_defs
      valid_workload_def)

lemma demo_s07_report:
  "read_model s07_ports demo_s07 ref decode_report u = (Inr report, u') \<Longrightarrow> report = demo_report"
  by (auto simp: read_model_def s07_ports_def demo_env_def decode_report_def demo_report_valid split: if_splits)

lemma demo_s07_30:
  "handle_s07_30 demo_s07 s07_ports demo_world = (Inr \<lparr>ex_route = CONTINUE, ex_updates = [(''s07_outcomes'', VOutcomes demo_outcomes)]\<rparr>, demo_world)"
proof -
  have "passes_below (pass_number demo_s07 + 1) = [0, 1]" by (simp add: passes_below_def upt_rec)
  then have "reconstruct_passes s07_ports demo_s07 ''p1'' demo_world =
      (Inr [\<lparr>ps_number = 0, ps_verification = None, ps_decision = None\<rparr>, \<lparr>ps_number = 1, ps_verification = None, ps_decision = Some demo_kept\<rparr>], demo_world)"
    unfolding reconstruct_passes_def by (simp add: reconstruct_pass_def read_if_sealed_def bindI_def)
  moreover have "de_outcome demo_kept = KEEP" "target_met_in demo_kept ''unit''"
    by (simp_all add: demo_kept_def target_met_in_def py_dict_def dict_get_def)
  ultimately show ?thesis
    by (simp add: handle_s07_30_def bindI_def repaired_entry_def pass_detail_def criterion_entry_def demo_criterion_def mk_outcome_def valid_outcome_def
        demo_outcomes_def cont_def)
qed

lemma demo_s07_90: "\<exists>ex. handle_s07_90 demo_s07 s07_ports demo_world = (Inr ex, demo_world)"
  by (simp add: handle_s07_90_def bindI_def)


theorem phantom_repairs_witness:
  "filter (\<lambda>x. oe_category x = Repaired) demo_outcomes =
     [\<lparr>oe_category = Repaired, oe_subject = ''p1'', oe_detail = ''pass ended without a sealed decision'', oe_pass = 0\<rparr>] \<and> active_phase_id demo_s07 = Inr ''p1''"
proof -
  have z: "n = 0" if "0 \<le> n" "n < pass_number demo_s07" for n using that by simp
  have n: "try_stage_ref demo_s07 (s07_stage ''S04.90'' ''p1'' n) ''VerificationReport'' = Inr None"
    "try_stage_ref demo_s07 (s07_stage ''S06.80'' ''p1'' n) ''Decision'' = Inr None"
    if "0 \<le> n" "n < pass_number demo_s07" for n using z[OF that] by simp_all
  have "0 \<le> pass_number demo_s07" by simp
  from phantom_repairs[OF demo_s07_30 this demo_s07_sel(3) n] show ?thesis by (auto simp: passes_below_def)
qed

end
