(* ===== verification/Registry.thy ===== *)
theory Registry
  imports Contracts
begin

text \<open>
  The versioned registry (\<open>application/registry.py\<close>) over tenant-scoped registry records
  (\<open>contracts/registries.py\<close>). The registry's dictionary is the list of its values in insertion
  order, the key of each being computed from the record.
\<close>

datatype registry_kind = REPOSITORY | FEATURE | OWNER | METRIC | WORKLOAD | QUERY | COLLECTOR
  | ANALYZER | POLICY | MODEL_PROVIDER

datatype data_classification = PUBLIC | INTERNAL | CONFIDENTIAL | RESTRICTED

record registry_record =
  reg_kind :: registry_kind
  reg_id :: string
  reg_version :: int
  reg_tenant :: string
  reg_enabled :: bool
  reg_from :: datetime
  reg_until :: "datetime option"
  reg_payload :: "string dict"
  reg_class :: data_classification

definition valid_registry_record :: "registry_record \<Rightarrow> bool" where
  "valid_registry_record r \<longleftrightarrow> len_in 1 200 (reg_id r) \<and> 1 \<le> reg_version r \<and> len_in 1 100 (reg_tenant r) \<and>
     tz_aware (reg_from r) \<and>
     (case reg_until r of None \<Rightarrow> True
      | Some u \<Rightarrow> tz_aware u \<and> instant (reg_from r) < instant u)"

record registry_snapshot =
  snap_records :: "registry_record list"
  snap_at :: datetime

definition valid_registry_snapshot :: "registry_snapshot \<Rightarrow> bool" where
  "valid_registry_snapshot s \<longleftrightarrow> list_all valid_registry_record (snap_records s) \<and>
     distinct (map (\<lambda>r. (reg_kind r, reg_id r, reg_version r)) (snap_records s)) \<and> tz_aware (snap_at s)"

type_synonym versioned_registry = "registry_record list"

definition registry_key :: "registry_record \<Rightarrow> string \<times> registry_kind \<times> string \<times> int" where
  "registry_key r = (reg_tenant r, reg_kind r, reg_id r, reg_version r)"

definition index_record :: "versioned_registry \<Rightarrow> registry_record \<Rightarrow> versioned_registry result" where
  "index_record indexed r =
     (if registry_key r \<in> registry_key ` set indexed then Inl RegistryConflictError
      else Inr (indexed @ [r]))"

definition mk_registry :: "registry_record list \<Rightarrow> versioned_registry result" where
  "mk_registry records = foldR index_record [] records"

definition registry_active :: "string \<Rightarrow> registry_kind \<Rightarrow> string \<Rightarrow> datetime \<Rightarrow> int option \<Rightarrow>
    registry_record \<Rightarrow> bool" where
  "registry_active tenant kind rid tm version r \<longleftrightarrow> reg_tenant r = tenant \<and> reg_kind r = kind \<and>
     reg_id r = rid \<and> reg_enabled r \<and> instant (reg_from r) \<le> instant tm \<and>
     (case reg_until r of None \<Rightarrow> True | Some u \<Rightarrow> instant tm < instant u) \<and>
     (case version of None \<Rightarrow> True | Some v \<Rightarrow> reg_version r = v)"

definition registry_resolve :: "versioned_registry \<Rightarrow> string \<Rightarrow> registry_kind \<Rightarrow> string \<Rightarrow> datetime \<Rightarrow>
    int option \<Rightarrow> registry_record result" where
  "registry_resolve reg tenant kind rid tm version =
     (if \<not> tz_aware tm then Inl (ValueError ''registry resolution time must be timezone-aware'')
      else case max_by reg_version (filter (registry_active tenant kind rid tm version) reg) of
          None \<Rightarrow> Inl RegistryNotFoundError
        | Some r \<Rightarrow> Inr r)"

section \<open>Facts\<close>

lemma foldR_index_record:
  "distinct (map registry_key acc) \<Longrightarrow>
   foldR index_record acc rs =
     (if distinct (map registry_key (acc @ rs)) then Inr (acc @ rs) else Inl RegistryConflictError)"
proof (induction rs arbitrary: acc)
  case (Cons r rs)
  then show ?case
    by (cases "registry_key r \<in> registry_key ` set acc") (auto simp: index_record_def)
qed simp

lemma mk_registry_eq:
  "mk_registry rs = (if distinct (map registry_key rs) then Inr rs else Inl RegistryConflictError)"
  by (simp add: mk_registry_def foldR_index_record)

lemma active_same_version:
  assumes "distinct (map registry_key rs)" and "r \<in> set rs" and "r' \<in> set rs"
    and "registry_active t k i tm v r" and "registry_active t k i tm v r'" and "reg_version r' = reg_version r"
  shows "r' = r"
proof -
  have "registry_key r' = registry_key r" using assms(4-6) by (simp add: registry_active_def registry_key_def)
  with assms(1-3) show ?thesis by (metis distinct_map inj_onD)
qed

lemma registry_resolve_Inr:
  assumes "distinct (map registry_key rs)"
  shows "registry_resolve rs t k i tm v = Inr r \<longleftrightarrow> tz_aware tm \<and> r \<in> set rs \<and> registry_active t k i tm v r \<and>
     (\<forall>r' \<in> set rs. registry_active t k i tm v r' \<longrightarrow> reg_version r' \<le> reg_version r)"
proof
  assume "registry_resolve rs t k i tm v = Inr r"
  then show "tz_aware tm \<and> r \<in> set rs \<and> registry_active t k i tm v r \<and>
     (\<forall>r' \<in> set rs. registry_active t k i tm v r' \<longrightarrow> reg_version r' \<le> reg_version r)"
    by (auto simp: registry_resolve_def split: if_splits option.splits dest: max_by_Some)
next
  assume a: "tz_aware tm \<and> r \<in> set rs \<and> registry_active t k i tm v r \<and>
     (\<forall>r' \<in> set rs. registry_active t k i tm v r' \<longrightarrow> reg_version r' \<le> reg_version r)"
  then have "filter (registry_active t k i tm v) rs \<noteq> []" by (auto simp: filter_empty_conv)
  then obtain m where m: "max_by reg_version (filter (registry_active t k i tm v) rs) = Some m"
    by (metis max_by_None not_Some_eq)
  from max_by_Some[OF m] a have "m \<in> set rs" "registry_active t k i tm v m" "reg_version r = reg_version m"
    by (auto intro: antisym)
  with a have "r = m" using active_same_version[OF assms] by metis
  with a m show "registry_resolve rs t k i tm v = Inr r" by (simp add: registry_resolve_def)
qed

section \<open>Properties\<close>

text \<open>Building a registry raises exactly on a duplicate record version, and resolving returns
  the record with the highest version among the tenant's enabled records of that kind and id
  valid at the given time (and of the requested version), or raises when there is none or the
  time carries no zone. The order in which records were registered does not matter.\<close>

theorem registry_resolve_correct:
  "(case mk_registry rs of
      Inl e \<Rightarrow> e = RegistryConflictError \<and> \<not> distinct (map registry_key rs)
    | Inr reg \<Rightarrow> distinct (map registry_key rs) \<and>
        (case registry_resolve reg t k i tm v of
           Inl e \<Rightarrow> if tz_aware tm
                    then e = RegistryNotFoundError \<and> \<not> (\<exists>r. r \<in> set rs \<and> registry_active t k i tm v r)
                    else e = ValueError ''registry resolution time must be timezone-aware''
         | Inr r \<Rightarrow> tz_aware tm \<and> r \<in> set rs \<and> registry_active t k i tm v r \<and>
             reg_version r = Max (reg_version ` {r'. r' \<in> set rs \<and> registry_active t k i tm v r'})) \<and>
        (\<forall>rs'. mset rs' = mset rs \<longrightarrow>
           bindR (mk_registry rs') (\<lambda>reg'. registry_resolve reg' t k i tm v) =
           registry_resolve reg t k i tm v))"
proof (cases "distinct (map registry_key rs)")
  case False
  then show ?thesis by (simp add: mk_registry_eq)
next
  case True
  have res: "case registry_resolve rs t k i tm v of
           Inl e \<Rightarrow> if tz_aware tm
                    then e = RegistryNotFoundError \<and> \<not> (\<exists>r. r \<in> set rs \<and> registry_active t k i tm v r)
                    else e = ValueError ''registry resolution time must be timezone-aware''
         | Inr r \<Rightarrow> tz_aware tm \<and> r \<in> set rs \<and> registry_active t k i tm v r \<and>
             reg_version r = Max (reg_version ` {r'. r' \<in> set rs \<and> registry_active t k i tm v r'})"
  proof (cases "registry_resolve rs t k i tm v")
    case (Inl e)
    then show ?thesis
      by (auto simp: registry_resolve_def filter_empty_conv split: option.splits if_splits)
  next
    case (Inr r)
    note r = Inr[unfolded registry_resolve_Inr[OF True]]
    have "Max (reg_version ` {r'. r' \<in> set rs \<and> registry_active t k i tm v r'}) = reg_version r"
      by (rule Max_eqI) (use r in auto)
    with r Inr show ?thesis by simp
  qed
  have perm: "registry_resolve rs' t k i tm v = registry_resolve rs t k i tm v \<and>
      distinct (map registry_key rs')" if m: "mset rs' = mset rs" for rs'
  proof -
    have d: "distinct (map registry_key rs')"
      using True m by (metis mset_map distinct_count_atmost_1 set_mset_mset)
    have s: "set rs' = set rs" using m by (metis set_mset_mset)
    have "registry_resolve rs' t k i tm v = Inr r \<longleftrightarrow> registry_resolve rs t k i tm v = Inr r" for r
      by (simp add: registry_resolve_Inr[OF d] registry_resolve_Inr[OF True] s)
    moreover have "registry_resolve rs' t k i tm v = Inl e \<longleftrightarrow> registry_resolve rs t k i tm v = Inl e" for e
      using s by (auto simp: registry_resolve_def filter_empty_conv split: option.splits)
    ultimately show ?thesis using d by (metis sum.exhaust)
  qed
  have build: "mk_registry xs = Inr xs" if "distinct (map registry_key xs)" for xs
    using that by (simp add: mk_registry_eq)
  have "bindR (mk_registry rs') (\<lambda>reg'. registry_resolve reg' t k i tm v) = registry_resolve rs t k i tm v"
    if "mset rs' = mset rs" for rs'
    using perm[OF that] by (simp only: build bindR_simps)
  with True res show ?thesis unfolding build[OF True] sum.case by (intro conjI allI impI)
qed

theorem registry_resolve_correct_witness:
  "let r = \<lparr>reg_kind = METRIC, reg_id = ''m'', reg_version = 1, reg_tenant = ''t'', reg_enabled = True,
         reg_from = Aware 0, reg_until = Some (Aware 10), reg_payload = [], reg_class = INTERNAL\<rparr>;
       r2 = r\<lparr>reg_version := 2\<rparr>
   in bindR (mk_registry [r2, r]) (\<lambda>reg. registry_resolve reg ''t'' METRIC ''m'' (Aware 5) None) = Inr r2"
proof -
  let ?r = "\<lparr>reg_kind = METRIC, reg_id = ''m'', reg_version = 1, reg_tenant = ''t'', reg_enabled = True,
         reg_from = Aware 0, reg_until = Some (Aware 10), reg_payload = [], reg_class = INTERNAL\<rparr>"
  let ?r2 = "?r\<lparr>reg_version := 2\<rparr>"
  have m: "mset [?r2, ?r] = mset [?r, ?r2]" by simp
  have b: "mk_registry [?r, ?r2] = Inr [?r, ?r2]" by (simp add: mk_registry_eq registry_key_def)
  have e: "registry_resolve [?r, ?r2] ''t'' METRIC ''m'' (Aware 5) None = Inr ?r2"
    by (simp add: registry_resolve_def registry_active_def)
  from registry_resolve_correct[where rs = "[?r, ?r2]" and t = "''t''" and k = METRIC and i = "''m''" and
      tm = "Aware 5" and v = None] m
  have "bindR (mk_registry [?r2, ?r]) (\<lambda>reg. registry_resolve reg ''t'' METRIC ''m'' (Aware 5) None) =
      registry_resolve [?r, ?r2] ''t'' METRIC ''m'' (Aware 5) None"
    unfolding b sum.case by blast
  then show ?thesis unfolding Let_def e .
qed

end
