(* ===== verification/Spec2Isabelle.thy ===== *)
theory Spec2Isabelle
  imports Analysis_Loop Convergence Intake Policy_Port Report Registry
begin

text \<open>
  Verification of the production optimizer, a workflow system that takes an optimization request for
  a code base through intake (A1), evidence collection (A2), analysis (A3), automatic discovery (B1,
  B2), convergence (C0) and a shared workflow (S01 to S07) that selects a strategy, plans, implements,
  verifies, measures, decides and reports. All paths below are under
  \<open>src/src/production_optimizer/\<close>.

  \<^bold>\<open>How the program works.\<close> A graph of business nodes is declared in \<open>orchestration/\<close>. Each node runs
  through \<open>NodeRuntime.execute\<close> (\<open>application/node_runtime.py\<close>): the runtime derives an idempotency
  key, replays a completed intent from the intent ledger and the artifact store, or records an
  intent, calls the node's handler, checks its result against the node contract, stores it, completes
  the intent and commits state updates. The reducers of \<open>contracts/state.py\<close> merge the updates.
  Conditional edges read the committed routes. A node that needs a person halts with an interrupt;
  \<open>application/resume.py\<close> checks the answer and re-enters the graph.

  \<^bold>\<open>Theories, in import order.\<close>
  \<^item> \<open>Prelude\<close>: exceptions as values, results, world-passing computations with their program logic,
    dictionaries as association lists, printing of numbers, generic lemmas.
  \<^item> \<open>Contracts\<close>: the data of \<open>contracts/*.py\<close> as records and datatypes, with the validators as
    boolean predicates (\<open>valid_*\<close>).
  \<^item> \<open>State\<close>: \<open>OptimizationState\<close> as a map from field names to values, the reducers, and the coercion
    of replayed updates.
  \<^item> \<open>Control_Plane\<close>: the case repository, intent ledger and outbox over Postgres rows; locale
    \<open>intent_ledger\<close> is the contract the runtime relies on.
  \<^item> \<open>Artifact_Store\<close>: the S3 adapter; locale \<open>json_store\<close>.
  \<^item> \<open>Node_Runtime\<close>: keys, routes, execution; locale \<open>node_platform\<close> joins ledger, store and telemetry
    and is interpreted on the modelled adapters.
  \<^item> \<open>Resume\<close>: authorization of an answer and re-entry.
  \<^item> \<open>Registry\<close>: the versioned registry.
  \<^item> \<open>Rank_Select\<close>: stage S01; \<open>Policy_Decision\<close>: stage S06 with locale \<open>logged_tools\<close> for the git calls.
  \<^item> \<open>Planning\<close>: stage S02 (\<open>s02_handlers/\<close>): drafting, repair of paths, coverage of the criteria, the
    critique, the cycle check and the deterministic gate that seals the plan.
  \<^item> \<open>Worker\<close>: the local worker broker, the command runner, the S04 capability and the bounded wait for a
    result; locale \<open>advancing_timer\<close>.
  \<^item> \<open>Verification\<close>: stage S04 (\<open>s04_handlers.py\<close>): the checks, their attribution, the gate and the report.
  \<^item> \<open>Implementation\<close>: stage S03 (\<open>s03_handlers.py\<close>, \<open>s03_agent_loop.py\<close>): the phase, its workspace, the two
    executors, the scope and sanitation checks and the sealed patch.
  \<^item> \<open>Remeasurement\<close>: stage S05 (\<open>s05_handlers.py\<close>, \<open>s05_worker_capabilities.py\<close>): the frozen protocol, the isolation
    check, one measurement per criterion, the sample-quality and comparability gates, the effects and the measurement.
  \<^item> \<open>Policy_Port\<close>: the policy adapter (\<open>python_policy.py\<close>, \<open>bootstrap_policies.py\<close>); locale \<open>cautious_policy\<close> is what
    S06.90 needs of a policy and is interpreted on the bootstrap policy.
  \<^item> \<open>Report\<close>: stage S07 (\<open>s07_handlers.py\<close>): the digest chain, the history of the passes, the report and its
    completeness gate.
  \<^item> \<open>Metrics\<close>: metric definitions, aliases and the choice of an aggregate (\<open>application/metrics/\<close>).
  \<^item> \<open>Analysis\<close>: stage A3 up to the sealed findings (\<open>a3_handlers/\<close>, A3.10 to A3.51): intake, the catalogue, signals, the
    analyzers, drafts, citations, the judge and maturity.
  \<^item> \<open>Strategies\<close>: A3.60 to A3.90: the strategies, what assembling them adds and checks, the quality gate, the revision and
    the portfolio.
  \<^item> \<open>Intake\<close>: stage A1 (\<open>a1_handlers/\<close>, A1.10 to A1.95): payload, draft, source, scope, objective, criteria, workload and
    evidence, the quality gate, the approval and the frozen request.
  \<^item> \<open>Convergence\<close>: stage C0 (\<open>c0_handlers/\<close>): origin, schemas, digest links, equivalence, freshness and the decision.
  \<^item> \<open>Catalog\<close>: task ids and node contracts of all stages; \<open>Graphs\<close>: all declared graphs.
  \<^item> \<open>Workflow\<close>: stages as state machines (handler, commit, edge): which loops end, what the gates judge;
    locale \<open>bounded_retries\<close> of the prelude is interpreted on the planning loop.
  \<^item> \<open>Analysis_Loop\<close>: the same for the revision loop of A3, with the second interpretation of \<open>bounded_retries\<close>.

  \<^bold>\<open>Conventions.\<close> Strings are character lists. Python's \<open>float\<close> is an exact rational. A datetime is
  aware or naive with an instant. Every raise is a value of \<open>py_error\<close>; texts keep their wording
  without the values formatted into them. Digests (\<open>sha\<close>) and the clock are parameters. Loops are
  total functions with termination proofs. The one loop that runs on the clock, the wait for a worker, has
  fuel: 601 polls, which the bound of 30 seconds at 0.05 seconds a poll shows to be enough
  (\<open>await_is_bounded\<close>).

  \<^bold>\<open>Not modelled.\<close> The graph engine, databases, object store, git, the file tree, processes
  and language models are external and appear as parameters or as the effect of the statements sent to
  them; so do prompt texts, the Python parser and \<open>difflib\<close>. The handlers of A2, B1 and B2 are not
  modelled beyond their node contracts; nor are the Kubernetes broker, identity, telemetry export, migrations
  and the scripts. Pydantic's stripping of surrounding white space and the rounding of floating-point
  arithmetic are not modelled (\<open>round(x, 4)\<close> is, on exact numbers).
\<close>

end
